(* ===== verification/JsPrelude.thy ===== *)
theory JsPrelude
  imports Complex_Main
begin

text \<open>
  The part of the JavaScript language that the modelled code uses, and the automation every
  other theory shares.

  \<^item> \<open>jsnum\<close> and \<open>js\<close>: numbers (with NaN and the infinities) and dynamic values, truthiness,
    \<open>??\<close>, property reads, \<open>JSON.stringify\<close>'s view of a value.
  \<^item> Strings: \<open>string\<close> is a list of code units below 256; \<open>startsWith\<close>, \<open>includes\<close>, \<open>slice\<close>,
    \<open>split\<close>, decimal printing.
  \<^item> Dictionaries (plain objects used as records of strings, and \<open>Map\<close>s): association lists in
    insertion order, with the contract of their operations as the locale \<open>ordered_dict\<close>.
  \<^item> Asynchronous code: \<open>io\<close>, a computation that reads and changes a world, throws or
    returns, or never settles.
\<close>

named_theorems js_simps \<open>evaluation of the JavaScript value operations\<close>
named_theorems io_simps \<open>evaluation of asynchronous computations\<close>

section \<open>Numbers\<close>

text \<open>
  A JavaScript number is a double. The code compares and adds, never rounds in a way a
  property depends on, so a finite number is a rational; NaN and the infinities are kept, since
  the guards of the code let some of them through.
\<close>

datatype jsnum = Fin rat | NaN | PosInf | NegInf

fun num_lt :: "jsnum \<Rightarrow> jsnum \<Rightarrow> bool" where
  "num_lt (Fin a) (Fin b) = (a < b)"
| "num_lt (Fin a) PosInf = True"
| "num_lt NegInf (Fin b) = True"
| "num_lt NegInf PosInf = True"
| "num_lt _ _ = False"

fun num_le :: "jsnum \<Rightarrow> jsnum \<Rightarrow> bool" where
  "num_le (Fin a) (Fin b) = (a \<le> b)"
| "num_le (Fin a) PosInf = True"
| "num_le PosInf PosInf = True"
| "num_le NegInf NaN = False"
| "num_le NegInf _ = True"
| "num_le _ _ = False"

text \<open>Strict equality on numbers: NaN differs from itself.\<close>

fun num_eq :: "jsnum \<Rightarrow> jsnum \<Rightarrow> bool" where
  "num_eq (Fin a) (Fin b) = (a = b)"
| "num_eq PosInf PosInf = True"
| "num_eq NegInf NegInf = True"
| "num_eq _ _ = False"

abbreviation num_of_nat :: "nat \<Rightarrow> jsnum" where
  "num_of_nat n \<equiv> Fin (of_nat n)"

lemma num_le_iff: "num_le a b \<longleftrightarrow> num_lt a b \<or> num_eq a b"
  by (cases a; cases b) auto

section \<open>Values\<close>

text \<open>
  \<open>JErr name message\<close> is a native \<open>Error\<close> object. Functions do not occur as data in the
  modelled code: callbacks are arguments of the definitions that take them.
\<close>

datatype js =
    JUndef
  | JNull
  | JBool bool
  | JNum jsnum
  | JStr string
  | JArr "js list"
  | JObj "(string \<times> js) list"
  | JErr string string

definition nullish :: "js \<Rightarrow> bool" where
  "nullish v \<longleftrightarrow> v = JUndef \<or> v = JNull"

text \<open>\<open>a ?? b\<close>\<close>

definition coalesce :: "js \<Rightarrow> js \<Rightarrow> js" where
  "coalesce a b = (if nullish a then b else a)"

fun truthy :: "js \<Rightarrow> bool" where
  "truthy JUndef = False"
| "truthy JNull = False"
| "truthy (JBool b) = b"
| "truthy (JNum n) = (n \<noteq> Fin 0 \<and> n \<noteq> NaN)"
| "truthy (JStr s) = (s \<noteq> [])"
| "truthy (JArr _) = True"
| "truthy (JObj _) = True"
| "truthy (JErr _ _) = True"

text \<open>\<open>a || b\<close>\<close>

definition js_or :: "js \<Rightarrow> js \<Rightarrow> js" where
  "js_or a b = (if truthy a then a else b)"

fun is_string :: "js \<Rightarrow> bool" where
  "is_string (JStr _) = True"
| "is_string _ = False"

text \<open>\<open>typeof v === 'object'\<close>, for a value that is not null\<close>

fun is_object :: "js \<Rightarrow> bool" where
  "is_object (JArr _) = True"
| "is_object (JObj _) = True"
| "is_object (JErr _ _) = True"
| "is_object _ = False"

fun js_of_opt :: "('a \<Rightarrow> js) \<Rightarrow> 'a option \<Rightarrow> js" where
  "js_of_opt f None = JUndef"
| "js_of_opt f (Some x) = f x"

text \<open>
  \<open>v?.k\<close>: a property read that gives \<open>undefined\<close> on \<open>undefined\<close> and \<open>null\<close>. A read without
  the question mark throws there (\<open>get_prop\<close> below, with the error of V8).
\<close>

fun jprop :: "string \<Rightarrow> js \<Rightarrow> js" where
  "jprop k (JObj fs) = (case map_of fs k of Some v \<Rightarrow> v | None \<Rightarrow> JUndef)"
| "jprop k (JArr xs) = (if k = ''length'' then JNum (num_of_nat (length xs)) else JUndef)"
| "jprop k (JStr s) = (if k = ''length'' then JNum (num_of_nat (length s)) else JUndef)"
| "jprop k (JErr n m) =
     (if k = ''name'' then JStr n else if k = ''message'' then JStr m else JUndef)"
| "jprop k _ = JUndef"

definition type_error_message :: "string \<Rightarrow> js \<Rightarrow> string" where
  "type_error_message k v =
     ''Cannot read properties of '' @ (if v = JNull then ''null'' else ''undefined'')
     @ '' (reading '' @ [CHR 0x27] @ k @ [CHR 0x27] @ '')''"

definition get_prop :: "string \<Rightarrow> js \<Rightarrow> string + js" where
  "get_prop k v = (if nullish v then Inl (type_error_message k v) else Inr (jprop k v))"

text \<open>A chain \<open>a ?? b ?? c\<close> of properties of one object.\<close>

fun first_prop :: "string list \<Rightarrow> js \<Rightarrow> js" where
  "first_prop [] v = JUndef"
| "first_prop [k] v = jprop k v"
| "first_prop (k # ks) v = coalesce (jprop k v) (first_prop ks v)"

text \<open>
  What \<open>JSON.stringify\<close> writes: fields that hold \<open>undefined\<close> are dropped, \<open>undefined\<close> in an
  array and numbers that are not finite become \<open>null\<close>, and an \<open>Error\<close> has no enumerable field.
\<close>

fun json_view :: "js \<Rightarrow> js" where
  "json_view (JArr xs) = JArr (map json_view xs)"
| "json_view (JObj fs) =
     JObj (map (\<lambda>(k, v). (k, json_view v)) (filter (\<lambda>(k, v). v \<noteq> JUndef) fs))"
| "json_view (JErr _ _) = JObj []"
| "json_view JUndef = JNull"
| "json_view (JNum n) = (case n of Fin r \<Rightarrow> JNum (Fin r) | _ \<Rightarrow> JNull)"
| "json_view v = v"

lemma nullish_simps [simp, js_simps]:
  "nullish JUndef" "nullish JNull" "\<not> nullish (JBool b)" "\<not> nullish (JNum n)"
  "\<not> nullish (JStr s)" "\<not> nullish (JArr xs)" "\<not> nullish (JObj fs)" "\<not> nullish (JErr m t)"
  by (simp_all add: nullish_def)

lemma coalesce_simps [simp, js_simps]:
  "coalesce JUndef b = b" "coalesce JNull b = b" "coalesce (JBool x) b = JBool x"
  "coalesce (JNum n) b = JNum n" "coalesce (JStr s) b = JStr s" "coalesce (JArr xs) b = JArr xs"
  "coalesce (JObj fs) b = JObj fs" "coalesce (JErr m s) b = JErr m s"
  by (simp_all add: coalesce_def)

lemma coalesce_assoc: "coalesce (coalesce a b) c = coalesce a (coalesce b c)"
  by (simp add: coalesce_def)

lemma not_nullish_if_truthy: "truthy v \<Longrightarrow> \<not> nullish v"
  by (cases v) auto

lemma jprop_nullish [simp]: "nullish v \<Longrightarrow> jprop k v = JUndef"
  by (auto simp: nullish_def)

lemma get_prop_Inr [simp, js_simps]: "\<not> nullish v \<Longrightarrow> get_prop k v = Inr (jprop k v)"
  by (simp add: get_prop_def)

lemma is_stringE [elim]: "is_string v \<Longrightarrow> (\<And>s. v = JStr s \<Longrightarrow> P) \<Longrightarrow> P"
  by (cases v) auto

section \<open>Strings\<close>

definition starts_with :: "string \<Rightarrow> string \<Rightarrow> bool" where
  "starts_with s p \<longleftrightarrow> take (length p) s = p"

fun str_includes :: "string \<Rightarrow> string \<Rightarrow> bool" where
  "str_includes [] p = (p = [])"
| "str_includes (c # s) p = (starts_with (c # s) p \<or> str_includes s p)"

text \<open>\<open>s.slice(-n)\<close>\<close>

definition slice_last :: "nat \<Rightarrow> string \<Rightarrow> string" where
  "slice_last n s = drop (length s - n) s"

text \<open>\<open>s.split(c)\<close> for a separator of one character: never an empty list.\<close>

fun split_on :: "char \<Rightarrow> string \<Rightarrow> string list" where
  "split_on c [] = [[]]"
| "split_on c (x # xs) =
     (if x = c then [] # split_on c xs
      else (case split_on c xs of [] \<Rightarrow> [[x]] | y # ys \<Rightarrow> (x # y) # ys))"

definition digit_char :: "nat \<Rightarrow> char" where
  "digit_char n = ''0123456789'' ! n"

fun nat_str :: "nat \<Rightarrow> string" where
  "nat_str n = (if n < 10 then [digit_char n] else nat_str (n div 10) @ [digit_char (n mod 10)])"

declare nat_str.simps [simp del]

fun int_str :: "int \<Rightarrow> string" where
  "int_str i = (if i < 0 then ''-'' @ nat_str (nat (- i)) else nat_str (nat i))"

lemma starts_with_iff: "starts_with s p \<longleftrightarrow> (\<exists>t. s = p @ t)"
  unfolding starts_with_def by (metis append_eq_conv_conj append_take_drop_id)

lemma str_includes_iff: "str_includes s p \<longleftrightarrow> (\<exists>a b. s = a @ p @ b)"
proof (induction s)
  case (Cons c s)
  have "(\<exists>a b. c # s = a @ p @ b) \<longleftrightarrow> (\<exists>b. c # s = p @ b) \<or> (\<exists>a b. s = a @ p @ b)"
    by (metis Cons_eq_append_conv append_Cons append_Nil)
  with Cons show ?case by (simp add: starts_with_iff)
qed auto

lemma split_on_not_Nil [simp]: "split_on c s \<noteq> []"
  by (induction s) (auto split: list.splits)

lemma split_on_no_sep: "c \<notin> set s \<Longrightarrow> split_on c s = [s]"
  by (induction s) auto

lemma split_on_append_sep: "split_on c (s @ c # t) = split_on c s @ split_on c t"
  by (induction s) (auto split: list.splits simp: neq_Nil_conv)

section \<open>Dictionaries\<close>

text \<open>
  A plain object used as a record of headers, and a \<open>Map\<close>: writing a key that is there keeps
  its place, a new key goes to the end. Keys that look like array indices are not used by the
  code, so insertion order is the whole story.
\<close>

fun assoc_put :: "'k \<Rightarrow> 'v \<Rightarrow> ('k \<times> 'v) list \<Rightarrow> ('k \<times> 'v) list" where
  "assoc_put k v [] = [(k, v)]"
| "assoc_put k v ((k', v') # d) =
     (if k = k' then (k, v) # d else (k', v') # assoc_put k v d)"

definition assoc_del :: "'k \<Rightarrow> ('k \<times> 'v) list \<Rightarrow> ('k \<times> 'v) list" where
  "assoc_del k d = filter (\<lambda>(k', v). k' \<noteq> k) d"

text \<open>\<open>{ ...a, ...b }\<close>\<close>

fun assoc_spread :: "('k \<times> 'v) list \<Rightarrow> ('k \<times> 'v) list \<Rightarrow> ('k \<times> 'v) list" where
  "assoc_spread a [] = a"
| "assoc_spread a ((k, v) # b) = assoc_spread (assoc_put k v a) b"

definition assoc_wf :: "('k \<times> 'v) list \<Rightarrow> bool" where
  "assoc_wf d \<longleftrightarrow> distinct (map fst d)"

locale ordered_dict =
  fixes get :: "'d \<Rightarrow> 'k \<Rightarrow> 'v option"
    and put :: "'k \<Rightarrow> 'v \<Rightarrow> 'd \<Rightarrow> 'd"
    and del :: "'k \<Rightarrow> 'd \<Rightarrow> 'd"
    and wf :: "'d \<Rightarrow> bool"
  assumes get_put: "get (put k v d) = (get d)(k \<mapsto> v)"
    and get_del: "get (del k d) = (get d)(k := None)"
    and wf_put: "wf d \<Longrightarrow> wf (put k v d)"
    and wf_del: "wf d \<Longrightarrow> wf (del k d)"
begin

lemma get_put_same: "get (put k v d) k = Some v"
  by (simp add: get_put)

lemma get_put_other: "k' \<noteq> k \<Longrightarrow> get (put k v d) k' = get d k'"
  by (simp add: get_put)

lemma get_del_same: "get (del k d) k = None"
  by (simp add: get_del)

lemma get_del_other: "k' \<noteq> k \<Longrightarrow> get (del k d) k' = get d k'"
  by (simp add: get_del)

lemma del_put_same: "get (del k (put k v d)) = get (del k d)"
  by (simp add: get_put get_del)

lemma get_fold_put_other:
  "k \<notin> fst ` set kvs \<Longrightarrow> get (fold (\<lambda>(k', v). put k' v) kvs d) k = get d k"
  by (induction kvs arbitrary: d) (auto simp: get_put)

lemma dom_put: "dom (get (put k v d)) = insert k (dom (get d))"
  by (simp add: get_put)

lemma dom_del: "dom (get (del k d)) = dom (get d) - {k}"
  by (auto simp: get_del split: if_splits)

end

lemma map_of_assoc_put: "map_of (assoc_put k v d) = (map_of d)(k \<mapsto> v)"
  by (induction k v d rule: assoc_put.induct) (auto simp: fun_eq_iff)

lemma map_of_assoc_del: "map_of (assoc_del k d) = (map_of d)(k := None)"
  by (induction d) (auto simp: assoc_del_def fun_eq_iff)

lemma keys_assoc_put: "fst ` set (assoc_put k v d) = insert k (fst ` set d)"
  by (induction k v d rule: assoc_put.induct) auto

lemma assoc_wf_put: "assoc_wf d \<Longrightarrow> assoc_wf (assoc_put k v d)"
  by (induction k v d rule: assoc_put.induct) (auto simp: assoc_wf_def keys_assoc_put)

lemma assoc_wf_del: "assoc_wf d \<Longrightarrow> assoc_wf (assoc_del k d)"
  by (induction d) (auto simp: assoc_wf_def assoc_del_def)

interpretation dict: ordered_dict map_of assoc_put assoc_del assoc_wf
  by unfold_locales (simp_all add: map_of_assoc_put map_of_assoc_del assoc_wf_put assoc_wf_del)

lemma assoc_spread_fold: "assoc_spread a b = fold (\<lambda>(k, v). assoc_put k v) b a"
  by (induction a b rule: assoc_spread.induct) auto

lemma get_spread_other:
  "k \<notin> fst ` set b \<Longrightarrow> map_of (assoc_spread a b) k = map_of a k"
  unfolding assoc_spread_fold by (rule dict.get_fold_put_other)

lemmas dict_get_simps =
  dict.get_put_same dict.get_put_other dict.get_del_same dict.get_del_other

section \<open>Asynchronous computations\<close>

text \<open>
  A call of an \<open>async\<close> function, awaited: from a world it gives a result (\<open>Inl\<close> what it threw,
  \<open>Inr\<close> what it returned) and the world after it, or \<open>None\<close> when its promise never settles.
\<close>

type_synonym ('e, 'w, 'a) io = "'w \<Rightarrow> (('e + 'a) \<times> 'w) option"

definition ret :: "'a \<Rightarrow> ('e, 'w, 'a) io" where
  "ret x w = Some (Inr x, w)"

definition throw :: "'e \<Rightarrow> ('e, 'w, 'a) io" where
  "throw e w = Some (Inl e, w)"

definition bind_io :: "('e, 'w, 'a) io \<Rightarrow> ('a \<Rightarrow> ('e, 'w, 'b) io) \<Rightarrow> ('e, 'w, 'b) io" where
  "bind_io m f w =
     (case m w of None \<Rightarrow> None
      | Some (Inl e, w') \<Rightarrow> Some (Inl e, w')
      | Some (Inr x, w') \<Rightarrow> f x w')"

definition then_io :: "('e, 'w, 'a) io \<Rightarrow> ('e, 'w, 'b) io \<Rightarrow> ('e, 'w, 'b) io" where
  "then_io m n = bind_io m (\<lambda>_. n)"

text \<open>\<open>try { m } catch (e) { h(e) }\<close>\<close>

definition catch_io :: "('e, 'w, 'a) io \<Rightarrow> ('e \<Rightarrow> ('e, 'w, 'a) io) \<Rightarrow> ('e, 'w, 'a) io" where
  "catch_io m h w =
     (case m w of None \<Rightarrow> None
      | Some (Inl e, w') \<Rightarrow> h e w'
      | Some (Inr x, w') \<Rightarrow> Some (Inr x, w'))"

text \<open>\<open>try { m } finally { c }\<close>, for a \<open>c\<close> that only changes the world\<close>

definition finally_io :: "('e, 'w, 'a) io \<Rightarrow> ('w \<Rightarrow> 'w) \<Rightarrow> ('e, 'w, 'a) io" where
  "finally_io m c w = (case m w of None \<Rightarrow> None | Some (r, w') \<Rightarrow> Some (r, c w'))"

definition modify_io :: "('w \<Rightarrow> 'w) \<Rightarrow> ('e, 'w, unit) io" where
  "modify_io f w = Some (Inr (), f w)"

definition when_io :: "bool \<Rightarrow> ('e, 'w, unit) io \<Rightarrow> ('e, 'w, unit) io" where
  "when_io b m = (if b then m else ret ())"

definition lift_sum :: "'e + 'a \<Rightarrow> ('e, 'w, 'a) io" where
  "lift_sum r w = Some (r, w)"

lemmas io_defs [io_simps] =
  ret_def throw_def bind_io_def then_io_def catch_io_def finally_io_def modify_io_def
  when_io_def lift_sum_def

lemma bind_ret: "bind_io (ret x) f = f x"
  by (simp add: fun_eq_iff io_simps)

lemma bind_ret_right: "bind_io m ret = m"
  by (auto simp: fun_eq_iff io_simps split: option.splits sum.splits)

lemma bind_throw: "bind_io (throw e) f = throw e"
  by (simp add: fun_eq_iff io_simps)

lemma bind_assoc: "bind_io (bind_io m f) g = bind_io m (\<lambda>x. bind_io (f x) g)"
  by (auto simp: fun_eq_iff io_simps split: option.splits sum.splits)

lemma catch_throw: "catch_io (throw e) h = h e"
  by (simp add: fun_eq_iff io_simps)

lemma catch_ret: "catch_io (ret x) h = ret x"
  by (simp add: fun_eq_iff io_simps)

lemma bind_io_cases:
  assumes "bind_io m f w = Some (r, w')"
  obtains (threw) e where "m w = Some (Inl e, w')" "r = Inl e"
    | (went) x w1 where "m w = Some (Inr x, w1)" "f x w1 = Some (r, w')"
  using assms by (auto simp: bind_io_def split: option.splits sum.splits)

end
