(* ===== verification/SdkTypes.thy ===== *)
theory SdkTypes
  imports JsPrelude
begin

text \<open>
  The interfaces of \<open>sdk/node/src/types.ts\<close>. The code never checks a response against its
  interface, it casts; so an interface is a description of a shape (\<open>ts\<close>) and \<open>conforms t v\<close>
  says that the dynamic value \<open>v\<close> has it. The theorems of the other components use it to say
  what a well-behaved server sends, and that the payloads built by the SDK are well shaped.
  The two interfaces the client itself reads, \<open>SecureLensConfig\<close> and \<open>RequestOptions\<close>, are
  records.
\<close>

section \<open>Shapes\<close>

datatype ts =
    TStr
  | TNum
  | TBool
  | TUnknown
  | TLit "string list"
  | TRecord
  | TArr ts
  | TOr ts ts
  | TObj "(string \<times> bool \<times> ts) list"

text \<open>In \<open>TObj\<close>, a field is its name, whether it is required, and its type.\<close>

fun conforms :: "ts \<Rightarrow> js \<Rightarrow> bool" where
  "conforms TStr v = is_string v"
| "conforms TNum v = (case v of JNum _ \<Rightarrow> True | _ \<Rightarrow> False)"
| "conforms TBool v = (case v of JBool _ \<Rightarrow> True | _ \<Rightarrow> False)"
| "conforms TUnknown v = True"
| "conforms (TLit ls) v = (case v of JStr s \<Rightarrow> s \<in> set ls | _ \<Rightarrow> False)"
| "conforms TRecord v = (case v of JObj _ \<Rightarrow> True | _ \<Rightarrow> False)"
| "conforms (TArr t) v = (case v of JArr xs \<Rightarrow> list_all (conforms t) xs | _ \<Rightarrow> False)"
| "conforms (TOr s t) v = (conforms s v \<or> conforms t v)"
| "conforms (TObj fs) v =
     (case v of
        JObj _ \<Rightarrow> list_all (\<lambda>(k, needed, t).
                    (\<not> needed \<and> jprop k v = JUndef) \<or> conforms t (jprop k v)) fs
      | _ \<Rightarrow> False)"

abbreviation required :: "string \<Rightarrow> ts \<Rightarrow> string \<times> bool \<times> ts" where
  "required k t \<equiv> (k, True, t)"

abbreviation optional :: "string \<Rightarrow> ts \<Rightarrow> string \<times> bool \<times> ts" where
  "optional k t \<equiv> (k, False, t)"

section \<open>Configuration\<close>

record SecureLensConfig =
  cfg_apiKey :: string
  cfg_baseUrl :: "string option"
  cfg_tenantId :: "string option"
  cfg_timeout :: "nat option"
  cfg_retries :: "jsnum option"
  cfg_debug :: "bool option"

text \<open>
  The signal of a request: when it aborts on the world's clock (\<open>None\<close>: never), with the name
  and the message of its reason.
\<close>

record abort_signal =
  abort_at :: "nat option"
  abort_name :: string
  abort_message :: string

record RequestOptions =
  opt_timeout :: "nat option"
  opt_headers :: "(string \<times> string) list"
  opt_signal :: "abort_signal option"

section \<open>Providers\<close>

definition VectorDbProvider :: ts where
  "VectorDbProvider =
     TLit [''qdrant'', ''pinecone'', ''weaviate'', ''milvus'', ''chroma'', ''custom'']"

definition VectorDbConfig :: ts where
  "VectorDbConfig = TObj
     [required ''provider'' VectorDbProvider,
      optional ''url'' TStr,
      optional ''apiKey'' TStr,
      optional ''collection'' TStr,
      optional ''options'' TRecord]"

definition LLMProvider :: ts where
  "LLMProvider =
     TLit [''openai'', ''anthropic'', ''azure'', ''bedrock'', ''cohere'', ''custom'']"

definition LLMConfig :: ts where
  "LLMConfig = TObj
     [required ''provider'' LLMProvider,
      optional ''model'' TStr,
      optional ''apiKey'' TStr,
      optional ''endpoint'' TStr,
      optional ''temperature'' TNum,
      optional ''maxTokens'' TNum,
      optional ''options'' TRecord]"

section \<open>Classification\<close>

definition SensitivityLevel :: ts where
  "SensitivityLevel =
     TLit [''public'', ''internal'', ''confidential'', ''restricted'', ''top_secret'']"

definition ClassificationType :: ts where
  "ClassificationType =
     TLit [''pii'', ''phi'', ''pci'', ''financial'', ''legal'', ''intellectual_property'',
           ''trade_secret'', ''custom'']"

definition Classification :: ts where
  "Classification = TObj
     [required ''type'' ClassificationType,
      required ''label'' TStr,
      required ''confidence'' TNum,
      required ''start'' TNum,
      required ''end'' TNum,
      optional ''text'' TStr,
      required ''sensitivity'' SensitivityLevel]"

definition ClassificationResult :: ts where
  "ClassificationResult = TObj
     [required ''text'' TStr,
      required ''classifications'' (TArr Classification),
      required ''overallSensitivity'' SensitivityLevel,
      required ''processingTimeMs'' TNum]"

section \<open>Supporting types\<close>

definition UserContext :: ts where
  "UserContext = TObj
     [optional ''userId'' TStr,
      optional ''roles'' (TArr TStr),
      optional ''groups'' (TArr TStr),
      optional ''department'' TStr,
      optional ''clearanceLevel'' SensitivityLevel,
      optional ''attributes'' TRecord]"

definition AppliedPolicy :: ts where
  "AppliedPolicy = TObj
     [required ''policyId'' TStr,
      required ''name'' TStr,
      required ''action'' (TLit [''allow'', ''block'', ''redact'', ''mask'', ''audit'']),
      optional ''details'' TStr]"

definition TokenUsage :: ts where
  "TokenUsage = TObj
     [required ''promptTokens'' TNum,
      required ''completionTokens'' TNum,
      required ''totalTokens'' TNum,
      optional ''estimatedCost'' TNum]"

definition ContextDocument :: ts where
  "ContextDocument = TObj
     [required ''id'' TStr,
      required ''content'' TStr,
      required ''score'' TNum,
      optional ''metadata'' TRecord,
      optional ''classifications'' (TArr Classification)]"

section \<open>Gate requests and responses\<close>

definition GateInterceptRequest :: ts where
  "GateInterceptRequest = TObj
     [required ''query'' TStr,
      optional ''contextSource'' (TOr VectorDbProvider VectorDbConfig),
      optional ''policies'' (TArr TStr),
      optional ''userContext'' UserContext,
      optional ''sessionId'' TStr,
      optional ''metadata'' TRecord]"

definition GateInterceptResponse :: ts where
  "GateInterceptResponse = TObj
     [required ''allowed'' TBool,
      required ''safeQuery'' TStr,
      required ''originalQuery'' TStr,
      required ''classifications'' (TArr Classification),
      required ''appliedPolicies'' (TArr AppliedPolicy),
      required ''auditId'' TStr,
      optional ''blockReason'' TStr,
      optional ''suggestedQuery'' TStr]"

definition GateQueryRequest :: ts where
  "GateQueryRequest = TObj
     [required ''query'' TStr,
      optional ''contextSource'' (TOr VectorDbProvider VectorDbConfig),
      optional ''llmProvider'' (TOr LLMProvider LLMConfig),
      optional ''model'' TStr,
      optional ''topK'' TNum,
      optional ''policies'' (TArr TStr),
      optional ''userContext'' UserContext,
      optional ''sessionId'' TStr,
      optional ''systemPrompt'' TStr,
      optional ''stream'' TBool,
      optional ''metadata'' TRecord]"

definition GateQueryResponse :: ts where
  "GateQueryResponse = TObj
     [required ''response'' TStr,
      required ''safeQuery'' TStr,
      required ''classifications'' (TArr Classification),
      required ''auditId'' TStr,
      required ''tokensUsed'' TokenUsage,
      optional ''context'' (TArr ContextDocument),
      required ''appliedPolicies'' (TArr AppliedPolicy),
      required ''processingTimeMs'' TNum]"

definition GateEmbedRequest :: ts where
  "GateEmbedRequest = TObj
     [required ''documents'' (TArr TStr),
      optional ''metadata'' (TArr TRecord),
      required ''vectorDb'' (TOr VectorDbProvider VectorDbConfig),
      optional ''classifyBeforeEmbed'' TBool,
      optional ''policies'' (TArr TStr),
      optional ''chunkSize'' TNum,
      optional ''chunkOverlap'' TNum]"

definition GateEmbedResponse :: ts where
  "GateEmbedResponse = TObj
     [required ''documentsEmbedded'' TNum,
      required ''chunksCreated'' TNum,
      optional ''classifications'' (TArr Classification),
      required ''auditId'' TStr,
      required ''processingTimeMs'' TNum,
      required ''documentIds'' (TArr TStr)]"

section \<open>Audit, streaming, health\<close>

definition AuditEvent :: ts where
  "AuditEvent = TObj
     [required ''id'' TStr,
      required ''timestamp'' TStr,
      required ''eventType'' (TLit [''query'', ''intercept'', ''embed'', ''classify'']),
      optional ''userContext'' UserContext,
      required ''request'' TRecord,
      required ''response'' TRecord,
      required ''policies'' (TArr AppliedPolicy),
      required ''classifications'' (TArr Classification),
      required ''processingTimeMs'' TNum]"

text \<open>
  \<open>AuditQueryOptions\<close> is read field by field. A date is its ISO text, or \<open>None\<close> for an invalid
  \<open>Date\<close> (whose \<open>toISOString\<close> throws).
\<close>

record AuditQueryOptions =
  aq_startDate :: "string option option"
  aq_endDate :: "string option option"
  aq_userId :: "string option"
  aq_eventType :: "string option"
  aq_policyId :: "string option"
  aq_limit :: "int option"
  aq_offset :: "int option"

definition StreamChunk :: ts where
  "StreamChunk = TObj
     [required ''type'' (TLit [''content'', ''classification'', ''policy'', ''done'', ''error'']),
      optional ''content'' TStr,
      optional ''classification'' Classification,
      optional ''policy'' AppliedPolicy,
      optional ''finalResponse'' GateQueryResponse,
      optional ''error'' TStr]"

definition ComponentStatus :: ts where
  "ComponentStatus = TObj
     [required ''status'' (TLit [''healthy'', ''degraded'', ''unhealthy'']),
      optional ''latencyMs'' TNum,
      optional ''message'' TStr]"

definition HealthStatus :: ts where
  "HealthStatus = TObj
     [required ''status'' (TLit [''healthy'', ''degraded'', ''unhealthy'']),
      required ''version'' TStr,
      required ''components'' (TObj
        [required ''api'' ComponentStatus,
         required ''classifier'' ComponentStatus,
         optional ''vectorDb'' ComponentStatus,
         optional ''llm'' ComponentStatus]),
      required ''timestamp'' TStr]"

section \<open>Reading a value through its shape\<close>

lemma conforms_obj_field:
  assumes "conforms (TObj fs) v" and "(k, r, t) \<in> set fs"
  shows "conforms t (jprop k v) \<or> (\<not> r \<and> jprop k v = JUndef)"
  using assms by (cases v) (auto simp: list_all_iff)

lemma conforms_arrE:
  assumes "conforms (TArr t) v"
  obtains xs where "v = JArr xs" and "list_all (conforms t) xs"
  using assms by (cases v) auto

lemma conforms_strE:
  assumes "conforms TStr v"
  obtains s where "v = JStr s"
  using assms by (cases v) auto

lemma conforms_litE:
  assumes "conforms (TLit ls) v"
  obtains s where "v = JStr s" and "s \<in> set ls"
  using assms by (cases v) auto

lemma conforms_boolE:
  assumes "conforms TBool v"
  obtains b where "v = JBool b"
  using assms by (cases v) auto

lemma conforms_objE:
  assumes "conforms (TObj fs) v"
  obtains d where "v = JObj d"
  using assms by (cases v) auto

end
