(* ===== verification/SdkErrors.thy ===== *)
theory SdkErrors
  imports SdkTypes
begin

text \<open>
  \<open>sdk/node/src/errors.ts\<close>: the error classes, the translation of an HTTP error response into
  one of them (\<open>parseApiError\<close>) and the decision whether a failed request is tried again
  (\<open>isRetryableError\<close>). A status is an integer, as \<open>Response.status\<close> is. A message is the value
  given to the constructor of \<open>Error\<close>, before its conversion to a string.
\<close>

section \<open>Error objects\<close>

text \<open>
  The options of a constructor are spread after the defaults of the class, so a field that is
  present but \<open>undefined\<close> overrides a default: \<open>Given None\<close> is not \<open>Absent\<close>.
\<close>

datatype 'a field = Absent | Given "'a option"

fun opt_get :: "'a field \<Rightarrow> 'a option" where
  "opt_get Absent = None"
| "opt_get (Given v) = v"

text \<open>\<open>{ k: v, ...options }\<close>, for one field\<close>

fun spread_field :: "'a option \<Rightarrow> 'a field \<Rightarrow> 'a field" where
  "spread_field d Absent = Given d"
| "spread_field d (Given v) = Given v"

record err_options =
  o_statusCode :: "int field"
  o_requestId :: "string field"
  o_cause :: "js field"

definition no_options :: err_options where
  "no_options = \<lparr>o_statusCode = Absent, o_requestId = Absent, o_cause = Absent\<rparr>"

text \<open>The class of an error, with the fields only that class has.\<close>

datatype err_class =
    CError
  | CAuthError
  | CRateLimitError (retryAfter: js) (limit: js) (remaining: js)
  | CPolicyError (policyId: js) (policyName: js) (reason: js) (suggestedQuery: js)
  | CConnectionError (retryable: bool)
  | CValidationError (fieldErrors: js)
  | CTimeoutError (timeoutMs: nat)
  | CServerError

record sl_error =
  e_class :: err_class
  e_name :: string
  e_message :: js
  e_code :: string
  e_statusCode :: "int option"
  e_requestId :: "string option"
  e_cause :: "js option"

text \<open>What the code throws: a native error (name and message), or one of the SDK.\<close>

datatype thrown = Native string string | SL sl_error

definition new_SecureLensError :: "js \<Rightarrow> string \<Rightarrow> err_options \<Rightarrow> sl_error" where
  "new_SecureLensError message code opts =
     \<lparr>e_class = CError, e_name = ''SecureLensError'', e_message = message, e_code = code,
      e_statusCode = opt_get (o_statusCode opts), e_requestId = opt_get (o_requestId opts),
      e_cause = opt_get (o_cause opts)\<rparr>"

text \<open>A parameter with a default value: the default replaces \<open>undefined\<close> only.\<close>

definition default_message :: "string \<Rightarrow> js \<Rightarrow> js" where
  "default_message d m = (if m = JUndef then JStr d else m)"

definition with_status :: "int \<Rightarrow> err_options \<Rightarrow> err_options" where
  "with_status s opts = opts\<lparr>o_statusCode := spread_field (Some s) (o_statusCode opts)\<rparr>"

definition new_SecureLensAuthError :: "js \<Rightarrow> err_options \<Rightarrow> sl_error" where
  "new_SecureLensAuthError message opts =
     (new_SecureLensError
        (default_message ''Authentication failed. Please check your API key.'' message)
        ''AUTH_ERROR'' (with_status 401 opts))
     \<lparr>e_name := ''SecureLensAuthError'', e_class := CAuthError\<rparr>"

definition new_SecureLensRateLimitError ::
  "js \<Rightarrow> js \<Rightarrow> js \<Rightarrow> js \<Rightarrow> err_options \<Rightarrow> sl_error" where
  "new_SecureLensRateLimitError message after lmt left opts =
     (new_SecureLensError
        (default_message ''Rate limit exceeded. Please retry later.'' message)
        ''RATE_LIMIT_ERROR'' (with_status 429 opts))
     \<lparr>e_name := ''SecureLensRateLimitError'', e_class := CRateLimitError after lmt left\<rparr>"

definition new_SecureLensPolicyError ::
  "js \<Rightarrow> js \<Rightarrow> js \<Rightarrow> js \<Rightarrow> js \<Rightarrow> err_options \<Rightarrow> sl_error" where
  "new_SecureLensPolicyError message pid pname why suggested opts =
     (new_SecureLensError
        (default_message ''Request blocked by policy.'' message)
        ''POLICY_ERROR'' (with_status 403 opts))
     \<lparr>e_name := ''SecureLensPolicyError'', e_class := CPolicyError pid pname why suggested\<rparr>"

definition new_SecureLensConnectionError ::
  "js \<Rightarrow> bool option \<Rightarrow> err_options \<Rightarrow> sl_error" where
  "new_SecureLensConnectionError message retry opts =
     (new_SecureLensError
        (default_message ''Failed to connect to SecureLens API.'' message)
        ''CONNECTION_ERROR'' (with_status 503 opts))
     \<lparr>e_name := ''SecureLensConnectionError'',
      e_class := CConnectionError (case retry of Some b \<Rightarrow> b | None \<Rightarrow> True)\<rparr>"

definition new_SecureLensValidationError :: "js \<Rightarrow> js \<Rightarrow> err_options \<Rightarrow> sl_error" where
  "new_SecureLensValidationError message ferrs opts =
     (new_SecureLensError
        (default_message ''Invalid request parameters.'' message)
        ''VALIDATION_ERROR'' (with_status 400 opts))
     \<lparr>e_name := ''SecureLensValidationError'', e_class := CValidationError ferrs\<rparr>"

definition new_SecureLensTimeoutError :: "js \<Rightarrow> nat option \<Rightarrow> err_options \<Rightarrow> sl_error" where
  "new_SecureLensTimeoutError message ms opts =
     (new_SecureLensError
        (default_message ''Request timed out.'' message)
        ''TIMEOUT_ERROR'' (with_status 408 opts))
     \<lparr>e_name := ''SecureLensTimeoutError'',
      e_class := CTimeoutError (case ms of Some t \<Rightarrow> t | None \<Rightarrow> 30000)\<rparr>"

text \<open>
  \<open>{ statusCode: options?.statusCode ?? 500, ...options }\<close>: the spread comes second.
\<close>

definition new_SecureLensServerError :: "js \<Rightarrow> err_options \<Rightarrow> sl_error" where
  "new_SecureLensServerError message opts =
     (new_SecureLensError
        (default_message ''Internal server error.'' message)
        ''SERVER_ERROR''
        (with_status (case opt_get (o_statusCode opts) of Some s \<Rightarrow> s | None \<Rightarrow> 500) opts))
     \<lparr>e_name := ''SecureLensServerError'', e_class := CServerError\<rparr>"

section \<open>Serialisation\<close>

definition js_int :: "int \<Rightarrow> js" where
  "js_int i = JNum (Fin (of_int i))"

definition base_toJSON :: "sl_error \<Rightarrow> (string \<times> js) list" where
  "base_toJSON e =
     [(''name'', JStr (e_name e)),
      (''message'', e_message e),
      (''code'', JStr (e_code e)),
      (''statusCode'', js_of_opt js_int (e_statusCode e)),
      (''requestId'', js_of_opt JStr (e_requestId e))]"

fun class_toJSON :: "err_class \<Rightarrow> (string \<times> js) list" where
  "class_toJSON (CRateLimitError a l r) =
     [(''retryAfter'', a), (''limit'', l), (''remaining'', r)]"
| "class_toJSON (CPolicyError i n r s) =
     [(''policyId'', i), (''policyName'', n), (''reason'', r), (''suggestedQuery'', s)]"
| "class_toJSON (CConnectionError b) = [(''retryable'', JBool b)]"
| "class_toJSON (CValidationError f) = [(''fieldErrors'', f)]"
| "class_toJSON (CTimeoutError t) = [(''timeoutMs'', JNum (num_of_nat t))]"
| "class_toJSON _ = []"

definition toJSON :: "sl_error \<Rightarrow> js" where
  "toJSON e = JObj (base_toJSON e @ class_toJSON (e_class e))"

section \<open>From a response to an error\<close>

definition error_message :: "js \<Rightarrow> js" where
  "error_message body =
     coalesce (jprop ''message'' body) (coalesce (jprop ''error'' body) (JStr ''Unknown error''))"

definition parseApiError :: "int \<Rightarrow> js \<Rightarrow> string option \<Rightarrow> sl_error" where
  "parseApiError statusCode body requestId =
     (let message = error_message body;
          opts = no_options\<lparr>o_requestId := Given requestId\<rparr>
      in if statusCode = 400 then
           new_SecureLensValidationError message (jprop ''fieldErrors'' body) opts
         else if statusCode = 401 then new_SecureLensAuthError message opts
         else if statusCode = 403 then
           new_SecureLensPolicyError message (jprop ''policyId'' body)
             (jprop ''policyName'' body) (jprop ''reason'' body)
             (jprop ''suggestedQuery'' body) opts
         else if statusCode = 408 then new_SecureLensTimeoutError message None opts
         else if statusCode = 429 then
           new_SecureLensRateLimitError message (jprop ''retryAfter'' body)
             (jprop ''limit'' body) (jprop ''remaining'' body) opts
         else if statusCode = 503 then new_SecureLensConnectionError message (Some True) opts
         else if statusCode \<ge> 500 then
           new_SecureLensServerError message (opts\<lparr>o_statusCode := Given (Some statusCode)\<rparr>)
         else new_SecureLensError message ''UNKNOWN_ERROR''
                (opts\<lparr>o_statusCode := Given (Some statusCode)\<rparr>))"

fun isSecureLensError :: "thrown \<Rightarrow> bool" where
  "isSecureLensError (SL e) = True"
| "isSecureLensError (Native n m) = False"

fun retryable_class :: "err_class \<Rightarrow> int option \<Rightarrow> bool" where
  "retryable_class (CRateLimitError _ _ _) s = True"
| "retryable_class (CConnectionError b) s = b"
| "retryable_class (CTimeoutError _) s = True"
| "retryable_class CServerError s =
     (case s of Some code \<Rightarrow> code \<ge> 500 \<and> code < 600 | None \<Rightarrow> False)"
| "retryable_class _ s = False"

fun isRetryableError :: "thrown \<Rightarrow> bool" where
  "isRetryableError (SL e) = retryable_class (e_class e) (e_statusCode e)"
| "isRetryableError (Native n m) = False"

section \<open>Lemmas\<close>

lemmas error_class_defs =
  new_SecureLensError_def new_SecureLensAuthError_def new_SecureLensRateLimitError_def
  new_SecureLensPolicyError_def new_SecureLensConnectionError_def
  new_SecureLensValidationError_def new_SecureLensTimeoutError_def
  new_SecureLensServerError_def with_status_def no_options_def

lemma default_message_simps [simp]:
  "default_message d JUndef = JStr d" "default_message d (JStr s) = JStr s"
  by (simp_all add: default_message_def)

lemma error_message_not_nullish: "\<not> nullish (error_message body)"
  by (simp add: error_message_def coalesce_def)

lemma default_message_error_message [simp]:
  "default_message d (error_message body) = error_message body"
  using error_message_not_nullish [of body] by (auto simp: default_message_def nullish_def)

lemma error_class_fields [simp]:
  "e_class (new_SecureLensError m c opts) = CError"
  "e_class (new_SecureLensAuthError m opts) = CAuthError"
  "e_class (new_SecureLensRateLimitError m a l r opts) = CRateLimitError a l r"
  "e_class (new_SecureLensPolicyError m i n w s opts) = CPolicyError i n w s"
  "e_class (new_SecureLensValidationError m f opts) = CValidationError f"
  "e_class (new_SecureLensServerError m opts) = CServerError"
  "e_class (new_SecureLensConnectionError m (Some b) opts) = CConnectionError b"
  "e_class (new_SecureLensTimeoutError m (Some t) opts) = CTimeoutError t"
  by (simp_all add: error_class_defs)

lemma parseApiError_class:
  "e_class (parseApiError s body rid) =
     (if s = 400 then CValidationError (jprop ''fieldErrors'' body)
      else if s = 401 then CAuthError
      else if s = 403 then CPolicyError (jprop ''policyId'' body) (jprop ''policyName'' body)
                             (jprop ''reason'' body) (jprop ''suggestedQuery'' body)
      else if s = 408 then CTimeoutError 30000
      else if s = 429 then CRateLimitError (jprop ''retryAfter'' body) (jprop ''limit'' body)
                             (jprop ''remaining'' body)
      else if s = 503 then CConnectionError True
      else if s \<ge> 500 then CServerError
      else CError)"
  by (simp add: parseApiError_def error_class_defs)

lemma parseApiError_fields:
  "e_message (parseApiError s body rid) = error_message body"
  "e_statusCode (parseApiError s body rid) = Some s"
  "e_requestId (parseApiError s body rid) = rid"
  "e_cause (parseApiError s body rid) = None"
  by (simp_all add: parseApiError_def error_class_defs Let_def)

lemma toJSON_message [simp]: "jprop ''message'' (toJSON e) = e_message e"
  by (simp add: toJSON_def base_toJSON_def)

lemma toJSON_class_field [simp]:
  "k \<notin> {''name'', ''message'', ''code'', ''statusCode'', ''requestId''} \<Longrightarrow>
   jprop k (toJSON e) = jprop k (JObj (class_toJSON (e_class e)))"
  by (simp add: toJSON_def base_toJSON_def)

lemma error_message_toJSON:
  "\<not> nullish (e_message e) \<Longrightarrow> error_message (toJSON e) = e_message e"
  by (simp add: error_message_def coalesce_def)

text \<open>The body matters only through the message and the fields of the class its status selects.\<close>

lemma parseApiError_cong:
  assumes "error_message b' = error_message b"
    and "s = 400 \<Longrightarrow> jprop ''fieldErrors'' b' = jprop ''fieldErrors'' b"
    and "\<And>k. s = 403 \<Longrightarrow> k \<in> {''policyId'', ''policyName'', ''reason'', ''suggestedQuery''} \<Longrightarrow>
           jprop k b' = jprop k b"
    and "\<And>k. s = 429 \<Longrightarrow> k \<in> {''retryAfter'', ''limit'', ''remaining''} \<Longrightarrow>
           jprop k b' = jprop k b"
  shows "parseApiError s b' rid = parseApiError s b rid"
  using assms by (simp add: parseApiError_def Let_def)

section \<open>Properties\<close>

text \<open>
  An error response is worth a retry exactly when its status is 408, 429 or in the range
  500 to 599; the status and the request id survive the translation for every body, whatever
  it holds.
\<close>

theorem parseApiError_retry_policy:
  "(isRetryableError (SL (parseApiError s body rid)) \<longleftrightarrow>
      s = 408 \<or> s = 429 \<or> (500 \<le> s \<and> s < 600))
   \<and> e_statusCode (parseApiError s body rid) = Some s
   \<and> e_requestId (parseApiError s body rid) = rid"
  by (auto simp: parseApiError_class parseApiError_fields)

text \<open>
  Round trip: an error serialised by \<open>toJSON\<close> and sent back as the body of a response with
  the same status and request id is translated to the same error, fields of its class included.
\<close>

theorem parseApiError_toJSON_roundtrip:
  "parseApiError s (toJSON (parseApiError s body rid)) rid = parseApiError s body rid"
proof (rule parseApiError_cong)
  show "error_message (toJSON (parseApiError s body rid)) = error_message body"
    using error_message_not_nullish [of body]
    by (simp add: error_message_toJSON parseApiError_fields)
qed (auto simp: parseApiError_class)

text \<open>
  The default status of a server error is 500 only when the caller's options have no
  \<open>statusCode\<close> field: a field that is present and undefined is spread over the default, and such
  an error is no longer retried.
\<close>

theorem server_error_undefined_status:
  "e_statusCode (new_SecureLensServerError m no_options) = Some 500
   \<and> isRetryableError (SL (new_SecureLensServerError m no_options))
   \<and> e_statusCode (new_SecureLensServerError m (no_options\<lparr>o_statusCode := Given None\<rparr>)) = None
   \<and> \<not> isRetryableError
         (SL (new_SecureLensServerError m (no_options\<lparr>o_statusCode := Given None\<rparr>)))"
  by (simp add: error_class_defs)

end
