(* ===== verification/SdkAuth.thy ===== *)
theory SdkAuth
  imports SdkErrors
begin

text \<open>
  \<open>sdk/node/src/auth.ts\<close>: the format check of an API key, the headers that carry it, and its
  mask for logs.
\<close>

definition API_KEY_PREFIX :: string where
  "API_KEY_PREFIX = ''sl_''"

definition API_KEY_MIN_LENGTH :: nat where
  "API_KEY_MIN_LENGTH = 32"

definition auth_failure :: "string \<Rightarrow> thrown" where
  "auth_failure msg = SL (new_SecureLensAuthError (JStr msg) no_options)"

definition validateApiKey :: "string \<Rightarrow> thrown + unit" where
  "validateApiKey apiKey =
     (if apiKey = [] then Inl (auth_failure ''API key is required.'')
      else if \<not> starts_with apiKey API_KEY_PREFIX then
        Inl (auth_failure (''Invalid API key format. API key must start with ''
               @ [CHR 0x22] @ API_KEY_PREFIX @ [CHR 0x22] @ ''.''))
      else if length apiKey < API_KEY_MIN_LENGTH then
        Inl (auth_failure (''Invalid API key format. API key must be at least ''
               @ nat_str API_KEY_MIN_LENGTH @ '' characters.''))
      else Inr ())"

definition createAuthHeaders :: "string \<Rightarrow> string option \<Rightarrow> (string \<times> string) list" where
  "createAuthHeaders apiKey tenantId =
     (let headers = [(''Authorization'', ''Bearer '' @ apiKey),
                     (''Content-Type'', ''application/json'')]
      in case tenantId of
           Some t \<Rightarrow> (if t \<noteq> [] then assoc_put ''X-Tenant-ID'' t headers else headers)
         | None \<Rightarrow> headers)"

definition maskApiKey :: "string \<Rightarrow> string" where
  "maskApiKey apiKey =
     (if apiKey = [] \<or> length apiKey < 12 then ''***''
      else take 6 apiKey @ ''...'' @ slice_last 4 apiKey)"

record AuthContext =
  ac_apiKey :: string
  ac_tenantId :: "string option"
  ac_headers :: "(string \<times> string) list"

definition createAuthContext :: "string \<Rightarrow> string option \<Rightarrow> thrown + AuthContext" where
  "createAuthContext apiKey tenantId =
     (case validateApiKey apiKey of
        Inl e \<Rightarrow> Inl e
      | Inr _ \<Rightarrow> Inr \<lparr>ac_apiKey = apiKey, ac_tenantId = tenantId,
                      ac_headers = createAuthHeaders apiKey tenantId\<rparr>)"

section \<open>Lemmas\<close>

definition key_ok :: "string \<Rightarrow> bool" where
  "key_ok k \<longleftrightarrow> starts_with k ''sl_'' \<and> 32 \<le> length k"

lemma validateApiKey_ok: "validateApiKey k = Inr () \<longleftrightarrow> key_ok k"
  by (auto simp: validateApiKey_def key_ok_def API_KEY_PREFIX_def API_KEY_MIN_LENGTH_def)

lemma validateApiKey_error:
  "validateApiKey k = Inl e \<Longrightarrow> \<exists>m. e = auth_failure m"
  by (auto simp: validateApiKey_def split: if_splits)

lemma auth_failure_not_retryable [simp]: "\<not> isRetryableError (auth_failure m)"
  by (simp add: auth_failure_def)

lemma createAuthContext_ok:
  "createAuthContext k t = Inr a \<longleftrightarrow>
     key_ok k \<and> a = \<lparr>ac_apiKey = k, ac_tenantId = t, ac_headers = createAuthHeaders k t\<rparr>"
  unfolding createAuthContext_def validateApiKey_ok [symmetric]
  by (auto split: sum.splits)

lemma authHeaders_wf: "assoc_wf (createAuthHeaders k t)"
  by (auto simp: createAuthHeaders_def assoc_wf_def Let_def split: option.splits)

lemma authHeaders_get:
  "map_of (createAuthHeaders k t) ''Authorization'' = Some (''Bearer '' @ k)"
  "map_of (createAuthHeaders k t) ''Content-Type'' = Some ''application/json''"
  "map_of (createAuthHeaders k t) ''X-Tenant-ID'' =
     (case t of Some x \<Rightarrow> (if x \<noteq> [] then Some x else None) | None \<Rightarrow> None)"
  by (auto simp: createAuthHeaders_def Let_def split: option.splits)

lemma maskApiKey_short: "length k < 12 \<Longrightarrow> maskApiKey k = ''***''"
  by (simp add: maskApiKey_def)

lemma maskApiKey_length: "12 \<le> length k \<Longrightarrow> length (maskApiKey k) = 13"
  by (auto simp: maskApiKey_def slice_last_def)

section \<open>Properties\<close>

text \<open>
  A context is created exactly for the keys of the documented format (prefix \<open>sl_\<close>, at
  least 32 characters); every other key is refused with an authentication error, and the
  context of a good key carries it as a bearer token, with the tenant header exactly when a
  nonempty tenant is given.
\<close>

theorem createAuthContext_correct:
  "(case createAuthContext k t of
      Inr a \<Rightarrow> starts_with k ''sl_'' \<and> 32 \<le> length k \<and> ac_apiKey a = k
        \<and> map_of (ac_headers a) ''Authorization'' = Some (''Bearer '' @ k)
        \<and> map_of (ac_headers a) ''X-Tenant-ID'' = (if t = Some [] then None else t)
    | Inl e \<Rightarrow> \<not> (starts_with k ''sl_'' \<and> 32 \<le> length k)
        \<and> (\<exists>m. e = auth_failure m) \<and> \<not> isRetryableError e)"
proof (cases "createAuthContext k t")
  case (Inl e)
  then have bad: "\<not> key_ok k" and v: "validateApiKey k = Inl e"
    using createAuthContext_ok [of k t]
    by (auto simp: createAuthContext_def split: sum.splits)
  from validateApiKey_error [OF v] obtain m where "e = auth_failure m" ..
  with Inl bad show ?thesis by (auto simp: key_ok_def)
next
  case (Inr a)
  then show ?thesis
    using createAuthContext_ok [of k t a]
    by (auto simp: key_ok_def authHeaders_get split: option.splits)
qed

text \<open>
  The mask of a key reveals at most its first six and last four characters: two keys of
  twelve characters or more that agree there have the same mask, whatever is between, and
  the mask is not the key itself unless the key has the mask's own length of thirteen.
\<close>

theorem maskApiKey_hides:
  assumes "12 \<le> length k" and "12 \<le> length k'"
    and "take 6 k = take 6 k'" and "drop (length k - 4) k = drop (length k' - 4) k'"
  shows "maskApiKey k = maskApiKey k' \<and> (length k \<noteq> 13 \<longrightarrow> maskApiKey k \<noteq> k)"
proof -
  have "k \<noteq> []" "k' \<noteq> []" using assms by auto
  with assms have "maskApiKey k = maskApiKey k'"
    by (simp add: maskApiKey_def slice_last_def)
  moreover have "length k \<noteq> 13 \<longrightarrow> maskApiKey k \<noteq> k"
    using maskApiKey_length [OF assms(1)] by auto
  ultimately show ?thesis ..
qed

theorem maskApiKey_hides_witness:
  "maskApiKey ''sl_abcSECRETSECRETSECRETSECRETwxyz''
     = maskApiKey ''sl_abcPUBLICPUBLICPUBLICPUBLICwxyz''
   \<and> maskApiKey ''sl_abcSECRETSECRETSECRETSECRETwxyz'' \<noteq> ''sl_abcSECRETSECRETSECRETSECRETwxyz''"
proof -
  let ?a = "''sl_abcSECRETSECRETSECRETSECRETwxyz''"
  let ?b = "''sl_abcPUBLICPUBLICPUBLICPUBLICwxyz''"
  have "maskApiKey ?a = maskApiKey ?b \<and> (length ?a \<noteq> 13 \<longrightarrow> maskApiKey ?a \<noteq> ?a)"
    by (rule maskApiKey_hides) simp_all
  moreover have "length ?a \<noteq> 13" by simp
  ultimately show ?thesis by blast
qed

end
