(* ===== verification/SdkWorld.thy ===== *)
theory SdkWorld
  imports SdkAuth
begin

text \<open>
  The platform the SDK runs on, as far as the code uses it: \<open>fetch\<close>, timers, abort signals,
  the console. What is outside the program is the record \<open>env\<close>: the answers of the network,
  the generated request ids, and \<open>JSON.parse\<close> (a value, or the message of its
  \<open>SyntaxError\<close>). Every theorem holds for every \<open>env\<close>.

  The world counts the calls of \<open>fetch\<close>, keeps a clock in milliseconds, and records what the
  program did, in order.
\<close>

section \<open>The network\<close>

text \<open>
  A response body, read to its end: its text, or the error its reading fails with. The headers of
  a response come first; its body ends \<open>r_bodyLatency\<close> later, or never.
\<close>

datatype http_body = BodyText string | BodyFail string string

text \<open>One \<open>reader.read()\<close> of a streamed body: decoded text, or a failure; the end of the list is
  \<open>done\<close>.\<close>

datatype read_step = RChunk string | RFail string string

record http_response =
  r_status :: int
  r_contentType :: "string option"
  r_body :: http_body
  r_bodyLatency :: "nat option"
  r_stream :: "read_step list option"

text \<open>\<open>Response.ok\<close>\<close>

definition r_ok :: "http_response \<Rightarrow> bool" where
  "r_ok r \<longleftrightarrow> 200 \<le> r_status r \<and> r_status r \<le> 299"

datatype fetch_outcome = FReject string string | FRespond http_response

text \<open>The answer to one call of \<open>fetch\<close>; \<open>None\<close> as latency means that it never comes.\<close>

record net_answer =
  latency :: "nat option"
  outcome :: fetch_outcome

record env =
  net :: "nat \<Rightarrow> net_answer"
  request_id :: "nat \<Rightarrow> string"
  json_parse :: "string \<Rightarrow> string + js"

record http_request =
  q_method :: string
  q_url :: string
  q_headers :: "(string \<times> string) list"
  q_body :: "js option"

section \<open>The world\<close>

datatype event =
    EvLog string js
  | EvWarn string thrown
  | EvSleep nat
  | EvFetch http_request
  | EvChunk js
  | EvReleaseLock
  | EvNext
  | EvStatus int
  | EvJson js
  | EvClassified js string
  | EvPolicyApplied js
  | EvBlocked js
  | EvAudit js

record world =
  clock :: nat
  calls :: nat
  trace :: "event list"

type_synonym 'a sdk = "(thrown, world, 'a) io"

definition emit :: "event \<Rightarrow> 'a world_scheme \<Rightarrow> 'a world_scheme" where
  "emit ev w = w\<lparr>trace := trace w @ [ev]\<rparr>"

section \<open>Timers and fetch\<close>

text \<open>The delay \<open>setTimeout\<close> uses in Node: a value outside 1 .. 2^31 - 1 becomes 1.\<close>

definition timer_ms :: "nat \<Rightarrow> nat" where
  "timer_ms ms = (if 1 \<le> ms \<and> ms \<le> 2147483647 then ms else 1)"

text \<open>
  A wait that a signal can interrupt, for \<open>fetch\<close> and for reading a body: a signal that has
  aborted by the time of the call, or aborts before the answer comes, rejects the promise with
  its reason; otherwise the answer decides, if there is one.
\<close>

definition await_signal :: "abort_signal \<Rightarrow> nat option \<Rightarrow> thrown + 'a \<Rightarrow> 'a sdk" where
  "await_signal sig lat res w =
     (let aborted = (\<lambda>t. Some (Inl (Native (abort_name sig) (abort_message sig)),
                               w\<lparr>clock := max (clock w) t\<rparr>));
          answered = (\<lambda>l. Some (res, w\<lparr>clock := clock w + l\<rparr>))
      in case (abort_at sig, lat) of
           (None, None) \<Rightarrow> None
         | (None, Some l) \<Rightarrow> answered l
         | (Some t, None) \<Rightarrow> aborted t
         | (Some t, Some l) \<Rightarrow>
             (if t \<le> clock w \<or> t < clock w + l then aborted t else answered l))"

fun fetch_result :: "fetch_outcome \<Rightarrow> thrown + http_response" where
  "fetch_result (FReject n m) = Inl (Native n m)"
| "fetch_result (FRespond r) = Inr r"

definition do_fetch :: "env \<Rightarrow> abort_signal \<Rightarrow> http_request \<Rightarrow> http_response sdk" where
  "do_fetch e sig rq w =
     (let ans = net e (calls w)
      in await_signal sig (latency ans) (fetch_result (outcome ans))
           (emit (EvFetch rq) (w\<lparr>calls := Suc (calls w)\<rparr>)))"

fun body_result :: "http_body \<Rightarrow> thrown + string" where
  "body_result (BodyText t) = Inr t"
| "body_result (BodyFail n m) = Inl (Native n m)"

definition read_body :: "abort_signal \<Rightarrow> http_response \<Rightarrow> string sdk" where
  "read_body sig r = await_signal sig (r_bodyLatency r) (body_result (r_body r))"

definition sleep :: "nat \<Rightarrow> unit sdk" where
  "sleep ms w =
     Some (Inr (), emit (EvSleep ms) (w\<lparr>clock := clock w + timer_ms ms\<rparr>))"

definition log :: "string \<Rightarrow> js \<Rightarrow> unit sdk" where
  "log msg data = modify_io (emit (EvLog msg data))"

section \<open>Histories only grow\<close>

text \<open>
  A client of this theory's operations can rely on this much of every computation: the trace is
  extended, time and the number of calls do not go back.
\<close>

definition later :: "world \<Rightarrow> world \<Rightarrow> bool" where
  "later w w' \<longleftrightarrow>
     (\<exists>evs. trace w' = trace w @ evs) \<and> clock w \<le> clock w' \<and> calls w \<le> calls w'"

definition progressive :: "'a sdk \<Rightarrow> bool" where
  "progressive m \<longleftrightarrow> (\<forall>w r w'. m w = Some (r, w') \<longrightarrow> later w w')"

lemma later_refl [simp, intro]: "later w w"
  by (simp add: later_def)

lemma later_trans [trans]: "later a b \<Longrightarrow> later b c \<Longrightarrow> later a c"
  by (auto simp: later_def)

lemma later_emit [simp, intro]: "later w (emit ev w)"
  by (auto simp: later_def emit_def)

lemma emit_simps [simp]:
  "trace (emit ev w) = trace w @ [ev]" "clock (emit ev w) = clock w" "calls (emit ev w) = calls w"
  by (simp_all add: emit_def)

lemma progressiveI: "(\<And>w r w'. m w = Some (r, w') \<Longrightarrow> later w w') \<Longrightarrow> progressive m"
  by (simp add: progressive_def)

lemma progressiveD: "progressive m \<Longrightarrow> m w = Some (r, w') \<Longrightarrow> later w w'"
  by (simp add: progressive_def)

lemma progressive_ret [intro, simp]: "progressive (ret x)"
  by (auto simp: progressive_def io_simps)

lemma progressive_throw [intro, simp]: "progressive (throw x)"
  by (auto simp: progressive_def io_simps)

lemma progressive_lift [intro, simp]: "progressive (lift_sum x)"
  by (auto simp: progressive_def io_simps)

lemma progressive_bind [intro]:
  "progressive m \<Longrightarrow> (\<And>x. progressive (f x)) \<Longrightarrow> progressive (bind_io m f)"
  by (rule progressiveI) (auto elim!: bind_io_cases dest: progressiveD intro: later_trans)

lemma progressive_then [intro]:
  "progressive m \<Longrightarrow> progressive n \<Longrightarrow> progressive (then_io m n)"
  by (simp add: then_io_def progressive_bind)

lemma progressive_catch [intro]:
  "progressive m \<Longrightarrow> (\<And>x. progressive (h x)) \<Longrightarrow> progressive (catch_io m h)"
  unfolding progressive_def catch_io_def
  by (auto split: option.splits sum.splits) (meson later_trans)

lemma progressive_modify: "(\<And>w. later w (f w)) \<Longrightarrow> progressive (modify_io f)"
  by (auto simp: progressive_def io_simps)

lemma progressive_when [intro]: "progressive m \<Longrightarrow> progressive (when_io b m)"
  by (simp add: when_io_def)

lemma progressive_finally [intro]:
  "progressive m \<Longrightarrow> (\<And>w. later w (f w)) \<Longrightarrow> progressive (finally_io m f)"
  by (rule progressiveI)
    (auto simp: finally_io_def split: option.splits dest: progressiveD intro: later_trans)

lemma progressive_log [intro, simp]: "progressive (log m d)"
  by (simp add: log_def progressive_modify)

lemma progressive_sleep [intro, simp]: "progressive (sleep ms)"
  by (auto simp: progressive_def sleep_def later_def)

lemma await_signal_later: "await_signal sig lat res w = Some (r, w') \<Longrightarrow> later w w'"
  by (auto simp: await_signal_def later_def Let_def split: option.splits if_splits)

lemma progressive_await [intro, simp]: "progressive (await_signal sig lat res)"
  by (rule progressiveI) (rule await_signal_later)

lemma later_call [simp, intro]: "later w (emit ev (w\<lparr>calls := Suc (calls w)\<rparr>))"
  by (auto simp: later_def)

lemma do_fetch_later: "do_fetch e sig rq w = Some (r, w') \<Longrightarrow> later w w'"
  unfolding do_fetch_def Let_def by (blast dest: await_signal_later intro: later_trans)

lemma progressive_read_body [intro, simp]: "progressive (read_body sig r)"
  by (simp add: read_body_def)

lemma progressive_fetch [intro, simp]: "progressive (do_fetch e sig rq)"
  by (rule progressiveI) (rule do_fetch_later)

section \<open>When a wait ends\<close>

text \<open>A wait changes nothing but the clock.\<close>

lemma await_signal_frame:
  "await_signal sig lat res w = Some (r, w') \<Longrightarrow> trace w' = trace w \<and> calls w' = calls w"
  by (auto simp: await_signal_def Let_def split: option.splits if_splits)

lemma await_signal_result:
  "await_signal sig lat res w = Some (r, w') \<Longrightarrow>
   r = res \<or> r = Inl (Native (abort_name sig) (abort_message sig))"
  by (auto simp: await_signal_def Let_def split: option.splits if_splits)

text \<open>An abort that comes bounds the wait, whatever the other side does.\<close>

lemma await_signal_bounded:
  assumes "abort_at sig = Some t" and "clock w \<le> t"
  shows "\<exists>r w'. await_signal sig lat res w = Some (r, w') \<and> clock w' \<le> t"
  using assms by (auto simp: await_signal_def Let_def split: option.splits)

lemma await_signal_answered:
  "abort_at sig = None \<Longrightarrow> await_signal sig (Some l) res w = Some (res, w\<lparr>clock := clock w + l\<rparr>)"
  by (simp add: await_signal_def)

text \<open>A signal that never aborts leaves the wait to the other side.\<close>

lemma await_signal_hangs_iff:
  "await_signal sig lat res w = None \<longleftrightarrow> abort_at sig = None \<and> lat = None"
  by (auto simp: await_signal_def Let_def split: option.splits)

text \<open>A signal that has aborted rejects at once.\<close>

lemma await_signal_aborted:
  "abort_at sig = Some t \<Longrightarrow> t \<le> clock w \<Longrightarrow>
   await_signal sig lat res w = Some (Inl (Native (abort_name sig) (abort_message sig)), w)"
  by (auto simp: await_signal_def Let_def max_def split: option.splits)

end
