(* ===== verification/SdkClient.thy ===== *)
theory SdkClient
  imports SdkWorld
begin

text \<open>
  \<open>sdk/node/src/client.ts\<close>: the HTTP client. One request is a loop of attempts
  (\<open>request_loop\<close>), each a \<open>fetch\<close> with a timeout (\<open>executeRequest\<close>), with a delay that doubles
  between them. The loop is a \<open>partial_function\<close>: an attempt may hang, and with infinitely many
  retries the loop itself may not end; \<open>None\<close> is both, and the theorems say when it does not
  happen.
\<close>

section \<open>The client\<close>

definition DEFAULT_BASE_URL :: string where
  "DEFAULT_BASE_URL = ''https://api.securelens.ai''"

definition DEFAULT_TIMEOUT :: nat where
  "DEFAULT_TIMEOUT = 30000"

definition DEFAULT_RETRIES :: jsnum where
  "DEFAULT_RETRIES = Fin 3"

definition RETRY_DELAY_BASE :: nat where
  "RETRY_DELAY_BASE = 1000"

record SecureLensClient =
  cl_apiKey :: string
  cl_tenantId :: "string option"
  cl_baseUrl :: string
  cl_timeout :: nat
  cl_retries :: jsnum
  cl_debug :: bool
  cl_auth :: AuthContext

fun opt_default :: "'a \<Rightarrow> 'a option \<Rightarrow> 'a" where
  "opt_default d None = d"
| "opt_default d (Some x) = x"

definition resolve_config :: "SecureLensConfig \<Rightarrow> AuthContext \<Rightarrow> SecureLensClient" where
  "resolve_config config a =
     \<lparr>cl_apiKey = cfg_apiKey config,
      cl_tenantId = cfg_tenantId config,
      cl_baseUrl = opt_default DEFAULT_BASE_URL (cfg_baseUrl config),
      cl_timeout = opt_default DEFAULT_TIMEOUT (cfg_timeout config),
      cl_retries = opt_default DEFAULT_RETRIES (cfg_retries config),
      cl_debug = opt_default False (cfg_debug config),
      cl_auth = a\<rparr>"

definition new_SecureLensClient :: "SecureLensConfig \<Rightarrow> SecureLensClient sdk" where
  "new_SecureLensClient config =
     bind_io (lift_sum (createAuthContext (cfg_apiKey config) (cfg_tenantId config))) (\<lambda>a.
       let c = resolve_config config a
       in then_io
            (when_io (cl_debug c)
               (log ''Client initialized''
                  (JObj [(''baseUrl'', JStr (cl_baseUrl c)),
                         (''apiKey'', JStr (maskApiKey (cfg_apiKey config))),
                         (''tenantId'', js_of_opt JStr (cfg_tenantId config))])))
            (ret c))"

definition getBaseUrl :: "SecureLensClient \<Rightarrow> string" where
  "getBaseUrl c = cl_baseUrl c"

definition getTenantId :: "SecureLensClient \<Rightarrow> string option" where
  "getTenantId c = cl_tenantId c"

section \<open>One attempt\<close>

definition is_json_type :: "string option \<Rightarrow> bool" where
  "is_json_type ct \<longleftrightarrow> (case ct of Some s \<Rightarrow> str_includes s ''application/json'' | None \<Rightarrow> False)"

definition parse_text :: "env \<Rightarrow> string \<Rightarrow> thrown + js" where
  "parse_text e t =
     (case json_parse e t of Inl m \<Rightarrow> Inl (Native ''SyntaxError'' m) | Inr v \<Rightarrow> Inr v)"

definition parseResponse :: "env \<Rightarrow> abort_signal \<Rightarrow> http_response \<Rightarrow> js sdk" where
  "parseResponse e sig r =
     bind_io (read_body sig r) (\<lambda>t.
       if is_json_type (r_contentType r) then lift_sum (parse_text e t)
       else ret (case parse_text e t of
                   Inr v \<Rightarrow> v
                 | Inl _ \<Rightarrow> JObj [(''message'', JStr t)]))"

definition request_headers ::
  "SecureLensClient \<Rightarrow> RequestOptions option \<Rightarrow> string \<Rightarrow> (string \<times> string) list" where
  "request_headers c opts rid =
     assoc_put ''X-Request-ID'' rid
       (assoc_spread (ac_headers (cl_auth c))
          (case opts of Some o' \<Rightarrow> opt_headers o' | None \<Rightarrow> []))"

definition user_signal :: "RequestOptions option \<Rightarrow> abort_signal option" where
  "user_signal opts = (case opts of Some o' \<Rightarrow> opt_signal o' | None \<Rightarrow> None)"

text \<open>\<open>options?.signal ?? controller.signal\<close>, while the timer of the controller runs\<close>

definition fetch_signal :: "RequestOptions option \<Rightarrow> nat \<Rightarrow> nat \<Rightarrow> abort_signal" where
  "fetch_signal opts now timeout =
     (case user_signal opts of
        Some s \<Rightarrow> s
      | None \<Rightarrow> \<lparr>abort_at = Some (now + timer_ms timeout), abort_name = ''AbortError'',
              abort_message = ''This operation was aborted''\<rparr>)"

text \<open>The same signal once \<open>clearTimeout\<close> has run: the controller no longer aborts.\<close>

definition body_signal :: "RequestOptions option \<Rightarrow> abort_signal" where
  "body_signal opts =
     (case user_signal opts of
        Some s \<Rightarrow> s
      | None \<Rightarrow> \<lparr>abort_at = None, abort_name = ''AbortError'',
              abort_message = ''This operation was aborted''\<rparr>)"

fun request_failure :: "string \<Rightarrow> nat \<Rightarrow> thrown \<Rightarrow> thrown" where
  "request_failure rid timeout (SL e) = SL e"
| "request_failure rid timeout (Native n m) =
     (if n = ''AbortError'' then
        SL (new_SecureLensTimeoutError
              (JStr (''Request timed out after '' @ nat_str timeout @ ''ms'')) (Some timeout)
              (no_options\<lparr>o_requestId := Given (Some rid)\<rparr>))
      else
        SL (new_SecureLensConnectionError (JStr (''Failed to connect: '' @ m)) (Some True)
              (no_options\<lparr>o_requestId := Given (Some rid), o_cause := Given (Some (JErr n m))\<rparr>)))"

definition executeRequest ::
  "env \<Rightarrow> SecureLensClient \<Rightarrow> string \<Rightarrow> string \<Rightarrow> js \<Rightarrow> nat \<Rightarrow> RequestOptions option \<Rightarrow> js sdk" where
  "executeRequest e c method url body timeout opts w =
     (let rid = request_id e (calls w);
          rq = \<lparr>q_method = method, q_url = url, q_headers = request_headers c opts rid,
                q_body = (if truthy body then Some (json_view body) else None)\<rparr>
      in then_io
           (when_io (cl_debug c) (log (method @ '' '' @ url) (JObj [(''requestId'', JStr rid)])))
           (catch_io
              (bind_io (do_fetch e (fetch_signal opts (clock w) timeout) rq) (\<lambda>r.
               bind_io (parseResponse e (body_signal opts) r) (\<lambda>b.
                 if \<not> r_ok r then throw (SL (parseApiError (r_status r) b (Some rid)))
                 else then_io
                        (when_io (cl_debug c)
                           (log (''Response '' @ int_str (r_status r))
                                (JObj [(''requestId'', JStr rid)])))
                        (ret b))))
              (\<lambda>err. throw (request_failure rid timeout err))) w)"

section \<open>The retry loop\<close>

definition retry_delay :: "SecureLensClient \<Rightarrow> nat \<Rightarrow> unit sdk" where
  "retry_delay c attempt =
     (if attempt > 0 then
        (let delay = RETRY_DELAY_BASE * 2 ^ (attempt - 1)
         in then_io
              (when_io (cl_debug c)
                 (log (''Retry attempt '' @ nat_str attempt @ '' after '' @ nat_str delay @ ''ms'')
                      JUndef))
              (sleep delay))
      else ret ())"

definition attempt_once ::
  "env \<Rightarrow> SecureLensClient \<Rightarrow> string \<Rightarrow> string \<Rightarrow> js \<Rightarrow> nat \<Rightarrow> RequestOptions option \<Rightarrow> nat \<Rightarrow> js sdk" where
  "attempt_once e c method url body timeout opts attempt =
     then_io (retry_delay c attempt) (executeRequest e c method url body timeout opts)"

fun thrown_message :: "thrown \<Rightarrow> js" where
  "thrown_message (SL e) = e_message e"
| "thrown_message (Native n m) = JStr m"

definition log_failed :: "SecureLensClient \<Rightarrow> thrown \<Rightarrow> world \<Rightarrow> world" where
  "log_failed c err w =
     (if cl_debug c
      then emit (EvLog ''Request failed, will retry'' (JObj [(''error'', thrown_message err)])) w
      else w)"

definition unknown_failure :: thrown where
  "unknown_failure = SL (new_SecureLensError (JStr ''Request failed'') ''UNKNOWN_ERROR'' no_options)"

partial_function (option) request_loop ::
  "env \<Rightarrow> SecureLensClient \<Rightarrow> string \<Rightarrow> string \<Rightarrow> js \<Rightarrow> nat \<Rightarrow> RequestOptions option \<Rightarrow> nat
   \<Rightarrow> thrown option \<Rightarrow> world \<Rightarrow> ((thrown + js) \<times> world) option" where
  "request_loop e c method url body timeout opts attempt lastError w =
     (if num_le (num_of_nat attempt) (cl_retries c) then
        (case attempt_once e c method url body timeout opts attempt w of
           None \<Rightarrow> None
         | Some (r, w1) \<Rightarrow>
             (case r of
                Inr v \<Rightarrow> Some (Inr v, w1)
              | Inl err \<Rightarrow>
                  (if \<not> isRetryableError err \<or> num_eq (num_of_nat attempt) (cl_retries c)
                   then Some (Inl err, w1)
                   else request_loop e c method url body timeout opts (Suc attempt) (Some err)
                          (log_failed c err w1))))
      else Some (Inl (opt_default unknown_failure lastError), w))"

definition request_timeout :: "SecureLensClient \<Rightarrow> RequestOptions option \<Rightarrow> nat" where
  "request_timeout c opts =
     (case opts of Some o' \<Rightarrow> opt_default (cl_timeout c) (opt_timeout o') | None \<Rightarrow> cl_timeout c)"

definition request ::
  "env \<Rightarrow> SecureLensClient \<Rightarrow> string \<Rightarrow> string \<Rightarrow> js \<Rightarrow> RequestOptions option \<Rightarrow> js sdk" where
  "request e c method path body opts =
     request_loop e c method (cl_baseUrl c @ path) body (request_timeout c opts) opts 0 None"

definition client_get :: "env \<Rightarrow> SecureLensClient \<Rightarrow> string \<Rightarrow> RequestOptions option \<Rightarrow> js sdk" where
  "client_get e c path opts = request e c ''GET'' path JUndef opts"

definition client_post ::
  "env \<Rightarrow> SecureLensClient \<Rightarrow> string \<Rightarrow> js \<Rightarrow> RequestOptions option \<Rightarrow> js sdk" where
  "client_post e c path body opts = request e c ''POST'' path body opts"

definition client_put ::
  "env \<Rightarrow> SecureLensClient \<Rightarrow> string \<Rightarrow> js \<Rightarrow> RequestOptions option \<Rightarrow> js sdk" where
  "client_put e c path body opts = request e c ''PUT'' path body opts"

definition client_delete ::
  "env \<Rightarrow> SecureLensClient \<Rightarrow> string \<Rightarrow> RequestOptions option \<Rightarrow> js sdk" where
  "client_delete e c path opts = request e c ''DELETE'' path JUndef opts"

definition client_health :: "env \<Rightarrow> SecureLensClient \<Rightarrow> js sdk" where
  "client_health e c = client_get e c ''/health'' None"

end
