(* ===== verification/SdkRetry.thy ===== *)
theory SdkRetry
  imports SdkClient
begin

text \<open>
  What one request of the client does: how many times it calls \<open>fetch\<close>, how long it sleeps between
  the calls, when it returns, and which errors it can end with. The properties that the gate,
  the middleware and the LangChain handler rely on are stated as the locale \<open>api_call\<close> and
  proved for the client's own requests.
\<close>

section \<open>Counting effects\<close>

text \<open>A move of the program: it sleeps that many milliseconds, or it calls \<open>fetch\<close>.\<close>

datatype move = Slept nat | Fetched

fun moves :: "event list \<Rightarrow> move list" where
  "moves [] = []"
| "moves (EvSleep ms # evs) = Slept ms # moves evs"
| "moves (EvFetch rq # evs) = Fetched # moves evs"
| "moves (_ # evs) = moves evs"

lemma moves_append [simp]: "moves (a @ b) = moves a @ moves b"
  by (induction a rule: moves.induct) auto

text \<open>The events of the client itself: it logs, sleeps and fetches.\<close>

fun client_event :: "event \<Rightarrow> bool" where
  "client_event (EvLog _ _) = True"
| "client_event (EvSleep _) = True"
| "client_event (EvFetch _) = True"
| "client_event _ = False"

text \<open>From \<open>w\<close> to \<open>w'\<close> the program made the moves \<open>ms\<close>, in this order, and did nothing else but log.\<close>

definition effect :: "world \<Rightarrow> world \<Rightarrow> move list \<Rightarrow> bool" where
  "effect w w' ms \<longleftrightarrow>
     (\<exists>evs. trace w' = trace w @ evs \<and> moves evs = ms \<and> list_all client_event evs)
     \<and> calls w' = calls w + count_list ms Fetched \<and> clock w \<le> clock w'"

lemma effect_refl [simp]: "effect w w []"
  by (simp add: effect_def)

lemma effect_trans:
  "effect a b m1 \<Longrightarrow> effect b c m2 \<Longrightarrow> effect a c (m1 @ m2)"
  by (fastforce simp: effect_def)

lemma effect_cong_right:
  "effect a b ms \<Longrightarrow> trace c = trace b \<and> calls c = calls b \<and> clock b \<le> clock c \<Longrightarrow> effect a c ms"
  by (simp add: effect_def)

lemma effect_log: "effect w (emit (EvLog m d) w) []"
  by (simp add: effect_def)

lemma effect_fetch: "effect w (emit (EvFetch rq) (w\<lparr>calls := Suc (calls w)\<rparr>)) [Fetched]"
  by (simp add: effect_def)

lemma log_run: "log m d w = Some (Inr (), emit (EvLog m d) w)"
  by (simp add: log_def io_simps)

lemma when_log_run:
  "\<exists>w1. when_io b (log m d) w = Some (Inr (), w1) \<and> effect w w1 [] \<and> clock w1 = clock w
        \<and> calls w1 = calls w"
  by (simp add: when_io_def log_run ret_def effect_log)

lemma log_failed_effect:
  "effect w (log_failed c err w) []" "clock (log_failed c err w) = clock w"
  by (simp_all add: log_failed_def effect_log)

section \<open>The delay before an attempt\<close>

definition backoff :: "nat \<Rightarrow> nat" where
  "backoff i = RETRY_DELAY_BASE * 2 ^ i"

text \<open>The moves of the \<open>k\<close> attempts from number \<open>a\<close> on: each but the first of all sleeps, then fetches.\<close>

definition attempt_moves :: "nat \<Rightarrow> move list" where
  "attempt_moves a = (if a > 0 then [Slept (backoff (a - 1))] else []) @ [Fetched]"

definition attempts :: "nat \<Rightarrow> nat \<Rightarrow> move list" where
  "attempts a k = concat (map attempt_moves [a..<a + k])"

lemma attempts_0 [simp]: "attempts a 0 = []"
  by (simp add: attempts_def)

lemma attempts_Suc: "attempts a (Suc k) = attempt_moves a @ attempts (Suc a) k"
proof -
  have "[a..<a + Suc k] = a # [Suc a..<Suc a + k]" by (simp add: upt_conv_Cons del: upt_Suc)
  then show ?thesis by (simp add: attempts_def del: upt_Suc)
qed

lemma attempts_from_0:
  "attempts 0 (Suc k) = Fetched # concat (map (\<lambda>i. [Slept (backoff i), Fetched]) [0..<k])"
proof -
  have "attempts 0 (Suc k) = attempt_moves 0 @ concat (map attempt_moves (map Suc [0..<k]))"
    by (simp add: attempts_def upt_conv_Cons map_Suc_upt del: upt_Suc map_map)
  then show ?thesis by (simp add: attempt_moves_def comp_def)
qed

lemma retry_delay_run:
  "\<exists>w1. retry_delay c a w = Some (Inr (), w1)
      \<and> effect w w1 (if a > 0 then [Slept (backoff (a - 1))] else [])
      \<and> clock w1 = clock w + (if a > 0 then timer_ms (backoff (a - 1)) else 0)"
proof (cases "a > 0")
  case True
  obtain w0 where w0: "when_io (cl_debug c) (log (''Retry attempt '' @ nat_str a @ '' after ''
                @ nat_str (backoff (a - 1)) @ ''ms'') JUndef) w = Some (Inr (), w0)"
      "effect w w0 []" "clock w0 = clock w"
    using when_log_run by blast
  let ?w1 = "emit (EvSleep (backoff (a - 1))) (w0\<lparr>clock := clock w0 + timer_ms (backoff (a - 1))\<rparr>)"
  from True w0(1) have "retry_delay c a w = Some (Inr (), ?w1)"
    by (simp add: retry_delay_def then_io_def bind_io_def sleep_def backoff_def Let_def)
  moreover have "effect w0 ?w1 [Slept (backoff (a - 1))]" by (simp add: effect_def)
  ultimately show ?thesis using True effect_trans [OF w0(2)] w0(3) by fastforce
next
  case False
  then show ?thesis by (simp add: retry_delay_def ret_def)
qed

section \<open>One attempt\<close>

text \<open>The part of \<open>executeRequest\<close> inside its \<open>try\<close>.\<close>

definition attempt_body ::
  "env \<Rightarrow> SecureLensClient \<Rightarrow> abort_signal \<Rightarrow> abort_signal \<Rightarrow> string \<Rightarrow> http_request \<Rightarrow> js sdk" where
  "attempt_body e c sig bsig rid rq =
     bind_io (do_fetch e sig rq) (\<lambda>r.
     bind_io (parseResponse e bsig r) (\<lambda>b.
       if \<not> r_ok r then throw (SL (parseApiError (r_status r) b (Some rid)))
       else then_io (when_io (cl_debug c)
                       (log (''Response '' @ int_str (r_status r))
                            (JObj [(''requestId'', JStr rid)])))
                    (ret b)))"

definition attempt_request ::
  "env \<Rightarrow> SecureLensClient \<Rightarrow> string \<Rightarrow> string \<Rightarrow> js \<Rightarrow> RequestOptions option \<Rightarrow> nat \<Rightarrow> http_request" where
  "attempt_request e c meth addr body opts k =
     \<lparr>q_method = meth, q_url = addr, q_headers = request_headers c opts (request_id e k),
      q_body = (if truthy body then Some (json_view body) else None)\<rparr>"

lemma executeRequest_run:
  obtains w0 where "effect w w0 []" "clock w0 = clock w"
    "executeRequest e c meth addr body timeout opts w =
       catch_io (attempt_body e c (fetch_signal opts (clock w) timeout) (body_signal opts)
                   (request_id e (calls w)) (attempt_request e c meth addr body opts (calls w)))
         (\<lambda>err. throw (request_failure (request_id e (calls w)) timeout err)) w0"
proof -
  obtain w0 where "when_io (cl_debug c) (log (meth @ '' '' @ addr)
        (JObj [(''requestId'', JStr (request_id e (calls w)))])) w = Some (Inr (), w0)"
      "effect w w0 []" "clock w0 = clock w"
    using when_log_run by blast
  then show ?thesis
    by (intro that) (simp_all add: executeRequest_def attempt_body_def attempt_request_def Let_def
          then_io_def bind_io_def)
qed

lemma read_body_frame:
  "read_body sig r w = Some (x, w') \<Longrightarrow> trace w' = trace w \<and> calls w' = calls w \<and> clock w \<le> clock w'"
  unfolding read_body_def using await_signal_frame await_signal_later
  by (fastforce simp: later_def)

lemma do_fetch_effect:
  assumes "do_fetch e sig rq w = Some (x, w')"
  shows "effect w w' [Fetched]"
proof -
  have "trace w' = trace w @ [EvFetch rq] \<and> calls w' = Suc (calls w)"
    using assms by (auto simp: do_fetch_def Let_def dest!: await_signal_frame)
  with do_fetch_later [OF assms] show ?thesis by (simp add: effect_def later_def)
qed

lemma parseResponse_frame:
  "parseResponse e sig r w = Some (x, w') \<Longrightarrow>
   trace w' = trace w \<and> calls w' = calls w \<and> clock w \<le> clock w'"
  unfolding parseResponse_def
  by (auto elim!: bind_io_cases dest: read_body_frame simp: lift_sum_def ret_def split: if_splits)

lemma attempt_body_effect:
  assumes "attempt_body e c sig bsig rid rq w = Some (r, w')"
  shows "effect w w' [Fetched]"
  using assms unfolding attempt_body_def
proof (cases rule: bind_io_cases)
  case (threw err)
  then show ?thesis by (blast dest: do_fetch_effect)
next
  case (went resp w1)
  from went(1) have "effect w w1 [Fetched]" by (rule do_fetch_effect)
  moreover from went(2) have "effect w1 w' []"
  proof (cases rule: bind_io_cases)
    case (threw err)
    then show ?thesis
      by (blast dest: parseResponse_frame intro: effect_cong_right [OF effect_refl])
  next
    case (went b w2)
    from went(1) have "effect w1 w2 []"
      by (blast dest: parseResponse_frame intro: effect_cong_right [OF effect_refl])
    moreover from went(2) have "effect w2 w' []"
      by (auto simp: throw_def then_io_def bind_io_def when_io_def log_run ret_def effect_log
            split: if_splits)
    ultimately show ?thesis using effect_trans by fastforce
  qed
  ultimately show ?thesis using effect_trans by fastforce
qed

lemma request_failure_SL [simp]: "isSecureLensError (request_failure rid t err)"
  by (cases err) simp_all

lemma catch_throw_cases:
  assumes "catch_io m (\<lambda>e. throw (f e)) w = Some (r, w')"
  obtains e where "m w = Some (Inl e, w')" "r = Inl (f e)"
  | x where "m w = Some (Inr x, w')" "r = Inr x"
  using assms by (auto simp: catch_io_def throw_def split: option.splits sum.splits)

lemma executeRequest_effect:
  assumes "executeRequest e c meth addr body timeout opts w = Some (r, w')"
  shows "effect w w' [Fetched] \<and> (\<forall>t. r = Inl t \<longrightarrow> isSecureLensError t)"
proof -
  obtain w0 where w0: "effect w w0 []"
    "executeRequest e c meth addr body timeout opts w =
       catch_io (attempt_body e c (fetch_signal opts (clock w) timeout) (body_signal opts)
                   (request_id e (calls w)) (attempt_request e c meth addr body opts (calls w)))
         (\<lambda>err. throw (request_failure (request_id e (calls w)) timeout err)) w0"
    by (rule executeRequest_run)
  from assms [unfolded w0(2)] have "effect w0 w' [Fetched] \<and> (\<forall>t. r = Inl t \<longrightarrow> isSecureLensError t)"
    by (cases rule: catch_throw_cases) (auto dest: attempt_body_effect)
  with effect_trans [OF w0(1)] show ?thesis by fastforce
qed

lemma attempt_once_effect:
  assumes "attempt_once e c meth addr body timeout opts a w = Some (r, w')"
  shows "effect w w' (attempt_moves a)
         \<and> (\<forall>t. r = Inl t \<longrightarrow> isSecureLensError t)"
proof -
  obtain w1 where w1: "retry_delay c a w = Some (Inr (), w1)"
    "effect w w1 (if a > 0 then [Slept (backoff (a - 1))] else [])"
    using retry_delay_run by blast
  with assms have "executeRequest e c meth addr body timeout opts w1 = Some (r, w')"
    by (simp add: attempt_once_def then_io_def bind_io_def)
  from executeRequest_effect [OF this] effect_trans [OF w1(2)] show ?thesis
    unfolding attempt_moves_def by blast
qed

section \<open>The loop\<close>

text \<open>
  What the loop, entered at attempt \<open>a\<close>, has done when it ends: it slept the delays of the attempts
  it made, called \<open>fetch\<close> once for each, made at least one if attempt \<open>a\<close> is allowed, and threw
  only errors of the SDK.
\<close>

definition loop_post ::
  "SecureLensClient \<Rightarrow> nat \<Rightarrow> thrown option \<Rightarrow> world \<Rightarrow> (thrown + js) \<times> world \<Rightarrow> bool" where
  "loop_post c a prev w out \<longleftrightarrow>
     (\<exists>k. effect w (snd out) (attempts a k) \<and> (num_le (num_of_nat a) (cl_retries c) \<longrightarrow> 0 < k)
          \<and> (\<forall>i<k. num_le (num_of_nat (a + i)) (cl_retries c)))
     \<and> ((\<forall>t. prev = Some t \<longrightarrow> isSecureLensError t) \<longrightarrow>
          (\<forall>t. fst out = Inl t \<longrightarrow> isSecureLensError t))"

lemma loop_post_exhausted:
  "\<not> num_le (num_of_nat a) (cl_retries c) \<Longrightarrow>
   loop_post c a prev w (Inl (opt_default unknown_failure prev), w)"
  by (cases prev) (auto simp: loop_post_def unknown_failure_def intro!: exI [of _ 0])

lemma loop_post_stop:
  assumes "attempt_once e c meth addr body timeout opts a w = Some out"
    and "num_le (num_of_nat a) (cl_retries c)"
  shows "loop_post c a prev w out"
  using attempt_once_effect [of e c meth addr body timeout opts a w "fst out" "snd out"] assms
  by (auto simp: loop_post_def attempts_Suc intro!: exI [of _ 1])

lemma loop_post_again:
  assumes "attempt_once e c meth addr body timeout opts a w = Some (Inl err, w1)"
    and "num_le (num_of_nat a) (cl_retries c)"
    and "loop_post c (Suc a) (Some err) (log_failed c err w1) out"
  shows "loop_post c a prev w out"
proof -
  note eff = attempt_once_effect [OF assms(1)]
  obtain k where k: "effect (log_failed c err w1) (snd out) (attempts (Suc a) k)"
    and le: "\<forall>i<k. num_le (num_of_nat (Suc a + i)) (cl_retries c)"
    using assms(3) by (auto simp: loop_post_def)
  have "\<forall>i<Suc k. num_le (num_of_nat (a + i)) (cl_retries c)"
    using assms(2) le by (auto simp: less_Suc_eq_0_disj ac_simps)
  moreover
  have "effect w (snd out) (attempts a (Suc k))"
    using effect_trans [OF effect_trans [OF conjunct1 [OF eff] log_failed_effect(1)] k]
    by (simp add: attempts_Suc)
  ultimately show ?thesis
    using assms(3) eff unfolding loop_post_def by (auto intro!: exI [of _ "Suc k"])
qed

lemma request_loop_post:
  assumes "request_loop e c meth addr body timeout opts a prev w = Some out"
  shows "loop_post c a prev w out"
proof (rule request_loop.raw_induct
    [where P = "\<lambda>e c meth addr body timeout opts a prev w out. loop_post c a prev w out", OF _ assms])
  fix loop e c meth addr body timeout opts a prev w out
  assume IH: "\<And>e c meth addr body timeout opts a prev w out.
      loop e c meth addr body timeout opts a prev w = Some out \<Longrightarrow> loop_post c a prev w out"
    and eq: "(if num_le (num_of_nat a) (cl_retries c) then
        (case attempt_once e c meth addr body timeout opts a w of
           None \<Rightarrow> None
         | Some (r, w1) \<Rightarrow>
             (case r of
                Inr v \<Rightarrow> Some (Inr v, w1)
              | Inl err \<Rightarrow>
                  (if \<not> isRetryableError err \<or> num_eq (num_of_nat a) (cl_retries c)
                   then Some (Inl err, w1)
                   else loop e c meth addr body timeout opts (Suc a) (Some err)
                          (log_failed c err w1))))
      else Some (Inl (opt_default unknown_failure prev), w)) = Some out"
  note stop = loop_post_stop [where prev = prev]
  note again = loop_post_again [where prev = prev, OF _ _ IH]
  show "loop_post c a prev w out"
  proof (cases "num_le (num_of_nat a) (cl_retries c)")
    case False
    with eq loop_post_exhausted show ?thesis by auto
  next
    case True
    with eq show ?thesis
      by (auto split: option.splits sum.splits if_splits dest: stop again)
  qed
qed

section \<open>When a request returns\<close>

text \<open>
  Every body of a response ends within \<open>B\<close> milliseconds. The timer of the client covers the wait
  for the headers only, so without this much a request can hang.
\<close>

definition bodies_end :: "env \<Rightarrow> nat \<Rightarrow> bool" where
  "bodies_end e B \<longleftrightarrow>
     (\<forall>k. case outcome (net e k) of
            FRespond r \<Rightarrow> (\<exists>b \<le> B. r_bodyLatency r = Some b)
          | FReject _ _ \<Rightarrow> True)"

lemma catch_total:
  "m w = Some (r, w1) \<Longrightarrow> \<exists>r'. catch_io m (\<lambda>e. throw (f e)) w = Some (r', w1)"
  by (cases r) (auto simp: catch_io_def throw_def)

lemma parseResponse_returns:
  assumes "r_bodyLatency r = Some b" and "user_signal opts = None"
  shows "\<exists>x. parseResponse e (body_signal opts) r w = Some (x, w\<lparr>clock := clock w + b\<rparr>)"
  using assms
  by (cases "body_result (r_body r)")
    (auto simp: parseResponse_def read_body_def bind_io_def body_signal_def await_signal_answered
      ret_def lift_sum_def)

lemma attempt_body_returns:
  assumes ends: "bodies_end e B" and nosig: "user_signal opts = None"
    and sig: "abort_at sig = Some t" and now: "clock w \<le> t"
  shows "\<exists>r w'. attempt_body e c sig (body_signal opts) rid rq w = Some (r, w') \<and> clock w' \<le> t + B"
proof -
  let ?w1 = "emit (EvFetch rq) (w\<lparr>calls := Suc (calls w)\<rparr>)"
  have "\<exists>x w2. do_fetch e sig rq w = Some (x, w2) \<and> clock w2 \<le> t
      \<and> (\<forall>r. x = Inr r \<longrightarrow> (\<exists>b \<le> B. r_bodyLatency r = Some b))"
  proof -
    obtain x w2 where x: "await_signal sig (latency (net e (calls w)))
          (fetch_result (outcome (net e (calls w)))) ?w1 = Some (x, w2)" and c2: "clock w2 \<le> t"
      using await_signal_bounded [OF sig, of ?w1] now by fastforce
    have "\<forall>r. x = Inr r \<longrightarrow> (\<exists>b \<le> B. r_bodyLatency r = Some b)"
      using await_signal_result [OF x] spec [OF ends [unfolded bodies_end_def], of "calls w"]
      by (cases "outcome (net e (calls w))") auto
    with x c2 show ?thesis by (auto simp: do_fetch_def Let_def)
  qed
  then obtain x w2 where f: "do_fetch e sig rq w = Some (x, w2)" "clock w2 \<le> t"
      "\<forall>r. x = Inr r \<longrightarrow> (\<exists>b \<le> B. r_bodyLatency r = Some b)" by blast
  show ?thesis
  proof (cases x)
    case (Inl err)
    with f show ?thesis by (auto simp: attempt_body_def bind_io_def)
  next
    case (Inr r)
    with f(3) obtain b where b: "b \<le> B" "r_bodyLatency r = Some b" by blast
    obtain y where y: "parseResponse e (body_signal opts) r w2 = Some (y, w2\<lparr>clock := clock w2 + b\<rparr>)"
      using parseResponse_returns [OF b(2) nosig] by blast
    show ?thesis
      using Inr f y b
      by (cases y) (auto simp: attempt_body_def bind_io_def throw_def then_io_def when_io_def log_run ret_def)
  qed
qed

lemma executeRequest_returns:
  assumes "bodies_end e B" and "user_signal opts = None"
  shows "\<exists>r w'. executeRequest e c meth addr body timeout opts w = Some (r, w')
           \<and> clock w' \<le> clock w + timer_ms timeout + B"
proof -
  obtain w0 where w0: "clock w0 = clock w"
    "executeRequest e c meth addr body timeout opts w =
       catch_io (attempt_body e c (fetch_signal opts (clock w) timeout) (body_signal opts)
                   (request_id e (calls w)) (attempt_request e c meth addr body opts (calls w)))
         (\<lambda>err. throw (request_failure (request_id e (calls w)) timeout err)) w0"
    by (rule executeRequest_run)
  have "abort_at (fetch_signal opts (clock w) timeout) = Some (clock w + timer_ms timeout)"
    using assms(2) by (simp add: fetch_signal_def)
  from attempt_body_returns [OF assms this, of w0] w0(1) obtain r w' where
    "attempt_body e c (fetch_signal opts (clock w) timeout) (body_signal opts)
       (request_id e (calls w)) (attempt_request e c meth addr body opts (calls w)) w0 = Some (r, w')"
    "clock w' \<le> clock w + timer_ms timeout + B"
    by fastforce
  with catch_total [of _ w0 r w'] w0(2) show ?thesis by fastforce
qed

lemma attempt_once_returns:
  assumes "bodies_end e B" and "user_signal opts = None"
  shows "\<exists>r w'. attempt_once e c meth addr body timeout opts a w = Some (r, w')
           \<and> clock w' \<le> clock w + (if a > 0 then timer_ms (backoff (a - 1)) else 0)
                          + timer_ms timeout + B"
proof -
  obtain w1 where w1: "retry_delay c a w = Some (Inr (), w1)"
    "clock w1 = clock w + (if a > 0 then timer_ms (backoff (a - 1)) else 0)"
    using retry_delay_run by blast
  then show ?thesis
    using executeRequest_returns [OF assms, of c meth addr body timeout w1]
    by (simp add: attempt_once_def then_io_def bind_io_def)
qed

text \<open>The time an attempt may take, with the delay before it.\<close>

definition attempt_cost :: "nat \<Rightarrow> nat \<Rightarrow> nat \<Rightarrow> nat" where
  "attempt_cost timeout B a =
     (if a > 0 then timer_ms (backoff (a - 1)) else 0) + timer_ms timeout + B"

lemma request_loop_returns:
  assumes env: "bodies_end e B" "user_signal opts = None"
    and stop: "\<not> num_le (num_of_nat N) (cl_retries c)"
  shows "a \<le> N \<Longrightarrow>
    \<exists>r w'. request_loop e c meth addr body timeout opts a prev w = Some (r, w')
      \<and> clock w' \<le> clock w + (\<Sum>i = a..<N. attempt_cost timeout B i)"
proof (induction "N - a" arbitrary: a prev w)
  case 0
  with stop show ?case by (subst request_loop.simps) simp
next
  case (Suc n)
  then have "a < N" by simp
  obtain r w1 where att: "attempt_once e c meth addr body timeout opts a w = Some (r, w1)"
    and cost: "clock w1 \<le> clock w + attempt_cost timeout B a"
    using attempt_once_returns [OF env] by (fastforce simp: attempt_cost_def)
  have sum: "(\<Sum>i = a..<N. attempt_cost timeout B i) =
      attempt_cost timeout B a + (\<Sum>i = Suc a..<N. attempt_cost timeout B i)"
    using \<open>a < N\<close> by (rule sum.atLeast_Suc_lessThan)
  show ?case
  proof (cases "num_le (num_of_nat a) (cl_retries c) \<and> (\<exists>err. r = Inl err \<and> isRetryableError err
                  \<and> \<not> num_eq (num_of_nat a) (cl_retries c))")
    case False
    with att cost sum show ?thesis
      by (subst request_loop.simps) (auto split: sum.splits)
  next
    case True
    then obtain err where err: "r = Inl err" "isRetryableError err"
      "\<not> num_eq (num_of_nat a) (cl_retries c)" "num_le (num_of_nat a) (cl_retries c)" by blast
    have "n = N - Suc a" using Suc.hyps(2) by arith
    then obtain r' w' where "request_loop e c meth addr body timeout opts (Suc a) (Some err)
          (log_failed c err w1) = Some (r', w')"
      "clock w' \<le> clock w1 + (\<Sum>i = Suc a..<N. attempt_cost timeout B i)"
      using Suc.hyps(1) [of "Suc a" "Some err" "log_failed c err w1"] \<open>a < N\<close>
      unfolding log_failed_effect(2) by (meson Suc_leI)
    with att err cost sum show ?thesis by (subst request_loop.simps) auto
  qed
qed

section \<open>The contract of an API call\<close>

text \<open>
  What the gate, the middleware and the callback handler rely on: a call only extends the
  history, with events of the client, and whatever it throws is an error of the SDK.
\<close>

definition quiet :: "world \<Rightarrow> world \<Rightarrow> bool" where
  "quiet w w' \<longleftrightarrow>
     later w w' \<and> (\<exists>evs. trace w' = trace w @ evs \<and> list_all client_event evs)"

lemma quiet_refl [simp, intro]: "quiet w w"
  by (simp add: quiet_def)

lemma effect_quiet: "effect w w' ms \<Longrightarrow> quiet w w'"
  by (auto simp: effect_def quiet_def later_def)

locale api_call =
  fixes call :: "'r \<Rightarrow> 'a sdk"
  assumes call_quiet: "call x w = Some (r, w') \<Longrightarrow> quiet w w'"
    and call_sl: "call x w = Some (Inl t, w') \<Longrightarrow> isSecureLensError t"
begin

text \<open>A validation that throws SDK errors in front of a call keeps the contract.\<close>

lemma guarded_quiet:
  "bind_io (lift_sum v) (\<lambda>x. call (f x)) w = Some (r, w') \<Longrightarrow> quiet w w'"
  by (auto simp: bind_io_def lift_sum_def split: sum.splits dest: call_quiet)

lemma guarded_sl:
  assumes "bind_io (lift_sum v) (\<lambda>x. call (f x)) w = Some (Inl t, w')"
    and "\<And>e. v = Inl e \<Longrightarrow> isSecureLensError e"
  shows "isSecureLensError t"
  using assms by (auto simp: bind_io_def lift_sum_def split: sum.splits dest: call_sl)

lemma progressive_call: "progressive (call x)"
  by (rule progressiveI) (auto dest: call_quiet simp: quiet_def)

text \<open>\<open>try { await call(x) } catch { fallback }\<close> does not throw, if the fallback does not.\<close>

lemma caught_never_throws:
  assumes "catch_io (call x) h w = Some (r, w')" and "\<And>e. h e = ret (g e)"
  shows "\<exists>y. r = Inr y"
  using assms by (auto simp: catch_io_def ret_def split: option.splits sum.splits)

end

text \<open>The client's requests, as a function of method, path, body and options.\<close>

definition client_call ::
  "env \<Rightarrow> SecureLensClient \<Rightarrow> string \<times> string \<times> js \<times> RequestOptions option \<Rightarrow> js sdk" where
  "client_call e c q = (case q of (meth, path, body, opts) \<Rightarrow> request e c meth path body opts)"

interpretation client: api_call "client_call e c" for e c
  by unfold_locales
    (auto simp: client_call_def request_def split: prod.splits dest: effect_quiet
      dest!: request_loop_post simp: loop_post_def)

lemma client_post_call: "client_post e c path body opts = client_call e c (''POST'', path, body, opts)"
  by (simp add: client_post_def client_call_def)

lemma client_get_call: "client_get e c path opts = client_call e c (''GET'', path, JUndef, opts)"
  by (simp add: client_get_def client_call_def)

section \<open>Properties\<close>

text \<open>
  C4. The moves of every request that ends, when the configured number of retries is not negative:
  \<open>fetch\<close>, and then, for each of its \<open>k\<close> retries in turn, a sleep of 1000 * 2^i milliseconds before
  the \<open>i\<close>-th (counted from 0) and \<open>fetch\<close> again; nothing but log lines besides. \<open>k\<close> does not exceed the configured
  number of retries, and an error it throws is an error of the SDK, with any network and any user
  signal.
\<close>

theorem request_attempts:
  assumes "request e c meth path body opts w = Some (r, w')"
    and "num_le (Fin 0) (cl_retries c)"
  shows "\<exists>evs k. trace w' = trace w @ evs \<and> list_all client_event evs
           \<and> moves evs = Fetched # concat (map (\<lambda>i. [Slept (1000 * 2 ^ i), Fetched]) [0..<k])
           \<and> num_le (num_of_nat k) (cl_retries c)
           \<and> (\<forall>t. r = Inl t \<longrightarrow> isSecureLensError t)"
proof -
  have "loop_post c 0 None w (r, w')"
    using assms(1) unfolding request_def by (rule request_loop_post)
  then obtain n where n: "effect w w' (attempts 0 n)" "0 < n"
      "\<forall>i<n. num_le (num_of_nat i) (cl_retries c)" and sl: "\<forall>t. r = Inl t \<longrightarrow> isSecureLensError t"
    using assms(2) by (auto simp: loop_post_def)
  then obtain k where "n = Suc k" using gr0_implies_Suc by blast
  with n sl show ?thesis
    by (auto simp: effect_def attempts_from_0 backoff_def RETRY_DELAY_BASE_def simp del: upt_Suc of_nat_Suc)
qed

lemma timer_backoff: "timer_ms (backoff i) = (if i \<le> 21 then 1000 * 2 ^ i else 1)"
proof (cases "i \<le> 21")
  case True
  then have "(2::nat) ^ i \<le> 2 ^ 21" by (intro power_increasing) simp_all
  with True show ?thesis by (simp add: timer_ms_def backoff_def RETRY_DELAY_BASE_def)
next
  case False
  then have "(2::nat) ^ 22 \<le> 2 ^ i" by (intro power_increasing) simp_all
  with False show ?thesis by (simp add: timer_ms_def backoff_def RETRY_DELAY_BASE_def)
qed

lemma sum_backoff: "n \<le> 22 \<Longrightarrow> (\<Sum>i<n. timer_ms (backoff i)) = 1000 * (2 ^ n - 1)"
proof (induction n)
  case (Suc n)
  have "(1::nat) \<le> 2 ^ n" by simp
  with Suc show ?case by (simp add: timer_backoff)
qed simp

text \<open>
  The delays before the first \<open>n\<close> retries, as the timer of the platform takes them, add up to
  \<open>1000 * (2 ^ n - 1)\<close> milliseconds up to 22 retries; from then on the doubled delay is out of the
  range of a timer and every further retry waits one millisecond only.
\<close>

theorem backoff_timer:
  "(\<Sum>i<n. timer_ms (backoff i)) = 1000 * (2 ^ min n 22 - 1) + (n - 22)"
proof (induction n)
  case (Suc n)
  show ?case
  proof (cases "n < 22")
    case True
    have "(1::nat) \<le> 2 ^ n" by simp
    with True Suc show ?thesis by (simp add: timer_backoff)
  next
    case False
    with Suc show ?thesis by (simp add: timer_backoff)
  qed
qed simp

lemma sum_attempt_cost:
  "(\<Sum>i = 0..<Suc n. attempt_cost T B i) = (n + 1) * (timer_ms T + B) + (\<Sum>i<n. timer_ms (backoff i))"
proof -
  have "(\<Sum>i = 0..<Suc n. attempt_cost T B i) =
      attempt_cost T B 0 + (\<Sum>i = 0..<n. attempt_cost T B (Suc i))"
    by (rule sum.atLeast0_lessThan_Suc_shift [simplified comp_def])
  also have "(\<Sum>i = 0..<n. attempt_cost T B (Suc i)) =
      n * (timer_ms T + B) + (\<Sum>i<n. timer_ms (backoff i))"
    by (simp add: attempt_cost_def sum.distrib atLeast0LessThan algebra_simps)
  finally show ?thesis by (simp add: attempt_cost_def algebra_simps)
qed

text \<open>
  C5. A request always returns, within a time that is known in advance, when no signal is passed
  and response bodies end within \<open>B\<close> milliseconds: at most one timeout (and body) for each of
  its attempts, plus all the delays.
\<close>

theorem request_returns_in_time:
  assumes "bodies_end e B" and "user_signal opts = None"
    and "cl_retries c = num_of_nat n" and "n \<le> 22"
  shows "\<exists>r w'. request e c meth path body opts w = Some (r, w')
           \<and> clock w' \<le> clock w + (n + 1) * (timer_ms (request_timeout c opts) + B)
                          + 1000 * (2 ^ n - 1)"
proof -
  have stop: "\<not> num_le (num_of_nat (Suc n)) (cl_retries c)" using assms(3) by simp
  from request_loop_returns [OF assms(1,2) this, of 0 meth "cl_baseUrl c @ path" body
        "request_timeout c opts" None w]
  show ?thesis
    unfolding request_def sum_attempt_cost sum_backoff [OF assms(4)] by (simp add: add.assoc)
qed

end
