(* ===== verification/SdkRequest.thy ===== *)
theory SdkRequest
  imports SdkRetry
begin

text \<open>
  What one request of the client yields on the paths that matter: an answer in time, a cancelled
  request, a body that never ends, a degenerate retry count; the headers it sends, and what its
  constructor logs. The section on examples holds the concrete clients and networks the
  witnesses run on.
\<close>

section \<open>Running one attempt\<close>

lemma when_log_world:
  obtains w1 where "when_io b (log m d) w = Some (Inr (), w1)" "effect w w1 []"
    "clock w1 = clock w" "calls w1 = calls w"
  using when_log_run by blast

lemma attempt_body_answered:
  assumes sig: "abort_at sig = Some t" "clock w < t" "clock w + l \<le> t"
    and net: "net e (calls w) = \<lparr>latency = Some l, outcome = FRespond r\<rparr>"
    and body: "r_bodyLatency r = Some b" "r_body r = BodyText tx" "is_json_type (r_contentType r)"
      "json_parse e tx = Inr v"
    and nosig: "user_signal opts = None"
  shows "\<exists>w'. attempt_body e c sig (body_signal opts) rid rq w =
      Some (if r_ok r then Inr v else Inl (SL (parseApiError (r_status r) v (Some rid))), w')
      \<and> calls w' = Suc (calls w) \<and> clock w' = clock w + l + b"
proof -
  let ?w1 = "(emit (EvFetch rq) (w\<lparr>calls := Suc (calls w)\<rparr>))\<lparr>clock := clock w + l\<rparr>"
  have f: "do_fetch e sig rq w = Some (Inr r, ?w1)"
    using sig net by (simp add: do_fetch_def await_signal_def Let_def)
  have p: "parseResponse e (body_signal opts) r ?w1 =
      Some (Inr v, ?w1\<lparr>clock := clock ?w1 + b\<rparr>)"
    using body nosig
    by (simp add: parseResponse_def read_body_def bind_io_def body_signal_def await_signal_answered
        lift_sum_def parse_text_def)
  obtain w2 where "when_io (cl_debug c) (log (''Response '' @ int_str (r_status r))
        (JObj [(''requestId'', JStr rid)])) (?w1\<lparr>clock := clock ?w1 + b\<rparr>) = Some (Inr (), w2)"
      "clock w2 = clock w + l + b" "calls w2 = Suc (calls w)"
    by (rule when_log_world [of "cl_debug c" _ _ "?w1\<lparr>clock := clock ?w1 + b\<rparr>"]) simp
  with f p show ?thesis
    by (auto simp: attempt_body_def bind_io_def throw_def then_io_def ret_def)
qed

lemma executeRequest_cancelled:
  assumes "user_signal opts = Some s" "abort_at s = Some t" "t \<le> clock w"
    "abort_name s = ''AbortError''"
  shows "\<exists>er w'. executeRequest e c meth addr body timeout opts w = Some (Inl (SL er), w')
      \<and> e_class er = CTimeoutError timeout \<and> clock w' = clock w \<and> calls w' = Suc (calls w)"
proof -
  obtain w0 where w0: "effect w w0 []" "clock w0 = clock w"
    "executeRequest e c meth addr body timeout opts w =
       catch_io (attempt_body e c (fetch_signal opts (clock w) timeout) (body_signal opts)
                   (request_id e (calls w)) (attempt_request e c meth addr body opts (calls w)))
         (\<lambda>err. throw (request_failure (request_id e (calls w)) timeout err)) w0"
    by (rule executeRequest_run)
  have "fetch_signal opts (clock w) timeout = s" using assms(1) by (simp add: fetch_signal_def)
  with w0 assms(2-4) show ?thesis
    by (simp add: catch_io_def attempt_body_def bind_io_def do_fetch_def Let_def throw_def
        await_signal_aborted effect_def)
qed

lemma attempt_once_cancelled:
  assumes "user_signal opts = Some s" "abort_at s = Some t" "t \<le> clock w"
    "abort_name s = ''AbortError''"
  shows "\<exists>er w'. attempt_once e c meth addr body timeout opts a w = Some (Inl (SL er), w')
      \<and> e_class er = CTimeoutError timeout \<and> calls w' = Suc (calls w)
      \<and> clock w' = clock w + (if a > 0 then timer_ms (backoff (a - 1)) else 0)"
proof -
  obtain w1 where w1: "retry_delay c a w = Some (Inr (), w1)"
    "effect w w1 (if a > 0 then [Slept (backoff (a - 1))] else [])"
    "clock w1 = clock w + (if a > 0 then timer_ms (backoff (a - 1)) else 0)"
    using retry_delay_run by blast
  then have "t \<le> clock w1" using assms(3) by simp
  from executeRequest_cancelled [OF assms(1,2) this assms(4)] obtain er w' where
    "executeRequest e c meth addr body timeout opts w1 = Some (Inl (SL er), w')"
    "e_class er = CTimeoutError timeout" "clock w' = clock w1" "calls w' = Suc (calls w1)"
    by blast
  moreover have "calls w1 = calls w" using w1(2) by (simp add: effect_def)
  ultimately show ?thesis
    using w1(1,3) by (simp add: attempt_once_def then_io_def bind_io_def)
qed

lemma request_loop_cancelled:
  assumes sig: "user_signal opts = Some s" "abort_at s = Some t" "abort_name s = ''AbortError''"
    and n: "cl_retries c = num_of_nat n"
  shows "a \<le> n \<Longrightarrow> t \<le> clock w \<Longrightarrow>
    \<exists>er w'. request_loop e c meth addr body timeout opts a prev w = Some (Inl (SL er), w')
      \<and> e_class er = CTimeoutError timeout \<and> calls w' = calls w + Suc (n - a)
      \<and> clock w' = clock w + (\<Sum>i = a..n. if i > 0 then timer_ms (backoff (i - 1)) else 0)"
proof (induction "n - a" arbitrary: a prev w)
  case 0
  then have "a = n" by simp
  with attempt_once_cancelled [OF sig(1,2) "0.prems"(2) sig(3), of e c meth addr body timeout a]
  obtain er w' where "attempt_once e c meth addr body timeout opts n w = Some (Inl (SL er), w')"
    "e_class er = CTimeoutError timeout" "calls w' = Suc (calls w)"
    "clock w' = clock w + (if n > 0 then timer_ms (backoff (n - 1)) else 0)" by blast
  with n \<open>a = n\<close> show ?case by (subst request_loop.simps) auto
next
  case (Suc k)
  then have a: "a < n" "k = n - Suc a" by simp_all
  obtain er w1 where att: "attempt_once e c meth addr body timeout opts a w = Some (Inl (SL er), w1)"
    "e_class er = CTimeoutError timeout" "calls w1 = Suc (calls w)"
    "clock w1 = clock w + (if a > 0 then timer_ms (backoff (a - 1)) else 0)"
    using attempt_once_cancelled [OF sig(1,2) Suc.prems(2) sig(3)] by blast
  let ?w1 = "log_failed c (SL er) w1"
  have w1: "clock ?w1 = clock w1" "calls ?w1 = calls w1"
    using log_failed_effect [where w = w1 and c = c and err = "SL er"] by (simp_all add: effect_def)
  have "t \<le> clock ?w1" using att(4) w1(1) Suc.prems(2) by simp
  from Suc.hyps(1) [OF a(2) Suc_leI [OF a(1)] this, of "Some (SL er)"] obtain er' w' where rest:
    "request_loop e c meth addr body timeout opts (Suc a) (Some (SL er)) ?w1 = Some (Inl (SL er'), w')"
    "e_class er' = CTimeoutError timeout" "calls w' = calls ?w1 + Suc (n - Suc a)"
    "clock w' = clock ?w1 + (\<Sum>i = Suc a..n. if i > 0 then timer_ms (backoff (i - 1)) else 0)"
    by blast
  have sum: "(\<Sum>i = a..n. if i > 0 then timer_ms (backoff (i - 1)) else 0) =
      (if a > 0 then timer_ms (backoff (a - 1)) else 0)
      + (\<Sum>i = Suc a..n. if i > 0 then timer_ms (backoff (i - 1)) else 0)"
    using a(1) by (intro sum.atLeast_Suc_atMost) simp
  have "request_loop e c meth addr body timeout opts a prev w =
      request_loop e c meth addr body timeout opts (Suc a) (Some (SL er)) ?w1"
    using att(1,2) n a(1) by (subst request_loop.simps) simp
  with rest att(3,4) w1 sum a(1) show ?case by auto
qed

lemma sum_delays: "(\<Sum>i = 0..n. if i > 0 then timer_ms (backoff (i - 1)) else 0) =
    (\<Sum>i<n. timer_ms (backoff i))"
  by (induction n) simp_all

section \<open>Examples\<close>

definition ex_config :: "jsnum option \<Rightarrow> SecureLensConfig" where
  "ex_config retries =
     \<lparr>cfg_apiKey = ''sl_0123456789abcdef0123456789abcdef'', cfg_baseUrl = None,
      cfg_tenantId = Some ''acme'', cfg_timeout = None, cfg_retries = retries, cfg_debug = None\<rparr>"

definition ex_auth :: AuthContext where
  "ex_auth = \<lparr>ac_apiKey = ''sl_0123456789abcdef0123456789abcdef'', ac_tenantId = Some ''acme'',
      ac_headers = createAuthHeaders ''sl_0123456789abcdef0123456789abcdef'' (Some ''acme'')\<rparr>"

definition ex_client :: "nat \<Rightarrow> SecureLensClient" where
  "ex_client n = resolve_config (ex_config (Some (num_of_nat n))) ex_auth"

definition ex_response :: "int \<Rightarrow> string \<Rightarrow> http_response" where
  "ex_response s t =
     \<lparr>r_status = s, r_contentType = Some ''application/json'', r_body = BodyText t,
      r_bodyLatency = Some 5, r_stream = None\<rparr>"

text \<open>A network that answers every call in 10 ms with the same response.\<close>

definition ex_env :: "http_response \<Rightarrow> js \<Rightarrow> env" where
  "ex_env r v =
     \<lparr>net = (\<lambda>k. \<lparr>latency = Some 10, outcome = FRespond r\<rparr>),
      request_id = (\<lambda>k. ''req_'' @ nat_str k), json_parse = (\<lambda>t. Inr v)\<rparr>"

definition ex_world :: world where
  "ex_world = \<lparr>clock = 0, calls = 0, trace = []\<rparr>"

definition ex_cancelled :: RequestOptions where
  "ex_cancelled = \<lparr>opt_timeout = None, opt_headers = [],
     opt_signal = Some \<lparr>abort_at = Some 0, abort_name = ''AbortError'', abort_message = ''stop''\<rparr>\<rparr>"

lemmas ex_defs = ex_config_def ex_auth_def ex_client_def resolve_config_def ex_response_def
  ex_env_def ex_world_def ex_cancelled_def

lemma ex_bodies_end: "bodies_end (ex_env (ex_response s t) v) 5"
  by (simp add: bodies_end_def ex_defs)

lemma ex_client_fields [simp]:
  "cl_retries (ex_client n) = num_of_nat n" "cl_timeout (ex_client n) = 30000"
  "cl_debug (ex_client n) = False" "cl_auth (ex_client n) = ex_auth"
  "cl_baseUrl (ex_client n) = ''https://api.securelens.ai''"
  by (simp_all add: ex_defs DEFAULT_TIMEOUT_def DEFAULT_BASE_URL_def)

lemma ex_request_ends:
  "\<exists>r w'. request (ex_env (ex_response s t) v) (ex_client n) m p b None ex_world = Some (r, w')"
proof -
  have "\<not> num_le (num_of_nat (Suc n)) (cl_retries (ex_client n))" by simp
  from request_loop_returns [OF ex_bodies_end _ this, of None 0] show ?thesis
    unfolding request_def by (force simp: user_signal_def)
qed

theorem request_attempts_witness:
  "\<exists>r w' k. request (ex_env (ex_response 503 ''{}'') (JObj [])) (ex_client 2) ''GET'' ''/health''
        JUndef None ex_world = Some (r, w')
      \<and> moves (trace w') = Fetched # concat (map (\<lambda>i. [Slept (1000 * 2 ^ i), Fetched]) [0..<k])
      \<and> k \<le> 2"
proof -
  obtain r w' where run: "request (ex_env (ex_response 503 ''{}'') (JObj [])) (ex_client 2) ''GET''
      ''/health'' JUndef None ex_world = Some (r, w')"
    using ex_request_ends by blast
  have "num_le (Fin 0) (cl_retries (ex_client 2))" by simp
  from request_attempts [OF run this] obtain evs k where "trace w' = evs"
      "moves evs = Fetched # concat (map (\<lambda>i. [Slept (1000 * 2 ^ i), Fetched]) [0..<k])"
      "(of_nat k :: rat) \<le> 2"
    by (auto simp: ex_world_def)
  moreover from this(3) have "k \<le> 2" by (metis of_nat_le_iff of_nat_numeral)
  ultimately show ?thesis using run by blast
qed

theorem request_returns_in_time_witness:
  "\<exists>r w'. request (ex_env (ex_response 503 ''{}'') (JObj [])) (ex_client 3) ''GET'' ''/health''
        JUndef None ex_world = Some (r, w') \<and> clock w' \<le> 127020"
proof -
  have "user_signal None = None" by (simp add: user_signal_def)
  from request_returns_in_time [OF ex_bodies_end this, of "ex_client 3" 3 503 "''{}''" "JObj []"
      "''GET''" "''/health''" JUndef ex_world]
  show ?thesis by (simp add: timer_ms_def request_timeout_def ex_world_def)
qed

section \<open>Properties\<close>

text \<open>
  An answer that comes in time decides the request at once: a good status gives the parsed
  body, a status that is not worth a retry gives the error made from it; either way \<open>fetch\<close> was
  called once and no delay was added.
\<close>

theorem request_first_answer:
  assumes "num_le (Fin 0) (cl_retries c)" and "user_signal opts = None"
    and "net e (calls w) = \<lparr>latency = Some l, outcome = FRespond r\<rparr>"
    and "l \<le> timer_ms (request_timeout c opts)"
    and "r_bodyLatency r = Some b" and "r_body r = BodyText tx"
    and "is_json_type (r_contentType r)" and "json_parse e tx = Inr v"
    and "r_ok r \<or> \<not> isRetryableError (SL (parseApiError (r_status r) v None))"
  shows "\<exists>w'. request e c meth path body opts w =
      Some (if r_ok r then Inr v
            else Inl (SL (parseApiError (r_status r) v (Some (request_id e (calls w))))), w')
      \<and> calls w' = Suc (calls w) \<and> clock w' = clock w + l + b"
proof -
  let ?T = "request_timeout c opts" and ?rid = "request_id e (calls w)"
  let ?res = "if r_ok r then Inr v else Inl (SL (parseApiError (r_status r) v (Some ?rid)))"
  obtain w0 where w0: "effect w w0 []" "clock w0 = clock w"
    "executeRequest e c meth (cl_baseUrl c @ path) body ?T opts w =
       catch_io (attempt_body e c (fetch_signal opts (clock w) ?T) (body_signal opts) ?rid
                   (attempt_request e c meth (cl_baseUrl c @ path) body opts (calls w)))
         (\<lambda>err. throw (request_failure ?rid ?T err)) w0"
    by (rule executeRequest_run)
  have calls0: "calls w0 = calls w" using w0(1) by (simp add: effect_def)
  have sig: "abort_at (fetch_signal opts (clock w) ?T) = Some (clock w0 + timer_ms ?T)"
    using assms(2) w0(2) by (simp add: fetch_signal_def)
  have "1 \<le> timer_ms ?T" by (simp add: timer_ms_def)
  then have "clock w0 < clock w0 + timer_ms ?T" "clock w0 + l \<le> clock w0 + timer_ms ?T"
    "net e (calls w0) = \<lparr>latency = Some l, outcome = FRespond r\<rparr>"
    using assms(3,4) calls0 by simp_all
  from attempt_body_answered [OF sig this assms(5-8,2), where c = c and rid = ?rid]
  obtain w1 where w1: "attempt_body e c (fetch_signal opts (clock w) ?T) (body_signal opts) ?rid
        (attempt_request e c meth (cl_baseUrl c @ path) body opts (calls w)) w0 = Some (?res, w1)"
      "calls w1 = Suc (calls w)" "clock w1 = clock w + l + b"
    unfolding calls0 w0(2) by blast
  then have "executeRequest e c meth (cl_baseUrl c @ path) body ?T opts w = Some (?res, w1)"
    unfolding w0(3) by (simp add: catch_io_def throw_def)
  then have att: "attempt_once e c meth (cl_baseUrl c @ path) body ?T opts 0 w = Some (?res, w1)"
    by (simp add: attempt_once_def retry_delay_def then_io_def bind_ret)
  have "\<not> r_ok r \<Longrightarrow> \<not> isRetryableError (SL (parseApiError (r_status r) v (Some ?rid)))"
    using assms(9) by (simp add: parseApiError_class parseApiError_fields)
  with att w1(2,3) assms(1) show ?thesis
    unfolding request_def by (subst request_loop.simps) simp
qed

theorem request_first_answer_witness:
  "\<exists>w'. request (ex_env (ex_response 404 ''{}'') (JObj [(''message'', JStr ''no'')])) (ex_client 3)
      ''GET'' ''/x'' JUndef None ex_world =
    Some (Inl (SL (parseApiError 404 (JObj [(''message'', JStr ''no'')]) (Some ''req_0''))), w')
    \<and> calls w' = 1 \<and> clock w' = 15"
proof -
  let ?e = "ex_env (ex_response 404 ''{}'') (JObj [(''message'', JStr ''no'')])"
  have "nat_str 0 = ''0''" by (simp add: nat_str.simps digit_char_def)
  then have rid: "request_id ?e (calls ex_world) = ''req_0''" by (simp add: ex_defs)
  have "\<exists>w'. request ?e (ex_client 3) ''GET'' ''/x'' JUndef None ex_world =
      Some (if r_ok (ex_response 404 ''{}'') then Inr (JObj [(''message'', JStr ''no'')])
            else Inl (SL (parseApiError (r_status (ex_response 404 ''{}''))
                   (JObj [(''message'', JStr ''no'')]) (Some (request_id ?e (calls ex_world))))), w')
      \<and> calls w' = Suc (calls ex_world) \<and> clock w' = clock ex_world + 10 + 5"
    by (rule request_first_answer [where tx = "''{}''" and l = 10 and b = 5
          and r = "ex_response 404 ''{}''" and v = "JObj [(''message'', JStr ''no'')]"])
      (simp_all add: user_signal_def request_timeout_def timer_ms_def is_json_type_def
        starts_with_def r_ok_def ex_response_def ex_env_def parseApiError_class parseApiError_fields)
  then show ?thesis unfolding rid by (simp add: r_ok_def ex_response_def ex_world_def)
qed

text \<open>
  Cancelling does not cancel: a request whose signal has aborted is still attempted
  \<open>n + 1\<close> times, with all the delays between, because the abort is reported as a timeout and a timeout
  is retried.
\<close>

theorem cancelled_request_is_retried:
  assumes "user_signal opts = Some s" and "abort_at s = Some t" and "t \<le> clock w"
    and "abort_name s = ''AbortError''" and "cl_retries c = num_of_nat n"
  shows "\<exists>er w'. request e c meth path body opts w = Some (Inl (SL er), w')
      \<and> e_class er = CTimeoutError (request_timeout c opts)
      \<and> calls w' = calls w + Suc n
      \<and> clock w' = clock w + (\<Sum>i<n. timer_ms (backoff i))"
  using request_loop_cancelled [OF assms(1,2,4,5) le0 assms(3)]
  unfolding request_def sum_delays by fastforce

theorem cancelled_request_is_retried_witness:
  "\<exists>er w'. request (ex_env (ex_response 200 ''{}'') JNull) (ex_client 3) ''GET'' ''/x'' JUndef
        (Some ex_cancelled) ex_world = Some (Inl (SL er), w') \<and> calls w' = 4 \<and> clock w' = 7000"
proof -
  have "(\<Sum>i<3. timer_ms (backoff i)) = 7000" by (subst sum_backoff) simp_all
  with cancelled_request_is_retried [of "Some ex_cancelled" _ 0 ex_world "ex_client 3" 3
      "ex_env (ex_response 200 ''{}'') JNull" "''GET''" "''/x''" JUndef]
  show ?thesis by (auto simp: user_signal_def ex_cancelled_def ex_world_def)
qed

text \<open>
  The timeout does not cover the body: when the headers come in time and the body never ends,
  the request never settles, whatever timeout is configured.
\<close>

theorem request_hangs_on_body:
  assumes "num_le (Fin 0) (cl_retries c)" and "user_signal opts = None"
    and "net e (calls w) = \<lparr>latency = Some l, outcome = FRespond r\<rparr>"
    and "l \<le> timer_ms (request_timeout c opts)" and "r_bodyLatency r = None"
  shows "request e c meth path body opts w = None"
proof -
  let ?T = "request_timeout c opts"
  obtain w0 where w0: "effect w w0 []" "clock w0 = clock w"
    "executeRequest e c meth (cl_baseUrl c @ path) body ?T opts w =
       catch_io (attempt_body e c (fetch_signal opts (clock w) ?T) (body_signal opts)
                   (request_id e (calls w))
                   (attempt_request e c meth (cl_baseUrl c @ path) body opts (calls w)))
         (\<lambda>err. throw (request_failure (request_id e (calls w)) ?T err)) w0"
    by (rule executeRequest_run)
  have "calls w0 = calls w" using w0(1) by (simp add: effect_def)
  moreover have "1 \<le> timer_ms ?T" by (simp add: timer_ms_def)
  ultimately have "attempt_body e c (fetch_signal opts (clock w) ?T) (body_signal opts) rid rq w0 = None"
    for rid rq
    using assms w0(2)
    by (simp add: attempt_body_def bind_io_def do_fetch_def fetch_signal_def await_signal_def Let_def
        parseResponse_def read_body_def body_signal_def)
  then have "attempt_once e c meth (cl_baseUrl c @ path) body ?T opts 0 w = None"
    using w0(3) by (simp add: attempt_once_def retry_delay_def then_io_def bind_ret catch_io_def)
  with assms(1) show ?thesis unfolding request_def by (subst request_loop.simps) simp
qed

theorem request_hangs_on_body_witness:
  "request (ex_env ((ex_response 200 ''{}'')\<lparr>r_bodyLatency := None\<rparr>) JNull) (ex_client 3) ''GET''
     ''/x'' JUndef None ex_world = None"
  by (rule request_hangs_on_body [where l = 10
        and r = "(ex_response 200 ''{}'')\<lparr>r_bodyLatency := None\<rparr>"])
    (simp_all add: user_signal_def request_timeout_def timer_ms_def ex_env_def ex_response_def)

text \<open>
  With a number of retries that is negative or NaN the loop body never runs: nothing is sent
  and the request fails with the code \<open>UNKNOWN_ERROR\<close>.
\<close>

theorem request_without_attempt:
  assumes "\<not> num_le (Fin 0) (cl_retries c)"
  shows "request e c meth path body opts w = Some (Inl unknown_failure, w)"
  unfolding request_def using assms by (subst request_loop.simps) simp

theorem request_without_attempt_witness:
  "request (ex_env (ex_response 200 ''{}'') JNull) ((ex_client 3)\<lparr>cl_retries := NaN\<rparr>) ''GET'' ''/x''
     JUndef None ex_world = Some (Inl unknown_failure, ex_world)"
  by (rule request_without_attempt) simp

text \<open>
  Every request carries its own generated id, which no caller can override, and every
  authentication header the caller does not set itself.
\<close>

theorem request_headers_correct:
  "map_of (request_headers c opts rid) ''X-Request-ID'' = Some rid
   \<and> (k \<noteq> ''X-Request-ID'' \<and> (case opts of Some o' \<Rightarrow> k \<notin> fst ` set (opt_headers o') | None \<Rightarrow> True)
      \<longrightarrow> map_of (request_headers c opts rid) k = map_of (ac_headers (cl_auth c)) k)"
  by (cases opts) (auto simp: request_headers_def dict.get_put_other dict.get_put_same get_spread_other)

theorem request_headers_correct_witness:
  "map_of (request_headers (ex_client 1) None ''req_7'') ''X-Request-ID'' = Some ''req_7''
   \<and> map_of (request_headers (ex_client 1) None ''req_7'') ''X-Tenant-ID'' = Some ''acme''"
  using request_headers_correct [of "ex_client 1" None "''req_7''" "''X-Tenant-ID''"]
  by (simp add: ex_auth_def authHeaders_get)

text \<open>
  The constructor's log shows no more of a key than its mask: two configurations that differ
  in the key only, with good keys of equal mask, leave the same history.
\<close>

theorem client_log_masks_key:
  assumes "key_ok k" and "key_ok k'" and "maskApiKey k = maskApiKey k'"
  shows "map_option (trace \<circ> snd) (new_SecureLensClient (cfg\<lparr>cfg_apiKey := k\<rparr>) w)
       = map_option (trace \<circ> snd) (new_SecureLensClient (cfg\<lparr>cfg_apiKey := k'\<rparr>) w)"
proof -
  have "validateApiKey k = Inr ()" "validateApiKey k' = Inr ()"
    using assms(1,2) by (simp_all add: validateApiKey_ok)
  then show ?thesis
    using assms(3)
    by (simp add: new_SecureLensClient_def createAuthContext_def bind_io_def lift_sum_def Let_def
        resolve_config_def then_io_def when_io_def log_run ret_def)
qed

theorem client_log_masks_key_witness:
  "map_option (trace \<circ> snd) (new_SecureLensClient
       ((ex_config None)\<lparr>cfg_debug := Some True, cfg_apiKey := ''sl_abcSECRETSECRETSECRETSECRETwxyz''\<rparr>) ex_world)
   = map_option (trace \<circ> snd) (new_SecureLensClient
       ((ex_config None)\<lparr>cfg_debug := Some True, cfg_apiKey := ''sl_abcPUBLICPUBLICPUBLICPUBLICwxyz''\<rparr>) ex_world)"
  by (rule client_log_masks_key)
    (simp_all add: key_ok_def starts_with_def maskApiKey_def slice_last_def)

end
