(* ===== verification/SdkGate.thy ===== *)
theory SdkGate
  imports SdkRequest
begin

text \<open>
  \<open>sdk/node/src/gate.ts\<close>, less its streaming query (theory \<open>SdkStream\<close>): the validation and the
  normalisation of the requests of the AI gate, and the calls they guard. A request is a record
  of the fields the code reads; a field is a dynamic value where the code looks at its type or
  passes it on unread, so an absent field is \<open>JUndef\<close>.
\<close>

section \<open>Requests\<close>

record intercept_request =
  ir_query :: js
  ir_contextSource :: js
  ir_policies :: js
  ir_userContext :: js
  ir_sessionId :: js
  ir_metadata :: js

record query_request =
  qr_query :: js
  qr_contextSource :: js
  qr_llmProvider :: js
  qr_model :: js
  qr_topK :: "jsnum option"
  qr_policies :: js
  qr_userContext :: js
  qr_sessionId :: js
  qr_systemPrompt :: js
  qr_stream :: js
  qr_metadata :: js

record embed_request =
  er_documents :: js
  er_metadata :: js
  er_vectorDb :: js
  er_classifyBeforeEmbed :: js
  er_policies :: js
  er_chunkSize :: js
  er_chunkOverlap :: js

section \<open>Validation\<close>

definition validation_error :: "string \<Rightarrow> js \<Rightarrow> thrown" where
  "validation_error msg ferrs = SL (new_SecureLensValidationError (JStr msg) ferrs no_options)"

definition field_error :: "string \<Rightarrow> string \<Rightarrow> string \<Rightarrow> thrown" where
  "field_error msg fld why = validation_error msg (JObj [(fld, JArr [JStr why])])"

definition query_missing :: "js \<Rightarrow> bool" where
  "query_missing q \<longleftrightarrow> \<not> truthy q \<or> \<not> is_string q"

definition validateInterceptRequest :: "intercept_request \<Rightarrow> thrown + unit" where
  "validateInterceptRequest rq =
     (if query_missing (ir_query rq) then
        Inl (field_error ''Query is required'' ''query'' ''Query must be a non-empty string'')
      else Inr ())"

definition topK_invalid :: "jsnum option \<Rightarrow> bool" where
  "topK_invalid k \<longleftrightarrow> (case k of Some n \<Rightarrow> num_lt n (Fin 1) \<or> num_lt (Fin 100) n | None \<Rightarrow> False)"

definition validateQueryRequest :: "query_request \<Rightarrow> thrown + unit" where
  "validateQueryRequest rq =
     (if query_missing (qr_query rq) then
        Inl (field_error ''Query is required'' ''query'' ''Query must be a non-empty string'')
      else if topK_invalid (qr_topK rq) then
        Inl (field_error ''Invalid topK value'' ''topK'' ''topK must be between 1 and 100'')
      else Inr ())"

text \<open>\<open>!Array.isArray(v) || v.length === 0\<close>\<close>

fun no_elements :: "js \<Rightarrow> bool" where
  "no_elements (JArr xs) = (xs = [])"
| "no_elements _ = True"

text \<open>\<open>m.length !== d.length\<close>, for an array \<open>d\<close>\<close>

definition length_differs :: "js \<Rightarrow> js \<Rightarrow> bool" where
  "length_differs m d \<longleftrightarrow>
     (case (jprop ''length'' m, jprop ''length'' d) of
        (JNum a, JNum b) \<Rightarrow> \<not> num_eq a b
      | _ \<Rightarrow> True)"

definition validateEmbedRequest :: "embed_request \<Rightarrow> thrown + unit" where
  "validateEmbedRequest rq =
     (if no_elements (er_documents rq) then
        Inl (field_error ''Documents are required'' ''documents''
               ''Documents must be a non-empty array'')
      else if \<not> truthy (er_vectorDb rq) then
        Inl (field_error ''Vector database is required'' ''vectorDb'' ''vectorDb must be specified'')
      else if truthy (er_metadata rq) \<and> length_differs (er_metadata rq) (er_documents rq) then
        Inl (field_error ''Metadata length mismatch'' ''metadata''
               ''Metadata array must have the same length as documents array'')
      else Inr ())"

section \<open>Normalisation\<close>

definition normalizeVectorDb :: "js \<Rightarrow> js" where
  "normalizeVectorDb source =
     (if \<not> truthy source then JUndef
      else if is_string source then JObj [(''provider'', source)]
      else source)"

definition normalizeLLM :: "js \<Rightarrow> js" where
  "normalizeLLM provider =
     (if \<not> truthy provider then JUndef
      else if is_string provider then JObj [(''provider'', provider)]
      else provider)"

definition normalizeInterceptRequest :: "intercept_request \<Rightarrow> js" where
  "normalizeInterceptRequest rq = JObj
     [(''query'', ir_query rq),
      (''contextSource'', normalizeVectorDb (ir_contextSource rq)),
      (''policies'', ir_policies rq),
      (''userContext'', ir_userContext rq),
      (''sessionId'', ir_sessionId rq),
      (''metadata'', ir_metadata rq)]"

definition normalizeQueryRequest :: "query_request \<Rightarrow> js" where
  "normalizeQueryRequest rq = JObj
     [(''query'', qr_query rq),
      (''contextSource'', normalizeVectorDb (qr_contextSource rq)),
      (''llmProvider'', normalizeLLM (qr_llmProvider rq)),
      (''model'', qr_model rq),
      (''topK'', js_of_opt JNum (qr_topK rq)),
      (''policies'', qr_policies rq),
      (''userContext'', qr_userContext rq),
      (''sessionId'', qr_sessionId rq),
      (''systemPrompt'', qr_systemPrompt rq),
      (''stream'', qr_stream rq),
      (''metadata'', qr_metadata rq)]"

definition normalizeEmbedRequest :: "embed_request \<Rightarrow> js" where
  "normalizeEmbedRequest rq = JObj
     [(''documents'', er_documents rq),
      (''metadata'', er_metadata rq),
      (''vectorDb'', normalizeVectorDb (er_vectorDb rq)),
      (''classifyBeforeEmbed'', er_classifyBeforeEmbed rq),
      (''policies'', er_policies rq),
      (''chunkSize'', er_chunkSize rq),
      (''chunkOverlap'', er_chunkOverlap rq)]"

section \<open>Calls\<close>

definition gate_intercept :: "env \<Rightarrow> SecureLensClient \<Rightarrow> intercept_request \<Rightarrow> js sdk" where
  "gate_intercept e c rq =
     bind_io (lift_sum (validateInterceptRequest rq)) (\<lambda>_.
       client_post e c ''/api/v1/gate/intercept'' (normalizeInterceptRequest rq) None)"

definition gate_query :: "env \<Rightarrow> SecureLensClient \<Rightarrow> query_request \<Rightarrow> js sdk" where
  "gate_query e c rq =
     bind_io (lift_sum (validateQueryRequest rq)) (\<lambda>_.
       client_post e c ''/api/v1/gate/query'' (normalizeQueryRequest rq) None)"

definition gate_embed :: "env \<Rightarrow> SecureLensClient \<Rightarrow> embed_request \<Rightarrow> js sdk" where
  "gate_embed e c rq =
     bind_io (lift_sum (validateEmbedRequest rq)) (\<lambda>_.
       client_post e c ''/api/v1/gate/embed'' (normalizeEmbedRequest rq) None)"

definition check_text :: "js \<Rightarrow> thrown + unit" where
  "check_text text =
     (if \<not> truthy text \<or> \<not> is_string text
      then Inl (validation_error ''Text is required for classification'' JUndef)
      else Inr ())"

definition check_texts :: "js \<Rightarrow> thrown + unit" where
  "check_texts texts =
     (if no_elements texts
      then Inl (validation_error ''Texts array is required for batch classification'' JUndef)
      else Inr ())"

definition gate_classify :: "env \<Rightarrow> SecureLensClient \<Rightarrow> js \<Rightarrow> js sdk" where
  "gate_classify e c text =
     bind_io (lift_sum (check_text text)) (\<lambda>_.
       client_post e c ''/api/v1/classify'' (JObj [(''text'', text)]) None)"

definition gate_classifyBatch :: "env \<Rightarrow> SecureLensClient \<Rightarrow> js \<Rightarrow> js sdk" where
  "gate_classifyBatch e c texts =
     bind_io (lift_sum (check_texts texts)) (\<lambda>_.
       client_post e c ''/api/v1/classify/batch'' (JObj [(''texts'', texts)]) None)"

section \<open>Audit queries\<close>

text \<open>
  \<open>URLSearchParams.toString\<close>: the \<open>application/x-www-form-urlencoded\<close> serialiser of the platform,
  on code units below 256 (two bytes of UTF-8 from 128 on).
\<close>

definition utf8_bytes :: "char \<Rightarrow> nat list" where
  "utf8_bytes ch =
     (let n = of_char ch :: nat
      in if n < 128 then [n] else [192 + n div 64, 128 + n mod 64])"

definition hex_digit :: "nat \<Rightarrow> char" where
  "hex_digit n = ''0123456789ABCDEF'' ! n"

definition percent :: "nat \<Rightarrow> string" where
  "percent b = [CHR ''%'', hex_digit (b div 16), hex_digit (b mod 16)]"

definition form_safe :: "char \<Rightarrow> bool" where
  "form_safe ch \<longleftrightarrow>
     (let n = of_char ch :: nat
      in (48 \<le> n \<and> n \<le> 57) \<or> (65 \<le> n \<and> n \<le> 90) \<or> (97 \<le> n \<and> n \<le> 122)
         \<or> ch \<in> set ''*-._'')"

definition form_char :: "char \<Rightarrow> string" where
  "form_char ch =
     (if form_safe ch then [ch]
      else if ch = CHR '' '' then ''+''
      else concat (map percent (utf8_bytes ch)))"

definition form_encode :: "string \<Rightarrow> string" where
  "form_encode s = concat (map form_char s)"

fun join :: "string \<Rightarrow> string list \<Rightarrow> string" where
  "join sep [] = []"
| "join sep [x] = x"
| "join sep (x # xs) = x @ sep @ join sep xs"

definition params_string :: "(string \<times> string) list \<Rightarrow> string" where
  "params_string ps = join ''&'' (map (\<lambda>(k, v). form_encode k @ ''='' @ form_encode v) ps)"

text \<open>\<open>date.toISOString()\<close>\<close>

fun toISOString :: "string option \<Rightarrow> thrown + string" where
  "toISOString (Some d) = Inr d"
| "toISOString None = Inl (Native ''RangeError'' ''Invalid time value'')"

definition set_date :: "string \<Rightarrow> string option option \<Rightarrow> thrown + (string \<times> string) list" where
  "set_date k d =
     (case d of
        None \<Rightarrow> Inr []
      | Some date \<Rightarrow> (case toISOString date of Inl e \<Rightarrow> Inl e | Inr s \<Rightarrow> Inr [(k, s)]))"

definition set_text :: "string \<Rightarrow> string option \<Rightarrow> (string \<times> string) list" where
  "set_text k v = (case v of Some s \<Rightarrow> (if s \<noteq> [] then [(k, s)] else []) | None \<Rightarrow> [])"

definition set_number :: "string \<Rightarrow> int option \<Rightarrow> (string \<times> string) list" where
  "set_number k v = (case v of Some i \<Rightarrow> (if i \<noteq> 0 then [(k, int_str i)] else []) | None \<Rightarrow> [])"

definition audit_params :: "AuditQueryOptions \<Rightarrow> thrown + (string \<times> string) list" where
  "audit_params o' =
     (case set_date ''startDate'' (aq_startDate o') of
        Inl e \<Rightarrow> Inl e
      | Inr ps1 \<Rightarrow>
          (case set_date ''endDate'' (aq_endDate o') of
             Inl e \<Rightarrow> Inl e
           | Inr ps2 \<Rightarrow>
               Inr (ps1 @ ps2 @ set_text ''userId'' (aq_userId o')
                    @ set_text ''eventType'' (aq_eventType o')
                    @ set_text ''policyId'' (aq_policyId o')
                    @ set_number ''limit'' (aq_limit o')
                    @ set_number ''offset'' (aq_offset o'))))"

definition audit_path :: "(string \<times> string) list \<Rightarrow> string" where
  "audit_path ps =
     (let queryString = params_string ps
      in if queryString \<noteq> [] then ''/api/v1/audit?'' @ queryString else ''/api/v1/audit'')"

definition gate_getAuditEvents ::
  "env \<Rightarrow> SecureLensClient \<Rightarrow> AuditQueryOptions option \<Rightarrow> js sdk" where
  "gate_getAuditEvents e c opts =
     bind_io (lift_sum (case opts of None \<Rightarrow> Inr [] | Some o' \<Rightarrow> audit_params o'))
       (\<lambda>ps. client_get e c (audit_path ps) None)"

definition gate_getAuditEvent :: "env \<Rightarrow> SecureLensClient \<Rightarrow> string \<Rightarrow> js sdk" where
  "gate_getAuditEvent e c auditId =
     bind_io (lift_sum (if auditId = []
                        then Inl (validation_error ''Audit ID is required'' JUndef)
                        else Inr ())) (\<lambda>_.
       client_get e c (''/api/v1/audit/'' @ auditId) None)"

section \<open>Lemmas\<close>

lemma validation_error_SL [simp]:
  "isSecureLensError (validation_error m f)" "isSecureLensError (field_error m k y)"
  "\<not> isRetryableError (validation_error m f)" "\<not> isRetryableError (field_error m k y)"
  by (simp_all add: validation_error_def field_error_def)

lemma validate_SL:
  "validateInterceptRequest i = Inl t \<Longrightarrow> isSecureLensError t"
  "validateQueryRequest q = Inl t \<Longrightarrow> isSecureLensError t"
  "validateEmbedRequest m = Inl t \<Longrightarrow> isSecureLensError t"
  "check_text v = Inl t \<Longrightarrow> isSecureLensError t"
  "check_texts v = Inl t \<Longrightarrow> isSecureLensError t"
  by (auto simp: validateInterceptRequest_def validateQueryRequest_def validateEmbedRequest_def
      check_text_def check_texts_def split: if_splits)

lemma validateInterceptRequest_ok:
  "validateInterceptRequest i = Inr () \<longleftrightarrow> (\<exists>s. ir_query i = JStr s \<and> s \<noteq> [])"
  by (cases "ir_query i") (auto simp: validateInterceptRequest_def query_missing_def)

text \<open>Every call of the gate is a guarded call of the client, so it keeps the client's contract.\<close>

lemmas gate_client_defs = client_post_call client_get_call

interpretation intercept_api: api_call "gate_intercept e c" for e c
  by unfold_locales
    (auto simp: gate_intercept_def gate_client_defs dest: client.guarded_quiet client.guarded_sl
      intro: validate_SL)

interpretation query_api: api_call "gate_query e c" for e c
  by unfold_locales
    (auto simp: gate_query_def gate_client_defs dest: client.guarded_quiet client.guarded_sl
      intro: validate_SL)

interpretation embed_api: api_call "gate_embed e c" for e c
  by unfold_locales
    (auto simp: gate_embed_def gate_client_defs dest: client.guarded_quiet client.guarded_sl
      intro: validate_SL)

interpretation classify_api: api_call "gate_classify e c" for e c
  by unfold_locales
    (auto simp: gate_classify_def gate_client_defs dest: client.guarded_quiet client.guarded_sl
      intro: validate_SL)

interpretation batch_api: api_call "gate_classifyBatch e c" for e c
  by unfold_locales
    (auto simp: gate_classifyBatch_def gate_client_defs dest: client.guarded_quiet client.guarded_sl
      intro: validate_SL)

section \<open>Decoding a query string\<close>

text \<open>
  The parser of \<open>application/x-www-form-urlencoded\<close> on the other side, the reference the
  serialiser is measured against.
\<close>

definition hex_value :: "char \<Rightarrow> nat" where
  "hex_value ch =
     (let n = of_char ch :: nat in if n \<le> 57 then n - 48 else n - 55)"

fun form_bytes :: "string \<Rightarrow> nat list" where
  "form_bytes [] = []"
| "form_bytes (ch # s) =
     (if ch = CHR ''+'' then 32 # form_bytes s
      else if ch = CHR ''%'' then
        (case s of a # b # t \<Rightarrow> (16 * hex_value a + hex_value b) # form_bytes t
         | _ \<Rightarrow> 37 # form_bytes s)
      else of_char ch # form_bytes s)"

fun utf8_decode :: "nat list \<Rightarrow> string" where
  "utf8_decode [] = []"
| "utf8_decode (b # bs) =
     (if b < 128 then char_of b # utf8_decode bs
      else (case bs of c # cs \<Rightarrow> char_of ((b - 192) * 64 + (c - 128)) # utf8_decode cs
            | [] \<Rightarrow> []))"

definition form_decode :: "string \<Rightarrow> string" where
  "form_decode s = utf8_decode (form_bytes s)"

definition parse_pair :: "string \<Rightarrow> string \<times> string" where
  "parse_pair s =
     (form_decode (takeWhile (\<lambda>ch. ch \<noteq> CHR ''='') s),
      form_decode (tl (dropWhile (\<lambda>ch. ch \<noteq> CHR ''='') s)))"

definition parse_params :: "string \<Rightarrow> (string \<times> string) list" where
  "parse_params s = (if s = [] then [] else map parse_pair (split_on (CHR ''&'') s))"

lemma hex_value_digit: "n < 16 \<Longrightarrow> hex_value (hex_digit n) = n"
proof -
  have "\<forall>n \<in> set [0..<16]. hex_value (hex_digit n) = n" by code_simp
  then show "n < 16 \<Longrightarrow> hex_value (hex_digit n) = n" by auto
qed

lemma hex_digit_not_special:
  assumes "n < 16"
  shows "hex_digit n \<notin> set ''&=''"
proof -
  have "\<forall>n \<in> set [0..<16]. hex_digit n \<notin> set ''&=''" by code_simp
  with assms show ?thesis by auto
qed

lemma form_bytes_percent: "b < 256 \<Longrightarrow> form_bytes (percent b @ s) = b # form_bytes s"
  by (simp add: percent_def hex_value_digit)

lemma char_code_bound: "(of_char ch :: nat) < 256"
  by simp

lemma char_code_high: "(of_char ch :: nat) div 64 < 64"
proof (rule less_mult_imp_div_less)
  show "(of_char ch :: nat) < 64 * 64" using char_code_bound [of ch] by linarith
qed

lemma utf8_bytes_bound: "\<forall>b \<in> set (utf8_bytes ch). b < 256"
  using char_code_high [of ch] by (auto simp: utf8_bytes_def Let_def)

lemma form_bytes_percents:
  "\<forall>b \<in> set bs. b < 256 \<Longrightarrow> form_bytes (concat (map percent bs) @ s) = bs @ form_bytes s"
  by (induction bs) (simp_all add: form_bytes_percent)

lemma form_safe_not_special:
  "form_safe ch \<Longrightarrow> ch \<noteq> CHR ''+'' \<and> ch \<noteq> CHR ''%'' \<and> ch \<noteq> CHR ''&'' \<and> ch \<noteq> CHR ''='' \<and> (of_char ch :: nat) < 128"
  by (auto simp: form_safe_def Let_def)

lemma form_bytes_char: "form_bytes (form_char ch @ s) = utf8_bytes ch @ form_bytes s"
proof (cases "form_safe ch")
  case True
  with form_safe_not_special [OF True] show ?thesis
    by (auto simp: form_char_def utf8_bytes_def Let_def)
next
  case False
  then show ?thesis
    using form_bytes_percents [OF utf8_bytes_bound [of ch], of s]
    by (auto simp: form_char_def utf8_bytes_def [of "CHR '' ''"])
qed

lemma utf8_decode_bytes: "utf8_decode (utf8_bytes ch @ bs) = ch # utf8_decode bs"
proof (cases "(of_char ch :: nat) < 128")
  case True
  then show ?thesis by (simp add: utf8_bytes_def)
next
  case False
  let ?n = "of_char ch :: nat"
  have "?n div 64 < 64" by (rule char_code_high)
  moreover have "64 * (?n div 64) + ?n mod 64 = ?n" by simp
  ultimately show ?thesis using False by (simp add: utf8_bytes_def Let_def mult.commute)
qed

lemma form_decode_encode: "form_decode (form_encode s) = s"
proof -
  have "form_bytes (form_encode s) = concat (map utf8_bytes s)"
    by (induction s) (simp_all add: form_encode_def form_bytes_char)
  moreover have "utf8_decode (concat (map utf8_bytes s)) = s"
    by (induction s) (simp_all add: utf8_decode_bytes)
  ultimately show ?thesis by (simp add: form_decode_def)
qed

lemma percent_not_special: "b < 256 \<Longrightarrow> set (percent b) \<inter> set ''&='' = {}"
  using hex_digit_not_special [of "b div 16"] hex_digit_not_special [of "b mod 16"]
  by (auto simp: percent_def)

lemma form_encode_not_special: "set (form_encode s) \<inter> set ''&='' = {}"
proof -
  have "set (form_char ch) \<inter> set ''&='' = {}" for ch
  proof (cases "form_safe ch \<or> ch = CHR '' ''")
    case True
    then show ?thesis using form_safe_not_special [of ch] by (auto simp: form_char_def)
  next
    case False
    then show ?thesis
      using utf8_bytes_bound [of ch] percent_not_special by (fastforce simp: form_char_def)
  qed
  then show ?thesis by (induction s) (auto simp: form_encode_def)
qed

lemma split_on_join:
  "xs \<noteq> [] \<Longrightarrow> \<forall>x \<in> set xs. c \<notin> set x \<Longrightarrow> split_on c (join [c] xs) = xs"
  by (induction "[c]" xs rule: join.induct) (simp_all add: split_on_no_sep split_on_append_sep)

lemma parse_pair_encode: "parse_pair (form_encode k @ ''='' @ form_encode v) = (k, v)"
proof -
  have ne: "\<forall>ch \<in> set (form_encode k). ch \<noteq> CHR ''=''"
    using form_encode_not_special [of k] by auto
  then have "takeWhile (\<lambda>ch. ch \<noteq> CHR ''='') (form_encode k @ ''='' @ form_encode v) = form_encode k"
    by (simp add: takeWhile_append2)
  moreover from ne have "dropWhile (\<lambda>ch. ch \<noteq> CHR ''='') (form_encode k @ ''='' @ form_encode v)
      = ''='' @ form_encode v"
    by (simp add: dropWhile_append2)
  ultimately show ?thesis by (simp add: parse_pair_def form_decode_encode)
qed

lemma params_string_Nil: "params_string ps = [] \<longleftrightarrow> ps = []"
proof (cases ps)
  case (Cons p qs)
  then show ?thesis by (cases qs) (auto simp: params_string_def split: prod.splits)
qed (simp add: params_string_def)

lemma parse_params_string: "parse_params (params_string ps) = ps"
proof (cases "ps = []")
  case False
  let ?f = "\<lambda>(k, v). form_encode k @ ''='' @ form_encode v"
  have "\<forall>x \<in> set (map ?f ps). CHR ''&'' \<notin> set x"
    using form_encode_not_special by fastforce
  with False have "split_on (CHR ''&'') (params_string ps) = map ?f ps"
    unfolding params_string_def by (intro split_on_join) simp_all
  moreover have "parse_pair \<circ> ?f = id" by (auto simp: fun_eq_iff parse_pair_encode [simplified])
  ultimately show ?thesis
    using False params_string_Nil [of ps] by (simp add: parse_params_def)
qed (simp add: parse_params_def params_string_def)

section \<open>Properties\<close>

text \<open>
  A request for a governed query is accepted exactly when its query is a nonempty string and
  its \<open>topK\<close> is absent, in 1 .. 100, or NaN: the guard compares, and NaN compares with nothing.
\<close>

theorem validateQueryRequest_iff:
  "validateQueryRequest rq = Inr () \<longleftrightarrow>
     (\<exists>s. qr_query rq = JStr s \<and> s \<noteq> []) \<and>
     (case qr_topK rq of
        None \<Rightarrow> True
      | Some NaN \<Rightarrow> True
      | Some (Fin k) \<Rightarrow> 1 \<le> k \<and> k \<le> 100
      | Some _ \<Rightarrow> False)"
  by (cases "qr_query rq")
    (auto simp: validateQueryRequest_def query_missing_def topK_invalid_def
      split: option.splits jsnum.splits)

text \<open>
  A bad request never reaches the network: interception, query and embedding either throw a
  validation error and leave the world as it was, or are exactly the client's POST of the
  normalised request.
\<close>

theorem gate_validates_first:
  "gate_intercept e c i w =
     (case validateInterceptRequest i of
        Inl t \<Rightarrow> Some (Inl t, w)
      | Inr _ \<Rightarrow> client_post e c ''/api/v1/gate/intercept'' (normalizeInterceptRequest i) None w)
   \<and> gate_query e c q w =
     (case validateQueryRequest q of
        Inl t \<Rightarrow> Some (Inl t, w)
      | Inr _ \<Rightarrow> client_post e c ''/api/v1/gate/query'' (normalizeQueryRequest q) None w)
   \<and> gate_embed e c m w =
     (case validateEmbedRequest m of
        Inl t \<Rightarrow> Some (Inl t, w)
      | Inr _ \<Rightarrow> client_post e c ''/api/v1/gate/embed'' (normalizeEmbedRequest m) None w)"
  by (auto simp: gate_intercept_def gate_query_def gate_embed_def bind_io_def lift_sum_def
      split: sum.splits)

lemma set_date_iff:
  "set_date k d = Inr xs \<longleftrightarrow> d = None \<and> xs = [] \<or> (\<exists>s. d = Some (Some s) \<and> xs = [(k, s)])"
  "set_date k d = Inl t \<longleftrightarrow> d = Some None \<and> t = Native ''RangeError'' ''Invalid time value''"
  by (auto simp: set_date_def split: option.splits sum.splits elim!: toISOString.elims)

lemma set_set_text: "(k', v) \<in> set (set_text k x) \<longleftrightarrow> v \<noteq> [] \<and> k' = k \<and> Some v = x"
  by (auto simp: set_text_def split: option.splits)

lemma set_set_number:
  "(k', v) \<in> set (set_number k x) \<longleftrightarrow> (\<exists>n. n \<noteq> 0 \<and> v = int_str n \<and> k' = k \<and> Some n = x)"
  by (auto simp: set_number_def split: option.splits)

text \<open>Parameters with different names, all of them in \<open>K\<close>.\<close>

definition keys_in :: "string list \<Rightarrow> (string \<times> string) list \<Rightarrow> bool" where
  "keys_in K ps \<longleftrightarrow> distinct (map fst ps) \<and> fst ` set ps \<subseteq> set K"

lemma keys_in_one:
  "keys_in [k] (set_text k x)" "keys_in [k] (set_number k y)" "set_date k d = Inr ps \<Longrightarrow> keys_in [k] ps"
  by (auto simp: keys_in_def set_text_def set_number_def set_date_iff split: option.splits)

lemma keys_in_append:
  "keys_in [k] ps \<Longrightarrow> keys_in K qs \<Longrightarrow> k \<notin> set K \<Longrightarrow> keys_in (k # K) (ps @ qs)"
  by (auto simp: keys_in_def)

lemma audit_params_cases:
  assumes "audit_params o' = Inr ps"
  obtains ps1 ps2 where "set_date ''startDate'' (aq_startDate o') = Inr ps1"
    "set_date ''endDate'' (aq_endDate o') = Inr ps2"
    "ps = ps1 @ ps2 @ set_text ''userId'' (aq_userId o') @ set_text ''eventType'' (aq_eventType o')
       @ set_text ''policyId'' (aq_policyId o') @ set_number ''limit'' (aq_limit o')
       @ set_number ''offset'' (aq_offset o')"
  using assms by (auto simp: audit_params_def split: sum.splits)

lemma audit_params_distinct:
  assumes "audit_params o' = Inr ps"
  shows "distinct (map fst ps)"
  using assms
proof (rule audit_params_cases)
  fix ps1 ps2
  assume dates: "set_date ''startDate'' (aq_startDate o') = Inr ps1"
      "set_date ''endDate'' (aq_endDate o') = Inr ps2"
    and ps: "ps = ps1 @ ps2 @ set_text ''userId'' (aq_userId o') @ set_text ''eventType'' (aq_eventType o')
       @ set_text ''policyId'' (aq_policyId o') @ set_number ''limit'' (aq_limit o')
       @ set_number ''offset'' (aq_offset o')"
  have "keys_in [''startDate'', ''endDate'', ''userId'', ''eventType'', ''policyId'', ''limit'', ''offset''] ps"
    unfolding ps
    by (intro keys_in_append keys_in_one(1,2) keys_in_one(3) [OF dates(1)] keys_in_one(3) [OF dates(2)])
      simp_all
  then show ?thesis by (simp only: keys_in_def)
qed

lemma audit_params_lookup:
  assumes "audit_params o' = Inr ps"
  shows "(k, v) \<in> set ps \<longleftrightarrow>
       (k, Some (Some v)) \<in> {(''startDate'', aq_startDate o'), (''endDate'', aq_endDate o')}
       \<or> v \<noteq> [] \<and> (k, Some v) \<in> {(''userId'', aq_userId o'), (''eventType'', aq_eventType o'),
                                  (''policyId'', aq_policyId o')}
       \<or> (\<exists>n. n \<noteq> 0 \<and> v = int_str n
            \<and> (k, Some n) \<in> {(''limit'', aq_limit o'), (''offset'', aq_offset o')})"
  using assms
proof (rule audit_params_cases)
  fix ps1 ps2
  assume dates: "set_date ''startDate'' (aq_startDate o') = Inr ps1"
      "set_date ''endDate'' (aq_endDate o') = Inr ps2"
    and ps: "ps = ps1 @ ps2 @ set_text ''userId'' (aq_userId o') @ set_text ''eventType'' (aq_eventType o')
       @ set_text ''policyId'' (aq_policyId o') @ set_number ''limit'' (aq_limit o')
       @ set_number ''offset'' (aq_offset o')"
  have d: "(k, v) \<in> set ps1 \<longleftrightarrow> k = ''startDate'' \<and> Some (Some v) = aq_startDate o'"
    "(k, v) \<in> set ps2 \<longleftrightarrow> k = ''endDate'' \<and> Some (Some v) = aq_endDate o'"
    using dates by (auto simp: set_date_iff)
  show ?thesis
    unfolding ps set_append Un_iff d set_set_text set_set_number insert_iff empty_iff prod.inject
      ex_disj_distrib conj_disj_distribL
    by (simp only: conj_ac ex_simps disj_ac simp_thms)
qed

text \<open>
  C8. An audit query asks for what its options say. With valid dates the client gets a path under
  \<open>/api/v1/audit\<close> whose query string parses back to parameters with different names, which are
  exactly: the two dates that are set, in ISO form; the identifiers of the user, the type of event
  and the policy that are set and not empty, whatever they hold (spaces, \<open>&\<close>, \<open>=\<close>, \<open>%\<close>, bytes beyond
  ASCII); the limit and the offset that are set and not 0. Without parameters there is no query
  string. An invalid date throws a \<open>RangeError\<close> before anything is sent.
\<close>

theorem audit_query_roundtrip:
  "if aq_startDate o' = Some None \<or> aq_endDate o' = Some None
   then gate_getAuditEvents e c (Some o') w = Some (Inl (Native ''RangeError'' ''Invalid time value''), w)
   else \<exists>ps qs. gate_getAuditEvents e c (Some o') w =
            client_get e c (''/api/v1/audit'' @ (if ps = [] then [] else ''?'' @ qs)) None w
       \<and> parse_params qs = ps \<and> distinct (map fst ps)
       \<and> (\<forall>k v. (k, v) \<in> set ps \<longleftrightarrow>
            (k, Some (Some v)) \<in> {(''startDate'', aq_startDate o'), (''endDate'', aq_endDate o')}
            \<or> v \<noteq> [] \<and> (k, Some v) \<in> {(''userId'', aq_userId o'), (''eventType'', aq_eventType o'),
                                       (''policyId'', aq_policyId o')}
            \<or> (\<exists>n. n \<noteq> 0 \<and> v = int_str n
                 \<and> (k, Some n) \<in> {(''limit'', aq_limit o'), (''offset'', aq_offset o')}))"
proof (cases "audit_params o'")
  case (Inl t)
  then have "(aq_startDate o' = Some None \<or> aq_endDate o' = Some None)
      \<and> t = Native ''RangeError'' ''Invalid time value''"
    by (auto simp: audit_params_def set_date_iff split: sum.splits)
  with Inl show ?thesis by (simp add: gate_getAuditEvents_def bind_io_def lift_sum_def)
next
  case (Inr ps)
  then have ok: "\<not> (aq_startDate o' = Some None \<or> aq_endDate o' = Some None)"
    by (auto simp: set_date_iff elim!: audit_params_cases)
  have path: "gate_getAuditEvents e c (Some o') w =
      client_get e c (''/api/v1/audit'' @ (if ps = [] then [] else ''?'' @ params_string ps)) None w"
    using Inr by (simp add: gate_getAuditEvents_def bind_io_def lift_sum_def audit_path_def Let_def
        params_string_Nil)
  show ?thesis
    unfolding if_not_P [OF ok]
    by (intro exI [of _ ps] exI [of _ "params_string ps"] conjI allI path parse_params_string
        audit_params_distinct [OF Inr] audit_params_lookup [OF Inr])
qed

definition ex_audit_options :: AuditQueryOptions where
  "ex_audit_options =
     \<lparr>aq_startDate = Some (Some ''2024-01-01T00:00:00.000Z''), aq_endDate = None,
      aq_userId = Some ''a&b=c'', aq_eventType = None, aq_policyId = Some [], aq_limit = Some 10,
      aq_offset = Some 0\<rparr>"

theorem audit_query_roundtrip_witness:
  "\<forall>e c w. \<exists>ps qs. gate_getAuditEvents e c (Some ex_audit_options) w =
       client_get e c (''/api/v1/audit'' @ (if ps = [] then [] else ''?'' @ qs)) None w
     \<and> parse_params qs = ps
     \<and> (''userId'', ''a&b=c'') \<in> set ps \<and> ''policyId'' \<notin> fst ` set ps \<and> ''offset'' \<notin> fst ` set ps"
proof (intro allI)
  fix e c w
  have ok: "\<not> (aq_startDate ex_audit_options = Some None \<or> aq_endDate ex_audit_options = Some None)"
    by (simp add: ex_audit_options_def)
  obtain ps qs where run: "gate_getAuditEvents e c (Some ex_audit_options) w =
       client_get e c (''/api/v1/audit'' @ (if ps = [] then [] else ''?'' @ qs)) None w"
      "parse_params qs = ps"
    and mem: "\<forall>k v. (k, v) \<in> set ps \<longleftrightarrow>
        (k, Some (Some v)) \<in> {(''startDate'', aq_startDate ex_audit_options), (''endDate'', aq_endDate ex_audit_options)}
        \<or> v \<noteq> [] \<and> (k, Some v) \<in> {(''userId'', aq_userId ex_audit_options),
              (''eventType'', aq_eventType ex_audit_options), (''policyId'', aq_policyId ex_audit_options)}
        \<or> (\<exists>n. n \<noteq> 0 \<and> v = int_str n
             \<and> (k, Some n) \<in> {(''limit'', aq_limit ex_audit_options), (''offset'', aq_offset ex_audit_options)})"
    using audit_query_roundtrip [of ex_audit_options e c w, unfolded if_not_P [OF ok]] by (elim exE conjE)
  note mem = mem [rule_format, unfolded insert_iff empty_iff prod.inject]
  have "(''userId'', ''a&b=c'') \<in> set ps" by (simp add: mem ex_audit_options_def)
  moreover have "(''policyId'', v) \<notin> set ps" "(''offset'', v) \<notin> set ps" for v
    by (simp_all add: mem ex_audit_options_def)
  ultimately show "\<exists>ps qs. gate_getAuditEvents e c (Some ex_audit_options) w =
       client_get e c (''/api/v1/audit'' @ (if ps = [] then [] else ''?'' @ qs)) None w
     \<and> parse_params qs = ps
     \<and> (''userId'', ''a&b=c'') \<in> set ps \<and> ''policyId'' \<notin> fst ` set ps \<and> ''offset'' \<notin> fst ` set ps"
    using run by (intro exI [of _ ps] exI [of _ qs] conjI) auto
qed

end
