(* ===== verification/SdkStream.thy ===== *)
theory SdkStream
  imports SdkGate
begin

text \<open>
  The streaming query of \<open>sdk/node/src/gate.ts\<close> (\<open>queryStream\<close>): one \<open>fetch\<close>, then a loop that
  reads text, splits it into lines, parses the lines that carry data and hands each parsed chunk
  to the caller. The text of a read is already decoded; on ASCII the decoder is the identity.
  The caller's callback is a predicate: whether it throws on a chunk.
\<close>

section \<open>The reader loop\<close>

text \<open>The variable \<open>finalResponse\<close> (\<open>JUndef\<close> at first) with the world.\<close>

type_synonym stream_state = "js \<times> world"

definition is_final :: "js \<Rightarrow> bool" where
  "is_final chunk \<longleftrightarrow>
     jprop ''type'' chunk = JStr ''done'' \<and> truthy (jprop ''finalResponse'' chunk)"

text \<open>
  The body of the inner loop for one \<open>data:\<close> line. Everything after \<open>JSON.parse\<close> is inside the
  \<open>try\<close>: a callback that throws, and a chunk whose \<open>type\<close> cannot be read, end it silently.
\<close>

definition stream_line :: "env \<Rightarrow> (js \<Rightarrow> bool) \<Rightarrow> string \<Rightarrow> stream_state \<Rightarrow> stream_state" where
  "stream_line e cb line s =
     (let data = drop 6 line
      in if data = ''[DONE]'' then s
         else (case json_parse e data of
                 Inl _ \<Rightarrow> s
               | Inr chunk \<Rightarrow>
                   (let w' = emit (EvChunk chunk) (snd s)
                    in if \<not> cb chunk \<and> is_final chunk
                       then (jprop ''finalResponse'' chunk, w')
                       else (fst s, w'))))"

definition data_lines :: "string \<Rightarrow> string list" where
  "data_lines text = filter (\<lambda>l. starts_with l ''data: '') (split_on (CHR 10) text)"

definition stream_text :: "env \<Rightarrow> (js \<Rightarrow> bool) \<Rightarrow> string \<Rightarrow> stream_state \<Rightarrow> stream_state" where
  "stream_text e cb text s = fold (stream_line e cb) (data_lines text) s"

fun stream_loop ::
  "env \<Rightarrow> (js \<Rightarrow> bool) \<Rightarrow> read_step list \<Rightarrow> stream_state \<Rightarrow> (thrown + js) \<times> world" where
  "stream_loop e cb [] s = (Inr (fst s), snd s)"
| "stream_loop e cb (RChunk text # rs) s = stream_loop e cb rs (stream_text e cb text s)"
| "stream_loop e cb (RFail n m # rs) s = (Inl (Native n m), snd s)"

section \<open>The query\<close>

definition stream_headers :: "SecureLensClient \<Rightarrow> (string \<times> string) list" where
  "stream_headers c =
     [(''Content-Type'', ''application/json''), (''Authorization'', ''Bearer '' @ cl_apiKey c)]
     @ (case getTenantId c of
          Some t \<Rightarrow> (if t \<noteq> [] then [(''X-Tenant-ID'', t)] else [])
        | None \<Rightarrow> [])"

definition no_signal :: abort_signal where
  "no_signal = \<lparr>abort_at = None, abort_name = ''AbortError'', abort_message = []\<rparr>"

definition stream_http_request :: "SecureLensClient \<Rightarrow> query_request \<Rightarrow> http_request" where
  "stream_http_request c rq =
     \<lparr>q_method = ''POST'', q_url = getBaseUrl c @ ''/api/v1/gate/query/stream'',
      q_headers = stream_headers c,
      q_body = Some (json_view (normalizeQueryRequest (rq\<lparr>qr_stream := JBool True\<rparr>)))\<rparr>"

definition stream_failure :: "env \<Rightarrow> http_response \<Rightarrow> js sdk" where
  "stream_failure e r =
     bind_io (read_body no_signal r) (\<lambda>t.
     bind_io (lift_sum (parse_text e t)) (\<lambda>errorBody.
       case get_prop ''message'' errorBody of
         Inl m \<Rightarrow> throw (Native ''TypeError'' m)
       | Inr m \<Rightarrow>
           throw (SL (new_SecureLensValidationError
                        (coalesce m (JStr ''Stream request failed'')) JUndef no_options))))"

definition read_stream :: "env \<Rightarrow> (js \<Rightarrow> bool) \<Rightarrow> read_step list \<Rightarrow> js sdk" where
  "read_stream e cb steps =
     bind_io
       (finally_io (\<lambda>w. Some (stream_loop e cb steps (JUndef, w))) (emit EvReleaseLock))
       (\<lambda>finalResponse.
          if \<not> truthy finalResponse
          then throw (validation_error ''Stream ended without final response'' JUndef)
          else ret finalResponse)"

definition queryStream ::
  "env \<Rightarrow> SecureLensClient \<Rightarrow> query_request \<Rightarrow> (js \<Rightarrow> bool) \<Rightarrow> js sdk" where
  "queryStream e c rq cb =
     bind_io (lift_sum (validateQueryRequest rq)) (\<lambda>_.
     bind_io (do_fetch e no_signal (stream_http_request c rq)) (\<lambda>r.
       if \<not> r_ok r then stream_failure e r
       else (case r_stream r of
               None \<Rightarrow> throw (validation_error ''Response body is not readable'' JUndef)
             | Some steps \<Rightarrow> read_stream e cb steps)))"

section \<open>Lemmas\<close>

lemma data_lines_Nil [simp]: "data_lines [] = []"
  by (simp add: data_lines_def starts_with_def)

lemma data_lines_newline: "data_lines (t @ CHR 10 # u) = data_lines t @ data_lines u"
  by (simp add: data_lines_def split_on_append_sep)

lemma data_lines_complete: "data_lines (t @ [CHR 10]) = data_lines t"
  using data_lines_newline [of t "[]"] by simp

lemma stream_text_Nil [simp]: "stream_text e cb [] s = s"
  by (simp add: stream_text_def)

lemma stream_text_newline:
  "stream_text e cb (t @ CHR 10 # u) s = stream_text e cb u (stream_text e cb t s)"
  by (simp add: stream_text_def data_lines_newline)

lemma stream_text_complete: "stream_text e cb (t @ [CHR 10]) s = stream_text e cb t s"
  by (simp add: stream_text_def data_lines_complete)

text \<open>A text that ends at the end of a line.\<close>

definition whole_lines :: "string \<Rightarrow> bool" where
  "whole_lines t \<longleftrightarrow> t = [] \<or> (\<exists>u. t = u @ [CHR 10])"

lemma stream_text_whole:
  assumes "whole_lines t"
  shows "stream_text e cb (t @ u) s = stream_text e cb u (stream_text e cb t s)"
proof (cases "t = []")
  case True
  then show ?thesis by (simp add: stream_text_def)
next
  case False
  with assms obtain v where "t = v @ [CHR 10]" by (auto simp: whole_lines_def)
  then show ?thesis
    using stream_text_newline [of e cb v u s] stream_text_complete [of e cb v s] by simp
qed

lemma stream_loop_whole:
  "\<forall>t \<in> set ts. whole_lines t \<Longrightarrow>
   stream_loop e cb (map RChunk ts) s =
     (let s' = stream_text e cb (concat ts) s in (Inr (fst s'), snd s'))"
  by (induction ts arbitrary: s) (simp_all add: stream_text_whole)

text \<open>Where a final response comes from: a chunk that was handed to the caller.\<close>

definition delivered :: "world \<Rightarrow> js set" where
  "delivered w = {chunk. EvChunk chunk \<in> set (trace w)}"

definition stream_inv :: "(js \<Rightarrow> bool) \<Rightarrow> stream_state \<Rightarrow> bool" where
  "stream_inv cb s \<longleftrightarrow>
     fst s = JUndef \<or>
     (\<exists>chunk \<in> delivered (snd s).
        is_final chunk \<and> \<not> cb chunk \<and> fst s = jprop ''finalResponse'' chunk)"

lemma stream_line_inv: "stream_inv cb s \<Longrightarrow> stream_inv cb (stream_line e cb line s)"
  by (auto simp: stream_inv_def stream_line_def delivered_def Let_def split: sum.splits)

lemma stream_text_inv: "stream_inv cb s \<Longrightarrow> stream_inv cb (stream_text e cb t s)"
proof -
  have "stream_inv cb s \<Longrightarrow> stream_inv cb (fold (stream_line e cb) ls s)" for ls
    by (induction ls arbitrary: s) (simp_all add: stream_line_inv)
  then show "stream_inv cb s \<Longrightarrow> stream_inv cb (stream_text e cb t s)"
    by (simp add: stream_text_def)
qed

lemma stream_loop_inv:
  "stream_loop e cb rs s = (Inr v, w') \<Longrightarrow> stream_inv cb s \<Longrightarrow> stream_inv cb (v, w')"
  by (induction e cb rs s rule: stream_loop.induct) (auto dest: stream_text_inv)

text \<open>The loop leaves the clock and the number of fetches alone.\<close>

lemma stream_line_calls: "calls (snd (stream_line e cb l s)) = calls (snd s)"
  by (simp add: stream_line_def Let_def split: sum.splits)

lemma stream_text_calls: "calls (snd (stream_text e cb t s)) = calls (snd s)"
proof -
  have "calls (snd (fold (stream_line e cb) ls s)) = calls (snd s)" for ls
    by (induction ls arbitrary: s) (simp_all add: stream_line_calls)
  then show ?thesis by (simp add: stream_text_def)
qed

lemma stream_loop_calls: "calls (snd (stream_loop e cb rs s)) = calls (snd s)"
  by (induction e cb rs s rule: stream_loop.induct) (simp_all add: stream_text_calls)

lemma read_stream_run:
  obtains out w1 where "stream_loop e cb steps (JUndef, w) = (out, w1)"
    "read_stream e cb steps w =
       Some (case out of
               Inl t \<Rightarrow> Inl t
             | Inr v \<Rightarrow> (if truthy v then Inr v
                          else Inl (validation_error ''Stream ended without final response'' JUndef)),
             emit EvReleaseLock w1)"
proof -
  obtain out w1 where "stream_loop e cb steps (JUndef, w) = (out, w1)" by fastforce
  then show ?thesis
    by (intro that, assumption)
      (cases out; simp add: read_stream_def bind_io_def finally_io_def throw_def ret_def)
qed

section \<open>Examples\<close>

definition nl :: string where
  "nl = [CHR 10]"

definition ex_query :: query_request where
  "ex_query =
     \<lparr>qr_query = JStr ''hi'', qr_contextSource = JUndef, qr_llmProvider = JUndef, qr_model = JUndef,
      qr_topK = None, qr_policies = JUndef, qr_userContext = JUndef, qr_sessionId = JUndef,
      qr_systemPrompt = JUndef, qr_stream = JUndef, qr_metadata = JUndef\<rparr>"

definition ex_done :: js where
  "ex_done = JObj [(''type'', JStr ''done''), (''finalResponse'', JObj [(''response'', JStr ''ok'')])]"

text \<open>A network that streams \<open>steps\<close>, and a parser that knows one text.\<close>

definition ex_stream_env :: "read_step list \<Rightarrow> env" where
  "ex_stream_env steps =
     \<lparr>net = (\<lambda>k. \<lparr>latency = Some 1, outcome = FRespond ((ex_response 200 ''{}'')\<lparr>r_stream := Some steps\<rparr>)\<rparr>),
      request_id = (\<lambda>k. ''req''),
      json_parse = (\<lambda>t. if t = ''{done}'' then Inr ex_done else Inl ''bad'')\<rparr>"

section \<open>Properties\<close>

text \<open>
  C11. If every read ends at the end of a line, the way the server's text is cut into reads does not
  matter: the loop hands out the same chunks and finds the same final response as one pass over
  the whole text.
\<close>

theorem stream_cut_at_lines:
  assumes "\<forall>t \<in> set ts. whole_lines t"
  shows "stream_loop e cb (map RChunk ts) s = stream_loop e cb [RChunk (concat ts)] s"
  using stream_loop_whole [OF assms] by (simp add: Let_def)

theorem stream_cut_at_lines_witness:
  "stream_loop (ex_stream_env []) (\<lambda>_. False) (map RChunk [''data: {done}'' @ nl, ''data: [DONE]'' @ nl])
     (JUndef, ex_world)
   = stream_loop (ex_stream_env []) (\<lambda>_. False)
       [RChunk (concat [''data: {done}'' @ nl, ''data: [DONE]'' @ nl])] (JUndef, ex_world)"
  by (rule stream_cut_at_lines) (auto simp: whole_lines_def nl_def)

text \<open>
  A line that is cut inside its \<open>data: \<close> prefix is lost: neither half is recognised, so the
  chunk is not delivered and a final response in it is not found. The loop keeps no partial line
  between reads.
\<close>

theorem stream_cut_in_prefix_loses_line:
  assumes "1 \<le> n" and "n \<le> 5" and "CHR 10 \<notin> set d"
  shows "stream_loop e cb [RChunk (take n (''data: '' @ d)), RChunk (drop n (''data: '' @ d))] s
         = (Inr (fst s), snd s)"
proof -
  have n: "n \<in> {1, 2, 3, 4, 5}" using assms(1,2) by auto
  have "CHR 10 \<notin> set (''data: '' @ d)" using assms(3) by simp
  then have "CHR 10 \<notin> set (take n (''data: '' @ d))" "CHR 10 \<notin> set (drop n (''data: '' @ d))"
    by (meson in_set_takeD in_set_dropD)+
  then have "data_lines (take n (''data: '' @ d)) = []" "data_lines (drop n (''data: '' @ d)) = []"
    using n by (auto simp: data_lines_def split_on_no_sep starts_with_def)
  then show ?thesis by (simp add: stream_text_def)
qed

theorem stream_cut_in_prefix_loses_line_witness:
  "stream_loop (ex_stream_env []) (\<lambda>_. False)
     [RChunk (take 3 (''data: '' @ ''{done}'')), RChunk (drop 3 (''data: '' @ ''{done}''))] (JUndef, ex_world)
   = (Inr JUndef, ex_world)
   \<and> stream_loop (ex_stream_env []) (\<lambda>_. False) [RChunk ''data: {done}''] (JUndef, ex_world)
     = (Inr (JObj [(''response'', JStr ''ok'')]), emit (EvChunk ex_done) ex_world)"
proof
  show "stream_loop (ex_stream_env []) (\<lambda>_. False)
     [RChunk (take 3 (''data: '' @ ''{done}'')), RChunk (drop 3 (''data: '' @ ''{done}''))] (JUndef, ex_world)
   = (Inr JUndef, ex_world)"
    using stream_cut_in_prefix_loses_line [of 3 "''{done}''" "ex_stream_env []" "\<lambda>_. False"
        "(JUndef, ex_world)"] by simp
  show "stream_loop (ex_stream_env []) (\<lambda>_. False) [RChunk ''data: {done}''] (JUndef, ex_world)
     = (Inr (JObj [(''response'', JStr ''ok'')]), emit (EvChunk ex_done) ex_world)"
    by (simp add: stream_text_def data_lines_def starts_with_def stream_line_def ex_stream_env_def
        is_final_def ex_done_def Let_def)
qed

text \<open>
  What a streamed query returns is the final response of a chunk of type \<open>done\<close> that was handed
  to the caller and on which the callback did not throw; it calls \<open>fetch\<close> exactly once, and the
  last thing it does is to release the reader.
\<close>

theorem queryStream_result:
  assumes "queryStream e c rq cb w = Some (Inr v, w')"
  shows "(\<exists>chunk \<in> delivered w'. is_final chunk \<and> \<not> cb chunk \<and> v = jprop ''finalResponse'' chunk)
         \<and> calls w' = Suc (calls w) \<and> last (trace w') = EvReleaseLock"
proof -
  obtain r w1 where f: "do_fetch e no_signal (stream_http_request c rq) w = Some (Inr r, w1)"
    and rest: "(if \<not> r_ok r then stream_failure e r
       else (case r_stream r of
               None \<Rightarrow> throw (validation_error ''Response body is not readable'' JUndef)
             | Some steps \<Rightarrow> read_stream e cb steps)) w1 = Some (Inr v, w')"
    using assms unfolding queryStream_def
    by (auto elim!: bind_io_cases simp: lift_sum_def)
  have "stream_failure e r w1 \<noteq> Some (Inr v, w')"
    by (auto simp: stream_failure_def bind_io_def lift_sum_def throw_def
        split: option.splits sum.splits)
  with rest obtain steps where st: "read_stream e cb steps w1 = Some (Inr v, w')"
    by (auto simp: throw_def split: if_splits option.splits)
  obtain out w2 where loop: "stream_loop e cb steps (JUndef, w1) = (out, w2)"
    "read_stream e cb steps w1 =
       Some (case out of
               Inl t \<Rightarrow> Inl t
             | Inr v \<Rightarrow> (if truthy v then Inr v
                          else Inl (validation_error ''Stream ended without final response'' JUndef)),
             emit EvReleaseLock w2)"
    by (rule read_stream_run)
  with st have w': "out = Inr v" "truthy v" "w' = emit EvReleaseLock w2"
    by (auto split: sum.splits if_splits)
  have "stream_inv cb (v, w2)"
    using stream_loop_inv loop(1) w'(1) by (fastforce simp: stream_inv_def)
  with w' have "\<exists>chunk \<in> delivered w'. is_final chunk \<and> \<not> cb chunk \<and> v = jprop ''finalResponse'' chunk"
    by (auto simp: stream_inv_def delivered_def)
  moreover have "calls w2 = Suc (calls w)"
    using stream_loop_calls [of e cb steps "(JUndef, w1)"] loop(1) do_fetch_effect [OF f]
    by (simp add: effect_def)
  ultimately show ?thesis using w'(3) by simp
qed

lemma ex_stream_run:
  "queryStream (ex_stream_env [RChunk (''data: {done}'' @ nl)]) (ex_client 1) ex_query (\<lambda>_. False) ex_world
   = Some (Inr (JObj [(''response'', JStr ''ok'')]),
       emit EvReleaseLock (emit (EvChunk ex_done)
         ((emit (EvFetch (stream_http_request (ex_client 1) ex_query)) (ex_world\<lparr>calls := 1\<rparr>))\<lparr>clock := 1\<rparr>)))"
  by (simp add: queryStream_def validateQueryRequest_def query_missing_def topK_invalid_def ex_query_def
      bind_io_def lift_sum_def do_fetch_def await_signal_def no_signal_def ex_stream_env_def
      ex_response_def r_ok_def read_stream_def finally_io_def stream_text_def data_lines_def nl_def
      starts_with_def stream_line_def is_final_def ex_done_def Let_def ret_def ex_world_def emit_def)

theorem queryStream_result_witness:
  "\<exists>v w'. queryStream (ex_stream_env [RChunk (''data: {done}'' @ nl)]) (ex_client 1) ex_query
        (\<lambda>_. False) ex_world = Some (Inr v, w')
     \<and> (\<exists>chunk \<in> delivered w'. is_final chunk \<and> v = jprop ''finalResponse'' chunk)
     \<and> calls w' = 1 \<and> last (trace w') = EvReleaseLock"
  using queryStream_result [OF ex_stream_run] ex_stream_run by (fastforce simp: ex_world_def)

text \<open>
  An exception of the caller's callback is swallowed with the malformed lines: if it throws on
  the \<open>done\<close> chunk, a stream that was complete ends with a validation error.
\<close>

theorem callback_exception_loses_response:
  assumes "\<And>chunk. is_final chunk \<Longrightarrow> cb chunk"
  shows "\<exists>t w'. read_stream e cb steps w = Some (Inl t, w') \<and> last (trace w') = EvReleaseLock"
proof -
  obtain out w1 where loop: "stream_loop e cb steps (JUndef, w) = (out, w1)"
    "read_stream e cb steps w =
       Some (case out of
               Inl t \<Rightarrow> Inl t
             | Inr v \<Rightarrow> (if truthy v then Inr v
                          else Inl (validation_error ''Stream ended without final response'' JUndef)),
             emit EvReleaseLock w1)"
    by (rule read_stream_run)
  have "out = Inr v \<Longrightarrow> v = JUndef" for v
    using stream_loop_inv [of e cb steps "(JUndef, w)" v w1] loop(1) assms
    by (auto simp: stream_inv_def)
  with loop(2) show ?thesis by (cases out) auto
qed

theorem callback_exception_loses_response_witness:
  "\<exists>t w'. read_stream (ex_stream_env []) (\<lambda>_. True) [RChunk ''data: {done}''] ex_world = Some (Inl t, w')
     \<and> last (trace w') = EvReleaseLock"
  by (rule callback_exception_loses_response) simp

end
