(* ===== verification/SdkExpress.thy ===== *)
theory SdkExpress
  imports SdkStream
begin

text \<open>
  \<open>sdk/node/src/express.ts\<close>: the Express middleware that puts the gate in front of a route, and
  the route handler that runs a governed query. The state is the SDK's world with what the
  middleware keeps on the request (\<open>req.secureLens\<close>) and whether it has replaced \<open>res.json\<close>.
  Express's \<open>next\<close> and the functions of the caller's options are parameters; each may throw.
\<close>

section \<open>State and responses\<close>

record secure_lens =
  sl_interceptResult :: js
  sl_safeQuery :: js
  sl_auditId :: js
  sl_userContext :: js

definition empty_secure_lens :: secure_lens where
  "empty_secure_lens =
     \<lparr>sl_interceptResult = JUndef, sl_safeQuery = JUndef, sl_auditId = JUndef,
      sl_userContext = JUndef\<rparr>"

record express_request =
  rq_body :: js
  rq_query :: js

record xstate =
  x_world :: world
  x_secureLens :: "secure_lens option"
  x_wrapped :: bool

type_synonym 'a xio = "(thrown, xstate, 'a) io"

definition lift_sdk :: "'a sdk \<Rightarrow> 'a xio" where
  "lift_sdk m s =
     (case m (x_world s) of None \<Rightarrow> None | Some (r, w') \<Rightarrow> Some (r, s\<lparr>x_world := w'\<rparr>))"

definition x_emit :: "event \<Rightarrow> xstate \<Rightarrow> xstate" where
  "x_emit ev s = s\<lparr>x_world := emit ev (x_world s)\<rparr>"

definition set_secure_lens :: "(secure_lens \<Rightarrow> secure_lens) \<Rightarrow> unit xio" where
  "set_secure_lens f = modify_io (\<lambda>s. s\<lparr>x_secureLens := map_option f (x_secureLens s)\<rparr>)"

text \<open>
  \<open>res.json(body)\<close>: when it has been replaced, an audit of the body is started first and not
  awaited (\<open>EvAudit\<close>; what it does is \<open>auditResponse\<close>).
\<close>

definition res_json :: "js \<Rightarrow> unit xio" where
  "res_json body =
     modify_io (\<lambda>s. x_emit (EvJson body) (if x_wrapped s then x_emit (EvAudit body) s else s))"

definition res_status :: "int \<Rightarrow> unit xio" where
  "res_status code = modify_io (x_emit (EvStatus code))"

section \<open>Auditing a response\<close>

definition extractResponseText :: "js \<Rightarrow> js" where
  "extractResponseText body =
     (if is_string body then body
      else if truthy body \<and> is_object body then
        first_prop [''response'', ''message'', ''content'', ''text'', ''answer''] body
      else JUndef)"

definition auditResponse :: "env \<Rightarrow> SecureLensClient \<Rightarrow> js \<Rightarrow> unit sdk" where
  "auditResponse e c body =
     catch_io
       (let responseText = extractResponseText body
        in if \<not> truthy responseText then ret ()
           else bind_io (gate_classify e c responseText) (\<lambda>_. ret ()))
       (\<lambda>_. ret ())"

section \<open>Options and defaults\<close>

record middleware_options =
  mo_interceptRequests :: bool
  mo_auditResponses :: bool
  mo_policies :: js
  mo_getUserContext :: "(express_request \<Rightarrow> thrown + js) option"
  mo_getQuery :: "(express_request \<Rightarrow> thrown + js) option"
  mo_onError :: "(thrown \<Rightarrow> unit xio) option"
  mo_onBlocked :: "(js \<Rightarrow> unit xio) option"
  mo_skip :: "(express_request \<Rightarrow> bool) option"

definition defaultGetQuery :: "express_request \<Rightarrow> thrown + js" where
  "defaultGetQuery req =
     Inr (coalesce (jprop ''query'' (rq_body req))
         (coalesce (jprop ''message'' (rq_body req))
         (coalesce (jprop ''prompt'' (rq_body req))
                   (jprop ''q'' (rq_query req)))))"

fun defaultOnError :: "thrown \<Rightarrow> unit xio" where
  "defaultOnError (SL er) =
     then_io (res_status (opt_default 500 (e_statusCode er)))
       (res_json (JObj [(''error'', JStr (e_code er)), (''message'', e_message er),
                        (''requestId'', js_of_opt JStr (e_requestId er))]))"
| "defaultOnError (Native n m) =
     then_io (res_status 500)
       (res_json (JObj [(''error'', JStr ''INTERNAL_ERROR''),
                        (''message'', JStr ''An internal error occurred'')]))"

definition blocked_body :: "js \<Rightarrow> js" where
  "blocked_body result = JObj
     [(''error'', JStr ''POLICY_BLOCKED''),
      (''message'', coalesce (jprop ''blockReason'' result) (JStr ''Request blocked by policy'')),
      (''auditId'', jprop ''auditId'' result),
      (''suggestedQuery'', jprop ''suggestedQuery'' result)]"

definition defaultOnBlocked :: "js \<Rightarrow> unit xio" where
  "defaultOnBlocked result = then_io (res_status 403) (res_json (blocked_body result))"

section \<open>The middleware\<close>

definition user_context ::
  "(express_request \<Rightarrow> thrown + js) option \<Rightarrow> express_request \<Rightarrow> js xio" where
  "user_context f req = (case f of None \<Rightarrow> ret JUndef | Some g \<Rightarrow> lift_sum (g req))"

text \<open>A property of a value that may be \<open>null\<close>: the read throws a \<open>TypeError\<close> there.\<close>

definition read_prop :: "string \<Rightarrow> js \<Rightarrow> js xio" where
  "read_prop k v =
     (case get_prop k v of Inl m \<Rightarrow> throw (Native ''TypeError'' m) | Inr x \<Rightarrow> ret x)"

definition intercept_call :: "js \<Rightarrow> js \<Rightarrow> js \<Rightarrow> intercept_request" where
  "intercept_call query policies uc =
     \<lparr>ir_query = query, ir_contextSource = JUndef, ir_policies = policies, ir_userContext = uc,
      ir_sessionId = JUndef, ir_metadata = JUndef\<rparr>"

text \<open>The interception of a request: whether it was blocked (and answered).\<close>

definition intercept_phase ::
  "env \<Rightarrow> SecureLensClient \<Rightarrow> middleware_options \<Rightarrow> express_request \<Rightarrow> js \<Rightarrow> bool xio" where
  "intercept_phase e c opts req uc =
     (if \<not> mo_interceptRequests opts then ret False
      else bind_io (lift_sum (opt_default defaultGetQuery (mo_getQuery opts) req)) (\<lambda>query.
        if \<not> truthy query then ret False
        else bind_io (lift_sdk (gate_intercept e c (intercept_call query (mo_policies opts) uc)))
          (\<lambda>result.
            then_io (set_secure_lens (\<lambda>l. l\<lparr>sl_interceptResult := result\<rparr>))
            (bind_io (read_prop ''safeQuery'' result) (\<lambda>sq.
            then_io (set_secure_lens (\<lambda>l. l\<lparr>sl_safeQuery := sq\<rparr>))
            (bind_io (read_prop ''auditId'' result) (\<lambda>aid.
            then_io (set_secure_lens (\<lambda>l. l\<lparr>sl_auditId := aid\<rparr>))
            (bind_io (read_prop ''allowed'' result) (\<lambda>allowed.
              if \<not> truthy allowed
              then then_io (opt_default defaultOnBlocked (mo_onBlocked opts) result) (ret True)
              else ret False)))))))))"

definition run_next :: "unit xio \<Rightarrow> unit xio" where
  "run_next nxt = then_io (modify_io (x_emit EvNext)) nxt"

definition secureLensMiddleware ::
  "env \<Rightarrow> SecureLensClient \<Rightarrow> middleware_options \<Rightarrow> express_request \<Rightarrow> unit xio \<Rightarrow> unit xio" where
  "secureLensMiddleware e c opts req nxt =
     (if (case mo_skip opts of Some f \<Rightarrow> f req | None \<Rightarrow> False) then run_next nxt
      else then_io (modify_io (\<lambda>s. s\<lparr>x_secureLens := Some empty_secure_lens\<rparr>))
        (catch_io
          (bind_io (user_context (mo_getUserContext opts) req) (\<lambda>uc.
           then_io (set_secure_lens (\<lambda>l. l\<lparr>sl_userContext := uc\<rparr>))
           (bind_io (intercept_phase e c opts req uc) (\<lambda>blocked.
              if blocked then ret ()
              else then_io (when_io (mo_auditResponses opts)
                              (modify_io (\<lambda>s. s\<lparr>x_wrapped := True\<rparr>)))
                     (run_next nxt)))))
          (opt_default defaultOnError (mo_onError opts))))"

section \<open>The route handler\<close>

record handler_options =
  ho_llmProvider :: js
  ho_model :: js
  ho_contextSource :: js
  ho_topK :: "jsnum option"
  ho_policies :: js
  ho_getUserContext :: "(express_request \<Rightarrow> thrown + js) option"
  ho_getQuery :: "(express_request \<Rightarrow> thrown + js) option"
  ho_formatResponse :: "(js \<Rightarrow> thrown + js) option"

definition handler_query :: "handler_options \<Rightarrow> js \<Rightarrow> js \<Rightarrow> query_request" where
  "handler_query opts query uc =
     \<lparr>qr_query = query, qr_contextSource = ho_contextSource opts,
      qr_llmProvider = ho_llmProvider opts, qr_model = ho_model opts, qr_topK = ho_topK opts,
      qr_policies = ho_policies opts, qr_userContext = uc, qr_sessionId = JUndef,
      qr_systemPrompt = JUndef, qr_stream = JUndef, qr_metadata = JUndef\<rparr>"

fun handler_error :: "thrown \<Rightarrow> unit xio" where
  "handler_error (SL er) =
     (case e_class er of
        CPolicyError pid pname why suggested \<Rightarrow>
          then_io (res_status 403)
            (res_json (JObj [(''error'', JStr ''POLICY_BLOCKED''), (''message'', e_message er),
                             (''policyId'', pid), (''suggestedQuery'', suggested)]))
      | _ \<Rightarrow>
          then_io (res_status (opt_default 500 (e_statusCode er)))
            (res_json (JObj [(''error'', JStr (e_code er)), (''message'', e_message er)])))"
| "handler_error (Native n m) =
     then_io (res_status 500)
       (res_json (JObj [(''error'', JStr ''INTERNAL_ERROR''),
                        (''message'', JStr ''An internal error occurred'')]))"

definition handler_body ::
  "env \<Rightarrow> SecureLensClient \<Rightarrow> handler_options \<Rightarrow> express_request \<Rightarrow> js option xio" where
  "handler_body e c opts req =
     bind_io (lift_sum (opt_default (\<lambda>r. Inr (jprop ''query'' (rq_body r))) (ho_getQuery opts) req))
       (\<lambda>query.
          if \<not> truthy query then ret None
          else bind_io (user_context (ho_getUserContext opts) req) (\<lambda>uc.
               bind_io (lift_sdk (gate_query e c (handler_query opts query uc))) (\<lambda>result.
               bind_io (lift_sum (case ho_formatResponse opts of
                                    Some f \<Rightarrow> f result | None \<Rightarrow> Inr result)) (\<lambda>response.
               ret (Some response)))))"

definition createGateHandler ::
  "env \<Rightarrow> SecureLensClient \<Rightarrow> handler_options \<Rightarrow> express_request \<Rightarrow> unit xio" where
  "createGateHandler e c opts req =
     catch_io
       (bind_io (handler_body e c opts req) (\<lambda>response.
          case response of
            None \<Rightarrow> then_io (res_status 400) (res_json (JObj [(''error'', JStr ''Query is required'')]))
          | Some body \<Rightarrow> res_json body))
       handler_error"

section \<open>Lemmas\<close>

fun responses :: "event list \<Rightarrow> js list" where
  "responses [] = []"
| "responses (EvJson v # evs) = v # responses evs"
| "responses (_ # evs) = responses evs"

lemma responses_append [simp]: "responses (a @ b) = responses a @ responses b"
  by (induction a rule: responses.induct) auto

lemma x_world_emit [simp]: "x_world (x_emit ev s) = emit ev (x_world s)"
  by (simp add: x_emit_def)

lemma x_emit_frame [simp]:
  "x_wrapped (x_emit ev s) = x_wrapped s" "x_secureLens (x_emit ev s) = x_secureLens s"
  by (simp_all add: x_emit_def)

lemma res_json_run:
  "res_json v s = Some (Inr (), x_emit (EvJson v) (if x_wrapped s then x_emit (EvAudit v) s else s))"
  by (simp add: res_json_def io_simps)

lemma res_status_run: "res_status n s = Some (Inr (), x_emit (EvStatus n) s)"
  by (simp add: res_status_def io_simps)

lemmas res_run = then_io_def bind_io_def res_json_run res_status_run

text \<open>A handler answers with one JSON body, on whatever it is given.\<close>

definition answers :: "unit xio \<Rightarrow> bool" where
  "answers m \<longleftrightarrow>
     (\<forall>s. \<exists>s' evs v. m s = Some (Inr (), s')
        \<and> trace (x_world s') = trace (x_world s) @ evs \<and> responses evs = [v])"

lemma answers_json: "answers (res_json v)"
  by (auto simp: answers_def res_json_run)

lemma answers_status_json: "answers (then_io (res_status n) (res_json v))"
  by (auto simp: answers_def res_run)

lemma defaultOnError_answers: "answers (defaultOnError t)"
  by (cases t) (simp_all add: answers_status_json)

lemma handler_error_answers: "answers (handler_error t)"
  by (cases t) (auto simp: answers_status_json split: err_class.splits)

text \<open>The SDK itself never answers a request.\<close>

fun is_response :: "event \<Rightarrow> bool" where
  "is_response (EvJson v) = True"
| "is_response _ = False"

lemma responses_Nil_iff: "responses evs = [] \<longleftrightarrow> (\<forall>ev \<in> set evs. \<not> is_response ev)"
  by (induction evs rule: responses.induct) auto

lemma read_prop_cases:
  "read_prop k v s = Some (r, s') \<Longrightarrow> s' = s \<and>
     (nullish v \<and> r = Inl (Native ''TypeError'' (type_error_message k v))
      \<or> \<not> nullish v \<and> r = Inr (jprop k v))"
  by (auto simp: read_prop_def get_prop_def throw_def ret_def split: if_splits)

text \<open>The gate, asked about the query of a request, answers \<open>allowed\<close>.\<close>

definition gate_allows ::
  "env \<Rightarrow> SecureLensClient \<Rightarrow> middleware_options \<Rightarrow> js \<Rightarrow> js \<Rightarrow> world \<Rightarrow> bool" where
  "gate_allows e c opts query uc w \<longleftrightarrow>
     (\<exists>result w'. gate_intercept e c (intercept_call query (mo_policies opts) uc) w
        = Some (Inr result, w') \<and> truthy (jprop ''allowed'' result))"

lemma set_secure_lens_run:
  "set_secure_lens f s = Some (Inr (), s\<lparr>x_secureLens := map_option f (x_secureLens s)\<rparr>)"
  by (simp add: set_secure_lens_def io_simps)

text \<open>
  The interception lets a request through only when it is off, there is no query, or the gate has
  said \<open>allowed\<close>.
\<close>

lemma intercept_phase_passes:
  assumes "intercept_phase e c opts req uc s = Some (Inr False, s')"
    and "mo_interceptRequests opts"
  shows "\<exists>query. opt_default defaultGetQuery (mo_getQuery opts) req = Inr query
           \<and> (\<not> truthy query \<or> gate_allows e c opts query uc (x_world s))"
  using assms
  by (auto simp: intercept_phase_def gate_allows_def bind_io_def lift_sum_def lift_sdk_def
      then_io_def ret_def set_secure_lens_run
      split: sum.splits option.splits if_splits dest!: read_prop_cases)

lemma bind_cong_Inr:
  "(\<And>x s'. m s = Some (Inr x, s') \<Longrightarrow> f x s' = g x s') \<Longrightarrow> bind_io m f s = bind_io m g s"
  by (auto simp: bind_io_def split: option.splits sum.splits)

lemma catch_cong: "m s = n s \<Longrightarrow> catch_io m h s = catch_io n h s"
  by (simp add: catch_io_def)

lemma read_prop_run:
  "\<not> nullish v \<Longrightarrow> read_prop k v s = Some (Inr (jprop k v), s)"
  by (simp add: read_prop_def ret_def)

text \<open>An SDK call made for a request answers nothing.\<close>

lemma quiet_no_response: "quiet w w' \<Longrightarrow> \<exists>evs. trace w' = trace w @ evs \<and> responses evs = []"
proof -
  have "list_all client_event evs \<Longrightarrow> responses evs = []" for evs
    by (induction evs rule: responses.induct) auto
  then show "quiet w w' \<Longrightarrow> ?thesis" by (auto simp: quiet_def)
qed

lemma handler_body_silent:
  assumes "handler_body e c opts rq s = Some (r, s')"
  shows "\<exists>evs. trace (x_world s') = trace (x_world s) @ evs \<and> responses evs = []"
proof -
  have "x_world s' = x_world s \<or> (\<exists>q r'. gate_query e c q (x_world s) = Some (r', x_world s'))"
    using assms
    by (auto simp: handler_body_def bind_io_def lift_sum_def lift_sdk_def user_context_def ret_def
        split: sum.splits option.splits if_splits)
  then show ?thesis by (auto dest!: query_api.call_quiet intro: quiet_no_response)
qed

section \<open>Examples\<close>

definition ex_options :: middleware_options where
  "ex_options =
     \<lparr>mo_interceptRequests = True, mo_auditResponses = True, mo_policies = JArr [JStr ''redact_pii''],
      mo_getUserContext = None, mo_getQuery = None, mo_onError = None, mo_onBlocked = None,
      mo_skip = None\<rparr>"

definition ex_request :: express_request where
  "ex_request = \<lparr>rq_body = JObj [(''query'', JStr ''salary?'')], rq_query = JUndef\<rparr>"

definition ex_verdict :: "bool \<Rightarrow> js" where
  "ex_verdict ok = JObj
     [(''allowed'', JBool ok), (''safeQuery'', JStr ''salary?''), (''originalQuery'', JStr ''salary?''),
      (''classifications'', JArr []), (''appliedPolicies'', JArr []), (''auditId'', JStr ''a1'')]"

definition ex_state :: xstate where
  "ex_state = \<lparr>x_world = ex_world, x_secureLens = None, x_wrapped = False\<rparr>"

lemma ex_verdict_conforms: "conforms GateInterceptResponse (ex_verdict ok)"
  by (simp add: GateInterceptResponse_def ex_verdict_def)

lemma ex_validate: "validateInterceptRequest (intercept_call (JStr ''salary?'') p u) = Inr ()"
  by (simp add: validateInterceptRequest_def intercept_call_def query_missing_def)

lemma ex_post_answer:
  "\<exists>w'. client_post (ex_env (ex_response 200 ''{}'') v) (ex_client 3) p b None ex_world = Some (Inr v, w')"
proof -
  let ?e = "ex_env (ex_response 200 ''{}'') v"
  have "attempt_once ?e (ex_client 3) ''POST'' u b 30000 None 0 ex_world = Some (Inr v, w')"
    if "w' = (emit (EvFetch (attempt_request ?e (ex_client 3) ''POST'' u b None 0))
          (ex_world\<lparr>calls := 1\<rparr>))\<lparr>clock := 15\<rparr>" for u w'
    using that
    by (simp add: attempt_once_def retry_delay_def executeRequest_def attempt_request_def
        then_io_def bind_io_def when_io_def ret_def catch_io_def do_fetch_def await_signal_def
        fetch_signal_def body_signal_def user_signal_def timer_ms_def Let_def parseResponse_def
        read_body_def is_json_type_def starts_with_def lift_sum_def parse_text_def r_ok_def
        ex_env_def ex_response_def ex_world_def emit_def)
  then show ?thesis
    unfolding client_post_def request_def
    by (subst request_loop.simps) (simp add: request_timeout_def)
qed

lemma ex_intercept_answer:
  "\<exists>w'. gate_intercept (ex_env (ex_response 200 ''{}'') v) (ex_client 3)
      (intercept_call (JStr ''salary?'') p u) ex_world = Some (Inr v, w')"
  using ex_post_answer by (simp add: gate_intercept_def bind_io_def lift_sum_def ex_validate)

lemma ex_query_sent:
  "opt_default defaultGetQuery (mo_getQuery ex_options) ex_request = Inr (JStr ''salary?'')"
  by (simp add: ex_options_def ex_request_def defaultGetQuery_def)

section \<open>Properties\<close>

text \<open>
  C1. A query the gate has not allowed never reaches the route: with interception on, for a request
  that is not skipped and carries a query, the outcome does not depend on the route at all when the
  caller's context cannot be had, the gate fails, or its answer does not say \<open>allowed\<close>. Errors fail
  closed. (A request in which the middleware finds no query is passed on without asking the gate:
  \<open>request_without_query_passes\<close>.)
\<close>

theorem blocked_never_reaches_route:
  assumes "case mo_skip opts of Some f \<Rightarrow> \<not> f rq | None \<Rightarrow> True"
    and "mo_interceptRequests opts"
    and "\<And>uc query. user_context (mo_getUserContext opts) rq = (ret uc :: js xio) \<Longrightarrow>
           opt_default defaultGetQuery (mo_getQuery opts) rq = Inr query \<Longrightarrow>
           truthy query \<and> \<not> gate_allows e c opts query uc (x_world s)"
  shows "secureLensMiddleware e c opts rq nxt s = secureLensMiddleware e c opts rq nxt' s"
proof -
  let ?inner = "\<lambda>nxt s. bind_io (user_context (mo_getUserContext opts) rq) (\<lambda>uc.
           then_io (set_secure_lens (\<lambda>l. l\<lparr>sl_userContext := uc\<rparr>))
           (bind_io (intercept_phase e c opts rq uc) (\<lambda>blocked.
              if blocked then ret ()
              else then_io (when_io (mo_auditResponses opts)
                              (modify_io (\<lambda>s. s\<lparr>x_wrapped := True\<rparr>)))
                     (run_next nxt)))) s"
  have step: "?inner nxt s1 = ?inner nxt' s1" if "x_world s1 = x_world s" for s1
  proof (rule bind_cong_Inr)
    fix uc s2
    assume uc: "user_context (mo_getUserContext opts) rq s1 = Some (Inr uc, s2)"
    then have "user_context (mo_getUserContext opts) rq = (ret uc :: js xio)" and "s2 = s1"
      by (auto simp: user_context_def ret_def lift_sum_def fun_eq_iff split: option.splits)
    with assms(3) that have no: "truthy query \<and> \<not> gate_allows e c opts query uc (x_world s2)"
      if "opt_default defaultGetQuery (mo_getQuery opts) rq = Inr query" for query
      using that by simp
    show "then_io (set_secure_lens (\<lambda>l. l\<lparr>sl_userContext := uc\<rparr>))
           (bind_io (intercept_phase e c opts rq uc) (\<lambda>blocked.
              if blocked then ret ()
              else then_io (when_io (mo_auditResponses opts)
                              (modify_io (\<lambda>s. s\<lparr>x_wrapped := True\<rparr>))) (run_next nxt))) s2 =
          then_io (set_secure_lens (\<lambda>l. l\<lparr>sl_userContext := uc\<rparr>))
           (bind_io (intercept_phase e c opts rq uc) (\<lambda>blocked.
              if blocked then ret ()
              else then_io (when_io (mo_auditResponses opts)
                              (modify_io (\<lambda>s. s\<lparr>x_wrapped := True\<rparr>))) (run_next nxt'))) s2"
      unfolding then_io_def [of "set_secure_lens _"]
      using no intercept_phase_passes [OF _ assms(2)]
      by (intro bind_cong_Inr) (fastforce simp: set_secure_lens_run)
  qed
  show ?thesis
    using assms(1) step
    by (simp add: secureLensMiddleware_def then_io_def [of "modify_io _"] bind_io_def [of "modify_io _"]
        modify_io_def catch_io_def split: option.splits)
qed

theorem blocked_never_reaches_route_witness:
  "secureLensMiddleware (ex_env (ex_response 200 ''{}'') (ex_verdict False)) (ex_client 3) ex_options
     ex_request (ret ()) ex_state
   = secureLensMiddleware (ex_env (ex_response 200 ''{}'') (ex_verdict False)) (ex_client 3) ex_options
     ex_request (res_json (JStr ''secret'')) ex_state"
proof (rule blocked_never_reaches_route)
  fix uc query
  assume "opt_default defaultGetQuery (mo_getQuery ex_options) ex_request = Inr query"
  then have q: "query = JStr ''salary?''" by (simp add: ex_query_sent)
  obtain w' where "gate_intercept (ex_env (ex_response 200 ''{}'') (ex_verdict False)) (ex_client 3)
      (intercept_call (JStr ''salary?'') (mo_policies ex_options) uc) ex_world
      = Some (Inr (ex_verdict False), w')"
    using ex_intercept_answer by blast
  then show "truthy query \<and> \<not> gate_allows (ex_env (ex_response 200 ''{}'') (ex_verdict False)) (ex_client 3)
      ex_options query uc (x_world ex_state)"
    by (simp add: q gate_allows_def ex_state_def) (simp add: ex_verdict_def)
qed (simp_all add: ex_options_def)

text \<open>
  A request in which the middleware finds no query runs the route, interception on or off: the gate
  is not asked. The default looks in the body for \<open>query\<close>, \<open>message\<close> and \<open>prompt\<close> and in the query
  string for \<open>q\<close> only.
\<close>

theorem request_without_query_passes:
  assumes "mo_skip opts = None" and "mo_getUserContext opts = None" and "\<not> mo_auditResponses opts"
    and "opt_default defaultGetQuery (mo_getQuery opts) rq = Inr query" and "\<not> truthy query"
  shows "secureLensMiddleware e c opts rq nxt s =
    catch_io (run_next nxt) (opt_default defaultOnError (mo_onError opts))
      (s\<lparr>x_secureLens := Some empty_secure_lens\<rparr>)"
  using assms
  by (simp add: secureLensMiddleware_def intercept_phase_def user_context_def set_secure_lens_run
      res_run ret_def modify_io_def catch_io_def lift_sum_def empty_secure_lens_def when_io_def)

theorem request_without_query_passes_witness:
  "secureLensMiddleware (ex_env (ex_response 200 ''{}'') (ex_verdict False)) (ex_client 3)
     (ex_options\<lparr>mo_auditResponses := False\<rparr>)
     \<lparr>rq_body = JObj [(''messages'', JArr [JStr ''salary?''])], rq_query = JUndef\<rparr> (ret ()) ex_state
   = Some (Inr (), x_emit EvNext (ex_state\<lparr>x_secureLens := Some empty_secure_lens\<rparr>))"
  by (subst request_without_query_passes [where query = JUndef])
    (simp_all add: ex_options_def defaultGetQuery_def coalesce_def catch_io_def run_next_def io_simps)

text \<open>
  A request the gate refuses is answered with status 403 and the reason of the gate, and with
  nothing else; what the gate said stays on the request.
\<close>

theorem blocked_request_answer:
  assumes "mo_skip opts = None" and "mo_interceptRequests opts" and "mo_getUserContext opts = None"
    and "mo_onBlocked opts = None" and "\<not> x_wrapped s"
    and "opt_default defaultGetQuery (mo_getQuery opts) rq = Inr query" and "truthy query"
    and "gate_intercept e c (intercept_call query (mo_policies opts) JUndef) (x_world s) = Some (Inr result, w1)"
    and "\<not> nullish result" and "\<not> truthy (jprop ''allowed'' result)"
  shows "\<exists>s'. secureLensMiddleware e c opts rq nxt s = Some (Inr (), s')
      \<and> trace (x_world s') = trace w1 @ [EvStatus 403, EvJson (blocked_body result)]
      \<and> x_secureLens s' = Some \<lparr>sl_interceptResult = result, sl_safeQuery = jprop ''safeQuery'' result,
                              sl_auditId = jprop ''auditId'' result, sl_userContext = JUndef\<rparr>"
  using assms
  by (simp add: secureLensMiddleware_def intercept_phase_def user_context_def lift_sdk_def
      set_secure_lens_run read_prop_run defaultOnBlocked_def res_run ret_def modify_io_def catch_io_def
      lift_sum_def empty_secure_lens_def)

theorem blocked_request_answer_witness:
  "\<exists>s'. secureLensMiddleware (ex_env (ex_response 200 ''{}'') (ex_verdict False)) (ex_client 3) ex_options
       ex_request (ret ()) ex_state = Some (Inr (), s')
     \<and> (\<exists>w1 :: world. trace (x_world s') = trace w1 @ [EvStatus 403, EvJson (blocked_body (ex_verdict False))])"
proof -
  obtain w1 where answer: "gate_intercept (ex_env (ex_response 200 ''{}'') (ex_verdict False))
      (ex_client 3) (intercept_call (JStr ''salary?'') (mo_policies ex_options) JUndef)
      (x_world ex_state) = Some (Inr (ex_verdict False), w1)"
    using ex_intercept_answer by (fastforce simp: ex_state_def)
  have hyps: "mo_skip ex_options = None" "mo_interceptRequests ex_options"
    "mo_getUserContext ex_options = None" "mo_onBlocked ex_options = None" "\<not> x_wrapped ex_state"
    "truthy (JStr ''salary?'')" "\<not> nullish (ex_verdict False)"
    "\<not> truthy (jprop ''allowed'' (ex_verdict False))"
    by (simp_all add: ex_options_def ex_state_def ex_verdict_def)
  from blocked_request_answer [OF hyps(1-5) ex_query_sent hyps(6) answer hyps(7,8), of "ret ()"]
  show ?thesis by blast
qed

text \<open>
  The default error handler answers every error exactly once; an error made from a response of
  the API is passed on with the status, code and message the API gave it.
\<close>

theorem default_error_handler_answers:
  "(\<exists>s' evs v. defaultOnError t s = Some (Inr (), s')
      \<and> trace (x_world s') = trace (x_world s) @ evs \<and> responses evs = [v])
   \<and> (\<exists>s' evs. defaultOnError (SL (parseApiError st b rid)) s = Some (Inr (), s')
      \<and> trace (x_world s') = trace (x_world s) @ EvStatus st # evs
      \<and> responses evs = [JObj [(''error'', JStr (e_code (parseApiError st b rid))),
                               (''message'', error_message b), (''requestId'', js_of_opt JStr rid)]])"
  using defaultOnError_answers [of t]
  by (auto simp: answers_def res_run parseApiError_fields)

text \<open>
  Auditing a response never throws, whatever the body holds and however the gate fails, and it
  calls the gate only for a text.
\<close>

theorem auditResponse_never_throws:
  "(\<forall>r w'. auditResponse e c body w = Some (r, w') \<longrightarrow> r = Inr () \<and> quiet w w')
   \<and> (\<not> truthy (extractResponseText body) \<longrightarrow> auditResponse e c body w = Some (Inr (), w))"
  by (auto simp: auditResponse_def Let_def catch_io_def bind_io_def ret_def
      split: option.splits sum.splits if_splits dest: classify_api.call_quiet)

lemma createGateHandler_settles:
  assumes "handler_body e c opts rq s = Some (r1, s1)"
  shows "\<exists>s'. createGateHandler e c opts rq s = Some (Inr (), s')
     \<and> (\<exists>evs v. trace (x_world s') = trace (x_world s) @ evs \<and> responses evs = [v])"
proof -
  obtain evs where evs: "trace (x_world s1) = trace (x_world s) @ evs" "responses evs = []"
    using handler_body_silent [OF assms] by blast
  have "\<exists>m. answers m \<and> createGateHandler e c opts rq s = m s1"
  proof (cases r1)
    case (Inl t)
    with assms have "createGateHandler e c opts rq s = handler_error t s1"
      by (simp add: createGateHandler_def catch_io_def bind_io_def)
    then show ?thesis using handler_error_answers by blast
  next
    case (Inr resp)
    let ?m = "case resp of
            None \<Rightarrow> then_io (res_status 400) (res_json (JObj [(''error'', JStr ''Query is required'')]))
          | Some body \<Rightarrow> res_json body"
    have ans: "answers ?m" by (simp add: answers_status_json answers_json split: option.splits)
    then obtain s2 where "?m s1 = Some (Inr (), s2)" by (auto simp: answers_def)
    with assms Inr have "createGateHandler e c opts rq s = ?m s1"
      by (simp add: createGateHandler_def catch_io_def bind_io_def)
    with ans show ?thesis by blast
  qed
  then obtain s' evs' v where "createGateHandler e c opts rq s = Some (Inr (), s')"
    "trace (x_world s') = trace (x_world s1) @ evs'" "responses evs' = [v]"
    unfolding answers_def by metis
  with evs show ?thesis
    by (intro exI [of _ s'] conjI exI [of _ "evs @ evs'"] exI [of _ v]) simp_all
qed

text \<open>The calls of the SDK return when bodies end and the retries are bounded.\<close>

lemma gate_query_returns:
  assumes "bodies_end e B" and "\<not> num_le (num_of_nat N) (cl_retries c)"
  shows "\<exists>r w'. gate_query e c q w = Some (r, w')"
proof -
  have "\<exists>r w'. client_post e c path body None w = Some (r, w')" for path body
    using request_loop_returns [OF assms(1) _ assms(2), of None 0]
    unfolding client_post_def request_def by (fastforce simp: user_signal_def)
  then show ?thesis
    by (cases "validateQueryRequest q") (simp_all add: gate_query_def bind_io_def lift_sum_def)
qed

lemma handler_body_returns:
  assumes "bodies_end e B" and "\<not> num_le (num_of_nat N) (cl_retries c)"
  shows "\<exists>r s'. handler_body e c opts rq s = Some (r, s')"
proof -
  have some: "(lift_sdk (gate_query e c q) s = None) = False" for q s
    using gate_query_returns [OF assms, of q "x_world s"] by (auto simp: lift_sdk_def)
  show ?thesis
    by (cases "handler_body e c opts rq s")
      (auto simp: some handler_body_def bind_io_def lift_sum_def user_context_def ret_def
        split: sum.splits option.splits if_splits)
qed

text \<open>
  C7. The route handler answers every request, once, and throws nothing: a missing query, a policy
  violation, every other error of the SDK and every native error included, with any functions of the
  caller, when the bodies of the API's responses end within some time and the number of retries is
  bounded. Without these two it may wait for ever, but a call that settles has answered exactly once.
\<close>

theorem gate_handler_answers_once:
  "(\<forall>r s'. createGateHandler e c opts rq s = Some (r, s') \<longrightarrow>
      r = Inr () \<and> (\<exists>evs v. trace (x_world s') = trace (x_world s) @ evs \<and> responses evs = [v]))
   \<and> (bodies_end e B \<and> \<not> num_le (num_of_nat N) (cl_retries c) \<longrightarrow>
      (\<exists>s' evs v. createGateHandler e c opts rq s = Some (Inr (), s')
         \<and> trace (x_world s') = trace (x_world s) @ evs \<and> responses evs = [v]))"
proof (intro conjI allI impI)
  fix r s'
  assume "createGateHandler e c opts rq s = Some (r, s')"
  moreover from this obtain r1 s1 where "handler_body e c opts rq s = Some (r1, s1)"
    by (auto simp: createGateHandler_def catch_io_def bind_io_def split: option.splits)
  ultimately show "r = Inr ()"
    and "\<exists>evs v. trace (x_world s') = trace (x_world s) @ evs \<and> responses evs = [v]"
    by (auto dest: createGateHandler_settles)
next
  assume "bodies_end e B \<and> \<not> num_le (num_of_nat N) (cl_retries c)"
  then obtain r1 s1 where "handler_body e c opts rq s = Some (r1, s1)"
    using handler_body_returns by blast
  from createGateHandler_settles [OF this] show
    "\<exists>s' evs v. createGateHandler e c opts rq s = Some (Inr (), s')
         \<and> trace (x_world s') = trace (x_world s) @ evs \<and> responses evs = [v]" by blast
qed

definition ex_handler :: handler_options where
  "ex_handler =
     \<lparr>ho_llmProvider = JUndef, ho_model = JUndef, ho_contextSource = JUndef, ho_topK = None,
      ho_policies = JUndef, ho_getUserContext = None, ho_getQuery = None, ho_formatResponse = None\<rparr>"

theorem gate_handler_answers_once_witness:
  "\<exists>s' evs v. createGateHandler (ex_env (ex_response 503 ''{}'') (JObj [])) (ex_client 3) ex_handler
        ex_request ex_state = Some (Inr (), s')
      \<and> trace (x_world s') = trace (x_world ex_state) @ evs \<and> responses evs = [v]"
proof -
  have "\<not> num_le (num_of_nat 4) (cl_retries (ex_client 3))" by simp
  with gate_handler_answers_once [of "ex_env (ex_response 503 ''{}'') (JObj [])" "ex_client 3" ex_handler
      ex_request ex_state 5 4] ex_bodies_end [of 503 "''{}''" "JObj []"]
  show ?thesis by blast
qed

end
