(* ===== verification/SdkLangChain.thy ===== *)
theory SdkLangChain
  imports SdkExpress
begin

text \<open>
  \<open>sdk/node/src/langchain.ts\<close>: the callback handler that governs a LangChain run; its properties are
  in theory \<open>SdkHandler\<close>, the retriever in \<open>SdkRetriever\<close>. Handlers of concurrent runs interleave at their
  one \<open>await\<close>, so each is a synchronous part that ends in a call of the gate (\<open>start\<close>), and the
  part that resumes with its result (\<open>resume\<close>); run without interruption they compose to the
  handler. Run contexts are objects shared by reference: they live in a heap, and the \<open>Map\<close> from
  run ids holds addresses. The functions of the caller's options say what they throw, if anything.
\<close>

section \<open>State\<close>

record RunContext =
  rc_query :: js
  rc_interceptResult :: js
  rc_classifications :: "js list"
  rc_appliedPolicies :: "js list"
  rc_startTime :: nat

record handler_state =
  hs_world :: world
  hs_heap :: "RunContext list"
  hs_runs :: "(string \<times> nat) list"

type_synonym 'a hio = "(thrown, handler_state, 'a) io"

record callback_options =
  lo_policies :: js
  lo_userContext :: js
  lo_blockOnPolicyViolation :: "bool field"
  lo_classifyRetrievedDocs :: "bool field"
  lo_classifyResponses :: "bool field"
  lo_onClassification :: "(js \<Rightarrow> string \<Rightarrow> thrown option) option"
  lo_onPolicyApplied :: "(js \<Rightarrow> thrown option) option"
  lo_onBlocked :: "(js \<Rightarrow> thrown option) option"

text \<open>The defaults of the constructor come first in its spread, so a present \<open>undefined\<close> wins.\<close>

definition new_SecureLensCallbackHandler :: "callback_options \<Rightarrow> callback_options" where
  "new_SecureLensCallbackHandler opts = opts
     \<lparr>lo_blockOnPolicyViolation := spread_field (Some True) (lo_blockOnPolicyViolation opts),
      lo_classifyRetrievedDocs := spread_field (Some True) (lo_classifyRetrievedDocs opts),
      lo_classifyResponses := spread_field (Some True) (lo_classifyResponses opts)\<rparr>"

definition enabled :: "bool field \<Rightarrow> bool" where
  "enabled f \<longleftrightarrow> opt_get f = Some True"

definition get_run :: "string \<Rightarrow> handler_state \<Rightarrow> nat option" where
  "get_run k s = map_of (hs_runs s) k"

definition set_run :: "string \<Rightarrow> nat \<Rightarrow> unit hio" where
  "set_run k r = modify_io (\<lambda>s. s\<lparr>hs_runs := assoc_put k r (hs_runs s)\<rparr>)"

definition del_run :: "string \<Rightarrow> handler_state \<Rightarrow> handler_state" where
  "del_run k s = s\<lparr>hs_runs := assoc_del k (hs_runs s)\<rparr>"

definition update_context :: "nat \<Rightarrow> (RunContext \<Rightarrow> RunContext) \<Rightarrow> unit hio" where
  "update_context r f = modify_io (\<lambda>s. s\<lparr>hs_heap := (hs_heap s)[r := f (hs_heap s ! r)]\<rparr>)"

definition new_context :: "js \<Rightarrow> nat hio" where
  "new_context query s =
     ret (length (hs_heap s))
       (s\<lparr>hs_heap := hs_heap s @ [\<lparr>rc_query = query, rc_interceptResult = JUndef,
            rc_classifications = [], rc_appliedPolicies = [], rc_startTime = clock (hs_world s)\<rparr>]\<rparr>)"

definition h_emit :: "event \<Rightarrow> unit hio" where
  "h_emit ev = modify_io (\<lambda>s. s\<lparr>hs_world := emit ev (hs_world s)\<rparr>)"

definition warn :: "string \<Rightarrow> thrown \<Rightarrow> unit hio" where
  "warn msg t = h_emit (EvWarn msg t)"

section \<open>Iteration and callbacks\<close>

definition native_type_error :: "string \<Rightarrow> thrown" where
  "native_type_error m = Native ''TypeError'' m"

text \<open>\<open>...v\<close> and \<open>for (const x of v)\<close>: arrays and strings are iterable.\<close>

fun iterate :: "js \<Rightarrow> thrown + js list" where
  "iterate (JArr xs) = Inr xs"
| "iterate (JStr s) = Inr (map (\<lambda>c. JStr [c]) s)"
| "iterate _ = Inl (native_type_error ''object is not iterable'')"

definition h_prop :: "string \<Rightarrow> js \<Rightarrow> js hio" where
  "h_prop k v =
     (case get_prop k v of Inl m \<Rightarrow> throw (native_type_error m) | Inr x \<Rightarrow> ret x)"

fun for_each :: "('x \<Rightarrow> unit hio) \<Rightarrow> 'x list \<Rightarrow> unit hio" where
  "for_each f [] = ret ()"
| "for_each f (x # xs) = then_io (f x) (for_each f xs)"

definition callback :: "event \<Rightarrow> thrown option option \<Rightarrow> unit hio" where
  "callback ev f =
     (case f of
        None \<Rightarrow> ret ()
      | Some threw \<Rightarrow>
          then_io (h_emit ev) (case threw of None \<Rightarrow> ret () | Some t \<Rightarrow> throw t))"

definition call_onClassification :: "callback_options \<Rightarrow> js \<Rightarrow> string \<Rightarrow> unit hio" where
  "call_onClassification opts cs source =
     callback (EvClassified cs source) (map_option (\<lambda>f. f cs source) (lo_onClassification opts))"

definition call_onPolicyApplied :: "callback_options \<Rightarrow> js \<Rightarrow> unit hio" where
  "call_onPolicyApplied opts p =
     callback (EvPolicyApplied p) (map_option (\<lambda>f. f p) (lo_onPolicyApplied opts))"

definition call_onBlocked :: "callback_options \<Rightarrow> js \<Rightarrow> unit hio" where
  "call_onBlocked opts result =
     callback (EvBlocked result) (map_option (\<lambda>f. f result) (lo_onBlocked opts))"

definition push_classifications :: "nat \<Rightarrow> js list \<Rightarrow> unit hio" where
  "push_classifications r xs =
     update_context r (\<lambda>c. c\<lparr>rc_classifications := rc_classifications c @ xs\<rparr>)"

text \<open>\<open>v.length > 0\<close>; a value without a length compares \<open>undefined\<close>, which is false.\<close>

definition has_elements :: "js \<Rightarrow> bool" where
  "has_elements v \<longleftrightarrow> (case jprop ''length'' v of JNum n \<Rightarrow> num_lt (Fin 0) n | _ \<Rightarrow> False)"

section \<open>The texts of a run\<close>

definition extractQuery :: "(string \<times> js) list \<Rightarrow> js" where
  "extractQuery inputs = first_prop [''query'', ''question'', ''input'', ''prompt''] (JObj inputs)"

definition extractResponse :: "(string \<times> js) list \<Rightarrow> js" where
  "extractResponse outputs =
     first_prop [''result'', ''answer'', ''output'', ''response'', ''text''] (JObj outputs)"

record document =
  doc_pageContent :: string
  doc_metadata :: "(string \<times> js) list"

definition texts_of :: "string list \<Rightarrow> js" where
  "texts_of ts = JArr (map JStr ts)"

section \<open>Handlers\<close>

text \<open>What a handler waits for, and what it needs when it goes on.\<close>

datatype gate_call =
    CallIntercept intercept_request
  | CallClassify js
  | CallBatch js

datatype pending =
    AwaitIntercept nat string
  | AwaitResponse nat string
  | AwaitDocs nat
  | AwaitGenerations nat

fun run_gate_call :: "env \<Rightarrow> SecureLensClient \<Rightarrow> gate_call \<Rightarrow> js sdk" where
  "run_gate_call e c (CallIntercept rq) = gate_intercept e c rq"
| "run_gate_call e c (CallClassify t) = gate_classify e c t"
| "run_gate_call e c (CallBatch ts) = gate_classifyBatch e c ts"

type_synonym handler_start = "(pending \<times> gate_call) option hio"

definition start_chain :: "callback_options \<Rightarrow> (string \<times> js) list \<Rightarrow> string \<Rightarrow> handler_start" where
  "start_chain opts inputs runId =
     (let query = extractQuery inputs
      in if \<not> truthy query then ret None
         else bind_io (new_context query) (\<lambda>r.
           ret (Some (AwaitIntercept r runId,
                      CallIntercept (intercept_call query (lo_policies opts) (lo_userContext opts))))))"

definition blocked_error :: "js \<Rightarrow> thrown" where
  "blocked_error result =
     SL (new_SecureLensPolicyError
           (coalesce (jprop ''blockReason'' result) (JStr ''Query blocked by policy''))
           JUndef JUndef JUndef (jprop ''suggestedQuery'' result) no_options)"

text \<open>The \<open>try\<close> block of \<open>handleChainStart\<close>, after the gate has answered.\<close>

definition apply_answer :: "callback_options \<Rightarrow> nat \<Rightarrow> js \<Rightarrow> unit hio" where
  "apply_answer opts r result =
     (bind_io (h_prop ''classifications'' result) (\<lambda>cs.
      bind_io (lift_sum (iterate cs)) (\<lambda>xs.
      then_io (push_classifications r xs)
     (bind_io (h_prop ''appliedPolicies'' result) (\<lambda>ps.
      bind_io (lift_sum (iterate ps)) (\<lambda>ys.
      then_io (update_context r (\<lambda>c. c\<lparr>rc_appliedPolicies := rc_appliedPolicies c @ ys\<rparr>))
     (then_io (when_io (has_elements cs) (call_onClassification opts cs ''query''))
     (then_io (for_each (call_onPolicyApplied opts) ys)
       (if \<not> truthy (jprop ''allowed'' result) \<and> enabled (lo_blockOnPolicyViolation opts)
        then then_io (call_onBlocked opts result) (throw (blocked_error result))
        else ret ())))))))))"

definition intercepted :: "callback_options \<Rightarrow> nat \<Rightarrow> js \<Rightarrow> unit hio" where
  "intercepted opts r result =
     then_io (update_context r (\<lambda>c. c\<lparr>rc_interceptResult := result\<rparr>))
       (apply_answer opts r result)"

definition is_policy_error :: "thrown \<Rightarrow> bool" where
  "is_policy_error t \<longleftrightarrow>
     (case t of
        SL er \<Rightarrow> (case e_class er of CPolicyError i n r s \<Rightarrow> True | _ \<Rightarrow> False)
      | Native n m \<Rightarrow> False)"

definition resume_chain_start ::
  "callback_options \<Rightarrow> nat \<Rightarrow> string \<Rightarrow> thrown + js \<Rightarrow> unit hio" where
  "resume_chain_start opts r runId answer =
     then_io
       (catch_io (bind_io (lift_sum answer) (intercepted opts r))
          (\<lambda>t. if is_policy_error t then throw t
               else warn ''[SecureLens] Failed to intercept query:'' t))
       (set_run runId r)"

definition start_chain_end :: "callback_options \<Rightarrow> (string \<times> js) list \<Rightarrow> string \<Rightarrow> handler_start" where
  "start_chain_end opts outputs runId s =
     (case get_run runId s of
        None \<Rightarrow> ret None s
      | Some r \<Rightarrow>
          (let responseText = extractResponse outputs
           in if enabled (lo_classifyResponses opts) \<and> truthy responseText
              then ret (Some (AwaitResponse r runId, CallClassify responseText)) s
              else ret None (del_run runId s)))"

definition resume_chain_end ::
  "callback_options \<Rightarrow> nat \<Rightarrow> string \<Rightarrow> thrown + js \<Rightarrow> unit hio" where
  "resume_chain_end opts r runId answer =
     finally_io
       (catch_io
          (bind_io (lift_sum answer) (\<lambda>result.
           bind_io (h_prop ''classifications'' result) (\<lambda>cs.
           bind_io (lift_sum (iterate cs)) (\<lambda>xs.
           then_io (push_classifications r xs)
             (when_io (has_elements cs) (call_onClassification opts cs ''response''))))))
          (warn ''[SecureLens] Failed to classify response:''))
       (del_run runId)"

definition start_retriever :: "js \<Rightarrow> string \<Rightarrow> string option \<Rightarrow> handler_start" where
  "start_retriever query runId parentRunId s =
     (let context = (case parentRunId of
                       None \<Rightarrow> None
                     | Some p \<Rightarrow> (if p \<noteq> [] then get_run p s else None))
      in case context of
           Some r \<Rightarrow> ret None s
         | None \<Rightarrow> bind_io (new_context query) (\<lambda>r. then_io (set_run runId r) (ret None)) s)"

definition start_retriever_end ::
  "callback_options \<Rightarrow> document list \<Rightarrow> string \<Rightarrow> string option \<Rightarrow> handler_start" where
  "start_retriever_end opts documents runId parentRunId s =
     (if \<not> enabled (lo_classifyRetrievedDocs opts) \<or> documents = [] then ret None s
      else (case get_run (opt_default runId parentRunId) s of
              None \<Rightarrow> ret None s
            | Some r \<Rightarrow>
                ret (Some (AwaitDocs r, CallBatch (texts_of (map doc_pageContent documents)))) s))"

definition start_llm_end ::
  "callback_options \<Rightarrow> string list list \<Rightarrow> string \<Rightarrow> string option \<Rightarrow> handler_start" where
  "start_llm_end opts generations runId parentRunId s =
     (if \<not> enabled (lo_classifyResponses opts) then ret None s
      else (case get_run (opt_default runId parentRunId) s of
              None \<Rightarrow> ret None s
            | Some r \<Rightarrow>
                (let texts = concat generations
                 in if texts = [] then ret None s
                    else ret (Some (AwaitGenerations r, CallBatch (texts_of texts))) s)))"

text \<open>\<open>results.flatMap((r) => r.classifications)\<close>\<close>

fun flat_classifications :: "js \<Rightarrow> thrown + js list" where
  "flat_classifications (JArr rs) =
     Inr (concat (map (\<lambda>r. case jprop ''classifications'' r of JArr xs \<Rightarrow> xs | v \<Rightarrow> [v]) rs))"
| "flat_classifications _ = Inl (native_type_error ''results.flatMap is not a function'')"

definition push_result :: "nat \<Rightarrow> js \<Rightarrow> unit hio" where
  "push_result r result =
     bind_io (h_prop ''classifications'' result) (\<lambda>cs.
     bind_io (lift_sum (iterate cs)) (push_classifications r))"

definition resume_batch ::
  "callback_options \<Rightarrow> string \<Rightarrow> string \<Rightarrow> nat \<Rightarrow> thrown + js \<Rightarrow> unit hio" where
  "resume_batch opts source message r answer =
     catch_io
       (bind_io (lift_sum answer) (\<lambda>results.
        bind_io (lift_sum (iterate results)) (\<lambda>rs.
        then_io (for_each (push_result r) rs)
       (bind_io (lift_sum (flat_classifications results)) (\<lambda>allClassifications.
          when_io (allClassifications \<noteq> [])
            (call_onClassification opts (JArr allClassifications) source))))))
       (warn message)"

fun resume :: "callback_options \<Rightarrow> pending \<Rightarrow> thrown + js \<Rightarrow> unit hio" where
  "resume opts (AwaitIntercept r runId) = resume_chain_start opts r runId"
| "resume opts (AwaitResponse r runId) = resume_chain_end opts r runId"
| "resume opts (AwaitDocs r) =
     resume_batch opts ''retrieved_docs'' ''[SecureLens] Failed to classify retrieved documents:'' r"
| "resume opts (AwaitGenerations r) =
     resume_batch opts ''llm_response'' ''[SecureLens] Failed to classify LLM response:'' r"

section \<open>The callback interface\<close>

datatype callback_op =
    ChainStart "(string \<times> js) list" string "string option"
  | ChainEnd "(string \<times> js) list" string "string option"
  | ChainError string "string option"
  | RetrieverStart js string "string option"
  | RetrieverEnd "document list" string "string option"
  | RetrieverError string "string option"
  | LLMStart "string list" string "string option"
  | LLMEnd "string list list" string "string option"
  | LLMError string "string option"

text \<open>
  A chain's handlers ignore the parent; the error handlers of chain and retriever forget the run;
  \<open>handleLLMStart\<close> and \<open>handleLLMError\<close> do nothing.
\<close>

definition forget_run :: "string \<Rightarrow> handler_start" where
  "forget_run runId = then_io (modify_io (del_run runId)) (ret None)"

fun start :: "callback_options \<Rightarrow> callback_op \<Rightarrow> handler_start" where
  "start opts (ChainStart inputs runId _) = start_chain opts inputs runId"
| "start opts (ChainEnd outputs runId _) = start_chain_end opts outputs runId"
| "start opts (ChainError runId _) = forget_run runId"
| "start opts (RetrieverStart query runId parent) = start_retriever query runId parent"
| "start opts (RetrieverEnd docs runId parent) = start_retriever_end opts docs runId parent"
| "start opts (RetrieverError runId _) = forget_run runId"
| "start opts (LLMStart _ _ _) = ret None"
| "start opts (LLMEnd gens runId parent) = start_llm_end opts gens runId parent"
| "start opts (LLMError _ _) = ret None"

text \<open>A handler run without interruption.\<close>

definition await_call :: "env \<Rightarrow> SecureLensClient \<Rightarrow> gate_call \<Rightarrow> (thrown + js) hio" where
  "await_call e c call s =
     (case run_gate_call e c call (hs_world s) of
        None \<Rightarrow> None
      | Some (answer, w') \<Rightarrow> Some (Inr answer, s\<lparr>hs_world := w'\<rparr>))"

definition handle ::
  "env \<Rightarrow> SecureLensClient \<Rightarrow> callback_options \<Rightarrow> callback_op \<Rightarrow> unit hio" where
  "handle e c opts op =
     bind_io (start opts op) (\<lambda>waiting.
       case waiting of
         None \<Rightarrow> ret ()
       | Some (p, call) \<Rightarrow> bind_io (await_call e c call) (resume opts p))"

definition getClassifications :: "string \<Rightarrow> handler_state \<Rightarrow> js list" where
  "getClassifications runId s =
     (case get_run runId s of Some r \<Rightarrow> rc_classifications (hs_heap s ! r) | None \<Rightarrow> [])"

definition getAppliedPolicies :: "string \<Rightarrow> handler_state \<Rightarrow> js list" where
  "getAppliedPolicies runId s =
     (case get_run runId s of Some r \<Rightarrow> rc_appliedPolicies (hs_heap s ! r) | None \<Rightarrow> [])"

section \<open>Interleaving\<close>

text \<open>
  Handlers interleave: between the two parts of one, others run and time passes. The gate's
  answer is any result a call can have.
\<close>

type_synonym config = "handler_state \<times> pending list"

inductive callback_step :: "callback_options \<Rightarrow> config \<Rightarrow> config \<Rightarrow> bool" for opts where
  immediate:
    "start opts op s = Some (Inr None, s') \<Longrightarrow> callback_step opts (s, ps) (s', ps)"
| suspended:
    "start opts op s = Some (Inr (Some (p, call)), s') \<Longrightarrow> callback_step opts (s, ps) (s', p # ps)"
| resumed:
    "p \<in> set ps \<Longrightarrow> resume opts p answer (s\<lparr>hs_world := w\<rparr>) = Some (r, s') \<Longrightarrow>
     callback_step opts (s, ps) (s', remove1 p ps)"

definition initial_state :: "world \<Rightarrow> handler_state" where
  "initial_state w = \<lparr>hs_world = w, hs_heap = [], hs_runs = []\<rparr>"

definition reachable :: "callback_options \<Rightarrow> config \<Rightarrow> bool" where
  "reachable opts cfg \<longleftrightarrow> (\<exists>w. (callback_step opts)\<^sup>*\<^sup>* (initial_state w, []) cfg)"

inductive_cases callback_stepE: "callback_step opts (s, ps) cfg'"

section \<open>Effects of the handlers\<close>

text \<open>
  What one handler does to the state: at most one context changes, in a way \<open>Q\<close> allows, and the
  table of runs stays. Steps that only write to the log keep every \<open>Q\<close>.
\<close>

definition touches ::
  "nat \<Rightarrow> (RunContext \<Rightarrow> RunContext \<Rightarrow> bool) \<Rightarrow> handler_state \<Rightarrow> handler_state \<Rightarrow> bool" where
  "touches r Q s s' \<longleftrightarrow>
     hs_runs s' = hs_runs s
     \<and> (\<exists>c. hs_heap s' = (hs_heap s)[r := c] \<and> (r < length (hs_heap s) \<longrightarrow> Q (hs_heap s ! r) c))"

definition confined ::
  "nat \<Rightarrow> (RunContext \<Rightarrow> RunContext \<Rightarrow> bool) \<Rightarrow> 'a hio \<Rightarrow> bool" where
  "confined r Q m \<longleftrightarrow> (\<forall>s x s'. m s = Some (x, s') \<longrightarrow> touches r Q s s')"

locale context_relation =
  fixes Q :: "RunContext \<Rightarrow> RunContext \<Rightarrow> bool"
  assumes refl: "Q c c"
    and trans: "Q a b \<Longrightarrow> Q b c \<Longrightarrow> Q a c"
begin

lemma touches_same: "hs_runs s' = hs_runs s \<Longrightarrow> hs_heap s' = hs_heap s \<Longrightarrow> touches r Q s s'"
  by (auto simp: touches_def refl intro: exI [of _ "hs_heap s ! r"])

lemma touches_trans:
  assumes "touches r Q s s1" and "touches r Q s1 s2"
  shows "touches r Q s s2"
proof -
  from assms(1) obtain c where
    c: "hs_heap s1 = (hs_heap s)[r := c]" "r < length (hs_heap s) \<longrightarrow> Q (hs_heap s ! r) c"
    unfolding touches_def by blast
  from assms(2) obtain d where
    d: "hs_heap s2 = (hs_heap s1)[r := d]" "r < length (hs_heap s1) \<longrightarrow> Q (hs_heap s1 ! r) d"
    unfolding touches_def by blast
  from c d have "hs_heap s2 = (hs_heap s)[r := d]" "r < length (hs_heap s) \<longrightarrow> Q (hs_heap s ! r) d"
    by (auto intro: trans)
  with assms show ?thesis by (auto simp: touches_def)
qed

lemma confined_ret: "confined r Q (ret x)"
  by (auto simp: confined_def ret_def intro: touches_same)

lemma confined_throw: "confined r Q (throw x)"
  by (auto simp: confined_def throw_def intro: touches_same)

lemma confined_lift: "confined r Q (lift_sum x)"
  by (auto simp: confined_def lift_sum_def intro: touches_same)

lemma confined_bind:
  assumes "confined r Q m" and "\<And>x. confined r Q (f x)"
  shows "confined r Q (bind_io m f)"
  unfolding confined_def
proof (intro allI impI)
  fix s x s'
  assume "bind_io m f s = Some (x, s')"
  then show "touches r Q s s'"
  proof (cases rule: bind_io_cases)
    case (threw t)
    with assms(1) show ?thesis by (simp add: confined_def)
  next
    case (went y w1)
    with assms have "touches r Q s w1" and "touches r Q w1 s'" by (simp_all add: confined_def)
    then show ?thesis by (rule touches_trans)
  qed
qed

lemma confined_then: "confined r Q m \<Longrightarrow> confined r Q n \<Longrightarrow> confined r Q (then_io m n)"
  by (simp add: then_io_def confined_bind)

lemma confined_catch:
  assumes "confined r Q m" and "\<And>t. confined r Q (h t)"
  shows "confined r Q (catch_io m h)"
  using assms unfolding confined_def catch_io_def
  by (auto split: option.splits sum.splits) (meson touches_trans)

lemma confined_when: "confined r Q m \<Longrightarrow> confined r Q (when_io b m)"
  by (simp add: when_io_def confined_ret)

lemma confined_emit: "confined r Q (h_emit ev)"
  by (auto simp: confined_def h_emit_def modify_io_def intro: touches_same)

lemma confined_callback: "confined r Q (callback ev f)"
  by (auto simp: callback_def intro!: confined_then confined_emit confined_ret confined_throw
      split: option.splits)

lemma confined_prop: "confined r Q (h_prop k v)"
  by (auto simp: h_prop_def intro: confined_ret confined_throw split: sum.splits)

lemma confined_each: "(\<And>x. confined r Q (f x)) \<Longrightarrow> confined r Q (for_each f xs)"
  by (induction xs) (auto intro: confined_ret confined_then)

lemma confined_update: "(\<And>c. Q c (f c)) \<Longrightarrow> confined r Q (update_context r f)"
  by (auto simp: confined_def update_context_def modify_io_def touches_def)

lemmas confined_intros =
  confined_ret confined_throw confined_lift confined_bind confined_then confined_catch
  confined_when confined_emit confined_callback confined_prop confined_each

end

text \<open>After the interception, its answer stays in the context.\<close>

definition same_verdict :: "RunContext \<Rightarrow> RunContext \<Rightarrow> bool" where
  "same_verdict a b \<longleftrightarrow> rc_interceptResult b = rc_interceptResult a"

interpretation verdict: context_relation same_verdict
  by unfold_locales (simp_all add: same_verdict_def)

lemma push_confined: "confined r same_verdict (push_classifications r xs)"
  unfolding push_classifications_def
  by (rule verdict.confined_update) (simp add: same_verdict_def)

lemma push_result_confined: "confined r same_verdict (push_result r v)"
  unfolding push_result_def by (intro verdict.confined_intros push_confined)

lemma resume_batch_confined: "confined r same_verdict (resume_batch opts src msg r answer)"
  unfolding resume_batch_def warn_def call_onClassification_def
  by (intro verdict.confined_intros push_result_confined)

lemma apply_answer_confined: "confined r same_verdict (apply_answer opts r result)"
proof -
  have "confined r same_verdict
      (update_context r (\<lambda>c. c\<lparr>rc_appliedPolicies := rc_appliedPolicies c @ ys\<rparr>))" for ys
    by (rule verdict.confined_update) (simp add: same_verdict_def)
  then show ?thesis
    unfolding apply_answer_def call_onClassification_def call_onPolicyApplied_def call_onBlocked_def
    by (simp add: verdict.confined_intros push_confined)
qed

text \<open>Callbacks of the caller that never throw.\<close>

definition silent :: "callback_options \<Rightarrow> bool" where
  "silent opts \<longleftrightarrow>
     (\<forall>f cs src. lo_onClassification opts = Some f \<longrightarrow> f cs src = None)
     \<and> (\<forall>f p. lo_onPolicyApplied opts = Some f \<longrightarrow> f p = None)
     \<and> (\<forall>f v. lo_onBlocked opts = Some f \<longrightarrow> f v = None)"

definition only_logs :: "unit hio \<Rightarrow> bool" where
  "only_logs m \<longleftrightarrow> (\<forall>s. \<exists>w. m s = Some (Inr (), s\<lparr>hs_world := w\<rparr>))"

lemma only_logs_ret: "only_logs (ret ())"
  unfolding only_logs_def ret_def by (metis handler_state.surjective handler_state.update_convs(1))

lemma only_logs_emit: "only_logs (h_emit ev)"
  by (auto simp: only_logs_def h_emit_def modify_io_def)

lemma only_logs_bind:
  assumes "only_logs m"
  shows "\<exists>w. \<forall>n. then_io m n s = n (s\<lparr>hs_world := w\<rparr>)"
proof -
  from assms obtain w where "m s = Some (Inr (), s\<lparr>hs_world := w\<rparr>)" by (auto simp: only_logs_def)
  then show ?thesis by (intro exI [of _ w]) (simp add: then_io_def bind_io_def)
qed

lemma only_logs_then:
  assumes "only_logs m" and "only_logs n"
  shows "only_logs (then_io m n)"
  unfolding only_logs_def
proof
  fix s
  obtain w where "then_io m n s = n (s\<lparr>hs_world := w\<rparr>)"
    using only_logs_bind [OF assms(1)] by blast
  moreover obtain w' where "n (s\<lparr>hs_world := w\<rparr>) = Some (Inr (), s\<lparr>hs_world := w\<rparr>\<lparr>hs_world := w'\<rparr>)"
    using assms(2) unfolding only_logs_def by blast
  ultimately show "\<exists>w. then_io m n s = Some (Inr (), s\<lparr>hs_world := w\<rparr>)" by auto
qed

lemma only_logs_each: "(\<And>x. only_logs (f x)) \<Longrightarrow> only_logs (for_each f xs)"
  by (induction xs) (auto intro: only_logs_ret only_logs_then)

lemma only_logs_when: "only_logs m \<Longrightarrow> only_logs (when_io b m)"
  by (simp add: when_io_def only_logs_ret)

lemma only_logs_callback: "f = None \<or> f = Some None \<Longrightarrow> only_logs (callback ev f)"
  by (auto simp: callback_def intro!: only_logs_ret only_logs_then only_logs_emit)

lemma silent_callbacks:
  assumes "silent opts"
  shows "only_logs (call_onClassification opts cs src)" "only_logs (call_onPolicyApplied opts p)"
    "only_logs (call_onBlocked opts v)"
  using assms
  by (auto simp: silent_def call_onClassification_def call_onPolicyApplied_def call_onBlocked_def
      intro!: only_logs_callback)

text \<open>The interception of a well-shaped answer, with callbacks that do not throw.\<close>

definition denied :: "js \<Rightarrow> bool" where
  "denied result \<longleftrightarrow>
     conforms GateInterceptResponse result \<and> \<not> truthy (jprop ''allowed'' result)"

definition record_verdict :: "js \<Rightarrow> js list \<Rightarrow> js list \<Rightarrow> RunContext \<Rightarrow> RunContext" where
  "record_verdict result xs ys ctx = ctx
     \<lparr>rc_interceptResult := result, rc_classifications := rc_classifications ctx @ xs,
      rc_appliedPolicies := rc_appliedPolicies ctx @ ys\<rparr>"

lemma intercept_response_arrays:
  assumes "conforms GateInterceptResponse result"
  obtains d xs ys where "result = JObj d" "jprop ''classifications'' result = JArr xs"
    "jprop ''appliedPolicies'' result = JArr ys"
proof -
  have fs: "conforms (TArr Classification) (jprop ''classifications'' result)"
    "conforms (TArr AppliedPolicy) (jprop ''appliedPolicies'' result)"
    using conforms_obj_field [OF assms [unfolded GateInterceptResponse_def],
        of "''classifications''" True "TArr Classification"]
      conforms_obj_field [OF assms [unfolded GateInterceptResponse_def],
        of "''appliedPolicies''" True "TArr AppliedPolicy"]
    by simp_all
  obtain d where "result = JObj d"
    using assms unfolding GateInterceptResponse_def by (rule conforms_objE)
  with fs that show ?thesis by (metis conforms_arrE)
qed

lemma then_update:
  "then_io (update_context r f) n s = n (s\<lparr>hs_heap := (hs_heap s)[r := f (hs_heap s ! r)]\<rparr>)"
  by (simp add: then_io_def bind_io_def update_context_def modify_io_def)

lemma h_prop_run: "\<not> nullish v \<Longrightarrow> h_prop k v = ret (jprop k v)"
  by (simp add: h_prop_def)

lemma bind_lift_Inr: "bind_io (lift_sum (Inr x)) f = f x"
  by (simp add: fun_eq_iff io_simps)

lemma intercepted_conforming:
  assumes "silent opts" and "conforms GateInterceptResponse result"
  obtains xs ys w where "intercepted opts r result s =
    Some (if truthy (jprop ''allowed'' result) \<or> \<not> enabled (lo_blockOnPolicyViolation opts)
          then Inr () else Inl (blocked_error result),
          s\<lparr>hs_heap := (hs_heap s)[r := record_verdict result xs ys (hs_heap s ! r)],
            hs_world := w\<rparr>)"
    and "jprop ''classifications'' result = JArr xs" "jprop ''appliedPolicies'' result = JArr ys"
proof -
  obtain d xs ys where shape: "result = JObj d" "jprop ''classifications'' result = JArr xs"
    "jprop ''appliedPolicies'' result = JArr ys"
    using intercept_response_arrays [OF assms(2)] .
  then have given: "\<not> nullish result" by simp
  let ?s = "s\<lparr>hs_heap := (hs_heap s)[r := record_verdict result xs ys (hs_heap s ! r)]\<rparr>"
  let ?log1 = "when_io (has_elements (JArr xs)) (call_onClassification opts (JArr xs) ''query'')"
  let ?log2 = "for_each (call_onPolicyApplied opts) ys"
  let ?final = "if \<not> truthy (jprop ''allowed'' result) \<and> enabled (lo_blockOnPolicyViolation opts)
        then then_io (call_onBlocked opts result) (throw (blocked_error result))
        else ret ()"
  have log1: "only_logs ?log1" and log2: "only_logs ?log2"
    using silent_callbacks [OF assms(1)] by (simp_all add: only_logs_when only_logs_each)
  obtain w1 where w1: "\<forall>n :: unit hio. then_io ?log1 n ?s = n (?s\<lparr>hs_world := w1\<rparr>)"
    using only_logs_bind [OF log1] by blast
  obtain w2 where w2: "\<forall>n :: unit hio. then_io ?log2 n (?s\<lparr>hs_world := w1\<rparr>) = n (?s\<lparr>hs_world := w2\<rparr>)"
    using only_logs_bind [OF log2, of "?s\<lparr>hs_world := w1\<rparr>"] by auto
  obtain w3 where w3:
    "\<forall>n :: unit hio. then_io (call_onBlocked opts result) n (?s\<lparr>hs_world := w2\<rparr>) = n (?s\<lparr>hs_world := w3\<rparr>)"
    using only_logs_bind [OF silent_callbacks(3) [OF assms(1)], of _ "?s\<lparr>hs_world := w2\<rparr>"] by auto
  have "intercepted opts r result s = then_io ?log1 (then_io ?log2 ?final) ?s"
    unfolding intercepted_def apply_answer_def push_classifications_def
    by (simp only: then_update h_prop_run [OF given] shape(2,3) iterate.simps bind_ret bind_lift_Inr)
      (cases "r < length (hs_heap s)"; simp add: not_less list_update_beyond record_verdict_def)
  then have "intercepted opts r result s = ?final (?s\<lparr>hs_world := w2\<rparr>)"
    by (simp only: w1 [rule_format] w2 [rule_format])
  with w3 show ?thesis
    by (intro that [of "if truthy (jprop ''allowed'' result) \<or> \<not> enabled (lo_blockOnPolicyViolation opts)
        then w2 else w3" xs ys])
      (simp_all add: shape(2,3) ret_def throw_def)
qed

section \<open>Runs and their contexts\<close>

text \<open>
  The invariant of the table of runs, whatever the order in which handlers start and resume: it
  holds addresses of the heap, none of them a context that waits for its interception, and none
  of them a context whose query the gate has denied.
\<close>

fun pending_ref :: "pending \<Rightarrow> nat" where
  "pending_ref (AwaitIntercept r k) = r"
| "pending_ref (AwaitResponse r k) = r"
| "pending_ref (AwaitDocs r) = r"
| "pending_ref (AwaitGenerations r) = r"

fun intercept_refs :: "pending list \<Rightarrow> nat list" where
  "intercept_refs [] = []"
| "intercept_refs (AwaitIntercept r k # ps) = r # intercept_refs ps"
| "intercept_refs (_ # ps) = intercept_refs ps"

definition run_refs :: "handler_state \<Rightarrow> nat set" where
  "run_refs s = snd ` set (hs_runs s)"

definition runs_ok :: "config \<Rightarrow> bool" where
  "runs_ok cfg \<longleftrightarrow> (case cfg of (s, ps) \<Rightarrow>
     (\<forall>r \<in> run_refs s. r < length (hs_heap s) \<and> \<not> denied (rc_interceptResult (hs_heap s ! r)))
     \<and> (\<forall>p \<in> set ps. pending_ref p < length (hs_heap s))
     \<and> (\<forall>r \<in> set (intercept_refs ps). rc_interceptResult (hs_heap s ! r) = JUndef \<and> r \<notin> run_refs s)
     \<and> distinct (intercept_refs ps))"

lemma not_denied_undef [simp]: "\<not> denied JUndef"
  by (simp add: denied_def GateInterceptResponse_def)

lemma run_refs_put: "snd ` set (assoc_put k r d) \<subseteq> insert r (snd ` set d)"
  by (induction k r d rule: assoc_put.induct) auto

lemma run_refs_del: "snd ` set (assoc_del k d) \<subseteq> snd ` set d"
  by (auto simp: assoc_del_def)

lemma get_run_ref: "get_run k s = Some r \<Longrightarrow> r \<in> run_refs s"
  by (force simp: get_run_def run_refs_def dest: map_of_SomeD)

lemma set_intercept_refs: "set (intercept_refs ps) = {r. \<exists>k. AwaitIntercept r k \<in> set ps}"
  by (induction ps rule: intercept_refs.induct) auto

lemma intercept_refs_subset: "set (intercept_refs (remove1 p ps)) \<subseteq> set (intercept_refs ps)"
  using set_remove1_subset [of p ps] by (auto simp: set_intercept_refs)

lemma intercept_refs_remove:
  "distinct (intercept_refs ps) \<Longrightarrow> distinct (intercept_refs (remove1 p ps))"
  by (induction ps rule: intercept_refs.induct)
    (auto simp: set_intercept_refs dest: notin_set_remove1)

lemma intercept_refs_removed:
  "distinct (intercept_refs ps) \<Longrightarrow> AwaitIntercept r k \<in> set ps \<Longrightarrow>
   r \<notin> set (intercept_refs (remove1 (AwaitIntercept r k) ps))"
  by (induction ps rule: intercept_refs.induct) (auto simp: set_intercept_refs)

text \<open>The three ways a handler can start.\<close>

definition fresh_context :: "handler_state \<Rightarrow> js \<Rightarrow> RunContext" where
  "fresh_context s query = \<lparr>rc_query = query, rc_interceptResult = JUndef,
     rc_classifications = [], rc_appliedPolicies = [], rc_startTime = clock (hs_world s)\<rparr>"

lemma new_context_run:
  "new_context q s = Some (Inr (length (hs_heap s)), s\<lparr>hs_heap := hs_heap s @ [fresh_context s q]\<rparr>)"
  by (simp add: new_context_def fresh_context_def ret_def)

definition looked :: "handler_state \<Rightarrow> thrown + (pending \<times> gate_call) option \<Rightarrow> handler_state \<Rightarrow> bool" where
  "looked s res s' \<longleftrightarrow>
     hs_heap s' = hs_heap s \<and> run_refs s' \<subseteq> run_refs s \<and>
     (res = Inr None \<or>
      (\<exists>p call. res = Inr (Some (p, call)) \<and> intercept_refs [p] = [] \<and> pending_ref p \<in> run_refs s))"

lemma looked_same: "looked s (Inr None) s"
  by (simp add: looked_def)

lemma looked_del: "looked s (Inr None) (del_run k s)"
  using run_refs_del [of k "hs_runs s"] by (simp add: looked_def del_run_def run_refs_def)

lemma looked_await:
  "r \<in> run_refs s \<Longrightarrow> looked s (Inr (Some (AwaitResponse r k, call))) s"
  "r \<in> run_refs s \<Longrightarrow> looked s (Inr (Some (AwaitDocs r, call))) s"
  "r \<in> run_refs s \<Longrightarrow> looked s (Inr (Some (AwaitGenerations r, call))) s"
  by (simp_all add: looked_def)

lemmas start_run = ret_def bind_io_def then_io_def modify_io_def new_context_run set_run_def Let_def

lemma start_looks:
  "start_chain_end opts outputs k s = Some (res, s') \<Longrightarrow> looked s res s'"
  "start_retriever_end opts docs k parent s = Some (res, s') \<Longrightarrow> looked s res s'"
  "start_llm_end opts gens k parent s = Some (res, s') \<Longrightarrow> looked s res s'"
  "forget_run k s = Some (res, s') \<Longrightarrow> looked s res s'"
  by (auto simp: start_chain_end_def start_retriever_end_def start_llm_end_def forget_run_def start_run
      split: option.splits if_splits intro: looked_same looked_del looked_await get_run_ref)

lemma start_cases:
  assumes "start opts op s = Some (res, s')"
  obtains
    (looked) "looked s res s'"
  | (opened) q k where "res = Inr None"
      "s' = s\<lparr>hs_heap := hs_heap s @ [fresh_context s q],
             hs_runs := assoc_put k (length (hs_heap s)) (hs_runs s)\<rparr>"
  | (intercepting) q k call where "res = Inr (Some (AwaitIntercept (length (hs_heap s)) k, call))"
      "s' = s\<lparr>hs_heap := hs_heap s @ [fresh_context s q]\<rparr>"
proof (cases op)
  case (ChainStart inputs k parent)
  show ?thesis
  proof (cases "truthy (extractQuery inputs)")
    case True
    with ChainStart assms that(3) show ?thesis by (simp add: start_chain_def start_run) blast
  next
    case False
    with ChainStart assms that(1) show ?thesis by (auto simp: start_chain_def start_run looked_same)
  qed
next
  case (RetrieverStart q k parent)
  show ?thesis
  proof (cases "case parent of None \<Rightarrow> None | Some p \<Rightarrow> (if p \<noteq> [] then get_run p s else None)")
    case None
    with RetrieverStart assms that(2) show ?thesis by (simp add: start_retriever_def start_run) blast
  next
    case (Some r)
    with RetrieverStart assms that(1) show ?thesis
      by (auto simp: start_retriever_def start_run looked_same)
  qed
next
  case (LLMStart ts k parent)
  with assms that(1) show ?thesis by (auto simp: ret_def looked_same)
next
  case (LLMError k parent)
  with assms that(1) show ?thesis by (auto simp: ret_def looked_same)
qed (use assms that(1) in \<open>simp, blast dest: start_looks\<close>)+

text \<open>The ways a handler can resume.\<close>

lemma confined_run:
  assumes "confined r same_verdict m" and "m s = Some (x, s')"
  obtains c where "hs_runs s' = hs_runs s" "hs_heap s' = (hs_heap s)[r := c]"
    "r < length (hs_heap s) \<longrightarrow> same_verdict (hs_heap s ! r) c"
  using assms unfolding confined_def touches_def by blast

lemma resume_chain_end_confined:
  assumes "resume_chain_end opts r k answer s = Some (x, s')"
  obtains s1 where "touches r same_verdict s s1" "s' = del_run k s1"
proof -
  let ?m = "catch_io (bind_io (lift_sum answer) (\<lambda>result.
           bind_io (h_prop ''classifications'' result) (\<lambda>cs.
           bind_io (lift_sum (iterate cs)) (\<lambda>xs.
           then_io (push_classifications r xs)
             (when_io (has_elements cs) (call_onClassification opts cs ''response''))))))
          (warn ''[SecureLens] Failed to classify response:'')"
  have "confined r same_verdict ?m"
    unfolding warn_def call_onClassification_def by (intro verdict.confined_intros push_confined)
  moreover obtain x1 s1 where "?m s = Some (x1, s1)" "s' = del_run k s1"
    using assms by (auto simp: resume_chain_end_def finally_io_def split: option.splits)
  ultimately show ?thesis using that unfolding confined_def by blast
qed

lemma resume_other:
  assumes "resume opts p answer s = Some (x, s')" and "intercept_refs [p] = []"
  shows "run_refs s' \<subseteq> run_refs s \<and>
    (\<exists>c. hs_heap s' = (hs_heap s)[pending_ref p := c] \<and>
       (pending_ref p < length (hs_heap s) \<longrightarrow> same_verdict (hs_heap s ! pending_ref p) c))"
proof (cases p)
  case (AwaitResponse r k)
  with assms(1) obtain s1 where "touches r same_verdict s s1" "s' = del_run k s1"
    by (auto elim: resume_chain_end_confined)
  with AwaitResponse run_refs_del [of k "hs_runs s1"] show ?thesis
    by (auto simp: touches_def del_run_def run_refs_def)
next
  case (AwaitDocs r)
  with assms(1) show ?thesis
    by (auto simp: run_refs_def elim!: confined_run [OF resume_batch_confined])
next
  case (AwaitGenerations r)
  with assms(1) show ?thesis
    by (auto simp: run_refs_def elim!: confined_run [OF resume_batch_confined])
qed (use assms(2) in simp)

lemma resume_intercept:
  assumes "silent opts" and "enabled (lo_blockOnPolicyViolation opts)"
    and "r < length (hs_heap s)" and "rc_interceptResult (hs_heap s ! r) = JUndef"
    and "resume_chain_start opts r k answer s = Some (x, s')"
  shows "\<exists>c. hs_heap s' = (hs_heap s)[r := c] \<and>
    (hs_runs s' = hs_runs s \<or>
     hs_runs s' = assoc_put k r (hs_runs s) \<and> \<not> denied (rc_interceptResult c))"
proof -
  note run = resume_chain_start_def then_io_def bind_io_def catch_io_def lift_sum_def throw_def
    warn_def h_emit_def modify_io_def set_run_def
  have same: "hs_heap s = (hs_heap s)[r := hs_heap s ! r]" by simp
  show ?thesis
  proof (cases answer)
    case (Inl t)
    with assms same show ?thesis
      by (cases "is_policy_error t") (auto simp: run intro!: exI [of _ "hs_heap s ! r"])
  next
    case (Inr result)
    obtain y s1 where body: "intercepted opts r result s = Some (y, s1)"
      using assms(5) Inr by (auto simp: run split: option.splits)
    let ?s0 = "s\<lparr>hs_heap := (hs_heap s)[r := (hs_heap s ! r)\<lparr>rc_interceptResult := result\<rparr>]\<rparr>"
    have "apply_answer opts r result ?s0 = Some (y, s1)"
      using body by (simp add: intercepted_def then_update)
    then obtain c where c: "hs_runs s1 = hs_runs s" "hs_heap s1 = (hs_heap s)[r := c]"
      "rc_interceptResult c = result"
      using confined_run [OF apply_answer_confined] assms(3)
      by (auto simp: same_verdict_def elim!: confined_run [OF apply_answer_confined])
    show ?thesis
    proof (cases "denied result")
      case True
      then have "y = Inl (blocked_error result)"
        using intercepted_conforming [OF assms(1), of result r s] body assms(2)
        by (auto simp: denied_def)
      moreover have "is_policy_error (blocked_error result)"
        by (simp add: is_policy_error_def blocked_error_def new_SecureLensPolicyError_def)
      ultimately show ?thesis using assms(5) Inr body c by (auto simp: run)
    next
      case False
      with assms(5) Inr body c show ?thesis
        by (cases y) (auto simp: run split: if_splits)
    qed
  qed
qed

lemma same_verdict_refl [simp]: "same_verdict c c"
  by (simp add: same_verdict_def)

lemma intercept_ref_bound:
  "runs_ok (s, ps) \<Longrightarrow> r \<in> set (intercept_refs ps) \<Longrightarrow> r < length (hs_heap s)"
  by (auto simp: runs_ok_def set_intercept_refs)

lemma runs_ok_opened:
  assumes "runs_ok (s, ps)" and "hs_heap s' = hs_heap s @ [ctx]" "rc_interceptResult ctx = JUndef"
    and "run_refs s' \<subseteq> insert (length (hs_heap s)) (run_refs s)"
  shows "runs_ok (s', ps)"
  unfolding runs_ok_def prod.case
proof (intro conjI ballI)
  fix r assume "r \<in> run_refs s'"
  with assms(4) have "r = length (hs_heap s) \<or> r \<in> run_refs s" by blast
  then have "r < length (hs_heap s') \<and> \<not> denied (rc_interceptResult (hs_heap s' ! r))"
  proof
    assume "r \<in> run_refs s"
    with assms(1) have "r < length (hs_heap s)" "\<not> denied (rc_interceptResult (hs_heap s ! r))"
      by (auto simp: runs_ok_def)
    with assms(2) show ?thesis by (simp add: nth_append)
  qed (simp add: assms(2,3))
  then show "r < length (hs_heap s')" "\<not> denied (rc_interceptResult (hs_heap s' ! r))" by blast+
next
  fix p assume "p \<in> set ps"
  with assms(1,2) show "pending_ref p < length (hs_heap s')" by (auto simp: runs_ok_def)
next
  fix r assume "r \<in> set (intercept_refs ps)"
  with assms intercept_ref_bound [OF assms(1) this]
  show "rc_interceptResult (hs_heap s' ! r) = JUndef" "r \<notin> run_refs s'"
    by (auto simp: runs_ok_def nth_append)
qed (use assms(1) in \<open>simp add: runs_ok_def\<close>)

lemma runs_ok_intercepting:
  assumes "runs_ok (s, ps)" and "hs_heap s' = hs_heap s @ [ctx]" "rc_interceptResult ctx = JUndef"
    and "run_refs s' = run_refs s"
  shows "runs_ok (s', AwaitIntercept (length (hs_heap s)) k # ps)"
proof -
  have "runs_ok (s', ps)" using runs_ok_opened [OF assms(1-3)] assms(4) by auto
  moreover have "length (hs_heap s) \<notin> run_refs s" using assms(1) by (auto simp: runs_ok_def)
  moreover have "length (hs_heap s) \<notin> set (intercept_refs ps)"
    using intercept_ref_bound [OF assms(1)] by auto
  ultimately show ?thesis using assms(2-4) by (simp add: runs_ok_def nth_append)
qed

lemma runs_ok_start:
  assumes "runs_ok (s, ps)" and "start opts op s = Some (res, s')"
  shows "res = Inr None \<and> runs_ok (s', ps)
       \<or> (\<exists>p call. res = Inr (Some (p, call)) \<and> runs_ok (s', p # ps))"
  using assms(2)
proof (cases rule: start_cases)
  case looked
  then have same: "hs_heap s' = hs_heap s" "run_refs s' \<subseteq> run_refs s" by (simp_all add: looked_def)
  from looked consider "res = Inr None"
    | p call where "res = Inr (Some (p, call))" "intercept_refs [p] = []" "pending_ref p \<in> run_refs s"
    by (auto simp: looked_def)
  then show ?thesis
  proof cases
    case 1
    with same assms(1) show ?thesis by (auto simp: runs_ok_def)
  next
    case (2 p call)
    then have "intercept_refs (p # ps) = intercept_refs ps" by (cases p) simp_all
    with same assms(1) 2 show ?thesis by (auto simp: runs_ok_def)
  qed
next
  case (opened q k)
  then have "run_refs s' \<subseteq> insert (length (hs_heap s)) (run_refs s)"
    using run_refs_put [of k "length (hs_heap s)" "hs_runs s"] by (simp add: run_refs_def)
  with opened runs_ok_opened [OF assms(1)] show ?thesis by (simp add: fresh_context_def)
next
  case (intercepting q k call)
  then have "run_refs s' = run_refs s" by (simp add: run_refs_def)
  with intercepting runs_ok_intercepting [OF assms(1)] show ?thesis by (simp add: fresh_context_def)
qed


lemma runs_ok_resume:
  assumes "runs_ok (s, ps)" and "p \<in> set ps" and "silent opts"
    and "enabled (lo_blockOnPolicyViolation opts)"
    and "resume opts p answer (s\<lparr>hs_world := w\<rparr>) = Some (x, s')"
  shows "runs_ok (s', remove1 p ps)"
proof (cases "intercept_refs [p] = []")
  case True
  with resume_other [OF assms(5)] obtain c where
    c: "run_refs s' \<subseteq> run_refs s" "hs_heap s' = (hs_heap s)[pending_ref p := c]"
      "pending_ref p < length (hs_heap s) \<longrightarrow> same_verdict (hs_heap s ! pending_ref p) c"
    by (auto simp: run_refs_def)
  have "rc_interceptResult (hs_heap s' ! i) = rc_interceptResult (hs_heap s ! i)" for i
    using c(2,3) by (cases "pending_ref p < length (hs_heap s)")
      (auto simp: same_verdict_def nth_list_update list_update_beyond)
  with c(1,2) assms(1) intercept_refs_subset [of p ps] set_remove1_subset [of p ps]
    intercept_refs_remove [of ps p]
  show ?thesis unfolding runs_ok_def by (auto simp: subset_iff)
next
  case False
  then obtain r k where p: "p = AwaitIntercept r k" by (cases p) simp_all
  then have r: "r \<in> set (intercept_refs ps)" using assms(2) by (auto simp: set_intercept_refs)
  have fresh: "r < length (hs_heap s)" "rc_interceptResult (hs_heap s ! r) = JUndef" "r \<notin> run_refs s"
    using intercept_ref_bound [OF assms(1) r] assms(1) r by (auto simp: runs_ok_def)
  from resume_intercept [OF assms(3,4), of r "s\<lparr>hs_world := w\<rparr>" k answer x s'] fresh assms(5) p
  obtain c where c: "hs_heap s' = (hs_heap s)[r := c]"
    "hs_runs s' = hs_runs s \<or>
     hs_runs s' = assoc_put k r (hs_runs s) \<and> \<not> denied (rc_interceptResult c)"
    by auto
  have gone: "r \<notin> set (intercept_refs (remove1 p ps))"
    using assms(1,2) p by (auto simp: runs_ok_def dest: intercept_refs_removed)
  have refs: "run_refs s' \<subseteq> insert r (run_refs s)"
    "r \<in> run_refs s' \<Longrightarrow> \<not> denied (rc_interceptResult c)"
  proof -
    from c(2) show "run_refs s' \<subseteq> insert r (run_refs s)"
      unfolding run_refs_def using run_refs_put [of k r "hs_runs s"] by (metis subset_insertI)
    assume "r \<in> run_refs s'"
    with c(2) fresh(3) show "\<not> denied (rc_interceptResult c)" by (auto simp only: run_refs_def)
  qed
  have keep: "i \<noteq> r \<Longrightarrow> hs_heap s' ! i = hs_heap s ! i" "length (hs_heap s') = length (hs_heap s)"
    "hs_heap s' ! r = c" for i
    using c(1) fresh(1) by simp_all
  show ?thesis
    unfolding runs_ok_def prod.case
  proof (intro conjI ballI)
    fix i assume i: "i \<in> run_refs s'"
    show "i < length (hs_heap s')" "\<not> denied (rc_interceptResult (hs_heap s' ! i))"
      using i refs keep fresh(1) assms(1) by (cases "i = r"; force simp: runs_ok_def)+
  next
    fix q assume "q \<in> set (remove1 p ps)"
    then show "pending_ref q < length (hs_heap s')"
      using assms(1) keep(2) by (auto simp: runs_ok_def dest: notin_set_remove1 set_remove1_subset [THEN subsetD])
  next
    fix i assume i: "i \<in> set (intercept_refs (remove1 p ps))"
    with gone have "i \<noteq> r" by auto
    moreover have "i \<in> set (intercept_refs ps)" using i intercept_refs_subset by blast
    ultimately show "rc_interceptResult (hs_heap s' ! i) = JUndef" "i \<notin> run_refs s'"
      using assms(1) keep(1) refs(1) by (auto simp: runs_ok_def)
  qed (use assms(1) in \<open>simp add: runs_ok_def intercept_refs_remove\<close>)
qed

lemma runs_ok_step:
  assumes "callback_step opts cfg cfg'" and "runs_ok cfg" and "silent opts"
    and "enabled (lo_blockOnPolicyViolation opts)"
  shows "runs_ok cfg'"
  using assms
  by (cases rule: callback_step.cases) (auto dest: runs_ok_start runs_ok_resume)

lemma runs_ok_reachable:
  assumes "reachable opts cfg" and "silent opts" and "enabled (lo_blockOnPolicyViolation opts)"
  shows "runs_ok cfg"
proof -
  from assms(1) obtain w where "(callback_step opts)\<^sup>*\<^sup>* (initial_state w, []) cfg"
    by (auto simp: reachable_def)
  then show ?thesis
  proof (induction rule: rtranclp_induct)
    case base
    show ?case by (simp add: runs_ok_def initial_state_def run_refs_def)
  next
    case (step y z)
    with assms(2,3) show ?case by (blast intro: runs_ok_step)
  qed
qed

end
