(* ===== verification/SdkHandler.thy ===== *)
theory SdkHandler
  imports SdkLangChain
begin

text \<open>
  The properties of the LangChain callback handler: what a run without interruption does on every
  answer of the gate, and what holds in every interleaving.
\<close>

section \<open>Properties of the handler\<close>

text \<open>A handler that waits, run without interruption.\<close>

lemma handle_waiting:
  assumes "start opts op s = Some (Inr (Some (p, call)), s1)"
    and "run_gate_call e c call (hs_world s1) = Some (answer, w1)"
  shows "handle e c opts op s = resume opts p answer (s1\<lparr>hs_world := w1\<rparr>)"
  using assms by (simp add: handle_def bind_io_def await_call_def)

lemma handle_at_once:
  assumes "start opts op s = Some (Inr None, s1)"
  shows "handle e c opts op s = Some (Inr (), s1)"
  using assms by (simp add: handle_def bind_io_def ret_def)

lemma handle_cases:
  assumes "handle e c opts op s = Some (r, s')"
  obtains (at_once) "start opts op s = Some (Inr None, s')" "r = Inr ()"
    | (waited) p call s1 answer w1 where "start opts op s = Some (Inr (Some (p, call)), s1)"
        "run_gate_call e c call (hs_world s1) = Some (answer, w1)"
        "resume opts p answer (s1\<lparr>hs_world := w1\<rparr>) = Some (r, s')"
proof -
  obtain res s1 where st: "start opts op s = Some (res, s1)"
    using assms by (auto simp: handle_def bind_io_def split: option.splits)
  obtain out where out: "res = Inr out"
    using st by (cases rule: start_cases) (auto simp: looked_def)
  show ?thesis
  proof (cases out)
    case None
    with assms st out at_once show ?thesis by (simp add: handle_at_once)
  next
    case (Some pc)
    then obtain p call where pc: "out = Some (p, call)" by (cases pc) simp
    obtain answer w1 where "run_gate_call e c call (hs_world s1) = Some (answer, w1)"
      using assms st out pc
      by (auto simp: handle_def bind_io_def await_call_def split: option.splits)
    with assms st out pc waited show ?thesis by (simp add: handle_waiting)
  qed
qed

lemma start_chain_waits:
  "truthy (extractQuery inputs) \<Longrightarrow>
   start opts (ChainStart inputs k parent) s =
     Some (Inr (Some (AwaitIntercept (length (hs_heap s)) k,
        CallIntercept (intercept_call (extractQuery inputs) (lo_policies opts) (lo_userContext opts)))),
       s\<lparr>hs_heap := hs_heap s @ [fresh_context s (extractQuery inputs)]\<rparr>)"
  by (simp add: start_chain_def start_run)

lemma handle_chain_start:
  assumes "truthy (extractQuery inputs)"
    and "gate_intercept e c (intercept_call (extractQuery inputs) (lo_policies opts) (lo_userContext opts))
          (hs_world s) = Some (answer, w1)"
  shows "handle e c opts (ChainStart inputs k parent) s =
    resume_chain_start opts (length (hs_heap s)) k answer
      (s\<lparr>hs_heap := hs_heap s @ [fresh_context s (extractQuery inputs)], hs_world := w1\<rparr>)"
  using handle_waiting [OF start_chain_waits [OF assms(1)]] assms(2) by simp

lemma blocked_error_policy [simp]: "is_policy_error (blocked_error v)"
  by (simp add: is_policy_error_def blocked_error_def new_SecureLensPolicyError_def)

lemmas resume_run = resume_chain_start_def then_io_def bind_io_def catch_io_def lift_sum_def throw_def
  warn_def h_emit_def modify_io_def set_run_def

text \<open>
  C3. With a query, a gate that answers in the shape of its interface and callbacks that do not throw, a
  chain whose query the gate denies is stopped by a policy error with the gate's reason, and leaves no
  run behind, exactly when blocking is enabled; otherwise it goes on, and its run holds the gate's
  answer, classifications and policies.
\<close>

theorem chain_start_enforces_verdict:
  assumes "truthy (extractQuery inputs)"
    and "gate_intercept e c (intercept_call (extractQuery inputs) (lo_policies opts) (lo_userContext opts))
          (hs_world s) = Some (Inr result, w1)"
    and "silent opts" and "conforms GateInterceptResponse result"
  shows "\<exists>s'. if truthy (jprop ''allowed'' result) \<or> \<not> enabled (lo_blockOnPolicyViolation opts)
         then handle e c opts (ChainStart inputs k parent) s = Some (Inr (), s')
           \<and> hs_runs s' = assoc_put k (length (hs_heap s)) (hs_runs s)
           \<and> rc_interceptResult (hs_heap s' ! length (hs_heap s)) = result
           \<and> jprop ''classifications'' result = JArr (getClassifications k s')
           \<and> jprop ''appliedPolicies'' result = JArr (getAppliedPolicies k s')
         else handle e c opts (ChainStart inputs k parent) s = Some (Inl (blocked_error result), s')
           \<and> hs_runs s' = hs_runs s"
proof -
  let ?s1 = "s\<lparr>hs_heap := hs_heap s @ [fresh_context s (extractQuery inputs)], hs_world := w1\<rparr>"
  obtain xs ys w2 where run: "intercepted opts (length (hs_heap s)) result ?s1 =
    Some (if truthy (jprop ''allowed'' result) \<or> \<not> enabled (lo_blockOnPolicyViolation opts)
          then Inr () else Inl (blocked_error result),
      ?s1\<lparr>hs_heap := (hs_heap ?s1)[length (hs_heap s) :=
            record_verdict result xs ys (hs_heap ?s1 ! length (hs_heap s))], hs_world := w2\<rparr>)"
    and arrays: "jprop ''classifications'' result = JArr xs" "jprop ''appliedPolicies'' result = JArr ys"
    using intercepted_conforming [OF assms(3,4), of "length (hs_heap s)" ?s1] by blast
  show ?thesis
    using handle_chain_start [OF assms(1,2), of k parent] run arrays
    by (cases "truthy (jprop ''allowed'' result) \<or> \<not> enabled (lo_blockOnPolicyViolation opts)";
        simp add: resume_run getClassifications_def getAppliedPolicies_def get_run_def
        dict.get_put_same record_verdict_def fresh_context_def)
qed

text \<open>
  When the interception fails, with anything but a policy error, the chain goes on: the handler
  returns, a warning is all that is left of the failure, and the run is registered without an answer
  of the gate. Errors fail open here, where the Express middleware fails closed.
\<close>

theorem intercept_failure_passes:
  assumes "truthy (extractQuery inputs)"
    and "gate_intercept e c (intercept_call (extractQuery inputs) (lo_policies opts) (lo_userContext opts))
          (hs_world s) = Some (Inl t, w1)"
    and "\<not> is_policy_error t"
  shows "\<exists>s'. handle e c opts (ChainStart inputs k parent) s = Some (Inr (), s')
      \<and> get_run k s' = Some (length (hs_heap s))
      \<and> rc_interceptResult (hs_heap s' ! length (hs_heap s)) = JUndef
      \<and> trace (hs_world s') = trace w1 @ [EvWarn ''[SecureLens] Failed to intercept query:'' t]"
  using assms(3) handle_chain_start [OF assms(1,2), of k parent]
  by (simp add: resume_run get_run_def dict.get_put_same fresh_context_def)

text \<open>
  C12. A callback of the caller can undo the block: when \<open>onClassification\<close> throws anything but a
  policy error, the denial of the gate is never looked at, and the chain goes on with the query.
\<close>

theorem throwing_callback_undoes_block:
  assumes "truthy (extractQuery inputs)"
    and "gate_intercept e c (intercept_call (extractQuery inputs) (lo_policies opts) (lo_userContext opts))
          (hs_world s) = Some (Inr result, w1)"
    and "denied result" and "has_elements (jprop ''classifications'' result)"
    and "lo_onClassification opts = Some f"
    and "f (jprop ''classifications'' result) ''query'' = Some t" and "\<not> is_policy_error t"
  shows "\<exists>s'. handle e c opts (ChainStart inputs k parent) s = Some (Inr (), s')
      \<and> get_run k s' = Some (length (hs_heap s))
      \<and> rc_interceptResult (hs_heap s' ! length (hs_heap s)) = result"
proof -
  obtain d xs ys where shape: "result = JObj d" "jprop ''classifications'' result = JArr xs"
    "jprop ''appliedPolicies'' result = JArr ys"
    using intercept_response_arrays assms(3) unfolding denied_def by blast
  then have given: "\<not> nullish result" by simp
  let ?s1 = "s\<lparr>hs_heap := hs_heap s @ [fresh_context s (extractQuery inputs)], hs_world := w1\<rparr>"
  have "\<exists>s2. intercepted opts (length (hs_heap s)) result ?s1 = Some (Inl t, s2)
      \<and> hs_runs s2 = hs_runs s \<and> hs_heap s2 = hs_heap s @
        [record_verdict result xs ys (fresh_context s (extractQuery inputs))]"
    unfolding intercepted_def apply_answer_def push_classifications_def
    using assms(4-6) [unfolded shape(2)]
    by (simp only: then_update h_prop_run [OF given] shape(2,3) iterate.simps bind_ret bind_lift_Inr)
      (simp add: when_io_def call_onClassification_def callback_def then_io_def bind_io_def
        h_emit_def modify_io_def throw_def record_verdict_def fresh_context_def)
  with assms(7) handle_chain_start [OF assms(1,2), of k parent] show ?thesis
    by (auto simp: resume_run get_run_def dict.get_put_same record_verdict_def)
qed


text \<open>
  C9. The end of a chain always forgets its run, and only that one, and never throws, whatever the
  gate answers and the callback throws.
\<close>

theorem chain_end_forgets_run:
  assumes "handle e c opts (ChainEnd outputs k parent) s = Some (r, s')"
  shows "r = Inr () \<and> get_run k s' = None \<and> (k' = k \<or> get_run k' s' = get_run k' s)"
proof -
  have gone: "get_run k (del_run k s1) = None" "k' = k \<or> get_run k' (del_run k s1) = get_run k' s1" for s1
    by (simp_all add: get_run_def del_run_def dict.get_del)
  show ?thesis
    using assms
  proof (cases rule: handle_cases)
    case at_once
    then show ?thesis
      using gone by (auto simp: start_chain_end_def ret_def Let_def split: option.splits if_splits)
  next
    case (waited p call s1 answer w1)
    then have p: "p = AwaitResponse (the (get_run k s)) k" "s1 = s"
      by (auto simp: start_chain_end_def ret_def Let_def split: option.splits if_splits)
    with waited(3) have run: "resume_chain_end opts (the (get_run k s)) k answer (s\<lparr>hs_world := w1\<rparr>) = Some (r, s')"
      by simp
    then obtain s2 where "touches (the (get_run k s)) same_verdict (s\<lparr>hs_world := w1\<rparr>) s2" "s' = del_run k s2"
      by (rule resume_chain_end_confined)
    moreover have "r = Inr ()"
      using run by (auto simp: resume_chain_end_def finally_io_def catch_io_def warn_def h_emit_def
          modify_io_def split: option.splits sum.splits)
    ultimately show ?thesis using gone [of s2] by (simp add: touches_def get_run_def)
  qed
qed

text \<open>
  A retriever whose parent run is unknown to the handler is never classified, and its run is
  never forgotten: the context is stored under the retriever's own id, but looked up under the
  parent's when it ends, and only an error removes it.
\<close>

theorem orphan_retriever_leaks:
  assumes "p \<noteq> []" and "p \<noteq> k" and "get_run p s = None"
  shows "\<exists>s'. handle e c opts (RetrieverStart q k (Some p)) s = Some (Inr (), s')
      \<and> handle e c opts (RetrieverEnd docs k (Some p)) s' = Some (Inr (), s')
      \<and> get_run k s' = Some (length (hs_heap s)) \<and> getClassifications k s' = []"
proof -
  let ?s' = "s\<lparr>hs_heap := hs_heap s @ [fresh_context s q],
      hs_runs := assoc_put k (length (hs_heap s)) (hs_runs s)\<rparr>"
  have "start opts (RetrieverStart q k (Some p)) s = Some (Inr None, ?s')"
    using assms by (simp add: start_retriever_def start_run)
  moreover have "get_run p ?s' = None"
    using assms by (simp add: get_run_def dict.get_put_other)
  then have "start opts (RetrieverEnd docs k (Some p)) ?s' = Some (Inr None, ?s')"
    by (simp add: start_retriever_end_def ret_def)
  ultimately show ?thesis
    by (intro exI [of _ ?s'])
      (simp add: handle_at_once get_run_def dict.get_put_same getClassifications_def fresh_context_def)
qed

section \<open>The properties on examples\<close>

definition ex_callbacks :: "(js \<Rightarrow> string \<Rightarrow> thrown option) option \<Rightarrow> callback_options" where
  "ex_callbacks f =
     \<lparr>lo_policies = JUndef, lo_userContext = JUndef, lo_blockOnPolicyViolation = Absent,
      lo_classifyRetrievedDocs = Absent, lo_classifyResponses = Absent,
      lo_onClassification = f, lo_onPolicyApplied = None, lo_onBlocked = None\<rparr>"

definition ex_inputs :: "string \<Rightarrow> (string \<times> js) list" where
  "ex_inputs q = [(''question'', JStr q)]"

definition ex_denial :: js where
  "ex_denial = JObj
     [(''allowed'', JBool False), (''safeQuery'', JStr ''salary?''), (''originalQuery'', JStr ''salary?''),
      (''classifications'', JArr [JObj
         [(''type'', JStr ''pii''), (''label'', JStr ''SALARY''), (''confidence'', JNum (Fin 1)),
          (''start'', JNum (Fin 0)), (''end'', JNum (Fin 6)), (''sensitivity'', JStr ''restricted'')]]),
      (''appliedPolicies'', JArr []), (''auditId'', JStr ''a1''), (''blockReason'', JStr ''salary data'')]"

lemma ex_denial_denied: "denied ex_denial"
  by (simp add: denied_def ex_denial_def GateInterceptResponse_def Classification_def
      ClassificationType_def SensitivityLevel_def)

abbreviation ex_gate :: "js \<Rightarrow> env" where
  "ex_gate v \<equiv> ex_env (ex_response 200 ''{}'') v"

lemma ex_silent: "silent (new_SecureLensCallbackHandler (ex_callbacks None))"
  by (simp add: silent_def new_SecureLensCallbackHandler_def ex_callbacks_def)

lemma ex_enabled:
  "enabled (lo_blockOnPolicyViolation (new_SecureLensCallbackHandler (ex_callbacks f)))"
  by (simp add: enabled_def new_SecureLensCallbackHandler_def ex_callbacks_def)

lemma ex_query_extracted [simp]: "extractQuery (ex_inputs q) = JStr q"
  by (simp add: extractQuery_def ex_inputs_def)

lemma ex_chain_intercept:
  "\<exists>w1. gate_intercept (ex_gate v) (ex_client 3) (intercept_call (JStr ''salary?'') p u)
      (hs_world (initial_state ex_world)) = Some (Inr v, w1)"
  using ex_intercept_answer by (simp add: initial_state_def)

theorem chain_start_enforces_verdict_witness:
  "\<exists>s'. handle (ex_gate ex_denial) (ex_client 3) (new_SecureLensCallbackHandler (ex_callbacks None))
      (ChainStart (ex_inputs ''salary?'') ''run1'' None) (initial_state ex_world) =
        Some (Inl (blocked_error ex_denial), s')
     \<and> hs_runs s' = []"
proof -
  let ?o = "new_SecureLensCallbackHandler (ex_callbacks None)"
  obtain w1 where w1: "gate_intercept (ex_gate ex_denial) (ex_client 3)
      (intercept_call (extractQuery (ex_inputs ''salary?'')) (lo_policies ?o) (lo_userContext ?o))
      (hs_world (initial_state ex_world)) = Some (Inr ex_denial, w1)"
    unfolding ex_query_extracted using ex_chain_intercept by blast
  have shape: "conforms GateInterceptResponse ex_denial"
    and no: "\<not> (truthy (jprop ''allowed'' ex_denial) \<or> \<not> enabled (lo_blockOnPolicyViolation ?o))"
    using ex_denial_denied ex_enabled by (auto simp: denied_def)
  have "truthy (extractQuery (ex_inputs ''salary?''))" by simp
  from chain_start_enforces_verdict [OF this w1 ex_silent shape, of "''run1''" None] no
  show ?thesis by (auto simp: initial_state_def)
qed

lemma ex_invalid_query:
  "gate_intercept e c (intercept_call (extractQuery [(''input'', JNum (Fin 7))]) p u) w =
    Some (Inl (field_error ''Query is required'' ''query'' ''Query must be a non-empty string''), w)"
  by (simp add: gate_intercept_def validateInterceptRequest_def intercept_call_def query_missing_def
      extractQuery_def bind_io_def lift_sum_def)

theorem intercept_failure_passes_witness:
  "\<exists>s'. handle (ex_gate ex_denial) (ex_client 3) (new_SecureLensCallbackHandler (ex_callbacks None))
      (ChainStart [(''input'', JNum (Fin 7))] ''run1'' None) (initial_state ex_world) = Some (Inr (), s')
     \<and> get_run ''run1'' s' = Some 0"
proof -
  have q: "truthy (extractQuery [(''input'', JNum (Fin 7))])" by (simp add: extractQuery_def)
  have t: "\<not> is_policy_error (field_error m k y)" for m k y
    by (simp add: is_policy_error_def field_error_def validation_error_def new_SecureLensValidationError_def)
  have "hs_heap (initial_state ex_world) = []" by (simp add: initial_state_def)
  with intercept_failure_passes [OF q ex_invalid_query t, of "ex_gate ex_denial" "ex_client 3"
      "new_SecureLensCallbackHandler (ex_callbacks None)" "''run1''" None "initial_state ex_world"]
  show ?thesis by auto
qed

definition ex_throwing :: "js \<Rightarrow> string \<Rightarrow> thrown option" where
  "ex_throwing cs src = Some (Native ''Error'' ''metrics sink is down'')"

theorem throwing_callback_undoes_block_witness:
  "\<exists>s'. handle (ex_gate ex_denial) (ex_client 3)
        (new_SecureLensCallbackHandler (ex_callbacks (Some ex_throwing)))
        (ChainStart (ex_inputs ''salary?'') ''run1'' None) (initial_state ex_world) = Some (Inr (), s')
     \<and> get_run ''run1'' s' = Some 0"
proof -
  let ?o = "new_SecureLensCallbackHandler (ex_callbacks (Some ex_throwing))"
  obtain w1 where w1: "gate_intercept (ex_gate ex_denial) (ex_client 3)
      (intercept_call (extractQuery (ex_inputs ''salary?'')) (lo_policies ?o) (lo_userContext ?o))
      (hs_world (initial_state ex_world)) = Some (Inr ex_denial, w1)"
    unfolding ex_query_extracted using ex_chain_intercept by blast
  have hyps: "truthy (extractQuery (ex_inputs ''salary?''))"
    "has_elements (jprop ''classifications'' ex_denial)" "lo_onClassification ?o = Some ex_throwing"
    "ex_throwing (jprop ''classifications'' ex_denial) ''query'' =
       Some (Native ''Error'' ''metrics sink is down'')"
    "\<not> is_policy_error (Native ''Error'' ''metrics sink is down'')"
    "hs_heap (initial_state ex_world) = []"
    by (simp_all add: has_elements_def ex_denial_def new_SecureLensCallbackHandler_def
        ex_callbacks_def ex_throwing_def is_policy_error_def initial_state_def)
  from throwing_callback_undoes_block [OF hyps(1) w1 ex_denial_denied hyps(2-5), of "''run1''" None]
  show ?thesis by (auto simp: hyps(6))
qed

definition ex_run :: handler_state where
  "ex_run = (initial_state ex_world)
     \<lparr>hs_heap := [fresh_context (initial_state ex_world) (JStr ''salary?'')],
      hs_runs := [(''r1'', 0)]\<rparr>"

lemma ex_start_retriever:
  "start opts (RetrieverStart (JStr ''salary?'') ''r1'' None) (initial_state ex_world) =
    Some (Inr None, ex_run)"
  by (simp add: start_retriever_def start_run ex_run_def initial_state_def)

lemma ex_reachable: "reachable opts (initial_state ex_world, [])"
  by (auto simp: reachable_def)


theorem chain_end_forgets_run_witness:
  "\<exists>r s'. handle (ex_gate ex_denial) (ex_client 3) (ex_callbacks None) (ChainEnd [] ''r1'' None) ex_run =
        Some (r, s')
     \<and> r = Inr () \<and> get_run ''r1'' s' = None"
proof -
  have "start (ex_callbacks None) (ChainEnd [] ''r1'' None) ex_run = Some (Inr None, del_run ''r1'' ex_run)"
    by (simp add: start_chain_end_def get_run_def ex_run_def extractResponse_def ret_def)
  then have "handle (ex_gate ex_denial) (ex_client 3) (ex_callbacks None) (ChainEnd [] ''r1'' None) ex_run =
      Some (Inr (), del_run ''r1'' ex_run)"
    by (rule handle_at_once)
  with chain_end_forgets_run [OF this] show ?thesis by blast
qed

theorem orphan_retriever_leaks_witness:
  "\<exists>s'. handle (ex_gate ex_denial) (ex_client 3) (ex_callbacks None)
        (RetrieverStart (JStr ''q'') ''r2'' (Some ''llm'')) ex_run = Some (Inr (), s')
      \<and> get_run ''r2'' s' = Some 1"
proof -
  have "''llm'' \<noteq> []" "''llm'' \<noteq> ''r2''" "get_run ''llm'' ex_run = None" "length (hs_heap ex_run) = 1"
    by (simp_all add: get_run_def ex_run_def)
  with orphan_retriever_leaks [OF this(1-3), of "ex_gate ex_denial" "ex_client 3" "ex_callbacks None"
      "JStr ''q''" "[]"]
  show ?thesis by auto
qed

end
