(* ===== verification/SdkRetriever.thy ===== *)
theory SdkRetriever
  imports SdkHandler
begin

text \<open>
  The retriever of \<open>sdk/node/src/langchain.ts\<close>, which labels retrieved documents and filters them
  by level. The order of the levels is the linear order of the type \<open>sensitivity\<close>; the code's
  comparison of positions in an array is shown to implement it, for the labels it knows.
\<close>

section \<open>The retriever\<close>

record retriever_options =
  ro_classifyDocuments :: bool
  ro_filterSensitive :: bool
  ro_maxSensitivity :: "string option"

definition sensitivityOrder :: "string list" where
  "sensitivityOrder = [''public'', ''internal'', ''confidential'', ''restricted'', ''top_secret'']"

text \<open>\<open>xs.indexOf(x)\<close>\<close>

fun indexOf :: "'a list \<Rightarrow> 'a \<Rightarrow> int" where
  "indexOf [] x = -1"
| "indexOf (y # ys) x =
     (if y = x then 0 else let i = indexOf ys x in if i = -1 then -1 else i + 1)"

definition sensitivity_index :: "js \<Rightarrow> int" where
  "sensitivity_index v = (case v of JStr s \<Rightarrow> indexOf sensitivityOrder s | _ \<Rightarrow> -1)"

text \<open>\<open>v[i]\<close>: throws on \<open>undefined\<close> and \<open>null\<close>\<close>

definition js_index :: "js \<Rightarrow> nat \<Rightarrow> thrown + js" where
  "js_index v i =
     (if nullish v then Inl (native_type_error (type_error_message (nat_str i) v))
      else Inr (case v of
                  JArr xs \<Rightarrow> (if i < length xs then xs ! i else JUndef)
                | JStr s \<Rightarrow> (if i < length s then JStr [s ! i] else JUndef)
                | _ \<Rightarrow> jprop (nat_str i) v))"

definition enrich :: "js \<Rightarrow> nat \<Rightarrow> document \<Rightarrow> thrown + document" where
  "enrich results i doc =
     (case js_index results i of
        Inl t \<Rightarrow> Inl t
      | Inr result \<Rightarrow>
          Inr (doc\<lparr>doc_metadata := assoc_put ''secureLens''
                 (JObj [(''classifications'', coalesce (jprop ''classifications'' result) (JArr [])),
                        (''sensitivity'',
                           coalesce (jprop ''overallSensitivity'' result) (JStr ''public''))])
                 (doc_metadata doc)\<rparr>))"

fun enrich_all :: "js \<Rightarrow> nat \<Rightarrow> document list \<Rightarrow> thrown + document list" where
  "enrich_all results i [] = Inr []"
| "enrich_all results i (d # ds) =
     (case enrich results i d of
        Inl t \<Rightarrow> Inl t
      | Inr d' \<Rightarrow>
          (case enrich_all results (Suc i) ds of Inl t \<Rightarrow> Inl t | Inr ds' \<Rightarrow> Inr (d' # ds')))"

definition doc_sensitivity :: "document \<Rightarrow> js" where
  "doc_sensitivity doc =
     coalesce (jprop ''sensitivity'' (opt_default JUndef (map_of (doc_metadata doc) ''secureLens'')))
       (JStr ''public'')"

definition within_limit :: "string \<Rightarrow> document \<Rightarrow> bool" where
  "within_limit maxSensitivity doc \<longleftrightarrow>
     sensitivity_index (doc_sensitivity doc) \<le> sensitivity_index (JStr maxSensitivity)"

text \<open>The wrapped retriever is a parameter: what it throws or returns for a query.\<close>

definition getRelevantDocuments ::
  "env \<Rightarrow> SecureLensClient \<Rightarrow> (string \<Rightarrow> thrown + document list) \<Rightarrow> retriever_options \<Rightarrow> string \<Rightarrow>
   document list sdk" where
  "getRelevantDocuments e c baseRetriever opts query =
     bind_io (lift_sum (baseRetriever query)) (\<lambda>documents.
       if \<not> ro_classifyDocuments opts \<and> \<not> ro_filterSensitive opts then ret documents
       else bind_io (gate_classifyBatch e c (texts_of (map doc_pageContent documents))) (\<lambda>results.
            bind_io (lift_sum (enrich_all results 0 documents)) (\<lambda>enrichedDocs.
              case ro_maxSensitivity opts of
                Some maxSensitivity \<Rightarrow>
                  (if ro_filterSensitive opts \<and> maxSensitivity \<noteq> []
                   then ret (filter (within_limit maxSensitivity) enrichedDocs)
                   else ret enrichedDocs)
              | None \<Rightarrow> ret enrichedDocs)))"

section \<open>Sensitivity levels\<close>

text \<open>The order the strings of \<open>sensitivityOrder\<close> stand for.\<close>

datatype sensitivity = Public | Internal | Confidential | Restricted | TopSecret

fun rank :: "sensitivity \<Rightarrow> nat" where
  "rank Public = 0"
| "rank Internal = 1"
| "rank Confidential = 2"
| "rank Restricted = 3"
| "rank TopSecret = 4"

fun level_name :: "sensitivity \<Rightarrow> string" where
  "level_name Public = ''public''"
| "level_name Internal = ''internal''"
| "level_name Confidential = ''confidential''"
| "level_name Restricted = ''restricted''"
| "level_name TopSecret = ''top_secret''"

instantiation sensitivity :: linorder
begin

definition less_eq_sensitivity :: "sensitivity \<Rightarrow> sensitivity \<Rightarrow> bool" where
  "less_eq_sensitivity a b \<longleftrightarrow> rank a \<le> rank b"

definition less_sensitivity :: "sensitivity \<Rightarrow> sensitivity \<Rightarrow> bool" where
  "less_sensitivity a b \<longleftrightarrow> rank a < rank b"

instance
proof
  fix a b :: sensitivity
  assume "a \<le> b" and "b \<le> a"
  then show "a = b" by (cases a; cases b) (simp_all add: less_eq_sensitivity_def)
qed (auto simp: less_eq_sensitivity_def less_sensitivity_def)

end

lemma level_name_given [simp]: "level_name l \<noteq> []"
  by (cases l) simp_all

lemma level_name_inject [simp]: "level_name k = level_name l \<longleftrightarrow> k = l"
  by (cases k; cases l) simp_all

lemma sensitivity_index_level: "sensitivity_index (JStr (level_name l)) = int (rank l)"
  by (cases l) (simp_all add: sensitivity_index_def sensitivityOrder_def)

lemma indexOf_absent: "x \<notin> set ys \<Longrightarrow> indexOf ys x = -1"
  by (induction ys) auto

definition levels :: "sensitivity list" where
  "levels = [Public, Internal, Confidential, Restricted, TopSecret]"

lemma level_in_levels: "l \<in> set levels"
  by (cases l) (simp_all add: levels_def)

lemma sensitivityOrder_levels: "sensitivityOrder = map level_name levels"
  by (simp add: sensitivityOrder_def levels_def)

lemma sensitivity_index_unknown:
  "(\<And>l. v \<noteq> JStr (level_name l)) \<Longrightarrow> sensitivity_index v = -1"
  by (cases v) (fastforce simp: sensitivity_index_def sensitivityOrder_levels intro: indexOf_absent)+

lemma sensitivity_level_conforms:
  "conforms SensitivityLevel v \<longleftrightarrow> (\<exists>l. v = JStr (level_name l))"
proof -
  have "SensitivityLevel = TLit (map level_name levels)"
    by (simp add: SensitivityLevel_def levels_def)
  then show ?thesis
    unfolding \<open>SensitivityLevel = _\<close> by (cases v) (auto simp: level_in_levels)
qed

text \<open>A document with the label of its classification result.\<close>

definition enriched :: "js \<Rightarrow> document \<Rightarrow> document" where
  "enriched result doc = doc\<lparr>doc_metadata := assoc_put ''secureLens''
     (JObj [(''classifications'', coalesce (jprop ''classifications'' result) (JArr [])),
            (''sensitivity'', coalesce (jprop ''overallSensitivity'' result) (JStr ''public''))])
     (doc_metadata doc)\<rparr>"

definition result_at :: "js list \<Rightarrow> nat \<Rightarrow> js" where
  "result_at rs i = (if i < length rs then rs ! i else JUndef)"

lemma enrich_all_results:
  "enrich_all (JArr rs) i docs = Inr (map (\<lambda>(j, d). enriched (result_at rs j) d) (enumerate i docs))"
  by (induction docs arbitrary: i) (simp_all add: enrich_def js_index_def enriched_def result_at_def)

lemma enriched_content [simp]: "doc_pageContent (enriched r d) = doc_pageContent d"
  by (simp add: enriched_def)

lemma coalesce_default [simp]: "coalesce (coalesce v (JStr s)) u = coalesce v (JStr s)"
  by (cases v) simp_all

lemma enriched_sensitivity:
  "doc_sensitivity (enriched r d) = coalesce (jprop ''overallSensitivity'' r) (JStr ''public'')"
  by (simp add: doc_sensitivity_def enriched_def dict.get_put_same)

lemma getRelevantDocuments_filtered:
  assumes "baseRetriever query = Inr docs" and "ro_filterSensitive opts"
    and "ro_maxSensitivity opts = Some m" and "m \<noteq> []"
    and "gate_classifyBatch e c (texts_of (map doc_pageContent docs)) w = Some (Inr (JArr rs), w')"
  shows "getRelevantDocuments e c baseRetriever opts query w =
    Some (Inr (filter (within_limit m)
      (map (\<lambda>(j, d). enriched (result_at rs j) d) (enumerate 0 docs))), w')"
  using assms
  by (simp add: getRelevantDocuments_def bind_io_def lift_sum_def enrich_all_results ret_def)

lemma map_ex_list: "(\<forall>x \<in> set xs. \<exists>y. f x = g y) \<Longrightarrow> \<exists>ys. map f xs = map g ys"
proof (induction xs)
  case (Cons x xs)
  then obtain y ys where "f x = g y" "map f xs = map g ys" by auto
  then show ?case by (intro exI [of _ "y # ys"]) simp
qed simp

lemma classification_level:
  "conforms ClassificationResult r \<Longrightarrow>
   \<exists>l. jprop ''overallSensitivity'' r = JStr (level_name l)"
  using conforms_obj_field [of _ r "''overallSensitivity''" True SensitivityLevel]
  by (simp add: ClassificationResult_def sensitivity_level_conforms)

lemma within_limit_level:
  "jprop ''overallSensitivity'' r = JStr (level_name l) \<Longrightarrow>
   within_limit (level_name m) (enriched r d) \<longleftrightarrow> l \<le> m"
  by (simp add: within_limit_def enriched_sensitivity sensitivity_index_level less_eq_sensitivity_def)

lemma enriched_zip:
  "i + length docs = length rs \<Longrightarrow>
   map (\<lambda>(j, d). enriched (result_at rs j) d) (enumerate i docs) = map2 enriched (drop i rs) docs"
proof (induction docs arbitrary: i)
  case (Cons d docs)
  then have "drop i rs = rs ! i # drop (Suc i) rs" by (simp add: Cons_nth_drop_Suc)
  with Cons.prems Cons.IH [of "Suc i"] show ?case by (simp add: result_at_def)
qed simp

lemma filter_by_level:
  assumes "length rs = length docs"
    and "map (jprop ''overallSensitivity'') rs = map (\<lambda>l. JStr (level_name l)) ls"
  shows "filter (within_limit (level_name m)) (map2 enriched rs docs) =
         map fst (filter (\<lambda>(d, l). l \<le> m) (zip (map2 enriched rs docs) ls))"
proof -
  have "length docs = length ls" using assms by (metis length_map)
  from assms(1) this assms(2) show ?thesis
    by (induction rs docs ls rule: list_induct3) (auto simp: within_limit_level)
qed

section \<open>Properties of the retriever\<close>

text \<open>
  C6. With a gate that answers the shape of its interface, one result for each document, the
  filter keeps, in order and labelled, exactly the documents whose level is at most the limit: the
  comparison of positions in \<open>sensitivityOrder\<close> implements the order of the levels.
\<close>

theorem retriever_filter_refines:
  assumes "baseRetriever query = Inr docs"
    and "ro_filterSensitive opts" and "ro_maxSensitivity opts = Some (level_name m)"
    and "gate_classifyBatch e c (texts_of (map doc_pageContent docs)) w = Some (Inr (JArr rs), w')"
    and "conforms (TArr ClassificationResult) (JArr rs)" and "length rs = length docs"
  shows "\<exists>ls. map (jprop ''overallSensitivity'') rs = map (\<lambda>l. JStr (level_name l)) ls
      \<and> getRelevantDocuments e c baseRetriever opts query w =
          Some (Inr (map fst (filter (\<lambda>(d, l). l \<le> m) (zip (map2 enriched rs docs) ls))), w')"
proof -
  have "\<forall>r \<in> set rs. \<exists>l. jprop ''overallSensitivity'' r = JStr (level_name l)"
    using assms(5) by (auto simp: list_all_iff intro: classification_level)
  then obtain ls where ls: "map (jprop ''overallSensitivity'') rs = map (\<lambda>l. JStr (level_name l)) ls"
    by (auto dest: map_ex_list)
  then show ?thesis
    using getRelevantDocuments_filtered [where baseRetriever = baseRetriever and query = query,
        OF assms(1-3) level_name_given assms(4)] assms(6)
      enriched_zip [of 0 docs rs] filter_by_level [OF assms(6) ls, of m]
    by auto
qed

text \<open>
  The filter fails open: whatever the limit, a document for which the gate sent no result, or
  a result with a level the SDK does not know, is returned.
\<close>

theorem retriever_fails_open:
  assumes "baseRetriever query = Inr docs"
    and "ro_filterSensitive opts" and "ro_maxSensitivity opts = Some (level_name m)"
    and "gate_classifyBatch e c (texts_of (map doc_pageContent docs)) w = Some (Inr (JArr rs), w')"
    and "i < length docs"
    and "length rs \<le> i \<or> (\<exists>v. jprop ''overallSensitivity'' (rs ! i) = JStr v \<and> v \<notin> range level_name)"
  shows "\<exists>ds. getRelevantDocuments e c baseRetriever opts query w = Some (Inr ds, w')
      \<and> enriched (result_at rs i) (docs ! i) \<in> set ds"
proof -
  have "within_limit (level_name m) (enriched (result_at rs i) (docs ! i))"
  proof (cases "length rs \<le> i")
    case True
    have "sensitivity_index (JStr ''public'') = 0"
      using sensitivity_index_level [of Public] by simp
    with True show ?thesis
      by (simp add: within_limit_def enriched_sensitivity result_at_def sensitivity_index_level)
  next
    case False
    with assms(6) obtain v where "jprop ''overallSensitivity'' (rs ! i) = JStr v"
      and "v \<notin> range level_name" by blast
    moreover from this(2) have "sensitivity_index (JStr v) = -1"
      by (intro sensitivity_index_unknown) auto
    ultimately show ?thesis using False
      by (simp add: within_limit_def enriched_sensitivity result_at_def sensitivity_index_level)
  qed
  moreover have "enriched (result_at rs i) (docs ! i) \<in>
      set (map (\<lambda>(j, d). enriched (result_at rs j) d) (enumerate 0 docs))"
    using assms(5) by (force simp: in_set_enumerate_eq)
  ultimately show ?thesis
    using getRelevantDocuments_filtered [where baseRetriever = baseRetriever and query = query,
        OF assms(1-3) level_name_given assms(4)] by simp
qed

text \<open>
  A governed retrieval that finds nothing is an error: an empty batch is refused by the gate's
  own validation, before any call, and the empty result of the retriever is lost.
\<close>

theorem empty_retrieval_throws:
  assumes "baseRetriever query = Inr []"
    and "ro_classifyDocuments opts \<or> ro_filterSensitive opts"
  shows "getRelevantDocuments e c baseRetriever opts query w =
    Some (Inl (validation_error ''Texts array is required for batch classification'' JUndef), w)"
  using assms
  by (auto simp: getRelevantDocuments_def gate_classifyBatch_def check_texts_def texts_of_def
      bind_io_def lift_sum_def)

section \<open>The properties on examples\<close>

definition ex_docs :: "document list" where
  "ex_docs = [\<lparr>doc_pageContent = ''menu'', doc_metadata = []\<rparr>,
              \<lparr>doc_pageContent = ''payroll'', doc_metadata = []\<rparr>]"

definition ex_label :: "string \<Rightarrow> string \<Rightarrow> js" where
  "ex_label t l = JObj [(''text'', JStr t), (''classifications'', JArr []),
     (''overallSensitivity'', JStr l), (''processingTimeMs'', JNum (Fin 3))]"

definition ex_filter :: retriever_options where
  "ex_filter = \<lparr>ro_classifyDocuments = True, ro_filterSensitive = True,
     ro_maxSensitivity = Some (level_name Confidential)\<rparr>"

lemma ex_batch:
  "\<exists>w'. gate_classifyBatch (ex_gate v) (ex_client 3) (texts_of (map doc_pageContent ex_docs)) ex_world =
    Some (Inr v, w')"
  using ex_post_answer
  by (simp add: gate_classifyBatch_def check_texts_def texts_of_def ex_docs_def bind_io_def lift_sum_def)

theorem retriever_filter_refines_witness:
  "\<exists>ds w'. getRelevantDocuments (ex_gate (JArr [ex_label ''menu'' ''public'', ex_label ''payroll'' ''restricted'']))
      (ex_client 3) (\<lambda>q. Inr ex_docs) ex_filter ''food'' ex_world = Some (Inr ds, w')
     \<and> map doc_pageContent ds = [''menu'']"
proof -
  let ?rs = "[ex_label ''menu'' ''public'', ex_label ''payroll'' ''restricted'']"
  obtain w' where batch: "gate_classifyBatch (ex_gate (JArr ?rs)) (ex_client 3)
      (texts_of (map doc_pageContent ex_docs)) ex_world = Some (Inr (JArr ?rs), w')"
    using ex_batch by blast
  have shape: "conforms (TArr ClassificationResult) (JArr ?rs)" "length ?rs = length ex_docs"
    by (simp_all add: ex_label_def ClassificationResult_def SensitivityLevel_def ex_docs_def)
  have opts: "ro_filterSensitive ex_filter" "ro_maxSensitivity ex_filter = Some (level_name Confidential)"
    by (simp_all add: ex_filter_def)
  obtain ls where ls: "map (jprop ''overallSensitivity'') ?rs = map (\<lambda>l. JStr (level_name l)) ls"
    and out: "getRelevantDocuments (ex_gate (JArr ?rs)) (ex_client 3) (\<lambda>q. Inr ex_docs) ex_filter ''food'' ex_world =
          Some (Inr (map fst (filter (\<lambda>(d, l). l \<le> Confidential) (zip (map2 enriched ?rs ex_docs) ls))), w')"
    using retriever_filter_refines [where baseRetriever = "\<lambda>q. Inr ex_docs" and query = "''food''",
        OF refl opts batch shape] by blast
  have "map (jprop ''overallSensitivity'') ?rs =
      map (\<lambda>l. JStr (level_name l)) [Public, Restricted]" by (simp add: ex_label_def)
  with ls have "map (\<lambda>l. JStr (level_name l)) ls = map (\<lambda>l. JStr (level_name l)) [Public, Restricted]"
    by (simp only:)
  then have "ls = [Public, Restricted]" by (rule map_injective) (simp add: inj_def)
  with out show ?thesis by (simp add: ex_docs_def less_eq_sensitivity_def)
qed

theorem retriever_fails_open_witness:
  "\<exists>ds w'. getRelevantDocuments (ex_gate (JArr [ex_label ''menu'' ''public'', ex_label ''payroll'' ''SECRET'']))
      (ex_client 3) (\<lambda>q. Inr ex_docs) ex_filter ''food'' ex_world = Some (Inr ds, w')
     \<and> ''payroll'' \<in> set (map doc_pageContent ds)"
proof -
  let ?rs = "[ex_label ''menu'' ''public'', ex_label ''payroll'' ''SECRET'']"
  obtain w' where batch: "gate_classifyBatch (ex_gate (JArr ?rs)) (ex_client 3)
      (texts_of (map doc_pageContent ex_docs)) ex_world = Some (Inr (JArr ?rs), w')"
    using ex_batch by blast
  have opts: "ro_filterSensitive ex_filter" "ro_maxSensitivity ex_filter = Some (level_name Confidential)"
    by (simp_all add: ex_filter_def)
  have "level_name l \<noteq> ''SECRET''" for l by (cases l) simp_all
  then have "''SECRET'' \<notin> range level_name" by (metis rangeE)
  then have label: "length ?rs \<le> 1 \<or>
      (\<exists>v. jprop ''overallSensitivity'' (?rs ! 1) = JStr v \<and> v \<notin> range level_name)"
    by (simp add: ex_label_def)
  have "1 < length ex_docs" "doc_pageContent (ex_docs ! 1) = ''payroll''" by (simp_all add: ex_docs_def)
  with retriever_fails_open [where baseRetriever = "\<lambda>q. Inr ex_docs" and query = "''food''",
      OF refl opts batch this(1) label]
  obtain ds where "getRelevantDocuments (ex_gate (JArr ?rs)) (ex_client 3) (\<lambda>q. Inr ex_docs) ex_filter
      ''food'' ex_world = Some (Inr ds, w')"
    and "''payroll'' \<in> doc_pageContent ` set ds"
    by (metis enriched_content image_eqI)
  then show ?thesis by (intro exI [of _ ds] exI [of _ w']) simp
qed

theorem empty_retrieval_throws_witness:
  "getRelevantDocuments (ex_gate JNull) (ex_client 3) (\<lambda>q. Inr []) ex_filter ''food'' ex_world =
     Some (Inl (validation_error ''Texts array is required for batch classification'' JUndef), ex_world)"
proof -
  have "ro_classifyDocuments ex_filter \<or> ro_filterSensitive ex_filter" by (simp add: ex_filter_def)
  from empty_retrieval_throws [where baseRetriever = "\<lambda>q. Inr []" and query = "''food''", OF refl this]
  show ?thesis .
qed

end
