(* ===== verification/FeApi.thy ===== *)
theory FeApi
  imports SdkGate
begin

text \<open>
  The state and the HTTP client of the web front end (\<open>trust-vault-frontend\<close>): the auth store
  (\<open>store/auth.ts\<close>), the cookie jar, the query cache, the notifications and the navigations, and
  the client of \<open>lib/api.ts\<close> with its two interceptors. What is not part of the program is in the
  record \<open>fe_env\<close>: the answer of the server to a request, the string \<open>js-cookie\<close> stores for a
  value, \<open>atob\<close>, \<open>JSON.parse\<close>, and which cached keys a key given to \<open>invalidateQueries\<close> selects.
\<close>

section \<open>Requests\<close>

datatype http_method = GET | POST | PUT | DELETE | PATCH

record api_request =
  a_method :: http_method
  a_url :: string
  a_params :: js
  a_body :: js
  a_headers :: "(string \<times> string) list"

definition new_request :: "http_method \<Rightarrow> string \<Rightarrow> js \<Rightarrow> api_request" where
  "new_request m url body =
     \<lparr>a_method = m, a_url = url, a_params = JUndef, a_body = body, a_headers = []\<rparr>"

text \<open>
  An error of \<open>axios\<close> has a \<open>response\<close> (\<open>undefined\<close> when the network failed) and a message; any
  other error is a value.
\<close>

datatype api_error = AxiosError js string | OtherError js

fun err_response :: "api_error \<Rightarrow> js" where
  "err_response (AxiosError r m) = r"
| "err_response (OtherError v) = jprop ''response'' v"

definition err_status :: "api_error \<Rightarrow> js" where
  "err_status e = jprop ''status'' (err_response e)"

record fe_env =
  fe_server :: "api_request \<Rightarrow> api_error + js"
  cookie_text :: "js \<Rightarrow> string"
  atob :: "string \<Rightarrow> string option"
  fe_json_parse :: "string \<Rightarrow> js option"
  key_filter :: "js list \<Rightarrow> js list \<Rightarrow> bool"

section \<open>State\<close>

record AuthState =
  as_user :: js
  as_token :: js
  as_isLoading :: bool
  as_error :: js
  as_isAuthenticated :: bool

definition initial_auth :: AuthState where
  "initial_auth =
     \<lparr>as_user = JNull, as_token = JNull, as_isLoading = False, as_error = JNull,
      as_isAuthenticated = False\<rparr>"

definition setUser :: "js \<Rightarrow> AuthState \<Rightarrow> AuthState" where
  "setUser user s = s\<lparr>as_user := user\<rparr>"

definition setToken :: "js \<Rightarrow> AuthState \<Rightarrow> AuthState" where
  "setToken token s = s\<lparr>as_token := token\<rparr>"

definition setIsLoading :: "bool \<Rightarrow> AuthState \<Rightarrow> AuthState" where
  "setIsLoading b s = s\<lparr>as_isLoading := b\<rparr>"

definition setError :: "js \<Rightarrow> AuthState \<Rightarrow> AuthState" where
  "setError e s = s\<lparr>as_error := e\<rparr>"

definition store_login :: "js \<Rightarrow> js \<Rightarrow> AuthState \<Rightarrow> AuthState" where
  "store_login token user s =
     s\<lparr>as_token := token, as_user := user, as_isAuthenticated := True, as_error := JNull\<rparr>"

definition store_logout :: "AuthState \<Rightarrow> AuthState" where
  "store_logout s =
     s\<lparr>as_user := JNull, as_token := JNull, as_isAuthenticated := False, as_error := JNull\<rparr>"

definition clearError :: "AuthState \<Rightarrow> AuthState" where
  "clearError s = s\<lparr>as_error := JNull\<rparr>"

datatype toast_kind = Success | Error | Info

text \<open>\<open>router.push\<close>, and a navigation that loads the page anew\<close>

datatype navigation = Push string | Href string

record cache_entry =
  ce_key :: "js list"
  ce_data :: js
  ce_stale :: bool

record fe_state =
  fe_cookies :: "(string \<times> string \<times> nat) list"
  fe_auth :: AuthState
  fe_cache :: "cache_entry list"
  fe_toasts :: "(toast_kind \<times> js) list"
  fe_navs :: "navigation list"
  fe_sent :: "api_request list"

text \<open>A cookie is its value and the days it lives.\<close>

definition get_cookie :: "string \<Rightarrow> fe_state \<Rightarrow> string option" where
  "get_cookie k s = map_option fst (map_of (fe_cookies s) k)"

definition set_cookie :: "fe_env \<Rightarrow> string \<Rightarrow> js \<Rightarrow> nat \<Rightarrow> fe_state \<Rightarrow> fe_state" where
  "set_cookie e k v days s = s\<lparr>fe_cookies := assoc_put k (cookie_text e v, days) (fe_cookies s)\<rparr>"

definition remove_cookie :: "string \<Rightarrow> fe_state \<Rightarrow> fe_state" where
  "remove_cookie k s = s\<lparr>fe_cookies := assoc_del k (fe_cookies s)\<rparr>"

definition on_auth :: "(AuthState \<Rightarrow> AuthState) \<Rightarrow> fe_state \<Rightarrow> fe_state" where
  "on_auth f s = s\<lparr>fe_auth := f (fe_auth s)\<rparr>"

definition navigate :: "navigation \<Rightarrow> fe_state \<Rightarrow> fe_state" where
  "navigate n s = s\<lparr>fe_navs := fe_navs s @ [n]\<rparr>"

definition show_toast :: "toast_kind \<Rightarrow> js \<Rightarrow> fe_state \<Rightarrow> fe_state" where
  "show_toast k m s = s\<lparr>fe_toasts := fe_toasts s @ [(k, m)]\<rparr>"

section \<open>The client\<close>

text \<open>The request interceptor: an empty token is no token.\<close>

definition add_token :: "fe_state \<Rightarrow> api_request \<Rightarrow> api_request" where
  "add_token s rq =
     (case get_cookie ''accessToken'' s of
        Some token \<Rightarrow>
          (if token \<noteq> []
           then rq\<lparr>a_headers := assoc_put ''Authorization'' (''Bearer '' @ token) (a_headers rq)\<rparr>
           else rq)
      | None \<Rightarrow> rq)"

text \<open>The response interceptor.\<close>

definition on_api_error :: "api_error \<Rightarrow> fe_state \<Rightarrow> fe_state" where
  "on_api_error err s =
     (if err_status err = JNum (Fin 401)
      then navigate (Href ''/login'') (remove_cookie ''refreshToken'' (remove_cookie ''accessToken'' s))
      else s)"

definition api_send :: "fe_env \<Rightarrow> api_request \<Rightarrow> fe_state \<Rightarrow> (api_error + js) \<times> fe_state" where
  "api_send e rq s =
     (let rq' = add_token s rq;
          s' = s\<lparr>fe_sent := fe_sent s @ [rq']\<rparr>
      in case fe_server e rq' of
           Inl err \<Rightarrow> (Inl err, on_api_error err s')
         | Inr d \<Rightarrow> (Inr d, s'))"

text \<open>
  \<open>handleApiError\<close> and \<open>apiCall\<close>. The second argument of \<open>api[method]\<close> is the request's
  configuration for \<open>get\<close> and \<open>delete\<close>, and its body for the other methods.
\<close>

fun handleApiError :: "api_error \<Rightarrow> js" where
  "handleApiError (AxiosError response message) =
     JObj [(''message'', js_or (jprop ''message'' (jprop ''data'' response)) (JStr message)),
           (''code'', jprop ''code'' (jprop ''data'' response)),
           (''status'', jprop ''status'' response)]"
| "handleApiError (OtherError v) = JObj [(''message'', JStr ''An unknown error occurred'')]"

definition call_request :: "http_method \<Rightarrow> string \<Rightarrow> js \<Rightarrow> api_request" where
  "call_request m url data =
     (if m = GET \<or> m = DELETE
      then (new_request m url (jprop ''data'' data))\<lparr>a_params := jprop ''params'' data\<rparr>
      else new_request m url data)"

definition apiCall ::
  "fe_env \<Rightarrow> http_method \<Rightarrow> string \<Rightarrow> js \<Rightarrow> fe_state \<Rightarrow> (js + js) \<times> fe_state" where
  "apiCall e m url data s =
     (case api_send e (call_request m url data) s of
        (Inl err, s') \<Rightarrow> (Inl (handleApiError err), s')
      | (Inr d, s') \<Rightarrow> (Inr d, s'))"

section \<open>Lemmas\<close>

lemma get_cookie_set [simp]:
  "get_cookie k (set_cookie e k' v d s) = (if k = k' then Some (cookie_text e v) else get_cookie k s)"
  by (simp add: get_cookie_def set_cookie_def dict.get_put)

lemma get_cookie_remove [simp]:
  "get_cookie k (remove_cookie k' s) = (if k = k' then None else get_cookie k s)"
  by (simp add: get_cookie_def remove_cookie_def dict.get_del)

lemma get_cookie_frame [simp]:
  "get_cookie k (on_auth f s) = get_cookie k s" "get_cookie k (navigate n s) = get_cookie k s"
  "get_cookie k (show_toast t m s) = get_cookie k s"
  "get_cookie k (s\<lparr>fe_sent := rs\<rparr>) = get_cookie k s" "get_cookie k (s\<lparr>fe_cache := c\<rparr>) = get_cookie k s"
  by (simp_all add: get_cookie_def on_auth_def navigate_def show_toast_def)

lemma auth_frame [simp]:
  "fe_auth (set_cookie e k v d s) = fe_auth s" "fe_auth (remove_cookie k s) = fe_auth s"
  "fe_auth (navigate n s) = fe_auth s" "fe_auth (show_toast t m s) = fe_auth s"
  "fe_auth (on_auth f s) = f (fe_auth s)"
  by (simp_all add: set_cookie_def remove_cookie_def navigate_def show_toast_def on_auth_def)

lemma cache_frame [simp]:
  "fe_cache (set_cookie e k v d s) = fe_cache s" "fe_cache (remove_cookie k s) = fe_cache s"
  "fe_cache (navigate n s) = fe_cache s" "fe_cache (show_toast t m s) = fe_cache s"
  "fe_cache (on_auth f s) = fe_cache s"
  by (simp_all add: set_cookie_def remove_cookie_def navigate_def show_toast_def on_auth_def)

lemma navs_frame [simp]:
  "fe_navs (set_cookie e k v d s) = fe_navs s" "fe_navs (remove_cookie k s) = fe_navs s"
  "fe_navs (show_toast t m s) = fe_navs s" "fe_navs (on_auth f s) = fe_navs s"
  "fe_navs (navigate n s) = fe_navs s @ [n]"
  by (simp_all add: set_cookie_def remove_cookie_def navigate_def show_toast_def on_auth_def)

lemma sent_frame [simp]:
  "fe_sent (set_cookie e k v d s) = fe_sent s" "fe_sent (remove_cookie k s) = fe_sent s"
  "fe_sent (navigate n s) = fe_sent s" "fe_sent (show_toast t m s) = fe_sent s"
  "fe_sent (on_auth f s) = fe_sent s"
  by (simp_all add: set_cookie_def remove_cookie_def navigate_def show_toast_def on_auth_def)

lemma toasts_frame [simp]:
  "fe_toasts (set_cookie e k v d s) = fe_toasts s" "fe_toasts (remove_cookie k s) = fe_toasts s"
  "fe_toasts (navigate n s) = fe_toasts s" "fe_toasts (on_auth f s) = fe_toasts s"
  "fe_toasts (show_toast t m s) = fe_toasts s @ [(t, m)]"
  by (simp_all add: set_cookie_def remove_cookie_def navigate_def show_toast_def on_auth_def)

lemma api_send_cases:
  assumes "api_send e rq s = (r, s')"
  obtains (failed) err where "r = Inl err" "fe_server e (add_token s rq) = Inl err"
      "s' = on_api_error err (s\<lparr>fe_sent := fe_sent s @ [add_token s rq]\<rparr>)"
    | (answered) d where "r = Inr d" "fe_server e (add_token s rq) = Inr d"
      "s' = s\<lparr>fe_sent := fe_sent s @ [add_token s rq]\<rparr>"
proof (cases "fe_server e (add_token s rq)")
  case (Inl err)
  show ?thesis by (rule failed [of err]) (use assms Inl in \<open>simp_all add: api_send_def\<close>)
next
  case (Inr d)
  show ?thesis by (rule answered [of d]) (use assms Inr in \<open>simp_all add: api_send_def\<close>)
qed

lemma add_token_fields [simp]:
  "a_method (add_token s rq) = a_method rq" "a_url (add_token s rq) = a_url rq"
  "a_body (add_token s rq) = a_body rq" "a_params (add_token s rq) = a_params rq"
  by (simp_all add: add_token_def split: option.splits)

section \<open>Properties\<close>

text \<open>
  Every call of the API sends exactly one request, with the token of the cookie jar as its
  bearer token and without one when there is none; an answer 401 and nothing else logs the browser
  out: both cookies are gone and the page is loaded anew at \<open>/login\<close>.
\<close>

theorem api_send_session:
  "(case api_send e rq s of (r, s') \<Rightarrow>
      \<exists>sent. fe_sent s' = fe_sent s @ [sent] \<and> a_url sent = a_url rq
        \<and> map_of (a_headers sent) ''Authorization'' =
            (case get_cookie ''accessToken'' s of
               Some t \<Rightarrow> if t \<noteq> [] then Some (''Bearer '' @ t) else map_of (a_headers rq) ''Authorization''
             | None \<Rightarrow> map_of (a_headers rq) ''Authorization'')
        \<and> (if \<exists>err. r = Inl err \<and> err_status err = JNum (Fin 401)
           then get_cookie ''accessToken'' s' = None \<and> get_cookie ''refreshToken'' s' = None
             \<and> fe_navs s' = fe_navs s @ [Href ''/login'']
           else fe_cookies s' = fe_cookies s \<and> fe_navs s' = fe_navs s)
        \<and> fe_auth s' = fe_auth s \<and> fe_cache s' = fe_cache s)"
  by (auto simp: api_send_def Let_def add_token_def on_api_error_def dict.get_put_same
      split: sum.splits option.splits)

end
