(* ===== verification/FeSession.thy ===== *)
theory FeSession
  imports FeApi
begin

text \<open>
  How a browser session begins and ends: the login form (\<open>app/(auth)/login/page.tsx\<close>), the return
  from single sign-on (\<open>app/(auth)/auth/sso-callback/page.tsx\<close>), the restoration from a cookie and
  the guard of the application's pages (\<open>app/(app)/layout.tsx\<close>), the redirect of the home page
  (\<open>app/page.tsx\<close>). An effect of a component is a function of the state; one that throws, which
  unmounts the component, is \<open>None\<close>.
\<close>

section \<open>Tokens\<close>

text \<open>\<open>JSON.parse(atob(part))\<close>: \<open>None\<close> when either throws\<close>

definition parse_payload :: "fe_env \<Rightarrow> string \<Rightarrow> js option" where
  "parse_payload e part = (case atob e part of None \<Rightarrow> None | Some t \<Rightarrow> fe_json_parse e t)"

text \<open>\<open>null\<close> is the result for a token that cannot be read.\<close>

definition decodeJWT :: "fe_env \<Rightarrow> string \<Rightarrow> js" where
  "decodeJWT e token =
     (let parts = split_on (CHR ''.'') token
      in if length parts \<noteq> 3 then JNull
         else (case parse_payload e (parts ! 1) of None \<Rightarrow> JNull | Some payload \<Rightarrow> payload))"

definition new_user :: "js \<Rightarrow> js \<Rightarrow> js \<Rightarrow> js \<Rightarrow> js \<Rightarrow> js" where
  "new_user uid email name role tenantId =
     JObj [(''id'', uid), (''email'', email), (''name'', name), (''role'', role),
           (''tenantId'', tenantId)]"

text \<open>\<open>v.split('@')[0]\<close>: only a string has \<open>split\<close>\<close>

fun local_part :: "js \<Rightarrow> js option" where
  "local_part (JStr s) = Some (JStr (hd (split_on (CHR ''@'') s)))"
| "local_part _ = None"

section \<open>The login form\<close>

definition login_request :: "js \<Rightarrow> js \<Rightarrow> api_request" where
  "login_request email password =
     new_request POST ''/auth/login'' (JObj [(''email'', email), (''password'', password)])"

definition login_succeeded :: "fe_env \<Rightarrow> string \<Rightarrow> js \<Rightarrow> fe_state \<Rightarrow> fe_state" where
  "login_succeeded e email d s =
     (let access = jprop ''access_token'' d;
          refresh = jprop ''refresh_token'' d;
          s1 = set_cookie e ''accessToken'' access 7 s;
          s2 = (if truthy refresh then set_cookie e ''refreshToken'' refresh 30 s1 else s1);
          s3 = on_auth (store_login access
                 (new_user (JStr []) (JStr email) (JStr (hd (split_on (CHR ''@'') email)))
                    (JStr ''admin'') (JStr []))) s2
      in navigate (Push ''/dashboard'') (show_toast Success (JStr ''Logged in successfully'') s3))"

text \<open>
  \<open>onSubmit\<close>, and the flag \<open>isLoading\<close> of the form, which its \<open>finally\<close> resets. An answer without
  an object makes the destructuring throw inside the \<open>try\<close>.
\<close>

definition login_failed :: "js \<Rightarrow> fe_state \<Rightarrow> fe_state" where
  "login_failed response =
     show_toast Error (js_or (jprop ''error'' (jprop ''data'' response)) (JStr ''Invalid email or password''))"

definition login_submit :: "fe_env \<Rightarrow> string \<Rightarrow> string \<Rightarrow> fe_state \<Rightarrow> bool \<times> fe_state" where
  "login_submit e email password s =
     (False,
      case api_send e (login_request (JStr email) (JStr password)) s of
        (Inl err, s') \<Rightarrow> login_failed (err_response err) s'
      | (Inr d, s') \<Rightarrow> (if nullish d then login_failed JUndef s' else login_succeeded e email d s'))"

section \<open>Return from single sign-on\<close>

definition sso_user :: "js \<Rightarrow> js option" where
  "sso_user payload =
     (let email = jprop ''email'' payload;
          name = jprop ''name'' payload
      in case (if truthy name then Some name
               else if nullish email then Some (JStr [])
               else (case local_part email of None \<Rightarrow> None | Some p \<Rightarrow> Some (js_or p (JStr [])))) of
           None \<Rightarrow> None
         | Some shown \<Rightarrow>
             Some (new_user (js_or (jprop ''sub'' payload) (JStr [])) (js_or email (JStr [])) shown
                     (JStr ''user'') (js_or (jprop ''tenant_id'' payload) (JStr []))))"

text \<open>\<open>token.split('.')[1]\<close>: \<open>atob(undefined)\<close> throws, as does a property read on \<open>null\<close>.\<close>

definition sso_login :: "fe_env \<Rightarrow> string \<Rightarrow> js option" where
  "sso_login e token =
     (case split_on (CHR ''.'') token of
        _ # part # _ \<Rightarrow>
          (case parse_payload e part of
             Some payload \<Rightarrow> (if nullish payload then None else sso_user payload)
           | None \<Rightarrow> None)
      | _ \<Rightarrow> None)"

definition sso_callback :: "fe_env \<Rightarrow> string option \<Rightarrow> string option \<Rightarrow> fe_state \<Rightarrow> fe_state" where
  "sso_callback e token err s =
     (if err \<noteq> None \<and> err \<noteq> Some [] then
        navigate (Push ''/login'') (show_toast Error (js_of_opt JStr err) s)
      else (case token of
              None \<Rightarrow> navigate (Push ''/login'') s
            | Some t \<Rightarrow>
                if t = [] then navigate (Push ''/login'') s
                else (let s1 = set_cookie e ''accessToken'' (JStr t) 7 s
                      in case sso_login e t of
                           Some user \<Rightarrow>
                             navigate (Push ''/dashboard'')
                               (show_toast Success (JStr ''Logged in successfully via SSO'')
                                  (on_auth (store_login (JStr t) user) s1))
                         | None \<Rightarrow>
                             navigate (Push ''/login'')
                               (show_toast Error (JStr ''Invalid token received'') s1))))"

section \<open>The application's layout\<close>

definition restored_user :: "js \<Rightarrow> js option" where
  "restored_user payload =
     (let userEmail = js_or (jprop ''sub'' payload) (JStr ''user'');
          isSuperAdmin = truthy (js_or (jprop ''is_super_admin'' payload) (JBool False))
      in case (if isSuperAdmin then Some (JStr ''Super Admin'') else local_part userEmail) of
           None \<Rightarrow> None
         | Some shown \<Rightarrow>
             Some (new_user (js_or (jprop ''sub'' payload) (JStr [])) userEmail shown
                     (JStr (if isSuperAdmin then ''superadmin'' else ''admin''))
                     (js_or (jprop ''tenant_id'' payload) (JStr []))))"

text \<open>The effect run when the layout is mounted.\<close>

definition restore_session :: "fe_env \<Rightarrow> fe_state \<Rightarrow> fe_state option" where
  "restore_session e s =
     (case get_cookie ''accessToken'' s of
        Some token \<Rightarrow>
          (if token \<noteq> [] \<and> \<not> as_isAuthenticated (fe_auth s)
           then (case restored_user (decodeJWT e token) of
                   None \<Rightarrow> None
                 | Some user \<Rightarrow> Some (on_auth (store_login (JStr token) user) s))
           else Some s)
      | None \<Rightarrow> Some s)"

definition has_token :: "fe_state \<Rightarrow> bool" where
  "has_token s \<longleftrightarrow> (case get_cookie ''accessToken'' s of Some t \<Rightarrow> t \<noteq> [] | None \<Rightarrow> False)"

text \<open>The effect run after it, once the check is complete.\<close>

definition guard_redirect :: "fe_state \<Rightarrow> fe_state" where
  "guard_redirect s =
     (if \<not> as_isAuthenticated (fe_auth s) \<and> \<not> has_token s
      then navigate (Push ''/login'') s else s)"

definition mount_layout :: "fe_env \<Rightarrow> fe_state \<Rightarrow> fe_state option" where
  "mount_layout e s = map_option guard_redirect (restore_session e s)"

text \<open>The home page.\<close>

definition home_redirect :: "fe_state \<Rightarrow> fe_state" where
  "home_redirect s =
     navigate (Push (if as_isAuthenticated (fe_auth s) then ''/dashboard'' else ''/login'')) s"

section \<open>Lemmas\<close>

lemma on_auth_frame [simp]:
  "fe_navs (on_auth f s) = fe_navs s" "has_token (on_auth f s) = has_token s"
  "has_token (navigate n s) = has_token s"
  by (simp_all add: has_token_def)

lemma store_login_fields [simp]:
  "as_isAuthenticated (store_login t u a)" "as_token (store_login t u a) = t"
  "as_user (store_login t u a) = u" "as_error (store_login t u a) = JNull"
  by (simp_all add: store_login_def)

lemma restored_user_unreadable:
  "restored_user JNull = Some (new_user (JStr []) (JStr ''user'') (JStr ''user'') (JStr ''admin'') (JStr []))"
  by (simp add: restored_user_def js_or_def Let_def)

section \<open>Properties\<close>

text \<open>
  The pages of the application are open exactly to a browser with a non-empty token cookie or
  an authenticated store: otherwise, and only then, mounting the layout sends it to \<open>/login\<close>; and
  a browser with a token is authenticated afterwards.
\<close>

theorem layout_guard:
  assumes "mount_layout e s = Some s'"
  shows "(fe_navs s' = fe_navs s @ [Push ''/login''] \<longleftrightarrow>
            \<not> has_token s \<and> \<not> as_isAuthenticated (fe_auth s))
       \<and> (has_token s \<longrightarrow> as_isAuthenticated (fe_auth s') \<and> fe_navs s' = fe_navs s)"
proof (cases "has_token s \<and> \<not> as_isAuthenticated (fe_auth s)")
  case True
  then obtain t where "get_cookie ''accessToken'' s = Some t" "t \<noteq> []"
    by (auto simp: has_token_def split: option.splits)
  with True assms show ?thesis
    by (auto simp: mount_layout_def restore_session_def guard_redirect_def split: option.splits)
next
  case False
  then have "restore_session e s = Some s"
    by (auto simp: restore_session_def has_token_def split: option.splits)
  with False assms show ?thesis by (auto simp: mount_layout_def guard_redirect_def navigate_def)
qed

text \<open>
  A token that cannot be read is as good as any: with a cookie that is not a token at all the
  layout authenticates the browser, as a user without an id in the role of an administrator.
\<close>

theorem unreadable_token_is_admin:
  assumes "get_cookie ''accessToken'' s = Some t" and "t \<noteq> []" and "decodeJWT e t = JNull"
    and "\<not> as_isAuthenticated (fe_auth s)"
  shows "\<exists>s'. mount_layout e s = Some s' \<and> as_isAuthenticated (fe_auth s')
      \<and> jprop ''id'' (as_user (fe_auth s')) = JStr [] \<and> jprop ''role'' (as_user (fe_auth s')) = JStr ''admin''
      \<and> fe_navs s' = fe_navs s"
  using assms
  by (simp add: mount_layout_def restore_session_def restored_user_unreadable guard_redirect_def
      new_user_def)

text \<open>
  A failed single sign-on leaves a session behind: the callback stores the token before it reads
  it, reports an invalid one and goes to the login page, but the cookie stays, and the next page of
  the application is mounted authenticated.
\<close>

theorem failed_sso_leaves_session:
  assumes "sso_login e t = None" and "t \<noteq> []" and "\<And>u. cookie_text e (JStr u) = u"
    and "decodeJWT e t = JNull" and "\<not> as_isAuthenticated (fe_auth s)"
  shows "fe_navs (sso_callback e (Some t) None s) = fe_navs s @ [Push ''/login'']
      \<and> \<not> as_isAuthenticated (fe_auth (sso_callback e (Some t) None s))
      \<and> (\<exists>s'. mount_layout e (sso_callback e (Some t) None s) = Some s'
            \<and> as_isAuthenticated (fe_auth s')
            \<and> fe_navs s' = fe_navs s @ [Push ''/login''])"
  using assms
  by (simp add: sso_callback_def Let_def mount_layout_def restore_session_def
      restored_user_unreadable guard_redirect_def)

text \<open>
  The role in the store is the front end's own: after the login form it is \<open>admin\<close> for whatever
  the server answered, after single sign-on \<open>user\<close>, and after a reload \<open>admin\<close> or \<open>superadmin\<close>, so
  a user who came by single sign-on is an administrator of the store from the next load on.
\<close>

theorem role_depends_on_entry:
  "(\<not> nullish d \<and> fe_server e (add_token s (login_request (JStr m) (JStr p))) = Inr d \<longrightarrow>
      jprop ''role'' (as_user (fe_auth (snd (login_submit e m p s)))) = JStr ''admin'')
   \<and> (\<forall>t u. sso_login e t = Some u \<longrightarrow> jprop ''role'' u = JStr ''user'')
   \<and> (\<forall>v u. restored_user v = Some u \<longrightarrow> jprop ''role'' u \<in> {JStr ''admin'', JStr ''superadmin''})"
  by (auto simp: login_submit_def api_send_def Let_def login_succeeded_def new_user_def sso_login_def
      sso_user_def restored_user_def split: list.splits option.splits if_splits)

section \<open>The properties on examples\<close>

text \<open>A server that answers everything, and a platform that decodes no token.\<close>

definition ex_fe_env :: "js \<Rightarrow> fe_env" where
  "ex_fe_env d =
     \<lparr>fe_server = (\<lambda>rq. Inr d), cookie_text = (\<lambda>v. case v of JStr t \<Rightarrow> t | _ \<Rightarrow> ''undefined''),
      atob = (\<lambda>t. None), fe_json_parse = (\<lambda>t. None),
      key_filter = (\<lambda>k k'. take (length k) k' = k)\<rparr>"

definition ex_browser :: "(string \<times> string \<times> nat) list \<Rightarrow> fe_state" where
  "ex_browser cs =
     \<lparr>fe_cookies = cs, fe_auth = initial_auth, fe_cache = [], fe_toasts = [], fe_navs = [],
      fe_sent = []\<rparr>"

lemma ex_decode: "decodeJWT (ex_fe_env d) t = JNull"
  by (simp add: decodeJWT_def parse_payload_def ex_fe_env_def Let_def)

lemma ex_not_authenticated [simp]: "\<not> as_isAuthenticated (fe_auth (ex_browser cs))"
  by (simp add: ex_browser_def initial_auth_def)

theorem layout_guard_witness:
  "\<exists>s'. mount_layout (ex_fe_env JNull) (ex_browser []) = Some s' \<and> fe_navs s' = [Push ''/login'']"
proof -
  have "mount_layout (ex_fe_env JNull) (ex_browser []) = Some (guard_redirect (ex_browser []))"
    by (simp add: mount_layout_def restore_session_def get_cookie_def ex_browser_def)
  moreover have "\<not> has_token (ex_browser [])" "fe_navs (ex_browser []) = []"
    by (simp_all add: has_token_def get_cookie_def ex_browser_def)
  ultimately show ?thesis using layout_guard [of "ex_fe_env JNull" "ex_browser []"] by auto
qed

theorem unreadable_token_is_admin_witness:
  "\<exists>s'. mount_layout (ex_fe_env JNull) (ex_browser [(''accessToken'', ''x'', 7)]) = Some s'
     \<and> as_isAuthenticated (fe_auth s') \<and> jprop ''role'' (as_user (fe_auth s')) = JStr ''admin''"
proof -
  have "get_cookie ''accessToken'' (ex_browser [(''accessToken'', ''x'', 7)]) = Some ''x''"
    by (simp add: get_cookie_def ex_browser_def)
  from unreadable_token_is_admin [OF this _ ex_decode ex_not_authenticated] show ?thesis by auto
qed

theorem failed_sso_leaves_session_witness:
  "\<exists>s'. mount_layout (ex_fe_env JNull) (sso_callback (ex_fe_env JNull) (Some ''x'') None (ex_browser [])) =
      Some s' \<and> as_isAuthenticated (fe_auth s')"
proof -
  have "sso_login (ex_fe_env JNull) ''x'' = None" "''x'' \<noteq> []"
    and "cookie_text (ex_fe_env JNull) (JStr u) = u" for u
    by (simp_all add: sso_login_def ex_fe_env_def)
  from failed_sso_leaves_session [OF this ex_decode ex_not_authenticated] show ?thesis by blast
qed

theorem role_depends_on_entry_witness:
  "jprop ''role'' (as_user (fe_auth (snd (login_submit
      (ex_fe_env (JObj [(''access_token'', JStr ''t''), (''role'', JStr ''viewer'')])) ''a@b.c'' ''secret''
      (ex_browser []))))) = JStr ''admin''"
  by (rule role_depends_on_entry [THEN conjunct1, rule_format,
        of "JObj [(''access_token'', JStr ''t''), (''role'', JStr ''viewer'')]"])
    (simp add: ex_fe_env_def)

end
