(* ===== verification/JsLib.thy ===== *)
theory JsLib
  imports JsPrelude "HOL-Library.Multiset"
begin

text \<open>
  The part of the JavaScript library that the pages of the front end use, beyond theory
  \<open>JsPrelude\<close>.

  \<^item> Text: letter case, \<open>trim\<close>, replacement of characters.
  \<^item> Numbers: \<open>Math.floor\<close>, \<open>Math.round\<close>, \<open>toFixed\<close> on finite values.
  \<^item> \<open>Array.prototype.sort\<close>. The standard fixes the result for a consistent comparison: the sorted
    order in which equal elements keep their places. The locale \<open>comparison\<close> states consistency on
    a set of elements and proves that \<open>js_sort\<close> is that result and that there is no other.
  \<^item> \<open><\<close> on dynamic values; what the conversions to primitive values, numbers and strings give for
    values the program does not compare is left to the record \<open>conversions\<close>.
\<close>

named_theorems lib_simps \<open>evaluation of library functions\<close>

section \<open>Text\<close>

text \<open>
  Letters of Latin-1. The capitals of the micro sign and of y with diaeresis are not among the
  modelled characters, so these two stay.
\<close>

definition lower_char :: "char \<Rightarrow> char" where
  "lower_char c =
     (let n = of_char c :: nat
      in if (65 \<le> n \<and> n \<le> 90) \<or> (192 \<le> n \<and> n \<le> 222 \<and> n \<noteq> 215) then char_of (n + 32) else c)"

definition upper_char :: "char \<Rightarrow> string" where
  "upper_char c =
     (let n = of_char c :: nat
      in if (97 \<le> n \<and> n \<le> 122) \<or> (224 \<le> n \<and> n \<le> 254 \<and> n \<noteq> 247) then [char_of (n - 32)]
         else if n = 223 then ''SS'' else [c])"

definition to_lower :: "string \<Rightarrow> string" where
  "to_lower s = map lower_char s"

definition to_upper :: "string \<Rightarrow> string" where
  "to_upper s = concat (map upper_char s)"

definition is_space :: "char \<Rightarrow> bool" where
  "is_space c \<longleftrightarrow> (let n = of_char c :: nat in (9 \<le> n \<and> n \<le> 13) \<or> n = 32 \<or> n = 160)"

definition trim :: "string \<Rightarrow> string" where
  "trim s = rev (dropWhile is_space (rev (dropWhile is_space s)))"

text \<open>\<open>s.replace(/a/g, b)\<close> and \<open>s.replace(a, b)\<close>, for single characters\<close>

definition replace_all :: "char \<Rightarrow> char \<Rightarrow> string \<Rightarrow> string" where
  "replace_all a b s = map (\<lambda>c. if c = a then b else c) s"

fun replace_first :: "char \<Rightarrow> char \<Rightarrow> string \<Rightarrow> string" where
  "replace_first a b [] = []"
| "replace_first a b (c # s) = (if c = a then b # s else c # replace_first a b s)"

text \<open>\<open>s.charAt(0).toUpperCase() + s.slice(1)\<close>\<close>

fun capitalize :: "string \<Rightarrow> string" where
  "capitalize [] = []"
| "capitalize (c # s) = upper_char c @ s"

definition ends_with :: "string \<Rightarrow> string \<Rightarrow> bool" where
  "ends_with s p \<longleftrightarrow> (length p \<le> length s \<and> drop (length s - length p) s = p)"

lemma dropWhile_idem [simp]: "dropWhile P (dropWhile P xs) = dropWhile P xs"
  by (induction xs) auto

lemma trim_ends:
  assumes "trim s \<noteq> []"
  shows "\<not> is_space (hd (trim s))" and "\<not> is_space (last (trim s))"
proof -
  let ?t = "dropWhile is_space s"
  obtain u where u: "?t = trim s @ u"
    using takeWhile_dropWhile_id [of is_space "rev ?t"] unfolding trim_def
    by (metis rev_append rev_rev_ident)
  with assms have "hd (trim s) = hd ?t" "?t \<noteq> []" by auto
  then show "\<not> is_space (hd (trim s))" by (simp add: hd_dropWhile)
  show "\<not> is_space (last (trim s))"
    using assms hd_dropWhile [of is_space "rev ?t"] by (simp add: trim_def last_rev)
qed

lemma dropWhile_fixed: "xs = [] \<or> \<not> P (hd xs) \<Longrightarrow> dropWhile P xs = xs"
  by (cases xs) auto

lemma trim_Nil [simp]: "trim [] = []"
  by (simp add: trim_def)

lemma trim_fixed: "\<not> is_space (hd s) \<Longrightarrow> \<not> is_space (last s) \<Longrightarrow> trim s = s"
  unfolding trim_def by (simp add: dropWhile_fixed hd_rev)

lemma trim_idem [simp]: "trim (trim s) = trim s"
proof (cases "trim s = []")
  case True
  then show ?thesis by simp
qed (simp add: trim_ends trim_fixed)

section \<open>Numbers\<close>

definition math_floor :: "rat \<Rightarrow> int" where
  "math_floor x = \<lfloor>x\<rfloor>"

definition math_round :: "rat \<Rightarrow> int" where
  "math_round x = \<lfloor>x + 1 / 2\<rfloor>"

text \<open>
  \<open>x.toFixed(d)\<close> below \<open>10 ^ 21\<close>: the digits of the nearest multiple of \<open>10 ^ - d\<close>, the larger
  one when there are two.
\<close>

fun pad_left :: "nat \<Rightarrow> string \<Rightarrow> string" where
  "pad_left n s = replicate (n - length s) (CHR ''0'') @ s"

definition to_fixed :: "nat \<Rightarrow> rat \<Rightarrow> string" where
  "to_fixed d x =
     (let n = nat \<lfloor>\<bar>x\<bar> * 10 ^ d + 1 / 2\<rfloor>;
          sign = (if x < 0 then ''-'' else '''')
      in if d = 0 then sign @ nat_str n
         else (let t = pad_left (d + 1) (nat_str n)
               in sign @ take (length t - d) t @ ''.'' @ drop (length t - d) t))"

lemma math_round_bounds: "of_int (math_round x) - 1 / 2 \<le> x" "x < of_int (math_round x) + 1 / 2"
  unfolding math_round_def by linarith+

lemma math_round_mono: "x \<le> y \<Longrightarrow> math_round x \<le> math_round y"
  unfolding math_round_def by (simp add: floor_mono)

text \<open>
  \<open>parseInt(s)\<close>: spaces and a sign are skipped, \<open>0x\<close> changes the radix, and what follows the
  digits is ignored.
\<close>

definition digit_val :: "char \<Rightarrow> nat option" where
  "digit_val c =
     (let n = of_char c :: nat
      in if 48 \<le> n \<and> n \<le> 57 then Some (n - 48)
         else if 97 \<le> n \<and> n \<le> 102 then Some (n - 87)
         else if 65 \<le> n \<and> n \<le> 70 then Some (n - 55)
         else None)"

definition is_digit :: "nat \<Rightarrow> char \<Rightarrow> bool" where
  "is_digit radix c \<longleftrightarrow> (case digit_val c of Some d \<Rightarrow> d < radix | None \<Rightarrow> False)"

definition digits_value :: "nat \<Rightarrow> string \<Rightarrow> nat" where
  "digits_value radix ds = foldl (\<lambda>n c. n * radix + (case digit_val c of Some d \<Rightarrow> d | None \<Rightarrow> 0)) 0 ds"

definition parse_digits :: "nat \<Rightarrow> bool \<Rightarrow> string \<Rightarrow> jsnum" where
  "parse_digits radix negative s =
     (let ds = takeWhile (is_digit radix) s
      in if ds = [] then NaN
         else Fin ((if negative then - 1 else 1) * of_nat (digits_value radix ds)))"

fun parse_signless :: "bool \<Rightarrow> string \<Rightarrow> jsnum" where
  "parse_signless negative (a # b # s) =
     (if a = CHR ''0'' \<and> (b = CHR ''x'' \<or> b = CHR ''X'') then parse_digits 16 negative s
      else parse_digits 10 negative (a # b # s))"
| "parse_signless negative s = parse_digits 10 negative s"

definition parse_int :: "string \<Rightarrow> jsnum" where
  "parse_int s =
     (case dropWhile is_space s of
        [] \<Rightarrow> NaN
      | c # t \<Rightarrow> (if c = CHR ''-'' then parse_signless True t
                  else if c = CHR ''+'' then parse_signless False t
                  else parse_signless False (c # t)))"

lemma digit_char_digit [simp]:
  "n < 10 \<Longrightarrow> is_digit 10 (digit_char n)" "n < 10 \<Longrightarrow> digit_val (digit_char n) = Some n"
proof -
  have "\<forall>n\<in>{..<10}. is_digit 10 (digit_char n) \<and> digit_val (digit_char n) = Some n" by code_simp
  then show "n < 10 \<Longrightarrow> is_digit 10 (digit_char n)" "n < 10 \<Longrightarrow> digit_val (digit_char n) = Some n" by auto
qed

lemma nat_str_digits: "list_all (is_digit 10) (nat_str n) \<and> digits_value 10 (nat_str n) = n \<and> nat_str n \<noteq> []"
proof (induction n rule: nat_str.induct)
  case (1 n)
  show ?case
  proof (cases "n < 10")
    case True
    then show ?thesis by (simp add: nat_str.simps digits_value_def)
  next
    case False
    with 1 show ?thesis by (simp add: nat_str.simps [of n] digits_value_def)
  qed
qed

lemma takeWhile_digits: "list_all (is_digit 10) s \<Longrightarrow> takeWhile (is_digit 10) s = s"
  by (simp add: takeWhile_eq_all_conv list_all_iff)

text \<open>A number written in digits is read back.\<close>

lemma parse_int_nat_str: "parse_int (nat_str n) = num_of_nat n"
proof -
  have no: "\<not> is_space c" "c \<noteq> CHR ''-''" "c \<noteq> CHR ''+''" "c \<noteq> CHR ''x''" "c \<noteq> CHR ''X''"
    if "is_digit 10 c" for c
    using that by (auto simp: is_space_def is_digit_def digit_val_def Let_def split: if_splits)
  obtain c t where ct: "nat_str n = c # t" using nat_str_digits [of n] by (cases "nat_str n") auto
  have dig: "list_all (is_digit 10) (c # t)" "digits_value 10 (c # t) = n"
    using nat_str_digits [of n] by (simp_all add: ct)
  have "parse_signless False (c # t) = parse_digits 10 False (c # t)"
    using dig(1) no by (cases t) auto
  also have "\<dots> = num_of_nat n"
    using takeWhile_digits [OF dig(1)] dig(2) unfolding parse_digits_def by simp
  finally show ?thesis using dig(1) no [of c] by (simp add: ct parse_int_def)
qed

section \<open>Sorting\<close>

fun sort_insert :: "('a \<Rightarrow> 'a \<Rightarrow> int) \<Rightarrow> 'a \<Rightarrow> 'a list \<Rightarrow> 'a list" where
  "sort_insert cmp x [] = [x]"
| "sort_insert cmp x (y # ys) = (if cmp x y > 0 then y # sort_insert cmp x ys else x # y # ys)"

fun js_sort :: "('a \<Rightarrow> 'a \<Rightarrow> int) \<Rightarrow> 'a list \<Rightarrow> 'a list" where
  "js_sort cmp [] = []"
| "js_sort cmp (x # xs) = sort_insert cmp x (js_sort cmp xs)"

lemma mset_sort_insert: "mset (sort_insert cmp x xs) = add_mset x (mset xs)"
  by (induction xs) auto

lemma mset_js_sort [simp]: "mset (js_sort cmp xs) = mset xs"
  by (induction xs) (simp_all add: mset_sort_insert)

lemma set_js_sort [simp]: "set (js_sort cmp xs) = set xs"
  by (metis mset_js_sort set_mset_mset)

lemma length_js_sort [simp]: "length (js_sort cmp xs) = length xs"
  by (metis mset_js_sort size_mset)

lemma js_sort_constant: "(\<And>x y. cmp x y \<le> 0) \<Longrightarrow> js_sort cmp xs = xs"
proof (induction xs)
  case (Cons x xs)
  then show ?case by (cases xs) (simp_all add: linorder_not_less [THEN iffD2, OF Cons.prems])
qed simp

lemma js_sort_cong:
  "(\<And>x y. x \<in> set xs \<Longrightarrow> y \<in> set xs \<Longrightarrow> cmp x y = cmp' x y) \<Longrightarrow> js_sort cmp xs = js_sort cmp' xs"
proof (induction xs)
  case (Cons x xs)
  have "sort_insert cmp x ys = sort_insert cmp' x ys" if "set ys \<subseteq> set xs" for ys
    using that Cons.prems by (induction ys) auto
  with Cons show ?case by simp
qed simp

text \<open>A comparison that is consistent on the elements \<open>A\<close>: the sign of a total preorder.\<close>

locale comparison =
  fixes cmp :: "'a \<Rightarrow> 'a \<Rightarrow> int" and A :: "'a set"
  assumes same: "x \<in> A \<Longrightarrow> cmp x x = 0"
    and flip: "x \<in> A \<Longrightarrow> y \<in> A \<Longrightarrow> cmp x y > 0 \<longleftrightarrow> cmp y x < 0"
    and chain: "x \<in> A \<Longrightarrow> y \<in> A \<Longrightarrow> z \<in> A \<Longrightarrow> cmp x y \<le> 0 \<Longrightarrow> cmp y z \<le> 0 \<Longrightarrow> cmp x z \<le> 0"
begin

abbreviation leq :: "'a \<Rightarrow> 'a \<Rightarrow> bool" where
  "leq x y \<equiv> cmp x y \<le> 0"

lemma tied_iff: "x \<in> A \<Longrightarrow> y \<in> A \<Longrightarrow> cmp x y = 0 \<longleftrightarrow> leq x y \<and> leq y x"
  using flip [of x y] flip [of y x] by linarith

lemma greater: "x \<in> A \<Longrightarrow> y \<in> A \<Longrightarrow> cmp x y > 0 \<Longrightarrow> leq y x"
  using flip [of x y] by linarith

lemma tied_chain:
  "x \<in> A \<Longrightarrow> y \<in> A \<Longrightarrow> z \<in> A \<Longrightarrow> cmp x z = 0 \<Longrightarrow> cmp y z = 0 \<Longrightarrow> cmp x y = 0"
  using tied_iff [of x z] tied_iff [of y z] tied_iff [of x y] chain [of x z y] chain [of y z x] by simp

lemma sorted_insert:
  "x \<in> A \<Longrightarrow> set xs \<subseteq> A \<Longrightarrow> sorted_wrt leq xs \<Longrightarrow> sorted_wrt leq (sort_insert cmp x xs)"
proof (induction xs)
  case (Cons y ys)
  have set: "set (sort_insert cmp x ys) = insert x (set ys)"
    by (metis mset_sort_insert set_mset_add_mset_insert set_mset_mset)
  show ?case
  proof (cases "cmp x y > 0")
    case True
    with Cons greater [of x y] show ?thesis by (auto simp: set)
  next
    case False
    with Cons.prems have "leq x z" if "z \<in> set ys" for z
      using that chain [of x y z] by auto
    with False Cons.prems show ?thesis by auto
  qed
qed simp

theorem sorted_sort: "set xs \<subseteq> A \<Longrightarrow> sorted_wrt leq (js_sort cmp xs)"
  by (induction xs) (simp_all add: sorted_insert)

lemma stable_insert:
  assumes "x \<in> A" "set xs \<subseteq> A" "a \<in> A"
  shows "filter (\<lambda>y. cmp y a = 0) (sort_insert cmp x xs) = filter (\<lambda>y. cmp y a = 0) (x # xs)"
  using assms(2)
proof (induction xs)
  case (Cons y ys)
  have "\<not> (cmp x a = 0 \<and> cmp y a = 0)" if "cmp x y > 0"
    using that tied_chain [of x y a] assms Cons.prems by auto
  with Cons show ?case by auto
qed simp

theorem stable_sort:
  "set xs \<subseteq> A \<Longrightarrow> a \<in> A \<Longrightarrow>
   filter (\<lambda>y. cmp y a = 0) (js_sort cmp xs) = filter (\<lambda>y. cmp y a = 0) xs"
proof (induction xs)
  case (Cons x xs)
  then show ?case
    using stable_insert [of x "js_sort cmp xs" a] by simp
qed simp

text \<open>Order and stability leave one result.\<close>

theorem sort_unique:
  assumes "set xs \<subseteq> A" "set ys \<subseteq> A" and "sorted_wrt leq xs" "sorted_wrt leq ys"
    and "\<And>a. a \<in> A \<Longrightarrow> filter (\<lambda>y. cmp y a = 0) xs = filter (\<lambda>y. cmp y a = 0) ys"
  shows "xs = ys"
  using assms
proof (induction xs arbitrary: ys)
  case Nil
  show ?case
  proof (cases ys)
    case (Cons y zs)
    with Nil.prems(2) same [of y] Nil.prems(5) [of y] show ?thesis by simp
  qed simp
next
  case (Cons x xs)
  from Cons.prems(1) have x: "x \<in> A" by simp
  have tied: "filter (\<lambda>y. cmp y x = 0) ys = x # filter (\<lambda>y. cmp y x = 0) xs"
    using Cons.prems(5) [OF x] same [OF x] by simp
  then obtain y zs where ys: "ys = y # zs" by (cases ys) auto
  with Cons.prems(2) have y: "y \<in> A" by simp
  have "x \<in> set ys" using tied by (metis filter_eq_ConsD in_set_conv_decomp)
  then have "leq y x" using ys Cons.prems(4) same [OF x] by auto
  moreover have "y \<in> set (x # xs)"
  proof -
    have "filter (\<lambda>z. cmp z y = 0) (x # xs) = y # filter (\<lambda>z. cmp z y = 0) zs"
      using Cons.prems(5) [OF y] same [OF y] ys by simp
    then show ?thesis by (metis filter_eq_ConsD in_set_conv_decomp)
  qed
  then have "leq x y" using Cons.prems(3) same [OF x] by auto
  ultimately have "cmp y x = 0" using tied_iff [OF y x] by simp
  with tied ys have "y = x" by simp
  moreover have "xs = zs"
  proof (rule Cons.IH)
    fix a assume "a \<in> A"
    then show "filter (\<lambda>y. cmp y a = 0) xs = filter (\<lambda>y. cmp y a = 0) zs"
      using Cons.prems(5) [of a] ys \<open>y = x\<close> by (simp split: if_splits)
  qed (use Cons.prems ys in auto)
  ultimately show ?case using ys by simp
qed

corollary sort_spec:
  assumes "set xs \<subseteq> A"
  shows "js_sort cmp xs = ys \<longleftrightarrow>
           mset ys = mset xs \<and> sorted_wrt leq ys \<and>
           (\<forall>a\<in>A. filter (\<lambda>y. cmp y a = 0) ys = filter (\<lambda>y. cmp y a = 0) xs)"
proof
  assume right: "mset ys = mset xs \<and> sorted_wrt leq ys \<and>
      (\<forall>a\<in>A. filter (\<lambda>y. cmp y a = 0) ys = filter (\<lambda>y. cmp y a = 0) xs)"
  then have "set ys \<subseteq> A" using assms by (metis set_mset_mset)
  with right assms show "js_sort cmp xs = ys"
    using sort_unique [of "js_sort cmp xs" ys] sorted_sort stable_sort by simp
qed (use assms sorted_sort stable_sort in auto)

lemma tied_sym: "x \<in> A \<Longrightarrow> y \<in> A \<Longrightarrow> cmp x y = 0 \<longleftrightarrow> cmp y x = 0"
  using flip [of x y] flip [of y x] by linarith

corollary sort_spec_elements:
  assumes "set xs \<subseteq> A"
  shows "js_sort cmp xs = ys \<longleftrightarrow>
           mset ys = mset xs \<and> sorted_wrt leq ys \<and>
           (\<forall>a\<in>set xs. filter (\<lambda>y. cmp y a = 0) ys = filter (\<lambda>y. cmp y a = 0) xs)"
    (is "_ \<longleftrightarrow> ?right")
proof
  assume ?right
  then have set: "set ys = set xs" by (metis set_mset_mset)
  have "filter (\<lambda>y. cmp y a = 0) ys = filter (\<lambda>y. cmp y a = 0) xs" if a: "a \<in> A" for a
  proof (cases "\<exists>b\<in>set xs. cmp b a = 0")
    case True
    then obtain b where b: "b \<in> set xs" "cmp b a = 0" by blast
    with assms have "b \<in> A" by blast
    then have "cmp y a = 0 \<longleftrightarrow> cmp y b = 0" if "y \<in> set xs" for y
      using that assms a b(2) tied_chain [of y b a] tied_chain [of y a b] tied_sym [of b a] by blast
    with set have "filter (\<lambda>y. cmp y a = 0) zs = filter (\<lambda>y. cmp y b = 0) zs"
      if "set zs = set xs" for zs using that by (intro filter_cong) auto
    with \<open>?right\<close> b set show ?thesis by simp
  next
    case False
    with set show ?thesis by (simp add: filter_empty_conv)
  qed
  with \<open>?right\<close> assms show "js_sort cmp xs = ys" by (simp add: sort_spec)
qed (use assms sort_spec in blast)

lemma sort_sorted: "set xs \<subseteq> A \<Longrightarrow> sorted_wrt leq xs \<Longrightarrow> js_sort cmp xs = xs"
  by (simp add: sort_spec)

text \<open>The first elements of the result are the least.\<close>

lemma take_sort_least:
  assumes "set xs \<subseteq> A" and "x \<in> set (take n (js_sort cmp xs))"
    and "y \<in> set (drop n (js_sort cmp xs))"
  shows "leq x y"
proof -
  have "sorted_wrt leq (take n (js_sort cmp xs) @ drop n (js_sort cmp xs))"
    using sorted_sort [OF assms(1)] by simp
  then show ?thesis using assms(2,3) by (simp only: sorted_wrt_append)
qed

end

section \<open>Comparison of values\<close>

record conversions =
  to_prim :: "js \<Rightarrow> js"
  str_num :: "string \<Rightarrow> jsnum"
  to_str :: "js \<Rightarrow> string"

fun to_num :: "conversions \<Rightarrow> js \<Rightarrow> jsnum" where
  "to_num cv JUndef = NaN"
| "to_num cv JNull = Fin 0"
| "to_num cv (JBool b) = Fin (if b then 1 else 0)"
| "to_num cv (JNum n) = n"
| "to_num cv (JStr s) = str_num cv s"
| "to_num cv _ = NaN"

definition primitive :: "conversions \<Rightarrow> js \<Rightarrow> js" where
  "primitive cv v = (if is_object v then to_prim cv v else v)"

fun str_lt :: "string \<Rightarrow> string \<Rightarrow> bool" where
  "str_lt s [] = False"
| "str_lt [] (c # t) = True"
| "str_lt (c # s) (d # t) =
     (if c = d then str_lt s t else (of_char c :: nat) < of_char d)"

text \<open>\<open>a < b\<close>; \<open>a > b\<close> is \<open>b < a\<close>\<close>

definition js_lt :: "conversions \<Rightarrow> js \<Rightarrow> js \<Rightarrow> bool" where
  "js_lt cv a b =
     (case (primitive cv a, primitive cv b) of
        (JStr s, JStr t) \<Rightarrow> str_lt s t
      | (u, v) \<Rightarrow> num_lt (to_num cv u) (to_num cv v))"

lemma js_lt_simps [simp, lib_simps]:
  "js_lt cv (JStr s) (JStr t) = str_lt s t" "js_lt cv (JNum m) (JNum n) = num_lt m n"
  by (simp_all add: js_lt_def primitive_def)

lemma str_lt_irrefl [simp]: "\<not> str_lt s s"
  by (induction s) auto

lemma str_lt_trans: "str_lt s t \<Longrightarrow> str_lt t u \<Longrightarrow> str_lt s u"
proof (induction s t arbitrary: u rule: str_lt.induct)
  case (2 c t)
  then show ?case by (cases u) auto
next
  case (3 c s d t)
  then show ?case by (cases u) (auto split: if_splits)
qed auto

lemma str_lt_linear: "str_lt s t \<or> s = t \<or> str_lt t s"
proof (induction s t rule: str_lt.induct)
  case (1 s)
  then show ?case by (cases s) auto
next
  case (3 c s d t)
  have "(of_char c :: nat) = of_char d \<longleftrightarrow> c = d" by simp
  then have "c \<noteq> d \<Longrightarrow> (of_char c :: nat) < of_char d \<or> (of_char d :: nat) < of_char c"
    by (metis linorder_neq_iff)
  with 3 show ?case by auto
qed auto

lemma str_lt_asym: "str_lt s t \<Longrightarrow> \<not> str_lt t s"
  using str_lt_irrefl str_lt_trans by blast

end
