(* ===== verification/FeQuery.thy ===== *)
theory FeQuery
  imports FeSession JsLib
begin

text \<open>
  What the hooks of \<open>trust-vault-frontend/hooks\<close> are made of: a query (a key of the cache, the
  request that fills it, what is made of the answer) and a mutation (its request, and what happens
  when it succeeds, fails and settles), with their run on the state of theory \<open>FeApi\<close>. The
  callbacks of a mutation are lists of effects. \<open>@tanstack/react-query\<close> is used as documented: a
  callback that throws makes the mutation fail, and a key of strings given to
  \<open>invalidateQueries\<close> selects the cached keys it is a prefix of (\<open>prefix_filter\<close>).
\<close>

section \<open>Effects\<close>

datatype fe_effect =
    Invalidate "js list"
  | ClearCache
  | Toast toast_kind js
  | SetCookie string js nat
  | RemoveCookie string
  | StoreLogin js js
  | StoreLogout
  | Goto string
  | Fail js

definition invalidate :: "fe_env \<Rightarrow> js list \<Rightarrow> fe_state \<Rightarrow> fe_state" where
  "invalidate e k s = s\<lparr>fe_cache :=
     map (\<lambda>c. if key_filter e k (ce_key c) then c\<lparr>ce_stale := True\<rparr> else c) (fe_cache s)\<rparr>"

fun run_effect :: "fe_env \<Rightarrow> fe_effect \<Rightarrow> fe_state \<Rightarrow> fe_state" where
  "run_effect e (Invalidate k) s = invalidate e k s"
| "run_effect e ClearCache s = s\<lparr>fe_cache := []\<rparr>"
| "run_effect e (Toast t m) s = show_toast t m s"
| "run_effect e (SetCookie k v days) s = set_cookie e k v days s"
| "run_effect e (RemoveCookie k) s = remove_cookie k s"
| "run_effect e (StoreLogin token user) s = on_auth (store_login token user) s"
| "run_effect e StoreLogout s = on_auth store_logout s"
| "run_effect e (Goto path) s = navigate (Push path) s"
| "run_effect e (Fail v) s = s"

text \<open>The effects of a callback, up to the first that throws.\<close>

fun run_effects :: "fe_env \<Rightarrow> fe_effect list \<Rightarrow> fe_state \<Rightarrow> api_error option \<times> fe_state" where
  "run_effects e [] s = (None, s)"
| "run_effects e (f # fs) s =
     (case f of Fail v \<Rightarrow> (Some (OtherError v), s) | _ \<Rightarrow> run_effects e fs (run_effect e f s))"

section \<open>Queries and mutations\<close>

record query =
  q_key :: "js list"
  q_request :: api_request
  q_select :: "js \<Rightarrow> js option"
  q_enabled :: bool
  q_refetchInterval :: "nat option"
  q_noRetry :: bool

record 'v mutation =
  m_request :: "'v \<Rightarrow> api_request"
  m_result :: "js \<Rightarrow> js"
  m_success :: "js \<Rightarrow> 'v \<Rightarrow> fe_effect list"
  m_error :: "api_error \<Rightarrow> fe_effect list"
  m_settled :: "fe_effect list"

definition get_query :: "js list \<Rightarrow> string \<Rightarrow> query" where
  "get_query key url =
     \<lparr>q_key = key, q_request = new_request GET url JUndef, q_select = Some, q_enabled = True,
      q_refetchInterval = None, q_noRetry = False\<rparr>"

text \<open>\<open>response.data ?? []\<close> and \<open>Array.isArray(response.data) ? response.data : []\<close>\<close>

definition or_empty :: "js \<Rightarrow> js option" where
  "or_empty d = Some (coalesce d (JArr []))"

definition array_or_empty :: "js \<Rightarrow> js option" where
  "array_or_empty d = Some (case d of JArr xs \<Rightarrow> JArr xs | _ \<Rightarrow> JArr [])"

text \<open>\<open>toast.error(error.response?.data?.error || message)\<close>\<close>

definition toast_error :: "string \<Rightarrow> api_error \<Rightarrow> fe_effect list" where
  "toast_error message err =
     [Toast Error (js_or (jprop ''error'' (jprop ''data'' (err_response err))) (JStr message))]"

definition no_error_effects :: "api_error \<Rightarrow> fe_effect list" where
  "no_error_effects err = []"

fun put_entry :: "js list \<Rightarrow> js \<Rightarrow> cache_entry list \<Rightarrow> cache_entry list" where
  "put_entry k d [] = [\<lparr>ce_key = k, ce_data = d, ce_stale = False\<rparr>]"
| "put_entry k d (c # cs) =
     (if ce_key c = k then \<lparr>ce_key = k, ce_data = d, ce_stale = False\<rparr> # cs
      else c # put_entry k d cs)"

text \<open>One fetch of a query; a failure leaves the cache.\<close>

definition fetch_query :: "fe_env \<Rightarrow> query \<Rightarrow> fe_state \<Rightarrow> fe_state" where
  "fetch_query e q s =
     (if \<not> q_enabled q then s
      else (case api_send e (q_request q) s of
              (Inl err, s') \<Rightarrow> s'
            | (Inr d, s') \<Rightarrow>
                (case q_select q d of
                   None \<Rightarrow> s'
                 | Some v \<Rightarrow> s'\<lparr>fe_cache := put_entry (q_key q) v (fe_cache s')\<rparr>)))"

definition settle :: "fe_env \<Rightarrow> 'v mutation \<Rightarrow> fe_state \<Rightarrow> fe_state" where
  "settle e m s = snd (run_effects e (m_settled m) s)"

definition fail_mutation :: "fe_env \<Rightarrow> 'v mutation \<Rightarrow> api_error \<Rightarrow> fe_state \<Rightarrow> (api_error + js) \<times> fe_state" where
  "fail_mutation e m err s = (Inl err, settle e m (snd (run_effects e (m_error m err) s)))"

definition run_mutation ::
  "fe_env \<Rightarrow> 'v mutation \<Rightarrow> 'v \<Rightarrow> fe_state \<Rightarrow> (api_error + js) \<times> fe_state" where
  "run_mutation e m v s =
     (case api_send e (m_request m v) s of
        (Inl err, s1) \<Rightarrow> fail_mutation e m err s1
      | (Inr d, s1) \<Rightarrow>
          (case run_effects e (m_success m (m_result m d) v) s1 of
             (None, s2) \<Rightarrow> (Inr (m_result m d), settle e m s2)
           | (Some err, s2) \<Rightarrow> fail_mutation e m err s2))"

text \<open>A mutation with its variables, so that mutations of different variables fit in one table.\<close>

definition pack :: "'v mutation \<Rightarrow> 'v \<Rightarrow> unit mutation" where
  "pack m v =
     \<lparr>m_request = (\<lambda>_. m_request m v), m_result = m_result m,
      m_success = (\<lambda>d _. m_success m d v), m_error = m_error m, m_settled = m_settled m\<rparr>"

section \<open>Invalidation\<close>

definition prefix_filter :: "fe_env \<Rightarrow> bool" where
  "prefix_filter e \<longleftrightarrow>
     (\<forall>k k'. list_all is_string k \<longrightarrow> key_filter e k k' \<longleftrightarrow> take (length k) k' = k)"

text \<open>The effects select the key for a refetch.\<close>

definition selects :: "fe_effect list \<Rightarrow> js list \<Rightarrow> bool" where
  "selects fs key \<longleftrightarrow> list_ex (\<lambda>f. case f of Invalidate k \<Rightarrow> take (length k) key = k | _ \<Rightarrow> False) fs"

fun plain_effect :: "fe_effect \<Rightarrow> bool" where
  "plain_effect (Fail v) = False"
| "plain_effect ClearCache = False"
| "plain_effect (Invalidate k) = list_all is_string k"
| "plain_effect _ = True"

lemma pack_fields [simp]:
  "m_request (pack m v) u = m_request m v" "m_success (pack m v) d u = m_success m d v"
  "m_settled (pack m v) = m_settled m" "m_result (pack m v) = m_result m" "m_error (pack m v) = m_error m"
  by (simp_all add: pack_def)

lemma pack_settle: "settle e (pack m v) = settle e m"
  by (simp add: settle_def fun_eq_iff)

lemma pack_fail: "fail_mutation e (pack m v) = fail_mutation e m"
  by (simp add: fail_mutation_def pack_settle fun_eq_iff)

lemma pack_run: "run_mutation e (pack m v) u s = run_mutation e m v s"
  unfolding run_mutation_def pack_settle pack_fail pack_fields ..

definition refresh :: "fe_effect list \<Rightarrow> cache_entry \<Rightarrow> cache_entry" where
  "refresh fs c = (if selects fs (ce_key c) then c\<lparr>ce_stale := True\<rparr> else c)"

lemma refresh_key [simp]: "ce_key (refresh fs c) = ce_key c"
  by (simp add: refresh_def)

lemma refresh_Cons:
  "refresh (f # fs) c = refresh fs (refresh [f] c)"
  by (simp add: refresh_def selects_def)

text \<open>Effects that do not throw mark exactly the selected entries, and change no data.\<close>

lemma run_effect_cache:
  assumes "plain_effect f" and "prefix_filter e"
  shows "fe_cache (run_effect e f s) = map (refresh [f]) (fe_cache s)"
proof (cases f)
  case (Invalidate k)
  with assms have "key_filter e k k' \<longleftrightarrow> take (length k) k' = k" for k'
    by (simp add: prefix_filter_def)
  with Invalidate show ?thesis by (auto simp: invalidate_def refresh_def selects_def)
qed (use assms in \<open>auto simp: refresh_def selects_def map_idI\<close>)

lemma run_effects_plain:
  assumes "list_all plain_effect fs" and "prefix_filter e"
  shows "fst (run_effects e fs s) = None
    \<and> fe_cache (snd (run_effects e fs s)) = map (refresh fs) (fe_cache s)"
  using assms(1)
proof (induction fs arbitrary: s)
  case Nil
  have "refresh [] c = c" for c by (simp add: refresh_def selects_def)
  then show ?case by (simp add: map_idI)
next
  case (Cons f fs)
  then have "run_effects e (f # fs) s = run_effects e fs (run_effect e f s)"
    by (cases f) simp_all
  moreover have "fe_cache (run_effect e f s) = map (refresh [f]) (fe_cache s)"
    using Cons.prems assms(2) by (simp add: run_effect_cache)
  ultimately show ?case using Cons by (simp add: refresh_Cons [of f fs] comp_def)
qed

lemma api_error_cache: "fe_cache (on_api_error err s) = fe_cache s"
  by (simp add: on_api_error_def)

lemma api_send_cache: "api_send e rq s = (r, s') \<Longrightarrow> fe_cache s' = fe_cache s"
  by (erule api_send_cases) (simp_all add: api_error_cache)

section \<open>Mutations of a resource\<close>

text \<open>
  The contract between a mutation and the queries of a resource: when it succeeds, it announces the
  root of the resource's keys, and nothing it does can throw or drop the cache.
\<close>

locale resource_mutation =
  fixes base :: string and m :: "'v mutation"
  assumes announces: "Invalidate [JStr base] \<in> set (m_success m d v)"
    and plain: "list_all plain_effect (m_success m d v)"
    and settled: "m_settled m = []"
begin

lemma selects_root: "hd (ce_key c) = JStr base \<Longrightarrow> ce_key c \<noteq> [] \<Longrightarrow> selects (m_success m d v) (ce_key c)"
  using announces by (cases "ce_key c") (force simp: selects_def list_ex_iff)+

lemma success_cache:
  assumes "prefix_filter e" and "run_mutation e m v s = (Inr d, s')"
  shows "\<exists>d'. fe_cache s' = map (refresh (m_success m d' v)) (fe_cache s)"
proof -
  obtain r s1 where sent: "api_send e (m_request m v) s = (r, s1)" by fastforce
  with assms(2) obtain a where a: "r = Inr a"
    by (cases r) (auto simp: run_mutation_def fail_mutation_def)
  note eff = run_effects_plain [OF plain assms(1), of "m_result m a" v s1]
  obtain s2 where "run_effects e (m_success m (m_result m a) v) s1 = (None, s2)"
    using eff by (metis prod.collapse)
  with assms(2) sent a eff have "fe_cache s' = map (refresh (m_success m (m_result m a) v)) (fe_cache s1)"
    by (simp add: run_mutation_def settle_def settled)
  with api_send_cache [OF sent] show ?thesis by auto
qed

lemma refreshes:
  assumes "prefix_filter e" and "run_mutation e m v s = (Inr d, s')"
    and "c \<in> set (fe_cache s')" and "ce_key c = JStr base # ks"
  shows "ce_stale c"
proof -
  obtain d' c0 where c0: "c = refresh (m_success m d' v) c0" "c0 \<in> set (fe_cache s)"
    using success_cache [OF assms(1,2)] assms(3) by auto
  then have "selects (m_success m d' v) (ce_key c0)"
    using assms(4) by (intro selects_root) simp_all
  with c0 show ?thesis by (simp add: refresh_def)
qed

lemma keeps_entries:
  assumes "prefix_filter e" and "run_mutation e m v s = (Inr d, s')"
  shows "map (\<lambda>c. (ce_key c, ce_data c)) (fe_cache s') = map (\<lambda>c. (ce_key c, ce_data c)) (fe_cache s)"
  using success_cache [OF assms] by (auto simp: refresh_def)

lemma run_result:
  assumes "prefix_filter e"
  shows "fst (run_mutation e m v s) =
    (case fe_server e (add_token s (m_request m v)) of Inl err \<Rightarrow> Inl err | Inr d \<Rightarrow> Inr (m_result m d))"
proof (cases "fe_server e (add_token s (m_request m v))")
  case (Inl err)
  then show ?thesis by (simp add: run_mutation_def api_send_def fail_mutation_def)
next
  case (Inr d)
  let ?s1 = "s\<lparr>fe_sent := fe_sent s @ [add_token s (m_request m v)]\<rparr>"
  obtain s2 where "run_effects e (m_success m (m_result m d) v) ?s1 = (None, s2)"
    using run_effects_plain [OF plain assms, of "m_result m d" v ?s1] by (metis prod.collapse)
  with Inr show ?thesis by (simp add: run_mutation_def api_send_def Let_def)
qed

end

end
