(* ===== verification/FeHooksCore.thy ===== *)
theory FeHooksCore
  imports FeQuery
begin

text \<open>
  The hooks of the web front end on identity, policies, data sources, classification, the gate, data
  quality, reports, remediation and audit: each file of \<open>trust-vault-frontend/hooks\<close> is a section,
  in its order. A query hook is a value of type \<open>query\<close>, a mutation hook one of type \<open>mutation\<close>;
  its parameters and variables are those of the code.
\<close>

section \<open>\<open>use-auth.ts\<close>\<close>

definition useLogin :: "js mutation" where
  "useLogin =
     \<lparr>m_request = (\<lambda>data. new_request POST ''/auth/login'' data),
      m_result = (\<lambda>d. d),
      m_success = (\<lambda>d data.
        if nullish d then [Fail (JErr ''TypeError'' (type_error_message ''access_token'' d))]
        else [SetCookie ''accessToken'' (jprop ''access_token'' d) 7]
          @ (if truthy (jprop ''refresh_token'' d)
             then [SetCookie ''refreshToken'' (jprop ''refresh_token'' d) 30] else [])
          @ [StoreLogin (jprop ''access_token'' d)
               (new_user (JStr []) (JStr []) (JStr []) (JStr ''admin'') (JStr [])),
             Toast Success (JStr ''Logged in successfully''), Goto ''/dashboard'']),
      m_error = toast_error ''Login failed'', m_settled = []\<rparr>"

definition useLogout :: "unit mutation" where
  "useLogout =
     \<lparr>m_request = (\<lambda>u. new_request POST ''/auth/logout'' JUndef),
      m_result = (\<lambda>d. JUndef),
      m_success = (\<lambda>d u. [RemoveCookie ''accessToken'', RemoveCookie ''refreshToken'', StoreLogout,
         ClearCache, Goto ''/login'', Toast Success (JStr ''Logged out successfully'')]),
      m_error = no_error_effects,
      m_settled = [RemoveCookie ''accessToken'', RemoveCookie ''refreshToken'', StoreLogout]\<rparr>"

definition useCurrentUser :: query where
  "useCurrentUser =
     (get_query [JStr ''currentUser''] ''/auth/me'')
     \<lparr>q_noRetry := True\<rparr>"

definition useUsers :: query where
  "useUsers =
     get_query [JStr ''users''] ''/users''"

definition useCreateUser :: "js mutation" where
  "useCreateUser =
     \<lparr>m_request = (\<lambda>data. new_request POST ''/users'' data),
      m_result = (\<lambda>d. d),
      m_success = (\<lambda>d data. [Invalidate [JStr ''users''],
         Toast Success (JStr ''User created successfully'')]),
      m_error = toast_error ''Failed to create user'', m_settled = []\<rparr>"

definition useDeleteUser :: "string mutation" where
  "useDeleteUser =
     \<lparr>m_request = (\<lambda>i. new_request DELETE (''/users/'' @ i) JUndef),
      m_result = (\<lambda>d. JUndef),
      m_success = (\<lambda>d i. [Invalidate [JStr ''users''],
         Toast Success (JStr ''User deleted successfully'')]),
      m_error = toast_error ''Failed to delete user'', m_settled = []\<rparr>"

definition useUpdateProfile :: "js mutation" where
  "useUpdateProfile =
     \<lparr>m_request = (\<lambda>data. new_request PUT ''/auth/me'' data),
      m_result = (\<lambda>d. d),
      m_success = (\<lambda>d data. [Invalidate [JStr ''currentUser''],
         Toast Success (JStr ''Profile updated'')]),
      m_error = toast_error ''Failed to update profile'', m_settled = []\<rparr>"

definition useAPIKeys :: query where
  "useAPIKeys =
     get_query [JStr ''api-keys''] ''/auth/api-keys''"

definition useCreateAPIKey :: "js mutation" where
  "useCreateAPIKey =
     \<lparr>m_request = (\<lambda>data. new_request POST ''/auth/api-keys'' data),
      m_result = (\<lambda>d. d),
      m_success = (\<lambda>d data. [Invalidate [JStr ''api-keys''],
         Toast Success (JStr ''API key created'')]),
      m_error = toast_error ''Failed to create API key'', m_settled = []\<rparr>"

definition useDeleteAPIKey :: "string mutation" where
  "useDeleteAPIKey =
     \<lparr>m_request = (\<lambda>i. new_request DELETE (''/auth/api-keys/'' @ i) JUndef),
      m_result = (\<lambda>d. JUndef),
      m_success = (\<lambda>d i. [Invalidate [JStr ''api-keys''],
         Toast Success (JStr ''API key deleted'')]),
      m_error = toast_error ''Failed to delete API key'', m_settled = []\<rparr>"

definition useInvitations :: query where
  "useInvitations =
     get_query [JStr ''invitations''] ''/invitations''"

definition useCreateInvitation :: "js mutation" where
  "useCreateInvitation =
     \<lparr>m_request = (\<lambda>data. new_request POST ''/invitations'' data),
      m_result = (\<lambda>d. d),
      m_success = (\<lambda>d data. [Invalidate [JStr ''invitations''],
         Toast Success (JStr ''Invitation sent successfully'')]),
      m_error = toast_error ''Failed to send invitation'', m_settled = []\<rparr>"

definition useCancelInvitation :: "string mutation" where
  "useCancelInvitation =
     \<lparr>m_request = (\<lambda>i. new_request DELETE (''/invitations/'' @ i) JUndef),
      m_result = (\<lambda>d. JUndef),
      m_success = (\<lambda>d i. [Invalidate [JStr ''invitations''],
         Toast Success (JStr ''Invitation cancelled'')]),
      m_error = toast_error ''Failed to cancel invitation'', m_settled = []\<rparr>"

definition useResendInvitation :: "string mutation" where
  "useResendInvitation =
     \<lparr>m_request = (\<lambda>i. new_request POST (''/invitations/'' @ i @ ''/resend'') JUndef),
      m_result = (\<lambda>d. d),
      m_success = (\<lambda>d i. [Invalidate [JStr ''invitations''],
         Toast Success (JStr ''Invitation resent'')]),
      m_error = toast_error ''Failed to resend invitation'', m_settled = []\<rparr>"

section \<open>\<open>use-policies.ts\<close>\<close>

definition usePolicies :: query where
  "usePolicies =
     get_query [JStr ''policies''] ''/governance/policies''"

definition usePolicy :: "string \<Rightarrow> query" where
  "usePolicy i =
     (get_query [JStr ''policies'', JStr i] (''/governance/policies/'' @ i))
     \<lparr>q_enabled := i \<noteq> []\<rparr>"

definition useCreatePolicy :: "js mutation" where
  "useCreatePolicy =
     \<lparr>m_request = (\<lambda>data. new_request POST ''/governance/policies'' data),
      m_result = (\<lambda>d. d),
      m_success = (\<lambda>d data. [Invalidate [JStr ''policies''],
         Toast Success (JStr ''Policy created successfully'')]),
      m_error = toast_error ''Failed to create policy'', m_settled = []\<rparr>"

definition useUpdatePolicy :: "(string \<times> js) mutation" where
  "useUpdatePolicy =
     \<lparr>m_request = (\<lambda>(i, data). new_request PUT (''/governance/policies/'' @ i) data),
      m_result = (\<lambda>d. d),
      m_success = (\<lambda>d (i, data). [Invalidate [JStr ''policies''],
         Invalidate [JStr ''policies'', JStr i],
         Toast Success (JStr ''Policy updated successfully'')]),
      m_error = toast_error ''Failed to update policy'', m_settled = []\<rparr>"

definition useDeletePolicy :: "string mutation" where
  "useDeletePolicy =
     \<lparr>m_request = (\<lambda>i. new_request DELETE (''/governance/policies/'' @ i) JUndef),
      m_result = (\<lambda>d. JUndef),
      m_success = (\<lambda>d i. [Invalidate [JStr ''policies''],
         Toast Success (JStr ''Policy deleted successfully'')]),
      m_error = toast_error ''Failed to delete policy'', m_settled = []\<rparr>"

definition useEvaluatePolicy :: "js mutation" where
  "useEvaluatePolicy =
     \<lparr>m_request = (\<lambda>data. new_request POST ''/governance/evaluate'' data),
      m_result = (\<lambda>d. d),
      m_success = (\<lambda>d data. []),
      m_error = toast_error ''Failed to evaluate policy'', m_settled = []\<rparr>"

definition useGovernanceStats :: query where
  "useGovernanceStats =
     get_query [JStr ''governance-stats''] ''/governance/stats''"

section \<open>\<open>use-datasources.ts\<close>\<close>

definition useDataSources :: query where
  "useDataSources =
     get_query [JStr ''datasources''] ''/datasources''"

definition useDataSource :: "string \<Rightarrow> query" where
  "useDataSource i =
     (get_query [JStr ''datasources'', JStr i] (''/datasources/'' @ i))
     \<lparr>q_enabled := i \<noteq> []\<rparr>"

definition useCreateDataSource :: "js mutation" where
  "useCreateDataSource =
     \<lparr>m_request = (\<lambda>data. new_request POST ''/datasources'' data),
      m_result = (\<lambda>d. d),
      m_success = (\<lambda>d data. [Invalidate [JStr ''datasources''],
         Toast Success (JStr ''Data source created successfully'')]),
      m_error = toast_error ''Failed to create data source'', m_settled = []\<rparr>"

definition useUpdateDataSource :: "(string \<times> js) mutation" where
  "useUpdateDataSource =
     \<lparr>m_request = (\<lambda>(i, data). new_request PUT (''/datasources/'' @ i) data),
      m_result = (\<lambda>d. d),
      m_success = (\<lambda>d (i, data). [Invalidate [JStr ''datasources''],
         Invalidate [JStr ''datasources'', JStr i],
         Toast Success (JStr ''Data source updated successfully'')]),
      m_error = toast_error ''Failed to update data source'', m_settled = []\<rparr>"

definition useDeleteDataSource :: "string mutation" where
  "useDeleteDataSource =
     \<lparr>m_request = (\<lambda>i. new_request DELETE (''/datasources/'' @ i) JUndef),
      m_result = (\<lambda>d. JUndef),
      m_success = (\<lambda>d i. [Invalidate [JStr ''datasources''],
         Toast Success (JStr ''Data source deleted successfully'')]),
      m_error = toast_error ''Failed to delete data source'', m_settled = []\<rparr>"

definition useTriggerScan :: "string mutation" where
  "useTriggerScan =
     \<lparr>m_request = (\<lambda>i. new_request POST (''/datasources/'' @ i @ ''/scan'') JUndef),
      m_result = (\<lambda>d. d),
      m_success = (\<lambda>d i. [Invalidate [JStr ''datasources'', JStr i]]),
      m_error = (\<lambda>err.
        if err_status err = JNum (Fin 409) then [Toast Info (JStr ''A scan is already in progress'')]
        else toast_error ''Failed to trigger scan'' err),
      m_settled = []\<rparr>"

definition useScanStatus :: "string \<Rightarrow> query" where
  "useScanStatus i =
     (get_query [JStr ''datasources'', JStr i, JStr ''status''] (''/datasources/'' @ i @ ''/status''))
     \<lparr>q_enabled := i \<noteq> [], q_refetchInterval := Some 5000\<rparr>"

definition useScanLogs :: "string \<Rightarrow> query" where
  "useScanLogs i =
     (get_query [JStr ''datasources'', JStr i, JStr ''logs''] (''/datasources/'' @ i @ ''/logs''))
     \<lparr>q_enabled := i \<noteq> []\<rparr>"

definition useDataSourceClassificationStats :: "string \<Rightarrow> query" where
  "useDataSourceClassificationStats i =
     (get_query [JStr ''datasources'', JStr i, JStr ''classification-stats''] (''/datasources/'' @ i @ ''/classification-stats''))
     \<lparr>q_enabled := i \<noteq> []\<rparr>"

section \<open>\<open>use-classification.ts\<close>\<close>

definition useClassifyStats :: query where
  "useClassifyStats =
     get_query [JStr ''classify-stats''] ''/classify/stats''"

definition useClassifyText :: "js mutation" where
  "useClassifyText =
     \<lparr>m_request = (\<lambda>data. new_request POST ''/classify/text'' data),
      m_result = (\<lambda>d. d),
      m_success = (\<lambda>d data. []),
      m_error = toast_error ''Failed to classify text'', m_settled = []\<rparr>"

definition useClassifyDataset :: "js mutation" where
  "useClassifyDataset =
     \<lparr>m_request = (\<lambda>data. new_request POST ''/classify/dataset'' data),
      m_result = (\<lambda>d. d),
      m_success = (\<lambda>d data. [Invalidate [JStr ''classifications''],
         Toast Success (JStr ''Classification job started'')]),
      m_error = toast_error ''Failed to start classification'', m_settled = []\<rparr>"

definition useClassificationModels :: query where
  "useClassificationModels =
     get_query [JStr ''classification-models''] ''/classify/models''"

definition useClassificationRules :: query where
  "useClassificationRules =
     get_query [JStr ''classification-rules''] ''/classify/rules''"

definition useCreateClassificationRule :: "js mutation" where
  "useCreateClassificationRule =
     \<lparr>m_request = (\<lambda>data. new_request POST ''/classify/rules'' data),
      m_result = (\<lambda>d. d),
      m_success = (\<lambda>d data. [Invalidate [JStr ''classification-rules''],
         Toast Success (JStr ''Classification rule created'')]),
      m_error = toast_error ''Failed to create rule'', m_settled = []\<rparr>"

definition useDeleteClassificationRule :: "string mutation" where
  "useDeleteClassificationRule =
     \<lparr>m_request = (\<lambda>i. new_request DELETE (''/classify/rules/'' @ i) JUndef),
      m_result = (\<lambda>d. JUndef),
      m_success = (\<lambda>d i. [Invalidate [JStr ''classification-rules''],
         Toast Success (JStr ''Classification rule deleted'')]),
      m_error = toast_error ''Failed to delete rule'', m_settled = []\<rparr>"

definition useDatasetClassification :: "string \<Rightarrow> query" where
  "useDatasetClassification i =
     (get_query [JStr ''classification'', JStr i] (''/classify/datasets/'' @ i))
     \<lparr>q_enabled := i \<noteq> []\<rparr>"

definition useDatasetColumns :: "string \<Rightarrow> query" where
  "useDatasetColumns i =
     (get_query [JStr ''classification'', JStr i, JStr ''columns''] (''/classify/datasets/'' @ i @ ''/columns''))
     \<lparr>q_enabled := i \<noteq> []\<rparr>"

definition useReclassifyDataset :: "string mutation" where
  "useReclassifyDataset =
     \<lparr>m_request = (\<lambda>i. new_request POST (''/classify/datasets/'' @ i @ ''/reclassify'') JUndef),
      m_result = (\<lambda>d. d),
      m_success = (\<lambda>d i. [Invalidate [JStr ''classification'', JStr i],
         Toast Success (JStr ''Re-classification started'')]),
      m_error = toast_error ''Failed to start re-classification'', m_settled = []\<rparr>"

definition useDocumentClassifications :: "string \<Rightarrow> query" where
  "useDocumentClassifications i =
     (get_query [JStr ''doc-classifications'', JStr i] (''/documents/'' @ i @ ''/classifications''))
     \<lparr>q_enabled := i \<noteq> [], q_select := or_empty\<rparr>"

definition useClassifyDocument :: "js mutation" where
  "useClassifyDocument =
     \<lparr>m_request = (\<lambda>data. new_request POST ''/documents/classify'' data),
      m_result = (\<lambda>d. d),
      m_success = (\<lambda>d data. [Invalidate [JStr ''doc-classifications'', jprop ''document_id'' data],
         Invalidate [JStr ''review-queue''],
         Toast Success (JStr ''Document classified'')]),
      m_error = toast_error ''Failed to classify document'', m_settled = []\<rparr>"

section \<open>\<open>use-gate.ts\<close>\<close>

definition useGateQuery :: "js mutation" where
  "useGateQuery =
     \<lparr>m_request = (\<lambda>data. new_request POST ''/gate/query'' data),
      m_result = (\<lambda>d. d),
      m_success = (\<lambda>d data. []),
      m_error = toast_error ''Gate query failed'', m_settled = []\<rparr>"

definition useGateRetrieve :: "js mutation" where
  "useGateRetrieve =
     \<lparr>m_request = (\<lambda>data. new_request POST ''/gate/retrieve'' data),
      m_result = (\<lambda>d. d),
      m_success = (\<lambda>d data. []),
      m_error = toast_error ''Failed to retrieve data'', m_settled = []\<rparr>"

definition useGateValidate :: "js mutation" where
  "useGateValidate =
     \<lparr>m_request = (\<lambda>data. new_request POST ''/gate/validate'' data),
      m_result = (\<lambda>d. d),
      m_success = (\<lambda>d data. []),
      m_error = toast_error ''Validation failed'', m_settled = []\<rparr>"

definition useGateStats :: query where
  "useGateStats =
     (get_query [JStr ''gate-stats''] ''/gate/stats'')
     \<lparr>q_refetchInterval := Some 30000\<rparr>"

definition useGateQueries :: "nat option \<Rightarrow> query" where
  "useGateQueries n =
     (let limit = opt_default 50 n
      in get_query [JStr ''gate-queries'', JNum (num_of_nat limit)]
           (''/gate/queries?limit='' @ nat_str limit))"

section \<open>\<open>use-quality.ts\<close>\<close>

definition useQualityScore :: "string \<Rightarrow> query" where
  "useQualityScore i =
     (get_query [JStr ''quality'', JStr i] (''/quality/datasets/'' @ i))
     \<lparr>q_enabled := i \<noteq> []\<rparr>"

text \<open>The read of \<open>data.overall_score\<close> throws when the answer is \<open>null\<close>.\<close>

definition quality_trends :: "js \<Rightarrow> js option" where
  "quality_trends d =
     (if nullish d then None
      else Some (JObj [(''overall'', jprop ''overall_score'' d),
                       (''completeness'', jprop ''completeness'' d),
                       (''accuracy'', jprop ''accuracy'' d),
                       (''consistency'', jprop ''consistency'' d),
                       (''timeliness'', jprop ''timeliness'' d),
                       (''uniqueness'', jprop ''uniqueness'' d),
                       (''total_datasets'', jprop ''total_datasets'' d),
                       (''issues_found'', jprop ''issues_found'' d)]))"

definition useQualityTrends :: query where
  "useQualityTrends =
     (get_query [JStr ''quality-trends''] ''/quality/summary'')
     \<lparr>q_select := quality_trends\<rparr>"

definition useQualityDimensions :: query where
  "useQualityDimensions =
     get_query [JStr ''quality-dimensions''] ''/quality/summary''"

definition useAssessQuality :: "string mutation" where
  "useAssessQuality =
     \<lparr>m_request = (\<lambda>i. new_request POST ''/quality/assess'' (JObj [(''dataset_id'', JStr i)])),
      m_result = (\<lambda>d. d),
      m_success = (\<lambda>d i. [Invalidate [JStr ''quality'', JStr i],
         Invalidate [JStr ''quality-trends''],
         Toast Success (JStr ''Quality assessment started'')]),
      m_error = toast_error ''Failed to assess quality'', m_settled = []\<rparr>"

definition useSetQualityThreshold :: "js mutation" where
  "useSetQualityThreshold =
     \<lparr>m_request = (\<lambda>data. new_request POST ''/quality/thresholds'' data),
      m_result = (\<lambda>d. d),
      m_success = (\<lambda>d data. [Toast Success (JStr ''Threshold updated'')]),
      m_error = toast_error ''Failed to set threshold'', m_settled = []\<rparr>"

definition useDataProfile :: "string \<Rightarrow> query" where
  "useDataProfile i =
     (get_query [JStr ''data-profile'', JStr i] (''/quality/profile/'' @ i))
     \<lparr>q_enabled := i \<noteq> []\<rparr>"

definition useAutoProfile :: "string mutation" where
  "useAutoProfile =
     \<lparr>m_request = (\<lambda>i. new_request POST (''/quality/profile/'' @ i) (JObj [])),
      m_result = (\<lambda>d. d),
      m_success = (\<lambda>d i. [Invalidate [JStr ''data-profile'', JStr i],
         Toast Success (JStr ''Data profiling completed'')]),
      m_error = toast_error ''Failed to profile datasource'', m_settled = []\<rparr>"

definition useCDEs :: query where
  "useCDEs =
     (get_query [JStr ''cdes''] ''/cde'')
     \<lparr>q_select := or_empty\<rparr>"

definition useCreateCDE :: "js mutation" where
  "useCreateCDE =
     \<lparr>m_request = (\<lambda>data. new_request POST ''/cde'' data),
      m_result = (\<lambda>d. d),
      m_success = (\<lambda>d data. [Invalidate [JStr ''cdes''],
         Toast Success (JStr ''CDE designated'')]),
      m_error = toast_error ''Failed to create CDE'', m_settled = []\<rparr>"

definition useDeleteCDE :: "string mutation" where
  "useDeleteCDE =
     \<lparr>m_request = (\<lambda>i. new_request DELETE (''/cde/'' @ i) JUndef),
      m_result = (\<lambda>d. d),
      m_success = (\<lambda>d i. [Invalidate [JStr ''cdes''],
         Toast Success (JStr ''CDE removed'')]),
      m_error = toast_error ''Failed to delete CDE'', m_settled = []\<rparr>"

section \<open>\<open>use-reports.ts\<close>\<close>

definition useReports :: query where
  "useReports =
     (get_query [JStr ''reports''] ''/reports'')
     \<lparr>q_select := or_empty\<rparr>"

definition useReport :: "string \<Rightarrow> query" where
  "useReport i =
     (get_query [JStr ''reports'', JStr i] (''/reports/'' @ i))
     \<lparr>q_enabled := i \<noteq> []\<rparr>"

text \<open>\<open>report.type.replace('_', ' ')\<close> changes the first underscore; only a string has \<open>replace\<close>.\<close>

definition useGenerateReport :: "js mutation" where
  "useGenerateReport =
     \<lparr>m_request = (\<lambda>data. new_request POST ''/reports'' data),
      m_result = (\<lambda>d. d),
      m_success = (\<lambda>report data. Invalidate [JStr ''reports''] #
        (case jprop ''type'' report of
           JStr t \<Rightarrow> [Toast Success
              (JStr (replace_first (CHR ''_'') (CHR '' '') t @ '' report generated successfully''))]
         | _ \<Rightarrow> [Fail (JErr ''TypeError'' ''report.type.replace'')])),
      m_error = toast_error ''Failed to generate report'', m_settled = []\<rparr>"

section \<open>\<open>use-remediation.ts\<close>\<close>

definition useRemediationActions :: query where
  "useRemediationActions =
     (get_query [JStr ''remediation-actions''] ''/remediation/actions'')
     \<lparr>q_select := array_or_empty\<rparr>"

definition useRemediationLogs :: "string \<Rightarrow> query" where
  "useRemediationLogs i =
     (get_query [JStr ''remediation-logs'', JStr i] (''/remediation/actions/'' @ i @ ''/logs''))
     \<lparr>q_enabled := i \<noteq> [], q_select := array_or_empty\<rparr>"

definition useExecuteRemediationAction :: "string mutation" where
  "useExecuteRemediationAction =
     \<lparr>m_request = (\<lambda>i. new_request POST (''/remediation/actions/'' @ i @ ''/execute'') JUndef),
      m_result = (\<lambda>d. d),
      m_success = (\<lambda>d i. [Invalidate [JStr ''remediation-actions''],
         Toast Success (JStr ''Remediation action executed'')]),
      m_error = toast_error ''Failed to execute remediation action'', m_settled = []\<rparr>"

definition useCreateRemediationAction :: "js mutation" where
  "useCreateRemediationAction =
     \<lparr>m_request = (\<lambda>data. new_request POST ''/remediation/actions'' data),
      m_result = (\<lambda>d. d),
      m_success = (\<lambda>d data. [Invalidate [JStr ''remediation-actions''],
         Toast Success (JStr ''Remediation action created'')]),
      m_error = toast_error ''Failed to create remediation action'', m_settled = []\<rparr>"

section \<open>\<open>use-audit.ts\<close>\<close>

definition useAuditTrail :: "js \<Rightarrow> query" where
  "useAuditTrail params =
     (get_query [JStr ''audit-trail'', params] ''/audit/trail'')
     \<lparr>q_request := (new_request GET ''/audit/trail'' JUndef)\<lparr>a_params := params\<rparr>\<rparr>"

definition useAIUsage :: "string \<Rightarrow> query" where
  "useAIUsage i =
     (get_query [JStr ''ai-usage'', JStr i] (''/audit/datasets/'' @ i @ ''/ai-usage''))
     \<lparr>q_enabled := i \<noteq> []\<rparr>"

definition useComplianceReport :: query where
  "useComplianceReport =
     get_query [JStr ''compliance-report''] ''/audit/compliance-report''"

definition useLineage :: "string \<Rightarrow> query" where
  "useLineage i =
     (get_query [JStr ''lineage'', JStr i] (''/audit/lineage/'' @ i))
     \<lparr>q_enabled := i \<noteq> []\<rparr>"

definition useSystemHealth :: query where
  "useSystemHealth =
     (get_query [JStr ''system-health''] ''/observability/health'')
     \<lparr>q_refetchInterval := Some 30000\<rparr>"

definition useSystemMetrics :: query where
  "useSystemMetrics =
     (get_query [JStr ''system-metrics''] ''/observability/metrics'')
     \<lparr>q_refetchInterval := Some 10000\<rparr>"

definition useAlerts :: query where
  "useAlerts =
     get_query [JStr ''alerts''] ''/observability/alerts''"

definition useCreateAlertRule :: "js mutation" where
  "useCreateAlertRule =
     \<lparr>m_request = (\<lambda>data. new_request POST ''/observability/alerts/rules'' data),
      m_result = (\<lambda>d. d),
      m_success = (\<lambda>d data. [Invalidate [JStr ''alerts''],
         Toast Success (JStr ''Alert rule created'')]),
      m_error = toast_error ''Failed to create alert rule'', m_settled = []\<rparr>"

end
