(* ===== verification/FeHooksGov.thy ===== *)
theory FeHooksGov
  imports FeHooksCore
begin

text \<open>
  The hooks of the web front end on privacy, jobs, integrations, notifications, the compliance
  advisor, redundant data, labels, feedback, the data map, lineage and AI governance, one section
  for each file of \<open>trust-vault-frontend/hooks\<close>. The second \<open>useReports\<close>, of \<open>use-datamap.ts\<close>, is
  \<open>useReports_datamap\<close>.
\<close>

section \<open>\<open>use-privacy.ts\<close>\<close>

definition useDSARs :: query where
  "useDSARs =
     get_query [JStr ''dsars''] ''/privacy/dsar''"

definition useDSAR :: "string \<Rightarrow> query" where
  "useDSAR i =
     (get_query [JStr ''dsars'', JStr i] (''/privacy/dsar/'' @ i))
     \<lparr>q_enabled := i \<noteq> []\<rparr>"

definition useCreateDSAR :: "js mutation" where
  "useCreateDSAR =
     \<lparr>m_request = (\<lambda>data. new_request POST ''/privacy/dsar'' data),
      m_result = (\<lambda>d. d),
      m_success = (\<lambda>d data. [Invalidate [JStr ''dsars''],
         Toast Success (JStr ''DSAR created successfully'')]),
      m_error = toast_error ''Failed to create DSAR'', m_settled = []\<rparr>"

definition useDSARPackage :: "string \<Rightarrow> query" where
  "useDSARPackage i =
     (get_query [JStr ''dsars'', JStr i, JStr ''package''] (''/privacy/dsar/'' @ i @ ''/package''))
     \<lparr>q_enabled := False\<rparr>"

text \<open>The variable without its \<open>id\<close> is the body.\<close>

definition useUpdateDSAR :: "(string \<times> js) mutation" where
  "useUpdateDSAR =
     \<lparr>m_request = (\<lambda>(i, data). new_request PUT (''/privacy/dsar/'' @ i) data),
      m_result = (\<lambda>d. d),
      m_success = (\<lambda>d (i, data). [Invalidate [JStr ''dsars''],
         Invalidate [JStr ''dsars'', JStr i],
         Toast Success (JStr ''DSAR updated successfully'')]),
      m_error = toast_error ''Failed to update DSAR'', m_settled = []\<rparr>"

definition useDeleteDSAR :: "string mutation" where
  "useDeleteDSAR =
     \<lparr>m_request = (\<lambda>i. new_request DELETE (''/privacy/dsar/'' @ i) JUndef),
      m_result = (\<lambda>d. d),
      m_success = (\<lambda>d i. [Invalidate [JStr ''dsars''],
         Toast Success (JStr ''DSAR deleted successfully'')]),
      m_error = toast_error ''Failed to delete DSAR'', m_settled = []\<rparr>"

definition useGeneratePIA :: "string mutation" where
  "useGeneratePIA =
     \<lparr>m_request = (\<lambda>i. new_request POST ''/privacy/pia'' (JObj [(''dataset_id'', JStr i)])),
      m_result = (\<lambda>d. d),
      m_success = (\<lambda>d i. [Toast Success (JStr ''PIA generated successfully'')]),
      m_error = toast_error ''Failed to generate PIA'', m_settled = []\<rparr>"

definition usePIA :: "string \<Rightarrow> query" where
  "usePIA i =
     (get_query [JStr ''pia'', JStr i] (''/privacy/pia/'' @ i))
     \<lparr>q_enabled := i \<noteq> []\<rparr>"

definition useRoPA :: query where
  "useRoPA =
     get_query [JStr ''ropa''] ''/privacy/ropa''"

definition useCreateRoPA :: "js mutation" where
  "useCreateRoPA =
     \<lparr>m_request = (\<lambda>data. new_request POST ''/privacy/ropa'' data),
      m_result = (\<lambda>d. d),
      m_success = (\<lambda>d data. [Invalidate [JStr ''ropa''],
         Toast Success (JStr ''RoPA entry created'')]),
      m_error = toast_error ''Failed to create RoPA entry'', m_settled = []\<rparr>"

definition useRecordConsent :: "js mutation" where
  "useRecordConsent =
     \<lparr>m_request = (\<lambda>data. new_request POST ''/privacy/consent'' data),
      m_result = (\<lambda>d. d),
      m_success = (\<lambda>d data. [Toast Success (JStr ''Consent recorded'')]),
      m_error = toast_error ''Failed to record consent'', m_settled = []\<rparr>"

definition useWithdrawConsent :: "string mutation" where
  "useWithdrawConsent =
     \<lparr>m_request = (\<lambda>i. new_request DELETE (''/privacy/consent/'' @ i) JUndef),
      m_result = (\<lambda>d. d),
      m_success = (\<lambda>d i. [Toast Success (JStr ''Consent withdrawn'')]),
      m_error = toast_error ''Failed to withdraw consent'', m_settled = []\<rparr>"

definition useRetentionViolations :: query where
  "useRetentionViolations =
     get_query [JStr ''retention-violations''] ''/privacy/retention/violations''"

definition useSetRetentionPolicy :: "js mutation" where
  "useSetRetentionPolicy =
     \<lparr>m_request = (\<lambda>data. new_request POST ''/privacy/retention/policies'' data),
      m_result = (\<lambda>d. d),
      m_success = (\<lambda>d data. [Toast Success (JStr ''Retention policy set'')]),
      m_error = toast_error ''Failed to set retention policy'', m_settled = []\<rparr>"

definition useDPIAs :: query where
  "useDPIAs =
     (get_query [JStr ''dpias''] ''/privacy/dpia'')
     \<lparr>q_select := or_empty\<rparr>"

definition useDPIA :: "string \<Rightarrow> query" where
  "useDPIA i =
     (get_query [JStr ''dpias'', JStr i] (''/privacy/dpia/'' @ i))
     \<lparr>q_enabled := i \<noteq> []\<rparr>"

definition useCreateDPIA :: "js mutation" where
  "useCreateDPIA =
     \<lparr>m_request = (\<lambda>data. new_request POST ''/privacy/dpia'' data),
      m_result = (\<lambda>d. d),
      m_success = (\<lambda>d data. [Invalidate [JStr ''dpias''],
         Toast Success (JStr ''DPIA created'')]),
      m_error = toast_error ''Failed to create DPIA'', m_settled = []\<rparr>"

definition useUpdateDPIAStep :: "(string \<times> string \<times> js) mutation" where
  "useUpdateDPIAStep =
     \<lparr>m_request = (\<lambda>(i, step, data). new_request PUT (''/privacy/dpia/'' @ i @ ''/step/'' @ step) data),
      m_result = (\<lambda>d. d),
      m_success = (\<lambda>d (i, step, data). [Invalidate [JStr ''dpias'', JStr i],
         Invalidate [JStr ''dpias''],
         Toast Success (JStr ''Step updated'')]),
      m_error = toast_error ''Failed to update step'', m_settled = []\<rparr>"

definition statusMessages :: "(string \<times> string) list" where
  "statusMessages =
     [(''approved'', ''DPIA approved by DPO''),
      (''rejected'', ''DPIA rejected''),
      (''pending_dpo'', ''Submitted for DPO review''),
      (''completed'', ''DPIA completed'')]"

definition useUpdateDPIAStatus :: "(string \<times> string \<times> js) mutation" where
  "useUpdateDPIAStatus =
     \<lparr>m_request = (\<lambda>(i, status, notes). new_request PUT (''/privacy/dpia/'' @ i @ ''/status'')
         (JObj [(''status'', JStr status), (''notes'', notes)])),
      m_result = (\<lambda>d. d),
      m_success = (\<lambda>d (i, status, notes). [Invalidate [JStr ''dpias'', JStr i],
         Invalidate [JStr ''dpias''],
         Toast Success (JStr (opt_default ''Status updated'' (map_of statusMessages status)))]),
      m_error = toast_error ''Failed to update status'', m_settled = []\<rparr>"

definition useConsentRecords :: "string option \<Rightarrow> string option \<Rightarrow> query" where
  "useConsentRecords purpose status =
     (get_query [JStr ''consent-records'', js_of_opt JStr purpose, js_of_opt JStr status]
        (''/privacy/consent/records?'' @
           params_string (set_text ''purpose'' purpose @ set_text ''status'' status)))
     \<lparr>q_select := or_empty\<rparr>"

definition useConsentStats :: query where
  "useConsentStats =
     get_query [JStr ''consent-stats''] ''/privacy/consent/stats''"

definition useRecordConsentV2 :: "js mutation" where
  "useRecordConsentV2 =
     \<lparr>m_request = (\<lambda>data. new_request POST ''/privacy/consent/record'' data),
      m_result = (\<lambda>d. d),
      m_success = (\<lambda>d data. [Invalidate [JStr ''consent-records''],
         Invalidate [JStr ''consent-stats''],
         Toast Success (JStr ''Consent recorded'')]),
      m_error = toast_error ''Failed to record consent'', m_settled = []\<rparr>"

definition useWithdrawConsentV2 :: "string mutation" where
  "useWithdrawConsentV2 =
     \<lparr>m_request = (\<lambda>i. new_request POST (''/privacy/consent/withdraw/'' @ i) (JObj [])),
      m_result = (\<lambda>d. d),
      m_success = (\<lambda>d i. [Invalidate [JStr ''consent-records''],
         Invalidate [JStr ''consent-stats''],
         Toast Success (JStr ''Consent withdrawn'')]),
      m_error = toast_error ''Failed to withdraw consent'', m_settled = []\<rparr>"

section \<open>\<open>use-jobs.ts\<close>\<close>

definition useJobs :: query where
  "useJobs =
     get_query [JStr ''jobs''] ''/jobs''"

definition useJob :: "string \<Rightarrow> query" where
  "useJob i =
     (get_query [JStr ''jobs'', JStr i] (''/jobs/'' @ i))
     \<lparr>q_enabled := i \<noteq> []\<rparr>"

definition useCreateJob :: "js mutation" where
  "useCreateJob =
     \<lparr>m_request = (\<lambda>data. new_request POST ''/jobs'' data),
      m_result = (\<lambda>d. d),
      m_success = (\<lambda>d data. [Invalidate [JStr ''jobs''],
         Toast Success (JStr ''Job created successfully'')]),
      m_error = toast_error ''Failed to create job'', m_settled = []\<rparr>"

definition useUpdateJob :: "(string \<times> js) mutation" where
  "useUpdateJob =
     \<lparr>m_request = (\<lambda>(i, data). new_request PUT (''/jobs/'' @ i) data),
      m_result = (\<lambda>d. d),
      m_success = (\<lambda>d (i, data). [Invalidate [JStr ''jobs''],
         Invalidate [JStr ''jobs'', JStr i],
         Toast Success (JStr ''Job updated successfully'')]),
      m_error = toast_error ''Failed to update job'', m_settled = []\<rparr>"

definition useDeleteJob :: "string mutation" where
  "useDeleteJob =
     \<lparr>m_request = (\<lambda>i. new_request DELETE (''/jobs/'' @ i) JUndef),
      m_result = (\<lambda>d. JUndef),
      m_success = (\<lambda>d i. [Invalidate [JStr ''jobs''],
         Toast Success (JStr ''Job deleted successfully'')]),
      m_error = toast_error ''Failed to delete job'', m_settled = []\<rparr>"

definition useRunJobNow :: "string mutation" where
  "useRunJobNow =
     \<lparr>m_request = (\<lambda>i. new_request POST (''/jobs/'' @ i @ ''/run-now'') JUndef),
      m_result = (\<lambda>d. d),
      m_success = (\<lambda>d i. [Invalidate [JStr ''jobs''],
         Invalidate [JStr ''jobs'', JStr i],
         Invalidate [JStr ''jobs'', JStr i, JStr ''history''],
         Toast Success (JStr ''Job started'')]),
      m_error = toast_error ''Failed to run job'', m_settled = []\<rparr>"

definition useJobHistory :: "string \<Rightarrow> query" where
  "useJobHistory i =
     (get_query [JStr ''jobs'', JStr i, JStr ''history''] (''/jobs/'' @ i @ ''/history''))
     \<lparr>q_enabled := i \<noteq> []\<rparr>"

definition useIntegrations :: query where
  "useIntegrations =
     get_query [JStr ''integrations''] ''/integrations''"

definition useIntegration :: "string \<Rightarrow> query" where
  "useIntegration i =
     (get_query [JStr ''integrations'', JStr i] (''/integrations/'' @ i))
     \<lparr>q_enabled := i \<noteq> []\<rparr>"

definition useCreateIntegration :: "js mutation" where
  "useCreateIntegration =
     \<lparr>m_request = (\<lambda>data. new_request POST ''/integrations'' data),
      m_result = (\<lambda>d. d),
      m_success = (\<lambda>d data. [Invalidate [JStr ''integrations''],
         Toast Success (JStr ''Integration created successfully'')]),
      m_error = toast_error ''Failed to create integration'', m_settled = []\<rparr>"

definition useUpdateIntegration :: "(string \<times> js) mutation" where
  "useUpdateIntegration =
     \<lparr>m_request = (\<lambda>(i, data). new_request PUT (''/integrations/'' @ i) data),
      m_result = (\<lambda>d. d),
      m_success = (\<lambda>d (i, data). [Invalidate [JStr ''integrations''],
         Invalidate [JStr ''integrations'', JStr i],
         Toast Success (JStr ''Integration updated successfully'')]),
      m_error = toast_error ''Failed to update integration'', m_settled = []\<rparr>"

definition useDeleteIntegration :: "string mutation" where
  "useDeleteIntegration =
     \<lparr>m_request = (\<lambda>i. new_request DELETE (''/integrations/'' @ i) JUndef),
      m_result = (\<lambda>d. JUndef),
      m_success = (\<lambda>d i. [Invalidate [JStr ''integrations''],
         Toast Success (JStr ''Integration deleted successfully'')]),
      m_error = toast_error ''Failed to delete integration'', m_settled = []\<rparr>"

definition useTestIntegration :: "string mutation" where
  "useTestIntegration =
     \<lparr>m_request = (\<lambda>i. new_request POST (''/integrations/'' @ i @ ''/test'') JUndef),
      m_result = (\<lambda>d. d),
      m_success = (\<lambda>d i. []),
      m_error = toast_error ''Integration test failed'', m_settled = []\<rparr>"

definition useSyncIntegration :: "string mutation" where
  "useSyncIntegration =
     \<lparr>m_request = (\<lambda>i. new_request POST (''/integrations/'' @ i @ ''/sync'') JUndef),
      m_result = (\<lambda>d. d),
      m_success = (\<lambda>d i. [Invalidate [JStr ''integrations'', JStr i],
         Toast Success (JStr ''Sync started'')]),
      m_error = toast_error ''Failed to sync integration'', m_settled = []\<rparr>"

definition useIntegrationLogs :: "string \<Rightarrow> query" where
  "useIntegrationLogs i =
     (get_query [JStr ''integrations'', JStr i, JStr ''logs''] (''/integrations/'' @ i @ ''/logs''))
     \<lparr>q_enabled := i \<noteq> []\<rparr>"

definition useNotifications :: query where
  "useNotifications =
     get_query [JStr ''notifications''] ''/notifications''"

definition useMarkNotificationRead :: "string mutation" where
  "useMarkNotificationRead =
     \<lparr>m_request = (\<lambda>i. new_request PUT (''/notifications/'' @ i @ ''/read'') JUndef),
      m_result = (\<lambda>d. d),
      m_success = (\<lambda>d i. [Invalidate [JStr ''notifications'']]),
      m_error = no_error_effects, m_settled = []\<rparr>"

definition useMarkAllNotificationsRead :: "unit mutation" where
  "useMarkAllNotificationsRead =
     \<lparr>m_request = (\<lambda>u. new_request PUT ''/notifications/read-all'' JUndef),
      m_result = (\<lambda>d. d),
      m_success = (\<lambda>d u. [Invalidate [JStr ''notifications'']]),
      m_error = no_error_effects, m_settled = []\<rparr>"

definition useDeleteNotification :: "string mutation" where
  "useDeleteNotification =
     \<lparr>m_request = (\<lambda>i. new_request DELETE (''/notifications/'' @ i) JUndef),
      m_result = (\<lambda>d. JUndef),
      m_success = (\<lambda>d i. [Invalidate [JStr ''notifications'']]),
      m_error = no_error_effects, m_settled = []\<rparr>"

definition useWebhooks :: query where
  "useWebhooks =
     get_query [JStr ''webhooks''] ''/notifications/webhooks''"

definition useCreateWebhook :: "js mutation" where
  "useCreateWebhook =
     \<lparr>m_request = (\<lambda>data. new_request POST ''/notifications/webhooks'' data),
      m_result = (\<lambda>d. d),
      m_success = (\<lambda>d data. [Invalidate [JStr ''webhooks''],
         Toast Success (JStr ''Webhook created successfully'')]),
      m_error = toast_error ''Failed to create webhook'', m_settled = []\<rparr>"

definition useDeleteWebhook :: "string mutation" where
  "useDeleteWebhook =
     \<lparr>m_request = (\<lambda>i. new_request DELETE (''/notifications/webhooks/'' @ i) JUndef),
      m_result = (\<lambda>d. JUndef),
      m_success = (\<lambda>d i. [Invalidate [JStr ''webhooks''],
         Toast Success (JStr ''Webhook deleted successfully'')]),
      m_error = toast_error ''Failed to delete webhook'', m_settled = []\<rparr>"

section \<open>\<open>use-advisor.ts\<close>\<close>

definition useRecommendations :: query where
  "useRecommendations =
     get_query [JStr ''recommendations''] ''/advisor/recommendations''"

definition useComplianceGaps :: query where
  "useComplianceGaps =
     get_query [JStr ''compliance-gaps''] ''/advisor/gaps''"

definition useRunComplianceAssessment :: "unit mutation" where
  "useRunComplianceAssessment =
     \<lparr>m_request = (\<lambda>u. new_request POST ''/advisor/assess'' JUndef),
      m_result = (\<lambda>d. d),
      m_success = (\<lambda>d u. [Invalidate [JStr ''recommendations''],
         Invalidate [JStr ''compliance-gaps''],
         Invalidate [JStr ''risk-score''],
         Invalidate [JStr ''assessment-logs''],
         Toast Success (JStr ''Compliance assessment completed'')]),
      m_error = toast_error ''Failed to run compliance assessment'', m_settled = []\<rparr>"

definition useAssessmentLogs :: query where
  "useAssessmentLogs =
     get_query [JStr ''assessment-logs''] ''/advisor/assessment/logs''"

definition useGenerateDefenseDocket :: "js mutation" where
  "useGenerateDefenseDocket =
     \<lparr>m_request = (\<lambda>data. new_request POST ''/advisor/defense-docket'' data),
      m_result = (\<lambda>d. d),
      m_success = (\<lambda>d data. [Toast Success (JStr ''Defense docket generated'')]),
      m_error = toast_error ''Failed to generate defense docket'', m_settled = []\<rparr>"

definition usePlaybook :: "string \<Rightarrow> query" where
  "usePlaybook i =
     (get_query [JStr ''playbook'', JStr i] (''/advisor/playbook/'' @ i))
     \<lparr>q_enabled := i \<noteq> []\<rparr>"

definition useRiskScore :: query where
  "useRiskScore =
     get_query [JStr ''risk-score''] ''/advisor/risk-score''"

definition useROTSummary :: query where
  "useROTSummary =
     get_query [JStr ''rot-summary''] ''/rot/summary''"

definition useROTDatasets :: query where
  "useROTDatasets =
     get_query [JStr ''rot-datasets''] ''/rot/datasets''"

definition useROTDuplicates :: query where
  "useROTDuplicates =
     get_query [JStr ''rot-duplicates''] ''/rot/duplicates''"

definition useTriggerROTScan :: "unit mutation" where
  "useTriggerROTScan =
     \<lparr>m_request = (\<lambda>u. new_request POST ''/rot/scan'' JUndef),
      m_result = (\<lambda>d. d),
      m_success = (\<lambda>d u. [Invalidate [JStr ''rot-summary''],
         Invalidate [JStr ''rot-datasets''],
         Toast Success (JStr ''ROT scan started'')]),
      m_error = toast_error ''Failed to start ROT scan'', m_settled = []\<rparr>"

definition useRemediateROT :: "js mutation" where
  "useRemediateROT =
     \<lparr>m_request = (\<lambda>data. new_request POST ''/rot/remediate'' data),
      m_result = (\<lambda>d. d),
      m_success = (\<lambda>d data. [Invalidate [JStr ''rot-summary''],
         Invalidate [JStr ''rot-datasets''],
         Toast Success (JStr ''ROT remediation started'')]),
      m_error = toast_error ''Failed to remediate ROT data'', m_settled = []\<rparr>"

definition useDatasetLabel :: "string \<Rightarrow> query" where
  "useDatasetLabel i =
     (get_query [JStr ''labels'', JStr i] (''/labels/datasets/'' @ i))
     \<lparr>q_enabled := i \<noteq> []\<rparr>"

definition useAssignLabel :: "js mutation" where
  "useAssignLabel =
     \<lparr>m_request = (\<lambda>data. new_request POST ''/labels/assign'' data),
      m_result = (\<lambda>d. d),
      m_success = (\<lambda>d data. [Invalidate [JStr ''labels'', jprop ''dataset_id'' data],
         Toast Success (JStr ''Label assigned'')]),
      m_error = toast_error ''Failed to assign label'', m_settled = []\<rparr>"

definition useLabelRules :: query where
  "useLabelRules =
     get_query [JStr ''label-rules''] ''/labels/rules''"

definition useCreateLabelRule :: "js mutation" where
  "useCreateLabelRule =
     \<lparr>m_request = (\<lambda>data. new_request POST ''/labels/rules'' data),
      m_result = (\<lambda>d. d),
      m_success = (\<lambda>d data. [Invalidate [JStr ''label-rules''],
         Toast Success (JStr ''Label rule created'')]),
      m_error = toast_error ''Failed to create label rule'', m_settled = []\<rparr>"

text \<open>The variable without its \<open>id\<close> is the body.\<close>

definition useUpdateLabelRule :: "(string \<times> js) mutation" where
  "useUpdateLabelRule =
     \<lparr>m_request = (\<lambda>(i, rest). new_request PUT (''/labels/rules/'' @ i) rest),
      m_result = (\<lambda>d. d),
      m_success = (\<lambda>d (i, rest). [Invalidate [JStr ''label-rules''],
         Toast Success (JStr ''Label rule updated'')]),
      m_error = toast_error ''Failed to update label rule'', m_settled = []\<rparr>"

definition useDeleteLabelRule :: "string mutation" where
  "useDeleteLabelRule =
     \<lparr>m_request = (\<lambda>i. new_request DELETE (''/labels/rules/'' @ i) JUndef),
      m_result = (\<lambda>d. JUndef),
      m_success = (\<lambda>d i. [Invalidate [JStr ''label-rules''],
         Toast Success (JStr ''Label rule deleted'')]),
      m_error = toast_error ''Failed to delete label rule'', m_settled = []\<rparr>"

definition useLabelSummary :: query where
  "useLabelSummary =
     get_query [JStr ''label-summary''] ''/labels/summary''"

definition useSubmitCorrection :: "js mutation" where
  "useSubmitCorrection =
     \<lparr>m_request = (\<lambda>data. new_request POST ''/feedback/correction'' data),
      m_result = (\<lambda>d. d),
      m_success = (\<lambda>d data. [Invalidate [JStr ''feedback-stats''],
         Toast Success (JStr ''Correction submitted'')]),
      m_error = toast_error ''Failed to submit correction'', m_settled = []\<rparr>"

definition useSubmitConfirmation :: "js mutation" where
  "useSubmitConfirmation =
     \<lparr>m_request = (\<lambda>data. new_request POST ''/feedback/confirmation'' data),
      m_result = (\<lambda>d. d),
      m_success = (\<lambda>d data. [Invalidate [JStr ''feedback-stats''],
         Toast Success (JStr ''Confirmation submitted'')]),
      m_error = toast_error ''Failed to submit confirmation'', m_settled = []\<rparr>"

definition useFeedbackStats :: query where
  "useFeedbackStats =
     get_query [JStr ''feedback-stats''] ''/feedback/stats''"

definition useCreateCustomEntity :: "js mutation" where
  "useCreateCustomEntity =
     \<lparr>m_request = (\<lambda>data. new_request POST ''/feedback/custom-entity'' data),
      m_result = (\<lambda>d. d),
      m_success = (\<lambda>d data. [Invalidate [JStr ''custom-entities''],
         Toast Success (JStr ''Custom entity created'')]),
      m_error = toast_error ''Failed to create custom entity'', m_settled = []\<rparr>"

definition useKnowledgeCache :: query where
  "useKnowledgeCache =
     get_query [JStr ''knowledge-cache''] ''/feedback/knowledge-cache''"

definition useCorrections :: query where
  "useCorrections =
     get_query [JStr ''corrections''] ''/feedback/corrections''"

definition useCorrectionTrend :: query where
  "useCorrectionTrend =
     get_query [JStr ''correction-trend''] ''/feedback/trend''"

definition useCustomEntities :: query where
  "useCustomEntities =
     get_query [JStr ''custom-entities''] ''/feedback/custom-entities''"

section \<open>\<open>use-datamap.ts\<close>\<close>

definition useDataMap :: query where
  "useDataMap =
     get_query [JStr ''datamap''] ''/datamap''"

definition useDataMapSources :: query where
  "useDataMapSources =
     get_query [JStr ''datamap-sources''] ''/datamap/sources''"

definition useDataMapFlows :: query where
  "useDataMapFlows =
     get_query [JStr ''datamap-flows''] ''/datamap/flows''"

definition useDataMapCoverage :: query where
  "useDataMapCoverage =
     get_query [JStr ''datamap-coverage''] ''/datamap/coverage''"

definition useDataMapGeography :: query where
  "useDataMapGeography =
     get_query [JStr ''datamap-geography''] ''/datamap/geography''"

definition useDarkData :: query where
  "useDarkData =
     get_query [JStr ''dark-data''] ''/datamap/dark-data''"

definition useShadowIT :: query where
  "useShadowIT =
     get_query [JStr ''shadow-it''] ''/datamap/shadow-it''"

definition useAIModels :: query where
  "useAIModels =
     get_query [JStr ''ai-models''] ''/ai-governance/models''"

definition useDatasetLineage :: "string \<Rightarrow> query" where
  "useDatasetLineage i =
     (get_query [JStr ''lineage'', JStr i] (''/audit/lineage/'' @ i))
     \<lparr>q_enabled := i \<noteq> []\<rparr>"

definition useAIGovPolicies :: query where
  "useAIGovPolicies =
     get_query [JStr ''ai-gov-policies''] ''/ai-governance/policies''"

definition useAIEligibility :: "string \<Rightarrow> string option \<Rightarrow> query" where
  "useAIEligibility datasetId useCase =
     (get_query [JStr ''ai-eligibility'', JStr datasetId, js_of_opt JStr useCase]
        (''/ai-governance/eligible/'' @ datasetId @
           (case useCase of
              Some u \<Rightarrow> (if u \<noteq> [] then ''?use_case='' @ u else [])
            | None \<Rightarrow> [])))
     \<lparr>q_enabled := datasetId \<noteq> []\<rparr>"

definition useCheckEligibility :: "js mutation" where
  "useCheckEligibility =
     \<lparr>m_request = (\<lambda>data. new_request POST ''/ai-governance/check-eligibility'' data),
      m_result = (\<lambda>d. d),
      m_success = (\<lambda>d data. []),
      m_error = no_error_effects, m_settled = []\<rparr>"

definition useEligibleDatasets :: query where
  "useEligibleDatasets =
     get_query [JStr ''eligible-datasets''] ''/ai-governance/datasets''"

definition useModelLineage :: "string \<Rightarrow> query" where
  "useModelLineage i =
     (get_query [JStr ''model-lineage'', JStr i] (''/ai-governance/lineage/'' @ i))
     \<lparr>q_enabled := i \<noteq> []\<rparr>"

definition useReports_datamap :: query where
  "useReports_datamap =
     get_query [JStr ''reports''] ''/reports''"

definition useAnalyticsSummary :: query where
  "useAnalyticsSummary =
     get_query [JStr ''analytics-summary''] ''/analytics/summary''"

definition useAnalyticsTrends :: query where
  "useAnalyticsTrends =
     get_query [JStr ''analytics-trends''] ''/analytics/trends''"

definition useExtractDocument :: query where
  "useExtractDocument =
     get_query [JStr ''documents''] ''/documents/review-queue''"

end
