(* ===== verification/FeCache.thy ===== *)
theory FeCache
  imports FeHooksGov
begin

text \<open>
  The query cache of the web front end as a whole: every query hook and every mutation hook in one
  table each, what the mutations refresh, what they leave stale, whether two queries can share an
  entry, and what a logout leaves behind.
\<close>

section \<open>Tables\<close>

text \<open>All query hooks, for one id, and all mutation hooks, for an id, a step or status, and data.\<close>

definition app_queries :: "string \<Rightarrow> query list" where
  "app_queries i =
     [
      useRecommendations, useComplianceGaps, useAssessmentLogs, usePlaybook i, useRiskScore,
      useROTSummary, useROTDatasets, useROTDuplicates, useDatasetLabel i, useLabelRules,
      useLabelSummary, useFeedbackStats, useKnowledgeCache, useCorrections, useCorrectionTrend,
      useCustomEntities, useAuditTrail JUndef, useAIUsage i, useComplianceReport, useLineage i,
      useSystemHealth, useSystemMetrics, useAlerts, useCurrentUser, useUsers, useAPIKeys,
      useInvitations, useClassifyStats, useClassificationModels, useClassificationRules,
      useDatasetClassification i, useDatasetColumns i, useDocumentClassifications i, useDataMap,
      useDataMapSources, useDataMapFlows, useDataMapCoverage, useDataMapGeography, useDarkData,
      useShadowIT, useAIModels, useDatasetLineage i, useAIGovPolicies, useAIEligibility i None,
      useEligibleDatasets, useModelLineage i, useReports_datamap, useAnalyticsSummary,
      useAnalyticsTrends, useExtractDocument, useDataSources, useDataSource i, useScanStatus i,
      useScanLogs i, useDataSourceClassificationStats i, useGateStats, useGateQueries None,
      useJobs, useJob i, useJobHistory i, useIntegrations, useIntegration i, useIntegrationLogs i,
      useNotifications, useWebhooks, usePolicies, usePolicy i, useGovernanceStats, useDSARs,
      useDSAR i, useDSARPackage i, usePIA i, useRoPA, useRetentionViolations, useDPIAs, useDPIA i,
      useConsentRecords None None, useConsentStats, useQualityScore i, useQualityTrends,
      useQualityDimensions, useDataProfile i, useCDEs, useRemediationActions, useRemediationLogs i,
      useReports, useReport i]"

definition app_mutations :: "string \<Rightarrow> string \<Rightarrow> js \<Rightarrow> unit mutation list" where
  "app_mutations i st data =
     [
      pack useRunComplianceAssessment (), pack useGenerateDefenseDocket data,
      pack useTriggerROTScan (), pack useRemediateROT data, pack useAssignLabel data,
      pack useCreateLabelRule data, pack useUpdateLabelRule (i, data), pack useDeleteLabelRule i,
      pack useSubmitCorrection data, pack useSubmitConfirmation data,
      pack useCreateCustomEntity data, pack useCreateAlertRule data, pack useLogin data,
      pack useLogout (), pack useCreateUser data, pack useDeleteUser i, pack useUpdateProfile data,
      pack useCreateAPIKey data, pack useDeleteAPIKey i, pack useCreateInvitation data,
      pack useCancelInvitation i, pack useResendInvitation i, pack useClassifyText data,
      pack useClassifyDataset data, pack useCreateClassificationRule data,
      pack useDeleteClassificationRule i, pack useReclassifyDataset i,
      pack useClassifyDocument data, pack useCheckEligibility data, pack useCreateDataSource data,
      pack useUpdateDataSource (i, data), pack useDeleteDataSource i, pack useTriggerScan i,
      pack useGateQuery data, pack useGateRetrieve data, pack useGateValidate data,
      pack useCreateJob data, pack useUpdateJob (i, data), pack useDeleteJob i,
      pack useRunJobNow i, pack useCreateIntegration data, pack useUpdateIntegration (i, data),
      pack useDeleteIntegration i, pack useTestIntegration i, pack useSyncIntegration i,
      pack useMarkNotificationRead i, pack useMarkAllNotificationsRead (),
      pack useDeleteNotification i, pack useCreateWebhook data, pack useDeleteWebhook i,
      pack useCreatePolicy data, pack useUpdatePolicy (i, data), pack useDeletePolicy i,
      pack useEvaluatePolicy data, pack useCreateDSAR data, pack useUpdateDSAR (i, data),
      pack useDeleteDSAR i, pack useGeneratePIA i, pack useCreateRoPA data,
      pack useRecordConsent data, pack useWithdrawConsent i, pack useSetRetentionPolicy data,
      pack useCreateDPIA data, pack useUpdateDPIAStep (i, st, data),
      pack useUpdateDPIAStatus (i, st, data), pack useRecordConsentV2 data,
      pack useWithdrawConsentV2 i, pack useAssessQuality i, pack useSetQualityThreshold data,
      pack useAutoProfile i, pack useCreateCDE data, pack useDeleteCDE i,
      pack useExecuteRemediationAction i, pack useCreateRemediationAction data,
      pack useGenerateReport data]"

lemmas query_defs =
  useRecommendations_def useComplianceGaps_def useAssessmentLogs_def usePlaybook_def
  useRiskScore_def useROTSummary_def useROTDatasets_def useROTDuplicates_def
  useDatasetLabel_def useLabelRules_def useLabelSummary_def useFeedbackStats_def
  useKnowledgeCache_def useCorrections_def useCorrectionTrend_def useCustomEntities_def
  useAuditTrail_def useAIUsage_def useComplianceReport_def useLineage_def useSystemHealth_def
  useSystemMetrics_def useAlerts_def useCurrentUser_def useUsers_def useAPIKeys_def
  useInvitations_def useClassifyStats_def useClassificationModels_def
  useClassificationRules_def useDatasetClassification_def useDatasetColumns_def
  useDocumentClassifications_def useDataMap_def useDataMapSources_def useDataMapFlows_def
  useDataMapCoverage_def useDataMapGeography_def useDarkData_def useShadowIT_def
  useAIModels_def useDatasetLineage_def useAIGovPolicies_def useAIEligibility_def
  useEligibleDatasets_def useModelLineage_def useReports_datamap_def useAnalyticsSummary_def
  useAnalyticsTrends_def useExtractDocument_def useDataSources_def useDataSource_def
  useScanStatus_def useScanLogs_def useDataSourceClassificationStats_def useGateStats_def
  useGateQueries_def useJobs_def useJob_def useJobHistory_def useIntegrations_def
  useIntegration_def useIntegrationLogs_def useNotifications_def useWebhooks_def
  usePolicies_def usePolicy_def useGovernanceStats_def useDSARs_def useDSAR_def
  useDSARPackage_def usePIA_def useRoPA_def useRetentionViolations_def useDPIAs_def
  useDPIA_def useConsentRecords_def useConsentStats_def useQualityScore_def
  useQualityTrends_def useQualityDimensions_def useDataProfile_def useCDEs_def
  useRemediationActions_def useRemediationLogs_def useReports_def useReport_def

lemmas mutation_defs =
  useRunComplianceAssessment_def useGenerateDefenseDocket_def useTriggerROTScan_def
  useRemediateROT_def useAssignLabel_def useCreateLabelRule_def useUpdateLabelRule_def
  useDeleteLabelRule_def useSubmitCorrection_def useSubmitConfirmation_def
  useCreateCustomEntity_def useCreateAlertRule_def useLogout_def
  useCreateUser_def useDeleteUser_def useUpdateProfile_def useCreateAPIKey_def
  useDeleteAPIKey_def useCreateInvitation_def useCancelInvitation_def useResendInvitation_def
  useClassifyText_def useClassifyDataset_def useCreateClassificationRule_def
  useDeleteClassificationRule_def useReclassifyDataset_def useClassifyDocument_def
  useCheckEligibility_def useCreateDataSource_def useUpdateDataSource_def
  useDeleteDataSource_def useTriggerScan_def useGateQuery_def useGateRetrieve_def
  useGateValidate_def useCreateJob_def useUpdateJob_def useDeleteJob_def useRunJobNow_def
  useCreateIntegration_def useUpdateIntegration_def useDeleteIntegration_def
  useTestIntegration_def useSyncIntegration_def useMarkNotificationRead_def
  useMarkAllNotificationsRead_def useDeleteNotification_def useCreateWebhook_def
  useDeleteWebhook_def useCreatePolicy_def useUpdatePolicy_def useDeletePolicy_def
  useEvaluatePolicy_def useCreateDSAR_def useUpdateDSAR_def useDeleteDSAR_def
  useGeneratePIA_def useCreateRoPA_def useRecordConsent_def useWithdrawConsent_def
  useSetRetentionPolicy_def useCreateDPIA_def useUpdateDPIAStep_def useUpdateDPIAStatus_def
  useRecordConsentV2_def useWithdrawConsentV2_def useAssessQuality_def
  useSetQualityThreshold_def useAutoProfile_def useCreateCDE_def useDeleteCDE_def
  useExecuteRemediationAction_def useCreateRemediationAction_def

section \<open>The resources\<close>

text \<open>The mutations that create, change or remove entries of a resource, with the root of its keys.\<close>

definition resource_mutations :: "string \<Rightarrow> string \<Rightarrow> js \<Rightarrow> (string \<times> unit mutation) list" where
  "resource_mutations i st data =
     [(''policies'', pack useCreatePolicy data), (''policies'', pack useUpdatePolicy (i, data)),
      (''policies'', pack useDeletePolicy i),
      (''datasources'', pack useCreateDataSource data),
      (''datasources'', pack useUpdateDataSource (i, data)),
      (''datasources'', pack useDeleteDataSource i),
      (''jobs'', pack useCreateJob data), (''jobs'', pack useUpdateJob (i, data)),
      (''jobs'', pack useDeleteJob i), (''jobs'', pack useRunJobNow i),
      (''integrations'', pack useCreateIntegration data),
      (''integrations'', pack useUpdateIntegration (i, data)),
      (''integrations'', pack useDeleteIntegration i),
      (''dsars'', pack useCreateDSAR data), (''dsars'', pack useUpdateDSAR (i, data)),
      (''dsars'', pack useDeleteDSAR i),
      (''dpias'', pack useCreateDPIA data), (''dpias'', pack useUpdateDPIAStep (i, st, data)),
      (''dpias'', pack useUpdateDPIAStatus (i, st, data)),
      (''users'', pack useCreateUser data), (''users'', pack useDeleteUser i),
      (''currentUser'', pack useUpdateProfile data),
      (''api-keys'', pack useCreateAPIKey data), (''api-keys'', pack useDeleteAPIKey i),
      (''invitations'', pack useCreateInvitation data), (''invitations'', pack useCancelInvitation i),
      (''invitations'', pack useResendInvitation i),
      (''webhooks'', pack useCreateWebhook data), (''webhooks'', pack useDeleteWebhook i),
      (''notifications'', pack useMarkNotificationRead i),
      (''notifications'', pack useMarkAllNotificationsRead ()),
      (''notifications'', pack useDeleteNotification i),
      (''cdes'', pack useCreateCDE data), (''cdes'', pack useDeleteCDE i),
      (''label-rules'', pack useCreateLabelRule data),
      (''label-rules'', pack useUpdateLabelRule (i, data)),
      (''label-rules'', pack useDeleteLabelRule i),
      (''classification-rules'', pack useCreateClassificationRule data),
      (''classification-rules'', pack useDeleteClassificationRule i),
      (''remediation-actions'', pack useCreateRemediationAction data),
      (''remediation-actions'', pack useExecuteRemediationAction i),
      (''ropa'', pack useCreateRoPA data),
      (''consent-records'', pack useRecordConsentV2 data),
      (''consent-records'', pack useWithdrawConsentV2 i),
      (''consent-stats'', pack useRecordConsentV2 data),
      (''consent-stats'', pack useWithdrawConsentV2 i),
      (''alerts'', pack useCreateAlertRule data)]"

lemma pack_contract:
  assumes "\<And>d. Invalidate [JStr base] \<in> set (m_success m d v)"
    and "\<And>d. list_all plain_effect (m_success m d v)" and "m_settled m = []"
  shows "resource_mutation base (pack m v)"
  using assms by unfold_locales simp_all

lemma resource_contracts:
  "list_all (\<lambda>(base, m). resource_mutation base m) (resource_mutations i st data)"
  unfolding resource_mutations_def list.pred_inject prod.case
  by (intro conjI TrueI pack_contract) (simp_all add: mutation_defs)

interpretation create_policy: resource_mutation "''policies''" useCreatePolicy
  by unfold_locales (simp_all add: useCreatePolicy_def)

interpretation update_policy: resource_mutation "''policies''" useUpdatePolicy
  by unfold_locales (auto simp: useUpdatePolicy_def split: prod.splits)

interpretation delete_policy: resource_mutation "''policies''" useDeletePolicy
  by unfold_locales (simp_all add: useDeletePolicy_def)

lemma resource_contract:
  "(base, m) \<in> set (resource_mutations i st data) \<Longrightarrow> resource_mutation base m"
  using resource_contracts [of i st data] by (auto simp: list_all_iff)

section \<open>Keys\<close>

definition invalidated_keys :: "fe_effect list \<Rightarrow> js list list" where
  "invalidated_keys fs = concat (map (\<lambda>f. case f of Invalidate k \<Rightarrow> [k] | _ \<Rightarrow> []) fs)"

lemma invalidated_keys_simps [simp]:
  "invalidated_keys [] = []"
  "invalidated_keys (Invalidate k # fs) = k # invalidated_keys fs"
  "invalidated_keys (ClearCache # fs) = invalidated_keys fs"
  "invalidated_keys (Toast t m # fs) = invalidated_keys fs"
  "invalidated_keys (SetCookie c v n # fs) = invalidated_keys fs"
  "invalidated_keys (RemoveCookie c # fs) = invalidated_keys fs"
  "invalidated_keys (StoreLogin tk u # fs) = invalidated_keys fs"
  "invalidated_keys (StoreLogout # fs) = invalidated_keys fs"
  "invalidated_keys (Goto p # fs) = invalidated_keys fs"
  "invalidated_keys (Fail v # fs) = invalidated_keys fs"
  by (simp_all add: invalidated_keys_def)

lemma invalidated_keys_login: "invalidated_keys (m_success useLogin d v) = []"
  by (simp add: useLogin_def)

lemma invalidated_keys_report: "invalidated_keys (m_success useGenerateReport d v) = [[JStr ''reports'']]"
  by (simp add: useGenerateReport_def split: js.splits)

text \<open>Variables that carry the id under the names the hooks read.\<close>

definition with_ids :: "string \<Rightarrow> (string \<times> js) list \<Rightarrow> js" where
  "with_ids i rest = JObj ((''dataset_id'', JStr i) # (''document_id'', JStr i) # rest)"

lemma with_ids_props [simp]:
  "jprop ''dataset_id'' (with_ids i rest) = JStr i" "jprop ''document_id'' (with_ids i rest) = JStr i"
  by (simp_all add: with_ids_def)

text \<open>What the app's queries are keyed by, and what its mutations invalidate.\<close>

definition query_keys :: "string \<Rightarrow> js list list" where
  "query_keys i = map q_key (app_queries i)"

definition mutation_keys :: "string \<Rightarrow> string \<Rightarrow> js \<Rightarrow> js \<Rightarrow> js list list" where
  "mutation_keys i st data d =
     concat (map (\<lambda>m. invalidated_keys (m_success m d ())) (app_mutations i st data))"

definition dead_keys :: "string \<Rightarrow> string \<Rightarrow> js \<Rightarrow> js \<Rightarrow> js list list" where
  "dead_keys i st data d =
     filter (\<lambda>k. \<not> list_ex (\<lambda>q. take (length k) q = k) (query_keys i)) (mutation_keys i st data d)"

section \<open>Properties\<close>

text \<open>
  Every key a mutation of the front end invalidates belongs to a query, with two exceptions:
  classifying a dataset invalidates \<open>classifications\<close>, and classifying a document
  \<open>review-queue\<close>, which no query of the front end is stored under, so the views of those
  results stay as they are.
\<close>

theorem dead_invalidations:
  "dead_keys i st (with_ids i rest) d = [[JStr ''classifications''], [JStr ''review-queue'']]"
  by (simp add: dead_keys_def query_keys_def mutation_keys_def app_queries_def app_mutations_def
      query_defs get_query_def mutation_defs invalidated_keys_login invalidated_keys_report Let_def)

definition key_requests :: "string \<Rightarrow> (js list \<times> api_request) list" where
  "key_requests i = map (\<lambda>q. (q_key q, q_request q)) (app_queries i)"

lemmas key_requests_table =
  key_requests_def [unfolded app_queries_def query_defs get_query_def new_request_def Let_def, simplified]

lemma key_requests_agree:
  "list_all (\<lambda>(k, r). list_all (\<lambda>(k', r'). k = k' \<longrightarrow> r = r') (key_requests j)) (key_requests i)"
  unfolding key_requests_table by simp

text \<open>
  Two queries of the front end that share an entry of the cache send the same request, for any
  two ids; but the two hooks \<open>useReports\<close> share one entry with different views of an empty answer.
\<close>

theorem shared_entries_same_request:
  "(\<forall>q \<in> set (app_queries i). \<forall>q' \<in> set (app_queries j).
      q_key q = q_key q' \<longrightarrow> q_request q = q_request q')
   \<and> q_key useReports = q_key useReports_datamap
   \<and> q_select useReports JNull \<noteq> q_select useReports_datamap JNull"
proof (intro conjI)
  show "\<forall>q \<in> set (app_queries i). \<forall>q' \<in> set (app_queries j).
      q_key q = q_key q' \<longrightarrow> q_request q = q_request q'"
    using key_requests_agree [of j i] by (simp add: key_requests_def list_all_iff)
qed (simp_all add: useReports_def useReports_datamap_def get_query_def or_empty_def)

theorem shared_entries_same_request_witness:
  "q_request (useLineage ''d1'') = q_request (useDatasetLineage ''d1'')"
proof -
  have keys: "q_key (useLineage ''d1'') = q_key (useDatasetLineage ''d1'')"
    by (simp add: useLineage_def useDatasetLineage_def get_query_def)
  have "useLineage ''d1'' \<in> set (app_queries ''d1'')" "useDatasetLineage ''d1'' \<in> set (app_queries ''d1'')"
    by (simp_all add: app_queries_def)
  with keys shared_entries_same_request [THEN conjunct1, of "''d1''" "''d1''"] show ?thesis by blast
qed

text \<open>
  C10. A mutation of a resource ends as the server answers: with an error exactly when the server
  gives that error, otherwise with the result of the hook, and then every cached query of that
  resource is stale, so what is shown of it is fetched again; no entry and no data is lost.
\<close>

theorem resource_mutation_refreshes:
  assumes "prefix_filter e" and "(base, m) \<in> set (resource_mutations i st data)"
    and "run_mutation e m () s = (r, s')"
  shows "r = (case fe_server e (add_token s (m_request m ())) of
                Inl err \<Rightarrow> Inl err | Inr d \<Rightarrow> Inr (m_result m d))
      \<and> (case r of
           Inl err \<Rightarrow> True
         | Inr d \<Rightarrow>
             (\<forall>c \<in> set (fe_cache s'). \<forall>ks. ce_key c = JStr base # ks \<longrightarrow> ce_stale c)
             \<and> map (\<lambda>c. (ce_key c, ce_data c)) (fe_cache s') =
                 map (\<lambda>c. (ce_key c, ce_data c)) (fe_cache s))"
proof -
  note contract = resource_contract [OF assms(2)]
  have "r = (case fe_server e (add_token s (m_request m ())) of
                Inl err \<Rightarrow> Inl err | Inr d \<Rightarrow> Inr (m_result m d))"
    using resource_mutation.run_result [OF contract assms(1), of "()" s] assms(3) by simp
  moreover have "(\<forall>c \<in> set (fe_cache s'). \<forall>ks. ce_key c = JStr base # ks \<longrightarrow> ce_stale c)
      \<and> map (\<lambda>c. (ce_key c, ce_data c)) (fe_cache s') = map (\<lambda>c. (ce_key c, ce_data c)) (fe_cache s)"
    if "r = Inr d" for d
    using resource_mutation.refreshes [OF contract assms(1), of "()" s d s']
      resource_mutation.keeps_entries [OF contract assms(1), of "()" s d s'] assms(3) that
    by blast
  ultimately show ?thesis by (simp split: sum.split)
qed

definition ex_cached :: "js list \<Rightarrow> cache_entry" where
  "ex_cached k = \<lparr>ce_key = k, ce_data = JArr [], ce_stale = False\<rparr>"

lemma ex_prefix_filter: "prefix_filter (ex_fe_env d)"
  by (simp add: prefix_filter_def ex_fe_env_def)

lemma ex_server_answers: "fe_server (ex_fe_env d) rq = Inr d"
  by (simp add: ex_fe_env_def)

theorem resource_mutation_refreshes_witness:
  "\<exists>d s'. run_mutation (ex_fe_env JNull) (pack useDeletePolicy ''p1'') ()
        ((ex_browser [])\<lparr>fe_cache := [ex_cached [JStr ''policies'', JStr ''p1'']]\<rparr>) = (Inr d, s')
     \<and> list_all ce_stale (fe_cache s') \<and> length (fe_cache s') = 1"
proof -
  let ?s = "(ex_browser [])\<lparr>fe_cache := [ex_cached [JStr ''policies'', JStr ''p1'']]\<rparr>"
  have mem: "(''policies'', pack useDeletePolicy ''p1'') \<in> set (resource_mutations ''p1'' [] JNull)"
    by (simp add: resource_mutations_def)
  obtain r s' where run: "run_mutation (ex_fe_env JNull) (pack useDeletePolicy ''p1'') () ?s = (r, s')"
    by fastforce
  from resource_mutation_refreshes [OF ex_prefix_filter mem this, unfolded ex_server_answers sum.case]
  obtain d where r: "r = Inr d"
    and stale: "\<forall>c \<in> set (fe_cache s'). \<forall>ks. ce_key c = JStr ''policies'' # ks \<longrightarrow> ce_stale c"
    and same: "map (\<lambda>c. (ce_key c, ce_data c)) (fe_cache s') = map (\<lambda>c. (ce_key c, ce_data c)) (fe_cache ?s)"
    by (auto simp del: map_eq_conv)
  from same obtain c where "fe_cache s' = [c]" "ce_key c = [JStr ''policies'', JStr ''p1'']"
    by (auto simp: ex_cached_def)
  with run r stale show ?thesis by (intro exI [of _ d] exI [of _ s']) simp
qed

text \<open>Mutations, each with a query whose answer it changes on the server.\<close>

definition stale_views :: "string \<Rightarrow> string \<Rightarrow> (string \<times> js) list \<Rightarrow> (unit mutation \<times> query) list" where
  "stale_views i st rest =
     (let data = with_ids i rest
      in [(pack useCreatePolicy data, useGovernanceStats),
          (pack useDeletePolicy i, useGovernanceStats),
          (pack useAssignLabel data, useLabelSummary),
          (pack useSubmitCorrection data, useCorrections),
          (pack useSubmitCorrection data, useCorrectionTrend),
          (pack useAssessQuality i, useQualityDimensions),
          (pack useGeneratePIA i, usePIA i),
          (pack useSetRetentionPolicy data, useRetentionViolations),
          (pack useClassifyDataset data, useDatasetClassification i),
          (pack useClassifyDataset data, useClassifyStats),
          (pack useClassifyDocument data, useExtractDocument),
          (pack useTriggerROTScan (), useROTDuplicates),
          (pack useRecordConsent data, useConsentRecords None None),
          (pack useTriggerScan i, useDataSources)])"

definition leaves_alone :: "unit mutation \<Rightarrow> query \<Rightarrow> bool" where
  "leaves_alone m q \<longleftrightarrow> m_settled m = []
     \<and> (\<forall>d. list_all plain_effect (m_success m d ()) \<and> \<not> selects (m_success m d ()) (q_key q))"

lemma pack_leaves_alone:
  assumes "m_settled m = []" and "\<And>d. list_all plain_effect (m_success m d v)"
    and "\<And>d. \<not> selects (m_success m d v) (q_key q)"
  shows "leaves_alone (pack m v) q"
  using assms by (simp add: leaves_alone_def)

lemma stale_views_left: "list_all (\<lambda>(m, q). leaves_alone m q) (stale_views i st rest)"
  unfolding stale_views_def Let_def list.pred_inject prod.case
  by (intro conjI TrueI pack_leaves_alone)
    (simp_all add: mutation_defs query_defs get_query_def selects_def)

text \<open>
  Fourteen views stay as they were after a mutation that changes what they show: the success of
  the mutation leaves the cached answer of the query in the cache, not marked for a fetch.
\<close>

theorem mutation_leaves_view_stale:
  assumes "prefix_filter e" and "(m, q) \<in> set (stale_views i st rest)"
    and "run_mutation e m () s = (Inr d, s')"
    and "c \<in> set (fe_cache s)" and "ce_key c = q_key q"
  shows "c \<in> set (fe_cache s')"
proof -
  have alone: "leaves_alone m q" using stale_views_left [of i st rest] assms(2) by (auto simp: list_all_iff)
  obtain r s1 where sent: "api_send e (m_request m ()) s = (r, s1)" by fastforce
  with assms(3) obtain a where a: "r = Inr a"
    by (cases r) (auto simp: run_mutation_def fail_mutation_def)
  let ?fs = "m_success m (m_result m a) ()"
  have plain: "list_all plain_effect ?fs" "\<not> selects ?fs (ce_key c)"
    using alone assms(5) by (simp_all add: leaves_alone_def)
  note eff = run_effects_plain [OF plain(1) assms(1), of s1]
  obtain s2 where "run_effects e ?fs s1 = (None, s2)" using eff by (metis prod.collapse)
  with assms(3) sent a eff alone have "fe_cache s' = map (refresh ?fs) (fe_cache s)"
    by (simp add: run_mutation_def settle_def leaves_alone_def api_send_cache [OF sent])
  moreover have "refresh ?fs c = c" using plain(2) by (simp add: refresh_def)
  ultimately show ?thesis using assms(4) by (metis image_eqI list.set_map)
qed

theorem mutation_leaves_view_stale_witness:
  "\<exists>d s'. run_mutation (ex_fe_env JNull) (pack useDeletePolicy ''p1'') ()
        ((ex_browser [])\<lparr>fe_cache := [ex_cached [JStr ''governance-stats'']]\<rparr>) = (Inr d, s')
     \<and> ex_cached [JStr ''governance-stats''] \<in> set (fe_cache s')"
proof -
  let ?s = "(ex_browser [])\<lparr>fe_cache := [ex_cached [JStr ''governance-stats'']]\<rparr>"
  have pair: "(pack useDeletePolicy ''p1'', useGovernanceStats) \<in> set (stale_views ''p1'' [] [])"
    by (simp add: stale_views_def Let_def)
  obtain d s' where run: "run_mutation (ex_fe_env JNull) (pack useDeletePolicy ''p1'') () ?s = (Inr d, s')"
    using delete_policy.run_result [where v = "''p1''" and s = ?s, OF ex_prefix_filter [of JNull]]
    unfolding pack_run ex_server_answers sum.case by (metis prod.collapse)
  have "ex_cached [JStr ''governance-stats''] \<in> set (fe_cache ?s)"
    "ce_key (ex_cached [JStr ''governance-stats'']) = q_key useGovernanceStats"
    by (simp_all add: ex_cached_def useGovernanceStats_def get_query_def)
  from mutation_leaves_view_stale [OF ex_prefix_filter pair run this] run show ?thesis by blast
qed

text \<open>
  Logging out always removes both cookies and empties the auth store, whatever the server
  answers; but only a logout the server confirms also drops the cached answers and goes to the login
  page: after a failed one the answers of the last user stay in the cache.
\<close>

theorem logout_outcome:
  "(case run_mutation e useLogout () s of (r, s') \<Rightarrow>
      get_cookie ''accessToken'' s' = None \<and> get_cookie ''refreshToken'' s' = None
      \<and> \<not> as_isAuthenticated (fe_auth s') \<and> as_user (fe_auth s') = JNull \<and> as_token (fe_auth s') = JNull
      \<and> (case r of
           Inr d \<Rightarrow> fe_cache s' = [] \<and> fe_navs s' = fe_navs s @ [Push ''/login'']
         | Inl err \<Rightarrow> fe_cache s' = fe_cache s \<and>
             fe_navs s' = fe_navs s @ (if err_status err = JNum (Fin 401) then [Href ''/login''] else [])))"
  by (auto simp: run_mutation_def useLogout_def api_send_def Let_def fail_mutation_def settle_def
      no_error_effects_def store_logout_def on_api_error_def split: sum.splits)

end
