(* ===== verification/FeTable.thy ===== *)
theory FeTable
  imports JsLib
begin

text \<open>
  The shared components of the front end that decide what a page shows
  (\<open>components/base/data-table.tsx\<close>, \<open>status-badge.tsx\<close>, \<open>stat-card.tsx\<close>): the table with its sort
  buttons, the status badge, the card of a figure. What is drawn is a \<open>node\<close>: texts, statuses,
  dates, links and buttons with their actions; styles and icons without meaning are left out. A
  text React gives nothing for (\<open>undefined\<close>, \<open>null\<close>, a boolean) stays a \<open>Txt\<close> of that value.
\<close>

section \<open>Nodes\<close>

text \<open>
  \<open>When v\<close> and \<open>Day v\<close> are \<open>new Date(v).toLocaleString()\<close> and \<open>toLocaleDateString()\<close>, \<open>Grouped v\<close>
  is \<open>v.toLocaleString()\<close>; the platform writes them. \<open>To ps x\<close> is a link to the path
  \<open>ps\<close> make together. \<open>Dash\<close> and \<open>Dots\<close> are the em dash and the
  ellipsis, which are not characters of the model. \<open>Bar v\<close> is a bar of \<open>v\<close> percent.
\<close>

datatype 'a node =
    Txt js
  | Dash
  | Dots
  | When js
  | Day js
  | Grouped js
  | Bar js
  | Status js js
  | Toned string "'a node"
  | To "js list" "'a node"
  | Btn 'a "'a node"
  | Seq "'a node list"

abbreviation text_of :: "string \<Rightarrow> 'a node" where
  "text_of s \<equiv> Txt (JStr s)"

text \<open>\<open>v || '\<emdash>'\<close>, a text or the dash\<close>

definition or_dash :: "js \<Rightarrow> 'a node" where
  "or_dash v = (if truthy v then Txt v else Dash)"

section \<open>The status badge\<close>

definition status_keys :: "string list" where
  "status_keys = [''active'', ''inactive'', ''success'', ''warning'', ''error'', ''pending'']"

definition statusToVariant :: "(string \<times> string) list" where
  "statusToVariant =
     [(''active'', ''success''), (''inactive'', ''default''), (''success'', ''success''),
      (''warning'', ''warning''), (''error'', ''destructive''), (''pending'', ''info'')]"

definition statusDotColors :: "(string \<times> string) list" where
  "statusDotColors =
     [(''active'', ''bg-green-500''), (''inactive'', ''bg-muted-foreground''),
      (''success'', ''bg-green-500''), (''warning'', ''bg-yellow-500''),
      (''error'', ''bg-red-500''), (''pending'', ''bg-blue-500'')]"

fun lookup_key :: "(string \<times> string) list \<Rightarrow> js \<Rightarrow> js" where
  "lookup_key d (JStr k) = (case map_of d k of Some v \<Rightarrow> JStr v | None \<Rightarrow> JUndef)"
| "lookup_key d v = JUndef"

record status_badge =
  sb_variant :: js
  sb_size :: js
  sb_dot :: "js option"

definition StatusBadge :: "js \<Rightarrow> js \<Rightarrow> js \<Rightarrow> status_badge" where
  "StatusBadge variant sz status =
     \<lparr>sb_variant = (if truthy status then lookup_key statusToVariant status else variant),
      sb_size = coalesce sz (JStr ''sm''),
      sb_dot = (if truthy status then Some (lookup_key statusDotColors status) else None)\<rparr>"

definition StatusIndicator :: "js \<Rightarrow> js \<Rightarrow> status_badge" where
  "StatusIndicator status sz =
     StatusBadge JUndef (if sz = JUndef then JStr ''md'' else sz) status"

section \<open>The card of a figure\<close>

record stat_card =
  sc_label :: js
  sc_title :: js
  sc_value :: js
  sc_change :: js
  sc_changeLabel :: js
  sc_trend :: "(string \<times> bool) option"

record stat_view =
  sv_label :: js
  sv_value :: js
  sv_arrow :: "bool option"
  sv_note :: "js option"

text \<open>\<open>change ? change > 0 : false\<close>; the note is the trend, or the size of the change.\<close>

fun is_positive :: "js \<Rightarrow> bool" where
  "is_positive (JNum n) = num_lt (Fin 0) n"
| "is_positive v = False"

fun abs_js :: "js \<Rightarrow> js" where
  "abs_js (JNum (Fin r)) = JNum (Fin \<bar>r\<bar>)"
| "abs_js (JNum NegInf) = JNum PosInf"
| "abs_js v = v"

definition StatCard :: "stat_card \<Rightarrow> stat_view" where
  "StatCard c =
     \<lparr>sv_label = coalesce (coalesce (sc_label c) (sc_title c)) (JStr []),
      sv_value = sc_value c,
      sv_arrow = (case sc_trend c of
                    Some (v, positive) \<Rightarrow> Some positive
                  | None \<Rightarrow> (if sc_change c \<noteq> JUndef then Some (is_positive (sc_change c)) else None)),
      sv_note = (case sc_trend c of
                   Some (v, positive) \<Rightarrow> Some (JStr v)
                 | None \<Rightarrow> (if sc_change c \<noteq> JUndef then Some (abs_js (sc_change c)) else None))\<rparr>"

section \<open>The table\<close>

record 'a column =
  col_id :: string
  col_header :: string
  col_accessorKey :: "string option"
  col_cell :: "(js \<Rightarrow> nat \<Rightarrow> 'a node) option"
  col_sortable :: bool

datatype direction = Asc | Desc

type_synonym sort_config = "(string \<times> direction) option"

definition handleSort :: "string \<Rightarrow> sort_config \<Rightarrow> sort_config" where
  "handleSort columnId prev =
     (case prev of
        Some (key, dir) \<Rightarrow>
          (if key = columnId then Some (columnId, if dir = Asc then Desc else Asc)
           else Some (columnId, Asc))
      | None \<Rightarrow> Some (columnId, Asc))"

definition click_header :: "'a column \<Rightarrow> sort_config \<Rightarrow> sort_config" where
  "click_header c cfg = (if col_sortable c then handleSort (col_id c) cfg else cfg)"

text \<open>The key a column sorts by; an empty \<open>accessorKey\<close> is none.\<close>

definition sort_key_of :: "'a column list \<Rightarrow> string \<Rightarrow> string option" where
  "sort_key_of columns key =
     (case find (\<lambda>c. col_id c = key) columns of
        None \<Rightarrow> None
      | Some c \<Rightarrow> (case col_accessorKey c of None \<Rightarrow> None | Some k \<Rightarrow> (if k = [] then None else Some k)))"

definition compare_values :: "conversions \<Rightarrow> string \<Rightarrow> direction \<Rightarrow> js \<Rightarrow> js \<Rightarrow> int" where
  "compare_values cv k dir a b =
     (let aValue = jprop k a; bValue = jprop k b
      in if js_lt cv aValue bValue then (if dir = Asc then - 1 else 1)
         else if js_lt cv bValue aValue then (if dir = Asc then 1 else - 1)
         else 0)"

definition compare_rows ::
  "conversions \<Rightarrow> 'a column list \<Rightarrow> string \<Rightarrow> direction \<Rightarrow> js \<Rightarrow> js \<Rightarrow> int" where
  "compare_rows cv columns key dir a b =
     (case sort_key_of columns key of None \<Rightarrow> 0 | Some k \<Rightarrow> compare_values cv k dir a b)"

definition sortedData :: "conversions \<Rightarrow> 'a column list \<Rightarrow> js list \<Rightarrow> sort_config \<Rightarrow> js list" where
  "sortedData cv columns data cfg =
     (case cfg of
        None \<Rightarrow> data
      | Some (key, dir) \<Rightarrow> js_sort (compare_rows cv columns key dir) data)"

datatype sort_mark = Up | Down | UpDown

definition header_mark :: "'a column \<Rightarrow> sort_config \<Rightarrow> sort_mark option" where
  "header_mark c cfg =
     (if col_sortable c
      then (case cfg of
              Some (key, dir) \<Rightarrow>
                (if key = col_id c then Some (if dir = Asc then Up else Down) else Some UpDown)
            | None \<Rightarrow> Some UpDown)
      else None)"

definition table_cell :: "conversions \<Rightarrow> 'a column \<Rightarrow> js \<Rightarrow> nat \<Rightarrow> 'a node" where
  "table_cell cv c row index =
     (case col_cell c of
        Some f \<Rightarrow> f row index
      | None \<Rightarrow>
          (case col_accessorKey c of
             Some k \<Rightarrow>
               (if k \<noteq> [] \<and> truthy (jprop k row) then text_of (to_str cv (jprop k row)) else Dash)
           | None \<Rightarrow> Dash))"

text \<open>A row: its key, what its click hands to \<open>onRowClick\<close>, its cells.\<close>

type_synonym 'a row_view = "js \<times> js \<times> 'a node list"

datatype 'a table_view =
    TableLoading
  | TableEmpty string
  | TableRows "(string \<times> sort_mark option) list" "'a row_view list"

definition DataTable ::
  "conversions \<Rightarrow> 'a column list \<Rightarrow> js list \<Rightarrow> bool \<Rightarrow> string option \<Rightarrow> sort_config \<Rightarrow> 'a table_view" where
  "DataTable cv columns data isLoading emptyMessage cfg =
     (if isLoading then TableLoading
      else if data = []
      then TableEmpty (case emptyMessage of Some m \<Rightarrow> m | None \<Rightarrow> ''No data available'')
      else TableRows
        (map (\<lambda>c. (col_header c, header_mark c cfg)) columns)
        (map (\<lambda>(index, row).
                (js_or (jprop ''id'' row) (JNum (num_of_nat index)), row,
                 map (\<lambda>c. table_cell cv c row index) columns))
           (enumerate 0 (sortedData cv columns data cfg))))"

section \<open>Lemmas\<close>

text \<open>Rows whose values in a column are all texts, or all finite numbers\<close>

definition texts_at :: "string \<Rightarrow> js set" where
  "texts_at k = {r. \<exists>s. jprop k r = JStr s}"

definition numbers_at :: "string \<Rightarrow> js set" where
  "numbers_at k = {r. \<exists>q. jprop k r = JNum (Fin q)}"

lemma compare_values_texts:
  "jprop k a = JStr s \<Longrightarrow> jprop k b = JStr t \<Longrightarrow>
   compare_values cv k dir a b =
     (if str_lt s t then (if dir = Asc then - 1 else 1)
      else if str_lt t s then (if dir = Asc then 1 else - 1) else 0)"
  by (simp add: compare_values_def Let_def)

lemma compare_values_numbers:
  "jprop k a = JNum (Fin p) \<Longrightarrow> jprop k b = JNum (Fin q) \<Longrightarrow>
   compare_values cv k dir a b =
     (if p < q then (if dir = Asc then - 1 else 1)
      else if q < p then (if dir = Asc then 1 else - 1) else 0)"
  by (simp add: compare_values_def Let_def)

interpretation texts: comparison "compare_values cv k dir" "texts_at k" for cv k dir
proof unfold_locales
  fix x y z assume "x \<in> texts_at k" "y \<in> texts_at k" "z \<in> texts_at k"
    and le: "compare_values cv k dir x y \<le> 0" "compare_values cv k dir y z \<le> 0"
  then obtain s t u where "jprop k x = JStr s" "jprop k y = JStr t" "jprop k z = JStr u"
    by (auto simp: texts_at_def)
  with le show "compare_values cv k dir x z \<le> 0"
    using str_lt_trans [of s t u] str_lt_trans [of u t s] str_lt_linear [of s t] str_lt_linear [of t u]
      str_lt_linear [of s u] str_lt_asym [of s t] str_lt_asym [of t u] str_lt_asym [of s u]
    by (auto simp: compare_values_texts split: if_splits)
qed (auto simp: texts_at_def compare_values_texts str_lt_asym split: if_splits)

interpretation numbers: comparison "compare_values cv k dir" "numbers_at k" for cv k dir
proof unfold_locales
  fix x y z assume "x \<in> numbers_at k" "y \<in> numbers_at k" "z \<in> numbers_at k"
    and le: "compare_values cv k dir x y \<le> 0" "compare_values cv k dir y z \<le> 0"
  then obtain p q r where "jprop k x = JNum (Fin p)" "jprop k y = JNum (Fin q)" "jprop k z = JNum (Fin r)"
    by (auto simp: numbers_at_def)
  with le show "compare_values cv k dir x z \<le> 0"
    by (auto simp: compare_values_numbers split: if_splits)
qed (auto simp: numbers_at_def compare_values_numbers split: if_splits)

lemma tied_texts:
  "x \<in> texts_at k \<Longrightarrow> y \<in> texts_at k \<Longrightarrow> compare_values cv k dir x y = 0 \<longleftrightarrow> jprop k x = jprop k y"
  by (auto simp: texts_at_def compare_values_texts split: if_splits) (metis str_lt_linear)

lemma tied_numbers:
  "x \<in> numbers_at k \<Longrightarrow> y \<in> numbers_at k \<Longrightarrow>
   compare_values cv k dir x y = 0 \<longleftrightarrow> jprop k x = jprop k y"
  by (auto simp: numbers_at_def compare_values_numbers split: if_splits)

text \<open>The order a sorted column shows.\<close>

definition in_order :: "conversions \<Rightarrow> string \<Rightarrow> direction \<Rightarrow> js \<Rightarrow> js \<Rightarrow> bool" where
  "in_order cv k dir a b \<longleftrightarrow>
     (case dir of Asc \<Rightarrow> \<not> js_lt cv (jprop k b) (jprop k a)
      | Desc \<Rightarrow> \<not> js_lt cv (jprop k a) (jprop k b))"

lemma in_order_iff:
  "x \<in> texts_at k \<and> y \<in> texts_at k \<or> x \<in> numbers_at k \<and> y \<in> numbers_at k \<Longrightarrow>
   compare_values cv k dir x y \<le> 0 \<longleftrightarrow> in_order cv k dir x y"
  by (cases dir)
    (auto simp: in_order_def texts_at_def numbers_at_def compare_values_texts compare_values_numbers
      dest: str_lt_asym split: if_splits)

definition stably_sorted :: "conversions \<Rightarrow> string \<Rightarrow> direction \<Rightarrow> js list \<Rightarrow> js list \<Rightarrow> bool" where
  "stably_sorted cv k dir data rows \<longleftrightarrow>
     mset rows = mset data \<and> sorted_wrt (in_order cv k dir) rows \<and>
     (\<forall>r\<in>set data. filter (\<lambda>x. jprop k x = jprop k r) rows = filter (\<lambda>x. jprop k x = jprop k r) data)"

lemma sorted_wrt_on: "(\<And>x y. x \<in> set xs \<Longrightarrow> y \<in> set xs \<Longrightarrow> P x y = Q x y) \<Longrightarrow> sorted_wrt P xs = sorted_wrt Q xs"
  by (induction xs) auto

lemma stably_sorted_texts:
  assumes "set data \<subseteq> texts_at k"
  shows "stably_sorted cv k dir data rows \<longleftrightarrow> js_sort (compare_values cv k dir) data = rows"
proof (cases "mset rows = mset data")
  case True
  then have "set rows \<subseteq> texts_at k" using assms by (metis set_mset_mset)
  with True assms show ?thesis
    unfolding stably_sorted_def texts.sort_spec_elements [OF assms]
    by (simp add: subset_iff tied_texts in_order_iff cong: sorted_wrt_on filter_cong)
qed (auto simp: stably_sorted_def)

lemma stably_sorted_numbers:
  assumes "set data \<subseteq> numbers_at k"
  shows "stably_sorted cv k dir data rows \<longleftrightarrow> js_sort (compare_values cv k dir) data = rows"
proof (cases "mset rows = mset data")
  case True
  then have "set rows \<subseteq> numbers_at k" using assms by (metis set_mset_mset)
  with True assms show ?thesis
    unfolding stably_sorted_def numbers.sort_spec_elements [OF assms]
    by (simp add: subset_iff tied_numbers in_order_iff cong: sorted_wrt_on filter_cong)
qed (auto simp: stably_sorted_def)

lemma sortedData_key:
  "sort_key_of columns key = Some k \<Longrightarrow>
   sortedData cv columns data (Some (key, dir)) = js_sort (compare_values cv k dir) data"
  by (simp add: sortedData_def compare_rows_def cong: js_sort_cong)

lemma sortedData_no_key:
  "sort_key_of columns key = None \<Longrightarrow> sortedData cv columns data (Some (key, dir)) = data"
  by (simp add: sortedData_def compare_rows_def js_sort_constant)

text \<open>\<open>n + 1\<close> clicks on one header, coming from another column or none\<close>

lemma clicks_alternate:
  assumes "col_sortable c" and "\<forall>dir. cfg \<noteq> Some (col_id c, dir)"
  shows "(click_header c ^^ Suc n) cfg = Some (col_id c, if even n then Asc else Desc)"
proof (induction n)
  case 0
  from assms show ?case by (auto simp: click_header_def handleSort_def split: option.splits)
next
  case (Suc n)
  have "(click_header c ^^ Suc (Suc n)) cfg = click_header c ((click_header c ^^ Suc n) cfg)" by simp
  also have "\<dots> = Some (col_id c, if even (Suc n) then Asc else Desc)"
    unfolding Suc.IH using assms(1) by (simp add: click_header_def handleSort_def)
  finally show ?case .
qed

section \<open>Properties\<close>

text \<open>
  C17. A click on a column with a key sorts the rows when every cell of the column is a text, or
  every cell a finite number: what is shown is the one arrangement of the data that is in the
  column's order and leaves rows with equal values in the order they had. (With a missing cell among
  them the comparator is no order, and nothing is claimed.)
\<close>

theorem table_sorts:
  assumes "sort_key_of columns key = Some k"
    and "set data \<subseteq> texts_at k \<or> set data \<subseteq> numbers_at k"
  shows "sortedData cv columns data (Some (key, dir)) = rows \<longleftrightarrow> stably_sorted cv k dir data rows"
  using assms(2) stably_sorted_texts stably_sorted_numbers
  unfolding sortedData_key [OF assms(1)] by blast

definition ex_columns :: "unit column list" where
  "ex_columns =
     [\<lparr>col_id = ''name'', col_header = ''Name'', col_accessorKey = Some ''name'', col_cell = None,
       col_sortable = True\<rparr>,
      \<lparr>col_id = ''priority'', col_header = ''Priority'', col_accessorKey = Some ''rank'',
       col_cell = None, col_sortable = True\<rparr>]"

definition ex_row :: "string \<Rightarrow> rat \<Rightarrow> js" where
  "ex_row name rank = JObj [(''name'', JStr name), (''rank'', JNum (Fin rank))]"

definition ex_conversions :: conversions where
  "ex_conversions = \<lparr>to_prim = (\<lambda>v. v), str_num = (\<lambda>s. NaN), to_str = (\<lambda>v. [])\<rparr>"

theorem table_sorts_witness:
  "sortedData ex_conversions ex_columns [ex_row ''b'' 2, ex_row ''a'' 7, ex_row ''c'' 2] (Some (''priority'', Desc))
     = [ex_row ''a'' 7, ex_row ''b'' 2, ex_row ''c'' 2]
   \<and> stably_sorted ex_conversions ''rank'' Desc [ex_row ''b'' 2, ex_row ''a'' 7, ex_row ''c'' 2]
        [ex_row ''a'' 7, ex_row ''b'' 2, ex_row ''c'' 2]"
proof -
  have key: "sort_key_of ex_columns ''priority'' = Some ''rank''"
    by (simp add: sort_key_of_def ex_columns_def)
  have "set [ex_row ''b'' 2, ex_row ''a'' 7, ex_row ''c'' 2] \<subseteq> numbers_at ''rank''"
    by (simp add: numbers_at_def ex_row_def)
  moreover have run: "sortedData ex_conversions ex_columns [ex_row ''b'' 2, ex_row ''a'' 7, ex_row ''c'' 2]
      (Some (''priority'', Desc)) = [ex_row ''a'' 7, ex_row ''b'' 2, ex_row ''c'' 2]"
    unfolding sortedData_key [OF key] by (simp add: compare_values_def ex_row_def)
  ultimately show ?thesis using table_sorts [OF key] by blast
qed

end
