(* ===== verification/FeTables.thy ===== *)
theory FeTables
  imports FeTable
begin

text \<open>
  The tables of the pages of the front end: their columns with header, key, cell and sort button,
  in the order of the pages, and the rows a page derives for its table. A method of texts or of
  numbers is applied to the values the code's types allow; on others the source throws, which is
  not modelled here. Keys of \<open>Object.prototype\<close> do not occur as keys of a configuration.
\<close>

section \<open>Cells\<close>

text \<open>What a button of a cell does.\<close>

datatype table_action =
    OpenRow js
  | MarkRead js
  | DeleteNotification js
  | RunJob js
  | EditJob js
  | JobHistory js
  | DeleteJob js

type_synonym cell = "table_action node"
type_synonym columns = "table_action column list"

record page_env = conversions +
  date_ms :: "js \<Rightarrow> jsnum"
  now_ms :: jsnum

definition cell_column :: "string \<Rightarrow> string \<Rightarrow> (js \<Rightarrow> cell) \<Rightarrow> bool \<Rightarrow> table_action column" where
  "cell_column i header f sortable =
     \<lparr>col_id = i, col_header = header, col_accessorKey = None, col_cell = Some (\<lambda>row index. f row),
      col_sortable = sortable\<rparr>"

definition key_column :: "string \<Rightarrow> string \<Rightarrow> string \<Rightarrow> bool \<Rightarrow> table_action column" where
  "key_column i header k sortable =
     \<lparr>col_id = i, col_header = header, col_accessorKey = Some k, col_cell = None,
      col_sortable = sortable\<rparr>"

fun map_text :: "(string \<Rightarrow> string) \<Rightarrow> js \<Rightarrow> js" where
  "map_text f (JStr s) = JStr (f s)"
| "map_text f v = JUndef"

fun num_scale :: "rat \<Rightarrow> jsnum \<Rightarrow> jsnum" where
  "num_scale q (Fin r) = Fin (q * r)"
| "num_scale q n = n"

fun num_fixed :: "nat \<Rightarrow> jsnum \<Rightarrow> string" where
  "num_fixed d (Fin r) = to_fixed d r"
| "num_fixed d NaN = ''NaN''"
| "num_fixed d PosInf = ''Infinity''"
| "num_fixed d NegInf = ''-Infinity''"

fun num_round :: "jsnum \<Rightarrow> jsnum" where
  "num_round (Fin r) = Fin (of_int (math_round r))"
| "num_round n = n"

text \<open>\<open>Math.min(n, b)\<close> for a finite \<open>b\<close>\<close>

fun num_min :: "jsnum \<Rightarrow> rat \<Rightarrow> jsnum" where
  "num_min (Fin r) b = Fin (min r b)"
| "num_min PosInf b = Fin b"
| "num_min n b = n"

abbreviation is_str :: "js \<Rightarrow> string \<Rightarrow> bool" where
  "is_str v s \<equiv> v = JStr s"

text \<open>\<open>v && v !== '0001-01-01T00:00:00Z' ? new Date(v).toLocaleString() : 'Never'\<close>\<close>

definition when_or_never :: "js \<Rightarrow> cell" where
  "when_or_never v =
     (if truthy v \<and> \<not> is_str v ''0001-01-01T00:00:00Z'' then When v else text_of ''Never'')"

section \<open>Columns\<close>

definition gate_query_columns :: columns where
  "gate_query_columns =
     [cell_column ''query'' ''Query'' (\<lambda>row. Txt (js_or (jprop ''query'' row) (JStr ''N/A''))) False,
      cell_column ''decision'' ''Decision''
        (\<lambda>row. Status (if is_str (jprop ''decision'' row) ''allow'' then JStr ''success'' else JStr ''error'')
                 (jprop ''decision'' row)) False,
      cell_column ''policies'' ''Policies Applied''
        (\<lambda>row. Seq [Txt (js_or (jprop ''length'' (jprop ''policies_applied'' row)) (JNum (Fin 0))),
                     text_of '' policies'']) False,
      cell_column ''latency'' ''Latency'' (\<lambda>row. Seq [Txt (jprop ''latency_ms'' row), text_of ''ms'']) True,
      cell_column ''created_at'' ''Time'' (\<lambda>row. When (jprop ''created_at'' row)) True]"

definition ai_policy_columns :: columns where
  "ai_policy_columns =
     [key_column ''name'' ''Policy'' ''name'' False,
      key_column ''description'' ''Description'' ''description'' False,
      cell_column ''enabled'' ''Status''
        (\<lambda>row. text_of (if truthy (jprop ''enabled'' row) then ''Enabled'' else ''Disabled'')) False]"

definition ai_policy_row :: "js \<Rightarrow> js" where
  "ai_policy_row p =
     JObj [(''id'', jprop ''id'' p), (''name'', jprop ''name'' p),
           (''description'', js_or (jprop ''description'' p) (JStr [])),
           (''enabled'', coalesce (jprop ''enabled'' p) (JBool True))]"

definition audit_columns :: columns where
  "audit_columns =
     [cell_column ''action'' ''Action'' (\<lambda>row. Txt (jprop ''action'' row)) True,
      cell_column ''resource'' ''Resource'' (\<lambda>row. Txt (jprop ''resource'' row)) False,
      cell_column ''user_id'' ''User''
        (\<lambda>row. Seq [Txt (map_text (take 8) (jprop ''user_id'' row)), text_of ''...'']) False,
      (key_column ''ip_address'' ''IP Address'' ''ip'' False)
        \<lparr>col_cell := Some (\<lambda>row index. or_dash (jprop ''ip'' row))\<rparr>,
      cell_column ''created_at'' ''Time'' (\<lambda>row. When (jprop ''created_at'' row)) True]"

definition getSensitivityColor :: "js \<Rightarrow> string" where
  "getSensitivityColor level =
     (if is_str level ''critical'' then ''red''
      else if is_str level ''high'' then ''orange''
      else if is_str level ''medium'' then ''yellow''
      else if is_str level ''low'' then ''green''
      else ''gray'')"

text \<open>\<open>row.confidence <= 1 ? row.confidence * 100 : row.confidence\<close>\<close>

definition confidence_pct :: "conversions \<Rightarrow> js \<Rightarrow> jsnum" where
  "confidence_pct cv c =
     (let n = to_num cv c in if num_le n (Fin 1) then num_scale 100 n else n)"

definition classified_columns :: "conversions \<Rightarrow> columns" where
  "classified_columns cv =
     [cell_column ''column_name'' ''Column Name'' (\<lambda>row. Txt (jprop ''column_name'' row)) False,
      cell_column ''data_type'' ''Data Type'' (\<lambda>row. Txt (jprop ''data_type'' row)) False,
      cell_column ''sensitivity_level'' ''Sensitivity''
        (\<lambda>row. Toned (getSensitivityColor (jprop ''sensitivity_level'' row))
                 (Txt (map_text capitalize (jprop ''sensitivity_level'' row)))) False,
      cell_column ''classification_tag'' ''Classification''
        (\<lambda>row. Txt (jprop ''classification_tag'' row)) False,
      cell_column ''confidence'' ''Confidence''
        (\<lambda>row. let pct = confidence_pct cv (jprop ''confidence'' row)
               in Seq [Bar (JNum pct), text_of (num_fixed 0 pct @ ''%'')]) False,
      cell_column ''status'' ''Status''
        (\<lambda>row. let status = jprop ''status'' row
               in Status (if is_str status ''classified'' then JStr ''active''
                          else if is_str status ''pending'' then JStr ''pending'' else JStr ''warning'')
                    status) False,
      cell_column ''value_sample'' ''Sample Values'' (\<lambda>row. or_dash (jprop ''value_sample'' row)) False]"

definition model_columns :: columns where
  "model_columns =
     [cell_column ''name'' ''Model Name'' (\<lambda>row. Txt (jprop ''name'' row)) True,
      cell_column ''type'' ''Type'' (\<lambda>row. Txt (jprop ''type'' row)) False,
      key_column ''version'' ''Version'' ''version'' False,
      cell_column ''status'' ''Status''
        (\<lambda>row. let status = jprop ''status'' row
               in Status (if is_str status ''active'' then JStr ''success''
                          else if is_str status ''loading'' then JStr ''pending'' else JStr ''error'')
                    status) False]"

text \<open>The bar of the classified columns, in percent.\<close>

definition progress_width :: "js \<Rightarrow> js" where
  "progress_width row =
     (case (jprop ''totalColumns'' row, jprop ''classifiedColumns'' row) of
        (JNum (Fin n), JNum (Fin m)) \<Rightarrow> JNum (Fin (if n > 0 then m / n * 100 else 0))
      | _ \<Rightarrow> JUndef)"

definition classification_columns :: columns where
  "classification_columns =
     [cell_column ''dataset'' ''Dataset''
        (\<lambda>row. To [JStr ''/classification/'', jprop ''id'' row] (Txt (jprop ''dataset'' row))) False,
      cell_column ''progress'' ''Classified Columns''
        (\<lambda>row. Seq [Bar (progress_width row), Txt (jprop ''classifiedColumns'' row), text_of ''/'',
                     Txt (jprop ''totalColumns'' row)]) False,
      cell_column ''confidence'' ''Avg Confidence''
        (\<lambda>row. Seq [Txt (jprop ''confidence'' row), text_of ''%'']) False,
      cell_column ''lastClassified'' ''Last Classified'' (\<lambda>row. Day (jprop ''lastClassified'' row)) False]"

definition rule_columns :: columns where
  "rule_columns =
     [key_column ''name'' ''Name'' ''name'' True,
      cell_column ''entity_type'' ''Entity Type'' (\<lambda>row. Txt (jprop ''entity_type'' row)) False,
      cell_column ''pattern'' ''Pattern'' (\<lambda>row. Txt (jprop ''pattern'' row)) False,
      key_column ''priority'' ''Priority'' ''priority'' True]"

definition alert_columns :: columns where
  "alert_columns =
     [cell_column ''severity'' ''Severity''
        (\<lambda>row. let severity = jprop ''severity'' row
               in Status (if is_str severity ''critical'' then JStr ''error''
                          else if is_str severity ''warning'' then JStr ''warning'' else JStr ''info'')
                    severity) False,
      key_column ''message'' ''Message'' ''message'' False,
      key_column ''source'' ''Source'' ''source'' False,
      cell_column ''timestamp'' ''Time'' (\<lambda>row. When (jprop ''timestamp'' row)) False]"

definition geography_columns :: columns where
  "geography_columns =
     [key_column ''region'' ''Region'' ''region'' False,
      key_column ''location'' ''Location'' ''location'' False,
      key_column ''sources'' ''Sources'' ''sources'' False,
      key_column ''datasets'' ''Datasets'' ''datasets'' False,
      key_column ''volume'' ''Data Volume'' ''volume'' False,
      cell_column ''cross_border'' ''Cross-Border Flows''
        (\<lambda>row. text_of (if truthy (jprop ''cross_border'' row) then ''EU data transfers out'' else ''None''))
        False]"

definition geography_row :: "nat \<Rightarrow> js \<Rightarrow> js" where
  "geography_row i r =
     JObj [(''id'', JStr (nat_str i)), (''region'', jprop ''name'' r),
           (''location'', js_or (jprop ''location'' r) (jprop ''name'' r)),
           (''sources'', js_or (jprop ''sources'' r) (JNum (Fin 0))),
           (''datasets'', js_or (jprop ''count'' r) (JNum (Fin 0))),
           (''volume'', js_or (jprop ''volume'' r) (JStr ''0 records'')),
           (''cross_border'', js_or (jprop ''cross_border'' r) (JBool False))]"

definition data_source_columns :: columns where
  "data_source_columns =
     [cell_column ''name'' ''Name''
        (\<lambda>row. To [JStr ''/data-sources/'', jprop ''id'' row] (Txt (jprop ''name'' row))) True,
      cell_column ''type'' ''Type'' (\<lambda>row. Txt (jprop ''type'' row)) True,
      cell_column ''status'' ''Status''
        (\<lambda>row. let status = jprop ''status'' row
               in Status (if is_str status ''connected'' \<or> is_str status ''active'' then JStr ''success''
                          else if is_str status ''scanning'' then JStr ''pending''
                          else if is_str status ''inactive'' then JStr ''warning'' else JStr ''error'')
                    status) False,
      cell_column ''last_scan'' ''Last Scan'' (\<lambda>row. when_or_never (jprop ''last_scan'' row)) True,
      cell_column ''created_at'' ''Created'' (\<lambda>row. Day (jprop ''created_at'' row)) True]"

definition entity_columns :: columns where
  "entity_columns =
     [cell_column ''name'' ''Entity Type'' (\<lambda>row. Txt (jprop ''name'' row)) False,
      cell_column ''examples'' ''Examples'' (\<lambda>row. Txt (jprop ''examples'' row)) False,
      cell_column ''detections'' ''Detections'' (\<lambda>row. Grouped (jprop ''detections'' row)) False,
      cell_column ''accuracy'' ''Accuracy''
        (\<lambda>row. Seq [Bar (jprop ''accuracy'' row), Txt (jprop ''accuracy'' row), text_of ''%'']) False]"

fun hours_ago :: "jsnum \<Rightarrow> string" where
  "hours_ago (Fin d) =
     (let hours = math_floor (d / (1000 * 60 * 60))
      in if hours < 24 then int_str hours @ ''h ago''
         else int_str (math_floor (of_int hours / 24)) @ ''d ago'')"
| "hours_ago n = num_fixed 0 n @ ''d ago''"

fun num_minus :: "jsnum \<Rightarrow> jsnum \<Rightarrow> jsnum" where
  "num_minus (Fin a) (Fin b) = Fin (a - b)"
| "num_minus _ _ = NaN"

definition correction_columns :: "page_env \<Rightarrow> columns" where
  "correction_columns e =
     [cell_column ''text'' ''Text Sample'' (\<lambda>row. or_dash (jprop ''text'' row)) False,
      cell_column ''from'' ''Was Classified''
        (\<lambda>row. Txt (js_or (jprop ''from'' row) (JStr ''Unknown''))) False,
      cell_column ''to'' ''Corrected To'' (\<lambda>row. Txt (jprop ''to'' row)) False,
      key_column ''user'' ''By'' ''user'' False,
      cell_column ''created_at'' ''When''
        (\<lambda>row. text_of (hours_ago (num_minus (now_ms e) (date_ms e (jprop ''created_at'' row))))) False]"

definition policy_columns :: columns where
  "policy_columns =
     [cell_column ''name'' ''Name''
        (\<lambda>row. To [JStr ''/governance/policies/'', jprop ''id'' row] (Txt (jprop ''name'' row))) True,
      cell_column ''type'' ''Type'' (\<lambda>row. Txt (jprop ''type'' row)) True,
      cell_column ''active'' ''Status''
        (\<lambda>row. if truthy (jprop ''active'' row) then Status (JStr ''success'') (JStr ''Active'')
               else Status (JStr ''inactive'') (JStr ''Inactive'')) False,
      key_column ''priority'' ''Priority'' ''priority'' True,
      cell_column ''updated_at'' ''Updated'' (\<lambda>row. Day (jprop ''updated_at'' row)) True]"

definition integration_columns :: columns where
  "integration_columns =
     [cell_column ''name'' ''Name''
        (\<lambda>row. To [JStr ''/integrations/'', jprop ''id'' row] (Txt (jprop ''name'' row))) True,
      cell_column ''type'' ''Type''
        (\<lambda>row. Txt (map_text (replace_first (CHR ''_'') (CHR '' '')) (jprop ''type'' row))) True,
      key_column ''provider'' ''Provider'' ''provider'' False,
      cell_column ''status'' ''Status''
        (\<lambda>row. let status = jprop ''status'' row
               in Status (if is_str status ''connected'' then JStr ''success''
                          else if is_str status ''syncing'' then JStr ''pending'' else JStr ''error'')
                    status) False,
      cell_column ''last_sync'' ''Last Sync'' (\<lambda>row. when_or_never (jprop ''last_sync'' row)) True]"

definition notification_columns :: columns where
  "notification_columns =
     [cell_column ''title'' ''Title''
        (\<lambda>row. Toned (if truthy (jprop ''read'' row) then ''muted'' else ''strong'')
                 (Txt (jprop ''title'' row))) False,
      key_column ''message'' ''Message'' ''message'' False,
      cell_column ''severity'' ''Type''
        (\<lambda>row. let severity = jprop ''severity'' row
               in Status (if is_str severity ''success'' then JStr ''success''
                          else if is_str severity ''error'' then JStr ''error''
                          else if is_str severity ''warning'' then JStr ''warning'' else JStr ''info'')
                    severity) False,
      cell_column ''created_at'' ''Time'' (\<lambda>row. When (jprop ''created_at'' row)) False,
      cell_column ''actions'' ''''
        (\<lambda>row. Seq
           ((if truthy (jprop ''read'' row) then []
             else [Btn (MarkRead (jprop ''id'' row)) (text_of ''Mark as read'')])
            @ [Btn (DeleteNotification (jprop ''id'' row)) (text_of ''Delete'')])) False]"

definition observed_alert_columns :: columns where
  "observed_alert_columns =
     [cell_column ''severity'' ''Severity''
        (\<lambda>row. let severity = jprop ''severity'' row
               in Status (if is_str severity ''critical'' then JStr ''error''
                          else if is_str severity ''warning'' then JStr ''warning'' else JStr ''info'')
                    severity) True,
      cell_column ''title'' ''Title'' (\<lambda>row. Txt (jprop ''title'' row)) False,
      cell_column ''message'' ''Message'' (\<lambda>row. Txt (jprop ''message'' row)) False,
      key_column ''resource'' ''Resource'' ''resource'' False,
      cell_column ''created_at'' ''Time'' (\<lambda>row. When (jprop ''created_at'' row)) True]"

definition dsar_columns :: "page_env \<Rightarrow> columns" where
  "dsar_columns e =
     [cell_column ''subject_id'' ''Subject ID''
        (\<lambda>row. To [JStr ''/privacy/dsar/'', jprop ''id'' row] (Txt (jprop ''subject_id'' row))) True,
      cell_column ''type'' ''Type'' (\<lambda>row. Txt (jprop ''type'' row)) True,
      cell_column ''status'' ''Status''
        (\<lambda>row. let status = jprop ''status'' row
               in Status (if is_str status ''completed'' then JStr ''success''
                          else if is_str status ''in_progress'' then JStr ''pending'' else JStr ''inactive'')
                    status) False,
      cell_column ''deadline'' ''Deadline''
        (\<lambda>row. let deadline = jprop ''deadline'' row;
                   isOverdue = (num_lt (date_ms e deadline) (now_ms e)
                                \<and> \<not> is_str (jprop ''status'' row) ''completed'')
               in Toned (if isOverdue then ''red'' else ''plain'') (Day deadline)) True,
      cell_column ''created_at'' ''Created'' (\<lambda>row. Day (jprop ''created_at'' row)) True]"

definition user_columns :: columns where
  "user_columns =
     [cell_column ''name'' ''Name'' (\<lambda>row. Txt (jprop ''name'' row)) True,
      key_column ''email'' ''Email'' ''email'' True,
      cell_column ''status'' ''Status''
        (\<lambda>row. Status (if is_str (jprop ''status'' row) ''active'' then JStr ''success'' else JStr ''inactive'')
                 (jprop ''status'' row)) False,
      cell_column ''role'' ''Role''
        (\<lambda>row. text_of (if truthy (jprop ''is_super_admin'' row) then ''Super Admin'' else ''User'')) False,
      cell_column ''created_at'' ''Created'' (\<lambda>row. Day (jprop ''created_at'' row)) True]"

definition invitation_columns :: "page_env \<Rightarrow> columns" where
  "invitation_columns e =
     [cell_column ''email'' ''Email'' (\<lambda>row. Txt (jprop ''email'' row)) True,
      cell_column ''role'' ''Role''
        (\<lambda>row. Txt (map_text (replace_first (CHR ''_'') (CHR '' '')) (jprop ''role'' row))) False,
      cell_column ''status'' ''Status''
        (\<lambda>row. let isExpired = num_lt (date_ms e (jprop ''expires_at'' row)) (now_ms e);
                   isAccepted = truthy (jprop ''accepted_at'' row)
               in Status (JStr (if isAccepted then ''success'' else if isExpired then ''error'' else ''warning''))
                    (JStr (if isAccepted then ''Accepted'' else if isExpired then ''Expired'' else ''Pending'')))
        False,
      cell_column ''expires_at'' ''Expires'' (\<lambda>row. Day (jprop ''expires_at'' row)) True]"

end
