(* ===== verification/FePages.thy ===== *)
theory FePages
  imports FeTables FeHooksGov
begin

text \<open>
  What the pages share: how a mutation and a fetch of a query, started by a page, change the list
  of requests the browser has sent, and the \<open>fetch\<close> that some pages use beside the client of
  \<open>lib/api.ts\<close>. The network is a parameter of the definitions that use \<open>fetch\<close>: \<open>None\<close> when the
  promise rejects, else a response, whose \<open>json()\<close> may reject.
\<close>

section \<open>Values\<close>

text \<open>A string, and the elements of an array, where the code's types say there is one.\<close>

fun text_value :: "js \<Rightarrow> string" where
  "text_value (JStr s) = s"
| "text_value v = []"

fun elements :: "js \<Rightarrow> js list" where
  "elements (JArr xs) = xs"
| "elements v = []"

section \<open>Requests of queries and mutations\<close>

lemma run_effect_sent [simp]: "fe_sent (run_effect e f s) = fe_sent s"
  by (cases f) (simp_all add: invalidate_def)

lemma run_effects_sent [simp]: "fe_sent (snd (run_effects e fs s)) = fe_sent s"
proof (induction fs arbitrary: s)
  case (Cons f fs)
  then show ?case using run_effect_sent [of e f s] by (cases f) simp_all
qed simp

lemma settle_sent [simp]: "fe_sent (settle e m s) = fe_sent s"
  by (simp add: settle_def)

lemma on_api_error_sent [simp]: "fe_sent (on_api_error err s) = fe_sent s"
  by (simp add: on_api_error_def)

lemma api_send_sent [simp]: "fe_sent (snd (api_send e rq s)) = fe_sent s @ [add_token s rq]"
  by (simp add: api_send_def Let_def split: sum.split)

lemma run_mutation_sent [simp]:
  "fe_sent (snd (run_mutation e m v s)) = fe_sent s @ [add_token s (m_request m v)]"
proof (cases "api_send e (m_request m v) s")
  case (Pair r s1)
  then have s1: "fe_sent s1 = fe_sent s @ [add_token s (m_request m v)]"
    using api_send_sent [of e "m_request m v" s] by simp
  show ?thesis
  proof (cases r)
    case (Inl err)
    with Pair s1 show ?thesis by (simp add: run_mutation_def fail_mutation_def)
  next
    case (Inr d)
    obtain o' s2 where eff: "run_effects e (m_success m (m_result m d) v) s1 = (o', s2)"
      by (metis surj_pair)
    with s1 have "fe_sent s2 = fe_sent s @ [add_token s (m_request m v)]"
      using run_effects_sent [of e "m_success m (m_result m d) v" s1] by simp
    with Pair Inr eff show ?thesis by (cases o') (simp_all add: run_mutation_def fail_mutation_def)
  qed
qed

lemma run_mutation_sentD:
  "run_mutation e m v s = (r, s') \<Longrightarrow> fe_sent s' = fe_sent s @ [add_token s (m_request m v)]"
  using run_mutation_sent [of e m v s] by simp

lemma fetch_query_sent [simp]:
  "fe_sent (fetch_query e q s) = fe_sent s @ (if q_enabled q then [add_token s (q_request q)] else [])"
proof (cases "api_send e (q_request q) s")
  case (Pair r s1)
  then have "fe_sent s1 = fe_sent s @ [add_token s (q_request q)]"
    using api_send_sent [of e "q_request q" s] by simp
  with Pair show ?thesis by (cases r) (simp_all add: fetch_query_def split: option.split)
qed

section \<open>\<open>fetch\<close>\<close>

record raw_request =
  rq_method :: http_method
  rq_url :: string
  rq_authorization :: string
  rq_json :: bool
  rq_body :: js

record raw_response =
  rs_status :: nat
  rs_json :: "js option"

type_synonym network = "raw_request \<Rightarrow> raw_response option"

definition rs_ok :: "raw_response \<Rightarrow> bool" where
  "rs_ok r \<longleftrightarrow> 200 \<le> rs_status r \<and> rs_status r < 300"

text \<open>\<open>`Bearer ${token}`\<close>: what is not a string is written out.\<close>

fun bearer :: "js \<Rightarrow> string" where
  "bearer (JStr t) = ''Bearer '' @ t"
| "bearer JNull = ''Bearer null''"
| "bearer v = ''Bearer undefined''"

definition raw :: "http_method \<Rightarrow> string \<Rightarrow> string \<Rightarrow> js \<Rightarrow> raw_request" where
  "raw m url authorization body =
     \<lparr>rq_method = m, rq_url = url, rq_authorization = authorization, rq_json = True, rq_body = body\<rparr>"

text \<open>A notification of a page that shows its own.\<close>

datatype page_note = NoteSuccess string | NoteError string

text \<open>\<open>includes\<close> on a list, and the toggle that adds or removes an element\<close>

definition toggle :: "'a \<Rightarrow> 'a list \<Rightarrow> 'a list" where
  "toggle x xs = (if x \<in> set xs then filter (\<lambda>y. y \<noteq> x) xs else xs @ [x])"

lemma set_toggle: "set (toggle x xs) = (if x \<in> set xs then set xs - {x} else insert x (set xs))"
  by (auto simp: toggle_def)

lemma distinct_toggle: "distinct xs \<Longrightarrow> distinct (toggle x xs)"
  by (simp add: toggle_def)

lemma toggle_toggle: "set (toggle x (toggle x xs)) = set xs"
  by (auto simp: set_toggle)

section \<open>Lists in a text\<close>

text \<open>Parts that are written with a separator and a space are read back by splitting and trimming.\<close>

lemma trim_space: "trim (CHR '' '' # s) = trim s"
  by (simp add: trim_def is_space_def Let_def)

lemma split_join_trim:
  "xs \<noteq> [] \<Longrightarrow> c \<noteq> CHR '' '' \<Longrightarrow> \<forall>x\<in>set xs. c \<notin> set x \<and> trim x = x \<Longrightarrow>
   map trim (split_on c (join [c, CHR '' ''] xs)) = xs"
proof (induction "[c, CHR '' '']" xs rule: join.induct)
  case (2 x)
  then show ?case by (simp add: split_on_no_sep)
next
  case (3 x y ys)
  let ?rest = "join [c, CHR '' ''] (y # ys)"
  have head: "split_on c (CHR '' '' # s) = (CHR '' '' # hd (split_on c s)) # tl (split_on c s)" for s
    using 3 by (cases "split_on c s") simp_all
  have "map trim (split_on c (CHR '' '' # ?rest)) = y # ys"
    using 3 by (cases "split_on c ?rest") (auto simp: head trim_space)
  moreover have "split_on c (join [c, CHR '' ''] (x # y # ys)) = x # split_on c (CHR '' '' # ?rest)"
    using 3 split_on_append_sep [of c x "CHR '' '' # ?rest"] by (simp add: split_on_no_sep)
  ultimately show ?case using 3 by simp
qed simp

end
