(* ===== verification/FeRemediation.thy ===== *)
theory FeRemediation
  imports FePages
begin

text \<open>
  The remediation page (\<open>app/(app)/remediation/page.tsx\<close>) and the part of the page of redundant,
  obsolete and trivial data (\<open>app/(app)/rot/page.tsx\<close>) that shows and remediates: what an action is
  called and warned of, when it can be executed, what the panels send.
\<close>

section \<open>Remediation actions\<close>

record action_type_config =
  ac_label :: string
  ac_color :: string
  ac_consequence :: string

definition action_type :: "string \<Rightarrow> string \<Rightarrow> string \<Rightarrow> action_type_config" where
  "action_type label color consequence =
     \<lparr>ac_label = label, ac_color = color, ac_consequence = consequence\<rparr>"

definition ACTION_TYPE_CONFIG :: "(string \<times> action_type_config) list" where
  "ACTION_TYPE_CONFIG =
     [(''quarantine'', action_type ''Quarantine Data'' ''orange'' ''quarantine''),
      (''delete'', action_type ''Delete ROT Data'' ''red'' ''permanently delete''),
      (''archive'', action_type ''Archive Dataset'' ''gray'' ''archive''),
      (''redact'', action_type ''Redact PII Fields'' ''purple'' ''redact PII fields in''),
      (''encrypt'', action_type ''Encrypt Dataset'' ''blue'' ''encrypt''),
      (''mask'', action_type ''Mask PII Fields'' ''purple'' ''mask PII fields in''),
      (''review'', action_type ''Manual Review Required'' ''amber'' ''flag for manual review''),
      (''pending_review'', action_type ''Manual Review Required'' ''amber'' ''flag for manual review''),
      (''notify'', action_type ''Notify Owner'' ''sky'' ''notify the owner of''),
      (''flag'', action_type ''Flag for Review'' ''yellow'' ''flag''),
      (''deduplicate'', action_type ''Deduplicate Dataset'' ''teal'' ''deduplicate''),
      (''label'', action_type ''Apply Label'' ''indigo'' ''apply a label to'')]"

definition action_key :: "js \<Rightarrow> string" where
  "action_key action =
     replace_all (CHR ''-'') (CHR ''_'')
       (to_lower (text_value (js_or (js_or (jprop ''action_type'' action) (jprop ''type'' action)) (JStr []))))"

definition resolveActionTypeConfig :: "js \<Rightarrow> action_type_config" where
  "resolveActionTypeConfig action =
     (let key = action_key action
      in case map_of ACTION_TYPE_CONFIG key of
           Some cfg \<Rightarrow> cfg
         | None \<Rightarrow>
             action_type
               (if key = [] then ''Unknown''
                else upper_char (hd key) @ replace_all (CHR ''_'') (CHR '' '') (tl key))
               ''muted'' ''process'')"

definition STATUS_CONFIG :: "(string \<times> string \<times> string) list" where
  "STATUS_CONFIG =
     [(''pending'', ''Pending'', ''yellow''), (''running'', ''Running'', ''blue''),
      (''completed'', ''Completed'', ''green''), (''failed'', ''Failed'', ''red'')]"

definition resolvedDatasetName :: "js \<Rightarrow> cell" where
  "resolvedDatasetName action =
     (if truthy (jprop ''dataset_name'' action)
         \<and> jprop ''dataset_name'' action \<noteq> jprop ''dataset_id'' action
      then Txt (jprop ''dataset_name'' action) else or_dash (jprop ''dataset_id'' action))"

definition formatDate :: "page_env \<Rightarrow> js \<Rightarrow> cell" where
  "formatDate e v = (if truthy v \<and> date_ms e v \<noteq> NaN then When v else Dash)"

definition action_status_badge :: "js \<Rightarrow> cell" where
  "action_status_badge status =
     (case map_of STATUS_CONFIG (text_value status) of
        Some (label, color) \<Rightarrow> Toned color (text_of label)
      | None \<Rightarrow> Toned ''gray'' (Txt status))"

definition ActionTypeBadge :: "js \<Rightarrow> cell" where
  "ActionTypeBadge action =
     (let cfg = resolveActionTypeConfig action in Toned (ac_color cfg) (text_of (ac_label cfg)))"

definition remediation_columns :: "page_env \<Rightarrow> columns" where
  "remediation_columns e =
     [cell_column ''dataset_name'' ''Dataset''
        (\<lambda>row. Btn (OpenRow row) (resolvedDatasetName row)) True,
      cell_column ''action_type'' ''Action Type'' ActionTypeBadge True,
      cell_column ''status'' ''Status'' (\<lambda>row. action_status_badge (jprop ''status'' row)) True,
      cell_column ''reason'' ''Reason'' (\<lambda>row. or_dash (jprop ''reason'' row)) False,
      cell_column ''created_at'' ''Created'' (\<lambda>row. formatDate e (jprop ''created_at'' row)) True]"

text \<open>
  The page holds the selected action; the panel executes it. \<open>handleToggle\<close> of the log viewer
  enables the query of the logs.
\<close>

definition canExecute :: "js \<Rightarrow> bool" where
  "canExecute action \<longleftrightarrow>
     jprop ''status'' action = JStr ''pending'' \<or> jprop ''status'' action = JStr ''failed''"

definition execute_warning :: "js \<Rightarrow> cell list" where
  "execute_warning action =
     (if canExecute action
      then [text_of ''This will '', text_of (ac_consequence (resolveActionTypeConfig action)),
            text_of (''dataset '' @ [CHR 0x22]), resolvedDatasetName action,
            text_of (CHR 0x22 # ''. This action may be difficult to reverse.'')]
      else [])"

text \<open>A click on a disabled button does nothing.\<close>

definition handleExecuted :: "js \<Rightarrow> js option \<Rightarrow> js option" where
  "handleExecuted updated selectedAction =
     (case selectedAction of
        Some a \<Rightarrow> (if jprop ''id'' a = jprop ''id'' updated then Some updated else Some a)
      | None \<Rightarrow> (if jprop ''id'' updated = JUndef then Some updated else None))"

definition execute_click ::
  "fe_env \<Rightarrow> js option \<Rightarrow> bool \<Rightarrow> fe_state \<Rightarrow> js option \<times> fe_state" where
  "execute_click e selectedAction isPending s =
     (case selectedAction of
        None \<Rightarrow> (None, s)
      | Some a \<Rightarrow>
          (if \<not> canExecute a \<or> isPending then (Some a, s)
           else (case run_mutation e useExecuteRemediationAction (text_value (jprop ''id'' a)) s of
                   (Inl err, s') \<Rightarrow> (Some a, s')
                 | (Inr updated, s') \<Rightarrow>
                     (handleExecuted updated (Some a), fetch_query e useRemediationActions s'))))"

definition log_viewer_query :: "bool \<Rightarrow> string \<Rightarrow> query" where
  "log_viewer_query opened actionId = useRemediationLogs (if opened then actionId else [])"

text \<open>The panel of an action: its fields, and its two buttons with the text and whether they work.\<close>

definition remediation_panel :: "page_env \<Rightarrow> js \<Rightarrow> bool \<Rightarrow> (string \<times> cell list) list \<times> (string \<times> bool) list" where
  "remediation_panel e action isPending =
     ([(''Dataset'', resolvedDatasetName action
          # (if truthy (jprop ''dataset_name'' action)
                \<and> jprop ''dataset_name'' action \<noteq> jprop ''dataset_id'' action
             then [Txt (jprop ''dataset_id'' action)] else [])),
       (''Action Type'', [ActionTypeBadge action]),
       (''Status'', [action_status_badge (jprop ''status'' action)]),
       (''Reason'', [or_dash (jprop ''reason'' action)]),
       (''Created'', [formatDate e (jprop ''created_at'' action)])]
      @ (if truthy (jprop ''executed_at'' action)
         then [(''Executed'', [formatDate e (jprop ''executed_at'' action)])] else []),
      [(''Execute'', canExecute action \<and> \<not> isPending), (''Close'', True)])"

definition log_lines_shown :: "page_env \<Rightarrow> bool \<Rightarrow> js \<Rightarrow> cell list list" where
  "log_lines_shown e isLoading logs =
     (if isLoading then [[text_of ''Loading logs'', Dots]]
      else if elements logs = []
      then [[text_of ''No execution logs yet.''],
            [text_of ''Logs will appear here after Execute is triggered.'']]
      else map (\<lambda>log. [formatDate e (jprop ''created_at'' log), Txt (jprop ''action'' log),
                           Txt (jprop ''details'' log)]) (elements logs))"

definition status_count :: "string \<Rightarrow> js list \<Rightarrow> nat" where
  "status_count status rows = length (filter (\<lambda>a. jprop ''status'' a = JStr status) rows)"

section \<open>Redundant, obsolete and trivial data\<close>

text \<open>A size is a whole number of bytes.\<close>

fun formatBytes :: "jsnum \<Rightarrow> string" where
  "formatBytes (Fin b) =
     (if b = 0 then ''N/A''
      else if b < 1024 then int_str (math_floor b) @ '' B''
      else if b < 1024 * 1024 then to_fixed 1 (b / 1024) @ '' KB''
      else if b < 1024 * 1024 * 1024 then to_fixed 2 (b / 1024 / 1024) @ '' MB''
      else to_fixed 2 (b / 1024 / 1024 / 1024) @ '' GB'')"
| "formatBytes NaN = ''N/A''"
| "formatBytes PosInf = ''Infinity GB''"
| "formatBytes NegInf = ''-Infinity B''"

definition categoryColors :: "(string \<times> string) list" where
  "categoryColors = [(''redundant'', ''blue''), (''obsolete'', ''yellow''), (''trivial'', ''gray'')]"

definition rot_dataset_name :: "js \<Rightarrow> js" where
  "rot_dataset_name row =
     (if truthy (jprop ''dataset_name'' row) \<and> jprop ''dataset_name'' row \<noteq> jprop ''dataset_id'' row
      then jprop ''dataset_name'' row else jprop ''dataset_id'' row)"

definition category_cell :: "js \<Rightarrow> cell" where
  "category_cell row =
     (let category = text_value (jprop ''category'' row)
      in Toned (case map_of categoryColors category of Some c \<Rightarrow> c | None \<Rightarrow> ''gray'')
           (text_of (capitalize category)))"

text \<open>
  A date of 1970 or before is shown as none; \<open>date_year\<close> is the year the platform gives a date.
\<close>

definition formatLastAccess :: "page_env \<Rightarrow> (js \<Rightarrow> int) \<Rightarrow> js \<Rightarrow> cell" where
  "formatLastAccess e date_year v =
     (if \<not> truthy v \<or> date_ms e v = NaN \<or> date_year v \<le> 1970 then Dash else Day v)"

definition rot_columns :: "page_env \<Rightarrow> (js \<Rightarrow> int) \<Rightarrow> columns" where
  "rot_columns e date_year =
     [cell_column ''dataset_id'' ''Dataset''
        (\<lambda>row. Btn (OpenRow row) (Txt (rot_dataset_name row))) True,
      cell_column ''category'' ''Category'' category_cell True,
      cell_column ''score'' ''ROT Score''
        (\<lambda>row. let score = num_scale 100 (to_num (conversions.truncate e) (jprop ''score'' row))
               in Seq [Bar (JNum (num_min score 100)), text_of (num_fixed 0 score @ ''%'')]) True,
      cell_column ''size_bytes'' ''Size''
        (\<lambda>row. text_of (formatBytes (to_num (conversions.truncate e) (jprop ''size_bytes'' row)))) True,
      cell_column ''last_access'' ''Last Access''
        (\<lambda>row. formatLastAccess e date_year (jprop ''last_access'' row)) True]"

definition rot_remediate_click ::
  "fe_env \<Rightarrow> js option \<Rightarrow> fe_state \<Rightarrow> js option \<times> fe_state" where
  "rot_remediate_click e selectedRow s =
     (case selectedRow of
        None \<Rightarrow> (None, s)
      | Some row \<Rightarrow>
          (case run_mutation e useRemediateROT
                  (JObj [(''dataset_ids'', JArr [jprop ''dataset_id'' row]), (''action'', JStr ''archive'')]) s of
             (Inl err, s') \<Rightarrow> (Some row, s')
           | (Inr d, s') \<Rightarrow> (None, s')))"

text \<open>Nothing is shown for an empty list; else its length and the lines of the categories.\<close>

definition rot_summary :: "js list \<Rightarrow> (nat \<times> (nat \<times> string \<times> string) list) option" where
  "rot_summary datasets =
     (let count = (\<lambda>c. length (filter (\<lambda>d. jprop ''category'' d = JStr c) datasets))
      in if datasets = [] then None
         else Some (length datasets,
           [(count ''redundant'', ''Redundant'', ''data appears in multiple scan results''),
            (count ''obsolete'', ''Obsolete'', ''data not accessed in 90+ days''),
            (count ''trivial'', ''Trivial'', ''low-confidence classifications'')]))"

definition visible_datasets :: "js list \<Rightarrow> js list \<Rightarrow> js list" where
  "visible_datasets dismissedIds datasets = filter (\<lambda>d. jprop ''id'' d \<notin> set dismissedIds) datasets"

section \<open>Properties\<close>

text \<open>
  Nothing is executed without its warning: the panel's button sends a request exactly when an
  action is selected, no execution is pending and the warning of its consequence is shown; the
  request is the execution of that action, and only then the list is fetched anew.
\<close>

theorem execution_follows_warning:
  "fe_sent (snd (execute_click e selected pending s)) =
     (case selected of
        None \<Rightarrow> fe_sent s
      | Some a \<Rightarrow>
          (if execute_warning a = [] \<or> pending then fe_sent s
           else fe_sent s @ [add_token s (new_request POST
                  (''/remediation/actions/'' @ text_value (jprop ''id'' a) @ ''/execute'') JUndef)]
                @ (case run_mutation e useExecuteRemediationAction (text_value (jprop ''id'' a)) s of
                     (Inl err, s') \<Rightarrow> []
                   | (Inr d, s') \<Rightarrow> [add_token s' (new_request GET ''/remediation/actions'' JUndef)])))"
proof -
  have sent: "fe_sent s' = fe_sent s @ [add_token s (new_request POST
      (''/remediation/actions/'' @ i @ ''/execute'') JUndef)]"
    if "run_mutation e useExecuteRemediationAction i s = (r, s')" for i r s'
    using that run_mutation_sent [of e useExecuteRemediationAction i s]
    by (simp add: useExecuteRemediationAction_def)
  have query: "q_enabled useRemediationActions"
    "q_request useRemediationActions = new_request GET ''/remediation/actions'' JUndef"
    by (simp_all add: useRemediationActions_def get_query_def)
  show ?thesis
    by (auto simp: execute_click_def execute_warning_def sent query split: option.split prod.split sum.split)
qed

text \<open>The warning speaks of permanent deletion for the actions of that type only.\<close>

lemma warns_of_deletion:
  "ac_consequence (resolveActionTypeConfig a) = ''permanently delete'' \<longleftrightarrow> action_key a = ''delete''"
  unfolding resolveActionTypeConfig_def ACTION_TYPE_CONFIG_def Let_def
  by (auto simp: action_type_def)

text \<open>Rounding reaches the next unit before the unit changes.\<close>

lemma format_bytes_boundary: "formatBytes (Fin 1048575) = ''1024.0 KB''"
proof -
  have "nat_str 10240 = ''10240''" by (simp add: nat_str.simps digit_char_def)
  moreover have "(\<bar>1048575 / 1024 :: rat\<bar> * 10 ^ 1 + 1 / 2) = 10240 + 251 / 512" by simp
  moreover have "\<lfloor>10240 + 251 / 512 :: rat\<rfloor> = 10240" by (rule floor_unique) simp_all
  ultimately show ?thesis by (simp add: to_fixed_def Let_def)
qed

end
