(* ===== verification/FeScan.thy ===== *)
theory FeScan
  imports FePages
begin

text \<open>
  The page of one data source (\<open>app/(app)/data-sources/[id]/page.tsx\<close>): the scan as the page sees it
  (its own flag, the status it polls, the notifications), the card of the scan's log with its stream
  of server-sent events, and the overview of the entities found.

  React runs an effect after the first render and after each render that changes a value it depends
  on, and runs the cleanup of its last run before that. The log writes the time of the browser,
  which is an argument. The check mark and the cross of a log line are written \<open>v\<close> and \<open>x\<close>.
\<close>

section \<open>The scan\<close>

record scan_page =
  sp_status :: js
  sp_localScanning :: bool
  sp_isPending :: bool
  sp_prevStatus :: js
  sp_deleteDialog :: bool
  sp_toasts :: "(toast_kind \<times> string) list"

definition isScanning :: "scan_page \<Rightarrow> bool" where
  "isScanning p \<longleftrightarrow> sp_localScanning p \<or> sp_status p = JStr ''scanning'' \<or> sp_isPending p"

definition clear_local :: "scan_page \<Rightarrow> scan_page" where
  "clear_local p =
     (if truthy (sp_status p) \<and> sp_status p \<noteq> JStr ''scanning''
      then p\<lparr>sp_localScanning := False\<rparr> else p)"

definition scan_toast :: "js \<Rightarrow> js \<Rightarrow> (toast_kind \<times> string) list" where
  "scan_toast prev status =
     (if prev = JStr ''scanning'' \<and> status \<noteq> JStr ''scanning''
      then (if status = JStr ''connected''
            then [(Success, ''Scan completed successfully - connection verified'')]
            else if status = JStr ''error'' then [(Error, ''Scan failed - check connection settings'')]
            else [])
      else [])"

definition announce :: "scan_page \<Rightarrow> scan_page" where
  "announce p =
     p\<lparr>sp_toasts := sp_toasts p @ scan_toast (sp_prevStatus p) (sp_status p),
       sp_prevStatus := js_or (sp_status p) JNull\<rparr>"

text \<open>The first render, and a render with the status of a poll.\<close>

definition mount_scan :: "js \<Rightarrow> scan_page" where
  "mount_scan status =
     announce (clear_local
       \<lparr>sp_status = status, sp_localScanning = False, sp_isPending = False, sp_prevStatus = JNull,
        sp_deleteDialog = False, sp_toasts = []\<rparr>)"

definition poll :: "js \<Rightarrow> scan_page \<Rightarrow> scan_page" where
  "poll status p =
     (if status = sp_status p then p else announce (clear_local (p\<lparr>sp_status := status\<rparr>)))"

text \<open>
  \<open>handleScan\<close> and \<open>handleDelete\<close> with the mutations of the hooks; a disabled button does nothing.
  After the answer the page asks for the data source four times.
\<close>

definition handleScan :: "fe_env \<Rightarrow> string \<Rightarrow> scan_page \<times> fe_state \<Rightarrow> scan_page \<times> fe_state" where
  "handleScan e i ps =
     (case ps of (p, s) \<Rightarrow>
        if isScanning p then (p, s)
        else (case run_mutation e useTriggerScan i s of
                (Inl err, s') \<Rightarrow> (p\<lparr>sp_localScanning := False\<rparr>, s')
              | (Inr d, s') \<Rightarrow>
                  (p\<lparr>sp_localScanning := True\<rparr>, (fetch_query e (useDataSource i) ^^ 4) s')))"

definition handleDelete :: "fe_env \<Rightarrow> string \<Rightarrow> scan_page \<times> fe_state \<Rightarrow> scan_page \<times> fe_state" where
  "handleDelete e i ps =
     (case ps of (p, s) \<Rightarrow>
        (case run_mutation e useDeleteDataSource i s of
           (Inl err, s') \<Rightarrow> (p, s')
         | (Inr d, s') \<Rightarrow> (p\<lparr>sp_deleteDialog := False\<rparr>, navigate (Push ''/data-sources'') s')))"

section \<open>The log\<close>

datatype log_tab = CurrentTab | HistoryTab

record scan_log =
  lg_logs :: "string list"
  lg_isConnected :: bool
  lg_isExpanded :: bool
  lg_activeTab :: log_tab
  lg_source :: "nat option"
  lg_opened :: nat
  lg_closed :: "nat list"

definition initial_log :: scan_log where
  "initial_log =
     \<lparr>lg_logs = [], lg_isConnected = False, lg_isExpanded = False, lg_activeTab = CurrentTab,
      lg_source = None, lg_opened = 0, lg_closed = []\<rparr>"

definition stamped :: "string \<Rightarrow> string \<Rightarrow> string" where
  "stamped time line = ''['' @ time @ ''] '' @ line"

definition add_log :: "string \<Rightarrow> scan_log \<Rightarrow> scan_log" where
  "add_log line c = c\<lparr>lg_logs := lg_logs c @ [line]\<rparr>"

text \<open>The lines of a stored log: entries without a message are skipped.\<close>

definition stored_lines :: "string \<Rightarrow> js \<Rightarrow> string list" where
  "stored_lines now latest =
     map (\<lambda>e. stamped (text_value (js_or (jprop ''time'' e) (JStr now))) (text_value (jprop ''message'' e)))
       (filter (\<lambda>e. truthy e \<and> truthy (jprop ''message'' e)) (elements (jprop ''logs'' latest)))"

definition merge_logs :: "string list \<Rightarrow> string list \<Rightarrow> string list" where
  "merge_logs stored prev = stored @ filter (\<lambda>l. l \<notin> set stored) prev"

definition loadStoredLogs :: "string \<Rightarrow> js list \<Rightarrow> scan_log \<Rightarrow> scan_log" where
  "loadStoredLogs now history c =
     (case history of
        [] \<Rightarrow> c
      | latest # older \<Rightarrow>
          (let stored = stored_lines now latest
           in if stored = [] then c else c\<lparr>lg_logs := merge_logs stored (lg_logs c)\<rparr>))"

text \<open>The effect that opens the card when a scan starts.\<close>

definition expand_log :: "bool \<Rightarrow> scan_log \<Rightarrow> scan_log" where
  "expand_log scanning c =
     (if scanning then c\<lparr>lg_isExpanded := True, lg_activeTab := CurrentTab\<rparr> else c)"

text \<open>
  The effect of the stream: its body and its cleanup. \<open>opens\<close> says whether the constructor of
  \<open>EventSource\<close> accepts the address.
\<close>

definition start_stream :: "string \<Rightarrow> bool \<Rightarrow> scan_log \<Rightarrow> scan_log" where
  "start_stream now opens c =
     (let c1 = (if list_ex (\<lambda>l. str_includes l ''Scan started...'') (lg_logs c) then c
                else add_log (stamped now ''Scan started...'') c)
      in if opens then c1\<lparr>lg_source := Some (lg_opened c1), lg_opened := Suc (lg_opened c1)\<rparr> else c1)"

definition finish_stream :: "string \<Rightarrow> string \<Rightarrow> scan_log \<Rightarrow> scan_log" where
  "finish_stream now status c =
     (let c1 = c\<lparr>lg_closed := lg_closed c @ (case lg_source c of None \<Rightarrow> [] | Some n \<Rightarrow> [n]),
                lg_source := None, lg_isConnected := False\<rparr>
      in if status = ''active'' \<or> status = ''connected''
         then add_log (stamped now ''v Scan completed successfully'') c1
         else if status = ''error''
         then add_log (stamped now ''x Scan failed - check logs for details'') c1
         else c1)"

definition stream_body :: "string \<Rightarrow> bool \<Rightarrow> bool \<Rightarrow> string \<Rightarrow> scan_log \<Rightarrow> scan_log" where
  "stream_body now opens scanning status c =
     (let c1 = (if scanning \<and> lg_source c = None then start_stream now opens c else c)
      in if \<not> scanning \<and> lg_source c1 \<noteq> None then finish_stream now status c1 else c1)"

definition stream_cleanup :: "scan_log \<Rightarrow> scan_log" where
  "stream_cleanup c =
     (case lg_source c of None \<Rightarrow> c
      | Some n \<Rightarrow> c\<lparr>lg_closed := lg_closed c @ [n], lg_source := None\<rparr>)"

text \<open>One event of the stream; \<open>parse\<close> is \<open>JSON.parse\<close>.\<close>

definition nonempty_text :: "js \<Rightarrow> bool" where
  "nonempty_text v \<longleftrightarrow> (case v of JStr s \<Rightarrow> trim s \<noteq> [] | _ \<Rightarrow> False)"

definition handleScanEvent ::
  "(string \<Rightarrow> js option) \<Rightarrow> (js \<Rightarrow> string) \<Rightarrow> string \<Rightarrow> string \<Rightarrow> string \<Rightarrow> js list option \<Rightarrow> scan_log \<Rightarrow> scan_log" where
  "handleScanEvent parse shown now dataSourceId text refetched c =
     (case parse text of
        None \<Rightarrow> c
      | Some data \<Rightarrow>
          if jprop ''datasource_id'' data \<noteq> JStr dataSourceId \<and> jprop ''dataset_id'' data \<noteq> JStr dataSourceId
          then c
          else
            (let c1 = fold (\<lambda>l. add_log (stamped now (text_value l)))
                        (filter nonempty_text (elements (jprop ''log_lines'' data))) c;
                 c2 = (if nonempty_text (jprop ''message'' data)
                       then add_log (stamped now (text_value (jprop ''message'' data))) c1 else c1)
             in if jprop ''status'' data = JStr ''completed''
                then (let c3 = add_log (stamped now (''v Scan completed - '' @
                             shown (js_or (js_or (jprop ''columns'' data) (jprop ''datasets_discovered'' data))
                               (JNum (Fin 0))) @ '' columns classified'')) c2
                      in case refetched of None \<Rightarrow> c3 | Some history \<Rightarrow> loadStoredLogs now history c3)
                else if jprop ''status'' data = JStr ''failed''
                then add_log (stamped now (''x Scan failed: '' @
                       shown (js_or (jprop ''message'' data) (JStr ''Unknown error'')))) c2
                else c2))"

definition log_shown :: "bool \<Rightarrow> string \<Rightarrow> bool \<Rightarrow> scan_log \<Rightarrow> bool" where
  "log_shown scanning status hasHistory c \<longleftrightarrow>
     scanning \<or> lg_logs c \<noteq> [] \<or> status = ''error'' \<or> hasHistory"

text \<open>
  The card as a machine: the properties \<open>isScanning\<close> and \<open>status\<close> change (the effect runs anew), the
  stream opens, fails or delivers, a refetch of the history is answered.
\<close>

record card_state =
  cd_scanning :: bool
  cd_status :: string
  cd_log :: scan_log

definition mount_card :: "string \<Rightarrow> bool \<Rightarrow> bool \<Rightarrow> string \<Rightarrow> card_state" where
  "mount_card now opens scanning status =
     \<lparr>cd_scanning = scanning, cd_status = status,
      cd_log = stream_body now opens scanning status (expand_log scanning initial_log)\<rparr>"

definition change_card :: "string \<Rightarrow> bool \<Rightarrow> bool \<Rightarrow> string \<Rightarrow> card_state \<Rightarrow> card_state" where
  "change_card now opens scanning status k =
     \<lparr>cd_scanning = scanning, cd_status = status,
      cd_log = stream_body now opens scanning status
        (expand_log scanning (stream_cleanup (cd_log k)))\<rparr>"

inductive card_step :: "card_state \<Rightarrow> card_state \<Rightarrow> bool" where
  change: "(scanning, status) \<noteq> (cd_scanning k, cd_status k) \<Longrightarrow>
     card_step k (change_card now opens scanning status k)"
| opened: "lg_source (cd_log k) \<noteq> None \<Longrightarrow>
     card_step k (k\<lparr>cd_log := (cd_log k)\<lparr>lg_isConnected := True\<rparr>\<rparr>)"
| failed: "lg_source (cd_log k) \<noteq> None \<Longrightarrow>
     card_step k (k\<lparr>cd_log := (cd_log k)\<lparr>lg_isConnected := False\<rparr>\<rparr>)"
| event: "lg_source (cd_log k) \<noteq> None \<Longrightarrow>
     card_step k (k\<lparr>cd_log := handleScanEvent parse shown now i text refetched (cd_log k)\<rparr>)"
| history: "card_step k (k\<lparr>cd_log := loadStoredLogs now h (cd_log k)\<rparr>)"

inductive card_reachable :: "card_state \<Rightarrow> bool" where
  mounted: "card_reachable (mount_card now opens scanning status)"
| stepped: "card_reachable k \<Longrightarrow> card_step k k' \<Longrightarrow> card_reachable k'"

inductive_cases card_stepE: "card_step k k'"

section \<open>Durations\<close>

text \<open>\<open>a % b\<close> has the sign of \<open>a\<close>.\<close>

definition js_mod :: "int \<Rightarrow> int \<Rightarrow> int" where
  "js_mod a b = (if a < 0 then - (- a mod b) else a mod b)"

definition formatDuration :: "int \<Rightarrow> int option \<Rightarrow> int \<Rightarrow> string" where
  "formatDuration startedAt completedAt now =
     (let durationMs = (case completedAt of Some t \<Rightarrow> t | None \<Rightarrow> now) - startedAt;
          seconds = durationMs div 1000;
          minutes = seconds div 60
      in if minutes > 0 then int_str minutes @ ''m '' @ int_str (js_mod seconds 60) @ ''s''
         else int_str seconds @ ''s'')"

section \<open>Entities\<close>

datatype risk = High | Medium | Low

definition ENTITY_SENSITIVITY :: "(string \<times> risk \<times> string) list" where
  "ENTITY_SENSITIVITY =
     [(''SSN'', High, ''SSN''), (''SOCIAL_SECURITY_NUMBER'', High, ''SSN''),
      (''CREDIT_CARD'', High, ''Card''), (''CREDIT_CARD_NUMBER'', High, ''Card''),
      (''PASSPORT'', High, ''Passport''), (''PASSPORT_NUMBER'', High, ''Passport''),
      (''BANK_ACCOUNT'', High, ''Bank''), (''BANK_ACCOUNT_NUMBER'', High, ''Bank''),
      (''DRIVER_LICENSE'', High, ''License''), (''DRIVER_LICENSE_NUMBER'', High, ''License''),
      (''TAX_ID'', High, ''Tax ID''), (''NATIONAL_ID'', High, ''Nat. ID''),
      (''EMAIL'', Medium, ''Email''), (''EMAIL_ADDRESS'', Medium, ''Email''),
      (''PHONE'', Medium, ''Phone''), (''PHONE_NUMBER'', Medium, ''Phone''),
      (''ADDRESS'', Medium, ''Address''), (''STREET_ADDRESS'', Medium, ''Address''),
      (''DATE_OF_BIRTH'', Medium, ''DOB''), (''DOB'', Medium, ''DOB''),
      (''MEDICAL_RECORD'', Medium, ''Medical''), (''HEALTH_INSURANCE'', Medium, ''Health ID''),
      (''PERSON_NAME'', Low, ''Name''), (''NAME'', Low, ''Name''), (''FIRST_NAME'', Low, ''Name''),
      (''LAST_NAME'', Low, ''Name''), (''IP_ADDRESS'', Low, ''IP''), (''IP'', Low, ''IP''),
      (''DATE'', Low, ''Date''), (''AGE'', Low, ''Age''), (''GENDER'', Low, ''Gender''),
      (''LOCATION'', Low, ''Location''), (''CITY'', Low, ''City''), (''STATE'', Low, ''State''),
      (''COUNTRY'', Low, ''Country''), (''ZIP_CODE'', Low, ''ZIP''), (''POSTAL_CODE'', Low, ''ZIP'')]"

text \<open>\<open>\w\<close> and \<open>replace(/\b\w/g, c => c.toUpperCase())\<close>\<close>

definition is_word_char :: "char \<Rightarrow> bool" where
  "is_word_char c \<longleftrightarrow>
     (let n = of_char c :: nat
      in (48 \<le> n \<and> n \<le> 57) \<or> (65 \<le> n \<and> n \<le> 90) \<or> n = 95 \<or> (97 \<le> n \<and> n \<le> 122))"

fun title_words :: "bool \<Rightarrow> string \<Rightarrow> string" where
  "title_words in_word [] = []"
| "title_words in_word (c # s) =
     (if is_word_char c \<and> \<not> in_word then upper_char c else [c]) @ title_words (is_word_char c) s"

definition getEntityInfo :: "string \<Rightarrow> risk \<times> string" where
  "getEntityInfo type =
     (case map_of ENTITY_SENSITIVITY (replace_all (CHR ''-'') (CHR ''_'') (to_upper type)) of
        Some info \<Rightarrow> info
      | None \<Rightarrow> (Low, take 12 (title_words False (replace_all (CHR ''_'') (CHR '' '') type))))"

fun risk_color :: "risk \<Rightarrow> string" where
  "risk_color High = ''red''"
| "risk_color Medium = ''orange''"
| "risk_color Low = ''yellow''"

type_synonym entity = "string \<times> nat"

definition by_count :: "entity \<Rightarrow> entity \<Rightarrow> int" where
  "by_count a b = int (snd b) - int (snd a)"

definition sortedEntities :: "entity list \<Rightarrow> entity list" where
  "sortedEntities entities = js_sort by_count entities"

definition totalCount :: "entity list \<Rightarrow> nat" where
  "totalCount entities = fold (\<lambda>e n. n + snd e) entities 0"

definition entity_percentage :: "entity list \<Rightarrow> entity \<Rightarrow> string" where
  "entity_percentage entities e =
     (if totalCount entities > 0
      then to_fixed 1 (of_nat (snd e) / of_nat (totalCount entities) * 100) else ''0'')"

definition displayedEntities :: "entity list \<Rightarrow> entity list" where
  "displayedEntities entities = take 5 (sortedEntities entities)"

definition remainingCount :: "entity list \<Rightarrow> int" where
  "remainingCount entities = int (length (sortedEntities entities)) - 5"

section \<open>Lemmas\<close>

lemma poll_fields:
  "sp_status (poll st p) = st"
  "sp_isPending (poll st p) = sp_isPending p"
  by (simp_all add: poll_def announce_def clear_local_def)

lemma poll_local:
  "truthy st \<Longrightarrow> sp_localScanning (poll st p) \<longleftrightarrow>
     sp_localScanning p \<and> (st = sp_status p \<or> st = JStr ''scanning'')"
  by (simp add: poll_def announce_def clear_local_def)

lemma fold_poll_status: "sp_status (fold poll sts p) = last (sp_status p # sts)"
  by (induction sts rule: rev_induct) (simp_all add: poll_fields)

lemma fold_poll_pending: "sp_isPending (fold poll sts p) = sp_isPending p"
  by (induction sts rule: rev_induct) (simp_all add: poll_fields)

lemma fold_poll_local:
  assumes "list_all truthy sts" and "sp_localScanning p" and "sp_status p \<noteq> JStr ''scanning''"
  shows "sp_localScanning (fold poll sts p) \<and> last (sp_status p # sts) \<noteq> JStr ''scanning''
     \<longleftrightarrow> set sts \<subseteq> {sp_status p}"
  using assms(1)
proof (induction sts rule: rev_induct)
  case (snoc x sts)
  have "sp_localScanning (fold poll (sts @ [x]) p) \<longleftrightarrow>
      sp_localScanning (fold poll sts p) \<and> (x = last (sp_status p # sts) \<or> x = JStr ''scanning'')"
    using snoc.prems by (simp add: poll_local fold_poll_status)
  moreover have "last (sp_status p # sts) = sp_status p" if "set sts \<subseteq> {sp_status p}"
    using that by (cases sts rule: rev_cases) auto
  ultimately show ?case using snoc by auto
qed (simp add: assms)

lemma scan_toast_same: "scan_toast st st = []"
  by (simp add: scan_toast_def)

lemma scan_toast_js_or: "scan_toast (js_or prev JNull) st = scan_toast prev st"
  by (cases "truthy prev") (auto simp: scan_toast_def js_or_def)

lemma fold_poll_toasts:
  "sp_prevStatus p = js_or (sp_status p) JNull \<Longrightarrow>
   sp_prevStatus (fold poll sts p) = js_or (sp_status (fold poll sts p)) JNull \<and>
   sp_toasts (fold poll sts p) = sp_toasts p @ concat (map2 scan_toast (sp_status p # sts) sts)"
proof (induction sts arbitrary: p)
  case (Cons st sts)
  have "sp_prevStatus (poll st p) = js_or (sp_status (poll st p)) JNull"
    using Cons.prems by (simp add: poll_def announce_def clear_local_def)
  moreover have "sp_toasts (poll st p) = sp_toasts p @ scan_toast (sp_status p) st"
    using Cons.prems
    by (simp add: poll_def announce_def clear_local_def scan_toast_same scan_toast_js_or)
  ultimately show ?case using Cons.IH [of "poll st p"] by (simp add: poll_fields)
qed simp

lemma add_log_fields [simp]:
  "lg_source (add_log l c) = lg_source c" "lg_opened (add_log l c) = lg_opened c"
  "lg_closed (add_log l c) = lg_closed c" "lg_isConnected (add_log l c) = lg_isConnected c"
  by (simp_all add: add_log_def)

text \<open>The streams of a log: opened in turn, all closed but the one in use.\<close>

definition streams_ok :: "scan_log \<Rightarrow> bool" where
  "streams_ok c \<longleftrightarrow>
     (case lg_source c of
        None \<Rightarrow> lg_closed c = [0..<lg_opened c]
      | Some n \<Rightarrow> lg_opened c = Suc n \<and> lg_closed c = [0..<n])"

lemma fold_add_log_fields [simp]:
  "lg_source (fold (\<lambda>l. add_log (f l)) ls c) = lg_source c"
  "lg_opened (fold (\<lambda>l. add_log (f l)) ls c) = lg_opened c"
  "lg_closed (fold (\<lambda>l. add_log (f l)) ls c) = lg_closed c"
  by (induction ls arbitrary: c) simp_all

lemma loadStoredLogs_fields [simp]:
  "lg_source (loadStoredLogs now h c) = lg_source c" "lg_opened (loadStoredLogs now h c) = lg_opened c"
  "lg_closed (loadStoredLogs now h c) = lg_closed c"
  by (simp_all add: loadStoredLogs_def Let_def split: list.split)

lemma handleScanEvent_fields:
  "lg_source (handleScanEvent parse shown now i text refetched c) = lg_source c"
  "lg_opened (handleScanEvent parse shown now i text refetched c) = lg_opened c"
  "lg_closed (handleScanEvent parse shown now i text refetched c) = lg_closed c"
  by (simp_all add: handleScanEvent_def Let_def split: option.split)

lemma expand_log_fields [simp]:
  "lg_source (expand_log b c) = lg_source c" "lg_opened (expand_log b c) = lg_opened c"
  "lg_closed (expand_log b c) = lg_closed c" "lg_logs (expand_log False c) = lg_logs c"
  "lg_isConnected (expand_log b c) = lg_isConnected c"
  by (simp_all add: expand_log_def)

lemma cleanup_fields [simp]:
  "lg_source (stream_cleanup c) = None" "lg_opened (stream_cleanup c) = lg_opened c"
  "lg_logs (stream_cleanup c) = lg_logs c" "lg_isConnected (stream_cleanup c) = lg_isConnected c"
  by (simp_all add: stream_cleanup_def split: option.split)

lemma streams_ok_cleanup: "streams_ok c \<Longrightarrow> streams_ok (stream_cleanup c)"
  by (auto simp: streams_ok_def stream_cleanup_def split: option.splits)

lemma body_without_stream:
  assumes "lg_source c = None"
  shows "stream_body now opens scanning status c = (if scanning then start_stream now opens c else c)"
  using assms by (simp add: stream_body_def)

lemma streams_ok_start: "lg_source c = None \<Longrightarrow> streams_ok c \<Longrightarrow> streams_ok (start_stream now opens c)"
  by (auto simp: streams_ok_def start_stream_def Let_def)

lemma card_invariant:
  assumes "card_reachable k"
  shows "streams_ok (cd_log k) \<and> (\<not> cd_scanning k \<longrightarrow> lg_source (cd_log k) = None)"
  using assms
proof induction
  case (mounted now opens scanning status)
  have "lg_source (expand_log scanning initial_log) = None" "streams_ok (expand_log scanning initial_log)"
    by (simp_all add: initial_log_def streams_ok_def)
  then show ?case
    using streams_ok_start [of "expand_log scanning initial_log" now opens]
    by (cases scanning) (simp_all add: mount_card_def body_without_stream)
next
  case (stepped k k')
  from stepped.hyps(2) show ?case
  proof cases
    case (change scanning status now opens)
    let ?c = "expand_log scanning (stream_cleanup (cd_log k))"
    have "streams_ok ?c" "lg_source ?c = None"
      using streams_ok_cleanup stepped.IH by (auto simp: streams_ok_def)
    with change streams_ok_start [of ?c now opens] show ?thesis
      by (cases scanning) (simp_all add: change_card_def body_without_stream)
  qed (use stepped.IH in \<open>auto simp: streams_ok_def handleScanEvent_fields split: option.splits\<close>)
qed

interpretation entity_order: comparison by_count UNIV
  by unfold_locales (auto simp: by_count_def)

lemma merge_logs_again: "merge_logs st (merge_logs st l) = merge_logs st l"
  by (simp add: merge_logs_def filter_empty_conv)

section \<open>Properties\<close>

text \<open>
  The page takes a scan for finished only when it has seen it: after a scan that was started, and
  polls with the statuses \<open>sts\<close>, it still shows the scan as running exactly when the last status is
  \<open>scanning\<close> or when no poll has shown another status than before the scan. A scan that is over
  before the first poll leaves the page scanning, its button disabled.
\<close>

theorem scan_ends_when_seen:
  assumes "handleScan e i (p, s) = (p', s')" and "run_mutation e useTriggerScan i s = (Inr d, s1)"
    and "\<not> isScanning p" and "list_all truthy sts"
  shows "isScanning (fold poll sts p') \<longleftrightarrow>
           last (sp_status p # sts) = JStr ''scanning'' \<or> set sts \<subseteq> {sp_status p}"
proof -
  from assms(1-3) have p': "p' = p\<lparr>sp_localScanning := True\<rparr>" by (simp add: handleScan_def)
  from assms(3) have "sp_status p \<noteq> JStr ''scanning''" "\<not> sp_isPending p"
    by (auto simp: isScanning_def)
  with fold_poll_local [OF assms(4), of p'] show ?thesis
    by (auto simp: isScanning_def fold_poll_status fold_poll_pending p')
qed

text \<open>
  The page announces the end of a scan once: the notifications are those of the steps of the
  polled statuses from \<open>scanning\<close> to \<open>connected\<close> or \<open>error\<close>, in their order, however often a status
  is polled.
\<close>

theorem scan_announced_once:
  "sp_toasts (fold poll sts (mount_scan st)) = concat (map2 scan_toast (st # sts) sts)"
proof -
  have "sp_prevStatus (mount_scan st) = js_or (sp_status (mount_scan st)) JNull"
    "sp_status (mount_scan st) = st" "sp_toasts (mount_scan st) = []"
    by (simp_all add: mount_scan_def announce_def clear_local_def scan_toast_def)
  with fold_poll_toasts [of "mount_scan st" sts] show ?thesis by simp
qed

text \<open>
  C16. The card never leaks a stream: in every state it can reach, the streams are numbered as they
  were opened, every one but the stream in use has been closed, once, and there is a stream in use
  only while a scan runs.
\<close>

theorem streams_never_leak:
  assumes "card_reachable k"
  shows "lg_closed (cd_log k) = [0..<length (lg_closed (cd_log k))]
    \<and> lg_opened (cd_log k) =
        length (lg_closed (cd_log k)) + (if lg_source (cd_log k) = None then 0 else 1)
    \<and> (lg_source (cd_log k) = None \<or> lg_source (cd_log k) = Some (length (lg_closed (cd_log k)))
         \<and> cd_scanning k)"
  using card_invariant [OF assms] by (auto simp: streams_ok_def split: option.splits)

text \<open>
  The end of a scan is never written to the log by the card, and a connection that was shown stays
  shown: the cleanup of the effect has already dropped the stream when the branch that does both asks
  for it.
\<close>

theorem scan_end_unannounced:
  "lg_logs (cd_log (change_card now opens False status k)) = lg_logs (cd_log k)
   \<and> lg_isConnected (cd_log (change_card now opens False status k)) = lg_isConnected (cd_log k)
   \<and> lg_source (cd_log (change_card now opens False status k)) = None"
  by (simp add: change_card_def body_without_stream)

text \<open>
  Loading the stored log keeps every line of the terminal, puts the stored lines first in their
  order, and does nothing when done again.
\<close>

theorem stored_log_merges:
  "set (lg_logs c) \<subseteq> set (lg_logs (loadStoredLogs now h c))
   \<and> loadStoredLogs now h (loadStoredLogs now h c) = loadStoredLogs now h c
   \<and> lg_logs (loadStoredLogs now (latest # older) c) =
       stored_lines now latest @ filter (\<lambda>l. l \<notin> set (stored_lines now latest)) (lg_logs c)"
proof -
  have "set l \<subseteq> set (merge_logs st l)" for st l by (auto simp: merge_logs_def)
  then show ?thesis
    by (auto simp: loadStoredLogs_def Let_def merge_logs_again split: list.split)
      (simp_all add: merge_logs_def)
qed

text \<open>
  The entities are shown from the most frequent to the least, those of equal number in the
  order of the server; the overview shows the five most frequent, and says how many more there are.
\<close>

theorem top_entities:
  "mset (sortedEntities es) = mset es
   \<and> sorted_wrt (\<lambda>a b. snd b \<le> snd a) (sortedEntities es)
   \<and> filter (\<lambda>e. snd e = n) (sortedEntities es) = filter (\<lambda>e. snd e = n) es
   \<and> int (length (displayedEntities es)) + max 0 (remainingCount es) = int (length es)"
proof -
  have "sorted_wrt (\<lambda>a b. by_count a b \<le> 0) (sortedEntities es)"
    unfolding sortedEntities_def by (rule entity_order.sorted_sort) simp
  then have "sorted_wrt (\<lambda>a b. snd b \<le> snd a) (sortedEntities es)" by (simp add: by_count_def)
  moreover have "filter (\<lambda>e. snd e = n) (sortedEntities es) = filter (\<lambda>e. snd e = n) es"
  proof -
    have "by_count e (''e'', n) = 0 \<longleftrightarrow> snd e = n" for e by (auto simp: by_count_def)
    then show ?thesis
      using entity_order.stable_sort [of es "(''e'', n)"] by (simp add: sortedEntities_def)
  qed
  moreover have "int (length (displayedEntities es)) + max 0 (remainingCount es) = int (length es)"
    by (simp add: sortedEntities_def displayedEntities_def remainingCount_def)
  ultimately show ?thesis by (simp add: sortedEntities_def)
qed

definition ex_scan_page :: scan_page where
  "ex_scan_page = mount_scan (JStr ''connected'')"

theorem scan_ends_when_seen_witness:
  "\<exists>p' s'. handleScan (ex_fe_env JNull) ''d'' (ex_scan_page, ex_browser []) = (p', s')
     \<and> isScanning (fold poll (replicate 3 (JStr ''connected'')) p')
     \<and> \<not> isScanning (fold poll [JStr ''scanning'', JStr ''connected''] p')"
proof -
  obtain d s1 where run: "run_mutation (ex_fe_env JNull) useTriggerScan ''d'' (ex_browser []) = (Inr d, s1)"
    by (simp add: run_mutation_def api_send_def Let_def ex_fe_env_def useTriggerScan_def)
  have page: "\<not> isScanning ex_scan_page" "sp_status ex_scan_page = JStr ''connected''"
    by (simp_all add: ex_scan_page_def mount_scan_def announce_def clear_local_def isScanning_def)
  obtain p' s' where scan: "handleScan (ex_fe_env JNull) ''d'' (ex_scan_page, ex_browser []) = (p', s')"
    by fastforce
  have "isScanning (fold poll (replicate 3 (JStr ''connected'')) p')"
    using scan_ends_when_seen [OF scan run page(1), of "replicate 3 (JStr ''connected'')"] page(2)
    by (auto simp: list_all_iff)
  moreover have "\<not> isScanning (fold poll [JStr ''scanning'', JStr ''connected''] p')"
    using scan_ends_when_seen [OF scan run page(1), of "[JStr ''scanning'', JStr ''connected'']"] page(2)
    by simp
  ultimately show ?thesis using scan by blast
qed

theorem streams_never_leak_witness:
  "lg_opened (cd_log (change_card ''t'' True False ''connected''
      (change_card ''t'' True True ''scanning'' (mount_card ''t'' True True ''connected'')))) = 2
   \<and> lg_closed (cd_log (change_card ''t'' True False ''connected''
      (change_card ''t'' True True ''scanning'' (mount_card ''t'' True True ''connected'')))) = [0, 1]"
proof -
  let ?k0 = "mount_card ''t'' True True ''connected''"
  let ?k1 = "change_card ''t'' True True ''scanning'' ?k0"
  let ?k2 = "change_card ''t'' True False ''connected'' ?k1"
  have "card_step ?k0 ?k1" by (rule card_step.change) (simp add: mount_card_def)
  moreover have "card_step ?k1 ?k2" by (rule card_step.change) (simp add: change_card_def)
  ultimately have "card_reachable ?k2" by (blast intro: card_reachable.intros)
  from streams_never_leak [OF this]
  have closed: "lg_closed (cd_log ?k2) = [0..<length (lg_closed (cd_log ?k2))]"
    and total: "lg_opened (cd_log ?k2) = length (lg_closed (cd_log ?k2))"
    by (simp_all add: change_card_def body_without_stream)
  have two: "lg_opened (cd_log ?k2) = 2"
    by (simp add: change_card_def mount_card_def body_without_stream start_stream_def Let_def
        initial_log_def expand_log_def)
  then have "lg_closed (cd_log ?k2) = [0..<2]" using closed total by metis
  then show ?thesis using two by (simp add: numeral_2_eq_2)
qed

end
