(* ===== verification/FeRot.thy ===== *)
theory FeRot
  imports FeRemediation FeScan
begin

text \<open>
  The rest of the page of redundant, obsolete and trivial data (\<open>app/(app)/rot/page.tsx\<close>): its
  panel, its figures, the dismissal of rows, and the scan with its stream of server-sent events.
\<close>

section \<open>Panel and figures\<close>

definition rot_panel :: "page_env \<Rightarrow> (js \<Rightarrow> int) \<Rightarrow> js \<Rightarrow> bool \<Rightarrow> (string \<times> cell list) list \<times> (string \<times> bool) list" where
  "rot_panel e date_year row isPending =
     (let score = num_scale 100 (to_num (conversions.truncate e) (jprop ''score'' row))
      in ([(''Dataset'', Txt (rot_dataset_name row)
             # (if truthy (jprop ''dataset_name'' row) \<and> jprop ''dataset_name'' row \<noteq> jprop ''dataset_id'' row
                then [Txt (jprop ''dataset_id'' row)] else [])),
           (''Category'', [category_cell row]),
           (''ROT Score'', [Bar (JNum (num_min score 100)), text_of (num_fixed 0 score @ ''%'')]),
           (''Reason'', [or_dash (jprop ''reason'' row)]),
           (''Size'', [text_of (formatBytes (to_num (conversions.truncate e) (jprop ''size_bytes'' row)))]),
           (''Last Access'', [formatLastAccess e date_year (jprop ''last_access'' row)])],
          [(''Remediate'', \<not> isPending), (''Dismiss'', True)]))"

definition rot_stats :: "conversions \<Rightarrow> js \<Rightarrow> (string \<times> string) list" where
  "rot_stats cv summary =
     (let figure = (\<lambda>k. to_str cv (js_or (jprop k summary) (JNum (Fin 0))))
      in [(''Total ROT Data'', figure ''total_rot_data''), (''Redundant'', figure ''redundant_count''),
          (''Obsolete'', figure ''obsolete_count''),
          (''Potential Savings'',
           num_fixed 1 (to_num cv (js_or (jprop ''potential_savings_gb'' summary) (JNum (Fin 0)))) @ '' GB'')])"

section \<open>The page\<close>

record rot_page =
  ro_isScanning :: bool
  ro_scanLogs :: "string list"
  ro_isLogsExpanded :: bool
  ro_selectedRow :: "js option"
  ro_dismissedIds :: "js list"
  ro_source :: bool
  ro_refetches :: nat
  ro_toasts :: "(toast_kind \<times> string) list"

definition initial_rot :: rot_page where
  "initial_rot =
     \<lparr>ro_isScanning = False, ro_scanLogs = [], ro_isLogsExpanded = False, ro_selectedRow = None,
      ro_dismissedIds = [], ro_source = False, ro_refetches = 0, ro_toasts = []\<rparr>"

definition rot_log :: "string \<Rightarrow> string \<Rightarrow> rot_page \<Rightarrow> rot_page" where
  "rot_log now line p = p\<lparr>ro_scanLogs := ro_scanLogs p @ [stamped now line]\<rparr>"

text \<open>
  The effect of the stream and its cleanup: they run when \<open>isScanning\<close> has changed. \<open>opens\<close> says whether the
  constructor of \<open>EventSource\<close> accepts the address.
\<close>

definition rot_effect :: "bool \<Rightarrow> rot_page \<Rightarrow> rot_page" where
  "rot_effect opens p =
     (if \<not> ro_isScanning p \<or> ro_source p then p else p\<lparr>ro_source := opens\<rparr>)"

definition rot_cleanup :: "rot_page \<Rightarrow> rot_page" where
  "rot_cleanup p = p\<lparr>ro_source := False\<rparr>"

definition rot_rendered :: "bool \<Rightarrow> rot_page \<Rightarrow> rot_page \<Rightarrow> rot_page" where
  "rot_rendered opens old new =
     (if ro_isScanning new \<noteq> ro_isScanning old then rot_effect opens (rot_cleanup new) else new)"

definition handleStartScan :: "string \<Rightarrow> rot_page \<Rightarrow> rot_page" where
  "handleStartScan now p =
     p\<lparr>ro_isScanning := True, ro_isLogsExpanded := True,
       ro_scanLogs := [stamped now ''Initiating ROT scan...'']\<rparr>"

definition handleDismiss :: "js \<Rightarrow> rot_page \<Rightarrow> rot_page" where
  "handleDismiss i p =
     p\<lparr>ro_dismissedIds := (if i \<in> set (ro_dismissedIds p) then ro_dismissedIds p else ro_dismissedIds p @ [i]),
       ro_selectedRow := None, ro_toasts := ro_toasts p @ [(Success, ''Dataset dismissed from list'')]\<rparr>"

text \<open>
  The listeners: one for each named event of the stream they are registered for; the others are not
  heard. \<open>data\<close> is the parsed text of the event, \<open>None\<close> when it is no JSON, which throws.
\<close>

definition rot_listener :: "(js \<Rightarrow> string) \<Rightarrow> string \<Rightarrow> string \<Rightarrow> js option \<Rightarrow> rot_page \<Rightarrow> rot_page" where
  "rot_listener shown now name data p =
     (case data of
        None \<Rightarrow> p
      | Some d \<Rightarrow>
          if name = ''rot.scan.started''
          then rot_log now (shown (js_or (jprop ''message'' d) (JStr ''ROT scan started''))) p
          else if name = ''rot.scan.progress'' then rot_log now (shown (jprop ''message'' d)) p
          else if name = ''rot.scan.completed''
          then (rot_log now (shown (js_or (jprop ''message'' d) (JStr ''ROT scan completed''))) p)
                 \<lparr>ro_isScanning := False, ro_refetches := Suc (ro_refetches p), ro_source := False\<rparr>
          else p)"

datatype rot_event =
    StartScan
  | ScanAnswered bool
  | RotOpened
  | RotError
  | RotEvent string "js option"
  | SelectRow js
  | Dismiss js
  | ToggleLogs

text \<open>
  Whether the request that starts the scan succeeds or fails changes no state of the page; while it
  is pending the button is disabled, as it is during the scan.
\<close>

definition rot_handle :: "(js \<Rightarrow> string) \<Rightarrow> string \<Rightarrow> rot_event \<Rightarrow> rot_page \<Rightarrow> rot_page" where
  "rot_handle shown now ev p =
     (case ev of
        StartScan \<Rightarrow> (if ro_isScanning p then p else handleStartScan now p)
      | ScanAnswered ok \<Rightarrow> p
      | RotOpened \<Rightarrow> (if ro_source p then rot_log now ''Connected to scan stream'' p else p)
      | RotError \<Rightarrow> (if ro_source p then rot_log now ''Connection error - retrying...'' p else p)
      | RotEvent name data \<Rightarrow> (if ro_source p then rot_listener shown now name data p else p)
      | SelectRow r \<Rightarrow> p\<lparr>ro_selectedRow := Some r\<rparr>
      | Dismiss i \<Rightarrow> handleDismiss i p
      | ToggleLogs \<Rightarrow> p\<lparr>ro_isLogsExpanded := \<not> ro_isLogsExpanded p\<rparr>)"

definition rot_next :: "(js \<Rightarrow> string) \<Rightarrow> string \<Rightarrow> bool \<Rightarrow> rot_event \<Rightarrow> rot_page \<Rightarrow> rot_page" where
  "rot_next shown now opens ev p = rot_rendered opens p (rot_handle shown now ev p)"

definition run_rot :: "(js \<Rightarrow> string) \<Rightarrow> string \<Rightarrow> bool \<Rightarrow> rot_event list \<Rightarrow> rot_page" where
  "run_rot shown now opens evs = fold (rot_next shown now opens) evs initial_rot"

section \<open>Lemmas\<close>

lemma rot_log_fields [simp]:
  "ro_isScanning (rot_log now l p) = ro_isScanning p" "ro_source (rot_log now l p) = ro_source p"
  "ro_dismissedIds (rot_log now l p) = ro_dismissedIds p"
  by (simp_all add: rot_log_def)

fun completes :: "rot_event \<Rightarrow> bool" where
  "completes (RotEvent name (Some d)) = (name = ''rot.scan.completed'')"
| "completes ev = False"

lemma listener_scanning:
  "ro_isScanning (rot_listener shown now name data p) = (ro_isScanning p \<and> \<not> completes (RotEvent name data))"
  "ro_source (rot_listener shown now name data p) = (ro_source p \<and> \<not> completes (RotEvent name data))"
  by (cases data; simp add: rot_listener_def)+

lemma rendered_scanning: "ro_isScanning (rot_rendered opens old new) = ro_isScanning new"
  by (simp add: rot_rendered_def rot_effect_def rot_cleanup_def)

lemma rot_next_scanning:
  assumes "ro_source p \<longleftrightarrow> ro_isScanning p \<and> opens"
  shows "ro_isScanning (rot_next shown now opens ev p) \<longleftrightarrow>
           ev = StartScan \<or> ro_isScanning p \<and> \<not> (completes ev \<and> opens)"
    and "ro_source (rot_next shown now opens ev p) \<longleftrightarrow>
           ro_isScanning (rot_next shown now opens ev p) \<and> opens"
proof -
  have h: "ro_isScanning (rot_handle shown now ev p) \<longleftrightarrow>
      ev = StartScan \<or> ro_isScanning p \<and> \<not> (completes ev \<and> opens)"
    using assms
    by (cases ev) (auto simp: rot_handle_def handleStartScan_def handleDismiss_def listener_scanning)
  have s: "ro_source (rot_handle shown now ev p) \<longleftrightarrow> ro_source p \<and> \<not> completes ev"
    by (cases ev) (auto simp: rot_handle_def handleStartScan_def handleDismiss_def listener_scanning)
  show "ro_isScanning (rot_next shown now opens ev p) \<longleftrightarrow>
      ev = StartScan \<or> ro_isScanning p \<and> \<not> (completes ev \<and> opens)"
    unfolding rot_next_def rendered_scanning by (rule h)
  show "ro_source (rot_next shown now opens ev p) \<longleftrightarrow>
      ro_isScanning (rot_next shown now opens ev p) \<and> opens"
  proof (cases "completes ev")
    case True
    then have "ev \<noteq> StartScan" by auto
    with True h s assms show ?thesis
      by (auto simp: rot_next_def rot_rendered_def rot_effect_def rot_cleanup_def)
  next
    case False
    with h s assms show ?thesis
      by (auto simp: rot_next_def rot_rendered_def rot_effect_def rot_cleanup_def)
  qed
qed

definition pending_scan :: "bool \<Rightarrow> rot_event list \<Rightarrow> bool" where
  "pending_scan opens evs =
     (case rev (filter (\<lambda>ev. ev = StartScan \<or> completes ev \<and> opens) evs) of
        [] \<Rightarrow> False
      | ev # rest \<Rightarrow> ev = StartScan)"

section \<open>Properties\<close>

text \<open>
  The page scans exactly from a start to the first completion its stream delivers: neither a
  request that fails nor an event that reports a failure ends the scan, and a stream that could not be
  opened never does. While it scans its stream is open, when it can be, and otherwise it is closed.
\<close>

theorem rot_scan_until_completed:
  "(ro_isScanning (run_rot shown now opens evs) \<longleftrightarrow> pending_scan opens evs)
   \<and> (ro_source (run_rot shown now opens evs) \<longleftrightarrow> pending_scan opens evs \<and> opens)"
proof -
  have "(ro_isScanning (run_rot shown now opens evs) \<longleftrightarrow> pending_scan opens evs)
     \<and> (ro_source (run_rot shown now opens evs) \<longleftrightarrow> ro_isScanning (run_rot shown now opens evs) \<and> opens)"
  proof (induction evs rule: rev_induct)
    case Nil
    show ?case by (simp add: run_rot_def initial_rot_def pending_scan_def)
  next
    case (snoc ev evs)
    let ?p = "run_rot shown now opens evs"
    have run: "run_rot shown now opens (evs @ [ev]) = rot_next shown now opens ev ?p"
      by (simp add: run_rot_def)
    have "pending_scan opens (evs @ [ev]) \<longleftrightarrow>
        ev = StartScan \<or> pending_scan opens evs \<and> \<not> (completes ev \<and> opens)"
      by (auto simp: pending_scan_def)
    with snoc.IH show ?case unfolding run by (simp only: rot_next_scanning)
  qed
  then show ?thesis by blast
qed

text \<open>The server's event of a failed scan is not heard.\<close>

lemma failed_scan_unheard: "rot_listener shown now ''rot.scan.failed'' data p = p"
  by (simp add: rot_listener_def split: option.split)

text \<open>Dismissed rows stay hidden.\<close>

lemma dismissed_hidden:
  "d \<in> set (visible_datasets (ro_dismissedIds (handleDismiss i p)) ds) \<longleftrightarrow>
     d \<in> set (visible_datasets (ro_dismissedIds p) ds) \<and> jprop ''id'' d \<noteq> i"
  by (auto simp: visible_datasets_def handleDismiss_def)

end
