(* ===== verification/FeResidency.thy ===== *)
theory FeResidency
  imports FePages
begin

text \<open>
  The page of data residency (\<open>app/(app)/data-map/residency/page.tsx\<close>): the cards of the regions
  built from the data sources, the rules and their form, the loading of everything with \<open>fetch\<close>. An
  em dash in a label is written as a hyphen, a flag as the code of its country (the globe as no
  code). Regions are strings, and the answers of the server hold arrays where the code iterates.
\<close>

section \<open>Regions\<close>

type_synonym region_meta = "string \<times> string"

definition CANONICAL_REGIONS :: "(string \<times> region_meta) list" where
  "CANONICAL_REGIONS =
     [(''ap-south-1'', ''Asia Pacific (Mumbai) - India'', ''IN''),
      (''ap-south-2'', ''Asia Pacific (Hyderabad) - India'', ''IN''),
      (''ap-southeast-1'', ''Asia Pacific (Singapore)'', ''SG''),
      (''ap-southeast-2'', ''Asia Pacific (Sydney) - Australia'', ''AU''),
      (''ap-northeast-1'', ''Asia Pacific (Tokyo) - Japan'', ''JP''),
      (''ap-northeast-2'', ''Asia Pacific (Seoul) - South Korea'', ''KR''),
      (''ap-east-1'', ''Asia Pacific (Hong Kong)'', ''HK''),
      (''me-south-1'', ''Middle East (UAE/Bahrain)'', ''AE''),
      (''me-central-1'', ''Middle East (UAE)'', ''AE''),
      (''af-south-1'', ''Africa (Cape Town) - South Africa'', ''ZA''),
      (''eu-west-1'', ''Europe (Ireland)'', ''IE''),
      (''eu-west-2'', ''Europe (London) - UK'', ''GB''),
      (''eu-west-3'', ''Europe (Paris) - France'', ''FR''),
      (''eu-central-1'', ''Europe (Frankfurt) - Germany'', ''DE''),
      (''eu-north-1'', ''Europe (Stockholm) - Sweden'', ''SE''),
      (''eu-south-1'', ''Europe (Milan) - Italy'', ''IT''),
      (''us-east-1'', ''US East (N. Virginia)'', ''US''),
      (''us-east-2'', ''US East (Ohio)'', ''US''),
      (''us-west-1'', ''US West (N. California)'', ''US''),
      (''us-west-2'', ''US West (Oregon)'', ''US''),
      (''ca-central-1'', ''Canada (Central)'', ''CA''),
      (''sa-east-1'', ''South America (S'' @ CHR 0xE3 # ''o Paulo) - Brazil'', ''BR'')]"

definition REGION_META :: "(string \<times> region_meta) list" where
  "REGION_META =
     [(''ap-south-1'', ''Asia Pacific (Mumbai) - India'', ''IN''),
      (''ap-south-2'', ''Asia Pacific (Hyderabad) - India'', ''IN''),
      (''ap-southeast-1'', ''Asia Pacific (Singapore)'', ''SG''),
      (''ap-southeast-2'', ''Asia Pacific (Sydney) - Australia'', ''AU''),
      (''ap-northeast-1'', ''Asia Pacific (Tokyo) - Japan'', ''JP''),
      (''ap-northeast-2'', ''Asia Pacific (Seoul) - South Korea'', ''KR''),
      (''ap-east-1'', ''Asia Pacific (Hong Kong)'', ''HK''),
      (''me-south-1'', ''Middle East (UAE/Bahrain)'', ''AE''),
      (''me-central-1'', ''Middle East (UAE)'', ''AE''),
      (''af-south-1'', ''Africa (Cape Town) - South Africa'', ''ZA''),
      (''eu-west-1'', ''Europe (Ireland)'', ''IE''),
      (''eu-west-2'', ''Europe (London) - UK'', ''GB''),
      (''eu-west-3'', ''Europe (Paris) - France'', ''FR''),
      (''eu-central-1'', ''Europe (Frankfurt) - Germany'', ''DE''),
      (''eu-north-1'', ''Europe (Stockholm) - Sweden'', ''SE''),
      (''eu-south-1'', ''Europe (Milan) - Italy'', ''IT''),
      (''us-east-1'', ''US East (N. Virginia)'', ''US''),
      (''us-east-2'', ''US East (Ohio)'', ''US''),
      (''us-west-1'', ''US West (N. California)'', ''US''),
      (''us-west-2'', ''US West (Oregon)'', ''US''),
      (''ca-central-1'', ''Canada (Central)'', ''CA''),
      (''sa-east-1'', ''South America (S'' @ CHR 0xE3 # ''o Paulo) - Brazil'', ''BR'')]"

definition countryFlags :: "(string \<times> string) list" where
  "countryFlags =
     [(''India'', ''IN''), (''Germany'', ''DE''), (''France'', ''FR''), (''UK'', ''GB''), (''United Kingdom'', ''GB''),
      (''USA'', ''US''), (''United States'', ''US''), (''Canada'', ''CA''), (''Japan'', ''JP''), (''Australia'', ''AU''),
      (''Singapore'', ''SG''), (''Brazil'', ''BR'')]"

definition regionMeta :: "string \<Rightarrow> js \<Rightarrow> region_meta" where
  "regionMeta regionId country =
     (case map_of REGION_META regionId of
        Some m \<Rightarrow> m
      | None \<Rightarrow>
          (if truthy country
           then (regionId @ '' ('' @ text_value country @ '')'',
                 opt_default [] (map_of countryFlags (text_value country)))
           else (regionId, [])))"

record region_card =
  rg_regionId :: string
  rg_label :: string
  rg_flag :: string
  rg_country :: js
  rg_dsList :: "js list"

fun push_source :: "js \<Rightarrow> region_card list \<Rightarrow> region_card list" where
  "push_source ds [] = []"
| "push_source ds (c # cs) =
     (if rg_regionId c = text_value (jprop ''region'' ds)
      then c\<lparr>rg_dsList := rg_dsList c @ [ds]\<rparr> # cs else c # push_source ds cs)"

definition new_card :: "js \<Rightarrow> region_card" where
  "new_card ds =
     (let r = text_value (jprop ''region'' ds); meta = regionMeta r (jprop ''country'' ds)
      in \<lparr>rg_regionId = r, rg_label = fst meta, rg_flag = snd meta,
          rg_country = js_or (jprop ''country'' ds) (JStr []), rg_dsList = []\<rparr>)"

definition add_source :: "js \<Rightarrow> region_card list \<Rightarrow> region_card list" where
  "add_source ds cards =
     (if \<not> truthy (jprop ''region'' ds) then cards
      else push_source ds
        (if text_value (jprop ''region'' ds) \<in> set (map rg_regionId cards) then cards
         else cards @ [new_card ds]))"

definition regionMap :: "js list \<Rightarrow> region_card list" where
  "regionMap datasources = fold add_source datasources []"

text \<open>A card with \<open>count\<close> and \<open>violationCount\<close>\<close>

definition violation_count :: "js list \<Rightarrow> string \<Rightarrow> nat" where
  "violation_count violations r =
     length (filter (\<lambda>v. jprop ''datasource_region'' v = JStr r \<or> jprop ''region'' v = JStr r) violations)"

definition activeRegions :: "js list \<Rightarrow> js list \<Rightarrow> (region_card \<times> nat \<times> nat) list" where
  "activeRegions datasources violations =
     map (\<lambda>c. (c, length (rg_dsList c), violation_count violations (rg_regionId c)))
       (regionMap datasources)"

definition untaggedSources :: "js list \<Rightarrow> js list" where
  "untaggedSources datasources = filter (\<lambda>ds. \<not> truthy (jprop ''region'' ds)) datasources"

text \<open>What a card says of its region.\<close>

definition region_verdict :: "region_card \<times> nat \<times> nat \<Rightarrow> string" where
  "region_verdict c = (case c of (rc, n, violationCount) \<Rightarrow>
     if violationCount > 0 then ''At Risk'' else ''Compliant'')"

section \<open>The token\<close>

definition residency_token :: "string \<Rightarrow> string" where
  "residency_token cookie =
     (case find (\<lambda>c. starts_with c ''accessToken='') (map trim (split_on (CHR '';'') cookie)) of
        None \<Rightarrow> []
      | Some c \<Rightarrow> (case split_on (CHR ''='') c of a # b # cs \<Rightarrow> b | _ \<Rightarrow> []))"

definition residency_headers :: "string \<Rightarrow> string" where
  "residency_headers cookie = ''Bearer '' @ residency_token cookie"

section \<open>The page\<close>

datatype residency_tab = MapTab | RulesTab | ViolationsTab

record new_rule =
  nr_name :: string
  nr_regulation :: string
  nr_allowed_regions :: "string list"
  nr_data_types :: "string list"

record residency_stats =
  st_total_datasources :: js
  st_violations :: js
  st_residency_rules :: js
  st_untagged_sources :: js

record residency_page =
  rp_rules :: js
  rp_violations :: js
  rp_datasources :: js
  rp_stats :: residency_stats
  rp_loading :: bool
  rp_activeTab :: residency_tab
  rp_showCreateRule :: bool
  rp_notification :: "page_note option"
  rp_newRule :: new_rule
  rp_tagTarget :: "(string \<times> string) option"
  rp_tagRegion :: string
  rp_tagCountry :: string
  rp_sent :: "raw_request list"

definition empty_rule :: new_rule where
  "empty_rule =
     \<lparr>nr_name = [], nr_regulation = ''GDPR'', nr_allowed_regions = [], nr_data_types = []\<rparr>"

definition initial_residency :: residency_page where
  "initial_residency =
     \<lparr>rp_rules = JArr [], rp_violations = JArr [], rp_datasources = JArr [],
      rp_stats = \<lparr>st_total_datasources = JNum (Fin 0), st_violations = JNum (Fin 0),
        st_residency_rules = JNum (Fin 0), st_untagged_sources = JNum (Fin 0)\<rparr>,
      rp_loading = False, rp_activeTab = MapTab, rp_showCreateRule = False, rp_notification = None,
      rp_newRule = empty_rule, rp_tagTarget = None, rp_tagRegion = [], rp_tagCountry = [],
      rp_sent = []\<rparr>"

definition rule_json :: "new_rule \<Rightarrow> js" where
  "rule_json r =
     JObj [(''name'', JStr (nr_name r)), (''regulation'', JStr (nr_regulation r)),
           (''allowed_regions'', JArr (map JStr (nr_allowed_regions r))),
           (''data_types'', JArr (map JStr (nr_data_types r)))]"

text \<open>\<open>res.ok ? await res.json() : other\<close>; \<open>None\<close> when the fetch or \<open>json()\<close> rejected\<close>

definition read_answer :: "raw_response option \<Rightarrow> js \<Rightarrow> js option" where
  "read_answer res other =
     (case res of
        None \<Rightarrow> None
      | Some r \<Rightarrow> (if rs_ok r then rs_json r else Some other))"

text \<open>The \<open>set\<close> calls of \<open>loadAll\<close>: a property of \<open>null\<close> throws between them.\<close>

definition set_loaded :: "js \<Rightarrow> js \<Rightarrow> js \<Rightarrow> js \<Rightarrow> residency_page \<Rightarrow> residency_page" where
  "set_loaded rulesData vioData dsData statsData s =
     (if nullish rulesData then s
      else let s1 = s\<lparr>rp_rules := js_or (jprop ''rules'' rulesData) (JArr [])\<rparr>
      in if nullish vioData then s1
      else let s2 = s1\<lparr>rp_violations := js_or (jprop ''violations'' vioData) (JArr [])\<rparr>
      in if nullish dsData then s2
      else let s3 = s2\<lparr>rp_datasources :=
                 (case dsData of JArr xs \<Rightarrow> JArr xs
                  | _ \<Rightarrow> js_or (jprop ''datasources'' dsData) (JArr []))\<rparr>
      in if nullish statsData then s3
      else s3\<lparr>rp_stats :=
        \<lparr>st_total_datasources = coalesce (jprop ''total_datasources'' statsData) (JNum (Fin 0)),
         st_violations = coalesce (jprop ''violations'' statsData) (JNum (Fin 0)),
         st_residency_rules = coalesce (jprop ''residency_rules'' statsData) (JNum (Fin 0)),
         st_untagged_sources = coalesce (jprop ''untagged_sources'' statsData) (JNum (Fin 0))\<rparr>\<rparr>)"

definition residency_requests :: "string \<Rightarrow> string \<Rightarrow> raw_request list" where
  "residency_requests base cookie =
     map (\<lambda>path. raw GET (base @ path) (residency_headers cookie) JUndef)
       [''/residency/rules'', ''/residency/violations'', ''/datasources'', ''/residency/stats'']"

definition loadAll :: "network \<Rightarrow> string \<Rightarrow> string \<Rightarrow> residency_page \<Rightarrow> residency_page" where
  "loadAll nw base cookie s =
     (let rqs = residency_requests base cookie;
          s1 = s\<lparr>rp_loading := True, rp_sent := rp_sent s @ rqs\<rparr>;
          answer = (\<lambda>i other. read_answer (nw (rqs ! i)) other);
          s2 = (if None \<in> set (map nw rqs) then s1
                else case (answer 0 (JObj []), answer 1 (JObj []), answer 2 (JArr []), answer 3 (JObj [])) of
                       (Some rulesData, Some vioData, Some dsData, Some statsData) \<Rightarrow>
                         set_loaded rulesData vioData dsData statsData s1
                     | _ \<Rightarrow> s1)
      in s2\<lparr>rp_loading := False\<rparr>)"

text \<open>
  The handlers. A rejected \<open>fetch\<close> leaves the handler with an exception; nothing after it happens.
\<close>

definition send_residency ::
  "network \<Rightarrow> raw_request \<Rightarrow> (bool \<Rightarrow> residency_page \<Rightarrow> residency_page) \<Rightarrow> residency_page \<Rightarrow> residency_page" where
  "send_residency nw rq k s =
     (let s' = s\<lparr>rp_sent := rp_sent s @ [rq]\<rparr>
      in case nw rq of None \<Rightarrow> s' | Some r \<Rightarrow> k (rs_ok r) s')"

definition createRule :: "network \<Rightarrow> string \<Rightarrow> string \<Rightarrow> residency_page \<Rightarrow> residency_page" where
  "createRule nw base cookie s =
     send_residency nw
       (raw POST (base @ ''/residency/rules'') (residency_headers cookie) (rule_json (rp_newRule s)))
       (\<lambda>ok s'. if ok
          then loadAll nw base cookie
            (s'\<lparr>rp_notification := Some (NoteSuccess ''Residency rule created''),
                rp_showCreateRule := False, rp_newRule := empty_rule\<rparr>)
          else s'\<lparr>rp_notification := Some (NoteError ''Failed to create rule'')\<rparr>) s"

definition deleteRule :: "network \<Rightarrow> string \<Rightarrow> string \<Rightarrow> string \<Rightarrow> residency_page \<Rightarrow> residency_page" where
  "deleteRule nw base cookie i s =
     send_residency nw (raw DELETE (base @ ''/residency/rules/'' @ i) (residency_headers cookie) JUndef)
       (\<lambda>ok s'. if ok
          then loadAll nw base cookie (s'\<lparr>rp_notification := Some (NoteSuccess ''Rule deleted'')\<rparr>)
          else s') s"

definition tagRegionFn :: "network \<Rightarrow> string \<Rightarrow> string \<Rightarrow> residency_page \<Rightarrow> residency_page" where
  "tagRegionFn nw base cookie s =
     (case rp_tagTarget s of
        None \<Rightarrow> s
      | Some (i, name) \<Rightarrow>
          send_residency nw
            (raw POST (base @ ''/residency/datasources/'' @ i @ ''/tag-region'') (residency_headers cookie)
               (JObj [(''region'', JStr (rp_tagRegion s)), (''country'', JStr (rp_tagCountry s))]))
            (\<lambda>ok s'. if ok
               then loadAll nw base cookie
                 (s'\<lparr>rp_notification :=
                       Some (NoteSuccess (''Tagged '' @ [CHR 0x22] @ name @ [CHR 0x22] @ '' with region '' @ rp_tagRegion s)),
                     rp_tagTarget := None\<rparr>)
               else s'\<lparr>rp_notification := Some (NoteError ''Failed to tag region'')\<rparr>) s)"

definition toggleRegion :: "string \<Rightarrow> residency_page \<Rightarrow> residency_page" where
  "toggleRegion rid s =
     s\<lparr>rp_newRule := (rp_newRule s)\<lparr>nr_allowed_regions := toggle rid (nr_allowed_regions (rp_newRule s))\<rparr>\<rparr>"

text \<open>The regions the page shows.\<close>

definition shown_regions :: "residency_page \<Rightarrow> (region_card \<times> nat \<times> nat) list" where
  "shown_regions s = activeRegions (elements (rp_datasources s)) (elements (rp_violations s))"

section \<open>Lemmas\<close>

abbreviation region_of :: "js \<Rightarrow> string" where
  "region_of ds \<equiv> text_value (jprop ''region'' ds)"

abbreviation tagged :: "js \<Rightarrow> bool" where
  "tagged ds \<equiv> truthy (jprop ''region'' ds)"

text \<open>The regions of the tagged sources in the order of their first source.\<close>

definition regions_seen :: "js list \<Rightarrow> string list" where
  "regions_seen dss = rev (remdups (rev (map region_of (filter tagged dss))))"

definition sources_in :: "js list \<Rightarrow> string \<Rightarrow> js list" where
  "sources_in dss r = filter (\<lambda>ds. tagged ds \<and> region_of ds = r) dss"

lemma regions_seen_snoc:
  "regions_seen (dss @ [ds]) =
     (if \<not> tagged ds \<or> region_of ds \<in> set (regions_seen dss) then regions_seen dss
      else regions_seen dss @ [region_of ds])"
  by (simp add: regions_seen_def)

lemma distinct_regions_seen: "distinct (regions_seen dss)"
  by (simp add: regions_seen_def)

lemma push_source_ids: "map rg_regionId (push_source ds cs) = map rg_regionId cs"
  by (induction cs) auto

lemma push_source_lists:
  "distinct (map rg_regionId cs) \<Longrightarrow>
   map (\<lambda>c. (rg_regionId c, rg_dsList c)) (push_source ds cs) =
   map (\<lambda>c. (rg_regionId c, rg_dsList c @ (if rg_regionId c = region_of ds then [ds] else []))) cs"
proof (induction cs)
  case (Cons c cs)
  then show ?case by (auto simp: image_iff intro!: map_cong)
qed simp

lemma new_card_fields [simp]: "rg_regionId (new_card ds) = region_of ds" "rg_dsList (new_card ds) = []"
  by (simp_all add: new_card_def Let_def)

lemma regionMap_lists:
  "map (\<lambda>c. (rg_regionId c, rg_dsList c)) (regionMap dss) =
   map (\<lambda>r. (r, sources_in dss r)) (regions_seen dss)"
proof (induction dss rule: rev_induct)
  case Nil
  then show ?case by (simp add: regionMap_def regions_seen_def)
next
  case (snoc ds dss)
  have ids: "map rg_regionId (regionMap dss) = regions_seen dss"
    using arg_cong [OF snoc.IH, of "map fst"] by (simp add: comp_def)
  have step: "regionMap (dss @ [ds]) = add_source ds (regionMap dss)"
    by (simp add: regionMap_def)
  have lists: "map (\<lambda>c. (rg_regionId c, rg_dsList c @ f (rg_regionId c))) (regionMap dss) =
      map (\<lambda>r. (r, sources_in dss r @ f r)) (regions_seen dss)" for f
    using arg_cong [OF snoc.IH, of "map (\<lambda>(r, l). (r, l @ f r))"] by (simp add: comp_def)
  show ?case
  proof (cases "tagged ds")
    case False
    then have "sources_in (dss @ [ds]) = sources_in dss" by (simp add: sources_in_def fun_eq_iff)
    with False snoc.IH show ?thesis by (simp add: step add_source_def regions_seen_snoc)
  next
    case True
    let ?r = "region_of ds"
    let ?f = "\<lambda>r. if r = ?r then [ds] else []"
    have more: "sources_in (dss @ [ds]) r = sources_in dss r @ ?f r" for r
      using True by (simp add: sources_in_def)
    show ?thesis
    proof (cases "?r \<in> set (regions_seen dss)")
      case in_set: True
      have "map (\<lambda>c. (rg_regionId c, rg_dsList c)) (regionMap (dss @ [ds])) =
          map (\<lambda>c. (rg_regionId c, rg_dsList c @ ?f (rg_regionId c))) (regionMap dss)"
        using True in_set ids distinct_regions_seen [of dss]
        by (simp add: step add_source_def push_source_lists)
      with True in_set lists [of ?f] show ?thesis by (simp add: regions_seen_snoc more)
    next
      case False
      then have out: "?r \<notin> region_of ` set (filter tagged dss)" by (simp add: regions_seen_def)
      have "\<not> (tagged d \<and> region_of d = ?r)" if "d \<in> set dss" for d
      proof
        assume d: "tagged d \<and> region_of d = ?r"
        with that have "d \<in> set (filter tagged dss)" by simp
        then have "region_of d \<in> region_of ` set (filter tagged dss)" by (rule imageI)
        with d out show False by (simp only:)
      qed
      then have none: "sources_in dss ?r = []" by (simp add: sources_in_def)
      have "map (\<lambda>c. (rg_regionId c, rg_dsList c)) (regionMap (dss @ [ds])) =
          map (\<lambda>c. (rg_regionId c, rg_dsList c @ ?f (rg_regionId c))) (regionMap dss @ [new_card ds])"
        using True False ids distinct_regions_seen [of dss]
        by (simp add: step add_source_def push_source_lists)
      with True False lists [of ?f] show ?thesis by (simp add: regions_seen_snoc more none)
    qed
  qed
qed

lemma filter_one: "distinct xs \<Longrightarrow> x \<in> set xs \<Longrightarrow> filter (\<lambda>y. x = y) xs = [x]"
  by (induction xs) (auto simp: filter_empty_conv)

lemma sum_sources:
  "distinct rs \<Longrightarrow> (\<And>ds. ds \<in> set dss \<Longrightarrow> tagged ds \<Longrightarrow> region_of ds \<in> set rs) \<Longrightarrow>
   sum_list (map (\<lambda>r. length (sources_in dss r)) rs) = length (filter tagged dss)"
proof (induction dss)
  case Nil
  then show ?case by (simp add: sources_in_def)
next
  case (Cons ds dss)
  have one: "sum_list (map (\<lambda>r. if region_of ds = r then 1 else 0) rs) = (1::nat)" if "tagged ds"
  proof -
    have "sum_list (map (\<lambda>r. if region_of ds = r then 1 else 0) rs) =
        length (filter (\<lambda>r. region_of ds = r) rs)" by (induction rs) auto
    moreover have "filter (\<lambda>r. region_of ds = r) rs = [region_of ds]"
      using filter_one [OF Cons.prems(1)] Cons.prems(2) [of ds] that by simp
    ultimately show ?thesis by simp
  qed
  have "length (sources_in (ds # dss) r) =
      length (sources_in dss r) + (if tagged ds then (if region_of ds = r then 1 else 0) else 0)" for r
    by (simp add: sources_in_def)
  with Cons one show ?case by (simp add: sum_list_addf)
qed

lemma shown_counts:
  "map (\<lambda>(c, n, v). (rg_regionId c, n, v)) (activeRegions dss vs) =
   map (\<lambda>r. (r, length (sources_in dss r), violation_count vs r)) (regions_seen dss)"
  using arg_cong [OF regionMap_lists, of "map (\<lambda>(r, l). (r, length l, violation_count vs r))"]
  by (simp add: activeRegions_def comp_def)

text \<open>The text of \<open>document.cookie\<close> for a list of cookies.\<close>

definition cookie_header :: "(string \<times> string) list \<Rightarrow> string" where
  "cookie_header jar = join ''; '' (map (\<lambda>(k, v). k @ CHR ''='' # v) jar)"

definition plain_text :: "string \<Rightarrow> bool" where
  "plain_text s \<longleftrightarrow> CHR '';'' \<notin> set s \<and> \<not> list_ex is_space s"

lemma trim_plain: "plain_text s \<Longrightarrow> trim (CHR '' '' # s) = s" "plain_text s \<Longrightarrow> trim s = s"
proof -
  assume plain: "plain_text s"
  have "is_space (CHR '' '')" by (simp add: is_space_def Let_def)
  moreover have "s = [] \<or> \<not> is_space (hd s)" "s = [] \<or> \<not> is_space (last s)"
    using plain by (auto simp: plain_text_def list_ex_iff)
  ultimately show "trim (CHR '' '' # s) = s" "trim s = s"
    by (auto simp: trim_def dropWhile_fixed hd_rev)
qed

lemma split_join_cookies:
  "xs \<noteq> [] \<Longrightarrow> \<forall>x\<in>set xs. plain_text x \<Longrightarrow>
   map trim (split_on (CHR '';'') (join ''; '' xs)) = xs"
  by (rule split_join_trim) (auto simp: plain_text_def trim_plain)

lemma takeWhile_before: "c \<notin> set k \<Longrightarrow> takeWhile (\<lambda>x. x \<noteq> c) (k @ c # v) = k"
  by (induction k) auto

lemma starts_with_name:
  assumes "CHR ''='' \<notin> set k" and "CHR ''='' \<notin> set n"
  shows "starts_with (k @ CHR ''='' # v) (n @ [CHR ''='']) \<longleftrightarrow> k = n"
proof
  assume "starts_with (k @ CHR ''='' # v) (n @ [CHR ''=''])"
  then obtain t where "k @ CHR ''='' # v = n @ CHR ''='' # t" by (auto simp: starts_with_iff)
  then show "k = n" using assms takeWhile_before by metis
qed (simp add: starts_with_def)

lemma find_cookie:
  "\<forall>(k, v)\<in>set jar. CHR ''='' \<notin> set k \<Longrightarrow>
   find (\<lambda>c. starts_with c ''accessToken='') (map (\<lambda>(k, v). k @ CHR ''='' # v) jar) =
   map_option (\<lambda>v. ''accessToken='' @ v) (map_of jar ''accessToken'')"
proof (induction jar)
  case (Cons c jar)
  obtain k v where c: "c = (k, v)" by fastforce
  with Cons.prems have "starts_with (k @ CHR ''='' # v) ''accessToken='' \<longleftrightarrow> k = ''accessToken''"
    using starts_with_name [of k "''accessToken''" v] by simp
  with Cons c show ?case by simp
qed simp

lemma split_head: "split_on c s = takeWhile (\<lambda>x. x \<noteq> c) s # tl (split_on c s)"
  by (induction s) (auto split: list.split)

section \<open>Properties\<close>

text \<open>
  The cards partition the data sources: there is one card for each region of a source, in the
  order of the sources, with exactly the sources of that region in their order, their number and the
  number of the region's violations; the sources on the cards and the untagged ones are all.
\<close>

theorem region_cards_partition:
  "map (\<lambda>(c, n, v). (rg_regionId c, rg_dsList c, n, v)) (activeRegions dss vs) =
     map (\<lambda>r. (r, sources_in dss r, length (sources_in dss r), violation_count vs r)) (regions_seen dss)
   \<and> distinct (regions_seen dss)
   \<and> sum_list (map (\<lambda>(c, n, v). n) (activeRegions dss vs)) + length (untaggedSources dss) = length dss"
proof -
  have lists: "map (\<lambda>(c, n, v). (rg_regionId c, rg_dsList c, n, v)) (activeRegions dss vs) =
      map (\<lambda>r. (r, sources_in dss r, length (sources_in dss r), violation_count vs r)) (regions_seen dss)"
    using arg_cong [OF regionMap_lists, of "map (\<lambda>(r, l). (r, l, length l, violation_count vs r))"]
    by (simp add: activeRegions_def comp_def)
  have "map (\<lambda>(c, n, v). n) (activeRegions dss vs) = map (\<lambda>r. length (sources_in dss r)) (regions_seen dss)"
    using arg_cong [OF lists, of "map (\<lambda>(r, l, n, v). n)"] by (simp add: comp_def split_def)
  moreover have "sum_list (map (\<lambda>r. length (sources_in dss r)) (regions_seen dss)) =
      length (filter tagged dss)"
    by (rule sum_sources) (auto simp: regions_seen_def)
  ultimately show ?thesis
    using lists sum_length_filter_compl [of tagged dss]
    by (simp add: distinct_regions_seen untaggedSources_def)
qed

text \<open>
  When the list of violations cannot be had, every region is shown as compliant: an answer that
  is not successful counts as no violations, and the page shows no notification of it.
\<close>

theorem missing_violations_look_compliant:
  assumes "nw (raw GET (base @ ''/residency/violations'') (residency_headers cookie) JUndef) = Some r"
    and "\<not> rs_ok r" and "None \<notin> set (map nw (residency_requests base cookie))"
    and "read_answer (nw (residency_requests base cookie ! 0)) (JObj []) = Some rules" "\<not> nullish rules"
    and "read_answer (nw (residency_requests base cookie ! 2)) (JArr []) = Some sources" "\<not> nullish sources"
    and "read_answer (nw (residency_requests base cookie ! 3)) (JObj []) = Some figures"
  shows "set (map region_verdict (shown_regions (loadAll nw base cookie s))) \<subseteq> {''Compliant''}
    \<and> rp_notification (loadAll nw base cookie s) = rp_notification s"
proof -
  have vio: "read_answer (nw (residency_requests base cookie ! 1)) (JObj []) = Some (JObj [])"
    using assms(1,2) by (simp add: residency_requests_def read_answer_def)
  have load: "loadAll nw base cookie s =
      (set_loaded rules (JObj []) sources figures
         (s\<lparr>rp_loading := True, rp_sent := rp_sent s @ residency_requests base cookie\<rparr>))\<lparr>rp_loading := False\<rparr>"
    using assms(3-8) vio by (simp add: loadAll_def Let_def)
  have "rp_violations (loadAll nw base cookie s) = JArr []"
    "rp_notification (loadAll nw base cookie s) = rp_notification s"
    unfolding load using assms(5,7) by (simp_all add: set_loaded_def Let_def js_or_def)
  moreover have "set (map region_verdict (activeRegions dss [])) \<subseteq> {''Compliant''}" for dss
    by (auto simp: activeRegions_def violation_count_def region_verdict_def)
  ultimately show ?thesis by (simp only: shown_regions_def elements.simps)
qed

definition ex_residency_net :: network where
  "ex_residency_net rq =
     Some (if rq_url rq = ''/residency/violations'' then \<lparr>rs_status = 500, rs_json = None\<rparr>
           else if rq_url rq = ''/datasources''
           then \<lparr>rs_status = 200, rs_json = Some (JArr [JObj [(''region'', JStr ''eu-west-1'')]])\<rparr>
           else \<lparr>rs_status = 200, rs_json = Some (JObj [])\<rparr>)"

theorem missing_violations_look_compliant_witness:
  "set (map region_verdict (shown_regions (loadAll ex_residency_net [] [] initial_residency)))
     \<subseteq> {''Compliant''}
   \<and> shown_regions (loadAll ex_residency_net [] [] initial_residency) \<noteq> []"
proof -
  let ?rqs = "residency_requests [] []"
  have nw: "ex_residency_net (raw GET ([] @ ''/residency/violations'') (residency_headers []) JUndef) =
      Some \<lparr>rs_status = 500, rs_json = None\<rparr>"
    by (simp add: ex_residency_net_def raw_def)
  have bad: "\<not> rs_ok \<lparr>rs_status = 500, rs_json = None\<rparr>" by (simp add: rs_ok_def)
  have all: "None \<notin> set (map ex_residency_net ?rqs)"
    by (simp add: ex_residency_net_def residency_requests_def)
  have answers: "read_answer (ex_residency_net (?rqs ! 0)) (JObj []) = Some (JObj [])"
    "read_answer (ex_residency_net (?rqs ! 1)) (JObj []) = Some (JObj [])"
    "read_answer (ex_residency_net (?rqs ! 2)) (JArr []) = Some (JArr [JObj [(''region'', JStr ''eu-west-1'')]])"
    "read_answer (ex_residency_net (?rqs ! 3)) (JObj []) = Some (JObj [])"
    by (simp_all add: ex_residency_net_def residency_requests_def read_answer_def raw_def rs_ok_def
        del: One_nat_def)
  have "rp_datasources (loadAll ex_residency_net [] [] initial_residency) =
      JArr [JObj [(''region'', JStr ''eu-west-1'')]]"
    using answers all by (simp add: loadAll_def Let_def set_loaded_def del: One_nat_def)
  then have "shown_regions (loadAll ex_residency_net [] [] initial_residency) \<noteq> []"
    by (simp add: shown_regions_def activeRegions_def regionMap_def add_source_def)
  with missing_violations_look_compliant [OF nw bad all answers(1) _ answers(3) _ answers(4)]
  show ?thesis by simp
qed

text \<open>
  The page reads the token out of \<open>document.cookie\<close> itself and cuts it at its first equals sign:
  it sends the token the API client sends exactly when that has none.
\<close>

theorem residency_token_cut:
  assumes "map_of jar ''accessToken'' = Some t" and "\<forall>(k, v)\<in>set jar. CHR ''='' \<notin> set k"
    and "\<forall>(k, v)\<in>set jar. plain_text (k @ CHR ''='' # v)"
  shows "residency_token (cookie_header jar) = takeWhile (\<lambda>c. c \<noteq> CHR ''='') t
    \<and> (residency_headers (cookie_header jar) = ''Bearer '' @ t \<longleftrightarrow> CHR ''='' \<notin> set t)"
proof -
  let ?xs = "map (\<lambda>(k, v). k @ CHR ''='' # v) jar"
  have "map trim (split_on (CHR '';'') (cookie_header jar)) = ?xs"
    unfolding cookie_header_def
    by (rule split_join_cookies) (use assms(1,3) in \<open>auto simp: case_prod_beta\<close>)
  moreover have "find (\<lambda>c. starts_with c ''accessToken='') ?xs = Some (''accessToken='' @ t)"
    using find_cookie [OF assms(2)] assms(1) by simp
  moreover have "split_on (CHR ''='') (''accessToken='' @ t) = ''accessToken'' # split_on (CHR ''='') t"
    using split_on_append_sep [of "CHR ''=''" "''accessToken''" t] by (simp add: split_on_no_sep)
  ultimately have "residency_token (cookie_header jar) = takeWhile (\<lambda>c. c \<noteq> CHR ''='') t"
    by (simp add: residency_token_def) (subst split_head, simp)
  moreover have "takeWhile (\<lambda>c. c \<noteq> CHR ''='') t = t \<longleftrightarrow> CHR ''='' \<notin> set t"
    by (auto simp: takeWhile_eq_all_conv)
  ultimately show ?thesis by (simp add: residency_headers_def)
qed

theorem residency_token_cut_witness:
  "residency_token (cookie_header [(''theme'', ''dark''), (''accessToken'', ''abc=def'')]) = ''abc''"
proof -
  have "residency_token (cookie_header [(''theme'', ''dark''), (''accessToken'', ''abc=def'')]) =
      takeWhile (\<lambda>c. c \<noteq> CHR ''='') ''abc=def''"
    by (rule conjunct1 [OF residency_token_cut]) (simp_all add: plain_text_def is_space_def)
  then show ?thesis by simp
qed

end
