(* ===== verification/FeClassify.thy ===== *)
theory FeClassify
  imports FeScan
begin

text \<open>
  The page of one classified dataset (\<open>app/(app)/classification/[id]/page.tsx\<close>): what it derives from
  the answers, and the card that follows a classification by server-sent events, as a machine over
  the page's flag and the card's state.

  After an event React renders and runs the effects of what changed, again until nothing changes; the
  callback the page hands to the card is a new one at each render of the page, and two effects of the
  card depend on it. Three rounds are enough (lemma \<open>rounds_enough\<close>). The check mark and the cross
  of a log line are written \<open>v\<close> and \<open>x\<close>, the time of the browser is an argument.
\<close>

section \<open>What the page derives\<close>

definition logs_of :: "string \<Rightarrow> string \<Rightarrow> js \<Rightarrow> js list" where
  "logs_of i action auditLogs =
     filter (\<lambda>log. jprop ''resource_id'' log = JStr i \<and> jprop ''action'' log = JStr action)
       (elements (js_or auditLogs (JArr [])))"

definition first_details :: "js list \<Rightarrow> js" where
  "first_details logs = (case logs of [] \<Rightarrow> JUndef | l # ls \<Rightarrow> jprop ''details'' l)"

record governance =
  gv_assignedLabel :: js
  gv_detectedTypes :: "js list"
  gv_unprotectedTypes :: "js list"
  gv_hasGovernance :: bool

definition governance_of :: "string \<Rightarrow> js \<Rightarrow> governance" where
  "governance_of i auditLogs =
     (let autoGovDetails = first_details (logs_of i ''classification.auto_governance'' auditLogs);
          gapDetails = first_details (logs_of i ''compliance.gap_detected'' auditLogs);
          assignedLabel = coalesce (jprop ''assigned_label'' autoGovDetails) JNull
      in \<lparr>gv_assignedLabel = assignedLabel,
          gv_detectedTypes = elements (coalesce (jprop ''detected_types'' autoGovDetails) (JArr [])),
          gv_unprotectedTypes = elements (coalesce (jprop ''unprotected_types'' gapDetails) (JArr [])),
          gv_hasGovernance = truthy assignedLabel\<rparr>)"

definition columnsList :: "js \<Rightarrow> js \<Rightarrow> js list" where
  "columnsList columnsData dataset =
     elements (js_or (js_or columnsData (jprop ''columns'' dataset)) (JArr []))"

fun num_add :: "jsnum \<Rightarrow> jsnum \<Rightarrow> jsnum" where
  "num_add (Fin a) (Fin b) = Fin (a + b)"
| "num_add NaN b = NaN"
| "num_add a NaN = NaN"
| "num_add PosInf NegInf = NaN"
| "num_add NegInf PosInf = NaN"
| "num_add PosInf b = PosInf"
| "num_add NegInf b = NegInf"
| "num_add a PosInf = PosInf"
| "num_add a NegInf = NegInf"

fun number_of :: "js \<Rightarrow> jsnum" where
  "number_of (JNum n) = n"
| "number_of v = NaN"

record dataset_figures =
  dg_name :: js
  dg_total :: js
  dg_classified :: js
  dg_pending :: js
  dg_avgConfidence :: string

definition count_status :: "string \<Rightarrow> js list \<Rightarrow> js" where
  "count_status status cols =
     JNum (num_of_nat (length (filter (\<lambda>c. jprop ''status'' c = JStr status) cols)))"

text \<open>Confidences are numbers between 0 and 1, where they are given.\<close>

definition avgConfidence :: "js \<Rightarrow> js list \<Rightarrow> string" where
  "avgConfidence dataset cols =
     (if truthy (jprop ''avg_confidence'' dataset)
      then num_fixed 1 (num_scale 100 (number_of (jprop ''avg_confidence'' dataset)))
      else if length cols > 0
      then num_fixed 1 (num_scale 100 (num_scale (1 / of_nat (length cols))
             (fold (\<lambda>b a. num_add a (number_of (js_or (jprop ''confidence'' b) (JNum (Fin 0))))) cols (Fin 0))))
      else ''0'')"

definition figures_of :: "string \<Rightarrow> js \<Rightarrow> js \<Rightarrow> dataset_figures" where
  "figures_of i columnsData dataset =
     (let cols = columnsList columnsData dataset
      in \<lparr>dg_name = js_or (jprop ''name'' dataset) (JStr (''Dataset '' @ i)),
          dg_total = js_or (jprop ''total_columns'' dataset) (JNum (num_of_nat (length cols))),
          dg_classified = js_or (jprop ''classified_columns'' dataset) (count_status ''classified'' cols),
          dg_pending = js_or (jprop ''pending_columns'' dataset) (count_status ''pending'' cols),
          dg_avgConfidence = avgConfidence dataset cols\<rparr>)"

definition hasBeenClassified :: "string \<Rightarrow> js \<Rightarrow> js \<Rightarrow> bool" where
  "hasBeenClassified i columnsData dataset \<longleftrightarrow>
     is_positive (dg_classified (figures_of i columnsData dataset)) \<or> columnsList columnsData dataset \<noteq> []"

definition label_color :: "js \<Rightarrow> string" where
  "label_color label =
     (if label = JStr ''RESTRICTED'' then ''red''
      else if label = JStr ''CONFIDENTIAL'' then ''orange''
      else if label = JStr ''HIGHLY_CONFIDENTIAL'' then ''purple''
      else ''blue'')"

section \<open>The card\<close>

datatype job = Idle | Queued | Running | Completed | Failed

text \<open>
  The page's flag \<open>isClassifying\<close>, whether its mutation is pending, and the state of the card: its
  stream, the streams opened and closed so far, the timeout of a minute, and the timers of a second
  that finish a completed job.
\<close>

record status_card =
  cc_isClassifying :: bool
  cc_isPending :: bool
  cc_logs :: "string list"
  cc_isConnected :: bool
  cc_isExpanded :: bool
  cc_jobStatus :: job
  cc_progress :: "js \<times> js"
  cc_sseActive :: bool
  cc_source :: "nat option"
  cc_opened :: nat
  cc_closed :: "nat list"
  cc_timeout :: bool
  cc_finishing :: nat
  cc_refetched :: nat

definition initial_card :: status_card where
  "initial_card =
     \<lparr>cc_isClassifying = False, cc_isPending = False, cc_logs = [], cc_isConnected = False,
      cc_isExpanded = False, cc_jobStatus = Idle, cc_progress = (JNum (Fin 0), JNum (Fin 0)),
      cc_sseActive = False, cc_source = None, cc_opened = 0, cc_closed = [], cc_timeout = False,
      cc_finishing = 0, cc_refetched = 0\<rparr>"

text \<open>The property \<open>isClassifying\<close> of the card; it also disables the page's button.\<close>

definition classifying :: "status_card \<Rightarrow> bool" where
  "classifying c \<longleftrightarrow> cc_isClassifying c \<or> cc_isPending c"

definition card_log :: "string \<Rightarrow> string \<Rightarrow> status_card \<Rightarrow> status_card" where
  "card_log now line c = c\<lparr>cc_logs := cc_logs c @ [stamped now line]\<rparr>"

definition job_over :: "job \<Rightarrow> bool" where
  "job_over j \<longleftrightarrow> j = Completed \<or> j = Failed"

text \<open>The four effects after a render: the state of that render, its change, what effects have set.\<close>

definition expand_effect :: "string \<Rightarrow> status_card \<Rightarrow> status_card \<Rightarrow> status_card \<Rightarrow> status_card" where
  "expand_effect now old new c =
     (if classifying new \<noteq> classifying old \<and> classifying new
      then c\<lparr>cc_isExpanded := True, cc_jobStatus := Queued,
             cc_logs := [stamped now ''Classification job queued...'']\<rparr>
      else c)"

definition activate_effect :: "status_card \<Rightarrow> status_card \<Rightarrow> status_card \<Rightarrow> status_card" where
  "activate_effect old new c =
     (if (classifying new, cc_sseActive new) \<noteq> (classifying old, cc_sseActive old)
         \<and> classifying new \<and> \<not> cc_sseActive new
      then c\<lparr>cc_sseActive := True\<rparr> else c)"

definition close_source :: "status_card \<Rightarrow> status_card" where
  "close_source c =
     (case cc_source c of None \<Rightarrow> c
      | Some n \<Rightarrow> c\<lparr>cc_closed := cc_closed c @ [n], cc_source := None\<rparr>)"

definition stream_effect :: "bool \<Rightarrow> status_card \<Rightarrow> status_card \<Rightarrow> status_card \<Rightarrow> status_card" where
  "stream_effect page old new c =
     (if page \<or> cc_sseActive new \<noteq> cc_sseActive old
      then (let c1 = close_source c;
                c2 = (if cc_sseActive new \<and> cc_source c1 = None
                      then c1\<lparr>cc_source := Some (cc_opened c1), cc_opened := Suc (cc_opened c1)\<rparr> else c1)
            in if \<not> cc_sseActive new \<and> cc_source c2 \<noteq> None
               then (close_source c2)\<lparr>cc_isConnected := False\<rparr> else c2)
      else c)"

definition timeout_effect :: "bool \<Rightarrow> status_card \<Rightarrow> status_card \<Rightarrow> status_card \<Rightarrow> status_card" where
  "timeout_effect page old new c =
     (if page \<or> cc_sseActive new \<noteq> cc_sseActive old \<or> cc_jobStatus new \<noteq> cc_jobStatus old
      then c\<lparr>cc_timeout := cc_sseActive new \<and> \<not> job_over (cc_jobStatus new)\<rparr> else c)"

definition effects :: "string \<Rightarrow> bool \<Rightarrow> status_card \<Rightarrow> status_card \<Rightarrow> status_card" where
  "effects now page old new =
     timeout_effect page old new (stream_effect page old new
       (activate_effect old new (expand_effect now old new new)))"

text \<open>A render, of the page or of the card alone, and what follows; \<open>old\<close> is the last state rendered.\<close>

definition rendered :: "string \<Rightarrow> bool \<Rightarrow> status_card \<Rightarrow> status_card \<Rightarrow> status_card" where
  "rendered now page old new =
     (let r1 = effects now page old new; r2 = effects now False new r1 in effects now False r1 r2)"

definition handleClassificationEvent ::
  "(js \<Rightarrow> string) \<Rightarrow> string \<Rightarrow> string \<Rightarrow> js \<Rightarrow> status_card \<Rightarrow> status_card" where
  "handleClassificationEvent shown now datasetId data c =
     (if jprop ''dataset_id'' data \<noteq> JStr datasetId then c
      else
        (let progress = jprop ''progress'' data; status = jprop ''status'' data;
             c1 = (if truthy progress
                   then c\<lparr>cc_progress := (js_or (jprop ''current'' progress) (JNum (Fin 0)),
                                           js_or (jprop ''total'' progress) (JNum (Fin 0))),
                          cc_jobStatus := Running\<rparr> else c);
             c2 = (if nonempty_text (jprop ''message'' data)
                   then card_log now (text_value (jprop ''message'' data)) c1 else c1)
         in if status = JStr ''completed''
            then (card_log now (''v Classification completed - '' @
                   shown (js_or (jprop ''columns_classified'' data) (JNum (Fin 0))) @ '' columns classified'')
                   c2)\<lparr>cc_jobStatus := Completed, cc_finishing := Suc (cc_finishing c2)\<rparr>
            else if status = JStr ''failed''
            then (card_log now (''x Classification failed: '' @
                   shown (js_or (jprop ''error'' data) (JStr ''Unknown error''))) c2)
                   \<lparr>cc_jobStatus := Failed, cc_sseActive := False\<rparr>
            else if status = JStr ''running'' then c2\<lparr>cc_jobStatus := Running\<rparr>
            else c2))"

text \<open>\<open>onComplete\<close>, the page's \<open>handleClassificationComplete\<close>, refetches both queries.\<close>

definition on_complete :: "status_card \<Rightarrow> status_card" where
  "on_complete c = c\<lparr>cc_isClassifying := False, cc_refetched := Suc (cc_refetched c)\<rparr>"

datatype card_event =
    Click
  | Settled bool
  | StreamOpened
  | StreamFailed
  | Delivered "js \<Rightarrow> string" js
  | FinishTimer
  | Timeout
  | PageRendered

definition enabled :: "card_event \<Rightarrow> status_card \<Rightarrow> bool" where
  "enabled ev c \<longleftrightarrow>
     (case ev of
        Click \<Rightarrow> \<not> classifying c
      | Settled ok \<Rightarrow> cc_isPending c
      | StreamOpened \<Rightarrow> cc_source c \<noteq> None
      | StreamFailed \<Rightarrow> cc_source c \<noteq> None
      | Delivered shown data \<Rightarrow> cc_source c \<noteq> None
      | FinishTimer \<Rightarrow> cc_finishing c > 0
      | Timeout \<Rightarrow> cc_timeout c
      | PageRendered \<Rightarrow> True)"

text \<open>What the handler of an event sets. Whether the mutation succeeds makes no difference.\<close>

definition on_card_event :: "string \<Rightarrow> string \<Rightarrow> card_event \<Rightarrow> status_card \<Rightarrow> status_card" where
  "on_card_event now i ev c =
     (case ev of
        Click \<Rightarrow> c\<lparr>cc_isClassifying := True, cc_isPending := True\<rparr>
      | Settled ok \<Rightarrow> c\<lparr>cc_isPending := False\<rparr>
      | StreamOpened \<Rightarrow>
          (let c1 = c\<lparr>cc_isConnected := True\<rparr>
           in if list_ex (\<lambda>l. str_includes l ''Connected to classification stream'') (cc_logs c1) then c1
              else card_log now ''Connected to classification stream'' c1)
      | StreamFailed \<Rightarrow> c\<lparr>cc_isConnected := False\<rparr>
      | Delivered shown data \<Rightarrow> handleClassificationEvent shown now i data c
      | FinishTimer \<Rightarrow>
          on_complete (c\<lparr>cc_sseActive := False, cc_finishing := cc_finishing c - 1\<rparr>)
      | Timeout \<Rightarrow>
          on_complete ((card_log now ''v Classification completed (timeout)'' c)
            \<lparr>cc_jobStatus := Completed, cc_sseActive := False, cc_timeout := False\<rparr>)
      | PageRendered \<Rightarrow> c)"

fun renders_page :: "card_event \<Rightarrow> bool" where
  "renders_page StreamOpened = False"
| "renders_page StreamFailed = False"
| "renders_page (Delivered shown data) = False"
| "renders_page ev = True"

definition card_next :: "string \<Rightarrow> string \<Rightarrow> card_event \<Rightarrow> status_card \<Rightarrow> status_card" where
  "card_next now i ev c = (if enabled ev c then rendered now (renders_page ev) c (on_card_event now i ev c) else c)"

definition run_card :: "string \<Rightarrow> string \<Rightarrow> card_event list \<Rightarrow> status_card" where
  "run_card now i evs = fold (card_next now i) evs initial_card"

definition card_label :: "job \<Rightarrow> string" where
  "card_label j =
     (case j of Completed \<Rightarrow> ''Completed'' | Failed \<Rightarrow> ''Failed'' | Running \<Rightarrow> ''Running''
      | Queued \<Rightarrow> ''Queued'' | Idle \<Rightarrow> ''Idle'')"

definition card_visible :: "status_card \<Rightarrow> bool" where
  "card_visible c \<longleftrightarrow> cc_sseActive c \<or> cc_logs c \<noteq> []"

section \<open>Lemmas\<close>

lemma card_log_fields [simp]:
  "cc_isClassifying (card_log now l c) = cc_isClassifying c" "cc_isPending (card_log now l c) = cc_isPending c"
  "cc_jobStatus (card_log now l c) = cc_jobStatus c" "cc_sseActive (card_log now l c) = cc_sseActive c"
  "cc_source (card_log now l c) = cc_source c" "cc_opened (card_log now l c) = cc_opened c"
  "cc_closed (card_log now l c) = cc_closed c" "cc_timeout (card_log now l c) = cc_timeout c"
  "cc_finishing (card_log now l c) = cc_finishing c"
  by (simp_all add: card_log_def)

text \<open>The fields the effects decide by, effect by effect.\<close>

lemma expand_fields [simp]:
  "cc_isClassifying (expand_effect now old new c) = cc_isClassifying c"
  "cc_isPending (expand_effect now old new c) = cc_isPending c"
  "cc_finishing (expand_effect now old new c) = cc_finishing c"
  "cc_sseActive (expand_effect now old new c) = cc_sseActive c"
  "cc_jobStatus (expand_effect now old new c) =
     (if classifying new \<noteq> classifying old \<and> classifying new then Queued else cc_jobStatus c)"
  "cc_timeout (expand_effect now old new c) = cc_timeout c"
  "cc_source (expand_effect now old new c) = cc_source c"
  "cc_opened (expand_effect now old new c) = cc_opened c"
  "cc_closed (expand_effect now old new c) = cc_closed c"
  by (simp_all add: expand_effect_def)

lemma activate_fields [simp]:
  "cc_isClassifying (activate_effect old new c) = cc_isClassifying c"
  "cc_isPending (activate_effect old new c) = cc_isPending c"
  "cc_finishing (activate_effect old new c) = cc_finishing c"
  "cc_sseActive (activate_effect old new c) \<longleftrightarrow>
     cc_sseActive c \<or> classifying new \<and> \<not> cc_sseActive new \<and> (\<not> classifying old \<or> cc_sseActive old)"
  "cc_jobStatus (activate_effect old new c) = cc_jobStatus c"
  "cc_timeout (activate_effect old new c) = cc_timeout c"
  "cc_source (activate_effect old new c) = cc_source c"
  "cc_opened (activate_effect old new c) = cc_opened c"
  "cc_closed (activate_effect old new c) = cc_closed c"
  by (auto simp: activate_effect_def)

lemma close_fields [simp]:
  "cc_isClassifying (close_source c) = cc_isClassifying c" "cc_isPending (close_source c) = cc_isPending c"
  "cc_finishing (close_source c) = cc_finishing c" "cc_sseActive (close_source c) = cc_sseActive c"
  "cc_jobStatus (close_source c) = cc_jobStatus c" "cc_timeout (close_source c) = cc_timeout c"
  "cc_source (close_source c) = None" "cc_opened (close_source c) = cc_opened c"
  by (simp_all add: close_source_def split: option.split)

lemma stream_fields [simp]:
  "cc_isClassifying (stream_effect page old new c) = cc_isClassifying c"
  "cc_isPending (stream_effect page old new c) = cc_isPending c"
  "cc_finishing (stream_effect page old new c) = cc_finishing c"
  "cc_sseActive (stream_effect page old new c) = cc_sseActive c"
  "cc_jobStatus (stream_effect page old new c) = cc_jobStatus c"
  "cc_timeout (stream_effect page old new c) = cc_timeout c"
  "cc_source (stream_effect page old new c) =
     (if page \<or> cc_sseActive new \<noteq> cc_sseActive old
      then (if cc_sseActive new then Some (cc_opened c) else None) else cc_source c)"
  by (simp_all add: stream_effect_def Let_def)

lemma timeout_fields [simp]:
  "cc_isClassifying (timeout_effect page old new c) = cc_isClassifying c"
  "cc_isPending (timeout_effect page old new c) = cc_isPending c"
  "cc_finishing (timeout_effect page old new c) = cc_finishing c"
  "cc_sseActive (timeout_effect page old new c) = cc_sseActive c"
  "cc_jobStatus (timeout_effect page old new c) = cc_jobStatus c"
  "cc_timeout (timeout_effect page old new c) \<longleftrightarrow>
     (if page \<or> cc_sseActive new \<noteq> cc_sseActive old \<or> cc_jobStatus new \<noteq> cc_jobStatus old
      then cc_sseActive new \<and> \<not> job_over (cc_jobStatus new) else cc_timeout c)"
  "cc_source (timeout_effect page old new c) = cc_source c"
  by (simp_all add: timeout_effect_def)

lemma effects_fields:
  "cc_isClassifying (effects now page old new) = cc_isClassifying new"
  "cc_isPending (effects now page old new) = cc_isPending new"
  "cc_finishing (effects now page old new) = cc_finishing new"
  "cc_sseActive (effects now page old new) \<longleftrightarrow>
     cc_sseActive new \<or> classifying new \<and> (\<not> classifying old \<or> cc_sseActive old)"
  "cc_jobStatus (effects now page old new) =
     (if classifying new \<and> \<not> classifying old then Queued else cc_jobStatus new)"
  "cc_timeout (effects now page old new) \<longleftrightarrow>
     (if page \<or> cc_sseActive new \<noteq> cc_sseActive old \<or> cc_jobStatus new \<noteq> cc_jobStatus old
      then cc_sseActive new \<and> \<not> job_over (cc_jobStatus new) else cc_timeout new)"
  "cc_source (effects now page old new) =
     (if page \<or> cc_sseActive new \<noteq> cc_sseActive old
      then (if cc_sseActive new then Some (cc_opened new) else None) else cc_source new)"
  by (auto simp: effects_def)

lemma effects_same [simp]: "effects now False c c = c"
  by (simp add: effects_def timeout_effect_def stream_effect_def activate_effect_def expand_effect_def)

lemma classifying_effects [simp]: "classifying (effects now page old new) = classifying new"
  by (simp add: classifying_def effects_fields)

text \<open>After three rounds no effect has anything left to do.\<close>

lemma unchanged_effects:
  "cc_sseActive c = cc_sseActive d \<Longrightarrow> cc_jobStatus c = cc_jobStatus d \<Longrightarrow> classifying c = classifying d \<Longrightarrow>
   effects now False c d = d"
  by (simp add: effects_def timeout_effect_def stream_effect_def activate_effect_def expand_effect_def)

lemma rounds_enough:
  assumes "r1 = effects now page old new" and "r2 = effects now False new r1"
  shows "effects now False r2 (effects now False r1 r2) = effects now False r1 r2"
  by (rule unchanged_effects) (auto simp: assms effects_fields)

lemma rendered_fields:
  "cc_isClassifying (rendered now page old new) = cc_isClassifying new"
  "cc_isPending (rendered now page old new) = cc_isPending new"
  "cc_finishing (rendered now page old new) = cc_finishing new"
  "classifying (rendered now page old new) = classifying new"
  "cc_sseActive (rendered now page old new) \<longleftrightarrow>
     cc_sseActive new \<or> classifying new \<and> (\<not> classifying old \<or> cc_sseActive old)"
  "cc_jobStatus (rendered now page old new) =
     (if classifying new \<and> \<not> classifying old then Queued else cc_jobStatus new)"
  unfolding rendered_def Let_def by (auto simp: effects_fields)

lemma effects_logs:
  "cc_logs (effects now page old new) =
     (if classifying new \<and> \<not> classifying old then [stamped now ''Classification job queued...'']
      else cc_logs new)"
proof -
  have "cc_logs (close_source c) = cc_logs c" for c by (simp add: close_source_def split: option.split)
  then have "cc_logs (stream_effect page old new c) = cc_logs c" for c
    by (simp add: stream_effect_def Let_def)
  moreover have "cc_logs (timeout_effect page old new c) = cc_logs c"
    "cc_logs (activate_effect old new c) = cc_logs c" for c
    by (simp_all add: timeout_effect_def activate_effect_def)
  ultimately show ?thesis unfolding effects_def by (auto simp: expand_effect_def)
qed

lemma rendered_logs:
  "\<not> (classifying new \<and> \<not> classifying old) \<Longrightarrow> cc_logs (rendered now page old new) = cc_logs new"
  unfolding rendered_def Let_def by (auto simp: effects_logs)

text \<open>The timeout and the stream follow the state of the last render.\<close>

definition follows :: "status_card \<Rightarrow> status_card \<Rightarrow> bool" where
  "follows c d \<longleftrightarrow> (cc_timeout c \<longleftrightarrow> cc_sseActive d \<and> \<not> job_over (cc_jobStatus d))
     \<and> (cc_source c \<noteq> None \<longleftrightarrow> cc_sseActive d)"

lemma effects_follow: "page \<or> follows new old \<Longrightarrow> follows (effects now page old new) new"
  by (auto simp: follows_def effects_fields)

lemma rendered_follows: "page \<or> follows new old \<Longrightarrow> follows (rendered now page old new) (rendered now page old new)"
proof -
  let ?r1 = "effects now page old new"
  let ?r2 = "effects now False new ?r1"
  assume "page \<or> follows new old"
  then have "follows ?r1 new" by (rule effects_follow)
  then have "follows ?r2 ?r1" using effects_follow [of False ?r1 new] by blast
  then have "follows (effects now False ?r1 ?r2) ?r2" using effects_follow [of False ?r2 ?r1] by blast
  moreover have "cc_sseActive (effects now False ?r1 ?r2) = cc_sseActive ?r2"
    "cc_jobStatus (effects now False ?r1 ?r2) = cc_jobStatus ?r2"
    by (auto simp: effects_fields)
  ultimately show ?thesis by (simp add: rendered_def Let_def follows_def)
qed

definition card_inv :: "status_card \<Rightarrow> bool" where
  "card_inv c \<longleftrightarrow> follows c c \<and> (classifying c \<longrightarrow> cc_sseActive c)
     \<and> (cc_isClassifying c \<and> cc_jobStatus c = Completed \<longrightarrow> cc_finishing c > 0)"

lemma event_fields:
  "cc_isClassifying (handleClassificationEvent f now i data c) = cc_isClassifying c"
  "cc_isPending (handleClassificationEvent f now i data c) = cc_isPending c"
  "cc_timeout (handleClassificationEvent f now i data c) = cc_timeout c"
  "cc_source (handleClassificationEvent f now i data c) = cc_source c"
  "cc_finishing c \<le> cc_finishing (handleClassificationEvent f now i data c)"
  "cc_jobStatus (handleClassificationEvent f now i data c) = Completed \<Longrightarrow>
     cc_jobStatus c = Completed \<or> cc_finishing (handleClassificationEvent f now i data c) > 0"
  by (auto simp: handleClassificationEvent_def Let_def split: if_splits)

lemma handle_follows: "\<not> renders_page ev \<Longrightarrow> card_inv c \<Longrightarrow> follows (on_card_event now i ev c) c"
  by (cases ev) (simp_all add: on_card_event_def card_inv_def follows_def event_fields Let_def)

lemma handle_completed:
  assumes "card_inv c" and "cc_isClassifying (on_card_event now i ev c)" and "ev \<noteq> Click"
    and "cc_jobStatus (on_card_event now i ev c) = Completed"
  shows "cc_finishing (on_card_event now i ev c) > 0"
proof -
  have old: "cc_isClassifying c \<Longrightarrow> cc_jobStatus c = Completed \<Longrightarrow> cc_finishing c > 0"
    using assms(1) by (simp add: card_inv_def)
  show ?thesis
  proof (cases ev)
    case (Delivered f data)
    let ?h = "handleClassificationEvent f now i data c"
    have h: "on_card_event now i ev c = ?h" by (simp add: Delivered on_card_event_def)
    have "cc_isClassifying c" using assms(2) by (simp add: h event_fields(1))
    moreover have "cc_jobStatus c = Completed \<or> cc_finishing ?h > 0"
      using assms(4) unfolding h by (rule event_fields(6))
    ultimately show ?thesis
      using old event_fields(5) [of c f now i data] unfolding h by linarith
  next
    case StreamOpened
    then show ?thesis using assms(2,4) old by (simp add: on_card_event_def Let_def split: if_splits)
  qed (use assms(2-4) old in \<open>simp_all add: on_card_event_def on_complete_def\<close>)
qed

lemma card_inv_next:
  assumes inv: "card_inv c"
  shows "card_inv (card_next now i ev c)"
proof (cases "enabled ev c")
  case True
  let ?h = "on_card_event now i ev c"
  let ?r = "rendered now (renders_page ev) c ?h"
  have "follows ?r ?r" using handle_follows [OF _ inv] by (intro rendered_follows) blast
  moreover have "cc_sseActive ?r" if "classifying ?r"
    using that inv by (auto simp: rendered_fields card_inv_def)
  moreover have "cc_finishing ?r > 0" if r: "cc_isClassifying ?r" "cc_jobStatus ?r = Completed"
  proof (cases "ev = Click")
    case click: True
    with True r show ?thesis by (simp add: rendered_fields on_card_event_def enabled_def classifying_def)
  next
    case False
    from r have "cc_isClassifying ?h" "cc_jobStatus ?h = Completed"
      by (simp_all add: rendered_fields split: if_splits)
    with handle_completed [OF inv] False show ?thesis by (simp add: rendered_fields)
  qed
  ultimately show ?thesis using True by (simp add: card_next_def card_inv_def)
qed (use inv in \<open>simp add: card_next_def\<close>)

lemma run_card_inv: "card_inv (run_card now i evs)"
proof -
  have "card_inv (fold (card_next now i) evs c)" if "card_inv c" for c
    using that by (induction evs arbitrary: c) (simp_all add: card_inv_next)
  moreover have "card_inv initial_card"
    by (simp add: card_inv_def initial_card_def follows_def classifying_def)
  ultimately show ?thesis by (simp add: run_card_def)
qed

text \<open>Events without news of the job\<close>

fun quiet :: "card_event \<Rightarrow> bool" where
  "quiet (Delivered shown data) = False"
| "quiet FinishTimer = False"
| "quiet Timeout = False"
| "quiet ev = True"

lemma quiet_step:
  assumes "card_inv c" and "cc_isClassifying c" and "quiet ev"
  shows "cc_isClassifying (card_next now i ev c)" "cc_jobStatus (card_next now i ev c) = cc_jobStatus c"
    "cc_finishing (card_next now i ev c) = cc_finishing c"
proof -
  have cl: "classifying c" using assms(2) by (simp add: classifying_def)
  have "cc_isClassifying (on_card_event now i ev c) \<and> cc_jobStatus (on_card_event now i ev c) = cc_jobStatus c
    \<and> cc_finishing (on_card_event now i ev c) = cc_finishing c" if "enabled ev c"
    using assms that cl by (cases ev) (simp_all add: on_card_event_def enabled_def Let_def)
  then show "cc_isClassifying (card_next now i ev c)" "cc_jobStatus (card_next now i ev c) = cc_jobStatus c"
    "cc_finishing (card_next now i ev c) = cc_finishing c"
    using assms(2) cl by (simp_all add: card_next_def rendered_fields)
qed

lemma quiet_steps:
  assumes "card_inv c" and "cc_isClassifying c" and "list_all quiet evs"
  shows "card_inv (fold (card_next now i) evs c) \<and> cc_isClassifying (fold (card_next now i) evs c)
    \<and> cc_jobStatus (fold (card_next now i) evs c) = cc_jobStatus c
    \<and> cc_finishing (fold (card_next now i) evs c) = cc_finishing c"
  using assms
proof (induction evs arbitrary: c)
  case (Cons ev evs)
  then show ?case
    using Cons.IH [of "card_next now i ev c"] quiet_step [of c ev now i] card_inv_next [of c now i ev] by simp
qed simp

section \<open>Properties\<close>

text \<open>
  C15. Whatever happens, a card that follows a classification has its stream open, and the button that
  is disabled will be enabled again, by the answer to the request, by the timeout or by the timer after
  completion, unless the job has failed. A timeout or a finishing timer enables it unless the request
  is still pending.
\<close>

theorem classification_ends:
  "(classifying (run_card now i evs) \<longrightarrow>
      cc_source (run_card now i evs) \<noteq> None
      \<and> (cc_isPending (run_card now i evs) \<or> cc_timeout (run_card now i evs)
         \<or> cc_finishing (run_card now i evs) > 0 \<or> cc_jobStatus (run_card now i evs) = Failed))
   \<and> (ev \<in> {FinishTimer, Timeout} \<and> enabled ev (run_card now i evs) \<longrightarrow>
        classifying (run_card now i (evs @ [ev])) = cc_isPending (run_card now i evs))"
proof -
  let ?c = "run_card now i evs"
  have inv: "card_inv ?c" by (rule run_card_inv)
  have "classifying (card_next now i ev ?c) = cc_isPending ?c"
    if "ev \<in> {FinishTimer, Timeout}" "enabled ev ?c"
    using that
    by (auto simp: card_next_def rendered_fields on_card_event_def on_complete_def classifying_def)
  moreover have "cc_source ?c \<noteq> None
      \<and> (cc_isPending ?c \<or> cc_timeout ?c \<or> cc_finishing ?c > 0 \<or> cc_jobStatus ?c = Failed)"
    if "classifying ?c"
  proof -
    have f: "follows ?c ?c" and sse: "cc_sseActive ?c" using inv that by (simp_all add: card_inv_def)
    show ?thesis
    proof (cases "cc_isPending ?c \<or> cc_jobStatus ?c = Failed")
      case False
      then have "cc_isClassifying ?c" using that by (simp add: classifying_def)
      then show ?thesis using f sse inv by (auto simp: follows_def card_inv_def job_over_def)
    qed (use f sse in \<open>auto simp: follows_def\<close>)
  qed
  ultimately show ?thesis by (simp add: run_card_def)
qed

theorem classification_ends_witness:
  "classifying (run_card ''t'' ''d'' [Click])
   \<and> cc_source (run_card ''t'' ''d'' [Click]) \<noteq> None"
proof -
  have "classifying (run_card ''t'' ''d'' [Click])"
    by (simp add: run_card_def card_next_def enabled_def rendered_fields on_card_event_def classifying_def initial_card_def)
  then show ?thesis using classification_ends [of "''t''" "''d''" "[Click]"] by blast
qed

text \<open>
  A classification that fails leaves the page stuck: the failure is never reported to the page, so
  its button stays disabled and the stream is opened anew, whatever happens until a further event of
  the dataset arrives, and no timer will end it.
\<close>

theorem failed_classification_stuck:
  assumes "cc_isClassifying (run_card now i evs)" and "cc_finishing (run_card now i evs) = 0"
    and "cc_source (run_card now i evs) \<noteq> None"
    and "jprop ''dataset_id'' data = JStr i" and "jprop ''status'' data = JStr ''failed''"
    and "list_all quiet rest"
  shows "classifying (run_card now i (evs @ Delivered shown data # rest))
    \<and> cc_sseActive (run_card now i (evs @ Delivered shown data # rest))
    \<and> cc_jobStatus (run_card now i (evs @ Delivered shown data # rest)) = Failed
    \<and> \<not> enabled Timeout (run_card now i (evs @ Delivered shown data # rest))
    \<and> \<not> enabled FinishTimer (run_card now i (evs @ Delivered shown data # rest))"
proof -
  let ?c = "run_card now i evs"
  let ?d = "card_next now i (Delivered shown data) ?c"
  let ?e = "fold (card_next now i) rest ?d"
  let ?h = "handleClassificationEvent shown now i data ?c"
  have run: "run_card now i (evs @ Delivered shown data # rest) = ?e" by (simp add: run_card_def)
  have h: "cc_isClassifying ?h" "cc_jobStatus ?h = Failed" "cc_finishing ?h = 0"
    using assms(1,2,4,5) by (simp_all add: handleClassificationEvent_def Let_def)
  have d: "?d = rendered now False ?c ?h"
    using assms(3) by (simp add: card_next_def enabled_def on_card_event_def)
  have cl: "classifying ?c" using assms(1) by (simp add: classifying_def)
  have "cc_isClassifying ?d" "cc_jobStatus ?d = Failed" "cc_finishing ?d = 0"
    unfolding d using h cl by (simp_all add: rendered_fields)
  moreover have "card_inv ?d" by (rule card_inv_next [OF run_card_inv])
  ultimately have e: "card_inv ?e" "cc_isClassifying ?e" "cc_jobStatus ?e = Failed" "cc_finishing ?e = 0"
    using quiet_steps [of ?d rest now i] assms(6) by simp_all
  then show ?thesis
    unfolding run by (simp add: card_inv_def follows_def classifying_def enabled_def job_over_def)
qed

text \<open>
  A classification that could not even be started is reported as completed: whether the request
  succeeded or not, after a minute without an event of the dataset the job is completed and the log
  says so.
\<close>

theorem failed_request_completes:
  assumes "list_all quiet evs" and "evs' = Click # Settled ok # evs @ [Timeout]"
  shows "cc_jobStatus (run_card now i evs') = Completed
    \<and> last (cc_logs (run_card now i evs')) = stamped now ''v Classification completed (timeout)''
    \<and> \<not> classifying (run_card now i evs')"
proof -
  let ?c1 = "card_next now i Click initial_card"
  let ?c2 = "card_next now i (Settled ok) ?c1"
  let ?c3 = "fold (card_next now i) evs ?c2"
  have run: "run_card now i evs' = card_next now i Timeout ?c3" using assms(2) by (simp add: run_card_def)
  have c1: "cc_isClassifying ?c1" "cc_isPending ?c1" "cc_jobStatus ?c1 = Queued" "classifying ?c1"
    by (simp_all add: card_next_def enabled_def rendered_fields on_card_event_def classifying_def initial_card_def)
  have c2: "cc_isClassifying ?c2" "\<not> cc_isPending ?c2" "cc_jobStatus ?c2 = Queued"
    using c1 by (simp_all add: card_next_def enabled_def rendered_fields on_card_event_def)
  have "card_inv ?c2" using run_card_inv [of now i "[Click, Settled ok]"] by (simp add: run_card_def)
  then have c3: "card_inv ?c3" "cc_isClassifying ?c3" "cc_jobStatus ?c3 = Queued"
    using quiet_steps [of ?c2 evs now i] c2 assms(1) by simp_all
  have "\<not> cc_isPending ?c3"
  proof -
    have "\<not> cc_isPending (card_next now i ev c)" if "\<not> cc_isPending c" "cc_isClassifying c" "quiet ev" for ev c
      using that by (cases ev)
        (auto simp: card_next_def rendered_fields on_card_event_def enabled_def classifying_def Let_def)
    then have "\<not> cc_isPending (fold (card_next now i) evs c)"
      if "card_inv c" "cc_isClassifying c" "\<not> cc_isPending c" "list_all quiet evs" for c evs
      using that
    proof (induction evs arbitrary: c)
      case (Cons ev evs)
      then show ?case using quiet_step [of c ev now i] card_inv_next [of c now i ev] by simp
    qed simp
    with c2 \<open>card_inv ?c2\<close> assms(1) show ?thesis by blast
  qed
  moreover have cl: "classifying ?c3" and timeout: "enabled Timeout ?c3"
    using c3 by (simp_all add: classifying_def enabled_def card_inv_def follows_def job_over_def)
  ultimately show ?thesis
    unfolding run
    by (simp add: card_next_def rendered_fields rendered_logs on_card_event_def on_complete_def classifying_def
        card_log_def)
qed

theorem failed_request_completes_witness:
  "cc_jobStatus (run_card ''t'' ''d'' [Click, Settled False, PageRendered, Timeout]) = Completed"
  using failed_request_completes [of "[PageRendered]" "[Click, Settled False, PageRendered, Timeout]" False]
  by simp

definition ex_failure :: js where
  "ex_failure = JObj [(''dataset_id'', JStr ''d''), (''status'', JStr ''failed'')]"

theorem failed_classification_stuck_witness:
  "classifying (run_card ''t'' ''d'' [Click, Settled True, Delivered (\<lambda>_. []) ex_failure, PageRendered])"
proof -
  let ?c = "run_card ''t'' ''d'' [Click, Settled True]"
  have c: "cc_isClassifying ?c" "cc_finishing ?c = 0" "classifying ?c"
    by (simp_all add: run_card_def card_next_def enabled_def rendered_fields on_card_event_def classifying_def
        initial_card_def)
  then have "cc_source ?c \<noteq> None"
    using run_card_inv [of "''t''" "''d''" "[Click, Settled True]"] by (simp add: card_inv_def follows_def)
  from failed_classification_stuck [OF c(1,2) this, of ex_failure "[PageRendered]" "\<lambda>_. []"]
  show ?thesis by (simp add: ex_failure_def)
qed

end
