(* ===== verification/GoLib.thy ===== *)
theory GoLib
  imports FePages
begin

text \<open>
  What the handlers of the server make of the JSON of a request (\<open>pkg.Bind\<close>, the package
  \<open>encoding/json\<close>): an absent or null field is the empty value of its type, a field of another type an
  error (\<open>None\<close>). Columns of JSON hold text that is kept as it came: \<open>None\<close> is the empty text, which
  the database stores as \<open>NULL\<close>.
\<close>

fun go_string :: "js \<Rightarrow> string option" where
  "go_string JUndef = Some []"
| "go_string JNull = Some []"
| "go_string (JStr s) = Some s"
| "go_string v = None"

fun go_strings :: "js \<Rightarrow> string list option" where
  "go_strings JUndef = Some []"
| "go_strings JNull = Some []"
| "go_strings (JArr xs) =
     (if None \<in> set (map go_string xs) then None else Some (map (the \<circ> go_string) xs))"
| "go_strings v = None"

fun go_bool :: "js \<Rightarrow> bool option" where
  "go_bool JUndef = Some False"
| "go_bool JNull = Some False"
| "go_bool (JBool b) = Some b"
| "go_bool v = None"

text \<open>An \<open>int\<close> of 64 bits; NaN and the infinities are written as \<open>null\<close>.\<close>

definition int_fits :: "int \<Rightarrow> bool" where
  "int_fits i \<longleftrightarrow> - (2 ^ 63) \<le> i \<and> i < 2 ^ 63"

fun go_int :: "js \<Rightarrow> int option" where
  "go_int JUndef = Some 0"
| "go_int JNull = Some 0"
| "go_int (JNum (Fin q)) = (if of_int \<lfloor>q\<rfloor> = q \<and> int_fits \<lfloor>q\<rfloor> then Some \<lfloor>q\<rfloor> else None)"
| "go_int (JNum n) = Some 0"
| "go_int v = None"

text \<open>A field of the type \<open>store.JSON\<close>, and one that is a pointer: \<open>None\<close> inside when it is absent.\<close>

definition go_json :: "js \<Rightarrow> js option" where
  "go_json v = (if v = JUndef then None else Some v)"

definition go_pointer :: "(js \<Rightarrow> 'a option) \<Rightarrow> js \<Rightarrow> 'a option option" where
  "go_pointer f v = (if nullish v then Some None else map_option Some (f v))"

text \<open>What \<open>Bind\<close> decodes into a struct, and \<open>strings.Replace\<close> of the first occurrence\<close>

definition go_struct :: "js \<Rightarrow> bool" where
  "go_struct body = (case body of JObj fs \<Rightarrow> True | JNull \<Rightarrow> True | _ \<Rightarrow> False)"

fun replace_once :: "string \<Rightarrow> string \<Rightarrow> string \<Rightarrow> string" where
  "replace_once a b [] = []"
| "replace_once a b (c # s) =
     (if starts_with (c # s) a then b @ drop (length a) (c # s) else c # replace_once a b s)"

text \<open>
  \<open>json.Unmarshal\<close> of a column into a struct: field names match whatever their case, and the last
  one counts.
\<close>

definition go_field :: "string \<Rightarrow> (string \<times> js) list \<Rightarrow> js" where
  "go_field k fs =
     (case find (\<lambda>(k', v). to_lower k' = to_lower k) (rev fs) of Some (k', v) \<Rightarrow> v | None \<Rightarrow> JUndef)"

lemma go_strings_texts [simp]: "go_strings (JArr (map JStr xs)) = Some xs"
  by (auto simp: map_idI)

lemma go_pointer_undef [simp]: "go_pointer f JUndef = Some None" "go_pointer f JNull = Some None"
  by (simp_all add: go_pointer_def)

lemma go_pointer_str [simp]: "go_pointer go_string (JStr s) = Some (Some s)"
  by (simp add: go_pointer_def)

lemma go_pointer_bool [simp]: "go_pointer go_bool (JBool b) = Some (Some b)"
  by (simp add: go_pointer_def)

lemma find_map: "find P (map f xs) = map_option f (find (P \<circ> f) xs)"
  by (induction xs) simp_all

lemma find_SomeD: "find P xs = Some x \<Longrightarrow> P x \<and> x \<in> set xs"
  by (auto simp: find_Some_iff)

lemma find_map_same:
  "find P xs = Some x \<Longrightarrow> P y \<Longrightarrow> find P (map (\<lambda>z. if P z then y else z) xs) = Some y"
  by (induction xs) (auto split: if_splits)

lemma filter_map_same:
  "P y \<Longrightarrow> filter (\<lambda>z. \<not> P z) (map (\<lambda>z. if P z then y else z) xs) = filter (\<lambda>z. \<not> P z) xs"
  by (induction xs) auto

end
