(* ===== verification/FeDpia.thy ===== *)
theory FeDpia
  imports GoLib
begin

text \<open>
  Data protection impact assessments: the page (\<open>app/(app)/privacy/dpia/page.tsx\<close>) together with
  the handlers of the server it talks to (\<open>src/internal/api/dpia_cde_profiling.go\<close>), so that what
  the buttons of the page can bring about is decided on both sides.

  The server keeps the assessments of all tenants by id. Its database is taken as reachable, as the
  handlers ignore its errors after the lookup; the stored steps are \<open>None\<close> when the stored text is
  not a list of objects. Times are arguments.
\<close>

section \<open>The server\<close>

record dpia_step =
  ds_id :: string
  ds_name :: string
  ds_status :: string
  ds_notes :: string
  ds_completed_at :: "string option"

record dpia =
  dp_id :: string
  dp_tenant :: string
  dp_name :: string
  dp_description :: string
  dp_data_types :: "string list"
  dp_purpose :: string
  dp_risk :: string
  dp_status :: string
  dp_steps :: "dpia_step list option"
  dp_consulted :: bool

record dpia_server =
  sv_dpias :: "string \<Rightarrow> dpia option"
  sv_audit :: "(string \<times> string \<times> string) list"

datatype go_response = BadRequest | NotFound | Created dpia | Answer dpia

definition dpiaWorkflowSteps :: "string list" where
  "dpiaWorkflowSteps =
     [''identify_processing'', ''assess_necessity'', ''identify_risks'', ''identify_mitigation'',
      ''dpo_consultation'', ''sign_off'']"

definition defaultDPIASteps :: "dpia_step list" where
  "defaultDPIASteps =
     map (\<lambda>s. \<lparr>ds_id = s, ds_name = join '' '' (map capitalize (split_on (CHR ''_'') s)),
                ds_status = ''pending'', ds_notes = [], ds_completed_at = None\<rparr>) dpiaWorkflowSteps"

text \<open>The loop of \<open>computeDPIAStatus\<close> over its three flags.\<close>

definition step_done :: "string \<Rightarrow> bool" where
  "step_done status \<longleftrightarrow> status = ''completed'' \<or> status = ''skipped''"

fun status_flags :: "dpia_step list \<Rightarrow> bool \<times> bool \<times> bool \<Rightarrow> bool \<times> bool \<times> bool" where
  "status_flags [] flags = flags"
| "status_flags (s # ss) (allDone, dpoStepPending, stepsBeforeDPOComplete) =
     status_flags ss
       (if \<not> step_done (ds_status s) then False else allDone,
        if ds_id s = ''dpo_consultation'' \<and> ds_status s = ''pending'' then True else dpoStepPending,
        if ds_id s \<noteq> ''dpo_consultation'' \<and> ds_id s \<noteq> ''sign_off'' \<and> \<not> step_done (ds_status s)
        then False else stepsBeforeDPOComplete)"

definition computeDPIAStatus :: "dpia_step list \<Rightarrow> string" where
  "computeDPIAStatus steps =
     (case status_flags steps (True, False, True) of
        (allDone, dpoStepPending, stepsBeforeDPOComplete) \<Rightarrow>
          if allDone then ''completed''
          else if stepsBeforeDPOComplete \<and> dpoStepPending then ''pending_dpo''
          else ''in_progress'')"

definition bind_update :: "string list \<Rightarrow> js \<Rightarrow> (string \<times> string) option" where
  "bind_update oneof body =
     (case (go_string (jprop ''status'' body), go_string (jprop ''notes'' body)) of
        (Some status, Some notes) \<Rightarrow> (if status \<in> set oneof then Some (status, notes) else None)
      | _ \<Rightarrow> None)"

definition audited :: "string \<Rightarrow> string \<Rightarrow> string \<Rightarrow> dpia \<Rightarrow> dpia_server \<Rightarrow> dpia_server" where
  "audited tenant action i d s =
     s\<lparr>sv_dpias := (sv_dpias s)(i \<mapsto> d), sv_audit := sv_audit s @ [(tenant, action, i)]\<rparr>"

definition createDPIA ::
  "string \<Rightarrow> string \<Rightarrow> js \<Rightarrow> dpia_server \<Rightarrow> go_response \<times> dpia_server" where
  "createDPIA new_id tenant body s =
     (case (go_string (jprop ''name'' body), go_string (jprop ''description'' body),
            go_strings (jprop ''data_types'' body), go_string (jprop ''processing_purpose'' body),
            go_string (jprop ''risk_level'' body)) of
        (Some name, Some description, Some types, Some purpose, Some risk) \<Rightarrow>
          (if name = [] then (BadRequest, s)
           else
             (let d = \<lparr>dp_id = new_id, dp_tenant = tenant, dp_name = name, dp_description = description,
                       dp_data_types = types, dp_purpose = purpose,
                       dp_risk = (if risk = [] then ''medium'' else risk),
                       dp_status = ''in_progress'', dp_steps = Some defaultDPIASteps,
                       dp_consulted = False\<rparr>
              in (Created d, audited tenant ''dpia_created'' new_id d s)))
      | _ \<Rightarrow> (BadRequest, s))"

definition find_dpia :: "string \<Rightarrow> string \<Rightarrow> dpia_server \<Rightarrow> dpia option" where
  "find_dpia tenant i s =
     (case sv_dpias s i of None \<Rightarrow> None | Some d \<Rightarrow> (if dp_tenant d = tenant then Some d else None))"

definition getDPIA :: "string \<Rightarrow> string \<Rightarrow> dpia_server \<Rightarrow> go_response" where
  "getDPIA tenant i s = (case find_dpia tenant i s of None \<Rightarrow> NotFound | Some d \<Rightarrow> Answer d)"

text \<open>The loop of \<open>updateDPIAStep\<close> stops at the first step with the id.\<close>

definition write_step :: "string \<Rightarrow> string \<Rightarrow> string \<Rightarrow> dpia_step \<Rightarrow> dpia_step" where
  "write_step now status notes s =
     s\<lparr>ds_status := status, ds_notes := notes,
       ds_completed_at := (if status = ''completed'' then Some now else ds_completed_at s)\<rparr>"

fun set_step :: "string \<Rightarrow> string \<Rightarrow> string \<Rightarrow> string \<Rightarrow> dpia_step list \<Rightarrow> dpia_step list" where
  "set_step now stepID status notes [] = []"
| "set_step now stepID status notes (s # ss) =
     (if ds_id s = stepID then write_step now status notes s # ss
      else s # set_step now stepID status notes ss)"

definition step_updated :: "string \<Rightarrow> string \<Rightarrow> string \<Rightarrow> string \<Rightarrow> dpia \<Rightarrow> dpia" where
  "step_updated now stepID status notes d =
     (let steps = (case dp_steps d of Some ss \<Rightarrow> ss | None \<Rightarrow> defaultDPIASteps);
          steps' = set_step now stepID status notes steps
      in d\<lparr>dp_steps := Some steps', dp_status := computeDPIAStatus steps',
           dp_consulted := (stepID = ''dpo_consultation'' \<and> status = ''completed''
                            \<and> stepID \<in> ds_id ` set steps) \<or> dp_consulted d\<rparr>)"

definition updateDPIAStep ::
  "string \<Rightarrow> string \<Rightarrow> string \<Rightarrow> string \<Rightarrow> js \<Rightarrow> dpia_server \<Rightarrow> go_response \<times> dpia_server" where
  "updateDPIAStep now tenant i stepID body s =
     (case bind_update [''completed'', ''skipped'', ''in_progress'', ''pending''] body of
        None \<Rightarrow> (BadRequest, s)
      | Some (status, notes) \<Rightarrow>
          (case find_dpia tenant i s of
             None \<Rightarrow> (NotFound, s)
           | Some d \<Rightarrow>
               (let d' = step_updated now stepID status notes d
                in (Answer d', audited tenant ''dpia_step_updated'' i d' s))))"

text \<open>An approval completes the last two steps.\<close>

definition approved_step :: "string \<Rightarrow> string \<Rightarrow> dpia_step \<Rightarrow> dpia_step" where
  "approved_step now notes s =
     (if ds_id s = ''dpo_consultation'' \<or> ds_id s = ''sign_off''
      then s\<lparr>ds_status := ''completed'', ds_completed_at := Some now,
             ds_notes := (if notes \<noteq> [] then notes else ds_notes s)\<rparr>
      else s)"

definition status_updated :: "string \<Rightarrow> string \<Rightarrow> string \<Rightarrow> dpia \<Rightarrow> dpia" where
  "status_updated now status notes d =
     (if status = ''approved''
      then (case dp_steps d of
              Some steps \<Rightarrow> d\<lparr>dp_steps := Some (map (approved_step now notes) steps),
                              dp_consulted := True, dp_status := ''completed''\<rparr>
            | None \<Rightarrow> d\<lparr>dp_status := ''completed''\<rparr>)
      else d\<lparr>dp_status := status\<rparr>)"

definition updateDPIAStatus ::
  "string \<Rightarrow> string \<Rightarrow> string \<Rightarrow> js \<Rightarrow> dpia_server \<Rightarrow> go_response \<times> dpia_server" where
  "updateDPIAStatus now tenant i body s =
     (case bind_update [''in_progress'', ''pending_dpo'', ''approved'', ''rejected'', ''completed''] body of
        None \<Rightarrow> (BadRequest, s)
      | Some (status, notes) \<Rightarrow>
          (case find_dpia tenant i s of
             None \<Rightarrow> (NotFound, s)
           | Some d \<Rightarrow>
               (let d' = status_updated now status notes d
                in (Answer d', audited tenant ''dpia_status_updated'' i d' s))))"

text \<open>The JSON of an assessment, without its dates.\<close>

definition step_json :: "dpia_step \<Rightarrow> js" where
  "step_json s =
     JObj [(''id'', JStr (ds_id s)), (''name'', JStr (ds_name s)), (''status'', JStr (ds_status s)),
           (''notes'', JStr (ds_notes s)),
           (''completed_at'', case ds_completed_at s of Some t \<Rightarrow> JStr t | None \<Rightarrow> JNull)]"

definition dpia_json :: "dpia \<Rightarrow> js" where
  "dpia_json d =
     JObj [(''id'', JStr (dp_id d)), (''name'', JStr (dp_name d)),
           (''description'', JStr (dp_description d)),
           (''data_types'', JArr (map JStr (dp_data_types d))),
           (''processing_purpose'', JStr (dp_purpose d)), (''risk_level'', JStr (dp_risk d)),
           (''status'', JStr (dp_status d)),
           (''steps'', case dp_steps d of Some ss \<Rightarrow> JArr (map step_json ss) | None \<Rightarrow> JNull),
           (''dpo_consulted'', JBool (dp_consulted d))]"

section \<open>The page\<close>

text \<open>The colours by their names.\<close>

definition RISK_COLORS :: "(string \<times> string) list" where
  "RISK_COLORS = [(''high'', ''red''), (''medium'', ''yellow''), (''low'', ''green'')]"

definition STATUS_COLORS :: "(string \<times> string) list" where
  "STATUS_COLORS =
     [(''in_progress'', ''blue''), (''completed'', ''green''), (''pending_dpo'', ''orange'')]"

definition STATUS_LABELS :: "(string \<times> string) list" where
  "STATUS_LABELS =
     [(''in_progress'', ''In Progress''), (''completed'', ''Completed''),
      (''pending_dpo'', ''Pending DPO'')]"

definition STEP_LABELS :: "(string \<times> string) list" where
  "STEP_LABELS =
     [(''identify_processing'', ''Identify Processing''), (''assess_necessity'', ''Assess Necessity''),
      (''identify_risks'', ''Identify Risks''), (''identify_mitigation'', ''Identify Mitigation''),
      (''dpo_consultation'', ''DPO Consultation''), (''sign_off'', ''Sign Off'')]"

datatype step_icon = CheckIcon | SpinnerIcon | CrossIcon | ClockIcon

definition StepIcon :: "string \<Rightarrow> step_icon" where
  "StepIcon status =
     (if status = ''completed'' then CheckIcon
      else if status = ''in_progress'' then SpinnerIcon
      else if status = ''skipped'' then CrossIcon
      else ClockIcon)"

text \<open>The text \<open>completed/length\<close> and the percentage.\<close>

definition is_done :: "js \<Rightarrow> bool" where
  "is_done step \<longleftrightarrow>
     jprop ''status'' step = JStr ''completed'' \<or> jprop ''status'' step = JStr ''skipped''"

definition StepProgress :: "js list \<Rightarrow> nat \<times> nat \<times> int" where
  "StepProgress steps =
     (let completed = length (filter is_done steps)
      in (completed, length steps,
          if length steps > 0
          then math_round (of_nat completed / of_nat (length steps) * 100) else 0))"

text \<open>\<open>None\<close> when the text is not JSON, or what it holds is no array: then the page throws.\<close>

definition dpia_steps :: "(string \<Rightarrow> js option) \<Rightarrow> js \<Rightarrow> js list option" where
  "dpia_steps parse d =
     (case jprop ''steps'' d of
        JArr xs \<Rightarrow> Some xs
      | JStr s \<Rightarrow> (case parse s of Some (JArr xs) \<Rightarrow> Some xs | _ \<Rightarrow> None)
      | _ \<Rightarrow> Some [])"

definition listed_steps :: "(string \<Rightarrow> js option) \<Rightarrow> js \<Rightarrow> js list option" where
  "listed_steps parse d =
     (case jprop ''steps'' d of
        JStr [] \<Rightarrow> dpia_steps parse (JObj [(''steps'', JStr ''[]'')])
      | _ \<Rightarrow> dpia_steps parse d)"

definition stepsBeforeDPOComplete :: "js list \<Rightarrow> bool" where
  "stepsBeforeDPOComplete steps \<longleftrightarrow>
     list_all is_done
       (filter (\<lambda>s. jprop ''id'' s \<noteq> JStr ''dpo_consultation'' \<and> jprop ''id'' s \<noteq> JStr ''sign_off'')
         steps)"

definition canSubmitForReview :: "js list \<Rightarrow> js \<Rightarrow> bool" where
  "canSubmitForReview steps d \<longleftrightarrow>
     stepsBeforeDPOComplete steps \<and> jprop ''status'' d = JStr ''in_progress''"

definition canApproveReject :: "js \<Rightarrow> bool" where
  "canApproveReject d \<longleftrightarrow> jprop ''status'' d = JStr ''pending_dpo''"

text \<open>The buttons of the detail view and the requests their handlers send.\<close>

datatype dpia_click = MarkComplete string string | SubmitForReview | Approve | Reject

definition offered :: "js list \<Rightarrow> js \<Rightarrow> dpia_click \<Rightarrow> bool" where
  "offered steps d click \<longleftrightarrow>
     (case click of
        MarkComplete step notes \<Rightarrow>
          list_ex (\<lambda>s. jprop ''id'' s = JStr step \<and> jprop ''status'' s \<noteq> JStr ''completed'') steps
      | SubmitForReview \<Rightarrow> canSubmitForReview steps d
      | Approve \<Rightarrow> canApproveReject d
      | Reject \<Rightarrow> canApproveReject d)"

definition handleComplete :: "string \<Rightarrow> (string \<times> string) list \<Rightarrow> string \<Rightarrow> string \<times> string \<times> js" where
  "handleComplete i notes stepId =
     (i, stepId,
      JObj [(''status'', JStr ''completed''), (''notes'', JStr (opt_default [] (map_of notes stepId)))])"

definition handleSubmitForReview :: "string \<Rightarrow> string \<times> string \<times> js" where
  "handleSubmitForReview i = (i, ''pending_dpo'', JUndef)"

definition handleApprove :: "string \<Rightarrow> string \<times> string \<times> js" where
  "handleApprove i = (i, ''approved'', JUndef)"

definition handleReject :: "string \<Rightarrow> string \<times> string \<times> js" where
  "handleReject i = (i, ''rejected'', JUndef)"

definition dpia_request :: "string \<Rightarrow> dpia_click \<Rightarrow> api_request" where
  "dpia_request i click =
     (case click of
        MarkComplete step notes \<Rightarrow> m_request useUpdateDPIAStep (handleComplete i [(step, notes)] step)
      | SubmitForReview \<Rightarrow> m_request useUpdateDPIAStatus (handleSubmitForReview i)
      | Approve \<Rightarrow> m_request useUpdateDPIAStatus (handleApprove i)
      | Reject \<Rightarrow> m_request useUpdateDPIAStatus (handleReject i))"

section \<open>The form\<close>

record dpia_form =
  df_name :: string
  df_description :: string
  df_purpose :: string
  df_risk :: string
  df_data_types :: "string list"
  df_input :: string

definition initial_dpia_form :: dpia_form where
  "initial_dpia_form =
     \<lparr>df_name = [], df_description = [], df_purpose = [], df_risk = ''medium'', df_data_types = [],
      df_input = []\<rparr>"

definition addDT :: "dpia_form \<Rightarrow> dpia_form" where
  "addDT f =
     (let v = to_upper (trim (df_input f))
      in (if v \<noteq> [] \<and> v \<notin> set (df_data_types f)
          then f\<lparr>df_data_types := df_data_types f @ [v]\<rparr> else f)\<lparr>df_input := []\<rparr>)"

definition toggle_data_type :: "string \<Rightarrow> dpia_form \<Rightarrow> dpia_form" where
  "toggle_data_type dt f = f\<lparr>df_data_types := toggle dt (df_data_types f)\<rparr>"

definition commonTypes :: "string list" where
  "commonTypes =
     [''EMAIL'', ''SSN'', ''PHONE'', ''DATE_OF_BIRTH'', ''ADDRESS'', ''CREDIT_CARD'', ''MEDICAL_RECORD'']"

definition dpia_form_json :: "dpia_form \<Rightarrow> js" where
  "dpia_form_json f =
     JObj [(''name'', JStr (df_name f)), (''description'', JStr (df_description f)),
           (''processing_purpose'', JStr (df_purpose f)), (''risk_level'', JStr (df_risk f)),
           (''data_types'', JArr (map JStr (df_data_types f)))]"

text \<open>Submitting closes the form when the server answers; a form without a name stays.\<close>

definition submit_dpia :: "fe_env \<Rightarrow> dpia_form \<Rightarrow> bool \<Rightarrow> fe_state \<Rightarrow> bool \<times> fe_state" where
  "submit_dpia e f isPending s =
     (if isPending \<or> df_name f = [] then (True, s)
      else (case run_mutation e useCreateDPIA (dpia_form_json f) s of
              (Inl err, s') \<Rightarrow> (True, s')
            | (Inr d, s') \<Rightarrow> (False, s')))"

record dpia_stats =
  dt_total :: nat
  dt_completed :: nat
  dt_in_progress :: nat
  dt_high_risk :: nat

definition dpia_stats_of :: "js list \<Rightarrow> dpia_stats" where
  "dpia_stats_of ds =
     \<lparr>dt_total = length ds,
      dt_completed = length (filter (\<lambda>d. jprop ''status'' d = JStr ''completed'') ds),
      dt_in_progress = length (filter (\<lambda>d. jprop ''status'' d = JStr ''in_progress''
                                            \<or> jprop ''status'' d = JStr ''pending_dpo'') ds),
      dt_high_risk = length (filter (\<lambda>d. jprop ''risk_level'' d = JStr ''high'') ds)\<rparr>"

section \<open>The page against the server\<close>

text \<open>
  The effect of a click on the server. A run is the history of the server's states, newest first,
  from the creation of an assessment; each click is one the page offers on some state of the
  history, since what a page shows may be old.
\<close>

definition press :: "string \<Rightarrow> string \<Rightarrow> string \<Rightarrow> dpia_click \<Rightarrow> dpia_server \<Rightarrow> dpia_server" where
  "press now tenant i click s =
     (let body = a_body (dpia_request i click)
      in case click of
           MarkComplete step notes \<Rightarrow> snd (updateDPIAStep now tenant i step body s)
         | _ \<Rightarrow> snd (updateDPIAStatus now tenant i body s))"

inductive dpia_runs :: "string \<Rightarrow> string \<Rightarrow> dpia_server list \<Rightarrow> bool" for tenant i where
  created: "createDPIA i tenant body s = (Created d, s') \<Longrightarrow> dpia_runs tenant i [s']"
| clicked: "dpia_runs tenant i (s # ss) \<Longrightarrow> v \<in> set (s # ss) \<Longrightarrow> getDPIA tenant i v = Answer d \<Longrightarrow>
    dpia_steps parse (dpia_json d) = Some steps \<Longrightarrow> offered steps (dpia_json d) c \<Longrightarrow>
    dpia_runs tenant i (press now tenant i c s # s # ss)"

text \<open>Marking steps as complete, one after the other\<close>

fun mark_all :: "string \<Rightarrow> string \<Rightarrow> string \<Rightarrow> string list \<Rightarrow> dpia_server list \<Rightarrow> dpia_server list" where
  "mark_all now tenant i [] ss = ss"
| "mark_all now tenant i (n # ns) ss =
     mark_all now tenant i ns (press now tenant i (MarkComplete n []) (hd ss) # ss)"

text \<open>What decides: the set of completed steps.\<close>

definition completed_ids :: "dpia_step list \<Rightarrow> string set" where
  "completed_ids ss = ds_id ` {s \<in> set ss. ds_status s = ''completed''}"

definition done_steps :: "dpia \<Rightarrow> string set" where
  "done_steps d = (case dp_steps d of Some ss \<Rightarrow> completed_ids ss | None \<Rightarrow> {})"

definition prerequisites :: "string set" where
  "prerequisites = set (take 4 dpiaWorkflowSteps)"

definition status_of :: "string set \<Rightarrow> string" where
  "status_of D =
     (if set dpiaWorkflowSteps \<subseteq> D then ''completed''
      else if prerequisites \<subseteq> D \<and> ''dpo_consultation'' \<notin> D then ''pending_dpo''
      else ''in_progress'')"

definition workflow_steps :: "dpia_step list \<Rightarrow> bool" where
  "workflow_steps ss \<longleftrightarrow> map ds_id ss = dpiaWorkflowSteps
     \<and> (\<forall>s\<in>set ss. ds_status s = ''pending'' \<or> ds_status s = ''completed'')"

lemma status_flags_eq:
  "status_flags ss (a, b, c) =
     (a \<and> (\<forall>s\<in>set ss. step_done (ds_status s)),
      b \<or> (\<exists>s\<in>set ss. ds_id s = ''dpo_consultation'' \<and> ds_status s = ''pending''),
      c \<and> (\<forall>s\<in>set ss. ds_id s \<noteq> ''dpo_consultation'' \<and> ds_id s \<noteq> ''sign_off''
                        \<longrightarrow> step_done (ds_status s)))"
  by (induction ss arbitrary: a b c) auto

lemma workflow_ids: "workflow_steps ss \<Longrightarrow> ds_id ` set ss = set dpiaWorkflowSteps"
  unfolding workflow_steps_def by (metis list.set_map)

lemma distinct_workflow: "distinct dpiaWorkflowSteps"
  by (simp add: dpiaWorkflowSteps_def)

lemma workflow_inj: "workflow_steps ss \<Longrightarrow> inj_on ds_id (set ss)"
  using distinct_workflow unfolding workflow_steps_def by (metis distinct_map)

lemma workflow_completed:
  "workflow_steps ss \<Longrightarrow> s \<in> set ss \<Longrightarrow> ds_status s = ''completed'' \<longleftrightarrow> ds_id s \<in> completed_ids ss"
  unfolding completed_ids_def by (auto dest: inj_onD [OF workflow_inj])

lemma workflow_done:
  "workflow_steps ss \<Longrightarrow> s \<in> set ss \<Longrightarrow> step_done (ds_status s) \<longleftrightarrow> ds_id s \<in> completed_ids ss"
  "workflow_steps ss \<Longrightarrow> s \<in> set ss \<Longrightarrow> ds_status s = ''pending'' \<longleftrightarrow> ds_id s \<notin> completed_ids ss"
  using workflow_completed [of ss s] by (auto simp: step_done_def workflow_steps_def)

lemma workflow_ball:
  assumes "workflow_steps ss"
  shows "(\<forall>s\<in>set ss. P (ds_id s)) \<longleftrightarrow> (\<forall>n\<in>set dpiaWorkflowSteps. P n)"
  unfolding workflow_ids [OF assms, symmetric] by simp

lemma workflow_bex:
  assumes "workflow_steps ss"
  shows "(\<exists>s\<in>set ss. P (ds_id s)) \<longleftrightarrow> (\<exists>n\<in>set dpiaWorkflowSteps. P n)"
  unfolding workflow_ids [OF assms, symmetric] by simp

lemma prerequisites_iff:
  "n \<in> prerequisites \<longleftrightarrow> n \<in> set dpiaWorkflowSteps \<and> n \<noteq> ''dpo_consultation'' \<and> n \<noteq> ''sign_off''"
  by (auto simp: prerequisites_def dpiaWorkflowSteps_def)

lemma prerequisites_subset:
  "prerequisites \<subseteq> D \<longleftrightarrow> (\<forall>n\<in>set dpiaWorkflowSteps. n \<noteq> ''dpo_consultation'' \<and> n \<noteq> ''sign_off'' \<longrightarrow> n \<in> D)"
  unfolding subset_iff prerequisites_iff by blast

lemma computeDPIAStatus_workflow:
  assumes ss: "workflow_steps ss"
  shows "computeDPIAStatus ss = status_of (completed_ids ss)"
proof -
  have "(\<forall>s\<in>set ss. step_done (ds_status s)) \<longleftrightarrow> set dpiaWorkflowSteps \<subseteq> completed_ids ss"
    using workflow_ball [OF ss, of "\<lambda>n. n \<in> completed_ids ss"] workflow_done(1) [OF ss] by blast
  moreover have "(\<exists>s\<in>set ss. ds_id s = ''dpo_consultation'' \<and> ds_status s = ''pending'') \<longleftrightarrow>
      ''dpo_consultation'' \<notin> completed_ids ss"
  proof -
    have "''dpo_consultation'' \<in> set dpiaWorkflowSteps" by (simp add: dpiaWorkflowSteps_def)
    then show ?thesis
      using workflow_bex [OF ss, of "\<lambda>n. n = ''dpo_consultation'' \<and> n \<notin> completed_ids ss"]
        workflow_done(2) [OF ss] by blast
  qed
  moreover have "(\<forall>s\<in>set ss. ds_id s \<noteq> ''dpo_consultation'' \<and> ds_id s \<noteq> ''sign_off''
      \<longrightarrow> step_done (ds_status s)) \<longleftrightarrow> prerequisites \<subseteq> completed_ids ss"
    unfolding prerequisites_subset
    using workflow_ball [OF ss, of "\<lambda>n. n \<noteq> ''dpo_consultation'' \<and> n \<noteq> ''sign_off'' \<longrightarrow> n \<in> completed_ids ss"]
      workflow_done(1) [OF ss] by blast
  ultimately show ?thesis
    by (simp add: computeDPIAStatus_def status_flags_eq status_of_def)
qed

lemma set_step_ids [simp]: "map ds_id (set_step now i st notes ss) = map ds_id ss"
  by (induction ss) (simp_all add: write_step_def)

lemma completed_ids_simps [simp]:
  "completed_ids [] = {}"
  "completed_ids (s # ss) =
     (if ds_status s = ''completed'' then insert (ds_id s) (completed_ids ss) else completed_ids ss)"
  by (auto simp: completed_ids_def)

lemma set_step_completed:
  "i \<in> ds_id ` set ss \<Longrightarrow>
   completed_ids (set_step now i ''completed'' notes ss) = insert i (completed_ids ss)"
  by (induction ss) (auto simp: write_step_def)

lemma set_step_absent: "i \<notin> ds_id ` set ss \<Longrightarrow> set_step now i st notes ss = ss"
  by (induction ss) auto

lemma set_step_workflow:
  "workflow_steps ss \<Longrightarrow> workflow_steps (set_step now i ''completed'' notes ss)"
proof -
  have "\<forall>s\<in>set (set_step now i ''completed'' notes ss). ds_status s = ''pending'' \<or> ds_status s = ''completed''"
    if "\<forall>s\<in>set ss. ds_status s = ''pending'' \<or> ds_status s = ''completed''"
    using that by (induction ss) (auto simp: write_step_def)
  then show "workflow_steps ss \<Longrightarrow> workflow_steps (set_step now i ''completed'' notes ss)"
    by (simp add: workflow_steps_def)
qed

lemma approved_workflow:
  assumes "workflow_steps ss"
  shows "workflow_steps (map (approved_step now notes) ss)"
    and "completed_ids (map (approved_step now notes) ss) =
           completed_ids ss \<union> {''dpo_consultation'', ''sign_off''}"
proof -
  have ids: "map ds_id (map (approved_step now notes) ss) = map ds_id ss" for ss
    by (simp add: approved_step_def)
  have "\<forall>s\<in>set (map (approved_step now notes) ss). ds_status s = ''pending'' \<or> ds_status s = ''completed''"
    using assms by (auto simp: workflow_steps_def approved_step_def)
  with assms ids [of ss] show "workflow_steps (map (approved_step now notes) ss)"
    unfolding workflow_steps_def by presburger
  have "completed_ids (map (approved_step now notes) ss) =
      completed_ids ss \<union> ({''dpo_consultation'', ''sign_off''} \<inter> ds_id ` set ss)"
    by (induction ss) (auto simp: approved_step_def)
  then show "completed_ids (map (approved_step now notes) ss) =
      completed_ids ss \<union> {''dpo_consultation'', ''sign_off''}"
    by (simp add: workflow_ids [OF assms]) (simp add: dpiaWorkflowSteps_def)
qed

text \<open>What the page makes of an assessment of the workflow.\<close>

lemma step_json_props [simp]:
  "jprop ''id'' (step_json s) = JStr (ds_id s)" "jprop ''status'' (step_json s) = JStr (ds_status s)"
  by (simp_all add: step_json_def)

lemma dpia_json_props [simp]:
  "jprop ''status'' (dpia_json d) = JStr (dp_status d)"
  "dp_steps d = Some ss \<Longrightarrow> dpia_steps parse (dpia_json d) = Some (map step_json ss)"
  by (simp_all add: dpia_json_def dpia_steps_def)

lemma is_done_step [simp]: "is_done (step_json s) \<longleftrightarrow> step_done (ds_status s)"
  by (simp add: is_done_def step_done_def)

lemma before_dpo_workflow:
  assumes "workflow_steps ss"
  shows "stepsBeforeDPOComplete (map step_json ss) \<longleftrightarrow> prerequisites \<subseteq> completed_ids ss"
proof -
  have "stepsBeforeDPOComplete (map step_json ss) \<longleftrightarrow>
      (\<forall>s\<in>set ss. ds_id s \<noteq> ''dpo_consultation'' \<and> ds_id s \<noteq> ''sign_off'' \<longrightarrow> step_done (ds_status s))"
    by (auto simp: stepsBeforeDPOComplete_def list_all_iff)
  then show ?thesis
    unfolding prerequisites_subset
    using workflow_ball [OF assms, of "\<lambda>n. n \<noteq> ''dpo_consultation'' \<and> n \<noteq> ''sign_off'' \<longrightarrow> n \<in> completed_ids ss"]
      workflow_done(1) [OF assms] by simp
qed

lemma mark_offered_workflow:
  assumes "workflow_steps ss"
  shows "offered (map step_json ss) d (MarkComplete n notes) \<longleftrightarrow>
           n \<in> set dpiaWorkflowSteps \<and> n \<notin> completed_ids ss"
  using workflow_bex [OF assms, of "\<lambda>m. m = n \<and> m \<notin> completed_ids ss"] workflow_completed [OF assms]
  by (auto simp: offered_def list_ex_iff)

definition dpia_inv :: "dpia \<Rightarrow> bool" where
  "dpia_inv d \<longleftrightarrow>
     (case dp_steps d of None \<Rightarrow> False | Some ss \<Rightarrow> workflow_steps ss)
     \<and> dp_status d \<in> {''in_progress'', ''pending_dpo'', ''rejected'', ''completed''}
     \<and> (dp_status d \<noteq> ''in_progress'' \<longrightarrow> prerequisites \<subseteq> done_steps d)
     \<and> (dp_status d = ''in_progress'' \<longrightarrow>
          \<not> (prerequisites \<subseteq> done_steps d \<and> ''dpo_consultation'' \<notin> done_steps d))
     \<and> (dp_status d = ''completed'' \<longrightarrow> set dpiaWorkflowSteps \<subseteq> done_steps d)
     \<and> (dp_consulted d \<longleftrightarrow> ''dpo_consultation'' \<in> done_steps d)"

lemma prerequisites_workflow: "prerequisites \<subseteq> set dpiaWorkflowSteps"
  unfolding subset_iff prerequisites_iff by blast

lemma status_of_inv:
  "status_of D \<in> {''in_progress'', ''pending_dpo'', ''rejected'', ''completed''}"
  "status_of D \<noteq> ''in_progress'' \<Longrightarrow> prerequisites \<subseteq> D"
  "status_of D = ''in_progress'' \<Longrightarrow> \<not> (prerequisites \<subseteq> D \<and> ''dpo_consultation'' \<notin> D)"
  "status_of D = ''completed'' \<longleftrightarrow> set dpiaWorkflowSteps \<subseteq> D"
  using prerequisites_workflow by (auto simp: status_of_def split: if_splits)

lemma step_updated_inv:
  assumes "dpia_inv d" and "n \<in> set dpiaWorkflowSteps"
  shows "dpia_inv (step_updated now n ''completed'' notes d)"
    and "done_steps (step_updated now n ''completed'' notes d) = insert n (done_steps d)"
    and "dp_status (step_updated now n ''completed'' notes d) = status_of (insert n (done_steps d))"
proof -
  from assms(1) obtain ss where ss: "dp_steps d = Some ss" "workflow_steps ss"
    by (auto simp: dpia_inv_def split: option.splits)
  let ?ss = "set_step now n ''completed'' notes ss"
  have n: "n \<in> ds_id ` set ss" using assms(2) workflow_ids [OF ss(2)] by simp
  have wf: "workflow_steps ?ss" by (rule set_step_workflow [OF ss(2)])
  have done': "done_steps d = completed_ids ss" using ss by (simp add: done_steps_def)
  have set: "completed_ids ?ss = insert n (completed_ids ss)" by (rule set_step_completed [OF n])
  show new: "done_steps (step_updated now n ''completed'' notes d) = insert n (done_steps d)"
    using ss set done' by (simp add: done_steps_def step_updated_def Let_def)
  show st: "dp_status (step_updated now n ''completed'' notes d) = status_of (insert n (done_steps d))"
    using ss computeDPIAStatus_workflow [OF wf] set done' by (simp add: step_updated_def Let_def)
  have steps: "dp_steps (step_updated now n ''completed'' notes d) = Some ?ss"
    using ss by (simp add: step_updated_def Let_def)
  have cons: "dp_consulted (step_updated now n ''completed'' notes d) \<longleftrightarrow>
      n = ''dpo_consultation'' \<or> dp_consulted d"
    using ss n by (auto simp: step_updated_def Let_def)
  show "dpia_inv (step_updated now n ''completed'' notes d)"
    unfolding dpia_inv_def new st steps cons
    using wf status_of_inv [of "insert n (done_steps d)"] assms(1)
    by (simp add: dpia_inv_def) blast
qed

lemma status_updated_inv:
  assumes "dpia_inv d" and "prerequisites \<subseteq> done_steps d"
    and "status \<in> {''pending_dpo'', ''approved'', ''rejected''}"
  shows "dpia_inv (status_updated now status notes d)"
    and "done_steps d \<subseteq> done_steps (status_updated now status notes d)"
proof -
  from assms(1) obtain ss where ss: "dp_steps d = Some ss" "workflow_steps ss"
    by (auto simp: dpia_inv_def split: option.splits)
  have done': "done_steps d = completed_ids ss" using ss by (simp add: done_steps_def)
  have all: "set dpiaWorkflowSteps \<subseteq> insert ''dpo_consultation'' (insert ''sign_off'' (completed_ids ss))"
  proof
    fix n assume "n \<in> set dpiaWorkflowSteps"
    with assms(2) done' show "n \<in> insert ''dpo_consultation'' (insert ''sign_off'' (completed_ids ss))"
      using prerequisites_iff [of n] by blast
  qed
  show "done_steps d \<subseteq> done_steps (status_updated now status notes d)"
    using ss approved_workflow(2) [OF ss(2)] by (auto simp: done_steps_def status_updated_def)
  show "dpia_inv (status_updated now status notes d)"
  proof (cases "status = ''approved''")
    case True
    with ss all assms(2) done' approved_workflow [OF ss(2)] show ?thesis
      by (simp add: dpia_inv_def status_updated_def done_steps_def) blast
  next
    case False
    with assms show ?thesis
      by (auto simp: dpia_inv_def status_updated_def done_steps_def)
  qed
qed

text \<open>A click on the server: its assessment changes as the handlers say.\<close>

definition pressed :: "string \<Rightarrow> dpia_click \<Rightarrow> dpia \<Rightarrow> dpia" where
  "pressed now c d =
     (case c of
        MarkComplete n notes \<Rightarrow> step_updated now n ''completed'' notes d
      | SubmitForReview \<Rightarrow> status_updated now ''pending_dpo'' [] d
      | Approve \<Rightarrow> status_updated now ''approved'' [] d
      | Reject \<Rightarrow> status_updated now ''rejected'' [] d)"

lemma getDPIA_iff: "getDPIA tenant i s = Answer d \<longleftrightarrow> find_dpia tenant i s = Some d"
  by (simp add: getDPIA_def split: option.split)

lemma pressed_tenant: "dp_tenant (pressed now c d) = dp_tenant d"
  by (simp add: pressed_def step_updated_def status_updated_def Let_def split: dpia_click.split option.split)

lemma press_status:
  assumes "find_dpia tenant i s = Some d"
    and "status \<in> {''in_progress'', ''pending_dpo'', ''approved'', ''rejected'', ''completed''}"
  shows "find_dpia tenant i (snd (updateDPIAStatus now tenant i
           (JObj [(''status'', JStr status), (''notes'', JUndef)]) s)) =
         (if dp_tenant (status_updated now status [] d) = tenant
          then Some (status_updated now status [] d) else None)"
  using assms by (auto simp: updateDPIAStatus_def bind_update_def audited_def find_dpia_def Let_def
      split: option.splits)

lemma find_tenant: "find_dpia tenant i s = Some d \<Longrightarrow> dp_tenant d = tenant"
  by (auto simp: find_dpia_def split: option.splits if_splits)

lemma find_press:
  assumes "find_dpia tenant i s = Some d"
  shows "find_dpia tenant i (press now tenant i c s) = Some (pressed now c d)"
proof -
  have tenant: "dp_tenant (pressed now c d) = tenant"
    using find_tenant [OF assms] by (simp add: pressed_tenant)
  show ?thesis
  proof (cases c)
    case (MarkComplete n t)
    with tenant assms show ?thesis
      by (simp add: press_def dpia_request_def handleComplete_def useUpdateDPIAStep_def new_request_def
          updateDPIAStep_def bind_update_def audited_def pressed_def Let_def)
        (simp add: find_dpia_def)
  qed (use tenant press_status [OF assms] in
      \<open>simp_all add: press_def dpia_request_def handleSubmitForReview_def handleApprove_def
        handleReject_def useUpdateDPIAStatus_def new_request_def pressed_def\<close>)
qed

text \<open>Every state of a run has the invariant, and completed steps stay completed.\<close>

lemma created_inv:
  assumes "createDPIA i tenant body s = (Created d, s')"
  shows "find_dpia tenant i s' = Some d" and "dpia_inv d"
proof -
  from assms have fields: "dp_steps d = Some defaultDPIASteps" "dp_status d = ''in_progress''"
    "\<not> dp_consulted d" "dp_tenant d = tenant" and s': "s' = audited tenant ''dpia_created'' i d s"
    by (auto simp: createDPIA_def Let_def split: option.splits if_splits)
  then show "find_dpia tenant i s' = Some d" by (simp add: find_dpia_def audited_def)
  have "workflow_steps defaultDPIASteps"
    by (simp add: workflow_steps_def defaultDPIASteps_def comp_def)
  moreover have "completed_ids defaultDPIASteps = {}"
    by (auto simp: completed_ids_def defaultDPIASteps_def)
  ultimately show "dpia_inv d"
    using fields by (simp add: dpia_inv_def done_steps_def prerequisites_def dpiaWorkflowSteps_def)
qed

lemma pressed_inv:
  assumes d: "dpia_inv d" and v: "dpia_inv v" "done_steps v \<subseteq> done_steps d"
    and "dpia_steps parse (dpia_json v) = Some steps" "offered steps (dpia_json v) c"
  shows "dpia_inv (pressed now c d)" and "done_steps d \<subseteq> done_steps (pressed now c d)"
proof -
  from v(1) obtain ss where ss: "dp_steps v = Some ss" "workflow_steps ss"
    by (auto simp: dpia_inv_def split: option.splits)
  then have off: "offered (map step_json ss) (dpia_json v) c" using assms(4,5) by simp
  have pre: "prerequisites \<subseteq> done_steps d" if "\<forall>n notes. c \<noteq> MarkComplete n notes"
  proof -
    have "prerequisites \<subseteq> done_steps v"
    proof (cases c)
      case SubmitForReview
      with off before_dpo_workflow [OF ss(2)] ss(1) show ?thesis
        by (simp add: offered_def canSubmitForReview_def done_steps_def)
    qed (use that off v(1) in \<open>auto simp: offered_def canApproveReject_def dpia_inv_def\<close>)
    with v(2) show ?thesis by blast
  qed
  show "dpia_inv (pressed now c d)" "done_steps d \<subseteq> done_steps (pressed now c d)"
  proof (atomize (full), cases c)
    case (MarkComplete n t)
    with off mark_offered_workflow [OF ss(2)] have "n \<in> set dpiaWorkflowSteps" by simp
    with MarkComplete step_updated_inv [OF d] show
      "dpia_inv (pressed now c d) \<and> done_steps d \<subseteq> done_steps (pressed now c d)"
      by (auto simp: pressed_def)
  qed (use status_updated_inv [OF d] pre in \<open>simp_all add: pressed_def\<close>)
qed

lemma runs_inv:
  "dpia_runs tenant i ss \<Longrightarrow>
   \<exists>s rest d. ss = s # rest \<and> find_dpia tenant i s = Some d \<and> dpia_inv d
     \<and> (\<forall>v\<in>set ss. \<exists>dv. find_dpia tenant i v = Some dv \<and> dpia_inv dv \<and> done_steps dv \<subseteq> done_steps d)"
proof (induction rule: dpia_runs.induct)
  case (created body s d s')
  then show ?case using created_inv [OF created] by auto
next
  case (clicked s ss v d parse steps c now)
  then obtain d0 where d0: "find_dpia tenant i s = Some d0" "dpia_inv d0"
    and old: "\<forall>v\<in>set (s # ss). \<exists>dv. find_dpia tenant i v = Some dv \<and> dpia_inv dv \<and> done_steps dv \<subseteq> done_steps d0"
    by auto
  have "dpia_inv d" "done_steps d \<subseteq> done_steps d0"
    using bspec [OF old clicked.hyps(2)] clicked.hyps(3) by (simp_all add: getDPIA_iff)
  from pressed_inv [OF d0(2) this clicked.hyps(4,5), of now]
  have new: "dpia_inv (pressed now c d0)" "done_steps d0 \<subseteq> done_steps (pressed now c d0)" .
  have "\<exists>dv. find_dpia tenant i v = Some dv \<and> dpia_inv dv \<and> done_steps dv \<subseteq> done_steps (pressed now c d0)"
    if "v \<in> set (s # ss)" for v
    using old that new(2) by (blast intro: subset_trans)
  then show ?case using new(1) find_press [OF d0(1)] by auto
qed

section \<open>Properties\<close>

text \<open>
  C13. Whatever the buttons of the page are pressed for, on fresh or old data: an assessment that was
  handed to the officer, rejected or completed has its four preparing steps completed, a completed
  one all six, and it counts as consulted exactly when the step of the consultation is completed.
  The page offers the submission for review only when the consultation is already completed.
\<close>

theorem dpia_gates:
  assumes "dpia_runs tenant i (s # ss)" and "getDPIA tenant i s = Answer d"
    and "dpia_steps parse (dpia_json d) = Some steps"
  shows "(dp_status d \<noteq> ''in_progress'' \<longrightarrow> set (take 4 dpiaWorkflowSteps) \<subseteq> done_steps d)
    \<and> (dp_status d = ''completed'' \<longrightarrow> set dpiaWorkflowSteps \<subseteq> done_steps d)
    \<and> (dp_consulted d \<longleftrightarrow> ''dpo_consultation'' \<in> done_steps d)
    \<and> (canSubmitForReview steps (dpia_json d) \<longrightarrow> ''dpo_consultation'' \<in> done_steps d)"
proof -
  have inv: "dpia_inv d" using runs_inv [OF assms(1)] assms(2) by (auto simp: getDPIA_iff)
  then obtain w where w: "dp_steps d = Some w" "workflow_steps w"
    by (auto simp: dpia_inv_def split: option.splits)
  have "prerequisites \<subseteq> done_steps d \<and> dp_status d = ''in_progress''"
    if "canSubmitForReview steps (dpia_json d)"
    using that assms(3) w before_dpo_workflow [OF w(2)]
    by (simp add: canSubmitForReview_def done_steps_def)
  with inv show ?thesis unfolding prerequisites_def [symmetric] by (auto simp: dpia_inv_def)
qed

definition ex_server :: dpia_server where
  "ex_server = \<lparr>sv_dpias = (\<lambda>_. None), sv_audit = []\<rparr>"

definition ex_dpia :: dpia where
  "ex_dpia =
     \<lparr>dp_id = ''d1'', dp_tenant = ''t'', dp_name = ''Mail'', dp_description = [], dp_data_types = [],
      dp_purpose = [], dp_risk = ''medium'', dp_status = ''in_progress'',
      dp_steps = Some defaultDPIASteps, dp_consulted = False\<rparr>"

definition ex_created :: dpia_server where
  "ex_created = audited ''t'' ''dpia_created'' ''d1'' ex_dpia ex_server"

lemma ex_created_run: "dpia_runs ''t'' ''d1'' [ex_created]"
proof (rule dpia_runs.created)
  show "createDPIA ''d1'' ''t'' (JObj [(''name'', JStr ''Mail'')]) ex_server = (Created ex_dpia, ex_created)"
    by (simp add: createDPIA_def ex_dpia_def ex_created_def Let_def)
qed

lemma ex_created_get: "getDPIA ''t'' ''d1'' ex_created = Answer ex_dpia"
  by (simp add: getDPIA_def find_dpia_def ex_created_def audited_def ex_dpia_def)

theorem dpia_gates_witness:
  "\<not> canSubmitForReview (map step_json defaultDPIASteps) (dpia_json ex_dpia)"
proof -
  have steps: "dpia_steps (\<lambda>_. None) (dpia_json ex_dpia) = Some (map step_json defaultDPIASteps)"
    by (simp add: ex_dpia_def)
  have "''dpo_consultation'' \<notin> done_steps ex_dpia"
    by (auto simp: done_steps_def ex_dpia_def completed_ids_def defaultDPIASteps_def)
  with dpia_gates [OF ex_created_run ex_created_get steps] show ?thesis by blast
qed

text \<open>
  No approval is needed: from every state in which a step is open, also after a rejection, the
  page lets its user mark the open steps as complete one by one, and with the last of them the
  assessment is completed and counts as consulted.
\<close>

theorem dpia_completes_unapproved:
  assumes "dpia_runs tenant i (s # ss)" and "getDPIA tenant i s = Answer d"
    and "open_steps = filter (\<lambda>n. n \<notin> done_steps d) dpiaWorkflowSteps" and "open_steps \<noteq> []"
  shows "dpia_runs tenant i (mark_all now tenant i open_steps (s # ss))
    \<and> (\<exists>d'. getDPIA tenant i (hd (mark_all now tenant i open_steps (s # ss))) = Answer d'
          \<and> dp_status d' = ''completed'' \<and> dp_consulted d')"
proof -
  have "dpia_runs tenant i (mark_all now tenant i ns (s # ss))
    \<and> (\<exists>d'. getDPIA tenant i (hd (mark_all now tenant i ns (s # ss))) = Answer d'
          \<and> dp_status d' = ''completed'' \<and> dp_consulted d')"
    if "ns \<noteq> []" "distinct ns" "set ns \<subseteq> set dpiaWorkflowSteps - done_steps d"
      "set dpiaWorkflowSteps \<subseteq> done_steps d \<union> set ns"
      "dpia_runs tenant i (s # ss)" "getDPIA tenant i s = Answer d" for ns s ss d
    using that
  proof (induction ns arbitrary: s ss d)
    case (Cons n ns)
    let ?c = "MarkComplete n []"
    let ?s = "press now tenant i ?c s"
    have d: "find_dpia tenant i s = Some d" and inv: "dpia_inv d"
      using Cons.prems(6) runs_inv [OF Cons.prems(5)] by (auto simp: getDPIA_iff)
    then obtain w where w: "dp_steps d = Some w" "workflow_steps w"
      by (auto simp: dpia_inv_def split: option.splits)
    have n: "n \<in> set dpiaWorkflowSteps" "n \<notin> completed_ids w"
      using Cons.prems(3) w by (auto simp: done_steps_def)
    have run: "dpia_runs tenant i (?s # s # ss)"
    proof (rule dpia_runs.clicked [OF Cons.prems(5) _ Cons.prems(6)])
      show "dpia_steps (\<lambda>_. None) (dpia_json d) = Some (map step_json w)" using w by simp
      show "offered (map step_json w) (dpia_json d) ?c" using mark_offered_workflow [OF w(2)] n by simp
    qed simp
    have get: "getDPIA tenant i ?s = Answer (pressed now ?c d)"
      using find_press [OF d] by (simp add: getDPIA_iff)
    have done': "done_steps (pressed now ?c d) = insert n (done_steps d)"
      and status: "dp_status (pressed now ?c d) = status_of (insert n (done_steps d))"
      and inv': "dpia_inv (pressed now ?c d)"
      using step_updated_inv [OF inv n(1)] by (simp_all add: pressed_def)
    show ?case
    proof (cases "ns = []")
      case True
      with Cons.prems(4) have all: "set dpiaWorkflowSteps \<subseteq> insert n (done_steps d)" by auto
      then have "dp_status (pressed now ?c d) = ''completed''" by (simp add: status status_of_inv(4))
      moreover have "dp_consulted (pressed now ?c d)"
        using inv' all unfolding dpia_inv_def done' by (auto simp: dpiaWorkflowSteps_def)
      ultimately show ?thesis using True run get by simp
    next
      case False
      have "dpia_runs tenant i (mark_all now tenant i ns (?s # s # ss))
        \<and> (\<exists>d'. getDPIA tenant i (hd (mark_all now tenant i ns (?s # s # ss))) = Answer d'
              \<and> dp_status d' = ''completed'' \<and> dp_consulted d')"
        by (rule Cons.IH [OF False _ _ _ run get]) (use Cons.prems done' in auto)
      then show ?thesis by simp
    qed
  qed simp
  from this [OF assms(4) _ _ _ assms(1,2)] assms(3) distinct_workflow show ?thesis by auto
qed

theorem dpia_completes_unapproved_witness:
  "\<exists>d'. getDPIA ''t'' ''d1'' (hd (mark_all ''now'' ''t'' ''d1'' dpiaWorkflowSteps [ex_created])) = Answer d'
     \<and> dp_status d' = ''completed''"
proof -
  have none: "done_steps ex_dpia = {}"
    by (auto simp: done_steps_def ex_dpia_def completed_ids_def defaultDPIASteps_def)
  have all: "dpiaWorkflowSteps = filter (\<lambda>n. n \<notin> done_steps ex_dpia) dpiaWorkflowSteps"
    unfolding none by simp
  have "dpiaWorkflowSteps \<noteq> []" by (simp add: dpiaWorkflowSteps_def)
  from dpia_completes_unapproved [OF ex_created_run ex_created_get all this] show ?thesis by blast
qed

end
