(* ===== verification/FeJobs.thy ===== *)
theory FeJobs
  imports FePages
begin

text \<open>
  The page of scheduled jobs (\<open>app/(app)/jobs/page.tsx\<close>) and the dialog it shares with other pages
  (\<open>components/base/modal.tsx\<close>): the form that creates and edits a job, the menu of a job, the
  history of its executions, the table. A browser does not submit a form with an empty required
  field, and a select gives one of its options.
\<close>

section \<open>Dialogs\<close>

text \<open>
  A dialog sets the scrolling of the body when it opens and closes and when it is unmounted; the
  document has one \<open>overflow\<close> style for all.
\<close>

datatype overflow = Hidden | Unset

definition modal_effect :: "bool \<Rightarrow> overflow" where
  "modal_effect isOpen = (if isOpen then Hidden else Unset)"

definition modal_cleanup :: overflow where
  "modal_cleanup = Unset"

record modal_view =
  mv_title :: string
  mv_description :: string
  mv_buttons :: "(string \<times> bool) list"

text \<open>The buttons of a confirmation with their texts, and whether they can be pressed.\<close>

definition ConfirmModal ::
  "bool \<Rightarrow> string \<Rightarrow> string \<Rightarrow> string option \<Rightarrow> string option \<Rightarrow> bool \<Rightarrow> modal_view option" where
  "ConfirmModal isOpen title description confirmText cancelText isLoading =
     (if \<not> isOpen then None
      else Some
        \<lparr>mv_title = title, mv_description = description,
         mv_buttons =
           [(opt_default ''Cancel'' cancelText, \<not> isLoading),
            (if isLoading then ''Loading...'' else opt_default ''Confirm'' confirmText, \<not> isLoading)]\<rparr>)"

section \<open>Jobs\<close>

definition JOB_TYPES :: "(string \<times> string) list" where
  "JOB_TYPES =
     [(''scan'', ''Data Scan''), (''quality_assessment'', ''Quality Assessment''),
      (''rot_detection'', ''ROT Detection''), (''compliance_check'', ''Compliance Check''),
      (''classification'', ''Classification''), (''privacy_scan'', ''Privacy Scan'')]"

definition SCHEDULE_PRESETS :: "(string \<times> string) list" where
  "SCHEDULE_PRESETS =
     [(''@hourly'', ''Every hour''), (''@daily'', ''Daily (midnight)''),
      (''@weekly'', ''Weekly (Sunday midnight)''), (''0 2 * * *'', ''Daily at 2 AM''),
      (''0 0 * * 1'', ''Weekly (Monday midnight)''), (''0 0 1 * *'', ''Monthly (1st of month)'')]"

definition preset_label :: "(string \<times> string) list \<Rightarrow> js \<Rightarrow> js" where
  "preset_label presets v =
     (case find (\<lambda>(value, label). JStr value = v) presets of
        Some (value, label) \<Rightarrow> js_or (JStr label) v
      | None \<Rightarrow> v)"

definition is_preset :: "js \<Rightarrow> bool" where
  "is_preset v \<longleftrightarrow> list_ex (\<lambda>(value, label). JStr value = v) SCHEDULE_PRESETS"

text \<open>The menu of a job: what its entries do; a running job cannot be run.\<close>

definition JobActionsMenu :: "js \<Rightarrow> (string \<times> bool \<times> table_action) list" where
  "JobActionsMenu job =
     [(''Run Now'', jprop ''status'' job \<noteq> JStr ''running'', RunJob job), (''Edit'', True, EditJob job),
      (''View History'', True, JobHistory job), (''Delete'', True, DeleteJob job)]"

definition job_columns :: columns where
  "job_columns =
     [key_column ''name'' ''Job Name'' ''name'' True,
      cell_column ''type'' ''Type'' (\<lambda>row. Txt (preset_label JOB_TYPES (jprop ''type'' row))) False,
      cell_column ''schedule'' ''Schedule''
        (\<lambda>row. Txt (preset_label SCHEDULE_PRESETS (jprop ''schedule'' row))) False,
      cell_column ''status'' ''Status''
        (\<lambda>row. let status = jprop ''status'' row
               in Status (if is_str status ''completed'' then JStr ''success''
                          else if is_str status ''running'' then JStr ''pending''
                          else if is_str status ''failed'' then JStr ''error'' else JStr ''warning'')
                    status) False,
      cell_column ''last_run'' ''Last Run''
        (\<lambda>row. if truthy (jprop ''last_run'' row) then When (jprop ''last_run'' row) else Dash) False,
      cell_column ''next_run'' ''Next Run''
        (\<lambda>row. if truthy (jprop ''next_run'' row) then When (jprop ''next_run'' row) else Dash) False,
      cell_column ''actions'' ''''
        (\<lambda>row. Seq (map (\<lambda>(label, enabled, act). Btn act (text_of label))
                     (filter (\<lambda>(label, enabled, act). enabled) (JobActionsMenu row)))) False]"

section \<open>The form\<close>

record job_form =
  jf_name :: js
  jf_type :: js
  jf_schedule :: js
  jf_customSchedule :: js
  jf_config :: js

definition job_form_state :: "js option \<Rightarrow> job_form" where
  "job_form_state job =
     (let p = (\<lambda>k. case job of Some j \<Rightarrow> jprop k j | None \<Rightarrow> JUndef)
      in \<lparr>jf_name = js_or (p ''name'') (JStr []), jf_type = js_or (p ''type'') (JStr ''scan''),
          jf_schedule = js_or (p ''schedule'') (JStr ''@daily''), jf_customSchedule = JStr [],
          jf_config = js_or (p ''config'') (JObj [])\<rparr>)"

text \<open>The effect that fills the form when it opens.\<close>

definition job_form_effect :: "js option \<Rightarrow> job_form" where
  "job_form_effect job =
     (case job of
        Some j \<Rightarrow>
          (let isPreset = is_preset (jprop ''schedule'' j)
           in \<lparr>jf_name = jprop ''name'' j, jf_type = jprop ''type'' j,
               jf_schedule = (if isPreset then jprop ''schedule'' j else JStr ''custom''),
               jf_customSchedule = (if isPreset then JStr [] else jprop ''schedule'' j),
               jf_config = js_or (jprop ''config'' j) (JObj [])\<rparr>)
      | None \<Rightarrow>
          \<lparr>jf_name = JStr [], jf_type = JStr ''scan'', jf_schedule = JStr ''@daily'',
           jf_customSchedule = JStr [], jf_config = JObj []\<rparr>)"

datatype job_change = SetName string | SetType string | SetSchedule string | SetCustomSchedule string

definition schedule_options :: "string list" where
  "schedule_options = map fst SCHEDULE_PRESETS @ [''custom'']"

fun job_edit :: "job_change \<Rightarrow> job_form \<Rightarrow> job_form" where
  "job_edit (SetName s) f = f\<lparr>jf_name := JStr s\<rparr>"
| "job_edit (SetType s) f = (if s \<in> fst ` set JOB_TYPES then f\<lparr>jf_type := JStr s\<rparr> else f)"
| "job_edit (SetSchedule s) f = (if s \<in> set schedule_options then f\<lparr>jf_schedule := JStr s\<rparr> else f)"
| "job_edit (SetCustomSchedule s) f =
     (if jf_schedule f = JStr ''custom'' then f\<lparr>jf_customSchedule := JStr s\<rparr> else f)"

definition shown_schedule :: "job_form \<Rightarrow> js" where
  "shown_schedule f = (if is_preset (jf_schedule f) then jf_schedule f else JStr ''custom'')"

definition job_submittable :: "job_form \<Rightarrow> bool" where
  "job_submittable f \<longleftrightarrow>
     jf_name f \<noteq> JStr [] \<and> (jf_schedule f = JStr ''custom'' \<longrightarrow> jf_customSchedule f \<noteq> JStr [])"

definition job_data :: "job_form \<Rightarrow> js" where
  "job_data f =
     JObj [(''name'', jf_name f), (''type'', jf_type f),
           (''schedule'', if jf_schedule f = JStr ''custom'' then jf_customSchedule f else jf_schedule f),
           (''config'', jf_config f)]"

text \<open>Whether the form stays open, and the state of the front end.\<close>

definition submit_job :: "fe_env \<Rightarrow> js option \<Rightarrow> job_form \<Rightarrow> bool \<Rightarrow> fe_state \<Rightarrow> bool \<times> fe_state" where
  "submit_job e job f isLoading s =
     (if isLoading \<or> \<not> job_submittable f then (True, s)
      else (case (case job of
                    Some j \<Rightarrow> run_mutation e useUpdateJob (text_value (jprop ''id'' j), job_data f) s
                  | None \<Rightarrow> run_mutation e useCreateJob (job_data f) s) of
              (Inl err, s') \<Rightarrow> (True, s')
            | (Inr d, s') \<Rightarrow> (False, s')))"

section \<open>The history\<close>

datatype history_icon = HistoryDone | HistoryFailed | HistoryRunning | HistoryWaiting

definition getStatusIcon :: "js \<Rightarrow> history_icon" where
  "getStatusIcon status =
     (if status = JStr ''completed'' then HistoryDone
      else if status = JStr ''failed'' then HistoryFailed
      else if status = JStr ''running'' then HistoryRunning
      else HistoryWaiting)"

text \<open>A duration is absent or a whole number of milliseconds.\<close>

definition formatDuration :: "js \<Rightarrow> cell" where
  "formatDuration ms =
     (case ms of
        JNum (Fin r) \<Rightarrow>
          (if r = 0 then Dash
           else if r < 1000 then text_of (int_str (math_floor r) @ ''ms'')
           else if r < 60000 then text_of (to_fixed 1 (r / 1000) @ ''s'')
           else text_of (to_fixed 1 (r / 60000) @ ''m''))
      | _ \<Rightarrow> Dash)"

definition execution_cells :: "conversions \<Rightarrow> js \<Rightarrow> cell list" where
  "execution_cells cv x =
     [Txt (jprop ''status'' x)]
     @ (if js_lt cv (JNum (Fin 1)) (jprop ''attempt'' x)
        then [Seq [text_of ''Attempt '', Txt (jprop ''attempt'' x)]] else [])
     @ [if truthy (jprop ''started_at'' x) then When (jprop ''started_at'' x) else Dash,
        Seq [text_of ''Duration: '', formatDuration (jprop ''duration_ms'' x)]]
     @ (if truthy (jprop ''completed_at'' x)
        then [Seq [text_of ''Completed: '', When (jprop ''completed_at'' x)]] else [])
     @ (if truthy (jprop ''error'' x) then [Txt (jprop ''error'' x)] else [])"

section \<open>The page\<close>

record jobs_page =
  jp_showCreateModal :: bool
  jp_editingJob :: "js option"
  jp_deletingJob :: "js option"
  jp_historyJob :: "js option"

definition initial_jobs_page :: jobs_page where
  "initial_jobs_page =
     \<lparr>jp_showCreateModal = False, jp_editingJob = None, jp_deletingJob = None, jp_historyJob = None\<rparr>"

definition job_handleDelete :: "fe_env \<Rightarrow> jobs_page \<times> fe_state \<Rightarrow> jobs_page \<times> fe_state" where
  "job_handleDelete e ps =
     (case ps of (p, s) \<Rightarrow>
        (case jp_deletingJob p of
           None \<Rightarrow> (p, s)
         | Some j \<Rightarrow>
             (case run_mutation e useDeleteJob (text_value (jprop ''id'' j)) s of
                (Inl err, s') \<Rightarrow> (p, s')
              | (Inr d, s') \<Rightarrow> (p\<lparr>jp_deletingJob := None\<rparr>, s'))))"

text \<open>The entries of the menu; \<open>RunJob\<close> is \<open>handleRunNow\<close>.\<close>

definition job_action :: "fe_env \<Rightarrow> table_action \<Rightarrow> jobs_page \<times> fe_state \<Rightarrow> jobs_page \<times> fe_state" where
  "job_action e act ps =
     (case ps of (p, s) \<Rightarrow>
        (case act of
           RunJob j \<Rightarrow> (p, snd (run_mutation e useRunJobNow (text_value (jprop ''id'' j)) s))
         | EditJob j \<Rightarrow> (p\<lparr>jp_editingJob := Some j\<rparr>, s)
         | JobHistory j \<Rightarrow> (p\<lparr>jp_historyJob := Some j\<rparr>, s)
         | DeleteJob j \<Rightarrow> (p\<lparr>jp_deletingJob := Some j\<rparr>, s)
         | _ \<Rightarrow> (p, s)))"

definition job_form_open :: "jobs_page \<Rightarrow> bool" where
  "job_form_open p \<longleftrightarrow> jp_showCreateModal p \<or> jp_editingJob p \<noteq> None"

definition close_job_form :: "jobs_page \<Rightarrow> jobs_page" where
  "close_job_form p = p\<lparr>jp_showCreateModal := False, jp_editingJob := None\<rparr>"

section \<open>Lemmas\<close>

lemma is_preset_iff: "is_preset v \<longleftrightarrow> v \<in> JStr ` fst ` set SCHEDULE_PRESETS"
  by (force simp: is_preset_def list_ex_iff)

lemma custom_no_preset: "\<not> is_preset (JStr ''custom'')"
  by (simp add: is_preset_def SCHEDULE_PRESETS_def)

definition schedule_shown :: "job_form \<Rightarrow> bool" where
  "schedule_shown f \<longleftrightarrow> is_preset (jf_schedule f) \<or> jf_schedule f = JStr ''custom''"

lemma schedule_shown_effect: "schedule_shown (job_form_effect job)"
  by (simp add: schedule_shown_def job_form_effect_def is_preset_def SCHEDULE_PRESETS_def Let_def
      split: option.split)

lemma schedule_shown_edit: "schedule_shown f \<Longrightarrow> schedule_shown (job_edit x f)"
  by (cases x) (auto simp: schedule_shown_def schedule_options_def is_preset_iff)

lemma schedule_shown_edits: "schedule_shown f \<Longrightarrow> schedule_shown (fold job_edit xs f)"
  by (induction xs arbitrary: f) (auto intro: schedule_shown_edit)

section \<open>Properties\<close>

text \<open>
  The form of a job loses nothing. Submitted as it was opened it sends the job's own name, type,
  schedule and configuration, whether the schedule is one of the presets or not; and after any edits
  it sends the schedule the select shows, or the text of the field when that shows the custom one.
\<close>

theorem job_form_faithful:
  "fe_sent (snd (submit_job e (Some job) (job_form_effect (Some job)) False s)) =
     fe_sent s @
       (if jprop ''name'' job = JStr [] \<or> jprop ''schedule'' job = JStr [] then []
        else [add_token s (new_request PUT (''/jobs/'' @ text_value (jprop ''id'' job))
                (JObj [(''name'', jprop ''name'' job), (''type'', jprop ''type'' job),
                       (''schedule'', jprop ''schedule'' job),
                       (''config'', js_or (jprop ''config'' job) (JObj []))]))])
   \<and> jprop ''schedule'' (job_data (fold job_edit edits (job_form_effect job'))) =
       (let f = fold job_edit edits (job_form_effect job')
        in if shown_schedule f = JStr ''custom'' then jf_customSchedule f else shown_schedule f)"
proof -
  have empty: "\<not> is_preset (JStr [])" by (simp add: is_preset_def SCHEDULE_PRESETS_def)
  have data: "job_data (job_form_effect (Some job)) =
      JObj [(''name'', jprop ''name'' job), (''type'', jprop ''type'' job),
            (''schedule'', jprop ''schedule'' job), (''config'', js_or (jprop ''config'' job) (JObj []))]"
    using custom_no_preset by (auto simp: job_form_effect_def job_data_def Let_def)
  have ok: "job_submittable (job_form_effect (Some job)) \<longleftrightarrow>
      jprop ''name'' job \<noteq> JStr [] \<and> jprop ''schedule'' job \<noteq> JStr []"
    using empty custom_no_preset by (auto simp: job_form_effect_def job_submittable_def Let_def)
  have sent: "fe_sent (snd (submit_job e (Some job) (job_form_effect (Some job)) False s)) =
      fe_sent s @ (if job_submittable (job_form_effect (Some job))
        then [add_token s (m_request useUpdateJob
                (text_value (jprop ''id'' job), job_data (job_form_effect (Some job))))] else [])"
    by (auto simp: submit_job_def dest: run_mutation_sentD split: prod.split sum.split)
  have "schedule_shown (fold job_edit edits (job_form_effect job'))"
    by (rule schedule_shown_edits [OF schedule_shown_effect])
  then have "jprop ''schedule'' (job_data (fold job_edit edits (job_form_effect job'))) =
       (let f = fold job_edit edits (job_form_effect job')
        in if shown_schedule f = JStr ''custom'' then jf_customSchedule f else shown_schedule f)"
    using custom_no_preset by (auto simp: job_data_def shown_schedule_def schedule_shown_def Let_def)
  then show ?thesis unfolding sent data ok by (simp add: useUpdateJob_def)
qed

end
