(* ===== verification/FeSources.thy ===== *)
theory FeSources
  imports FePages
begin

text \<open>
  The form of a new data source (\<open>app/(app)/data-sources/new/page.tsx\<close>): the choice of its type, the
  panel of fields for each type, the configuration that is sent, and what follows on the answer. The
  icons of the types are left out. The \<open>zod\<close> schema of the form requires a name and a type that are
  not empty; an input that is not on the page has no value, here the empty text.
\<close>

section \<open>Types\<close>

type_synonym source_type = "string \<times> string"

definition dataSourceCategories :: "(string \<times> source_type list) list" where
  "dataSourceCategories =
     [(''Relational Databases'',
       [(''postgres'', ''PostgreSQL''), (''mysql'', ''MySQL''), (''mssql'', ''SQL Server''),
        (''oracle'', ''Oracle''), (''mariadb'', ''MariaDB''), (''cockroachdb'', ''CockroachDB'')]),
      (''Cloud Data Warehouses'',
       [(''snowflake'', ''Snowflake''), (''bigquery'', ''BigQuery''), (''redshift'', ''Redshift''),
        (''databricks'', ''Databricks''), (''synapse'', ''Azure Synapse''), (''clickhouse'', ''ClickHouse'')]),
      (''Data Lakes & Object Storage'',
       [(''s3'', ''Amazon S3''), (''gcs'', ''Google Cloud Storage''), (''azure_blob'', ''Azure Blob Storage''),
        (''delta_lake'', ''Delta Lake''), (''iceberg'', ''Apache Iceberg''), (''hudi'', ''Apache Hudi'')]),
      (''Streaming & Messaging'',
       [(''kafka'', ''Apache Kafka''), (''pulsar'', ''Apache Pulsar''), (''kinesis'', ''AWS Kinesis''),
        (''eventhub'', ''Azure Event Hub''), (''rabbitmq'', ''RabbitMQ''), (''nats'', ''NATS'')]),
      (''NoSQL & Document Stores'',
       [(''mongodb'', ''MongoDB''), (''elasticsearch'', ''Elasticsearch''), (''dynamodb'', ''DynamoDB''),
        (''cassandra'', ''Cassandra''), (''redis'', ''Redis''), (''couchbase'', ''Couchbase'')]),
      (''BI & Analytics Tools'',
       [(''tableau'', ''Tableau''), (''looker'', ''Looker''), (''powerbi'', ''Power BI''),
        (''metabase'', ''Metabase''), (''superset'', ''Apache Superset''), (''dbt'', ''dbt'')]),
      (''Orchestration & ETL'',
       [(''airflow'', ''Apache Airflow''), (''spark'', ''Apache Spark''), (''flink'', ''Apache Flink''),
        (''glue'', ''AWS Glue''), (''fivetran'', ''Fivetran''), (''airbyte'', ''Airbyte'')]),
      (''APIs & SaaS'',
       [(''salesforce'', ''Salesforce''), (''hubspot'', ''HubSpot''), (''rest_api'', ''REST API''),
        (''graphql'', ''GraphQL''), (''sharepoint'', ''SharePoint''), (''google_sheets'', ''Google Sheets'')]),
      (''Files & Documents'',
       [(''file'', ''File System''), (''csv'', ''CSV / Excel''), (''pdf'', ''PDF Documents''),
        (''parquet'', ''Parquet''), (''avro'', ''Avro''), (''json'', ''JSON / NDJSON'')])]"

definition filteredCategories :: "string \<Rightarrow> (string \<times> source_type list) list" where
  "filteredCategories searchQuery =
     filter (\<lambda>(label, types). length types > 0)
       (map (\<lambda>(label, types).
          (label, filter (\<lambda>(value, l). str_includes (to_lower l) (to_lower searchQuery)
                                       \<or> str_includes (to_lower value) (to_lower searchQuery)) types))
         dataSourceCategories)"

section \<open>Fields\<close>

definition database_types :: "string list" where
  "database_types = [''postgres'', ''mysql'', ''mssql'', ''oracle'', ''mariadb'', ''cockroachdb'']"

definition storage_types :: "string list" where
  "storage_types = [''s3'', ''gcs'', ''azure_blob'']"

text \<open>The panels of the page: the fields with an input for a type.\<close>

definition panel_fields :: "string \<Rightarrow> string list" where
  "panel_fields t =
     (if t \<in> set database_types then [''host'', ''port'', ''database'', ''username'', ''password''] else [])
     @ (if t \<in> set storage_types then [''bucket'', ''region''] else [])
     @ (if t = ''snowflake'' then [''account'', ''warehouse'', ''database'', ''username'', ''password''] else [])
     @ (if t = ''bigquery'' then [''project_id'', ''dataset''] else [])
     @ (if t \<notin> set (database_types @ storage_types @ [''snowflake'', ''bigquery''])
        then [''connection_string'', ''username'', ''password''] else [])"

type_synonym source_form = "(string \<times> string) list"

definition field :: "string \<Rightarrow> source_form \<Rightarrow> string" where
  "field k f = opt_default [] (map_of f k)"

definition port_placeholder :: "string \<Rightarrow> string" where
  "port_placeholder t =
     (if t = ''postgres'' then ''5432'' else if t = ''mssql'' then ''1433''
      else if t = ''oracle'' then ''1521'' else ''3306'')"

text \<open>\<open>if (data.k) config.k = data.k\<close>, in a row\<close>

definition set_if :: "string \<Rightarrow> source_form \<Rightarrow> (string \<times> js) list" where
  "set_if k f = (if field k f = [] then [] else [(k, JStr (field k f))])"

definition set_port :: "source_form \<Rightarrow> (string \<times> js) list" where
  "set_port f = (if field ''port'' f = [] then [] else [(''port'', JNum (parse_int (field ''port'' f)))])"

definition source_config :: "string \<Rightarrow> source_form \<Rightarrow> (string \<times> js) list" where
  "source_config t f =
     (if t \<in> set database_types
      then set_if ''host'' f @ set_port f @ set_if ''database'' f @ set_if ''username'' f @ set_if ''password'' f
      else if t \<in> set storage_types then set_if ''bucket'' f @ set_if ''region'' f
      else if t = ''snowflake''
      then set_if ''account'' f @ set_if ''warehouse'' f @ set_if ''database'' f @ set_if ''username'' f
           @ set_if ''password'' f
      else if t = ''bigquery'' then set_if ''project_id'' f @ set_if ''dataset'' f
      else set_if ''connection_string'' f)"

definition source_body :: "source_form \<Rightarrow> js" where
  "source_body f =
     (let config = source_config (field ''type'' f) f
      in JObj [(''name'', JStr (field ''name'' f)), (''type'', JStr (field ''type'' f)),
               (''config'', if length config > 0 then JObj config else JUndef)])"

definition form_errors :: "source_form \<Rightarrow> (string \<times> string) list" where
  "form_errors f =
     (if field ''name'' f = [] then [(''name'', ''Name is required'')] else [])
     @ (if field ''type'' f = [] then [(''type'', ''Type is required'')] else [])"

section \<open>Submission\<close>

text \<open>
  The page after a submission: the region it announces and the requests of its \<open>fetch\<close>. The token
  of that request is the entry \<open>token\<close> of \<open>localStorage\<close>. The timers run in the order of the code;
  their delays (2.5 and 3 seconds) are left out.
\<close>

record new_source =
  ns_regionToast :: "js option"
  ns_fetched :: "raw_request list"

definition leave_page :: "new_source \<times> fe_state \<Rightarrow> new_source \<times> fe_state" where
  "leave_page ps = (case ps of (p, s) \<Rightarrow> (p, navigate (Push ''/data-sources'') s))"

definition showRegionToast :: "js \<Rightarrow> new_source \<times> fe_state \<Rightarrow> new_source \<times> fe_state" where
  "showRegionToast region ps = (case ps of (p, s) \<Rightarrow> leave_page (p\<lparr>ns_regionToast := Some region\<rparr>, s))"

text \<open>\<open>`${created?.id}`\<close> for an id that is a text, or absent\<close>

definition id_text :: "js \<Rightarrow> string" where
  "id_text v = (case v of JStr s \<Rightarrow> s | JNull \<Rightarrow> ''null'' | _ \<Rightarrow> ''undefined'')"

definition poll_request :: "string \<Rightarrow> js \<Rightarrow> js \<Rightarrow> raw_request" where
  "poll_request base token created =
     (raw GET (base @ ''/datasources/'' @ id_text (jprop ''id'' created)) (bearer token) JUndef)
       \<lparr>rq_json := False\<rparr>"

text \<open>The region the poll finds, when there is one.\<close>

definition polled_region :: "network \<Rightarrow> raw_request \<Rightarrow> js option" where
  "polled_region nw rq =
     (case nw rq of
        None \<Rightarrow> None
      | Some r \<Rightarrow>
          (if rs_ok r
           then (case rs_json r of
                   None \<Rightarrow> None
                 | Some ds \<Rightarrow> (if truthy (jprop ''region'' ds) then Some (jprop ''region'' ds) else None))
           else None))"

definition poll_region ::
  "network \<Rightarrow> string \<Rightarrow> js \<Rightarrow> js \<Rightarrow> new_source \<times> fe_state \<Rightarrow> new_source \<times> fe_state" where
  "poll_region nw base token created ps =
     (case ps of (p, s) \<Rightarrow>
        (let rq = poll_request base token created; ps' = (p\<lparr>ns_fetched := ns_fetched p @ [rq]\<rparr>, s)
         in case polled_region nw rq of
              Some region \<Rightarrow> showRegionToast region ps'
            | None \<Rightarrow> leave_page ps'))"

definition submit_source ::
  "fe_env \<Rightarrow> network \<Rightarrow> string \<Rightarrow> js \<Rightarrow> source_form \<Rightarrow> new_source \<times> fe_state \<Rightarrow> new_source \<times> fe_state" where
  "submit_source e nw base token f ps =
     (if form_errors f \<noteq> [] then ps
      else (case ps of (p, s) \<Rightarrow>
        (case run_mutation e useCreateDataSource (source_body f) s of
           (Inl err, s') \<Rightarrow> (p, s')
         | (Inr created, s') \<Rightarrow>
             (if truthy (jprop ''region'' created)
              then showRegionToast (jprop ''region'' created) (p, s')
              else poll_region nw base token created (p, s')))))"

section \<open>Lemmas\<close>

lemma includes_empty [simp]: "str_includes s []"
  unfolding str_includes_iff by (metis append_Nil)

lemma includes_self [simp]: "str_includes s s"
  unfolding str_includes_iff by (metis append_Nil append_Nil2)

lemma no_search: "filteredCategories [] = dataSourceCategories"
  by (simp add: filteredCategories_def dataSourceCategories_def to_lower_def)

text \<open>Every type is found by its value.\<close>

lemma search_finds:
  assumes "(label, types) \<in> set dataSourceCategories" and "(value, l) \<in> set types"
  shows "\<exists>types'. (label, types') \<in> set (filteredCategories value) \<and> (value, l) \<in> set types'"
  using assms unfolding filteredCategories_def by (force simp: filter_empty_conv image_iff)

definition filled :: "source_form \<Rightarrow> string \<Rightarrow> bool" where
  "filled f k \<longleftrightarrow> field k f \<noteq> []"

definition field_value :: "source_form \<Rightarrow> string \<Rightarrow> js" where
  "field_value f k = (if k = ''port'' then JNum (parse_int (field k f)) else JStr (field k f))"

lemma set_if_filled: "k \<noteq> ''port'' \<Longrightarrow> set_if k f = map (\<lambda>k. (k, field_value f k)) (filter (filled f) [k])"
  "set_port f = map (\<lambda>k. (k, field_value f k)) (filter (filled f) [''port''])"
  by (simp_all add: set_if_def set_port_def filled_def field_value_def)

definition panel_types :: "string list" where
  "panel_types = database_types @ storage_types @ [''snowflake'', ''bigquery'']"

section \<open>Properties\<close>

text \<open>
  The configuration that is sent holds exactly the filled fields of the type's panel with their
  values, the port as a number, for the types that have a panel of their own. For all others the user
  name and the password the page asks for are dropped: only the connection string is sent.
\<close>

theorem source_config_fields:
  "source_config t f =
     map (\<lambda>k. (k, field_value f k))
       (filter (filled f) (if t \<in> set panel_types then panel_fields t else take 1 (panel_fields t)))
   \<and> (t \<notin> set panel_types \<longleftrightarrow> panel_fields t = [''connection_string'', ''username'', ''password''])"
proof (cases "t \<in> set panel_types")
  case False
  then show ?thesis
    by (simp add: panel_types_def source_config_def panel_fields_def set_if_filled)
next
  case True
  then have "t \<in> set database_types \<or> t \<in> set storage_types \<or> t = ''snowflake'' \<or> t = ''bigquery''"
    by (auto simp: panel_types_def)
  then consider (db) "t \<in> set database_types" | (st) "t \<in> set storage_types" | (sf) "t = ''snowflake''"
    | (bq) "t = ''bigquery''" by blast
  then show ?thesis
  proof cases
    case db
    then have "t \<notin> set storage_types" "t \<noteq> ''snowflake''" "t \<noteq> ''bigquery''"
      by (auto simp: database_types_def storage_types_def)
    with db True show ?thesis by (simp add: source_config_def panel_fields_def set_if_filled)
  next
    case st
    then have "t \<notin> set database_types" "t \<noteq> ''snowflake''" "t \<noteq> ''bigquery''"
      by (auto simp: database_types_def storage_types_def)
    with st True show ?thesis by (simp add: source_config_def panel_fields_def set_if_filled)
  qed (use True in \<open>simp_all add: source_config_def panel_fields_def set_if_filled database_types_def
      storage_types_def\<close>)
qed

text \<open>
  A created data source always leads back to the list, once, whatever becomes of the poll for
  its region; a refused one leaves the page as it is. The region announced is the one the server gave,
  and the poll carries the entry \<open>token\<close> of \<open>localStorage\<close>, \<open>Bearer null\<close> when there is none.
\<close>

theorem new_source_outcome:
  "fe_navs (snd (submit_source e nw base token f (p, s))) =
     (if form_errors f \<noteq> [] then fe_navs s
      else case run_mutation e useCreateDataSource (source_body f) s of
             (Inl err, s') \<Rightarrow> fe_navs s'
           | (Inr created, s') \<Rightarrow> fe_navs s' @ [Push ''/data-sources''])
   \<and> ns_regionToast (fst (submit_source e nw base token f (p, s))) =
     (if form_errors f \<noteq> [] then ns_regionToast p
      else case run_mutation e useCreateDataSource (source_body f) s of
             (Inl err, s') \<Rightarrow> ns_regionToast p
           | (Inr created, s') \<Rightarrow>
               (if truthy (jprop ''region'' created) then Some (jprop ''region'' created)
                else case polled_region nw (poll_request base token created) of
                       Some region \<Rightarrow> Some region
                     | None \<Rightarrow> ns_regionToast p))
   \<and> rq_authorization (poll_request base JNull created) = ''Bearer null''"
  by (simp add: submit_source_def poll_region_def showRegionToast_def leave_page_def poll_request_def
      raw_def Let_def split: prod.split sum.split option.split)

end
