(* ===== verification/FeEndpoints.thy ===== *)
theory FeEndpoints
  imports FePages
begin

text \<open>
  The page of endpoints (\<open>app/(app)/endpoints/page.tsx\<close>): the agent for the visitor's platform, the
  form of an endpoint, and the list of endpoints with its scans, where every handler is split at its
  request, so that answers may come in any order. The ellipsis in a label is written as three dots, a
  backslash as \<open>CHR 0x5C\<close>, a double quote as \<open>CHR 0x22\<close>.
\<close>

section \<open>Platforms\<close>

record platform_info =
  pf_id :: string
  pf_os :: string
  pf_arch :: string
  pf_filename :: string
  pf_installCmd :: string

definition unix_platform :: "string \<Rightarrow> string \<Rightarrow> string \<Rightarrow> platform_info" where
  "unix_platform i os arch =
     (let file = ''securelens-agent-'' @ i
      in \<lparr>pf_id = i, pf_os = os, pf_arch = arch, pf_filename = file,
          pf_installCmd = ''chmod +x '' @ file @ '' && sudo mv '' @ file @ '' /usr/local/bin/securelens-agent''\<rparr>)"

definition PLATFORMS :: "platform_info list" where
  "PLATFORMS =
     [unix_platform ''linux-amd64'' ''Linux'' ''x86_64'',
      unix_platform ''linux-arm64'' ''Linux'' ''ARM64'',
      unix_platform ''darwin-amd64'' ''macOS'' ''Intel'',
      unix_platform ''darwin-arm64'' ''macOS'' ''Apple Silicon'',
      \<lparr>pf_id = ''windows-amd64'', pf_os = ''Windows'', pf_arch = ''x86_64'',
       pf_filename = ''securelens-agent-windows-amd64.exe'',
       pf_installCmd = ''Move-Item securelens-agent-windows-amd64.exe C:'' @ CHR 0x5C # ''Program Files''
         @ CHR 0x5C # ''SecureLens'' @ CHR 0x5C # ''securelens-agent.exe''\<rparr>]"

text \<open>
  What the code asks the browser: its user agent and platform, and the name of its renderer, when
  the graphics library gives one (an exception there is caught).
\<close>

record browser =
  br_userAgent :: string
  br_platform :: "string option"
  br_renderer :: "string option"

definition detectPlatform :: "browser option \<Rightarrow> string" where
  "detectPlatform window =
     (case window of
        None \<Rightarrow> ''linux-amd64''
      | Some b \<Rightarrow>
          (let ua = to_lower (br_userAgent b);
               platform = (case br_platform b of Some p \<Rightarrow> to_lower p | None \<Rightarrow> [])
           in if str_includes ua ''win'' then ''windows-amd64''
              else if str_includes ua ''mac'' \<or> str_includes platform ''mac''
              then (case br_renderer b of
                      Some renderer \<Rightarrow>
                        (if str_includes renderer ''Apple M'' \<or> str_includes renderer ''Apple GPU''
                         then ''darwin-arm64'' else ''darwin-arm64'')
                    | None \<Rightarrow> ''darwin-arm64'')
              else if str_includes ua ''linux''
              then (if str_includes ua ''aarch64'' \<or> str_includes ua ''arm64'' then ''linux-arm64''
                    else ''linux-amd64'')
              else ''linux-amd64''))"

definition download_url :: "string \<Rightarrow> string \<Rightarrow> string" where
  "download_url base selectedPlatform = base @ ''/api/v1/downloads/agent/'' @ selectedPlatform"

definition initCommand :: "string \<Rightarrow> string \<Rightarrow> string" where
  "initCommand base apiKey =
     ''securelens-agent init --api-key '' @ (if apiKey = [] then ''YOUR_API_KEY'' else apiKey)
     @ '' --api-url '' @ (if base = [] then ''https://api.securelens.ai'' else base)"

definition scanCommand :: "string \<Rightarrow> string" where
  "scanCommand selectedPlatform =
     (if starts_with selectedPlatform ''windows''
      then ''securelens-agent scan C:'' @ CHR 0x5C # ''Logs C:'' @ CHR 0x5C # ''Users --exclude '' @ CHR 0x22
           # ''*.zip,*.gz'' @ [CHR 0x22]
      else ''securelens-agent scan /var/log /etc /home --exclude '' @ CHR 0x22 # ''*.zip,*.gz'' @ [CHR 0x22])"

section \<open>Badges and findings\<close>

definition risk_colors :: "(string \<times> string) list" where
  "risk_colors =
     [(''critical'', ''red''), (''high'', ''orange''), (''medium'', ''yellow''), (''low'', ''green''),
      (''unknown'', ''gray'')]"

definition RiskBadge :: "string \<Rightarrow> cell" where
  "RiskBadge level = Toned (opt_default ''gray'' (map_of risk_colors level)) (text_of (capitalize level))"

definition endpoint_colors :: "(string \<times> string) list" where
  "endpoint_colors =
     [(''pending'', ''gray''), (''scanned'', ''green''), (''scanning'', ''blue''), (''error'', ''red'')]"

definition endpoint_badge :: "js \<Rightarrow> cell" where
  "endpoint_badge status =
     Toned (opt_default ''gray'' (map_of endpoint_colors (text_value status))) (Txt status)"

text \<open>The findings of an endpoint: a list, or a text that is parsed; a text that is no JSON has none.\<close>

definition findings_of :: "(string \<Rightarrow> js option) \<Rightarrow> js \<Rightarrow> js" where
  "findings_of parse ep =
     (case jprop ''findings'' ep of
        JArr fs \<Rightarrow> JArr fs
      | v \<Rightarrow> (case parse (text_value (js_or v (JStr ''[]''))) of Some w \<Rightarrow> w | None \<Rightarrow> JArr []))"

fun finding_confidence :: "js \<Rightarrow> jsnum" where
  "finding_confidence (JNum n) = num_round (num_scale 100 (if n = NaN then Fin 0 else n))"
| "finding_confidence v = Fin 0"

definition finding_cells :: "js \<Rightarrow> cell list" where
  "finding_cells f =
     [Txt (jprop ''entity_type'' f), Txt (jprop ''field'' f), Txt (jprop ''value_masked'' f),
      Seq [Txt (JNum (finding_confidence (jprop ''confidence'' f))), text_of ''%'']]"

definition endpoint_cells :: "js \<Rightarrow> bool \<Rightarrow> cell list" where
  "endpoint_cells ep scanning =
     [Txt (jprop ''name'' ep), Seq [Txt (jprop ''method'' ep), Txt (jprop ''url'' ep)],
      endpoint_badge (jprop ''status'' ep),
      RiskBadge (text_value (js_or (jprop ''risk_level'' ep) (JStr ''unknown''))),
      if truthy (jprop ''last_scan'' ep) then Day (jprop ''last_scan'' ep) else text_of ''Never scanned'',
      text_of (if scanning then ''Scanning...'' else ''Scan'')]"

section \<open>Agents\<close>

definition agent_findings :: "js \<Rightarrow> js list" where
  "agent_findings agent =
     elements (js_or (jprop ''findings'' (jprop ''scan_results'' agent)) (JArr []))"

definition agent_findings_count :: "js \<Rightarrow> js" where
  "agent_findings_count agent =
     js_or (jprop ''findings_count'' (jprop ''scan_results'' agent))
       (JNum (num_of_nat (length (agent_findings agent))))"

text \<open>The first twenty findings, and the number of the others when there are any.\<close>

definition agent_findings_shown :: "js \<Rightarrow> js list \<times> nat option" where
  "agent_findings_shown agent =
     (let findings = agent_findings agent
      in (take 20 findings, if length findings > 20 then Some (length findings - 20) else None))"

section \<open>The form\<close>

record endpoint_form =
  ef_name :: string
  ef_url :: string
  ef_method :: string
  ef_auth_type :: string
  ef_token :: string
  ef_username :: string
  ef_password :: string
  ef_api_key :: string

definition initial_endpoint_form :: endpoint_form where
  "initial_endpoint_form =
     \<lparr>ef_name = [], ef_url = [], ef_method = ''GET'', ef_auth_type = ''none'', ef_token = [],
      ef_username = [], ef_password = [], ef_api_key = []\<rparr>"

definition endpoint_auth :: "endpoint_form \<Rightarrow> js" where
  "endpoint_auth f =
     JObj
       ((if ef_auth_type f = ''bearer'' then [(''token'', JStr (ef_token f))] else [])
        @ (if ef_auth_type f = ''basic''
           then [(''username'', JStr (ef_username f)), (''password'', JStr (ef_password f))] else [])
        @ (if ef_auth_type f = ''api_key'' then [(''key'', JStr (ef_api_key f))] else []))"

definition endpoint_body :: "endpoint_form \<Rightarrow> js" where
  "endpoint_body f =
     JObj [(''name'', JStr (ef_name f)), (''url'', JStr (ef_url f)), (''method'', JStr (ef_method f)),
           (''auth_type'', JStr (ef_auth_type f)), (''auth_config'', endpoint_auth f)]"

text \<open>The modal's error, or \<open>None\<close> when it is closed; the message of a rejected \<open>fetch\<close> is an argument.\<close>

definition http_message :: "raw_response \<Rightarrow> string" where
  "http_message r = ''HTTP '' @ nat_str (rs_status r)"

definition submit_endpoint ::
  "network \<Rightarrow> string \<Rightarrow> js \<Rightarrow> string \<Rightarrow> endpoint_form \<Rightarrow> raw_request \<times> string option" where
  "submit_endpoint nw base token rejected f =
     (let rq = raw POST (base @ ''/endpoints'') (bearer token) (endpoint_body f)
      in (rq, case nw rq of
                None \<Rightarrow> Some (if rejected = [] then ''Failed to create endpoint'' else rejected)
              | Some r \<Rightarrow> (if rs_ok r then None else Some (http_message r))))"

section \<open>The list\<close>

text \<open>
  The page with the requests that wait for their answers and the timers that will clear its
  notification. \<open>Rejected m\<close> is a promise rejected with the message \<open>m\<close>; a body that is not JSON rejects
  with a message too.
\<close>

datatype ep_call = FetchList | ScanOf string | DeleteOf string

datatype ep_answer = Rejected string | Answered nat "string + js"

record ep_page =
  ep_tab_api :: bool
  ep_endpoints :: "js list"
  ep_loading :: bool
  ep_scanningId :: "string option"
  ep_notification :: "page_note option"
  ep_timers :: nat
  ep_waiting :: "ep_call list"

definition initial_ep_page :: ep_page where
  "initial_ep_page =
     \<lparr>ep_tab_api = True, ep_endpoints = [], ep_loading = False, ep_scanningId = None,
      ep_notification = None, ep_timers = 0, ep_waiting = []\<rparr>"

definition notify :: "page_note \<Rightarrow> ep_page \<Rightarrow> ep_page" where
  "notify n p = p\<lparr>ep_notification := Some n, ep_timers := Suc (ep_timers p)\<rparr>"

definition clear_notification :: "ep_page \<Rightarrow> ep_page" where
  "clear_notification p =
     (if ep_timers p = 0 then p else p\<lparr>ep_notification := None, ep_timers := ep_timers p - 1\<rparr>)"

text \<open>The message of an error, or the default when it is empty.\<close>

definition failed :: "string \<Rightarrow> string \<Rightarrow> ep_page \<Rightarrow> ep_page" where
  "failed message otherwise p = notify (NoteError (if message = [] then otherwise else message)) p"

definition start_call :: "ep_call \<Rightarrow> ep_page \<Rightarrow> ep_page" where
  "start_call c p =
     (let p' = (case c of
                  FetchList \<Rightarrow> p\<lparr>ep_loading := True\<rparr>
                | ScanOf i \<Rightarrow> p\<lparr>ep_scanningId := Some i\<rparr>
                | DeleteOf i \<Rightarrow> p)
      in p'\<lparr>ep_waiting := ep_waiting p' @ [c]\<rparr>)"

definition ok_status :: "nat \<Rightarrow> bool" where
  "ok_status n \<longleftrightarrow> 200 \<le> n \<and> n < 300"

text \<open>\<open>data.endpoints || []\<close>; \<open>data\<close> being null throws.\<close>

definition list_answer :: "ep_answer \<Rightarrow> js list option" where
  "list_answer a =
     (case a of
        Answered n (Inr d) \<Rightarrow>
          (if nullish d then None else Some (elements (js_or (jprop ''endpoints'' d) (JArr []))))
      | _ \<Rightarrow> None)"

definition with_id :: "string \<Rightarrow> js \<Rightarrow> bool" where
  "with_id i ep \<longleftrightarrow> jprop ''id'' ep = JStr i"

definition finish_call :: "ep_call \<Rightarrow> ep_answer \<Rightarrow> ep_page \<Rightarrow> ep_page" where
  "finish_call c a p0 =
     (let p = p0\<lparr>ep_waiting := remove1 c (ep_waiting p0)\<rparr>
      in case c of
           FetchList \<Rightarrow>
             (case list_answer a of
                Some eps \<Rightarrow> p\<lparr>ep_endpoints := eps\<rparr>
              | None \<Rightarrow> notify (NoteError ''Failed to load endpoints'') p)\<lparr>ep_loading := False\<rparr>
         | ScanOf i \<Rightarrow>
             (case a of
                Rejected m \<Rightarrow> failed m ''Scan failed'' p
              | Answered n body \<Rightarrow>
                  (if \<not> ok_status n then failed (''HTTP '' @ nat_str n) ''Scan failed'' p
                   else (case body of
                           Inl m \<Rightarrow> failed m ''Scan failed'' p
                         | Inr updated \<Rightarrow>
                             notify (NoteSuccess ''Scan complete'')
                               (p\<lparr>ep_endpoints :=
                                    map (\<lambda>ep. if with_id i ep then updated else ep) (ep_endpoints p)\<rparr>))))
               \<lparr>ep_scanningId := None\<rparr>
         | DeleteOf i \<Rightarrow>
             (case a of
                Rejected m \<Rightarrow> failed m ''Delete failed'' p
              | Answered n body \<Rightarrow>
                  (if \<not> ok_status n then failed (''HTTP '' @ nat_str n) ''Delete failed'' p
                   else notify (NoteSuccess ''Endpoint deleted'')
                     (p\<lparr>ep_endpoints := filter (\<lambda>ep. \<not> with_id i ep) (ep_endpoints p)\<rparr>))))"

definition ep_request :: "string \<Rightarrow> js \<Rightarrow> ep_call \<Rightarrow> raw_request" where
  "ep_request base token c =
     (case c of
        FetchList \<Rightarrow> raw GET (base @ ''/endpoints'') (bearer token) JUndef
      | ScanOf i \<Rightarrow> raw POST (base @ ''/endpoints/'' @ i @ ''/scan'') (bearer token) JUndef
      | DeleteOf i \<Rightarrow> raw DELETE (base @ ''/endpoints/'' @ i) (bearer token) JUndef)"

definition select_tab :: "bool \<Rightarrow> ep_page \<Rightarrow> ep_page" where
  "select_tab api p =
     (if api = ep_tab_api p then p
      else if api then start_call FetchList (p\<lparr>ep_tab_api := True\<rparr>)
      else p\<lparr>ep_tab_api := False\<rparr>)"

text \<open>The button of an endpoint is disabled for the one the page believes is scanned.\<close>

definition scan_enabled :: "string \<Rightarrow> ep_page \<Rightarrow> bool" where
  "scan_enabled i p \<longleftrightarrow> ep_scanningId p \<noteq> Some i"

record ep_stats =
  es_total :: nat
  es_scanned :: nat
  es_critical :: nat
  es_high :: nat

definition ep_stats_of :: "js list \<Rightarrow> ep_stats" where
  "ep_stats_of eps =
     (let count = (\<lambda>k v. length (filter (\<lambda>ep. jprop k ep = JStr v) eps))
      in \<lparr>es_total = length eps, es_scanned = count ''status'' ''scanned'',
          es_critical = count ''risk_level'' ''critical'', es_high = count ''risk_level'' ''high''\<rparr>)"

inductive ep_step :: "ep_page \<Rightarrow> ep_page \<Rightarrow> bool" where
  refresh: "ep_step p (start_call FetchList p)"
| scan: "ep \<in> set (ep_endpoints p) \<Longrightarrow> with_id i ep \<Longrightarrow> scan_enabled i p \<Longrightarrow>
    ep_step p (start_call (ScanOf i) p)"
| delete: "ep \<in> set (ep_endpoints p) \<Longrightarrow> with_id i ep \<Longrightarrow> ep_step p (start_call (DeleteOf i) p)"
| answer: "c \<in> set (ep_waiting p) \<Longrightarrow> ep_step p (finish_call c a p)"
| timer: "ep_step p (clear_notification p)"
| tab: "ep_step p (select_tab api p)"

inductive_cases ep_stepE: "ep_step p p'"

abbreviation ep_reachable :: "ep_page \<Rightarrow> bool" where
  "ep_reachable \<equiv> ep_step\<^sup>*\<^sup>* (start_call FetchList initial_ep_page)"

section \<open>Lemmas\<close>

lemma notify_fields [simp]:
  "ep_waiting (notify n p) = ep_waiting p" "ep_scanningId (notify n p) = ep_scanningId p"
  "ep_notification (notify n p) = Some n" "ep_timers (notify n p) = Suc (ep_timers p)"
  "ep_endpoints (notify n p) = ep_endpoints p" "ep_loading (notify n p) = ep_loading p"
  by (simp_all add: notify_def)

lemma failed_fields [simp]:
  "ep_waiting (failed m m' p) = ep_waiting p" "ep_scanningId (failed m m' p) = ep_scanningId p"
  "ep_notification (failed m m' p) \<noteq> None" "ep_timers (failed m m' p) = Suc (ep_timers p)"
  "ep_endpoints (failed m m' p) = ep_endpoints p"
  by (simp_all add: failed_def)

lemma clear_fields [simp]:
  "ep_waiting (clear_notification p) = ep_waiting p"
  "ep_scanningId (clear_notification p) = ep_scanningId p"
  by (simp_all add: clear_notification_def)

text \<open>
  What holds of every reachable page: a notification has a timer that will clear it, and the page
  believes in a scan only while one waits, or more than one.
\<close>

definition ep_inv :: "ep_page \<Rightarrow> bool" where
  "ep_inv p \<longleftrightarrow>
     (ep_notification p \<noteq> None \<longrightarrow> ep_timers p > 0)
     \<and> (case ep_scanningId p of None \<Rightarrow> True | Some i \<Rightarrow> ScanOf i \<in> set (ep_waiting p))"

lemma start_fields [simp]:
  "ep_endpoints (start_call c p) = ep_endpoints p"
  "ep_scanningId (start_call c p) = (case c of ScanOf i \<Rightarrow> Some i | _ \<Rightarrow> ep_scanningId p)"
  by (simp_all add: start_call_def split: ep_call.split)

lemma start_inv: "ep_inv p \<Longrightarrow> ep_inv (start_call c p)"
  by (cases c) (auto simp: ep_inv_def start_call_def split: option.splits)

lemma finish_waiting: "ep_waiting (finish_call c a p) = remove1 c (ep_waiting p)"
  by (auto simp: finish_call_def Let_def split: ep_call.split ep_answer.split sum.split option.split)

lemma finish_scanning:
  "ep_scanningId (finish_call c a p) = (case c of ScanOf i \<Rightarrow> None | _ \<Rightarrow> ep_scanningId p)"
  by (auto simp: finish_call_def Let_def split: ep_call.split ep_answer.split sum.split option.split)

lemma finish_notification:
  "(ep_notification (finish_call c a p) = ep_notification p \<and> ep_timers (finish_call c a p) = ep_timers p)
   \<or> ep_timers (finish_call c a p) > 0"
  by (auto simp: finish_call_def Let_def split: ep_call.split ep_answer.split sum.split option.split)

lemma finish_inv: "ep_inv p \<Longrightarrow> ep_inv (finish_call c a p)"
  using finish_notification [of c a p]
  by (cases c) (auto simp: ep_inv_def finish_waiting finish_scanning split: option.splits)

lemma reachable_inv: "ep_reachable p \<Longrightarrow> ep_inv p"
proof (induction rule: rtranclp_induct)
  case base
  show ?case by (rule start_inv) (simp add: ep_inv_def initial_ep_page_def)
next
  case (step p p')
  from step.hyps(2) show ?case
  proof (cases rule: ep_step.cases)
    case (tab api)
    have "ep_inv (p\<lparr>ep_tab_api := b\<rparr>)" for b
      using step.IH by (simp add: ep_inv_def split: option.splits)
    with tab start_inv step.IH show ?thesis by (simp add: select_tab_def)
  next
    case timer
    with step.IH show ?thesis by (auto simp: ep_inv_def clear_notification_def split: option.splits)
  qed (use step.IH start_inv finish_inv in auto)
qed

lemma str_includes_append: "str_includes b p \<Longrightarrow> str_includes (a @ b @ c) p"
  unfolding str_includes_iff by (metis append.assoc)

lemma detect_cases:
  "detectPlatform w \<in> {''linux-amd64'', ''linux-arm64'', ''darwin-arm64'', ''windows-amd64''}"
  by (simp add: detectPlatform_def Let_def split: option.split)

section \<open>Properties\<close>

text \<open>
  The platform that is detected is always one that can be downloaded, but never the one of Macs
  with Intel processors, whatever the renderer says; and a user agent that names Darwin, the system of
  macOS, is taken for Windows.
\<close>

theorem detected_platform:
  "detectPlatform w \<in> set (map pf_id PLATFORMS) - {''darwin-amd64''}
   \<and> detectPlatform (Some \<lparr>br_userAgent = a @ ''Darwin'' @ c, br_platform = pl, br_renderer = r\<rparr>) = ''windows-amd64''"
proof -
  have "set (map pf_id PLATFORMS) - {''darwin-amd64''} =
      {''linux-amd64'', ''linux-arm64'', ''darwin-arm64'', ''windows-amd64''}"
    by (auto simp: PLATFORMS_def unix_platform_def Let_def)
  moreover have "str_includes (to_lower (a @ ''Darwin'' @ c)) ''win''"
  proof -
    have "to_lower ''Darwin'' = ''darwin''" by code_simp
    moreover have "str_includes ''darwin'' ''win''" by (simp add: starts_with_def)
    ultimately show ?thesis
      using str_includes_append [of "to_lower ''Darwin''" "''win''" "to_lower a" "to_lower c"]
      by (simp add: to_lower_def)
  qed
  ultimately show ?thesis
    using detect_cases [of w] by (simp only: detectPlatform_def) (simp add: Let_def)
qed

text \<open>
  C18. On every page that can be reached, a notification will be cleared by a timer that runs, and the
  button that is disabled is that of an endpoint whose scan is awaited. The answer to any scan enables
  all buttons, and leaves all other scans waiting.
\<close>

theorem endpoint_page_invariant:
  assumes "ep_reachable p"
  shows "(ep_notification p \<noteq> None \<longrightarrow> ep_timers p > 0)
    \<and> (\<not> scan_enabled i p \<longrightarrow> ScanOf i \<in> set (ep_waiting p))
    \<and> scan_enabled j (finish_call (ScanOf i) a p)
    \<and> (i \<noteq> j \<longrightarrow> count_list (ep_waiting (finish_call (ScanOf i) a p)) (ScanOf j)
                   = count_list (ep_waiting p) (ScanOf j))"
proof -
  have "count_list (remove1 x xs) y = count_list xs y" if "x \<noteq> y" for x y :: ep_call and xs
    using that by (induction xs) auto
  then show ?thesis
    using reachable_inv [OF assms]
    by (auto simp: ep_inv_def scan_enabled_def finish_scanning finish_waiting split: option.splits)
qed

definition ex_endpoints :: ep_answer where
  "ex_endpoints = Answered 200 (Inr (JObj [(''endpoints'',
     JArr [JObj [(''id'', JStr ''a'')], JObj [(''id'', JStr ''b'')]])]))"

definition ex_ep_page :: ep_page where
  "ex_ep_page = start_call (ScanOf ''b'') (start_call (ScanOf ''a'')
     (finish_call FetchList ex_endpoints (start_call FetchList initial_ep_page)))"

lemma ex_ep_page_fields:
  "ep_waiting ex_ep_page = [ScanOf ''a'', ScanOf ''b'']" "ep_scanningId ex_ep_page = Some ''b''"
  by (simp_all add: ex_ep_page_def ex_endpoints_def start_call_def finish_call_def initial_ep_page_def
      list_answer_def nullish_def js_or_def)

lemma ex_ep_page_reachable: "ep_reachable ex_ep_page"
proof -
  let ?p0 = "start_call FetchList initial_ep_page"
  let ?p1 = "finish_call FetchList ex_endpoints ?p0"
  let ?p2 = "start_call (ScanOf ''a'') ?p1"
  have eps: "ep_endpoints ?p1 = [JObj [(''id'', JStr ''a'')], JObj [(''id'', JStr ''b'')]]"
    "ep_scanningId ?p1 = None"
    by (simp_all add: ex_endpoints_def start_call_def finish_call_def initial_ep_page_def list_answer_def
        nullish_def js_or_def)
  have "ep_step ?p0 ?p1" by (rule ep_step.answer) (simp add: start_call_def initial_ep_page_def)
  moreover have "ep_step ?p1 ?p2"
    by (rule ep_step.scan [of "JObj [(''id'', JStr ''a'')]"]) (simp_all add: eps with_id_def scan_enabled_def)
  moreover have "ep_step ?p2 ex_ep_page"
    unfolding ex_ep_page_def
    by (rule ep_step.scan [of "JObj [(''id'', JStr ''b'')]"])
      (simp_all add: eps with_id_def scan_enabled_def)
  ultimately show ?thesis by (meson converse_rtranclp_into_rtranclp rtranclp.rtrancl_refl)
qed

theorem endpoint_page_invariant_witness:
  "scan_enabled ''b'' (finish_call (ScanOf ''a'') (Rejected []) ex_ep_page)
   \<and> ScanOf ''b'' \<in> set (ep_waiting (finish_call (ScanOf ''a'') (Rejected []) ex_ep_page))"
  using endpoint_page_invariant [OF ex_ep_page_reachable, of "''a''" "''b''" "Rejected []"]
  by (simp add: finish_waiting ex_ep_page_fields)

end
