(* ===== verification/FeReports.thy ===== *)
theory FeReports
  imports FePages
begin

text \<open>
  The page of reports (\<open>app/(app)/audit/reports/page.tsx\<close>) with its viewers, and the part of the
  server that computes what a compliance report says of each regulation
  (\<open>src/internal/api/remediation_reports.go\<close>). Go walks a map in any order; the client's viewer is
  proved not to depend on it. Colours are named; an em dash is \<open>Dash\<close>. The interfaces of the
  contents say where there are numbers, texts and arrays.
\<close>

section \<open>Regulations on the server\<close>

record recommendation =
  rc_severity :: string
  rc_regulation :: string
  rc_article :: string

record reg_entry =
  re_name :: string
  re_findings :: nat
  re_articles :: "string list"
  re_critical :: nat
  re_high :: nat

definition new_entry :: "string \<Rightarrow> reg_entry" where
  "new_entry name = \<lparr>re_name = name, re_findings = 0, re_articles = [], re_critical = 0, re_high = 0\<rparr>"

definition regulation_name :: "string \<Rightarrow> string" where
  "regulation_name reg =
     (if take 4 reg = ''GDPR'' then ''GDPR''
      else if take 4 reg = ''CCPA'' then ''CCPA''
      else if take 4 reg = ''DPDP'' then ''DPDP Act 2023''
      else if take 3 reg = ''UAE'' then ''UAE PDPL''
      else if take 5 reg = ''EU AI'' then ''EU AI Act''
      else if take 5 reg = ''HIPAA'' then ''HIPAA''
      else if take 7 reg = ''PCI-DSS'' then ''PCI-DSS''
      else reg)"

definition count_finding :: "recommendation \<Rightarrow> reg_entry \<Rightarrow> reg_entry" where
  "count_finding rec e =
     e\<lparr>re_findings := Suc (re_findings e),
       re_articles := (if rc_article rec = [] \<or> rc_article rec \<in> set (re_articles e) then re_articles e
                       else re_articles e @ [rc_article rec]),
       re_critical := re_critical e + (if rc_severity rec = ''CRITICAL'' then 1 else 0),
       re_high := re_high e + (if rc_severity rec = ''HIGH'' then 1 else 0)\<rparr>"

text \<open>The entry of a name, made when there is none.\<close>

fun update_entry :: "string \<Rightarrow> (reg_entry \<Rightarrow> reg_entry) \<Rightarrow> reg_entry list \<Rightarrow> reg_entry list" where
  "update_entry n f [] = [f (new_entry n)]"
| "update_entry n f (e # es) = (if re_name e = n then f e # es else e # update_entry n f es)"

definition add_recommendation :: "recommendation \<Rightarrow> reg_entry list \<Rightarrow> reg_entry list" where
  "add_recommendation rec es =
     (if rc_regulation rec = [] then es
      else update_entry (regulation_name (rc_regulation rec)) (count_finding rec) es)"

definition majorRegulations :: "string list" where
  "majorRegulations = [''GDPR'', ''CCPA'', ''HIPAA'', ''DPDP Act 2023'', ''UAE PDPL'', ''EU AI Act'', ''PCI-DSS'']"

definition regulation_entries :: "recommendation list \<Rightarrow> reg_entry list" where
  "regulation_entries recs =
     fold (\<lambda>n. update_entry n (\<lambda>e. e)) majorRegulations (fold add_recommendation recs [])"

definition relevant_types :: "string \<Rightarrow> string list" where
  "relevant_types regulation =
     (if regulation = ''GDPR''
      then [''PII'', ''EMAIL'', ''NAME'', ''ADDRESS'', ''PHONE'', ''DATE_OF_BIRTH'', ''PERSON_NAME'', ''PERSON'',
            ''IP_ADDRESS'', ''LOCATION'']
      else if regulation = ''CCPA''
      then [''PII'', ''SSN'', ''EMAIL'', ''NAME'', ''ADDRESS'', ''PHONE'', ''IP_ADDRESS'', ''LOCATION'']
      else if regulation = ''HIPAA''
      then [''PHI'', ''HEALTH_RECORD'', ''MEDICAL_RECORD'', ''HEALTH_INSURANCE_ID'', ''SSN'']
      else if regulation = ''PCI-DSS'' then [''CREDIT_CARD'', ''BANK_ACCOUNT'', ''IBAN'', ''ROUTING_NUMBER'']
      else if regulation = ''DPDP Act 2023'' \<or> regulation = ''UAE PDPL''
      then [''PII'', ''EMAIL'', ''NAME'', ''ADDRESS'', ''PHONE'', ''DATE_OF_BIRTH'']
      else if regulation = ''EU AI Act'' then [''PII'', ''GENETIC_DATA'', ''BIOMETRIC'']
      else [])"

definition checkRelevantDataForRegulation :: "string list \<Rightarrow> string \<Rightarrow> bool" where
  "checkRelevantDataForRegulation entity_types regulation \<longleftrightarrow>
     list_ex (\<lambda>t. t \<in> set (relevant_types regulation)) entity_types"

text \<open>Score and status of a regulation, for the entity types found and the policies configured.\<close>

definition regulation_score :: "string list \<Rightarrow> bool \<Rightarrow> reg_entry \<Rightarrow> int \<times> string" where
  "regulation_score entity_types hasPolicies e =
     (if entity_types = [] then (0, ''Not Assessed'')
      else if \<not> hasPolicies then (0, ''At Risk'')
      else if re_findings e = 0
      then (if checkRelevantDataForRegulation entity_types (re_name e) then (100, ''Compliant'')
            else (0, ''Not Applicable''))
      else
        (let score = max 0 (100 - int (re_critical e) * 15 - int (re_high e) * 10)
         in (score, if score < 50 then ''Non-Compliant''
                    else if score < 80 then ''Partially Compliant'' else ''Compliant'')))"

definition entry_json :: "string list \<Rightarrow> bool \<Rightarrow> reg_entry \<Rightarrow> js" where
  "entry_json entity_types hasPolicies e =
     (case regulation_score entity_types hasPolicies e of
        (score, status) \<Rightarrow>
          JObj [(''name'', JStr (re_name e)), (''score'', JNum (Fin (of_int score))),
                (''status'', JStr status), (''findings_count'', JNum (num_of_nat (re_findings e))),
                (''articles_assessed'',
                 if re_articles e = [] then JNull else JArr (map JStr (re_articles e)))])"

definition calcComplianceScore :: "nat \<Rightarrow> nat \<Rightarrow> nat \<Rightarrow> nat \<Rightarrow> bool \<Rightarrow> int" where
  "calcComplianceScore critical high medium low hasData =
     (if \<not> hasData then - 1
      else if critical + high + medium + low = 0 then 100
      else max 0 (100 - int critical * 15 - int high * 10 - int medium * 5 - int low * 2))"

definition overall_status :: "bool \<Rightarrow> bool \<Rightarrow> bool \<Rightarrow> int \<Rightarrow> int \<times> string" where
  "overall_status hasScannedSources hasClassifications hasPolicies score =
     (if \<not> hasScannedSources \<and> \<not> hasClassifications then (0, ''No Data'')
      else if hasScannedSources \<and> \<not> hasClassifications then (0, ''Not Configured'')
      else if \<not> hasPolicies then (0, ''At Risk'')
      else if score < 0 then (0, ''Not Assessed'')
      else if score < 50 then (score, ''Non-Compliant'')
      else if score < 75 then (score, ''Needs Attention'')
      else if score < 90 then (score, ''Partially Compliant'')
      else (score, ''Compliant''))"

section \<open>The viewers\<close>

definition REPORT_TYPES :: "(string \<times> string \<times> string) list" where
  "REPORT_TYPES =
     [(''compliance'', ''Compliance Report'',
       ''GDPR, CCPA, HIPAA, PCI-DSS, DPDP Act, UAE PDPL & EU AI Act compliance status and gaps''),
      (''quality'', ''Data Quality Report'', ''Quality scores, trends, and issues across datasets''),
      (''ai_usage'', ''AI Usage Report'', ''AI Gate activity, blocked queries, and data lineage''),
      (''audit'', ''Audit Report'', ''Full history of user actions and system events'')]"

definition SEVERITY_COLORS :: "(string \<times> string) list" where
  "SEVERITY_COLORS = [(''CRITICAL'', ''red''), (''HIGH'', ''orange''), (''MEDIUM'', ''yellow''), (''LOW'', ''blue'')]"

definition severities :: "string list" where
  "severities = [''CRITICAL'', ''HIGH'', ''MEDIUM'', ''LOW'']"

definition ALL_FRAMEWORKS :: "string list" where
  "ALL_FRAMEWORKS = [''GDPR'', ''CCPA'', ''HIPAA'', ''PCI-DSS'', ''DPDP Act 2023'', ''UAE PDPL'', ''EU AI Act'']"

definition round_js :: "js \<Rightarrow> js" where
  "round_js v = (case v of JNum n \<Rightarrow> JNum (num_round n) | _ \<Rightarrow> JNum NaN)"

definition percent_js :: "js \<Rightarrow> js" where
  "percent_js v = (case v of JNum n \<Rightarrow> JNum (num_round (num_scale 100 n)) | _ \<Rightarrow> JNum NaN)"

definition scoreColor :: "js \<Rightarrow> string" where
  "scoreColor score =
     (case score of
        JNum n \<Rightarrow>
          (if num_le (Fin 90) n then ''green'' else if num_le (Fin 75) n then ''yellow''
           else if num_le (Fin 50) n then ''orange'' else ''red'')
      | _ \<Rightarrow> ''red'')"

text \<open>\<open>new Map\<close> keeps the last entry of a name; the lookup with its default.\<close>

definition not_assessed :: "string \<Rightarrow> js" where
  "not_assessed name =
     JObj [(''name'', JStr name), (''score'', JNum (Fin 0)), (''status'', JStr ''Not Assessed''),
           (''findings_count'', JNum (Fin 0)), (''articles_assessed'', JArr [])]"

definition apiRegMap :: "js \<Rightarrow> (js \<times> js) list" where
  "apiRegMap content =
     rev (map (\<lambda>r. (jprop ''name'' r, r)) (elements (js_or (jprop ''regulations'' content) (JArr []))))"

definition merged_regulations :: "js \<Rightarrow> js list" where
  "merged_regulations content =
     map (\<lambda>name. case map_of (apiRegMap content) (JStr name) of Some r \<Rightarrow> r | None \<Rightarrow> not_assessed name)
       ALL_FRAMEWORKS"

definition findingsBySeverity :: "js list \<Rightarrow> (string \<times> js list) list" where
  "findingsBySeverity findings =
     map (\<lambda>sev. (sev, filter (\<lambda>f. jprop ''severity'' f = JStr sev) findings)) severities"

definition status_tone :: "js \<Rightarrow> string" where
  "status_tone status =
     (if status = JStr ''Compliant'' then ''green''
      else if status = JStr ''Non-Compliant'' then ''red'' else ''yellow'')"

definition regulation_tone :: "js \<Rightarrow> string" where
  "regulation_tone status = (if status = JStr ''Not Assessed'' then ''muted'' else status_tone status)"

record compliance_state =
  cs_openRegulations :: "js list"
  cs_openSeverities :: "string list"

definition initial_compliance :: compliance_state where
  "initial_compliance = \<lparr>cs_openRegulations = [], cs_openSeverities = [''CRITICAL'', ''HIGH'']\<rparr>"

definition toggleRegulation :: "js \<Rightarrow> compliance_state \<Rightarrow> compliance_state" where
  "toggleRegulation name c = c\<lparr>cs_openRegulations := toggle name (cs_openRegulations c)\<rparr>"

definition toggleSeverity :: "string \<Rightarrow> compliance_state \<Rightarrow> compliance_state" where
  "toggleSeverity sev c = c\<lparr>cs_openSeverities := toggle sev (cs_openSeverities c)\<rparr>"

definition summary_cells :: "js \<Rightarrow> cell list" where
  "summary_cells es =
     (let score = round_js (jprop ''overall_score'' es)
      in [Toned (scoreColor score) (Txt score), Txt (jprop ''critical'' es), Txt (jprop ''high'' es),
          Txt (jprop ''medium'' es), Txt (jprop ''low'' es),
          Toned (status_tone (jprop ''status'' es)) (Txt (jprop ''status'' es)),
          Seq [Txt (jprop ''data_sources_scanned'' es), text_of ''/'', Txt (jprop ''data_sources_total'' es),
               text_of '' scanned''],
          Txt (jprop ''classifications_total'' es), Txt (jprop ''active_policies'' es),
          Txt (jprop ''total_findings'' es)])"

definition regulation_cells :: "compliance_state \<Rightarrow> js \<Rightarrow> cell list" where
  "regulation_cells c reg =
     [Txt (jprop ''name'' reg), Toned (regulation_tone (jprop ''status'' reg)) (Txt (jprop ''status'' reg)),
      Seq [Txt (round_js (jprop ''score'' reg)), text_of ''/100''],
      Seq [Txt (jprop ''findings_count'' reg), text_of '' findings'']]
     @ (if jprop ''name'' reg \<in> set (cs_openRegulations c)
        then map Txt (elements (jprop ''articles_assessed'' reg)) else [])"

definition report_finding_cells :: "js \<Rightarrow> cell list" where
  "report_finding_cells f =
     [Txt (jprop ''title'' f)]
     @ (if truthy (jprop ''regulation'' f) then [Txt (jprop ''regulation'' f)] else [])
     @ (if truthy (jprop ''regulation_article'' f) then [Txt (jprop ''regulation_article'' f)] else [])
     @ [Txt (jprop ''description'' f)]
     @ (if truthy (jprop ''action'' f) then [Txt (jprop ''action'' f)] else [])
     @ (if truthy (jprop ''evidence_summary'' f) then [Txt (jprop ''evidence_summary'' f)] else [])
     @ (if is_positive (jprop ''affected_count'' f) then [Txt (jprop ''affected_count'' f)] else [])"

text \<open>A group of findings: its severity, colour, number, and the findings when it is open.\<close>

definition severity_groups :: "compliance_state \<Rightarrow> js list \<Rightarrow> (string \<times> string \<times> nat \<times> cell list list) list" where
  "severity_groups c findings =
     map (\<lambda>(sev, fs).
        (sev, opt_default [] (map_of SEVERITY_COLORS sev), length fs,
         if sev \<in> set (cs_openSeverities c) then map report_finding_cells fs else []))
       (filter (\<lambda>(sev, fs). length fs > 0) (findingsBySeverity findings))"

definition methodology_cells :: "js \<Rightarrow> cell list" where
  "methodology_cells content =
     (if truthy (jprop ''methodology'' content)
      then [text_of ''Methodology:'', Txt (jprop ''methodology'' content)] else [])"

record compliance_view =
  cw_summary :: "cell list"
  cw_regulations :: "cell list list"
  cw_groups :: "(string \<times> string \<times> nat \<times> cell list list) list"
  cw_method :: "cell list"

definition ComplianceViewer :: "compliance_state \<Rightarrow> js \<Rightarrow> compliance_view" where
  "ComplianceViewer c content =
     \<lparr>cw_summary = summary_cells (jprop ''executive_summary'' content),
      cw_regulations = map (regulation_cells c) (merged_regulations content),
      cw_groups = severity_groups c (elements (jprop ''findings'' content)),
      cw_method = methodology_cells content
        @ (if truthy (jprop ''methodology'' content) \<and> truthy (jprop ''assessor'' content)
           then [text_of ''Assessor:'', Txt (jprop ''assessor'' content)] else [])\<rparr>"

definition report_header :: "string \<Rightarrow> js \<Rightarrow> cell list" where
  "report_header title content =
     Txt (js_or (jprop ''title'' content) (JStr title))
     # (if truthy (jprop ''assessor'' content) then [Txt (jprop ''assessor'' content)] else [])"

definition QualityViewer :: "js \<Rightarrow> cell list" where
  "QualityViewer content =
     (let es = jprop ''executive_summary'' content; status = jprop ''status'' es
      in report_header ''Data Quality Report'' content
         @ [Toned (if status = JStr ''Good'' then ''green'' else if status = JStr ''Fair'' then ''yellow'' else ''red'')
              (Txt status)]
         @ (if jprop ''total_assessments'' es = JNum (Fin 0)
            then [text_of ''No quality assessments yet'']
            else [Txt (jprop ''total_assessments'' es),
                  Seq [Txt (percent_js (jprop ''avg_overall_score'' es)), text_of ''%''],
                  Seq [Txt (percent_js (jprop ''avg_completeness'' es)), text_of ''%''],
                  Seq [Txt (percent_js (jprop ''avg_accuracy'' es)), text_of ''%'']])
         @ methodology_cells content)"

definition actionBadge :: "js \<Rightarrow> string" where
  "actionBadge action =
     (let a = to_lower (text_value (coalesce action (JStr [])))
      in if a = ''allow'' \<or> a = ''allowed'' then ''green''
         else if a = ''block'' \<or> a = ''blocked'' then ''red''
         else if a = ''redact'' \<or> a = ''redacted'' then ''yellow''
         else ''muted'')"

definition or_dash_nullish :: "js \<Rightarrow> cell" where
  "or_dash_nullish v = (if nullish v then Dash else Txt v)"

definition event_time :: "js \<Rightarrow> cell" where
  "event_time q =
     (if truthy (jprop ''created_at'' q) \<or> truthy (jprop ''timestamp'' q)
      then When (coalesce (jprop ''created_at'' q) (jprop ''timestamp'' q)) else Dash)"

definition query_preview :: "js \<Rightarrow> cell" where
  "query_preview query =
     (if nullish query then Dash
      else Seq ([Txt (map_text (take 40) query)]
                @ (if length (text_value query) > 40 then [Dots] else [])))"

definition AIUsageViewer :: "js \<Rightarrow> cell list \<times> cell list list" where
  "AIUsageViewer content =
     (let es = jprop ''executive_summary'' content; risk = jprop ''risk_level'' es;
          rate = jprop ''block_rate_pct'' es
      in (report_header ''AI Usage Report'' content
          @ [Toned (if risk = JStr ''Low'' then ''green'' else if risk = JStr ''Medium'' then ''yellow'' else ''red'')
               (Seq [Txt risk, text_of '' Risk'']),
             Txt (jprop ''total_queries'' es), Txt (jprop ''allowed_queries'' es),
             Txt (jprop ''blocked_queries'' es), Txt (jprop ''redacted_count'' es),
             Seq [Txt (case rate of JNum n \<Rightarrow> JStr (num_fixed 1 n) | _ \<Rightarrow> JUndef), text_of ''%''],
             Bar (JNum (case coalesce rate (JNum (Fin 0)) of JNum n \<Rightarrow> num_min n 100 | _ \<Rightarrow> NaN))]
          @ methodology_cells content,
          map (\<lambda>q. [query_preview (jprop ''query'' q),
                     Toned (actionBadge (jprop ''action'' q)) (or_dash_nullish (jprop ''action'' q)),
                     event_time q])
            (elements (jprop ''recent_queries'' content))))"

definition AuditViewer :: "js \<Rightarrow> cell list \<times> cell list list" where
  "AuditViewer content =
     (let es = jprop ''executive_summary'' content
      in (report_header ''Audit Report'' content
          @ [Txt (jprop ''period'' es), Txt (jprop ''total_events'' es), Txt (jprop ''login_events'' es),
             Txt (jprop ''data_events'' es), Txt (jprop ''policy_events'' es)]
          @ methodology_cells content,
          map (\<lambda>entry. [or_dash_nullish (jprop ''action'' entry), or_dash_nullish (jprop ''resource'' entry),
                         or_dash_nullish (jprop ''ip'' entry), event_time entry])
            (elements (jprop ''audit_log'' content))))"

datatype report_body =
    NoContent
  | ComplianceBody js
  | QualityBody "cell list"
  | AIUsageBody "cell list" "cell list list"
  | AuditBody "cell list" "cell list list"
  | GenericBody js

definition report_label :: "js \<Rightarrow> cell" where
  "report_label report =
     (case find (\<lambda>(value, label, d). JStr value = jprop ''type'' report) REPORT_TYPES of
        Some (value, label, d) \<Rightarrow> text_of label
      | None \<Rightarrow> Seq [Txt (jprop ''type'' report), text_of '' Report''])"

definition report_date :: "js \<Rightarrow> cell" where
  "report_date report = When (js_or (jprop ''generated_at'' report) (jprop ''created_at'' report))"

definition ReportDetailPanel :: "js \<Rightarrow> cell \<times> cell \<times> report_body" where
  "ReportDetailPanel report =
     (let content = jprop ''content'' report; t = jprop ''type'' report
      in (report_label report, report_date report,
          if \<not> truthy content then NoContent
          else if t = JStr ''compliance'' then ComplianceBody content
          else if t = JStr ''quality'' then QualityBody (QualityViewer content)
          else if t = JStr ''ai_usage'' then (case AIUsageViewer content of (h, q) \<Rightarrow> AIUsageBody h q)
          else if t = JStr ''audit'' then (case AuditViewer content of (h, q) \<Rightarrow> AuditBody h q)
          else GenericBody content))"

definition report_status_badge :: "js \<Rightarrow> cell" where
  "report_status_badge status =
     (if status = JStr ''completed'' then Toned ''green'' (text_of ''Completed'')
      else if status = JStr ''generating'' then Toned ''yellow'' (text_of ''Generating'')
      else Toned ''red'' (text_of ''Failed''))"

text \<open>The list: a row of a report, with a button to view it when it is completed.\<close>

definition reportsData :: "js \<Rightarrow> js list" where
  "reportsData reports = elements reports"

definition report_row :: "js \<Rightarrow> cell list" where
  "report_row report =
     [report_label report, report_date report, report_status_badge (jprop ''status'' report)]
     @ (if jprop ''status'' report = JStr ''completed'' then [Btn (OpenRow report) (text_of ''View'')] else [])"

definition reports_count :: "js list \<Rightarrow> string option" where
  "reports_count rs =
     (if length rs > 0 then Some (nat_str (length rs) @ '' report'' @ (if length rs \<noteq> 1 then ''s'' else [])) else None)"

text \<open>The modal: whether it stays open, for the type that is selected.\<close>

definition handleGenerate :: "fe_env \<Rightarrow> string \<Rightarrow> bool \<Rightarrow> fe_state \<Rightarrow> bool \<times> fe_state" where
  "handleGenerate e selected isPending s =
     (if isPending then (True, s)
      else (case run_mutation e useGenerateReport (JObj [(''type'', JStr selected)]) s of
              (Inl err, s') \<Rightarrow> (True, s')
            | (Inr d, s') \<Rightarrow> (False, s')))"

section \<open>Lemmas\<close>

definition lookup_entry :: "string \<Rightarrow> reg_entry list \<Rightarrow> reg_entry option" where
  "lookup_entry n es = find (\<lambda>e. re_name e = n) es"

lemma count_finding_name [simp]: "re_name (count_finding r e) = re_name e"
  by (simp add: count_finding_def)

lemma new_entry_name [simp]: "re_name (new_entry n) = n"
  by (simp add: new_entry_def)

lemma update_entry_names:
  "(\<And>e. re_name (f e) = re_name e) \<Longrightarrow>
   map re_name (update_entry n f es) =
     (if n \<in> re_name ` set es then map re_name es else map re_name es @ [n])"
  by (induction es) auto

lemma update_entry_lookup:
  "(\<And>e. re_name (f e) = re_name e) \<Longrightarrow>
   lookup_entry m (update_entry n f es) =
     (if m = n then Some (f (case lookup_entry n es of Some e \<Rightarrow> e | None \<Rightarrow> new_entry n))
      else lookup_entry m es)"
  by (induction es) (auto simp: lookup_entry_def)

definition distinct_names :: "reg_entry list \<Rightarrow> bool" where
  "distinct_names es \<longleftrightarrow> distinct (map re_name es)"

lemma update_entry_distinct:
  "(\<And>e. re_name (f e) = re_name e) \<Longrightarrow> distinct_names es \<Longrightarrow> distinct_names (update_entry n f es)"
  unfolding distinct_names_def by (subst update_entry_names) auto

text \<open>What a regulation's entry is to be: its findings counted in their order.\<close>

definition findings_for :: "string \<Rightarrow> recommendation list \<Rightarrow> recommendation list" where
  "findings_for n recs =
     filter (\<lambda>r. rc_regulation r \<noteq> [] \<and> regulation_name (rc_regulation r) = n) recs"

definition entry_of :: "recommendation list \<Rightarrow> string \<Rightarrow> reg_entry" where
  "entry_of recs n = fold count_finding (findings_for n recs) (new_entry n)"

lemma fold_count_fields:
  "re_name (fold count_finding rs e) = re_name e"
  "re_findings (fold count_finding rs e) = re_findings e + length rs"
  "re_critical (fold count_finding rs e) =
     re_critical e + length (filter (\<lambda>r. rc_severity r = ''CRITICAL'') rs)"
  "re_high (fold count_finding rs e) = re_high e + length (filter (\<lambda>r. rc_severity r = ''HIGH'') rs)"
  by (induction rs arbitrary: e) (simp_all add: count_finding_def)

lemma entry_of_fields:
  "re_name (entry_of recs n) = n"
  "re_findings (entry_of recs n) = length (findings_for n recs)"
  "re_critical (entry_of recs n) = length (filter (\<lambda>r. rc_severity r = ''CRITICAL'') (findings_for n recs))"
  "re_high (entry_of recs n) = length (filter (\<lambda>r. rc_severity r = ''HIGH'') (findings_for n recs))"
  by (simp_all add: entry_of_def fold_count_fields) (simp_all add: new_entry_def)

lemma recommendations_lookup:
  "distinct_names (fold add_recommendation recs [])
   \<and> (\<forall>n. lookup_entry n (fold add_recommendation recs []) =
          (if findings_for n recs = [] then None else Some (entry_of recs n)))"
proof (induction recs rule: rev_induct)
  case Nil
  show ?case by (simp add: distinct_names_def lookup_entry_def findings_for_def)
next
  case (snoc r recs)
  show ?case
  proof (cases "rc_regulation r = []")
    case True
    then have "findings_for n (recs @ [r]) = findings_for n recs" for n by (simp add: findings_for_def)
    with True snoc show ?thesis by (simp add: add_recommendation_def entry_of_def)
  next
    case False
    let ?n = "regulation_name (rc_regulation r)"
    have more: "findings_for n (recs @ [r]) = findings_for n recs @ (if n = ?n then [r] else [])" for n
      using False by (simp add: findings_for_def)
    have name: "re_name (count_finding r e) = re_name e" for e by simp
    have step: "fold add_recommendation (recs @ [r]) [] =
        update_entry ?n (count_finding r) (fold add_recommendation recs [])"
      using False by (simp add: add_recommendation_def)
    have "lookup_entry n (update_entry ?n (count_finding r) (fold add_recommendation recs [])) =
        (if findings_for n (recs @ [r]) = [] then None else Some (entry_of (recs @ [r]) n))" for n
      using snoc.IH by (subst update_entry_lookup [OF name]) (simp add: more entry_of_def)
    moreover have "distinct_names (fold add_recommendation (recs @ [r]) [])"
      unfolding step using snoc.IH by (intro update_entry_distinct [OF name]) simp
    ultimately show ?thesis by (simp only: step simp_thms)
  qed
qed

lemma ensure_lookup:
  "lookup_entry m (fold (\<lambda>n. update_entry n (\<lambda>e. e)) ns es) =
     (if m \<in> set ns then Some (case lookup_entry m es of Some e \<Rightarrow> e | None \<Rightarrow> new_entry m)
      else lookup_entry m es)"
  by (induction ns arbitrary: es) (auto simp: update_entry_lookup split: option.split)

lemma ensure_distinct:
  "distinct_names es \<Longrightarrow> distinct_names (fold (\<lambda>n. update_entry n (\<lambda>e. e)) ns es)"
  by (induction ns arbitrary: es) (simp_all add: update_entry_distinct)

lemma regulation_entries_spec:
  "distinct_names (regulation_entries recs)"
  "n \<in> set majorRegulations \<Longrightarrow> entry_of recs n \<in> set (regulation_entries recs)"
proof -
  show "distinct_names (regulation_entries recs)"
    unfolding regulation_entries_def using recommendations_lookup by (blast intro: ensure_distinct)
  assume n: "n \<in> set majorRegulations"
  have "lookup_entry n (regulation_entries recs) = Some (entry_of recs n)"
    using n recommendations_lookup [of recs]
    by (simp add: regulation_entries_def ensure_lookup entry_of_def)
  then show "entry_of recs n \<in> set (regulation_entries recs)"
    unfolding lookup_entry_def find_Some_iff by (metis nth_mem)
qed

lemma entry_json_name [simp]: "jprop ''name'' (entry_json ts pol e) = JStr (re_name e)"
  by (simp add: entry_json_def split: prod.split)

lemma frameworks_major: "set ALL_FRAMEWORKS = set majorRegulations"
  by (auto simp: ALL_FRAMEWORKS_def majorRegulations_def)

lemma severity_groups_spec:
  "map (\<lambda>(sev, color, n, fs). (sev, n)) (severity_groups c findings) =
     filter (\<lambda>(sev, n). n > 0)
       (map (\<lambda>sev. (sev, length (filter (\<lambda>f. jprop ''severity'' f = JStr sev) findings))) severities)"
  by (simp add: severity_groups_def findingsBySeverity_def comp_def case_prod_unfold filter_map)

section \<open>Properties\<close>

text \<open>
  C14. The report shows, for each of the seven regulations, exactly the entry that counts the server's
  findings for it, in whatever order the server lists its map; regulations of other names are left out.
\<close>

theorem report_shows_regulations:
  assumes "mset regs = mset (map (entry_json types pol) (regulation_entries recs))"
    and "jprop ''regulations'' content = JArr regs"
  shows "merged_regulations content = map (\<lambda>n. entry_json types pol (entry_of recs n)) ALL_FRAMEWORKS"
proof -
  let ?m = "apiRegMap content"
  have m: "?m = rev (map (\<lambda>r. (jprop ''name'' r, r)) regs)"
    using assms(2) by (simp add: apiRegMap_def js_or_def)
  have "mset (map (jprop ''name'') regs) = mset (map (JStr \<circ> re_name) (regulation_entries recs))"
    using arg_cong [OF assms(1), of "image_mset (jprop ''name'')"] by (simp add: comp_def image_mset.compositionality)
  moreover have "distinct (map (JStr \<circ> re_name) (regulation_entries recs))"
    using regulation_entries_spec(1) by (auto simp: distinct_names_def distinct_map inj_on_def)
  ultimately have "distinct (map (jprop ''name'') regs)" by (metis mset_eq_imp_distinct_iff)
  then have dist: "distinct (map fst ?m)" by (simp add: m rev_map [symmetric] comp_def)
  have "map_of ?m (JStr n) = Some (entry_json types pol (entry_of recs n))" if "n \<in> set ALL_FRAMEWORKS" for n
  proof (rule map_of_is_SomeI [OF dist])
    have "entry_json types pol (entry_of recs n) \<in> set (map (entry_json types pol) (regulation_entries recs))"
      using that frameworks_major regulation_entries_spec(2) by simp
    also have "\<dots> = set regs" using assms(1) by (metis set_mset_mset)
    finally show "(JStr n, entry_json types pol (entry_of recs n)) \<in> set ?m"
      by (auto simp: m image_iff entry_of_fields)
  qed
  then show ?thesis by (simp add: merged_regulations_def)
qed

definition ex_recs :: "recommendation list" where
  "ex_recs =
     [\<lparr>rc_severity = ''CRITICAL'', rc_regulation = ''HIPAA, PCI-DSS, GDPR Art. 9'', rc_article = []\<rparr>]"

theorem report_shows_regulations_witness:
  "merged_regulations (JObj [(''regulations'',
       JArr (rev (map (entry_json [''SSN''] True) (regulation_entries ex_recs))))]) =
     map (\<lambda>n. entry_json [''SSN''] True (entry_of ex_recs n)) ALL_FRAMEWORKS"
  by (rule report_shows_regulations [OF _ refl [THEN trans]]) simp_all

text \<open>
  When entities were found and policies are configured, a regulation with findings is shown as
  compliant exactly when its critical and high findings cost at most twenty points: one critical
  finding leaves it compliant, and findings of other severities never count.
\<close>

theorem compliant_with_findings:
  assumes "types \<noteq> []" and "findings_for n recs \<noteq> []"
  shows "regulation_tone (jprop ''status'' (entry_json types True (entry_of recs n))) = ''green'' \<longleftrightarrow>
    15 * length (filter (\<lambda>r. rc_severity r = ''CRITICAL'') (findings_for n recs))
    + 10 * length (filter (\<lambda>r. rc_severity r = ''HIGH'') (findings_for n recs)) \<le> 20"
proof -
  let ?e = "entry_of recs n"
  have status: "jprop ''status'' (entry_json types True ?e) = JStr (snd (regulation_score types True ?e))"
    by (simp add: entry_json_def split: prod.split)
  have some: "re_findings ?e \<noteq> 0" using assms(2) by (simp add: entry_of_fields)
  have score: "snd (regulation_score types True ?e) =
      (let score = max 0 (100 - int (re_critical ?e) * 15 - int (re_high ?e) * 10)
       in if score < 50 then ''Non-Compliant'' else if score < 80 then ''Partially Compliant'' else ''Compliant'')"
    using assms(1) some by (simp add: regulation_score_def Let_def)
  have "regulation_tone (JStr (snd (regulation_score types True ?e))) = ''green'' \<longleftrightarrow>
      15 * re_critical ?e + 10 * re_high ?e \<le> 20"
    unfolding score by (simp add: regulation_tone_def status_tone_def Let_def max_def)
  then show ?thesis unfolding status by (simp add: entry_of_fields)
qed

theorem compliant_with_findings_witness:
  "regulation_tone (jprop ''status'' (entry_json [''SSN''] True (entry_of ex_recs ''HIPAA''))) = ''green''"
proof -
  have "findings_for ''HIPAA'' ex_recs = ex_recs"
    by (simp add: findings_for_def ex_recs_def regulation_name_def)
  then show ?thesis
    using compliant_with_findings [of "[''SSN'']" "''HIPAA''" ex_recs] by (simp add: ex_recs_def)
qed

end
