(* ===== verification/FeGovern.thy ===== *)
theory FeGovern
  imports GoLib
begin

text \<open>
  Governance policies: the pages that create, edit and try them (\<open>app/(app)/governance\<close>) together
  with the handlers of the server (\<open>src/internal/api/policy.go\<close>) and the function of the gate that asks
  them (\<open>shouldRedact\<close> in \<open>src/internal/api/gate.go\<close>).

  The server keeps the policies newest first, as it lists them; its database is taken as reachable,
  and the times of policies are left out. The patterns of the classification are regular expressions
  with validators: of each the model has its matches, as a function of the text.
\<close>

section \<open>The server's policies\<close>

record policy =
  pl_id :: string
  pl_tenant :: string
  pl_name :: string
  pl_description :: string
  pl_type :: string
  pl_conditions :: "js option"
  pl_actions :: "js option"
  pl_regulations :: "js option"
  pl_active :: bool
  pl_priority :: int

record policy_server =
  ps_policies :: "policy list"
  ps_audit :: "(string \<times> string \<times> string) list"

datatype policy_response =
  PolicyBad | PolicyMissing | PolicyFailed | PolicyCreated policy | PolicyAnswer policy
  | PolicyList "policy list" | PolicyDeleted

text \<open>\<open>pkg.Bind\<close> into a \<open>store.Policy\<close>, with its validation\<close>

definition bind_policy :: "js \<Rightarrow> policy option" where
  "bind_policy body =
     (case (go_string (jprop ''id'' body), go_string (jprop ''name'' body),
            go_string (jprop ''description'' body), go_string (jprop ''type'' body),
            go_bool (jprop ''active'' body), go_int (jprop ''priority'' body)) of
        (Some i, Some name, Some description, Some type, Some active, Some priority) \<Rightarrow>
          (if name = [] \<or> type \<notin> {''access'', ''redaction'', ''ai'', ''retention''} then None
           else Some \<lparr>pl_id = i, pl_tenant = [], pl_name = name, pl_description = description,
                      pl_type = type, pl_conditions = go_json (jprop ''conditions'' body),
                      pl_actions = go_json (jprop ''actions'' body),
                      pl_regulations = go_json (jprop ''regulations'' body),
                      pl_active = active, pl_priority = priority\<rparr>)
      | _ \<Rightarrow> None)"

definition find_policy :: "string \<Rightarrow> string \<Rightarrow> policy_server \<Rightarrow> policy option" where
  "find_policy tenant i s = find (\<lambda>p. pl_tenant p = tenant \<and> pl_id p = i) (ps_policies s)"

definition policy_audit :: "string \<Rightarrow> string \<Rightarrow> string \<Rightarrow> policy_server \<Rightarrow> policy_server" where
  "policy_audit tenant action i s = s\<lparr>ps_audit := ps_audit s @ [(tenant, action, i)]\<rparr>"

definition listPolicies :: "string \<Rightarrow> nat \<Rightarrow> nat \<Rightarrow> policy_server \<Rightarrow> policy list" where
  "listPolicies tenant n offset s =
     take n (drop offset (filter (\<lambda>p. pl_tenant p = tenant) (ps_policies s)))"

text \<open>A name that is too long and a priority out of the range of its column are refused by the database.\<close>

definition policy_fits :: "policy \<Rightarrow> bool" where
  "policy_fits p \<longleftrightarrow> length (pl_name p) \<le> 255 \<and> - (2 ^ 31) \<le> pl_priority p \<and> pl_priority p < 2 ^ 31"

text \<open>A new id is given to a policy that comes without; an id that is taken is refused as well.\<close>

definition createPolicy ::
  "string \<Rightarrow> string \<Rightarrow> js \<Rightarrow> policy_server \<Rightarrow> policy_response \<times> policy_server" where
  "createPolicy new_id tenant body s =
     (case bind_policy body of
        None \<Rightarrow> (PolicyBad, s)
      | Some req \<Rightarrow>
          (let p = req\<lparr>pl_tenant := tenant, pl_active := True,
                       pl_id := (if pl_id req = [] then new_id else pl_id req)\<rparr>
           in if pl_id p \<in> pl_id ` set (ps_policies s) \<or> \<not> policy_fits p then (PolicyFailed, s)
              else (PolicyCreated p,
                    policy_audit tenant ''policy.created'' (pl_id p)
                      (s\<lparr>ps_policies := p # ps_policies s\<rparr>))))"

definition getPolicy :: "string \<Rightarrow> string \<Rightarrow> policy_server \<Rightarrow> policy_response" where
  "getPolicy tenant i s =
     (case find_policy tenant i s of None \<Rightarrow> PolicyMissing | Some p \<Rightarrow> PolicyAnswer p)"

definition updatePolicy ::
  "string \<Rightarrow> string \<Rightarrow> js \<Rightarrow> policy_server \<Rightarrow> policy_response \<times> policy_server" where
  "updatePolicy tenant i body s =
     (case find_policy tenant i s of
        None \<Rightarrow> (PolicyMissing, s)
      | Some p \<Rightarrow>
          (case bind_policy body of
             None \<Rightarrow> (PolicyBad, s)
           | Some req \<Rightarrow>
               (let p' = p\<lparr>pl_name := pl_name req, pl_description := pl_description req,
                           pl_conditions := pl_conditions req, pl_actions := pl_actions req,
                           pl_regulations := pl_regulations req, pl_active := pl_active req,
                           pl_priority := pl_priority req\<rparr>
                in if \<not> policy_fits p' then (PolicyFailed, s)
                   else (PolicyAnswer p',
                    policy_audit tenant ''policy.updated'' i
                      (s\<lparr>ps_policies := map (\<lambda>q. if pl_tenant q = tenant \<and> pl_id q = i then p' else q)
                                           (ps_policies s)\<rparr>)))))"

definition deletePolicy :: "string \<Rightarrow> string \<Rightarrow> policy_server \<Rightarrow> policy_response \<times> policy_server" where
  "deletePolicy tenant i s =
     (PolicyDeleted,
      policy_audit tenant ''policy.deleted'' i
        (s\<lparr>ps_policies := filter (\<lambda>q. \<not> (pl_tenant q = tenant \<and> pl_id q = i)) (ps_policies s)\<rparr>))"

definition policy_json :: "policy \<Rightarrow> js" where
  "policy_json p =
     (let column = (\<lambda>c. case c of None \<Rightarrow> JNull | Some v \<Rightarrow> v)
      in JObj [(''id'', JStr (pl_id p)), (''name'', JStr (pl_name p)),
               (''description'', JStr (pl_description p)), (''type'', JStr (pl_type p)),
               (''conditions'', column (pl_conditions p)), (''actions'', column (pl_actions p)),
               (''regulations'', column (pl_regulations p)), (''active'', JBool (pl_active p)),
               (''priority'', JNum (Fin (of_int (pl_priority p))))])"

section \<open>The gate\<close>

text \<open>
  \<open>json.Unmarshal\<close> into the conditions, of which the gate uses the classes of data, and into the
  action: \<open>None\<close> when it fails, as it does on an empty column.
\<close>

fun unmarshal_conditions :: "js option \<Rightarrow> string list option" where
  "unmarshal_conditions (Some JNull) = Some []"
| "unmarshal_conditions (Some (JObj fs)) =
     (if list_ex (\<lambda>k. go_strings (go_field k fs) = None)
           [''data_classification'', ''source_type'', ''destination_type'', ''user_role'', ''label'']
      then None else go_strings (go_field ''data_classification'' fs))"
| "unmarshal_conditions v = None"

fun unmarshal_action :: "js option \<Rightarrow> string option" where
  "unmarshal_action (Some JNull) = Some []"
| "unmarshal_action (Some (JObj fs)) =
     (if go_string (go_field ''redaction_strategy'' fs) = None
         \<or> go_bool (go_field ''notify_on_violation'' fs) = None
      then None else go_string (go_field ''action'' fs))"
| "unmarshal_action v = None"

definition sensitiveTypes :: "string list" where
  "sensitiveTypes =
     [''SSN'', ''CREDIT_CARD'', ''BANK_ACCOUNT'', ''PHI'', ''HEALTH_RECORD'', ''GENETIC_DATA'',
      ''PASSPORT'', ''DRIVER_LICENSE'']"

definition demands_redaction :: "string \<Rightarrow> policy \<Rightarrow> bool" where
  "demands_redaction entityType p \<longleftrightarrow>
     (if \<not> pl_active p \<or> (pl_type p \<noteq> ''redaction'' \<and> pl_type p \<noteq> ''ai'') then False
      else (case unmarshal_conditions (pl_conditions p) of
              None \<Rightarrow> False
            | Some classes \<Rightarrow>
                (case unmarshal_action (pl_actions p) of
                   None \<Rightarrow> False
                 | Some action \<Rightarrow>
                     list_ex (\<lambda>dc. (dc = entityType \<or> dc = ''*'')
                                   \<and> (action = ''redact'' \<or> action = ''deny'')) classes)))"

definition shouldRedact :: "string \<Rightarrow> policy list \<Rightarrow> bool" where
  "shouldRedact entityType policies \<longleftrightarrow>
     list_ex (demands_redaction entityType) policies \<or> entityType \<in> set sensitiveTypes"

text \<open>The label of what was found.\<close>

definition determineSensitivity :: "string list \<Rightarrow> policy list \<Rightarrow> string" where
  "determineSensitivity classifications policies =
     (if list_ex (\<lambda>c. c \<in> set sensitiveTypes) classifications then ''HIGHLY_CONFIDENTIAL''
      else if list_ex (\<lambda>p. (pl_type p = ''ai'' \<or> pl_type p = ''redaction'')
                \<and> (case unmarshal_conditions (pl_conditions p) of
                     None \<Rightarrow> False
                   | Some classes \<Rightarrow>
                       list_ex (\<lambda>dc. list_ex (\<lambda>c. dc = c \<or> dc = ''*'') classifications) classes))
              policies
      then ''CONFIDENTIAL''
      else if classifications \<noteq> [] then ''INTERNAL'' else ''PUBLIC'')"

section \<open>The evaluation\<close>

text \<open>
  A pattern of \<open>piiPatterns\<close>: its type, confidence, what its validator says (\<open>None\<close>: it has none)
  and the ranges it matches. The map is iterated in an order of its own, here that of the list.
\<close>

record pii_pattern =
  pp_type :: string
  pp_confidence :: rat
  pp_validator :: "string \<Rightarrow> bool option"
  pp_matches :: "string \<Rightarrow> (nat \<times> nat) list"

definition slice :: "nat \<Rightarrow> nat \<Rightarrow> string \<Rightarrow> string" where
  "slice i j s = take (j - i) (drop i s)"

definition match_result :: "pii_pattern \<Rightarrow> string \<Rightarrow> nat \<times> nat \<Rightarrow> js list" where
  "match_result p txt m =
     (let value = slice (fst m) (snd m) txt;
          confidence = (if pp_validator p value = Some False then pp_confidence p * (1 / 2)
                        else pp_confidence p)
      in if confidence < 1 / 2 then []
         else [JObj [(''entity'', JStr (pp_type p)), (''value'', JStr value),
                     (''confidence'', JNum (Fin confidence)),
                     (''start'', JNum (num_of_nat (fst m))), (''end'', JNum (num_of_nat (snd m)))]])"

definition runBasicClassification :: "pii_pattern list \<Rightarrow> string \<Rightarrow> js list" where
  "runBasicClassification patterns txt =
     concat (map (\<lambda>p. concat (map (match_result p txt) (pp_matches p txt))) patterns)"

definition highRisk :: "string list" where
  "highRisk =
     [''SSN'', ''CREDIT_CARD'', ''CREDIT_CARD_FORMATTED'', ''PASSPORT'', ''DRIVER_LICENSE'',
      ''BANK_ACCOUNT'', ''IBAN'', ''MEDICAL_RECORD'', ''HEALTH_INSURANCE_ID'']"

definition maskValue :: "string \<Rightarrow> string \<Rightarrow> string" where
  "maskValue value entityType =
     (let masked = take 2 value @ replicate (length value - 4) (CHR ''*'') @ slice_last 2 value;
          clean = filter (\<lambda>c. c \<noteq> CHR ''-'' \<and> c \<noteq> CHR '' '') value
      in if length value \<le> 4 then ''****''
         else if entityType = ''EMAIL''
         then (case split_on (CHR ''@'') value of
                 [a, b] \<Rightarrow> take 3 a @ ''***@'' @ b
               | _ \<Rightarrow> masked)
         else if entityType = ''SSN'' then ''***-**-'' @ slice_last 4 value
         else if (entityType = ''CREDIT_CARD'' \<or> entityType = ''CREDIT_CARD_FORMATTED'')
                 \<and> length clean \<ge> 4
         then ''****-****-****-'' @ slice_last 4 clean
         else if entityType = ''PHONE'' then ''***-***-'' @ slice_last 4 value
         else masked)"

record redaction =
  rd_start :: int
  rd_end :: int
  rd_type :: string
  rd_masked :: string

record evaluation =
  ev_decision :: string
  ev_applied :: "string list"
  ev_redactions :: "redaction list"
  ev_violations :: "(string \<times> string \<times> string) list"
  ev_data :: string

text \<open>A type assertion whose failure gives the empty value.\<close>

fun assert_int :: "js \<Rightarrow> int" where
  "assert_int (JNum (Fin q)) = \<lfloor>q\<rfloor>"
| "assert_int v = 0"

definition redaction_of :: "js \<Rightarrow> redaction" where
  "redaction_of r =
     (let entityType = text_value (jprop ''entity_type'' r)
      in \<lparr>rd_start = assert_int (jprop ''start'' r), rd_end = assert_int (jprop ''end'' r),
          rd_type = entityType, rd_masked = maskValue (text_value (jprop ''value'' r)) entityType\<rparr>)"

definition apply_redaction :: "js \<Rightarrow> evaluation \<Rightarrow> evaluation" where
  "apply_redaction r ev =
     (let d = redaction_of r; s = nat (rd_start d); e = nat (rd_end d)
      in ev\<lparr>ev_redactions := ev_redactions ev @ [d],
            ev_data := (if rd_start d \<ge> 0 \<and> rd_end d \<le> int (length (ev_data ev)) \<and> rd_start d < rd_end d
                        then take s (ev_data ev) @ rd_masked d @ drop e (ev_data ev)
                        else ev_data ev)\<rparr>)"

definition detectedTypes :: "js list \<Rightarrow> string list" where
  "detectedTypes results =
     remdups (concat (map (\<lambda>r. case jprop ''entity_type'' r of JStr t \<Rightarrow> [t] | _ \<Rightarrow> []) results))"

definition violations_of ::
  "policy \<Rightarrow> (string \<Rightarrow> string) \<Rightarrow> js list \<Rightarrow> (string \<times> string \<times> string) list" where
  "violations_of p why results =
     map (\<lambda>t. (pl_id p, pl_name p, why t)) (filter (\<lambda>t. t \<in> set highRisk) (detectedTypes results))"

definition evaluate_one :: "js list \<Rightarrow> policy \<Rightarrow> evaluation \<Rightarrow> evaluation" where
  "evaluate_one results p ev =
     (let applied = ev_applied ev @ [pl_name p]
      in if \<not> pl_active p then ev
         else if pl_type p = ''access''
         then (let vs = violations_of p (\<lambda>t. ''High-risk PII detected: '' @ t) results
               in ev\<lparr>ev_violations := ev_violations ev @ vs,
                     ev_decision := (if vs = [] then ev_decision ev else ''deny''),
                     ev_applied := applied\<rparr>)
         else if pl_type p = ''redaction''
         then (let ev' = fold apply_redaction results ev
               in ev'\<lparr>ev_decision := (if ev_redactions ev' = [] then ev_decision ev' else ''redact''),
                      ev_applied := applied\<rparr>)
         else if pl_type p = ''ai''
         then ev\<lparr>ev_violations :=
                     ev_violations ev @ violations_of p (\<lambda>t. ''AI policy blocks '' @ t @ '' from LLM access'') results,
                 ev_applied := applied\<rparr>
         else if pl_type p = ''retention'' then ev\<lparr>ev_applied := applied\<rparr>
         else ev)"

definition evaluate_policies :: "js list \<Rightarrow> policy list \<Rightarrow> string \<Rightarrow> evaluation" where
  "evaluate_policies results policies txt =
     (let ev = fold (evaluate_one results) policies
                 \<lparr>ev_decision = ''allow'', ev_applied = [], ev_redactions = [], ev_violations = [],
                  ev_data = txt\<rparr>
      in if ev_applied ev = [] \<and> results \<noteq> []
         then (fold apply_redaction results (ev\<lparr>ev_decision := ''redact''\<rparr>))
                \<lparr>ev_applied := [''Default PII Protection'']\<rparr>
         else ev)"

definition evaluation_json :: "evaluation \<Rightarrow> js" where
  "evaluation_json ev =
     JObj ([(''decision'', JStr (ev_decision ev)),
            (''applied_policies'', JArr (map JStr (ev_applied ev)))]
           @ (if ev_redactions ev \<noteq> [] \<and> ev_data ev \<noteq> []
              then [(''redacted_data'', JStr (ev_data ev))] else []))"

definition evaluatePolicy ::
  "pii_pattern list \<Rightarrow> string \<Rightarrow> js \<Rightarrow> policy_server \<Rightarrow> evaluation option" where
  "evaluatePolicy patterns tenant body s =
     map_option
       (\<lambda>txt. evaluate_policies (runBasicClassification patterns txt) (listPolicies tenant 100 0 s) txt)
       (go_string (jprop ''data'' body))"

section \<open>The pages\<close>

text \<open>\<open>governance/policies/[id]\<close>\<close>

record policy_form =
  pf_name :: js
  pf_description :: js
  pf_type :: js
  pf_active :: js
  pf_priority :: js

record policy_page =
  pg_isEditing :: bool
  pg_form :: policy_form
  pg_deleteDialogOpen :: bool

definition initial_policy_page :: policy_page where
  "initial_policy_page =
     \<lparr>pg_isEditing = False,
      pg_form = \<lparr>pf_name = JStr [], pf_description = JStr [], pf_type = JStr ''access'',
                 pf_active = JBool True, pf_priority = JNum (Fin 1)\<rparr>,
      pg_deleteDialogOpen = False\<rparr>"

definition startEdit :: "js \<Rightarrow> policy_page \<Rightarrow> policy_page" where
  "startEdit p pg =
     (if truthy p
      then pg\<lparr>pg_form := \<lparr>pf_name = jprop ''name'' p,
                          pf_description = js_or (jprop ''description'' p) (JStr []),
                          pf_type = jprop ''type'' p, pf_active = jprop ''active'' p,
                          pf_priority = jprop ''priority'' p\<rparr>,
              pg_isEditing := True\<rparr>
      else pg)"

definition cancelEdit :: "policy_page \<Rightarrow> policy_page" where
  "cancelEdit pg = pg\<lparr>pg_isEditing := False\<rparr>"

datatype policy_change =
  PolicyName string | PolicyType string | PolicyPriority string | PolicyActive | PolicyDescription string

text \<open>\<open>parseInt(e.target.value) || 1\<close>\<close>

fun policy_edit :: "policy_change \<Rightarrow> policy_form \<Rightarrow> policy_form" where
  "policy_edit (PolicyName t) f = f\<lparr>pf_name := JStr t\<rparr>"
| "policy_edit (PolicyType t) f = f\<lparr>pf_type := JStr t\<rparr>"
| "policy_edit (PolicyPriority t) f = f\<lparr>pf_priority := js_or (JNum (parse_int t)) (JNum (Fin 1))\<rparr>"
| "policy_edit PolicyActive f = f\<lparr>pf_active := JBool (\<not> truthy (pf_active f))\<rparr>"
| "policy_edit (PolicyDescription t) f = f\<lparr>pf_description := JStr t\<rparr>"

definition policy_form_json :: "policy_form \<Rightarrow> js" where
  "policy_form_json f =
     JObj [(''name'', pf_name f), (''description'', pf_description f), (''type'', pf_type f),
           (''active'', pf_active f), (''priority'', pf_priority f)]"

definition handleSave ::
  "fe_env \<Rightarrow> string \<Rightarrow> policy_page \<times> fe_state \<Rightarrow> policy_page \<times> fe_state" where
  "handleSave e i ps =
     (case ps of (pg, s) \<Rightarrow>
        (case run_mutation e useUpdatePolicy (i, policy_form_json (pg_form pg)) s of
           (Inl err, s') \<Rightarrow> (pg, s')
         | (Inr d, s') \<Rightarrow> (pg\<lparr>pg_isEditing := False\<rparr>, s')))"

definition policy_handleDelete :: "fe_env \<Rightarrow> string \<Rightarrow> fe_state \<Rightarrow> fe_state" where
  "policy_handleDelete e i s =
     (case run_mutation e useDeletePolicy i s of
        (Inl err, s') \<Rightarrow> s'
      | (Inr d, s') \<Rightarrow> navigate (Push ''/governance/policies'') s')"

text \<open>What the page shows of a policy: the cards of the columns that are not empty.\<close>

fun has_keys :: "js \<Rightarrow> bool" where
  "has_keys (JObj fs) = (fs \<noteq> [])"
| "has_keys (JArr xs) = (xs \<noteq> [])"
| "has_keys (JStr s) = (s \<noteq> [])"
| "has_keys v = False"

definition policy_cards :: "js \<Rightarrow> (string \<times> js) list" where
  "policy_cards p =
     (if has_keys (jprop ''conditions'' p) then [(''Conditions'', jprop ''conditions'' p)] else [])
     @ (if has_keys (jprop ''actions'' p) then [(''Actions'', jprop ''actions'' p)] else [])
     @ (case jprop ''regulations'' p of JArr (r # rs) \<Rightarrow> [(''Regulations'', JArr (r # rs))] | _ \<Rightarrow> [])"

text \<open>
  \<open>governance/policies/new\<close>: the input of the priority has a number, or NaN when it is empty; the
  checkbox has a value always, so the defaults of the schema never apply.
\<close>

definition policyTypes :: "(string \<times> string) list" where
  "policyTypes =
     [(''access'', ''Access Control''), (''redaction'', ''Redaction''), (''ai'', ''AI Governance''),
      (''retention'', ''Retention'')]"

record new_policy_form =
  np_name :: string
  np_description :: string
  np_type :: string
  np_active :: bool
  np_priority :: jsnum
  np_regulations :: string

definition initial_new_policy :: new_policy_form where
  "initial_new_policy =
     \<lparr>np_name = [], np_description = [], np_type = ''access'', np_active = True,
      np_priority = Fin 100, np_regulations = []\<rparr>"

definition policySchema :: "new_policy_form \<Rightarrow> string list" where
  "policySchema f =
     (if np_name f = [] then [''name''] else [])
     @ (if np_type f \<in> {''access'', ''redaction'', ''ai'', ''retention''} then [] else [''type''])
     @ (if num_le (Fin 1) (np_priority f) \<and> num_le (np_priority f) (Fin 1000) then []
        else [''priority''])"

definition new_policy_json :: "new_policy_form \<Rightarrow> js" where
  "new_policy_json f =
     JObj [(''name'', JStr (np_name f)), (''description'', JStr (np_description f)),
           (''type'', JStr (np_type f)), (''active'', JBool (np_active f)),
           (''priority'', JNum (np_priority f)),
           (''regulations'',
              if np_regulations f = [] then JUndef
              else JArr (map (\<lambda>r. JStr (trim r)) (split_on (CHR '','') (np_regulations f))))]"

definition submit_policy :: "fe_env \<Rightarrow> new_policy_form \<Rightarrow> fe_state \<Rightarrow> fe_state" where
  "submit_policy e f s =
     (if policySchema f \<noteq> [] then s
      else (case run_mutation e useCreatePolicy (new_policy_json f) s of
              (Inl err, s') \<Rightarrow> s'
            | (Inr d, s') \<Rightarrow> navigate (Push ''/governance/policies'') s'))"

text \<open>\<open>governance/evaluate\<close>\<close>

definition handleEvaluate :: "fe_env \<Rightarrow> string \<Rightarrow> fe_state \<Rightarrow> js \<times> fe_state" where
  "handleEvaluate e testData s =
     (if trim testData = [] then (JUndef, s)
      else (case run_mutation e useEvaluatePolicy (JObj [(''data'', JStr testData)]) s of
              (Inl err, s') \<Rightarrow> (JUndef, s')
            | (Inr d, s') \<Rightarrow> (d, s')))"

definition evaluation_view :: "js \<Rightarrow> (string \<times> js list \<times> js) option" where
  "evaluation_view d =
     (if \<not> truthy d then None
      else Some
        (if jprop ''decision'' d = JStr ''allow'' then ''Allowed''
         else if jprop ''decision'' d = JStr ''deny'' then ''Denied''
         else ''Redacted'',
         elements (jprop ''applied_policies'' d), jprop ''redacted_data'' d))"

text \<open>\<open>governance\<close>\<close>

record governance_stats =
  gs_active :: nat
  gs_total :: nat
  gs_score :: jsnum
  gs_gaps :: nat
  gs_evaluations :: js

definition governance_stats_of :: "js \<Rightarrow> js \<Rightarrow> js \<Rightarrow> js \<Rightarrow> governance_stats" where
  "governance_stats_of policies riskScore gaps govStats =
     \<lparr>gs_active = length (filter (\<lambda>p. truthy (jprop ''active'' p)) (elements policies)),
      gs_total = length (elements policies),
      gs_score = (case jprop ''overall_score'' riskScore of
                    JNum n \<Rightarrow> (if truthy (JNum n) then num_round (num_scale 100 n) else Fin 0)
                  | _ \<Rightarrow> Fin 0),
      gs_gaps = length (filter (\<lambda>g. jprop ''status'' g \<noteq> JStr ''resolved'') (elements gaps)),
      gs_evaluations = coalesce (jprop ''evaluations_24h'' govStats) (JNum (Fin 0))\<rparr>"

definition stat_of :: "string \<Rightarrow> string \<Rightarrow> js \<Rightarrow> js \<Rightarrow> stat_card" where
  "stat_of label value change note =
     \<lparr>sc_label = JStr label, sc_title = JUndef, sc_value = JStr value, sc_change = change,
      sc_changeLabel = note, sc_trend = None\<rparr>"

definition governance_cards :: "conversions \<Rightarrow> governance_stats \<Rightarrow> stat_card list" where
  "governance_cards cv g =
     (let good = num_le (Fin 80) (gs_score g)
      in [stat_of ''Active Policies'' (nat_str (gs_active g) @ ''/'' @ nat_str (gs_total g)) JUndef JUndef,
          stat_of ''Compliance Score'' (to_str cv (JNum (gs_score g)) @ ''%'')
            (JNum (Fin (if good then 1 else - 1)))
            (JStr (if good then ''healthy'' else ''needs attention'')),
          stat_of ''Open Gaps'' (nat_str (gs_gaps g)) JUndef JUndef,
          stat_of ''Policy Evaluations''
            (if js_lt cv (JNum (Fin 0)) (gs_evaluations g) then to_str cv (gs_evaluations g) else ''Active'')
            JUndef (JStr ''last 24h'')])"

definition recent_policies :: "js list \<Rightarrow> js list" where
  "recent_policies policies = take 5 policies"

section \<open>What an evaluation decides\<close>

text \<open>The results have the type under the name \<open>entity\<close>; the evaluation reads \<open>entity_type\<close>.\<close>

lemma run_results:
  assumes "r \<in> set (runBasicClassification patterns txt)"
  obtains p m where "p \<in> set patterns" "m \<in> set (pp_matches p txt)" "r \<in> set (match_result p txt m)"
  using assms by (auto simp: runBasicClassification_def)

lemma no_entity_type: "r \<in> set (runBasicClassification patterns txt) \<Longrightarrow> jprop ''entity_type'' r = JUndef"
  by (elim run_results) (auto simp: match_result_def Let_def split: if_splits)

lemma no_detected_types [simp]: "detectedTypes (runBasicClassification patterns txt) = []"
proof -
  have "(case jprop ''entity_type'' r of JStr t \<Rightarrow> [t] | _ \<Rightarrow> []) = []"
    if "r \<in> set (runBasicClassification patterns txt)" for r
    using no_entity_type [OF that] by simp
  then have "concat (map (\<lambda>r. case jprop ''entity_type'' r of JStr t \<Rightarrow> [t] | _ \<Rightarrow> [])
      (runBasicClassification patterns txt)) = []" by simp
  then show ?thesis unfolding detectedTypes_def by (metis remdups.simps(1))
qed

lemma no_violations: "detectedTypes results = [] \<Longrightarrow> violations_of p why results = []"
  by (simp add: violations_of_def)

lemma no_results [simp]: "violations_of p why [] = []"
  by (simp add: violations_of_def detectedTypes_def)

definition redacting :: "policy \<Rightarrow> bool" where
  "redacting p \<longleftrightarrow> pl_active p \<and> pl_type p = ''redaction''"

definition applies :: "policy \<Rightarrow> bool" where
  "applies p \<longleftrightarrow> pl_active p \<and> pl_type p \<in> {''access'', ''redaction'', ''ai'', ''retention''}"

lemma apply_redaction_fields [simp]:
  "ev_decision (apply_redaction r ev) = ev_decision ev"
  "ev_applied (apply_redaction r ev) = ev_applied ev"
  "ev_violations (apply_redaction r ev) = ev_violations ev"
  "ev_redactions (apply_redaction r ev) = ev_redactions ev @ [redaction_of r]"
  by (simp_all add: apply_redaction_def Let_def)

lemma apply_redactions_fields [simp]:
  "ev_decision (fold apply_redaction rs ev) = ev_decision ev"
  "ev_applied (fold apply_redaction rs ev) = ev_applied ev"
  "ev_violations (fold apply_redaction rs ev) = ev_violations ev"
  "ev_redactions (fold apply_redaction rs ev) = ev_redactions ev @ map redaction_of rs"
  by (induction rs arbitrary: ev) simp_all

text \<open>One policy, when nothing is detected\<close>

lemma evaluate_one_fields:
  assumes "detectedTypes results = []"
  shows "ev_violations (evaluate_one results p ev) = ev_violations ev"
    and "ev_applied (evaluate_one results p ev) = ev_applied ev @ (if applies p then [pl_name p] else [])"
    and "ev_redactions (evaluate_one results p ev) =
           ev_redactions ev @ (if redacting p then map redaction_of results else [])"
    and "ev_decision (evaluate_one results p ev) =
           (if redacting p \<and> ev_redactions (evaluate_one results p ev) \<noteq> [] then ''redact'' else ev_decision ev)"
    and "ev_data (evaluate_one results p ev) =
           (if redacting p then ev_data (fold apply_redaction results ev) else ev_data ev)"
  by (simp_all add: evaluate_one_def no_violations [OF assms] applies_def redacting_def Let_def)

lemma evaluate_fold_fields:
  assumes none: "detectedTypes results = []"
  shows "ev_violations (fold (evaluate_one results) ps ev) = ev_violations ev
    \<and> ev_applied (fold (evaluate_one results) ps ev) = ev_applied ev @ map pl_name (filter applies ps)
    \<and> (ev_redactions (fold (evaluate_one results) ps ev) = [] \<longleftrightarrow>
         ev_redactions ev = [] \<and> (results = [] \<or> filter redacting ps = []))
    \<and> (ev_redactions ev = [] \<longrightarrow> ev_decision (fold (evaluate_one results) ps ev) =
         (if results \<noteq> [] \<and> filter redacting ps \<noteq> [] then ''redact'' else ev_decision ev))
    \<and> (ev_decision ev = ''redact'' \<longrightarrow> ev_decision (fold (evaluate_one results) ps ev) = ''redact'')"
proof (induction ps arbitrary: ev)
  case (Cons p ps)
  have step: "ev_redactions (evaluate_one results p ev) = [] \<longleftrightarrow>
      ev_redactions ev = [] \<and> (results = [] \<or> \<not> redacting p)"
    using evaluate_one_fields(3) [OF none, of p ev] by auto
  show ?case
    using Cons.IH [of "evaluate_one results p ev"] evaluate_one_fields [OF none, of p ev] step
    by (auto split: if_splits)
qed simp

text \<open>
  C20. The evaluation of policies denies nothing: whatever the policies, the patterns and the text, it
  has no violations, it redacts exactly when something was found and an active policy redacts or no
  active policy applies, and it allows everything else. So the page never shows a denial.
\<close>

theorem evaluation_never_denies:
  assumes "evaluatePolicy patterns tenant body s = Some ev" and "go_string (jprop ''data'' body) = Some txt"
    and "ps = listPolicies tenant 100 0 s"
  shows "ev_violations ev = []
    \<and> ev_decision ev =
        (if runBasicClassification patterns txt \<noteq> [] \<and> (list_ex redacting ps \<or> \<not> list_ex applies ps)
         then ''redact'' else ''allow'')
    \<and> map_option fst (evaluation_view (evaluation_json ev)) \<noteq> Some ''Denied''"
proof -
  let ?rs = "runBasicClassification patterns txt"
  let ?ev0 = "\<lparr>ev_decision = ''allow'', ev_applied = [], ev_redactions = [], ev_violations = [], ev_data = txt\<rparr>"
  have ev: "ev = evaluate_policies ?rs ps txt" using assms by (simp add: evaluatePolicy_def)
  note fields = evaluate_fold_fields [OF no_detected_types, of patterns "txt" ps ?ev0]
  have "ev_violations ev = []" unfolding ev evaluate_policies_def Let_def using fields by auto
  moreover have decision: "ev_decision ev =
        (if ?rs \<noteq> [] \<and> (list_ex redacting ps \<or> \<not> list_ex applies ps) then ''redact'' else ''allow'')"
    unfolding ev evaluate_policies_def Let_def using fields
    by (auto simp: list_ex_iff filter_empty_conv applies_def redacting_def)
  ultimately show ?thesis by (auto simp: evaluation_view_def evaluation_json_def)
qed

section \<open>What an evaluation redacts\<close>

text \<open>
  The reference: in the ranges that matched all but the first and last two characters is hidden, and
  everything when the range has four.
\<close>

definition hidden :: "nat \<times> nat \<Rightarrow> nat \<Rightarrow> bool" where
  "hidden m i \<longleftrightarrow>
     (if snd m - fst m \<le> 4 then fst m \<le> i \<and> i < snd m else fst m + 2 \<le> i \<and> i + 2 < snd m)"

definition redacted_text :: "(nat \<times> nat) list \<Rightarrow> string \<Rightarrow> string" where
  "redacted_text ms txt =
     map (\<lambda>i. if list_ex (\<lambda>m. hidden m i) ms then CHR ''*'' else txt ! i) [0..<length txt]"

definition fitting :: "string \<Rightarrow> nat \<times> nat \<Rightarrow> bool" where
  "fitting txt m \<longleftrightarrow> fst m + 4 \<le> snd m \<and> snd m \<le> length txt"

definition apart :: "nat \<times> nat \<Rightarrow> nat \<times> nat \<Rightarrow> bool" where
  "apart m m' \<longleftrightarrow> m = m' \<or> snd m \<le> fst m' \<or> snd m' \<le> fst m"

lemma redacted_none [simp]: "redacted_text [] txt = txt"
  by (simp add: redacted_text_def map_nth)

lemma length_redacted [simp]: "length (redacted_text ms txt) = length txt"
  by (simp add: redacted_text_def)

lemma nth_redacted:
  "i < length txt \<Longrightarrow>
   redacted_text ms txt ! i = (if list_ex (\<lambda>m. hidden m i) ms then CHR ''*'' else txt ! i)"
  by (simp add: redacted_text_def)

lemma mask_untyped:
  assumes "4 \<le> length v"
  shows "length (maskValue v []) = length v"
    and "j < length v \<Longrightarrow> maskValue v [] ! j = (if hidden (0, length v) j then CHR ''*'' else v ! j)"
proof -
  have four: "''****'' ! j = CHR ''*''" if "j < 4" for j
    using that by (auto simp: less_Suc_eq numeral_eq_Suc)
  show "length (maskValue v []) = length v"
    using assms by (auto simp: maskValue_def Let_def slice_last_def)
  show "maskValue v [] ! j = (if hidden (0, length v) j then CHR ''*'' else v ! j)" if "j < length v"
  proof -
    obtain n where n: "length v = n + 4" using assms by (metis add.commute le_Suc_ex)
    have "Suc (Suc (j - 2)) = j" if "0 < n" "\<not> j - 2 < n" using that by linarith
    then show ?thesis
      using that four
      by (auto simp: maskValue_def Let_def slice_last_def nth_append hidden_def min_def n)
  qed
qed

lemma mask_slice:
  assumes "fitting txt (s, e)" and "s \<le> i" "i < e"
  shows "maskValue (slice s e txt) [] ! (i - s) = (if hidden (s, e) i then CHR ''*'' else txt ! i)"
    and "length (maskValue (slice s e txt) []) = e - s"
proof -
  have len: "length (slice s e txt) = e - s"
    using assms by (auto simp: slice_def fitting_def)
  have four: "4 \<le> e - s" using assms unfolding fitting_def fst_conv snd_conv by linarith
  with len mask_untyped(1) [of "slice s e txt"] show "length (maskValue (slice s e txt) []) = e - s" by simp
  have "slice s e txt ! (i - s) = txt ! i" using assms by (simp add: slice_def fitting_def)
  moreover have "hidden (0, e - s) (i - s) \<longleftrightarrow> hidden (s, e) i"
    using assms by (auto simp: hidden_def)
  ultimately show "maskValue (slice s e txt) [] ! (i - s) = (if hidden (s, e) i then CHR ''*'' else txt ! i)"
    using mask_untyped(2) [of "slice s e txt" "i - s"] len four assms by simp
qed

text \<open>Redacting one more range, that overlaps no other\<close>

lemma redact_step:
  assumes fit: "fitting txt (s, e)" and ap: "\<forall>m\<in>set ms. apart m (s, e)"
  shows "take s (redacted_text ms txt) @ maskValue (slice s e txt) [] @ drop e (redacted_text ms txt)
      = redacted_text (ms @ [(s, e)]) txt" (is "?l = ?r")
proof (rule nth_equalityI)
  have se: "s + 4 \<le> e" "e \<le> length txt" using fit by (simp_all add: fitting_def)
  have mlen: "length (maskValue (slice s e txt) []) = e - s"
    using mask_slice(2) [OF fit, of s] se by simp
  show len: "length ?l = length ?r" using se mlen by simp
  fix i assume "i < length ?l"
  then have i: "i < length txt" using len by simp
  consider "i < s" | "s \<le> i" "i < e" | "e \<le> i" by linarith
  then show "?l ! i = ?r ! i"
  proof cases
    case 2
    have "list_ex (\<lambda>m. hidden m i) ms \<Longrightarrow> hidden (s, e) i"
      using ap 2 by (fastforce simp: list_ex_iff apart_def hidden_def split: if_splits)
    with 2 i se mlen mask_slice(1) [OF fit 2] show ?thesis
      by (auto simp: nth_append nth_redacted)
  qed (use se i mlen in \<open>auto simp: nth_append nth_redacted hidden_def min_def\<close>)
qed

text \<open>The range of a result\<close>

definition range_of :: "js \<Rightarrow> nat \<times> nat" where
  "range_of r = (nat (assert_int (jprop ''start'' r)), nat (assert_int (jprop ''end'' r)))"

lemma result_range:
  assumes "r \<in> set (runBasicClassification patterns txt)"
  shows "redaction_of r = \<lparr>rd_start = int (fst (range_of r)), rd_end = int (snd (range_of r)), rd_type = [],
    rd_masked = maskValue (slice (fst (range_of r)) (snd (range_of r)) txt) []\<rparr>"
proof -
  obtain p m where "r \<in> set (match_result p txt m)" using assms by (rule run_results)
  moreover have "jprop ''entity_type'' r = JUndef" using assms by (rule no_entity_type)
  ultimately show ?thesis
    by (auto simp: redaction_of_def range_of_def match_result_def Let_def split: if_splits)
qed

lemma redact_fold:
  assumes "set rs \<subseteq> set (runBasicClassification patterns txt)"
    and "\<forall>r\<in>set rs. fitting txt (range_of r)"
    and "\<forall>m\<in>set ms \<union> range_of ` set rs. \<forall>r\<in>set rs. apart m (range_of r)"
    and "ev_data ev = redacted_text ms txt"
  shows "ev_data (fold apply_redaction rs ev) = redacted_text (ms @ map range_of rs) txt"
  using assms
proof (induction rs arbitrary: ms ev)
  case (Cons r rs)
  obtain s e where se: "range_of r = (s, e)" by fastforce
  have fit: "fitting txt (s, e)" using Cons.prems(2) se by simp
  have "ev_data (apply_redaction r ev) = redacted_text (ms @ [(s, e)]) txt"
  proof -
    have ap: "\<forall>m\<in>set ms. apart m (s, e)" using Cons.prems(3) se by auto
    have r: "redaction_of r = \<lparr>rd_start = int s, rd_end = int e, rd_type = [],
        rd_masked = maskValue (slice s e txt) []\<rparr>"
      using result_range [of r patterns "txt"] Cons.prems(1) se by simp
    show ?thesis
      using redact_step [OF fit ap] fit Cons.prems(4)
      by (simp add: apply_redaction_def r Let_def fitting_def)
  qed
  from Cons.IH [OF _ _ _ this] Cons.prems(1-3) se show ?case by auto
qed simp

text \<open>
  Several policies may redact the same ranges again. What is redacted at all is redacted in full.
\<close>

lemma redacted_twice: "set ms' = set ms \<Longrightarrow> redacted_text ms' txt = redacted_text ms txt"
  by (simp add: redacted_text_def list_ex_iff)

lemma evaluate_fold_data:
  assumes rs: "rs = runBasicClassification patterns txt"
    and fit: "\<forall>r\<in>set rs. fitting txt (range_of r)"
    and ap: "\<forall>r\<in>set rs. \<forall>r'\<in>set rs. apart (range_of r) (range_of r')"
    and start: "ev_data ev = redacted_text ms txt" and "set ms = {} \<or> set ms = range_of ` set rs"
  shows "ev_data (fold (evaluate_one rs) ps ev) =
    redacted_text (if list_ex redacting ps then map range_of rs else ms) txt"
  using start assms(5)
proof (induction ps arbitrary: ev ms)
  case (Cons p ps)
  have data: "ev_data (evaluate_one rs p ev) =
      (if redacting p then ev_data (fold apply_redaction rs ev) else ev_data ev)"
    using evaluate_one_fields(5) rs by simp
  show ?case
  proof (cases "redacting p")
    case True
    have "ev_data (fold apply_redaction rs ev) = redacted_text (ms @ map range_of rs) txt"
      by (rule redact_fold [where patterns = patterns]) (use rs fit ap Cons.prems in auto)
    also have "\<dots> = redacted_text (map range_of rs) txt"
      using Cons.prems(2) by (intro redacted_twice) auto
    finally show ?thesis
      using Cons.IH [of "evaluate_one rs p ev" "map range_of rs"] True data by simp
  next
    case False
    then show ?thesis using Cons.IH [of "evaluate_one rs p ev" ms] Cons.prems data by simp
  qed
qed simp

text \<open>
  When the ranges that matched have four characters or more and do not overlap, the answer has the
  text with exactly these ranges masked when the decision is to redact, and the text itself otherwise.
\<close>

theorem evaluation_masks_matches:
  assumes "evaluatePolicy patterns tenant body s = Some ev" and "go_string (jprop ''data'' body) = Some txt"
    and "ms = map range_of (runBasicClassification patterns txt)"
    and "\<forall>m\<in>set ms. fitting txt m \<and> (\<forall>m'\<in>set ms. apart m m')"
  shows "ev_data ev = (if ev_decision ev = ''redact'' then redacted_text ms txt else txt)"
proof -
  let ?rs = "runBasicClassification patterns txt" and ?ps = "listPolicies tenant 100 0 s"
  let ?ev0 = "\<lparr>ev_decision = ''allow'', ev_applied = [], ev_redactions = [], ev_violations = [], ev_data = txt\<rparr>"
  let ?ev1 = "fold (evaluate_one ?rs) ?ps ?ev0"
  have ev: "ev = evaluate_policies ?rs ?ps txt" using assms(1,2) by (simp add: evaluatePolicy_def)
  have fit: "\<forall>r\<in>set ?rs. fitting txt (range_of r)"
    and ap: "\<forall>r\<in>set ?rs. \<forall>r'\<in>set ?rs. apart (range_of r) (range_of r')"
    using assms(3,4) by auto
  have data: "ev_data ?ev1 = redacted_text (if list_ex redacting ?ps then ms else []) txt"
    using evaluate_fold_data [OF refl fit ap, of ?ev0 "[]" ?ps] assms(3) by simp
  note fields = evaluate_fold_fields [OF no_detected_types, of patterns "txt" ?ps ?ev0]
  show ?thesis
  proof (cases "ev_applied ?ev1 = [] \<and> ?rs \<noteq> []")
    case True
    then have "\<not> list_ex redacting ?ps"
      using fields by (auto simp: filter_empty_conv list_ex_iff applies_def redacting_def)
    then have "ev_data ?ev1 = redacted_text [] txt" using data by simp
    then have "ev_data (fold apply_redaction ?rs (?ev1\<lparr>ev_decision := ''redact''\<rparr>)) = redacted_text ([] @ map range_of ?rs) txt"
      by (intro redact_fold [where patterns = patterns]) (use fit ap in auto)
    then show ?thesis using True assms(3) by (simp add: ev evaluate_policies_def Let_def)
  next
    case False
    then have "ev = ?ev1" by (auto simp: ev evaluate_policies_def Let_def)
    with data fields assms(3) show ?thesis
      by (auto simp: list_ex_iff filter_empty_conv)
  qed
qed

section \<open>What an edit keeps\<close>

lemma policy_form_no_columns:
  "bind_policy (policy_form_json f) = Some req \<Longrightarrow>
   pl_conditions req = None \<and> pl_actions req = None \<and> pl_regulations req = None"
  by (auto simp: bind_policy_def policy_form_json_def go_json_def split: option.splits if_splits)

lemma no_demand: "pl_conditions p = None \<Longrightarrow> \<not> demands_redaction t p"
  by (simp add: demands_redaction_def)

lemma handleSave_sent:
  "fe_sent (snd (handleSave e i (pg, st))) =
     fe_sent st @ [add_token st (m_request useUpdatePolicy (i, policy_form_json (pg_form pg)))]"
  by (auto simp: handleSave_def dest: run_mutation_sentD split: prod.split sum.split)

lemma add_token_body [simp]: "a_body (add_token s rq) = a_body rq"
  by (simp add: add_token_def split: option.split)

text \<open>
  C19. Saving an edit of a policy erases its conditions, actions and regulations, whatever was edited,
  and never changes its type. The page shows no card for it any more, and the gate redacts from then
  on as if the policy were not there.
\<close>

theorem policy_edit_erases:
  assumes "find_policy tenant i s = Some p"
    and "body = a_body (last (fe_sent (snd (handleSave e i (pg, st)))))"
    and "updatePolicy tenant i body s = (PolicyAnswer p', s')"
  shows "getPolicy tenant i s' = PolicyAnswer p'
    \<and> pl_conditions p' = None \<and> pl_actions p' = None \<and> pl_regulations p' = None
    \<and> pl_type p' = pl_type p \<and> policy_cards (policy_json p') = []
    \<and> (shouldRedact t (filter (\<lambda>q. pl_tenant q = tenant) (ps_policies s')) \<longleftrightarrow>
         shouldRedact t (filter (\<lambda>q. pl_tenant q = tenant \<and> pl_id q \<noteq> i) (ps_policies s)))"
proof -
  have body: "body = policy_form_json (pg_form pg)"
    using assms(2) by (simp add: handleSave_sent useUpdatePolicy_def new_request_def)
  obtain req where req: "bind_policy body = Some req"
    using assms(1,3) by (auto simp: updatePolicy_def split: option.splits)
  note none = policy_form_no_columns [OF req [unfolded body]]
  have p: "pl_tenant p = tenant" "pl_id p = i"
    using assms(1) by (auto simp: find_policy_def find_Some_iff)
  let ?P = "\<lambda>q. pl_tenant q = tenant \<and> pl_id q = i"
  have p': "p' = p\<lparr>pl_name := pl_name req, pl_description := pl_description req, pl_conditions := None,
      pl_actions := None, pl_regulations := None, pl_active := pl_active req, pl_priority := pl_priority req\<rparr>"
    and s': "ps_policies s' = map (\<lambda>q. if ?P q then p' else q) (ps_policies s)"
    using assms(1,3) req none by (auto simp: updatePolicy_def policy_audit_def Let_def split: if_splits)
  have P': "?P p'" using p p' by simp
  have "find_policy tenant i s' = Some p'"
    using find_map_same [of ?P "ps_policies s" p p'] assms(1) P' by (simp add: find_policy_def s')
  moreover have "list_ex (demands_redaction t) (filter (\<lambda>q. pl_tenant q = tenant) (ps_policies s')) \<longleftrightarrow>
      list_ex (demands_redaction t) (filter (\<lambda>q. pl_tenant q = tenant \<and> pl_id q \<noteq> i) (ps_policies s))"
    using P' no_demand [of p' t] p' by (auto simp: list_ex_iff s')
  ultimately show ?thesis
    using p' by (simp add: getPolicy_def policy_cards_def policy_json_def shouldRedact_def)
qed

text \<open>
  A new policy is stored active, whatever the box on the form says; the regulations that are
  entered separated by commas are stored as the list they were.
\<close>

theorem new_policy_stored:
  assumes "createPolicy new_id tenant (new_policy_json f) s = (PolicyCreated p, s')"
    and "rs \<noteq> []" "\<forall>r\<in>set rs. r \<noteq> [] \<and> CHR '','' \<notin> set r \<and> trim r = r"
    and "np_regulations f = join '', '' rs"
  shows "pl_active p \<and> ps_policies s' = p # ps_policies s
    \<and> pl_regulations p = Some (JArr (map JStr rs))"
proof -
  obtain r rs' where rs: "rs = r # rs'" using assms(2) by (cases rs) auto
  have "r \<noteq> []" using assms(3) rs by simp
  then have "np_regulations f \<noteq> []" using assms(4) rs by (cases rs') auto
  moreover have "map trim (split_on (CHR '','') (np_regulations f)) = rs"
    using split_join_trim [of rs "CHR '',''"] assms(2-4) by simp
  then have "map (\<lambda>r. JStr (trim r)) (split_on (CHR '','') (np_regulations f)) = map JStr rs"
    by (metis (no_types, lifting) comp_apply list.map_comp map_eq_conv)
  ultimately show ?thesis
    using assms(1)
    by (auto simp: createPolicy_def bind_policy_def new_policy_json_def go_json_def policy_audit_def Let_def
        split: option.splits if_splits)
qed

section \<open>Examples\<close>

definition ex_policy :: policy where
  "ex_policy =
     \<lparr>pl_id = ''p1'', pl_tenant = ''t'', pl_name = ''Mask mail'', pl_description = [],
      pl_type = ''redaction'',
      pl_conditions = Some (JObj [(''data_classification'', JArr [JStr ''EMAIL''])]),
      pl_actions = Some (JObj [(''action'', JStr ''redact'')]), pl_regulations = None,
      pl_active = True, pl_priority = 5\<rparr>"

definition ex_policies :: policy_server where
  "ex_policies = \<lparr>ps_policies = [ex_policy], ps_audit = []\<rparr>"

definition ex_pattern :: pii_pattern where
  "ex_pattern =
     \<lparr>pp_type = ''SSN'', pp_confidence = 1, pp_validator = (\<lambda>v. None), pp_matches = (\<lambda>t. [(1, 6)])\<rparr>"

lemma ex_results:
  "runBasicClassification [ex_pattern] ''a12345b'' =
     [JObj [(''entity'', JStr ''SSN''), (''value'', JStr ''12345''), (''confidence'', JNum (Fin 1)),
            (''start'', JNum (Fin 1)), (''end'', JNum (Fin 6))]]"
  by (simp add: runBasicClassification_def ex_pattern_def match_result_def slice_def Let_def)

theorem evaluation_never_denies_witness:
  "\<exists>ev. evaluatePolicy [ex_pattern] ''t'' (JObj [(''data'', JStr ''a12345b'')]) ex_policies = Some ev
     \<and> ev_decision ev = ''redact'' \<and> map_option fst (evaluation_view (evaluation_json ev)) \<noteq> Some ''Denied''"
proof -
  obtain ev where ev: "evaluatePolicy [ex_pattern] ''t'' (JObj [(''data'', JStr ''a12345b'')]) ex_policies = Some ev"
    by (simp add: evaluatePolicy_def)
  have "list_ex redacting (listPolicies ''t'' 100 0 ex_policies)"
    by (simp add: listPolicies_def ex_policies_def ex_policy_def redacting_def)
  then show ?thesis
    using evaluation_never_denies [OF ev _ refl, of "''a12345b''"] ev by (simp add: ex_results)
qed

theorem evaluation_masks_matches_witness:
  "\<exists>ev. evaluatePolicy [ex_pattern] ''t'' (JObj [(''data'', JStr ''a12345b'')]) ex_policies = Some ev
     \<and> (ev_decision ev = ''redact'' \<longrightarrow> ev_data ev = ''a12*45b'')"
proof -
  let ?ms = "[(1, 6)] :: (nat \<times> nat) list"
  obtain ev where ev: "evaluatePolicy [ex_pattern] ''t'' (JObj [(''data'', JStr ''a12345b'')]) ex_policies = Some ev"
    by (simp add: evaluatePolicy_def)
  have ms: "?ms = map range_of (runBasicClassification [ex_pattern] ''a12345b'')"
    by (simp add: ex_results range_of_def)
  have "redacted_text ?ms ''a12345b'' = ''a12*45b''"
    by (simp add: redacted_text_def hidden_def upt_rec)
  moreover have "\<forall>m\<in>set ?ms. fitting ''a12345b'' m \<and> (\<forall>m'\<in>set ?ms. apart m m')"
    by (simp add: fitting_def apart_def)
  ultimately show ?thesis
    using evaluation_masks_matches [OF ev _ ms] ev by fastforce
qed

text \<open>A policy that redacts addresses of mail stops doing so when its priority is edited.\<close>

theorem policy_edit_erases_witness:
  "\<exists>p' s'. updatePolicy ''t'' ''p1'' (a_body (last (fe_sent (snd (handleSave (ex_fe_env JNull) ''p1''
        (startEdit (policy_json ex_policy) initial_policy_page, ex_browser [])))))) ex_policies
        = (PolicyAnswer p', s')
     \<and> shouldRedact ''EMAIL'' (ps_policies ex_policies)
     \<and> \<not> shouldRedact ''EMAIL'' (filter (\<lambda>q. pl_tenant q = ''t'') (ps_policies s'))"
proof -
  let ?pg = "startEdit (policy_json ex_policy) initial_policy_page"
  let ?body = "a_body (last (fe_sent (snd (handleSave (ex_fe_env JNull) ''p1'' (?pg, ex_browser [])))))"
  have "?body = policy_form_json (pg_form ?pg)"
    by (simp add: handleSave_sent useUpdatePolicy_def new_request_def)
  also have "\<dots> = JObj [(''name'', JStr ''Mask mail''), (''description'', JStr []), (''type'', JStr ''redaction''),
      (''active'', JBool True), (''priority'', JNum (Fin 5))]"
    by (simp add: policy_form_json_def startEdit_def policy_json_def ex_policy_def initial_policy_page_def
        js_or_def Let_def)
  finally obtain p' s' where up: "updatePolicy ''t'' ''p1'' ?body ex_policies = (PolicyAnswer p', s')"
    by (simp add: updatePolicy_def find_policy_def ex_policies_def ex_policy_def bind_policy_def int_fits_def policy_fits_def Let_def)
  have find: "find_policy ''t'' ''p1'' ex_policies = Some ex_policy"
    by (simp add: find_policy_def ex_policies_def ex_policy_def)
  have "shouldRedact ''EMAIL'' (ps_policies ex_policies)"
    by (simp add: shouldRedact_def demands_redaction_def ex_policies_def ex_policy_def go_field_def to_lower_def
        lower_char_def Let_def)
  moreover have "\<not> shouldRedact ''EMAIL'' (filter (\<lambda>q. pl_tenant q = ''t'' \<and> pl_id q \<noteq> ''p1'') (ps_policies ex_policies))"
    by (simp add: shouldRedact_def ex_policies_def ex_policy_def sensitiveTypes_def)
  ultimately show ?thesis
    using policy_edit_erases [OF find refl up, of "''EMAIL''"] up by blast
qed

definition ex_new_policy :: new_policy_form where
  "ex_new_policy =
     \<lparr>np_name = ''n'', np_description = [], np_type = ''ai'', np_active = False, np_priority = Fin 7,
      np_regulations = ''GDPR, CCPA''\<rparr>"

theorem new_policy_stored_witness:
  "\<exists>p s'. createPolicy ''p2'' ''t'' (new_policy_json ex_new_policy) ex_policies = (PolicyCreated p, s')
     \<and> \<not> np_active ex_new_policy \<and> pl_active p
     \<and> pl_regulations p = Some (JArr [JStr ''GDPR'', JStr ''CCPA''])"
proof -
  obtain p s' where "createPolicy ''p2'' ''t'' (new_policy_json ex_new_policy) ex_policies = (PolicyCreated p, s')"
    by (simp add: createPolicy_def bind_policy_def new_policy_json_def ex_new_policy_def ex_policies_def
        ex_policy_def int_fits_def policy_fits_def Let_def)
  then show ?thesis
    using new_policy_stored [of "''p2''" "''t''" ex_new_policy ex_policies p s' "[''GDPR'', ''CCPA'']"]
    by (simp add: ex_new_policy_def trim_fixed is_space_def Let_def)
qed

end
