(* ===== verification/FeSso.thy ===== *)
theory FeSso
  imports GoLib
begin

text \<open>
  Single sign-on: the page of its settings (\<open>app/(app)/settings/sso/page.tsx\<close>) with the handlers of
  the server that store identity providers (\<open>src/internal/api/sso.go\<close>), and the login by SAML
  (\<open>src/internal/api/sso_saml.go\<close>, \<open>sso_oidc.go\<close>) up to the page it returns to (\<open>sso_callback\<close> of
  theory \<open>FeSession\<close>).

  The database is taken as reachable, and holds providers newest first. Times are seconds. The parser
  of XML, the random states and the signed tokens are parameters.
\<close>

section \<open>Secrets\<close>

text \<open>The base64 of the standard library: three bytes as four digits, with padding at the end.\<close>

definition b64_digits :: string where
  "b64_digits = ''ABCDEFGHIJKLMNOPQRSTUVWXYZabcdefghijklmnopqrstuvwxyz0123456789+/''"

definition b64_char :: "nat \<Rightarrow> char" where
  "b64_char n = b64_digits ! n"

fun index_of :: "char \<Rightarrow> string \<Rightarrow> nat option" where
  "index_of c [] = None"
| "index_of c (d # ds) = (if c = d then Some 0 else map_option Suc (index_of c ds))"

definition b64_val :: "char \<Rightarrow> nat option" where
  "b64_val c = index_of c b64_digits"

text \<open>The 24 bits of three bytes, and their digit at the place \<open>k\<close>\<close>

definition bits24 :: "char \<Rightarrow> char \<Rightarrow> char \<Rightarrow> nat" where
  "bits24 a b c = of_char a * 65536 + of_char b * 256 + of_char c"

definition b64_digit :: "nat \<Rightarrow> nat \<Rightarrow> char" where
  "b64_digit n k = b64_char (n div k mod 64)"

fun encryptSecret :: "string \<Rightarrow> string" where
  "encryptSecret [] = []"
| "encryptSecret [a] =
     (let n = bits24 a (char_of (0::nat)) (char_of (0::nat))
      in [b64_digit n 262144, b64_digit n 4096, CHR ''='', CHR ''=''])"
| "encryptSecret [a, b] =
     (let n = bits24 a b (char_of (0::nat))
      in [b64_digit n 262144, b64_digit n 4096, b64_digit n 64, CHR ''=''])"
| "encryptSecret (a # b # c # s) =
     (let n = bits24 a b c
      in b64_digit n 262144 # b64_digit n 4096 # b64_digit n 64 # b64_digit n 1 # encryptSecret s)"

text \<open>Groups of four; what the last digit of a padded group holds beyond its bytes is ignored.\<close>

fun b64_groups :: "string \<Rightarrow> string option" where
  "b64_groups [] = Some []"
| "b64_groups (w # x # y # z # s) =
     (case (b64_val w, b64_val x) of
        (Some i, Some j) \<Rightarrow>
          (if y = CHR ''='' \<and> z = CHR ''='' \<and> s = [] then Some [char_of ((i * 64 + j) div 16)]
           else (case b64_val y of
                   None \<Rightarrow> None
                 | Some k \<Rightarrow>
                     (if z = CHR ''='' \<and> s = []
                      then (let n = (i * 64 + j) * 64 + k in Some [char_of (n div 1024), char_of (n div 4 mod 256)])
                      else (case (b64_val z, b64_groups s) of
                              (Some l, Some t) \<Rightarrow>
                                (let n = ((i * 64 + j) * 64 + k) * 64 + l
                                 in Some (char_of (n div 65536) # char_of (n div 256 mod 256)
                                          # char_of (n mod 256) # t))
                            | _ \<Rightarrow> None))))
      | _ \<Rightarrow> None)"
| "b64_groups s = None"

definition b64_decode :: "string \<Rightarrow> string option" where
  "b64_decode s = b64_groups (filter (\<lambda>c. c \<noteq> char_of (10::nat) \<and> c \<noteq> char_of (13::nat)) s)"

definition decryptSecret :: "string \<Rightarrow> string" where
  "decryptSecret encrypted = (case b64_decode encrypted of None \<Rightarrow> [] | Some s \<Rightarrow> s)"

section \<open>The server's providers\<close>

record sso_provider =
  sp_id :: string
  sp_tenant :: string
  sp_name :: string
  sp_type :: string
  sp_enabled :: bool
  sp_issuer_url :: "string option"
  sp_client_id :: "string option"
  sp_secret :: "string option"
  sp_scopes :: "string list"
  sp_metadata_url :: "string option"
  sp_idp_entity_id :: "string option"
  sp_sso_url :: "string option"
  sp_certificate :: "string option"
  sp_entity_id :: "string option"
  sp_mapping :: js
  sp_default_role :: string
  sp_auto_create :: bool

record account =
  us_id :: string
  us_tenant :: string
  us_email :: string
  us_name :: string
  us_status :: string
  us_super_admin :: bool
  us_provider :: "string option"
  us_subject :: "string option"
  us_last_login :: "nat option"

record sso_session =
  sn_state :: string
  sn_tenant :: string
  sn_provider :: string
  sn_expires :: nat

record sso_server =
  ss_providers :: "sso_provider list"
  ss_tenants :: "(string \<times> string) list"
  ss_sessions :: "sso_session list"
  ss_users :: "account list"
  ss_roles :: "((string \<times> string) \<times> string) list"
  ss_user_roles :: "(string \<times> string) list"
  ss_audit :: "(string \<times> string \<times> string) list"

datatype sso_response =
    SsoError nat string
  | SsoProvider sso_provider
  | SsoProviders "sso_provider list"
  | SsoDeleted
  | SsoRedirect string

definition nullStr :: "string \<Rightarrow> string option" where
  "nullStr s = (if s = [] then None else Some s)"

fun go_texts :: "js \<Rightarrow> js option" where
  "go_texts JUndef = Some JUndef"
| "go_texts JNull = Some JUndef"
| "go_texts (JObj fs) =
     (if list_all (\<lambda>(k, v). v = JNull \<or> is_string v) fs
      then Some (JObj (map (\<lambda>(k, v). (k, if v = JNull then JStr [] else v)) fs)) else None)"
| "go_texts v = None"

definition find_provider :: "string \<Rightarrow> string \<Rightarrow> sso_server \<Rightarrow> sso_provider option" where
  "find_provider tenant i s = find (\<lambda>p. sp_id p = i \<and> sp_tenant p = tenant) (ss_providers s)"

definition listSSOProviders :: "string \<Rightarrow> sso_server \<Rightarrow> sso_provider list" where
  "listSSOProviders tenant s = filter (\<lambda>p. sp_tenant p = tenant) (ss_providers s)"

definition createSSOProvider ::
  "string \<Rightarrow> string \<Rightarrow> string \<Rightarrow> js \<Rightarrow> sso_server \<Rightarrow> sso_response \<times> sso_server" where
  "createSSOProvider base_url new_id tenant body s =
     (case (map (\<lambda>k. go_string (jprop k body))
              [''name'', ''type'', ''issuer_url'', ''client_id'', ''client_secret'', ''idp_metadata_url'',
               ''idp_entity_id'', ''idp_sso_url'', ''idp_certificate'', ''default_role''],
            go_strings (jprop ''scopes'' body), go_texts (jprop ''attribute_mapping'' body),
            go_bool (jprop ''enabled'' body), go_bool (jprop ''auto_create_users'' body)) of
        ([Some name, Some type, Some issuer, Some client, Some secret, Some metadata, Some entity,
          Some url, Some certificate, Some role], Some scopes, Some mapping, Some enabled, Some auto) \<Rightarrow>
          (if \<not> go_struct body \<or> name = [] \<or> type \<notin> {''oidc'', ''saml''} then (SsoError 400 ''bad request'', s)
           else
             (let p = \<lparr>sp_id = new_id, sp_tenant = tenant, sp_name = name, sp_type = type,
                       sp_enabled = enabled, sp_issuer_url = nullStr issuer, sp_client_id = nullStr client,
                       sp_secret = (if secret = [] then None else Some (encryptSecret secret)),
                       sp_scopes = (if scopes = [] \<and> type = ''oidc''
                                    then [''openid'', ''email'', ''profile''] else scopes),
                       sp_metadata_url = nullStr metadata, sp_idp_entity_id = nullStr entity,
                       sp_sso_url = nullStr url, sp_certificate = nullStr certificate,
                       sp_entity_id = (if type = ''saml''
                         then Some ((if base_url = [] then ''https://app.securelens.ai'' else base_url)
                                    @ ''/api/v1/auth/sso/saml/metadata/'' @ tenant)
                         else None),
                       sp_mapping = (if mapping = JUndef then JNull else mapping),
                       sp_default_role = (if role = [] then ''user'' else role),
                       sp_auto_create = auto\<rparr>
              in (SsoProvider p, s\<lparr>ss_providers := p # ss_providers s\<rparr>)))
      | _ \<Rightarrow> (SsoError 400 ''bad request'', s))"

definition getSSOProvider :: "string \<Rightarrow> string \<Rightarrow> sso_server \<Rightarrow> sso_response" where
  "getSSOProvider tenant i s =
     (case find_provider tenant i s of None \<Rightarrow> SsoError 404 ''not found'' | Some p \<Rightarrow> SsoProvider p)"

text \<open>The request of an update: fields that are pointers are \<open>None\<close> when they are absent.\<close>

record sso_update =
  su_name :: "string option"
  su_enabled :: "bool option"
  su_issuer_url :: "string option"
  su_client_id :: "string option"
  su_secret :: "string option"
  su_scopes :: "string list"
  su_metadata_url :: "string option"
  su_idp_entity_id :: "string option"
  su_sso_url :: "string option"
  su_certificate :: "string option"
  su_mapping :: js
  su_default_role :: "string option"
  su_auto_create :: "bool option"

definition bind_sso_update :: "js \<Rightarrow> sso_update option" where
  "bind_sso_update body =
     (if \<not> go_struct body then None
      else case (map (\<lambda>k. go_pointer go_string (jprop k body))
              [''name'', ''issuer_url'', ''client_id'', ''client_secret'', ''idp_metadata_url'',
               ''idp_entity_id'', ''idp_sso_url'', ''idp_certificate'', ''default_role''],
            go_strings (jprop ''scopes'' body), go_texts (jprop ''attribute_mapping'' body),
            go_pointer go_bool (jprop ''enabled'' body),
            go_pointer go_bool (jprop ''auto_create_users'' body)) of
        ([Some name, Some issuer, Some client, Some secret, Some metadata, Some entity, Some url,
          Some certificate, Some role], Some scopes, Some mapping, Some enabled, Some auto) \<Rightarrow>
          Some \<lparr>su_name = name, su_enabled = enabled, su_issuer_url = issuer, su_client_id = client,
                su_secret = secret, su_scopes = scopes, su_metadata_url = metadata,
                su_idp_entity_id = entity, su_sso_url = url, su_certificate = certificate,
                su_mapping = mapping, su_default_role = role, su_auto_create = auto\<rparr>
      | _ \<Rightarrow> None)"

definition given :: "'a option \<Rightarrow> 'a \<Rightarrow> 'a" where
  "given r old = (case r of Some v \<Rightarrow> v | None \<Rightarrow> old)"

definition given_null :: "'a option \<Rightarrow> 'a option \<Rightarrow> 'a option" where
  "given_null r old = (case r of Some v \<Rightarrow> Some v | None \<Rightarrow> old)"

definition sso_updated :: "sso_update \<Rightarrow> sso_provider \<Rightarrow> sso_provider" where
  "sso_updated r p =
     p\<lparr>sp_name := given (su_name r) (sp_name p), sp_enabled := given (su_enabled r) (sp_enabled p),
       sp_issuer_url := given_null (su_issuer_url r) (sp_issuer_url p),
       sp_client_id := given_null (su_client_id r) (sp_client_id p),
       sp_secret := (case su_secret r of
                       Some secret \<Rightarrow> (if secret \<noteq> [] then Some (encryptSecret secret) else sp_secret p)
                     | None \<Rightarrow> sp_secret p),
       sp_scopes := (if su_scopes r \<noteq> [] then su_scopes r else sp_scopes p),
       sp_metadata_url := given_null (su_metadata_url r) (sp_metadata_url p),
       sp_idp_entity_id := given_null (su_idp_entity_id r) (sp_idp_entity_id p),
       sp_sso_url := given_null (su_sso_url r) (sp_sso_url p),
       sp_certificate := given_null (su_certificate r) (sp_certificate p),
       sp_mapping := (if su_mapping r \<noteq> JUndef then su_mapping r else sp_mapping p),
       sp_default_role := given (su_default_role r) (sp_default_role p),
       sp_auto_create := given (su_auto_create r) (sp_auto_create p)\<rparr>"

definition updateSSOProvider ::
  "string \<Rightarrow> string \<Rightarrow> js \<Rightarrow> sso_server \<Rightarrow> sso_response \<times> sso_server" where
  "updateSSOProvider tenant i body s =
     (case bind_sso_update body of
        None \<Rightarrow> (SsoError 400 ''bad request'', s)
      | Some r \<Rightarrow>
          (case find_provider tenant i s of
             None \<Rightarrow> (SsoError 500 ''sql: no rows in result set'', s)
           | Some p \<Rightarrow>
               (SsoProvider (sso_updated r p),
                s\<lparr>ss_providers := map (\<lambda>q. if sp_id q = i \<and> sp_tenant q = tenant then sso_updated r p else q)
                                     (ss_providers s)\<rparr>)))"

definition deleteSSOProvider :: "string \<Rightarrow> string \<Rightarrow> sso_server \<Rightarrow> sso_response \<times> sso_server" where
  "deleteSSOProvider tenant i s =
     (SsoDeleted,
      s\<lparr>ss_providers := filter (\<lambda>q. \<not> (sp_id q = i \<and> sp_tenant q = tenant)) (ss_providers s),
        ss_sessions := filter (\<lambda>n. sn_provider n \<noteq> i
            \<or> (\<forall>q\<in>set (ss_providers s). \<not> (sp_id q = i \<and> sp_tenant q = tenant))) (ss_sessions s),
        ss_users := map (\<lambda>u. if us_provider u = Some i
            \<and> (\<exists>q\<in>set (ss_providers s). sp_id q = i \<and> sp_tenant q = tenant)
            then u\<lparr>us_provider := None\<rparr> else u) (ss_users s)\<rparr>)"

text \<open>The JSON of a provider: neither the secret nor the certificate is read from the database.\<close>

definition opt_field :: "string \<Rightarrow> string option \<Rightarrow> (string \<times> js) list" where
  "opt_field k v = (case v of None \<Rightarrow> [] | Some t \<Rightarrow> [(k, JStr t)])"

definition provider_json :: "sso_provider \<Rightarrow> js" where
  "provider_json p =
     JObj ([(''id'', JStr (sp_id p)), (''name'', JStr (sp_name p)), (''type'', JStr (sp_type p)),
            (''enabled'', JBool (sp_enabled p))]
           @ opt_field ''issuer_url'' (sp_issuer_url p) @ opt_field ''client_id'' (sp_client_id p)
           @ (if sp_scopes p = [] then [] else [(''scopes'', JArr (map JStr (sp_scopes p)))])
           @ opt_field ''idp_metadata_url'' (sp_metadata_url p)
           @ opt_field ''idp_entity_id'' (sp_idp_entity_id p)
           @ opt_field ''idp_sso_url'' (sp_sso_url p) @ opt_field ''sp_entity_id'' (sp_entity_id p)
           @ [(''attribute_mapping'', sp_mapping p), (''default_role'', JStr (sp_default_role p)),
              (''auto_create_users'', JBool (sp_auto_create p))])"

section \<open>Login by SAML\<close>

text \<open>The parsed response; the parser of XML is a parameter.\<close>

record saml_assertion =
  sa_name_id :: "string option"
  sa_attributes :: "(string \<times> string list) list"

record saml_response =
  sr_status :: string
  sr_assertion :: "saml_assertion option"

definition frontend :: "string \<Rightarrow> string" where
  "frontend u = (if u = [] then ''https://app.securelens.ai'' else u)"

definition redirectToLoginWithError :: "string \<Rightarrow> string \<Rightarrow> sso_response" where
  "redirectToLoginWithError url message = SsoRedirect (frontend url @ ''/login?error='' @ message)"

text \<open>The start of the login remembers a random state for ten minutes and goes to the provider.\<close>

definition ssoSAMLInitiate ::
  "(string \<Rightarrow> string \<Rightarrow> string) \<Rightarrow> string \<Rightarrow> nat \<Rightarrow> string \<Rightarrow> string \<Rightarrow> sso_server \<Rightarrow> sso_response \<times> sso_server" where
  "ssoSAMLInitiate request_url relayState now providerID tenantSlug s =
     (if tenantSlug = [] then (SsoError 400 ''tenant parameter required'', s)
      else (case map_of (ss_tenants s) tenantSlug of
              None \<Rightarrow> (SsoError 404 ''tenant not found'', s)
            | Some tenantID \<Rightarrow>
                (case find_provider tenantID providerID s of
                   None \<Rightarrow> (SsoError 404 ''SSO provider not found or disabled'', s)
                 | Some p \<Rightarrow>
                     (if \<not> sp_enabled p \<or> sp_type p \<noteq> ''saml''
                      then (SsoError 404 ''SSO provider not found or disabled'', s)
                      else (case (sp_sso_url p, sp_idp_entity_id p) of
                              (Some url, Some entity) \<Rightarrow>
                                (SsoRedirect (request_url url relayState),
                                 s\<lparr>ss_sessions :=
                                     ss_sessions s @ [\<lparr>sn_state = relayState, sn_tenant = tenantID,
                                                       sn_provider = sp_id p, sn_expires = now + 600\<rparr>]\<rparr>)
                            | _ \<Rightarrow> (SsoError 400 ''SAML provider not properly configured'', s))))))"

definition saml_email_names :: "string list" where
  "saml_email_names =
     [''email'', ''http://schemas.xmlsoap.org/ws/2005/05/identity/claims/emailaddress'']"

definition saml_name_names :: "string list" where
  "saml_name_names =
     [''name'', ''http://schemas.xmlsoap.org/ws/2005/05/identity/claims/name'',
      ''http://schemas.microsoft.com/identity/claims/displayname'']"

definition saml_attribute :: "string list \<Rightarrow> (string \<times> string list) list \<Rightarrow> string" where
  "saml_attribute names attrs =
     fold (\<lambda>(k, vs) found. if k \<in> set names then (case vs of v # _ \<Rightarrow> v | [] \<Rightarrow> found) else found) attrs []"

definition findOrCreateSSOUser ::
  "string \<Rightarrow> string \<Rightarrow> sso_provider \<Rightarrow> string \<Rightarrow> string \<Rightarrow> string \<Rightarrow> sso_server \<Rightarrow>
     account option \<times> sso_server" where
  "findOrCreateSSOUser new_id tenantID p subjectID email name s =
     (case find (\<lambda>u. us_tenant u = tenantID \<and> us_provider u = Some (sp_id p) \<and> us_subject u = Some subjectID)
             (ss_users s) of
        Some u \<Rightarrow> (Some u, s)
      | None \<Rightarrow>
          (case find (\<lambda>u. us_tenant u = tenantID \<and> us_email u = email) (ss_users s) of
             Some u \<Rightarrow>
               (Some u,
                s\<lparr>ss_users := map (\<lambda>v. if us_id v = us_id u
                     then v\<lparr>us_provider := Some (sp_id p), us_subject := Some subjectID\<rparr> else v) (ss_users s)\<rparr>)
           | None \<Rightarrow>
               (if \<not> sp_auto_create p then (None, s)
                else
                  (let u = \<lparr>us_id = new_id, us_tenant = tenantID, us_email = email,
                            us_name = (if name = [] then email else name), us_status = ''active'',
                            us_super_admin = False, us_provider = Some (sp_id p),
                            us_subject = Some subjectID, us_last_login = None\<rparr>;
                       s1 = s\<lparr>ss_users := ss_users s @ [u]\<rparr>
                   in (Some u,
                       if sp_default_role p \<noteq> [] \<and> sp_default_role p \<noteq> ''user''
                       then (case map_of (ss_roles s) (tenantID, sp_default_role p) of
                               Some roleID \<Rightarrow>
                                 (if roleID \<noteq> [] \<and> (new_id, roleID) \<notin> set (ss_user_roles s)
                                  then s1\<lparr>ss_user_roles := ss_user_roles s @ [(new_id, roleID)]\<rparr> else s1)
                             | None \<Rightarrow> s1)
                       else s1)))))"

definition record_login :: "nat \<Rightarrow> account \<Rightarrow> sso_server \<Rightarrow> sso_server" where
  "record_login now u s =
     s\<lparr>ss_users := map (\<lambda>v. if us_id v = us_id u then v\<lparr>us_last_login := Some now\<rparr> else v) (ss_users s),
       ss_audit := ss_audit s @ [(us_tenant u, ''user.sso_login'', us_id u)]\<rparr>"

text \<open>The e-mail of an assertion, or an identifier that looks like one\<close>

definition saml_email :: "string \<Rightarrow> string \<Rightarrow> string option" where
  "saml_email subjectID email =
     (if email \<noteq> [] then Some email
      else if subjectID \<noteq> [] \<and> length subjectID > 3 \<and> hd subjectID \<noteq> CHR ''_'' then Some subjectID
      else None)"

record saml_env =
  se_xml :: "string \<Rightarrow> saml_response option"
  se_token :: "string \<Rightarrow> string \<Rightarrow> bool \<Rightarrow> string option"
  se_frontend :: string
  se_new_id :: string
  se_now :: nat

definition saml_login ::
  "saml_env \<Rightarrow> sso_session \<Rightarrow> sso_provider \<Rightarrow> saml_assertion \<Rightarrow> sso_server \<Rightarrow> sso_response \<times> sso_server" where
  "saml_login e sn p a s =
     (let fail = (\<lambda>m. redirectToLoginWithError (se_frontend e) m);
          subjectID = (case sa_name_id a of Some t \<Rightarrow> t | None \<Rightarrow> []);
          name = saml_attribute saml_name_names (sa_attributes a)
      in case saml_email subjectID (saml_attribute saml_email_names (sa_attributes a)) of
           None \<Rightarrow> (fail ''Email not provided by identity provider'', s)
         | Some email \<Rightarrow>
             (case findOrCreateSSOUser (se_new_id e) (sn_tenant sn) p subjectID email name s of
                (None, s1) \<Rightarrow> (fail ''Failed to create user account'', s1)
              | (Some u, s1) \<Rightarrow>
                  (case se_token e (us_id u) (us_tenant u) (us_super_admin u) of
                     None \<Rightarrow> (fail ''Failed to generate session'', s1)
                   | Some token \<Rightarrow>
                       (SsoRedirect (frontend (se_frontend e) @ ''/auth/sso-callback?token='' @ token),
                        record_login (se_now e) u s1))))"

definition ssoSAMLACS ::
  "saml_env \<Rightarrow> (string \<times> string) option \<Rightarrow> sso_server \<Rightarrow> sso_response \<times> sso_server" where
  "ssoSAMLACS e form s =
     (let fail = (\<lambda>m. redirectToLoginWithError (se_frontend e) m)
      in case form of
           None \<Rightarrow> (fail ''Invalid SAML response'', s)
         | Some (samlResponse, relayState) \<Rightarrow>
             (if samlResponse = [] then (fail ''No SAML response received'', s)
              else (case find (\<lambda>n. sn_state n = relayState \<and> sn_expires n > se_now e) (ss_sessions s) of
                      None \<Rightarrow> (fail ''SSO session expired or invalid'', s)
                    | Some sn \<Rightarrow>
                        (let s1 = s\<lparr>ss_sessions := filter (\<lambda>n. sn_state n \<noteq> relayState) (ss_sessions s)\<rparr>
                         in case find (\<lambda>p. sp_id p = sn_provider sn) (ss_providers s1) of
                              None \<Rightarrow> (fail ''SSO provider not found'', s1)
                            | Some p \<Rightarrow>
                                (case b64_decode samlResponse of
                                   None \<Rightarrow> (fail ''Invalid SAML response encoding'', s1)
                                 | Some doc \<Rightarrow>
                                     (case se_xml e doc of
                                        None \<Rightarrow> (fail ''Invalid SAML response format'', s1)
                                      | Some r \<Rightarrow>
                                          (if sr_status r \<noteq> ''urn:oasis:names:tc:SAML:2.0:status:Success''
                                           then (fail ''SAML authentication failed'', s1)
                                           else (case sr_assertion r of
                                                   None \<Rightarrow> (fail ''No assertion in SAML response'', s1)
                                                 | Some a \<Rightarrow> saml_login e sn p a s1))))))))"

section \<open>The page\<close>

record sso_form =
  sf_name :: string
  sf_type :: string
  sf_enabled :: js
  sf_issuer_url :: string
  sf_client_id :: string
  sf_client_secret :: string
  sf_scopes :: string
  sf_metadata_url :: string
  sf_idp_entity_id :: string
  sf_sso_url :: string
  sf_certificate :: string
  sf_default_role :: string
  sf_auto_create :: js

definition text_or :: "js \<Rightarrow> string \<Rightarrow> string" where
  "text_or v d = (case v of JStr t \<Rightarrow> (if t = [] then d else t) | _ \<Rightarrow> d)"

definition sso_form_of :: "js \<Rightarrow> sso_form" where
  "sso_form_of provider =
     \<lparr>sf_name = text_or (jprop ''name'' provider) [], sf_type = text_or (jprop ''type'' provider) ''oidc'',
      sf_enabled = coalesce (jprop ''enabled'' provider) (JBool True),
      sf_issuer_url = text_or (jprop ''issuer_url'' provider) [],
      sf_client_id = text_or (jprop ''client_id'' provider) [], sf_client_secret = [],
      sf_scopes = (case jprop ''scopes'' provider of
                     JArr xs \<Rightarrow> (if join '', '' (map text_value xs) = [] then ''openid, email, profile''
                                 else join '', '' (map text_value xs))
                   | _ \<Rightarrow> ''openid, email, profile''),
      sf_metadata_url = text_or (jprop ''idp_metadata_url'' provider) [],
      sf_idp_entity_id = text_or (jprop ''idp_entity_id'' provider) [],
      sf_sso_url = text_or (jprop ''idp_sso_url'' provider) [], sf_certificate = [],
      sf_default_role = text_or (jprop ''default_role'' provider) ''user'',
      sf_auto_create = coalesce (jprop ''auto_create_users'' provider) (JBool True)\<rparr>"

definition sso_payload :: "sso_form \<Rightarrow> js" where
  "sso_payload f =
     JObj [(''name'', JStr (sf_name f)), (''type'', JStr (sf_type f)), (''enabled'', sf_enabled f),
           (''issuer_url'', JStr (sf_issuer_url f)), (''client_id'', JStr (sf_client_id f)),
           (''client_secret'', JStr (sf_client_secret f)),
           (''scopes'', JArr (map JStr (filter (\<lambda>t. t \<noteq> []) (map trim (split_on (CHR '','') (sf_scopes f)))))),
           (''idp_metadata_url'', JStr (sf_metadata_url f)),
           (''idp_entity_id'', JStr (sf_idp_entity_id f)), (''idp_sso_url'', JStr (sf_sso_url f)),
           (''idp_certificate'', JStr (sf_certificate f)), (''default_role'', JStr (sf_default_role f)),
           (''auto_create_users'', sf_auto_create f)]"

text \<open>The fields the dialog shows: label, the input's kind, and whether it must be filled.\<close>

definition sso_fields :: "js \<Rightarrow> sso_form \<Rightarrow> (string \<times> string \<times> bool) list" where
  "sso_fields provider f =
     (let kept = (if truthy provider then '' (leave blank to keep existing)'' else [])
      in [(''Name'', ''text'', True), (''Type'', ''select'', False)]
         @ (if sf_type f = ''oidc''
            then [(''Issuer URL'', ''url'', True), (''Client ID'', ''text'', True),
                  (''Client Secret'' @ kept, ''password'', \<not> truthy provider), (''Scopes'', ''text'', False)]
            else [])
         @ (if sf_type f = ''saml''
            then [(''IdP Entity ID'', ''text'', True), (''IdP SSO URL'', ''url'', True),
                  (''IdP Certificate (PEM format)'' @ kept, ''textarea'', False)]
            else [])
         @ [(''Default Role'', ''text'', False), (''Auto-create users'', ''checkbox'', False),
            (''Enabled'', ''checkbox'', False)])"

record sso_page =
  so_providers :: js
  so_loading :: bool
  so_showModal :: bool
  so_editing :: js
  so_copiedId :: "string option"

definition initial_sso :: sso_page where
  "initial_sso =
     \<lparr>so_providers = JArr [], so_loading = True, so_showModal = False, so_editing = JNull, so_copiedId = None\<rparr>"

definition fetchProviders :: "fe_env \<Rightarrow> sso_page \<times> fe_state \<Rightarrow> sso_page \<times> fe_state" where
  "fetchProviders e ps =
     (case ps of (p, s) \<Rightarrow>
        (case api_send e (new_request GET ''/admin/sso/providers'' JUndef) s of
           (Inl err, s') \<Rightarrow> (p\<lparr>so_loading := False\<rparr>,
                            show_toast Error (JStr ''Failed to load SSO providers'') s')
         | (Inr d, s') \<Rightarrow> (p\<lparr>so_providers := js_or d (JArr []), so_loading := False\<rparr>, s')))"

definition sso_handleDelete ::
  "fe_env \<Rightarrow> bool \<Rightarrow> string \<Rightarrow> sso_page \<times> fe_state \<Rightarrow> sso_page \<times> fe_state" where
  "sso_handleDelete e confirmed i ps =
     (if \<not> confirmed then ps
      else (case ps of (p, s) \<Rightarrow>
        (case api_send e (new_request DELETE (''/admin/sso/providers/'' @ i) JUndef) s of
           (Inl err, s') \<Rightarrow> (p, show_toast Error (JStr ''Failed to delete SSO provider'') s')
         | (Inr d, s') \<Rightarrow> fetchProviders e (p, show_toast Success (JStr ''SSO provider deleted'') s'))))"

definition toggle_body :: "js \<Rightarrow> js" where
  "toggle_body provider = JObj [(''enabled'', JBool (\<not> truthy (jprop ''enabled'' provider)))]"

definition sso_handleToggle :: "fe_env \<Rightarrow> js \<Rightarrow> sso_page \<times> fe_state \<Rightarrow> sso_page \<times> fe_state" where
  "sso_handleToggle e provider ps =
     (case ps of (p, s) \<Rightarrow>
        (case api_send e (new_request PUT (''/admin/sso/providers/'' @ text_value (jprop ''id'' provider))
                (toggle_body provider)) s of
           (Inl err, s') \<Rightarrow> (p, show_toast Error (JStr ''Failed to update SSO provider'') s')
         | (Inr d, s') \<Rightarrow>
             fetchProviders e (p, show_toast Success (JStr (''SSO provider ''
               @ (if truthy (jprop ''enabled'' provider) then ''disabled'' else ''enabled''))) s')))"

definition sso_open :: "js \<Rightarrow> sso_page \<Rightarrow> sso_page" where
  "sso_open provider p = p\<lparr>so_editing := provider, so_showModal := True\<rparr>"

definition sso_close :: "sso_page \<Rightarrow> sso_page" where
  "sso_close p = p\<lparr>so_showModal := False, so_editing := JNull\<rparr>"

text \<open>The copy of an address is marked for two seconds, whichever copy the timer was started by.\<close>

definition copyToClipboard :: "string \<Rightarrow> sso_page \<Rightarrow> sso_page" where
  "copyToClipboard i p = p\<lparr>so_copiedId := Some i\<rparr>"

definition copy_timeout :: "sso_page \<Rightarrow> sso_page" where
  "copy_timeout p = p\<lparr>so_copiedId := None\<rparr>"

definition sso_request :: "js \<Rightarrow> sso_form \<Rightarrow> api_request" where
  "sso_request provider f =
     (if truthy provider
      then new_request PUT (''/admin/sso/providers/'' @ text_value (jprop ''id'' provider)) (sso_payload f)
      else new_request POST ''/admin/sso/providers'' (sso_payload f))"

definition sso_handleSubmit :: "fe_env \<Rightarrow> sso_form \<Rightarrow> sso_page \<times> fe_state \<Rightarrow> sso_page \<times> fe_state" where
  "sso_handleSubmit e f ps =
     (case ps of (p, s) \<Rightarrow>
        (case api_send e (sso_request (so_editing p) f) s of
           (Inl err, s') \<Rightarrow>
             (p, show_toast Error (js_or (jprop ''error'' (jprop ''data'' (err_response err)))
                                     (JStr ''Failed to save SSO provider'')) s')
         | (Inr d, s') \<Rightarrow>
             fetchProviders e
               (sso_close p,
                show_toast Success (JStr (if truthy (so_editing p) then ''SSO provider updated''
                                          else ''SSO provider created'')) s')))"

text \<open>The addresses shown for the provider, where the port of the server stands for that of the page\<close>

definition sso_base_url :: "(string \<times> string) option \<Rightarrow> string" where
  "sso_base_url window =
     (case window of
        None \<Rightarrow> ''https://api.securelens.ai''
      | Some (protocol, host) \<Rightarrow> replace_once '':3000'' '':8080'' (protocol @ ''//'' @ host))"

definition config_urls :: "string \<Rightarrow> js \<Rightarrow> (string \<times> string) list" where
  "config_urls base provider =
     (if jprop ''type'' provider = JStr ''oidc''
      then [(''Callback URL'', base @ ''/api/v1/auth/sso/oidc/callback'')]
      else if jprop ''type'' provider = JStr ''saml''
      then (''ACS URL'', base @ ''/api/v1/auth/sso/saml/acs'')
           # (case jprop ''sp_entity_id'' provider of JStr (c # t) \<Rightarrow> [(''SP Entity ID'', c # t)] | _ \<Rightarrow> [])
      else [])"

definition provider_lines :: "js \<Rightarrow> (string \<times> js) list" where
  "provider_lines provider =
     (if jprop ''type'' provider = JStr ''oidc'' \<and> truthy (jprop ''issuer_url'' provider)
      then [(''Issuer'', jprop ''issuer_url'' provider)] else [])
     @ (if jprop ''type'' provider = JStr ''saml'' \<and> truthy (jprop ''idp_entity_id'' provider)
        then [(''IdP Entity ID'', jprop ''idp_entity_id'' provider)] else [])
     @ [(''Default Role'', jprop ''default_role'' provider),
        (''Auto-create Users'', JStr (if truthy (jprop ''auto_create_users'' provider) then ''Yes'' else ''No''))]"

section \<open>Theorems\<close>

lemma b64_digit_val [simp]: "b64_val (b64_digit n k) = Some (n div k mod 64)"
proof -
  have "\<forall>m\<in>set [0..<64]. b64_val (b64_char m) = Some m" by code_simp
  then show ?thesis by (simp add: b64_digit_def)
qed

lemma b64_plain:
  "\<forall>c\<in>set (CHR ''='' # b64_digits). c \<noteq> char_of (10::nat) \<and> c \<noteq> char_of (13::nat)"
  "\<forall>c\<in>set b64_digits. c \<noteq> CHR ''=''"
  by code_simp+

lemma b64_digit_in: "b64_digit n k \<in> set b64_digits"
  unfolding b64_digit_def b64_char_def by (rule nth_mem) (simp add: b64_digits_def)

lemma b64_digit_pad [simp]: "b64_digit n k \<noteq> CHR ''=''"
  using b64_digit_in b64_plain(2) by blast

lemma bits24_less: "bits24 a b c < 16777216"
proof -
  have "of_char a < (256::nat)" "of_char b < (256::nat)" "of_char c < (256::nat)" by simp_all
  then show ?thesis unfolding bits24_def by linarith
qed

lemma div_64: "(n::nat) div (k * 64) * 64 + n div k mod 64 = n div k"
  by (simp add: div_mult2_eq)

lemma bits24_12: "bits24 a b c div 262144 mod 64 * 64 + bits24 a b c div 4096 mod 64 = bits24 a b c div 4096"
  using bits24_less [of a b c] div_64 [of "bits24 a b c" 4096] by simp

lemma bits24_18: "bits24 a b c div 4096 * 64 + bits24 a b c div 64 mod 64 = bits24 a b c div 64"
  using div_64 [of "bits24 a b c" 64] by simp

lemma bits24_24: "bits24 a b c div 64 * 64 + bits24 a b c mod 64 = bits24 a b c"
  by simp

lemma three_bytes:
  fixes a b c :: nat
  assumes "a < 256" "b < 256" "c < 256"
  shows "(a * 65536 + b * 256 + c) div 65536 = a" "(a * 65536 + b * 256 + c) div 256 mod 256 = b"
    "(a * 65536 + b * 256 + c) mod 256 = c"
proof -
  let ?n = "a * 65536 + b * 256 + c"
  have n: "?n = c + (b + a * 256) * 256" by simp
  have d: "?n div 256 = b + a * 256" unfolding n using assms by (subst div_mult_self1) simp_all
  have "?n div 65536 = ?n div 256 div 256" by (simp only: div_mult2_eq [symmetric]) simp
  also have "\<dots> = (b + a * 256) div 256" by (simp only: d)
  finally show "?n div 65536 = a" using assms by simp
  show "?n div 256 mod 256 = b" unfolding d using assms by (subst mod_mult_self1) simp
  show "?n mod 256 = c" unfolding n using assms by (subst mod_mult_self1) simp
qed

lemma char_of_256: "n mod 256 = of_char c \<Longrightarrow> char_of (n::nat) = c"
  by (metis char_of_mod_256 char_of_char)

lemma bits24_bytes:
  "char_of (bits24 a b c div 65536) = a" "char_of (bits24 a b c div 256) = b"
  "char_of (bits24 a b c) = c"
proof -
  have less: "of_char a < (256::nat)" "of_char b < (256::nat)" "of_char c < (256::nat)" by simp_all
  note bytes = three_bytes [OF less, folded bits24_def]
  show "char_of (bits24 a b c div 65536) = a" by (simp add: bytes(1))
  show "char_of (bits24 a b c div 256) = b" by (rule char_of_256) (rule bytes(2))
  show "char_of (bits24 a b c) = c" by (rule char_of_256) (rule bytes(3))
qed

lemma bits24_div:
  "bits24 a b c div 4096 div 16 = bits24 a b c div 65536"
  "bits24 a b c div 64 div 1024 = bits24 a b c div 65536"
  "bits24 a b c div 64 div 4 = bits24 a b c div 256"
  by (simp_all add: div_mult2_eq [symmetric])

lemmas bits24_simps = bits24_12 bits24_18 bits24_24 bits24_bytes bits24_div

lemma b64_groups_encrypt: "b64_groups (encryptSecret s) = Some s"
  by (induction s rule: encryptSecret.induct) (simp_all add: Let_def bits24_simps)

lemma encrypt_chars: "set (encryptSecret s) \<subseteq> set (CHR ''='' # b64_digits)"
  by (induction s rule: encryptSecret.induct) (auto simp: Let_def b64_digit_in)

lemma b64_decode_encrypt [simp]: "b64_decode (encryptSecret s) = Some s"
proof -
  have "filter (\<lambda>c. c \<noteq> char_of (10::nat) \<and> c \<noteq> char_of (13::nat)) (encryptSecret s) = encryptSecret s"
    by (rule filter_True) (use encrypt_chars b64_plain(1) in blast)
  then show ?thesis by (simp add: b64_decode_def b64_groups_encrypt)
qed

text \<open>
  What the server stores of a client secret gives the secret back to whoever reads the row:
  \<open>decryptSecret\<close>, which takes no key, inverts \<open>encryptSecret\<close> on every text.
\<close>
theorem secret_recoverable: "decryptSecret (encryptSecret secret) = secret"
  by (simp add: decryptSecret_def)

text \<open>The form opened from a provider, field by field\<close>

definition clean_scopes :: "string list \<Rightarrow> bool" where
  "clean_scopes ts = (\<forall>t\<in>set ts. t \<noteq> [] \<and> CHR '','' \<notin> set t \<and> trim t = t)"

definition form_scopes :: "string list \<Rightarrow> string list" where
  "form_scopes ts = (if ts = [] then [''openid'', ''email'', ''profile''] else ts)"

definition column_text :: "string option \<Rightarrow> string" where
  "column_text v = (case v of None \<Rightarrow> [] | Some t \<Rightarrow> t)"

lemma prop_provider_json:
  "jprop ''name'' (provider_json p) = JStr (sp_name p)"
  "jprop ''id'' (provider_json p) = JStr (sp_id p)"
  "jprop ''type'' (provider_json p) = JStr (sp_type p)"
  "jprop ''enabled'' (provider_json p) = JBool (sp_enabled p)"
  "jprop ''default_role'' (provider_json p) = JStr (sp_default_role p)"
  "jprop ''auto_create_users'' (provider_json p) = JBool (sp_auto_create p)"
  by (auto simp: provider_json_def opt_field_def split: option.splits)

lemma text_provider_json:
  "text_or (jprop ''issuer_url'' (provider_json p)) [] = column_text (sp_issuer_url p)"
  "text_or (jprop ''client_id'' (provider_json p)) [] = column_text (sp_client_id p)"
  "text_or (jprop ''idp_metadata_url'' (provider_json p)) [] = column_text (sp_metadata_url p)"
  "text_or (jprop ''idp_entity_id'' (provider_json p)) [] = column_text (sp_idp_entity_id p)"
  "text_or (jprop ''idp_sso_url'' (provider_json p)) [] = column_text (sp_sso_url p)"
  by (auto simp: provider_json_def opt_field_def text_or_def column_text_def split: option.splits)

lemma text_or_str: "text_or (JStr t) d = (if t = [] then d else t)"
  by (simp add: text_or_def)

lemma scopes_provider_json:
  "jprop ''scopes'' (provider_json p) =
     (if sp_scopes p = [] then JUndef else JArr (map JStr (sp_scopes p)))"
  by (auto simp: provider_json_def opt_field_def split: option.splits)

lemma join_not_empty: "ts \<noteq> [] \<Longrightarrow> \<forall>t\<in>set ts. t \<noteq> [] \<Longrightarrow> join sep ts \<noteq> []"
  by (induction sep ts rule: join.induct) simp_all

lemma scopes_text:
  assumes "clean_scopes ts"
  shows "filter (\<lambda>t. t \<noteq> []) (map trim (split_on (CHR '','') (join '', '' (form_scopes ts)))) = form_scopes ts"
proof -
  have clean: "clean_scopes (form_scopes ts)"
    using assms by (auto simp: form_scopes_def clean_scopes_def trim_def is_space_def)
  then have "map trim (split_on (CHR '','') (join '', '' (form_scopes ts))) = form_scopes ts"
    by (intro split_join_trim) (auto simp: clean_scopes_def form_scopes_def)
  then show ?thesis using clean by (simp add: filter_id_conv clean_scopes_def)
qed

lemma scopes_form:
  assumes "clean_scopes (sp_scopes p)"
  shows "sf_scopes (sso_form_of (provider_json p)) = join '', '' (form_scopes (sp_scopes p))"
  using assms join_not_empty [of "sp_scopes p" "'', ''"]
  by (auto simp: sso_form_of_def scopes_provider_json form_scopes_def clean_scopes_def comp_def)

lemma bind_sso_payload:
  assumes "sf_enabled f = JBool b" "sf_auto_create f = JBool c"
  shows "bind_sso_update (sso_payload f) =
    Some \<lparr>su_name = Some (sf_name f), su_enabled = Some b, su_issuer_url = Some (sf_issuer_url f),
          su_client_id = Some (sf_client_id f), su_secret = Some (sf_client_secret f),
          su_scopes = filter (\<lambda>t. t \<noteq> []) (map trim (split_on (CHR '','') (sf_scopes f))),
          su_metadata_url = Some (sf_metadata_url f), su_idp_entity_id = Some (sf_idp_entity_id f),
          su_sso_url = Some (sf_sso_url f), su_certificate = Some (sf_certificate f),
          su_mapping = JUndef, su_default_role = Some (sf_default_role f), su_auto_create = Some c\<rparr>"
  using assms by (simp add: bind_sso_update_def sso_payload_def go_struct_def del: go_strings.simps(3))

text \<open>
  Saving the dialog of a provider without touching a field is not the identity: the certificate,
  which the dialog says is kept when its field is left blank, becomes empty, because the server writes
  every field that is present, and no handler returns the certificate that the form could start from.
  The client secret is kept (the server skips an empty one), absent addresses become empty texts, and
  every other field is what it was; the switch of the list changes \<open>enabled\<close> and nothing else.
\<close>
theorem sso_edit_erases_certificate:
  assumes "find_provider tenant i s = Some p" "clean_scopes (sp_scopes p)"
  shows "fst (updateSSOProvider tenant i (sso_payload (sso_form_of (provider_json p))) s) =
           SsoProvider (p\<lparr>sp_certificate := Some [], sp_scopes := form_scopes (sp_scopes p),
             sp_issuer_url := Some (column_text (sp_issuer_url p)),
             sp_client_id := Some (column_text (sp_client_id p)),
             sp_metadata_url := Some (column_text (sp_metadata_url p)),
             sp_idp_entity_id := Some (column_text (sp_idp_entity_id p)),
             sp_sso_url := Some (column_text (sp_sso_url p)),
             sp_default_role := (if sp_default_role p = [] then ''user'' else sp_default_role p)\<rparr>)
       \<and> fst (updateSSOProvider tenant i (toggle_body (provider_json p)) s) =
           SsoProvider (p\<lparr>sp_enabled := \<not> sp_enabled p\<rparr>)"
proof -
  have toggle: "bind_sso_update (toggle_body (provider_json p)) =
      Some \<lparr>su_name = None, su_enabled = Some (\<not> sp_enabled p), su_issuer_url = None, su_client_id = None,
            su_secret = None, su_scopes = [], su_metadata_url = None, su_idp_entity_id = None,
            su_sso_url = None, su_certificate = None, su_mapping = JUndef, su_default_role = None,
            su_auto_create = None\<rparr>"
    by (simp add: bind_sso_update_def toggle_body_def go_struct_def prop_provider_json)
  have edit: "bind_sso_update (sso_payload (sso_form_of (provider_json p))) =
      Some \<lparr>su_name = Some (sp_name p), su_enabled = Some (sp_enabled p),
            su_issuer_url = Some (column_text (sp_issuer_url p)),
            su_client_id = Some (column_text (sp_client_id p)), su_secret = Some [],
            su_scopes = form_scopes (sp_scopes p),
            su_metadata_url = Some (column_text (sp_metadata_url p)),
            su_idp_entity_id = Some (column_text (sp_idp_entity_id p)),
            su_sso_url = Some (column_text (sp_sso_url p)), su_certificate = Some [], su_mapping = JUndef,
            su_default_role = Some (if sp_default_role p = [] then ''user'' else sp_default_role p),
            su_auto_create = Some (sp_auto_create p)\<rparr>"
    by (subst bind_sso_payload [of _ "sp_enabled p" "sp_auto_create p"])
       (simp_all add: scopes_form [OF assms(2)] scopes_text [OF assms(2)],
        simp_all add: sso_form_of_def prop_provider_json text_provider_json text_or_str)
  have "form_scopes (sp_scopes p) \<noteq> []" by (simp add: form_scopes_def)
  then show ?thesis
    using assms(1)
    by (simp add: updateSSOProvider_def toggle edit sso_updated_def given_def given_null_def)
qed

definition ex_provider :: sso_provider where
  "ex_provider =
     \<lparr>sp_id = ''p1'', sp_tenant = ''t1'', sp_name = ''IdP'', sp_type = ''saml'', sp_enabled = True,
      sp_issuer_url = None, sp_client_id = None, sp_secret = Some (encryptSecret ''k''), sp_scopes = [],
      sp_metadata_url = None, sp_idp_entity_id = Some ''idp'', sp_sso_url = Some ''https://idp'',
      sp_certificate = Some ''PEM'', sp_entity_id = Some ''sp'', sp_mapping = JNull,
      sp_default_role = ''user'', sp_auto_create = False\<rparr>"

definition ex_admin :: account where
  "ex_admin =
     \<lparr>us_id = ''u1'', us_tenant = ''t1'', us_email = ''a@x'', us_name = ''A'', us_status = ''suspended'',
      us_super_admin = True, us_provider = None, us_subject = None, us_last_login = None\<rparr>"

definition ex_sso_server :: sso_server where
  "ex_sso_server =
     \<lparr>ss_providers = [ex_provider], ss_tenants = [(''acme'', ''t1'')], ss_sessions = [],
      ss_users = [ex_admin], ss_roles = [], ss_user_roles = [], ss_audit = []\<rparr>"

theorem sso_edit_erases_certificate_witness:
  "find_provider ''t1'' ''p1'' ex_sso_server = Some ex_provider \<and> clean_scopes (sp_scopes ex_provider)
   \<and> fst (updateSSOProvider ''t1'' ''p1'' (toggle_body (provider_json ex_provider)) ex_sso_server) =
       SsoProvider (ex_provider\<lparr>sp_enabled := False\<rparr>)"
proof -
  have *: "find_provider ''t1'' ''p1'' ex_sso_server = Some ex_provider"
    "clean_scopes (sp_scopes ex_provider)"
    by (simp_all add: find_provider_def ex_sso_server_def ex_provider_def clean_scopes_def)
  show ?thesis
    using * sso_edit_erases_certificate [OF *] by (simp add: ex_provider_def)
qed

text \<open>What the login reads of a provider\<close>

definition same_login :: "(sso_provider \<Rightarrow> sso_provider) \<Rightarrow> bool" where
  "same_login f =
     (\<forall>p. sp_id (f p) = sp_id p \<and> sp_auto_create (f p) = sp_auto_create p
        \<and> sp_default_role (f p) = sp_default_role p)"

lemma findOrCreateSSOUser_same:
  assumes "same_login f"
  shows "findOrCreateSSOUser i t (f p) sub m n (s\<lparr>ss_providers := ps\<rparr>) =
     apsnd (\<lambda>s'. s'\<lparr>ss_providers := ps\<rparr>) (findOrCreateSSOUser i t p sub m n s)"
  using assms by (simp add: findOrCreateSSOUser_def same_login_def Let_def split: option.split)

lemma saml_login_same:
  assumes "same_login f"
  shows "saml_login e sn (f p) a (s\<lparr>ss_providers := ps\<rparr>) =
     apsnd (\<lambda>s'. s'\<lparr>ss_providers := ps\<rparr>) (saml_login e sn p a s)"
  by (simp add: saml_login_def Let_def findOrCreateSSOUser_same [OF assms] record_login_def
      split: option.split prod.split)

text \<open>
  The answer to a SAML response, and all it does to the database, is independent of the
  certificate of the provider (as of its type, its addresses, its entity and whether it is enabled):
  no signature is ever checked. Only the provider's identity, its default role and whether it creates
  users matter.
\<close>
theorem saml_ignores_certificate:
  assumes "same_login f"
  shows "ssoSAMLACS e form (s\<lparr>ss_providers := map f (ss_providers s)\<rparr>) =
     apsnd (\<lambda>s'. s'\<lparr>ss_providers := map f (ss_providers s)\<rparr>) (ssoSAMLACS e form s)"
proof -
  have found: "(\<lambda>p. sp_id p = i) \<circ> f = (\<lambda>p. sp_id p = i)" for i
    using assms by (simp add: same_login_def fun_eq_iff)
  have drop: "s\<lparr>ss_providers := ps, ss_sessions := ns\<rparr> = (s\<lparr>ss_sessions := ns\<rparr>)\<lparr>ss_providers := ps\<rparr>"
    for ps ns by simp
  show ?thesis
    by (simp add: ssoSAMLACS_def Let_def find_map found saml_login_same [OF assms] drop
        split: option.split del: sso_server.update_convs)
qed

definition forget_certificate :: "sso_provider \<Rightarrow> sso_provider" where
  "forget_certificate p = p\<lparr>sp_certificate := None, sp_enabled := False\<rparr>"

theorem saml_ignores_certificate_witness:
  "same_login forget_certificate
   \<and> (\<forall>e form. ssoSAMLACS e form
          (ex_sso_server\<lparr>ss_providers := map forget_certificate (ss_providers ex_sso_server)\<rparr>) =
        apsnd (\<lambda>s'. s'\<lparr>ss_providers := map forget_certificate (ss_providers ex_sso_server)\<rparr>)
          (ssoSAMLACS e form ex_sso_server))"
proof -
  have "same_login forget_certificate" by (simp add: same_login_def forget_certificate_def)
  with saml_ignores_certificate [OF this] show ?thesis by blast
qed

definition assertion_of :: "string \<Rightarrow> saml_response" where
  "assertion_of email =
     \<lparr>sr_status = ''urn:oasis:names:tc:SAML:2.0:status:Success'',
      sr_assertion = Some \<lparr>sa_name_id = None, sa_attributes = [(''email'', [email])]\<rparr>\<rparr>"

lemma encryptSecret_empty [simp]: "encryptSecret s = [] \<longleftrightarrow> s = []"
  by (cases s rule: encryptSecret.cases) (simp_all add: Let_def)

text \<open>
  C21. Two requests without a credential log in as any user of a tenant that has a SAML provider: the
  first starts a login (it needs the tenant's slug and the provider's identifier, both public), the
  second posts a document of the sender's own that names the user's e-mail, and is redirected with a
  token of that user, super administrators and users that are not active included.
\<close>
theorem forged_response_logs_in:
  assumes tenant: "map_of (ss_tenants s) slug = Some t" "slug \<noteq> []"
    and provider: "find_provider t i s = Some p" "sp_enabled p" "sp_type p = ''saml''"
      "sp_sso_url p = Some url" "sp_idp_entity_id p = Some entity"
    and key: "find (\<lambda>q. sp_id q = i) (ss_providers s) = Some p"
    and fresh: "relay \<notin> sn_state ` set (ss_sessions s)"
    and user: "find (\<lambda>v. us_tenant v = t \<and> us_email v = us_email u) (ss_users s) = Some u" "us_email u \<noteq> []"
    and unlinked: "\<forall>v\<in>set (ss_users s). us_subject v \<noteq> Some []"
    and document: "se_xml e doc = Some (assertion_of (us_email u))" "doc \<noteq> []"
    and token: "se_token e (us_id u) t (us_super_admin u) = Some tok"
    and in_time: "se_now e < now + 600"
  shows "fst (ssoSAMLInitiate rq relay now i slug s) = SsoRedirect (rq url relay)
     \<and> fst (ssoSAMLACS e (Some (encryptSecret doc, relay)) (snd (ssoSAMLInitiate rq relay now i slug s))) =
         SsoRedirect (frontend (se_frontend e) @ ''/auth/sso-callback?token='' @ tok)"
proof -
  let ?n = "\<lparr>sn_state = relay, sn_tenant = t, sn_provider = i, sn_expires = now + 600\<rparr>"
  have i: "sp_id p = i" using find_SomeD [OF key] by simp
  have start: "ssoSAMLInitiate rq relay now i slug s =
      (SsoRedirect (rq url relay), s\<lparr>ss_sessions := ss_sessions s @ [?n]\<rparr>)"
    using tenant provider i by (simp add: ssoSAMLInitiate_def)
  have session: "find (\<lambda>n. sn_state n = relay \<and> sn_expires n > se_now e) (ss_sessions s @ [?n]) = Some ?n"
  proof -
    have "find (\<lambda>n. sn_state n = relay \<and> sn_expires n > se_now e) (ss_sessions s) = None"
      using fresh by (auto simp: find_None_iff)
    moreover have "find P (xs @ [y]) = Some y" if "find P xs = None" "P y" for P and xs :: "sso_session list" and y
      using that by (induction xs) (auto split: if_splits)
    ultimately show ?thesis using in_time by simp
  qed
  have nobody: "find (\<lambda>v. us_tenant v = t \<and> us_provider v = Some i \<and> us_subject v = Some []) (ss_users s) = None"
    using unlinked by (auto simp: find_None_iff)
  have email: "saml_email [] (us_email u) = Some (us_email u)" using user(2) by (simp add: saml_email_def)
  have in_tenant: "us_tenant u = t" using find_SomeD [OF user(1)] by simp
  show ?thesis
    by (simp add: start ssoSAMLACS_def Let_def session key document assertion_of_def saml_login_def
        saml_attribute_def saml_email_names_def email findOrCreateSSOUser_def i nobody user in_tenant token)
qed

definition ex_saml_env :: saml_env where
  "ex_saml_env =
     \<lparr>se_xml = (\<lambda>doc. if doc = ''a@x'' then Some (assertion_of doc) else None),
      se_token = (\<lambda>u t super. Some (u @ '':'' @ t)), se_frontend = [], se_new_id = ''u9'', se_now = 100\<rparr>"

theorem forged_response_logs_in_witness:
  "fst (ssoSAMLACS ex_saml_env (Some (encryptSecret ''a@x'', ''r1''))
      (snd (ssoSAMLInitiate (\<lambda>url r. url @ ''?RelayState='' @ r) ''r1'' 60 ''p1'' ''acme'' ex_sso_server))) =
     SsoRedirect ''https://app.securelens.ai/auth/sso-callback?token=u1:t1''"
proof -
  have "frontend (se_frontend ex_saml_env) = ''https://app.securelens.ai''"
    by (simp add: frontend_def ex_saml_env_def)
  then show ?thesis
    using forged_response_logs_in [of ex_sso_server "''acme''" "''t1''" "''p1''" ex_provider
        "''https://idp''" "''idp''" "''r1''" ex_admin ex_saml_env "''a@x''" "''u1:t1''" 60
        "\<lambda>url r. url @ ''?RelayState='' @ r"]
    by (simp add: ex_sso_server_def ex_provider_def ex_admin_def ex_saml_env_def find_provider_def)
qed

end
