(* ===== verification/FeShell.thy ===== *)
theory FeShell
  imports FePages "HOL-Library.Sublist"
begin

text \<open>
  The frame around every page: the store of the theme (\<open>store/theme.ts\<close>) with the component that applies
  it (\<open>components/providers.tsx\<close>), the store of the interface (\<open>store/ui.ts\<close>), the top bar and the
  sidebar (\<open>components/layout\<close>).

  A store that is persisted writes what it keeps on every change and reads it when the page is loaded.
\<close>

section \<open>The theme\<close>

datatype theme_mode = Light | Dark | System

text \<open>
  The store, the class \<open>dark\<close> of the document, what the system prefers, and what is persisted (the mode
  alone).
\<close>

record theme_state =
  th_mode :: theme_mode
  th_resolved :: theme_mode
  th_html_dark :: bool
  th_prefers_dark :: bool
  th_stored :: "theme_mode option"

definition loaded_theme :: "bool \<Rightarrow> theme_mode option \<Rightarrow> theme_state" where
  "loaded_theme prefers stored =
     \<lparr>th_mode = (case stored of None \<Rightarrow> System | Some m \<Rightarrow> m), th_resolved = Dark, th_html_dark = False,
      th_prefers_dark = prefers, th_stored = stored\<rparr>"

definition persisted_theme :: "theme_state \<Rightarrow> theme_state" where
  "persisted_theme s = s\<lparr>th_stored := Some (th_mode s)\<rparr>"

definition getSystemTheme :: "theme_state \<Rightarrow> theme_mode" where
  "getSystemTheme s = (if th_prefers_dark s then Dark else Light)"

definition applyTheme :: "theme_mode \<Rightarrow> theme_state \<Rightarrow> theme_state" where
  "applyTheme mode s =
     (let isDark = getSystemTheme s = Dark;
          resolved = (if mode = System then (if isDark then Dark else Light) else mode);
          s1 = persisted_theme (s\<lparr>th_resolved := resolved\<rparr>)
      in if resolved = Dark then s1\<lparr>th_html_dark := True\<rparr> else s1\<lparr>th_html_dark := False\<rparr>)"

definition setMode :: "theme_mode \<Rightarrow> theme_state \<Rightarrow> theme_state" where
  "setMode mode s = applyTheme mode (persisted_theme (s\<lparr>th_mode := mode\<rparr>))"

definition setResolved :: "theme_mode \<Rightarrow> theme_state \<Rightarrow> theme_state" where
  "setResolved resolved s = persisted_theme (s\<lparr>th_resolved := resolved\<rparr>)"

definition toggle_theme :: "theme_state \<Rightarrow> theme_state" where
  "toggle_theme s =
     (let newResolved = (if th_resolved s = Light then Dark else Light)
      in applyTheme newResolved
           (persisted_theme (s\<lparr>th_resolved := newResolved, th_mode := newResolved\<rparr>)))"

text \<open>The listener of the module and that of the effect hear every change of what the system prefers.\<close>

definition on_prefers_change :: "theme_state \<Rightarrow> theme_state" where
  "on_prefers_change s = (if th_mode s = System then applyTheme System s else s)"

definition providers_effect :: "theme_state \<Rightarrow> theme_state" where
  "providers_effect s = applyTheme (th_mode s) s"

definition toaster_theme :: "theme_state \<Rightarrow> theme_mode" where
  "toaster_theme s = (if th_mode s = System then getSystemTheme s else th_mode s)"

definition handleThemeToggle :: "theme_state \<Rightarrow> theme_state" where
  "handleThemeToggle s = setMode (if th_mode s = Dark then Light else Dark) s"

datatype theme_icon = Sun | Moon

definition theme_icon :: "theme_state \<Rightarrow> theme_icon" where
  "theme_icon s = (if th_mode s = Dark \<or> th_mode s = System \<and> th_prefers_dark s then Sun else Moon)"

text \<open>What happens to a page, which is rendered again when the mode has changed\<close>

datatype theme_event = ThemeClick | ThemeToggle | ThemeMode theme_mode | Prefers bool | Reload

definition rendered_theme :: "theme_state \<Rightarrow> theme_state \<Rightarrow> theme_state" where
  "rendered_theme before s = (if th_mode s \<noteq> th_mode before then providers_effect s else s)"

definition open_page :: "bool \<Rightarrow> theme_mode option \<Rightarrow> theme_state" where
  "open_page prefers stored = providers_effect (loaded_theme prefers stored)"

fun theme_next :: "theme_event \<Rightarrow> theme_state \<Rightarrow> theme_state" where
  "theme_next ThemeClick s = rendered_theme s (handleThemeToggle s)"
| "theme_next ThemeToggle s = rendered_theme s (toggle_theme s)"
| "theme_next (ThemeMode m) s = rendered_theme s (setMode m s)"
| "theme_next (Prefers b) s =
     (if b = th_prefers_dark s then s else on_prefers_change (on_prefers_change (s\<lparr>th_prefers_dark := b\<rparr>)))"
| "theme_next Reload s = open_page (th_prefers_dark s) (th_stored s)"

definition theme_run :: "theme_event list \<Rightarrow> theme_state \<Rightarrow> theme_state" where
  "theme_run es s = fold theme_next es s"

section \<open>The interface\<close>

record ui_state =
  ui_sidebarOpen :: bool
  ui_activeFilters :: js
  ui_currentPage :: int
  ui_pageSize :: int

definition initial_ui :: ui_state where
  "initial_ui = \<lparr>ui_sidebarOpen = True, ui_activeFilters = JObj [], ui_currentPage = 1, ui_pageSize = 20\<rparr>"

definition setSidebarOpen :: "bool \<Rightarrow> ui_state \<Rightarrow> ui_state" where
  "setSidebarOpen b s = s\<lparr>ui_sidebarOpen := b\<rparr>"

definition toggleSidebar :: "ui_state \<Rightarrow> ui_state" where
  "toggleSidebar s = s\<lparr>ui_sidebarOpen := \<not> ui_sidebarOpen s\<rparr>"

definition setActiveFilters :: "js \<Rightarrow> ui_state \<Rightarrow> ui_state" where
  "setActiveFilters filters s = s\<lparr>ui_activeFilters := filters\<rparr>"

definition clearFilters :: "ui_state \<Rightarrow> ui_state" where
  "clearFilters s = s\<lparr>ui_activeFilters := JObj [], ui_currentPage := 1\<rparr>"

definition setCurrentPage :: "int \<Rightarrow> ui_state \<Rightarrow> ui_state" where
  "setCurrentPage page s = s\<lparr>ui_currentPage := page\<rparr>"

definition setPageSize :: "int \<Rightarrow> ui_state \<Rightarrow> ui_state" where
  "setPageSize n s = s\<lparr>ui_pageSize := n\<rparr>"

section \<open>The top bar\<close>

definition top_bar_logout :: "fe_env \<Rightarrow> bool \<times> fe_state \<Rightarrow> bool \<times> fe_state" where
  "top_bar_logout e ms = (False, snd (run_mutation e useLogout () (snd ms)))"

definition user_initial :: "js \<Rightarrow> string" where
  "user_initial user = to_upper (take 1 (text_value (jprop ''name'' user)))"

section \<open>The sidebar\<close>

definition navGroups :: "(string \<times> (string \<times> string) list) list" where
  "navGroups =
     [(''Insights'', [(''Dashboard'', ''/dashboard''), (''Data Map'', ''/data-map''),
                      (''Lineage'', ''/lineage'')]),
      (''Discover'', [(''Data Sources'', ''/data-sources''), (''Classification'', ''/classification''),
                      (''Documents'', ''/documents''), (''Labels'', ''/labels''),
                      (''Data Residency'', ''/data-map/residency'')]),
      (''Protect'', [(''Policies'', ''/governance''), (''AI Gate'', ''/ai-gate''),
                     (''Remediation'', ''/remediation'')]),
      (''Improve'', [(''Quality'', ''/quality''), (''ROT Analysis'', ''/rot''),
                     (''Feedback'', ''/feedback''), (''Critical Elements'', ''/quality/cde'')]),
      (''Comply'', [(''Privacy Center'', ''/privacy''), (''DPIA'', ''/privacy/dpia''),
                    (''Advisor'', ''/advisor''), (''Reports'', ''/audit/reports'')]),
      (''System'', [(''Audit Trail'', ''/audit''), (''Integrations'', ''/integrations''),
                    (''Jobs'', ''/jobs''), (''Observability'', ''/observability''),
                    (''Endpoints'', ''/endpoints''), (''Settings'', ''/settings'')])]"

definition nav_hrefs :: "string list" where
  "nav_hrefs = concat (map (map snd \<circ> snd) navGroups)"

definition isActive :: "string \<Rightarrow> string \<Rightarrow> bool" where
  "isActive pathname href \<longleftrightarrow> pathname = href \<or> starts_with pathname (href @ ''/'')"

definition formatUptime :: "nat \<Rightarrow> string" where
  "formatUptime seconds =
     (if seconds < 60 then nat_str seconds @ ''s''
      else if seconds < 3600 then nat_str (seconds div 60) @ ''m''
      else if seconds < 86400
      then (let hours = seconds div 3600; mins = seconds mod 3600 div 60
            in if mins > 0 then nat_str hours @ ''h '' @ nat_str mins @ ''m'' else nat_str hours @ ''h'')
      else (let days = seconds div 86400; hours = seconds mod 86400 div 3600
            in if hours > 0 then nat_str days @ ''d '' @ nat_str hours @ ''h'' else nat_str days @ ''d''))"

definition statusText :: "js \<Rightarrow> string" where
  "statusText health =
     (let status = jprop ''status'' health
      in if status = JStr ''healthy'' then ''All systems healthy''
         else if status = JStr ''degraded'' then ''Systems degraded''
         else if status = JStr ''unhealthy'' then ''Systems unhealthy''
         else ''Checking status...'')"

definition statusColor :: "js \<Rightarrow> string" where
  "statusColor health =
     (let status = jprop ''status'' health
      in if status = JStr ''healthy'' then ''bg-green-500''
         else if status = JStr ''degraded'' then ''bg-yellow-500''
         else if status = JStr ''unhealthy'' then ''bg-red-500''
         else ''bg-gray-400'')"

text \<open>On a narrow screen: the overlay that covers the page, and whether the sidebar is in view\<close>

definition overlay_shown :: "ui_state \<Rightarrow> bool" where
  "overlay_shown s \<longleftrightarrow> \<not> ui_sidebarOpen s"

definition sidebar_shown :: "ui_state \<Rightarrow> bool" where
  "sidebar_shown s \<longleftrightarrow> ui_sidebarOpen s"

text \<open>A click on the menu, on the overlay and on any link of the sidebar is the same to the store.\<close>

datatype nav_event = MenuClick | OverlayClick | LinkClick string

fun nav_next :: "nav_event \<Rightarrow> ui_state \<times> fe_state \<Rightarrow> ui_state \<times> fe_state" where
  "nav_next MenuClick us = (toggleSidebar (fst us), snd us)"
| "nav_next OverlayClick us = (toggleSidebar (fst us), snd us)"
| "nav_next (LinkClick href) us = (toggleSidebar (fst us), navigate (Push href) (snd us))"

section \<open>Theorems\<close>

definition consistent_theme :: "theme_state \<Rightarrow> bool" where
  "consistent_theme s \<longleftrightarrow>
     th_resolved s = (if th_mode s = System then getSystemTheme s else th_mode s)
     \<and> (th_html_dark s \<longleftrightarrow> th_resolved s = Dark) \<and> th_stored s = Some (th_mode s)"

lemmas theme_defs =
  applyTheme_def persisted_theme_def getSystemTheme_def setMode_def toggle_theme_def
  on_prefers_change_def providers_effect_def rendered_theme_def open_page_def loaded_theme_def
  handleThemeToggle_def Let_def

lemma open_page_consistent: "consistent_theme (open_page b m)"
  by (simp add: consistent_theme_def theme_defs split: option.split)

lemma theme_next_consistent: "consistent_theme s \<Longrightarrow> consistent_theme (theme_next ev s)"
proof (cases ev)
  case Reload
  then show ?thesis by (simp add: open_page_consistent)
qed (auto simp: consistent_theme_def theme_defs)

lemma theme_run_consistent: "consistent_theme s \<Longrightarrow> consistent_theme (theme_run es s)"
  unfolding theme_run_def by (induction es arbitrary: s) (simp_all add: theme_next_consistent)

lemma reload_same: "consistent_theme s \<Longrightarrow> theme_next Reload s = s"
  by (auto simp: consistent_theme_def theme_defs)

text \<open>
  Whatever is clicked, changed or loaded again, the class of the document, the resolved theme, the
  icon of the top bar and the theme of the toasts agree with the mode and with what the system
  prefers, and loading the page again changes nothing.
\<close>
theorem theme_consistent:
  "let s = theme_run es (open_page prefers stored)
   in (th_html_dark s \<longleftrightarrow> (th_mode s = Dark \<or> th_mode s = System \<and> th_prefers_dark s))
      \<and> (th_resolved s = Dark \<longleftrightarrow> th_html_dark s) \<and> (theme_icon s = Sun \<longleftrightarrow> th_html_dark s)
      \<and> toaster_theme s = th_resolved s \<and> theme_next Reload s = s"
proof -
  let ?s = "theme_run es (open_page prefers stored)"
  have c: "consistent_theme ?s" by (rule theme_run_consistent) (rule open_page_consistent)
  show ?thesis
    unfolding Let_def using reload_same [OF c] c
    by (auto simp: consistent_theme_def theme_icon_def toaster_theme_def getSystemTheme_def)
qed

text \<open>
  On a system that prefers dark the first click, under the icon of the sun, leaves everything dark; and
  no click leads back to the mode of the system.
\<close>
lemma first_theme_click:
  "th_html_dark (theme_next ThemeClick (open_page True None)) = th_html_dark (open_page True None)"
  "th_mode (theme_next ThemeClick s) \<noteq> System"
  by (simp_all add: theme_defs)

text \<open>Active items: their addresses are comparable, and the sidebar nests four of them.\<close>

definition nested_hrefs :: "(string \<times> string) list" where
  "nested_hrefs =
     [(''/data-map'', ''/data-map/residency''), (''/quality'', ''/quality/cde''),
      (''/privacy'', ''/privacy/dpia''), (''/audit'', ''/audit/reports'')]"

definition active_hrefs :: "string \<Rightarrow> string list" where
  "active_hrefs pathname = filter (isActive pathname) nav_hrefs"

lemma isActive_prefix: "isActive p h \<longleftrightarrow> prefix (h @ ''/'') (p @ ''/'')"
proof
  assume "isActive p h"
  then show "prefix (h @ ''/'') (p @ ''/'')"
    by (auto simp: isActive_def starts_with_iff prefix_def)
next
  assume "prefix (h @ ''/'') (p @ ''/'')"
  then have "h @ ''/'' = p @ ''/'' \<or> prefix (h @ ''/'') p" by (simp only: prefix_snoc)
  then show "isActive p h" by (auto simp: isActive_def starts_with_iff prefix_def)
qed

lemma nav_nested:
  "\<forall>a\<in>set nav_hrefs. \<forall>b\<in>set nav_hrefs. isActive b a \<longrightarrow> a = b \<or> (a, b) \<in> set nested_hrefs"
  by code_simp

lemma nested_nav: "\<forall>(a, b)\<in>set nested_hrefs. isActive b a \<and> a \<in> set nav_hrefs \<and> b \<in> set nav_hrefs"
  by code_simp

lemma distinct_nav: "distinct nav_hrefs"
  by code_simp

lemma nested_disjoint:
  "(a, b) \<in> set nested_hrefs \<Longrightarrow> (c, d) \<in> set nested_hrefs \<Longrightarrow>
     (a = c \<longleftrightarrow> b = d) \<and> a \<noteq> d"
  by (auto simp: nested_hrefs_def)

lemma isActive_trans: "isActive b a \<Longrightarrow> isActive p b \<Longrightarrow> isActive p a"
  unfolding isActive_prefix by (rule prefix_order.trans)

lemma active_nested:
  assumes "a \<in> set (active_hrefs p)" "b \<in> set (active_hrefs p)"
  shows "a = b \<or> (a, b) \<in> set nested_hrefs \<or> (b, a) \<in> set nested_hrefs"
proof -
  have "isActive p a" "isActive p b" using assms by (simp_all add: active_hrefs_def)
  then have "prefix (a @ ''/'') (p @ ''/'')" "prefix (b @ ''/'') (p @ ''/'')"
    by (simp_all only: isActive_prefix)
  then have "isActive b a \<or> isActive a b"
    unfolding isActive_prefix using prefix_same_cases by blast
  then show ?thesis using assms nav_nested by (auto simp: active_hrefs_def)
qed

text \<open>
  At most two items of the sidebar are highlighted, and two exactly at the pages below one of four
  nested addresses (residency, critical elements, impact assessments, reports), where the item of the
  parent stays highlighted.
\<close>
theorem sidebar_highlights:
  "(length (active_hrefs p) \<le> 1 \<or> (\<exists>(a, b)\<in>set nested_hrefs. set (active_hrefs p) = {a, b}))
   \<and> (2 \<le> length (active_hrefs p) \<longleftrightarrow> (\<exists>(a, b)\<in>set nested_hrefs. isActive p b))"
proof -
  let ?A = "active_hrefs p"
  have card: "length ?A = card (set ?A)"
    using distinct_card [OF distinct_filter [OF distinct_nav]] by (simp add: active_hrefs_def)
  have pair: "set ?A = {a, b}" if "(a, b) \<in> set nested_hrefs" "a \<in> set ?A" "b \<in> set ?A" for a b
  proof -
    have "c = a \<or> c = b" if "c \<in> set ?A" for c
      using active_nested [OF that \<open>a \<in> set ?A\<close>] active_nested [OF that \<open>b \<in> set ?A\<close>] nested_disjoint
        \<open>(a, b) \<in> set nested_hrefs\<close> by blast
    then show ?thesis using that by auto
  qed
  have differ: "a \<noteq> b" if "(a, b) \<in> set nested_hrefs" for a b using that nested_disjoint by blast
  have up: "a \<in> set ?A \<and> b \<in> set ?A" if "(a, b) \<in> set nested_hrefs" "isActive p b" for a b
    using that nested_nav isActive_trans by (fastforce simp: active_hrefs_def)
  have two: "\<exists>(a, b)\<in>set nested_hrefs. set ?A = {a, b} \<and> isActive p b" if many: "\<not> length ?A \<le> 1"
  proof -
    obtain c d where "c \<in> set ?A" "d \<in> set ?A" "c \<noteq> d"
      using many card card_le_Suc0_iff_eq [of "set ?A"] by auto
    then obtain a b where "(a, b) \<in> set nested_hrefs" "a \<in> set ?A" "b \<in> set ?A"
      using active_nested by blast
    then show ?thesis using pair by (auto simp: active_hrefs_def)
  qed
  have "2 \<le> length ?A" if "(a, b) \<in> set nested_hrefs" "isActive p b" for a b
    using pair [OF that(1)] up [OF that] differ [OF that(1)] card by simp
  then show ?thesis using two by fastforce
qed

text \<open>On a narrow screen the page is covered exactly while the sidebar is out of view; a link toggles it.\<close>
lemma overlay_covers_page:
  "overlay_shown u \<longleftrightarrow> \<not> sidebar_shown u"
  "overlay_shown (fst (nav_next ev (u, s))) \<longleftrightarrow> \<not> overlay_shown u"
  by (simp_all add: overlay_shown_def sidebar_shown_def, cases ev, simp_all add: toggleSidebar_def)

end
