(* ===== verification/GoAuth.thy ===== *)
theory GoAuth
  imports GoLib
begin

text \<open>
  Accounts on the server (\<open>src/internal/api/auth.go\<close>): login, API keys, users and invitations, with what
  a request passes before it reaches a handler (\<open>authMiddleware\<close>, \<open>tenantMiddleware\<close> and
  \<open>rbacMiddleware\<close> of \<open>server.go\<close>, \<open>pkg.HasPermission\<close>).

  The database is taken as reachable, with the tables of the migrations: the statements on API keys name a
  column that no migration creates, and fail. Tables are lists, newest first, and unique columns are
  checked on insertion. Times are seconds, generated ids,
  tokens and keys are arguments. Hashes, signed tokens and the check of an e-mail are parameters.
\<close>

section \<open>State\<close>

record member =
  mb_id :: string
  mb_tenant :: string
  mb_email :: string
  mb_hash :: string
  mb_name :: string
  mb_status :: string
  mb_super :: bool
  mb_last_login :: "nat option"

record api_key =
  ak_id :: string
  ak_tenant :: string
  ak_user :: string
  ak_hash :: string
  ak_prefix :: string
  ak_name :: string
  ak_expires :: nat
  ak_created :: nat

record invitation =
  iv_id :: string
  iv_tenant :: string
  iv_email :: string
  iv_role :: string
  iv_token :: string
  iv_invited_by :: string
  iv_expires :: nat
  iv_accepted :: "nat option"
  iv_created :: nat

record auth_db =
  ad_users :: "member list"
  ad_keys :: "api_key list"
  ad_invitations :: "invitation list"
  ad_tenants :: "(string \<times> string) list"
  ad_roles :: "((string \<times> string) \<times> string) list"
  ad_user_roles :: "(string \<times> string) list"
  ad_audit :: "(string \<times> string \<times> string) list"

record claims =
  cl_user :: string
  cl_tenant :: string
  cl_permissions :: "string list"
  cl_super :: bool

record auth_env =
  ae_hash :: "string \<Rightarrow> string option"
  ae_check :: "string \<Rightarrow> string \<Rightarrow> bool"
  ae_token :: "claims \<Rightarrow> nat \<Rightarrow> string option"
  ae_claims :: "string \<Rightarrow> nat \<Rightarrow> claims option"
  ae_email :: "string \<Rightarrow> bool"

text \<open>Who a request comes from, once \<open>authMiddleware\<close> has passed it\<close>

record caller =
  ca_user :: string
  ca_tenant :: string
  ca_permissions :: "string list"
  ca_super :: bool

datatype auth_answer =
    AuthError nat string
  | LoggedIn string
  | KeyCreated string string
  | Keys "api_key list"
  | Users "member list"
  | User member
  | Invited invitation string
  | Invitations "invitation list"
  | Verified invitation string
  | Registered string string
  | Done string

text \<open>\<open>pkg.Error\<close> with the errors that have a status of their own\<close>

definition bad_request :: auth_answer where
  "bad_request = AuthError 400 ''bad request''"

definition unauthorized :: auth_answer where
  "unauthorized = AuthError 401 ''unauthorized''"

definition forbidden :: auth_answer where
  "forbidden = AuthError 403 ''forbidden''"

definition not_found :: auth_answer where
  "not_found = AuthError 404 ''not found''"

definition duplicate :: auth_answer where
  "duplicate = AuthError 500 ''duplicate key''"

text \<open>
  The columns of the table \<open>api_keys\<close> after all migrations. A statement that names another column fails;
  the handlers answer its error with status 500. (The rows of the model still have the prefix the
  handlers write, for the day a migration adds the column.)
\<close>

definition api_keys_columns :: "string list" where
  "api_keys_columns =
     [''id'', ''tenant_id'', ''user_id'', ''key_hash'', ''name'', ''permissions'', ''expires_at'',
      ''last_used_at'', ''created_at'']"

definition runs_on :: "string list \<Rightarrow> string list \<Rightarrow> bool" where
  "runs_on columns named \<longleftrightarrow> set named \<subseteq> set columns"

definition missing_column :: auth_answer where
  "missing_column = AuthError 500 ''column does not exist''"

definition body_texts :: "string list \<Rightarrow> js \<Rightarrow> string list option" where
  "body_texts ks body =
     (let vs = map (\<lambda>k. go_string (jprop k body)) ks
      in if go_struct body \<and> None \<notin> set vs then Some (map the vs) else None)"

section \<open>Before the handlers\<close>

definition has_permission :: "caller \<Rightarrow> string \<Rightarrow> bool" where
  "has_permission c perm \<longleftrightarrow>
     ca_super c
     \<or> (\<exists>p\<in>set (ca_permissions c).
          p = perm \<or> p = ''*''
          \<or> drop (length p - 2) p = '':*'' \<and> 2 \<le> length p \<and> starts_with perm (take (length p - 1) p))"

definition key_caller :: "api_key \<Rightarrow> caller" where
  "key_caller k = \<lparr>ca_user = ak_user k, ca_tenant = ak_tenant k, ca_permissions = [''*''], ca_super = False\<rparr>"

definition claims_caller :: "claims \<Rightarrow> caller" where
  "claims_caller c =
     \<lparr>ca_user = cl_user c, ca_tenant = cl_tenant c, ca_permissions = cl_permissions c, ca_super = cl_super c\<rparr>"

definition token_text :: "string \<Rightarrow> string \<Rightarrow> string" where
  "token_text authorization query =
     (let t = (if starts_with authorization ''Bearer '' then drop 7 authorization else [])
      in if t = [] then query else t)"

text \<open>A key of fewer than ten characters is sliced out of bounds; the panic is answered with 500.\<close>

definition authMiddleware :: "auth_env \<Rightarrow> nat \<Rightarrow> string \<Rightarrow> auth_db \<Rightarrow> auth_answer + caller" where
  "authMiddleware e now tok s =
     (if tok = [] then Inl unauthorized
      else if starts_with tok ''sl_''
      then (if length tok < 10 then Inl (AuthError 500 [])
            else if \<not> runs_on api_keys_columns [''id'', ''tenant_id'', ''user_id'', ''key_hash'',
                                             ''expires_at'', ''key_prefix'']
            then Inl unauthorized
            else (case find (\<lambda>k. ak_prefix k = take 10 tok) (ad_keys s) of
                    None \<Rightarrow> Inl unauthorized
                  | Some k \<Rightarrow>
                      (if \<not> ae_check e tok (ak_hash k) then Inl unauthorized
                       else if ak_expires k < now then Inl unauthorized
                       else Inr (key_caller k))))
      else (case ae_claims e tok now of
              None \<Rightarrow> Inl unauthorized
            | Some c \<Rightarrow> Inr (claims_caller c)))"

definition tenantMiddleware :: "caller \<Rightarrow> auth_answer option" where
  "tenantMiddleware c = (if ca_tenant c = [] \<and> \<not> ca_super c then Some forbidden else None)"

definition rbacMiddleware :: "string \<Rightarrow> http_method \<Rightarrow> caller \<Rightarrow> auth_answer option" where
  "rbacMiddleware permission m c =
     (if ca_super c then None
      else (let requiredPerm = (if m = POST \<or> m = PUT \<or> m = DELETE \<or> m = PATCH
                                then replace_once '':read'' '':write'' permission else permission)
            in if \<not> has_permission c requiredPerm then Some forbidden else None))"

text \<open>A route: what it demands, and the handler behind it\<close>

definition serve ::
  "auth_env \<Rightarrow> nat \<Rightarrow> string \<Rightarrow> string option \<Rightarrow> http_method \<Rightarrow> (caller \<Rightarrow> auth_db \<Rightarrow> auth_answer \<times> auth_db)
     \<Rightarrow> auth_db \<Rightarrow> auth_answer \<times> auth_db" where
  "serve e now tok permission m handler s =
     (case authMiddleware e now tok s of
        Inl r \<Rightarrow> (r, s)
      | Inr c \<Rightarrow>
          (case tenantMiddleware c of
             Some r \<Rightarrow> (r, s)
           | None \<Rightarrow>
               (case permission of
                  None \<Rightarrow> handler c s
                | Some p \<Rightarrow> (case rbacMiddleware p m c of Some r \<Rightarrow> (r, s) | None \<Rightarrow> handler c s))))"

section \<open>Login and keys\<close>

text \<open>The permissions of the user's roles are read and dropped: the list stays empty.\<close>

definition login :: "auth_env \<Rightarrow> nat \<Rightarrow> js \<Rightarrow> auth_db \<Rightarrow> auth_answer \<times> auth_db" where
  "login e now body s =
     (case body_texts [''email'', ''password''] body of
        Some [email, password] \<Rightarrow>
          (if email = [] \<or> \<not> ae_email e email \<or> password = [] then (bad_request, s)
           else (case find (\<lambda>u. mb_email u = email \<and> mb_status u = ''active'') (ad_users s) of
                   None \<Rightarrow> (unauthorized, s)
                 | Some u \<Rightarrow>
                     (if \<not> ae_check e password (mb_hash u) then (unauthorized, s)
                      else (case ae_token e \<lparr>cl_user = mb_id u, cl_tenant = mb_tenant u,
                                             cl_permissions = [], cl_super = mb_super u\<rparr> now of
                              None \<Rightarrow> (AuthError 500 ''token'', s)
                            | Some t \<Rightarrow>
                                (LoggedIn t,
                                 s\<lparr>ad_users := map (\<lambda>v. if mb_id v = mb_id u then v\<lparr>mb_last_login := Some now\<rparr>
                                                       else v) (ad_users s),
                                   ad_audit := ad_audit s @ [(mb_tenant u, ''user.login'', mb_id u)]\<rparr>)))))
      | _ \<Rightarrow> (bad_request, s))"

definition logout :: "auth_answer" where
  "logout = Done ''ok''"

definition createAPIKey ::
  "auth_env \<Rightarrow> nat \<Rightarrow> string \<Rightarrow> string \<Rightarrow> js \<Rightarrow> caller \<Rightarrow> auth_db \<Rightarrow> auth_answer \<times> auth_db" where
  "createAPIKey e now new_id random body c s =
     (case (body_texts [''name''] body, go_strings (jprop ''permissions'' body),
            go_int (jprop ''expires_in'' body)) of
        (Some [name], Some permissions, Some expires_in) \<Rightarrow>
          (if name = [] then (bad_request, s)
           else
             (let days = (if expires_in \<le> 0 then 30 else nat expires_in);
                  plainKey = ''sl_'' @ random
              in case ae_hash e plainKey of
                   None \<Rightarrow> (AuthError 500 ''failed to hash key'', s)
                 | Some h \<Rightarrow>
                     (if \<not> runs_on api_keys_columns [''id'', ''tenant_id'', ''user_id'', ''key_hash'',
                              ''key_prefix'', ''name'', ''permissions'', ''expires_at'', ''created_at'']
                      then (missing_column, s)
                      else (KeyCreated new_id plainKey,
                        s\<lparr>ad_keys := \<lparr>ak_id = new_id, ak_tenant = ca_tenant c, ak_user = ca_user c, ak_hash = h,
                                     ak_prefix = take 10 plainKey, ak_name = name,
                                     ak_expires = now + days * 86400, ak_created = now\<rparr> # ad_keys s\<rparr>))))
      | _ \<Rightarrow> (bad_request, s))"

definition revokeAPIKey :: "string \<Rightarrow> caller \<Rightarrow> auth_db \<Rightarrow> auth_answer \<times> auth_db" where
  "revokeAPIKey i c s =
     (Done ''deleted'', s\<lparr>ad_keys := filter (\<lambda>k. \<not> (ak_tenant k = ca_tenant c \<and> ak_id k = i)) (ad_keys s)\<rparr>)"

text \<open>\<open>ParseListOpts\<close>: at most a hundred rows, fifty when the request does not say\<close>

definition ParseListOpts :: "int option \<Rightarrow> int option \<Rightarrow> nat \<times> nat" where
  "ParseListOpts l o' =
     (case l of Some n \<Rightarrow> (if 0 < n \<and> n \<le> 100 then nat n else 50) | None \<Rightarrow> 50,
      case o' of Some n \<Rightarrow> (if 0 \<le> n then nat n else 0) | None \<Rightarrow> 0)"

definition page_of :: "nat \<times> nat \<Rightarrow> 'a list \<Rightarrow> 'a list" where
  "page_of lo xs = take (fst lo) (drop (snd lo) xs)"

definition listAPIKeys :: "nat \<times> nat \<Rightarrow> caller \<Rightarrow> auth_db \<Rightarrow> auth_answer \<times> auth_db" where
  "listAPIKeys lo c s =
     (if \<not> runs_on api_keys_columns [''id'', ''name'', ''key_prefix'', ''user_id'', ''expires_at'',
                                      ''last_used_at'', ''created_at'', ''tenant_id'']
      then (missing_column, s)
      else (Keys (page_of lo (filter (\<lambda>k. ak_tenant k = ca_tenant c) (ad_keys s))), s))"

section \<open>Users\<close>

definition listUsers :: "nat \<times> nat \<Rightarrow> caller \<Rightarrow> auth_db \<Rightarrow> auth_answer \<times> auth_db" where
  "listUsers lo c s = (Users (page_of lo (filter (\<lambda>u. mb_tenant u = ca_tenant c) (ad_users s))), s)"

definition taken :: "string \<Rightarrow> string \<Rightarrow> auth_db \<Rightarrow> bool" where
  "taken tenant email s \<longleftrightarrow> (\<exists>u\<in>set (ad_users s). mb_tenant u = tenant \<and> mb_email u = email)"

definition createUser :: "auth_env \<Rightarrow> string \<Rightarrow> js \<Rightarrow> caller \<Rightarrow> auth_db \<Rightarrow> auth_answer \<times> auth_db" where
  "createUser e new_id body c s =
     (case body_texts [''email'', ''password'', ''name'', ''role_id''] body of
        Some [email, password, name, role] \<Rightarrow>
          (if email = [] \<or> \<not> ae_email e email \<or> length password < 8 then (bad_request, s)
           else if taken (ca_tenant c) email s then (duplicate, s)
           else
             (let u = \<lparr>mb_id = new_id, mb_tenant = ca_tenant c, mb_email = email,
                       mb_hash = (case ae_hash e password of None \<Rightarrow> [] | Some h \<Rightarrow> h), mb_name = name,
                       mb_status = ''active'', mb_super = False, mb_last_login = None\<rparr>
              in (User u, s\<lparr>ad_users := u # ad_users s\<rparr>)))
      | _ \<Rightarrow> (bad_request, s))"

definition find_user :: "string \<Rightarrow> string \<Rightarrow> auth_db \<Rightarrow> member option" where
  "find_user tenant i s = find (\<lambda>u. mb_tenant u = tenant \<and> mb_id u = i) (ad_users s)"

definition getUser :: "string \<Rightarrow> caller \<Rightarrow> auth_db \<Rightarrow> auth_answer \<times> auth_db" where
  "getUser i c s =
     (case find_user (ca_tenant c) i s of None \<Rightarrow> (not_found, s) | Some u \<Rightarrow> (User u, s))"

definition updateUser :: "string \<Rightarrow> js \<Rightarrow> caller \<Rightarrow> auth_db \<Rightarrow> auth_answer \<times> auth_db" where
  "updateUser i body c s =
     (case find_user (ca_tenant c) i s of
        None \<Rightarrow> (not_found, s)
      | Some u \<Rightarrow>
          (case body_texts [''name'', ''status''] body of
             Some [name, status] \<Rightarrow>
               (let u' = u\<lparr>mb_name := (if name \<noteq> [] then name else mb_name u),
                           mb_status := (if status \<noteq> [] then status else mb_status u)\<rparr>
                in (User u', s\<lparr>ad_users := map (\<lambda>v. if mb_tenant v = ca_tenant c \<and> mb_id v = i then u' else v)
                                               (ad_users s)\<rparr>))
           | _ \<Rightarrow> (bad_request, s)))"

text \<open>What refers to a user goes with it: keys and roles are deleted, invitations forget who sent them.\<close>

definition deleteUser :: "string \<Rightarrow> caller \<Rightarrow> auth_db \<Rightarrow> auth_answer \<times> auth_db" where
  "deleteUser i c s =
     (let gone = (\<exists>u\<in>set (ad_users s). mb_tenant u = ca_tenant c \<and> mb_id u = i)
      in (Done ''deleted'',
          if gone
          then s\<lparr>ad_users := filter (\<lambda>u. \<not> (mb_tenant u = ca_tenant c \<and> mb_id u = i)) (ad_users s),
                 ad_keys := filter (\<lambda>k. ak_user k \<noteq> i) (ad_keys s),
                 ad_user_roles := filter (\<lambda>(u, r). u \<noteq> i) (ad_user_roles s),
                 ad_invitations := map (\<lambda>v. if iv_invited_by v = i then v\<lparr>iv_invited_by := []\<rparr> else v)
                                      (ad_invitations s)\<rparr>
          else s))"

section \<open>Invitations\<close>

definition createInvitation ::
  "auth_env \<Rightarrow> nat \<Rightarrow> string \<Rightarrow> string \<Rightarrow> js \<Rightarrow> caller \<Rightarrow> auth_db \<Rightarrow> auth_answer \<times> auth_db" where
  "createInvitation e now new_id random body c s =
     (case body_texts [''email'', ''role''] body of
        Some [email, role] \<Rightarrow>
          (if email = [] \<or> \<not> ae_email e email \<or> role = [] then (bad_request, s)
           else if role = ''tenant_admin'' \<and> \<not> ca_super c
           then (AuthError 403 ''only superadmin can invite tenant admins'', s)
           else if \<exists>u\<in>set (ad_users s). mb_email u = email
           then (AuthError 409 ''user with this email already exists'', s)
           else if \<exists>v\<in>set (ad_invitations s). iv_email v = email \<and> iv_accepted v = None \<and> now < iv_expires v
           then (AuthError 409 ''pending invitation already exists for this email'', s)
           else if \<exists>v\<in>set (ad_invitations s). iv_token v = random \<or> iv_id v = new_id then (duplicate, s)
           else
             (let v = \<lparr>iv_id = new_id, iv_tenant = ca_tenant c, iv_email = email, iv_role = role,
                       iv_token = random, iv_invited_by = ca_user c, iv_expires = now + 7 * 86400,
                       iv_accepted = None, iv_created = now\<rparr>
              in (Invited v (''/register?token='' @ random), s\<lparr>ad_invitations := v # ad_invitations s\<rparr>)))
      | _ \<Rightarrow> (bad_request, s))"

definition listInvitations :: "nat \<times> nat \<Rightarrow> caller \<Rightarrow> auth_db \<Rightarrow> auth_answer \<times> auth_db" where
  "listInvitations lo c s =
     (Invitations (page_of lo (filter (\<lambda>v. iv_tenant v = ca_tenant c) (ad_invitations s))), s)"

definition open_invitation :: "string \<Rightarrow> string \<Rightarrow> invitation \<Rightarrow> bool" where
  "open_invitation tenant i v \<longleftrightarrow> iv_id v = i \<and> iv_tenant v = tenant \<and> iv_accepted v = None"

definition cancelInvitation :: "string \<Rightarrow> caller \<Rightarrow> auth_db \<Rightarrow> auth_answer \<times> auth_db" where
  "cancelInvitation i c s =
     (if \<exists>v\<in>set (ad_invitations s). open_invitation (ca_tenant c) i v
      then (Done ''cancelled'',
            s\<lparr>ad_invitations := filter (\<lambda>v. \<not> open_invitation (ca_tenant c) i v) (ad_invitations s)\<rparr>)
      else (not_found, s))"

definition resendInvitation ::
  "nat \<Rightarrow> string \<Rightarrow> string \<Rightarrow> caller \<Rightarrow> auth_db \<Rightarrow> auth_answer \<times> auth_db" where
  "resendInvitation now random i c s =
     (if \<exists>v\<in>set (ad_invitations s). open_invitation (ca_tenant c) i v
      then (if \<exists>v\<in>set (ad_invitations s). iv_token v = random then (duplicate, s)
            else (Done (''/register?token='' @ random),
                  s\<lparr>ad_invitations := map (\<lambda>v. if open_invitation (ca_tenant c) i v
                       then v\<lparr>iv_token := random, iv_expires := now + 7 * 86400\<rparr> else v) (ad_invitations s)\<rparr>))
      else (not_found, s))"

text \<open>What an invitee may do with a token: \<open>None\<close> when it is still good\<close>

definition invitation_refused :: "nat \<Rightarrow> invitation \<Rightarrow> auth_answer option" where
  "invitation_refused now v =
     (if iv_accepted v \<noteq> None then Some (AuthError 400 ''invitation already accepted'')
      else if iv_expires v < now then Some (AuthError 400 ''invitation has expired'') else None)"

definition verifyInvitation :: "nat \<Rightarrow> string \<Rightarrow> auth_db \<Rightarrow> auth_answer" where
  "verifyInvitation now tok s =
     (case find (\<lambda>v. iv_token v = tok) (ad_invitations s) of
        None \<Rightarrow> AuthError 404 ''invalid invitation token''
      | Some v \<Rightarrow>
          (case map_of (ad_tenants s) (iv_tenant v) of
             None \<Rightarrow> AuthError 404 ''invalid invitation token''
           | Some name \<Rightarrow>
               (case invitation_refused now v of Some r \<Rightarrow> r | None \<Rightarrow> Verified v name)))"

definition accepted :: "nat \<Rightarrow> invitation \<Rightarrow> auth_db \<Rightarrow> auth_db" where
  "accepted now v s =
     s\<lparr>ad_invitations := map (\<lambda>w. if iv_id w = iv_id v then w\<lparr>iv_accepted := Some now\<rparr> else w)
                            (ad_invitations s)\<rparr>"

definition given_role :: "invitation \<Rightarrow> string \<Rightarrow> auth_db \<Rightarrow> auth_db" where
  "given_role v user s =
     (if iv_role v \<noteq> [] \<and> iv_role v \<noteq> ''user''
      then (case map_of (ad_roles s) (iv_tenant v, iv_role v) of
              Some role \<Rightarrow> (if role \<noteq> [] then s\<lparr>ad_user_roles := ad_user_roles s @ [(user, role)]\<rparr> else s)
            | None \<Rightarrow> s)
      else s)"

definition registerWithInvitation ::
  "auth_env \<Rightarrow> nat \<Rightarrow> string \<Rightarrow> js \<Rightarrow> auth_db \<Rightarrow> auth_answer \<times> auth_db" where
  "registerWithInvitation e now new_id body s =
     (case body_texts [''token'', ''password'', ''name''] body of
        Some [tok, password, name] \<Rightarrow>
          (if tok = [] \<or> length password < 8 then (bad_request, s)
           else (case find (\<lambda>v. iv_token v = tok) (ad_invitations s) of
                   None \<Rightarrow> (AuthError 404 ''invalid invitation token'', s)
                 | Some v \<Rightarrow>
                     (case invitation_refused now v of
                        Some r \<Rightarrow> (r, s)
                      | None \<Rightarrow>
                          (case ae_hash e password of
                             None \<Rightarrow> (AuthError 500 ''hash'', s)
                           | Some h \<Rightarrow>
                               (if taken (iv_tenant v) (iv_email v) s \<or> (\<exists>u\<in>set (ad_users s). mb_id u = new_id)
                                then (duplicate, s)
                                else
                                  (let u = \<lparr>mb_id = new_id, mb_tenant = iv_tenant v, mb_email = iv_email v,
                                            mb_hash = h, mb_name = (if name = [] then iv_email v else name),
                                            mb_status = ''active'', mb_super = False, mb_last_login = None\<rparr>
                                   in (Registered new_id (iv_email v),
                                       given_role v new_id
                                         (accepted now v (s\<lparr>ad_users := u # ad_users s\<rparr>)))))))))
      | _ \<Rightarrow> (bad_request, s))"

section \<open>Histories\<close>

text \<open>The requests that change the database, each with the caller it passed as and what it generates\<close>

datatype auth_op =
    OpLogin js
  | OpCreateKey caller string string js
  | OpRevokeKey caller string
  | OpCreateUser caller string js
  | OpUpdateUser caller string js
  | OpDeleteUser caller string
  | OpInvite caller string string js
  | OpCancel caller string
  | OpResend caller string string
  | OpRegister string js

fun auth_step :: "auth_env \<Rightarrow> nat \<times> auth_op \<Rightarrow> auth_db \<Rightarrow> auth_answer \<times> auth_db" where
  "auth_step e (now, OpLogin body) s = login e now body s"
| "auth_step e (now, OpCreateKey c i r body) s = createAPIKey e now i r body c s"
| "auth_step e (now, OpRevokeKey c i) s = revokeAPIKey i c s"
| "auth_step e (now, OpCreateUser c i body) s = createUser e i body c s"
| "auth_step e (now, OpUpdateUser c i body) s = updateUser i body c s"
| "auth_step e (now, OpDeleteUser c i) s = deleteUser i c s"
| "auth_step e (now, OpInvite c i r body) s = createInvitation e now i r body c s"
| "auth_step e (now, OpCancel c i) s = cancelInvitation i c s"
| "auth_step e (now, OpResend c r i) s = resendInvitation now r i c s"
| "auth_step e (now, OpRegister i body) s = registerWithInvitation e now i body s"

definition auth_run :: "auth_env \<Rightarrow> (nat \<times> auth_op) list \<Rightarrow> auth_db \<Rightarrow> auth_db" where
  "auth_run e ops s = fold (\<lambda>op s. snd (auth_step e op s)) ops s"

section \<open>What each request leaves of the tables\<close>

lemma login_tables [simp]:
  "ad_invitations (snd (login e now body s)) = ad_invitations s"
  "ad_user_roles (snd (login e now body s)) = ad_user_roles s"
  "ad_roles (snd (login e now body s)) = ad_roles s"
  by (simp_all add: login_def split: option.split list.split)

lemma key_tables [simp]:
  "ad_invitations (snd (createAPIKey e now i r body c s)) = ad_invitations s"
  "ad_user_roles (snd (createAPIKey e now i r body c s)) = ad_user_roles s"
  "ad_roles (snd (createAPIKey e now i r body c s)) = ad_roles s"
  "ad_invitations (snd (revokeAPIKey i c s)) = ad_invitations s"
  "ad_user_roles (snd (revokeAPIKey i c s)) = ad_user_roles s"
  "ad_roles (snd (revokeAPIKey i c s)) = ad_roles s"
  by (simp_all add: createAPIKey_def revokeAPIKey_def Let_def split: option.split list.split)

lemma user_tables [simp]:
  "ad_invitations (snd (createUser e i body c s)) = ad_invitations s"
  "ad_user_roles (snd (createUser e i body c s)) = ad_user_roles s"
  "ad_roles (snd (createUser e i body c s)) = ad_roles s"
  "ad_invitations (snd (updateUser i body c s)) = ad_invitations s"
  "ad_user_roles (snd (updateUser i body c s)) = ad_user_roles s"
  "ad_roles (snd (updateUser i body c s)) = ad_roles s"
  "ad_roles (snd (deleteUser i c s)) = ad_roles s"
  by (simp_all add: createUser_def updateUser_def deleteUser_def Let_def split: option.split list.split)

text \<open>An invitation, and a registration, either change nothing or do all they should.\<close>

lemma body_texts_length: "body_texts ks body = Some vs \<Longrightarrow> length vs = length ks"
  by (auto simp: body_texts_def Let_def split: if_splits)

lemma createInvitation_cases:
  obtains (refused) r where "createInvitation e now i random body c s = (r, s)" "\<forall>v u. r \<noteq> Invited v u"
  | (invited) email role where "body_texts [''email'', ''role''] body = Some [email, role]"
      "role = ''tenant_admin'' \<longrightarrow> ca_super c" "\<forall>v\<in>set (ad_invitations s). iv_token v \<noteq> random \<and> iv_id v \<noteq> i"
      "email \<noteq> [] \<and> ae_email e email \<and> (\<forall>u\<in>set (ad_users s). mb_email u \<noteq> email)"
      "snd (createInvitation e now i random body c s) =
        s\<lparr>ad_invitations := \<lparr>iv_id = i, iv_tenant = ca_tenant c, iv_email = email, iv_role = role,
            iv_token = random, iv_invited_by = ca_user c, iv_expires = now + 7 * 86400,
            iv_accepted = None, iv_created = now\<rparr> # ad_invitations s\<rparr>"
      "\<exists>v url. fst (createInvitation e now i random body c s) = Invited v url
         \<and> iv_tenant v = ca_tenant c \<and> iv_email v = email \<and> iv_role v = role"
proof (cases "body_texts [''email'', ''role''] body")
  case None
  then show thesis by (intro refused) (auto simp: createInvitation_def bad_request_def)
next
  case (Some vs)
  then obtain email role where vs: "vs = [email, role]"
    using body_texts_length [OF Some] by (auto simp: length_Suc_conv)
  show thesis
  proof (cases "email = [] \<or> \<not> ae_email e email \<or> role = [] \<or> role = ''tenant_admin'' \<and> \<not> ca_super c
      \<or> (\<exists>u\<in>set (ad_users s). mb_email u = email)
      \<or> (\<exists>v\<in>set (ad_invitations s). iv_email v = email \<and> iv_accepted v = None \<and> now < iv_expires v)
      \<or> (\<exists>v\<in>set (ad_invitations s). iv_token v = random \<or> iv_id v = i)")
    case True
    then show thesis
      by (intro refused [of "fst (createInvitation e now i random body c s)"])
         (auto simp: createInvitation_def Some vs bad_request_def duplicate_def)
  next
    case False
    then show thesis using Some vs
      by (intro invited [of email role]) (auto simp: createInvitation_def Let_def)
  qed
qed

lemma register_cases:
  obtains (refused) r where "registerWithInvitation e now i body s = (r, s)" "\<forall>u m. r \<noteq> Registered u m"
  | (registered) tok password name v u where
      "body_texts [''token'', ''password'', ''name''] body = Some [tok, password, name]"
      "find (\<lambda>v. iv_token v = tok) (ad_invitations s) = Some v" "iv_accepted v = None" "mb_id u = i"
      "\<forall>u\<in>set (ad_users s). mb_id u \<noteq> i"
      "registerWithInvitation e now i body s =
         (Registered i (iv_email v), given_role v i (accepted now v (s\<lparr>ad_users := u # ad_users s\<rparr>)))"
proof (cases "body_texts [''token'', ''password'', ''name''] body")
  case None
  then show thesis by (intro refused) (auto simp: registerWithInvitation_def bad_request_def)
next
  case (Some vs)
  then obtain tok password name where vs: "vs = [tok, password, name]"
    using body_texts_length [OF Some] by (auto simp: length_Suc_conv)
  note unfolded = registerWithInvitation_def Some vs bad_request_def duplicate_def Let_def
  show thesis
  proof (cases "tok = [] \<or> length password < 8")
    case True
    then show thesis by (intro refused) (auto simp: unfolded)
  next
    case valid: False
    show thesis
    proof (cases "find (\<lambda>v. iv_token v = tok) (ad_invitations s)")
      case None
      then show thesis using valid by (intro refused) (auto simp: unfolded)
    next
      case found: (Some v)
      show thesis
      proof (cases "invitation_refused now v = None \<and> ae_hash e password \<noteq> None
          \<and> \<not> taken (iv_tenant v) (iv_email v) s \<and> (\<forall>u\<in>set (ad_users s). mb_id u \<noteq> i)")
        case True
        then obtain h where "ae_hash e password = Some h" by blast
        then show thesis using valid found True Some vs
          by (intro registered [of tok password name v "\<lparr>mb_id = i, mb_tenant = iv_tenant v,
                mb_email = iv_email v, mb_hash = h, mb_name = (if name = [] then iv_email v else name),
                mb_status = ''active'', mb_super = False, mb_last_login = None\<rparr>"])
             (auto simp: unfolded invitation_refused_def split: if_splits)
      next
        case False
        then show thesis using valid found
          by (intro refused [of "fst (registerWithInvitation e now i body s)"])
             (auto simp: unfolded invitation_refused_def split: option.splits if_splits)
      qed
    qed
  qed
qed

text \<open>An invitation that is there after a request was there before, or is made by it.\<close>

definition kept_from :: "invitation \<Rightarrow> invitation \<Rightarrow> bool" where
  "kept_from v w \<longleftrightarrow>
     iv_id w = iv_id v \<and> iv_tenant w = iv_tenant v \<and> iv_email w = iv_email v \<and> iv_role w = iv_role v
     \<and> (iv_accepted v \<noteq> None \<longrightarrow> iv_token w = iv_token v \<and> iv_accepted w \<noteq> None)"

lemma kept_from_refl [simp]: "kept_from v v"
  by (simp add: kept_from_def)

lemma kept_before: "w \<in> set vs \<Longrightarrow> \<exists>v\<in>set vs. kept_from v w"
  using kept_from_refl by blast

lemma kept_map:
  "w \<in> set (map f vs) \<Longrightarrow> (\<And>v. kept_from v (f v)) \<Longrightarrow> \<exists>v\<in>set vs. kept_from v w"
  by auto

lemma given_role_tables [simp]:
  "ad_invitations (given_role v u s) = ad_invitations s" "ad_roles (given_role v u s) = ad_roles s"
  by (simp_all add: given_role_def split: option.split)

lemma invitations_after:
  assumes "w \<in> set (ad_invitations (snd (auth_step e (now, op) s)))"
  shows "(\<exists>v\<in>set (ad_invitations s). kept_from v w)
    \<or> (\<exists>c i r body url v. op = OpInvite c i r body \<and> fst (auth_step e (now, op) s) = Invited v url
         \<and> iv_tenant v = iv_tenant w \<and> iv_email v = iv_email w \<and> iv_role v = iv_role w
         \<and> (iv_role w = ''tenant_admin'' \<longrightarrow> ca_super c))"
proof (cases op)
  case (OpInvite c i r body)
  show ?thesis
  proof (cases rule: createInvitation_cases [of e now i r body c s])
    case refused
    with assms OpInvite show ?thesis by (simp add: kept_before)
  next
    case (invited email role)
    then have "w \<in> set (ad_invitations s) \<or> iv_tenant w = ca_tenant c \<and> iv_email w = email \<and> iv_role w = role"
      using assms OpInvite by auto
    moreover note invited(2,6) OpInvite
    ultimately show ?thesis using kept_before [of w "ad_invitations s"] by fastforce
  qed
next
  case (OpRegister i body)
  show ?thesis
  proof (cases rule: register_cases [of e now i body s])
    case refused
    with assms OpRegister show ?thesis by (simp add: kept_before)
  next
    case (registered tok password name v u)
    from registered assms OpRegister
    have "w \<in> set (map (\<lambda>w. if iv_id w = iv_id v then w\<lparr>iv_accepted := Some now\<rparr> else w) (ad_invitations s))"
      by (simp add: accepted_def)
    from kept_map [OF this] show ?thesis by (simp add: kept_from_def)
  qed
next
  case (OpDeleteUser c i)
  let ?f = "\<lambda>v. if iv_invited_by v = i then v\<lparr>iv_invited_by := []\<rparr> else v"
  from OpDeleteUser assms have "w \<in> set (ad_invitations s) \<or> w \<in> set (map ?f (ad_invitations s))"
    by (auto simp: deleteUser_def Let_def split: if_splits)
  then show ?thesis using kept_before kept_map [of w ?f "ad_invitations s"] by (auto simp: kept_from_def)
next
  case (OpCancel c i)
  with assms show ?thesis by (auto simp: cancelInvitation_def kept_before split: if_splits)
next
  case (OpResend c r i)
  let ?f = "\<lambda>v. if open_invitation (ca_tenant c) i v
      then v\<lparr>iv_token := r, iv_expires := now + 7 * 86400\<rparr> else v"
  from OpResend assms have "w \<in> set (ad_invitations s) \<or> w \<in> set (map ?f (ad_invitations s))"
    by (auto simp: resendInvitation_def split: if_splits)
  then show ?thesis
    using kept_before kept_map [of w ?f "ad_invitations s"] by (auto simp: kept_from_def open_invitation_def)
qed (use assms in \<open>simp_all add: kept_before\<close>)

text \<open>An invitation once accepted stays, with its token, and no two share a token.\<close>

definition tokens_ok :: "auth_db \<Rightarrow> bool" where
  "tokens_ok s \<longleftrightarrow>
     distinct (map iv_token (ad_invitations s)) \<and> distinct (map iv_id (ad_invitations s))"

lemma retoken:
  assumes "distinct (map iv_id vs)" "distinct (map iv_token vs)" "\<forall>v\<in>set vs. iv_token v \<noteq> r"
    "\<And>v. P v \<Longrightarrow> iv_id v = i"
  shows "distinct (map iv_token (map (\<lambda>v. if P v then v\<lparr>iv_token := r, iv_expires := n\<rparr> else v) vs))
    \<and> map iv_id (map (\<lambda>v. if P v then v\<lparr>iv_token := r, iv_expires := n\<rparr> else v) vs) = map iv_id vs"
  using assms by (induction vs) (auto simp: image_iff)

lemma tokens_ok_step:
  assumes "tokens_ok s"
  shows "tokens_ok (snd (auth_step e (now, op) s))"
proof (cases op)
  case (OpInvite c i r body)
  show ?thesis
    by (cases rule: createInvitation_cases [of e now i r body c s])
       (use assms OpInvite in \<open>auto simp: tokens_ok_def\<close>)
next
  case (OpRegister i body)
  have *: "map f (map (\<lambda>w. if iv_id w = k then w\<lparr>iv_accepted := Some now\<rparr> else w) vs) = map f vs"
    if "\<And>w. f (w\<lparr>iv_accepted := Some now\<rparr>) = f w" for f :: "invitation \<Rightarrow> string" and k vs
    using that by simp
  show ?thesis
    by (cases rule: register_cases [of e now i body s])
       (use assms OpRegister in \<open>auto simp: tokens_ok_def accepted_def * simp del: map_map\<close>)
next
  case (OpDeleteUser c i)
  have *: "map f (map (\<lambda>v. if iv_invited_by v = i then v\<lparr>iv_invited_by := []\<rparr> else v) vs) = map f vs"
    if "\<And>w. f (w\<lparr>iv_invited_by := []\<rparr>) = f w" for f :: "invitation \<Rightarrow> string" and vs
    using that by simp
  from OpDeleteUser assms show ?thesis
    by (auto simp: tokens_ok_def deleteUser_def Let_def * simp del: map_map)
next
  case (OpCancel c i)
  with assms show ?thesis by (auto simp: tokens_ok_def cancelInvitation_def distinct_map_filter)
next
  case (OpResend c r i)
  have "iv_id v = i" if "open_invitation (ca_tenant c) i v" for v using that by (simp add: open_invitation_def)
  from retoken [of "ad_invitations s" r "open_invitation (ca_tenant c) i", OF _ _ _ this] assms OpResend
  show ?thesis by (simp add: tokens_ok_def resendInvitation_def del: map_map)
qed (use assms in \<open>simp_all add: tokens_ok_def\<close>)

definition used_token :: "string \<Rightarrow> auth_db \<Rightarrow> bool" where
  "used_token t s \<longleftrightarrow> (\<exists>v\<in>set (ad_invitations s). iv_token v = t \<and> iv_accepted v \<noteq> None)"

lemma used_map:
  assumes "used_token t s" "ad_invitations s' = map f (ad_invitations s)"
    "\<And>v. iv_accepted v \<noteq> None \<Longrightarrow> iv_token (f v) = iv_token v \<and> iv_accepted (f v) \<noteq> None"
  shows "used_token t s'"
  using assms unfolding used_token_def by (metis imageI set_map)

lemma used_token_step:
  assumes "used_token t s"
  shows "used_token t (snd (auth_step e (now, op) s))"
proof (cases op)
  case (OpInvite c i r body)
  show ?thesis
    by (cases rule: createInvitation_cases [of e now i r body c s])
       (use assms OpInvite in \<open>auto simp: used_token_def\<close>)
next
  case (OpRegister i body)
  show ?thesis
  proof (cases rule: register_cases [of e now i body s])
    case (registered tok password name v u)
    with OpRegister show ?thesis
      by (intro used_map [OF assms, of _ "\<lambda>w. if iv_id w = iv_id v then w\<lparr>iv_accepted := Some now\<rparr> else w"])
         (simp_all add: accepted_def)
  qed (use assms OpRegister in simp)
next
  case (OpDeleteUser c i)
  show ?thesis
  proof (cases "\<exists>u\<in>set (ad_users s). mb_tenant u = ca_tenant c \<and> mb_id u = i")
    case True
    with OpDeleteUser show ?thesis
      by (intro used_map [OF assms, of _ "\<lambda>v. if iv_invited_by v = i then v\<lparr>iv_invited_by := []\<rparr> else v"])
         (simp_all add: deleteUser_def Let_def)
  qed (use assms OpDeleteUser in \<open>auto simp: deleteUser_def Let_def\<close>)
next
  case (OpCancel c i)
  with assms show ?thesis by (auto simp: cancelInvitation_def used_token_def open_invitation_def)
next
  case (OpResend c r i)
  let ?f = "\<lambda>v. if open_invitation (ca_tenant c) i v
      then v\<lparr>iv_token := r, iv_expires := now + 7 * 86400\<rparr> else v"
  have "used_token t (s\<lparr>ad_invitations := map ?f (ad_invitations s)\<rparr>)"
    by (rule used_map [OF assms, of _ ?f]) (simp_all add: open_invitation_def)
  with assms OpResend show ?thesis by (simp add: resendInvitation_def)
qed (use assms in \<open>simp_all add: used_token_def\<close>)

lemma auth_run_simps [simp]:
  "auth_run e [] s = s" "auth_run e (op # ops) s = auth_run e ops (snd (auth_step e op s))"
  by (simp_all add: auth_run_def)

lemma auth_run_keeps:
  assumes "\<And>now op s. P s \<Longrightarrow> P (snd (auth_step e (now, op) s))"
  shows "P s \<Longrightarrow> P (auth_run e ops s)"
proof (induction ops arbitrary: s)
  case (Cons op ops)
  then show ?case using assms [of s "fst op" "snd op"] by simp
qed simp

lemma used_token_refused:
  assumes "tokens_ok s" "used_token t s" "body_texts [''token'', ''password'', ''name''] body = Some [t, password, name]"
  shows "snd (registerWithInvitation e now i body s) = s"
    "fst (registerWithInvitation e now i body s) =
       (if t = [] \<or> length password < 8 then bad_request else AuthError 400 ''invitation already accepted'')"
proof -
  obtain v where v: "find (\<lambda>v. iv_token v = t) (ad_invitations s) = Some v"
    using assms(2) by (cases "find (\<lambda>v. iv_token v = t) (ad_invitations s)")
      (auto simp: used_token_def find_None_iff)
  have "iv_accepted v \<noteq> None"
    using assms(1,2) find_SomeD [OF v] by (auto simp: used_token_def tokens_ok_def distinct_map inj_on_def)
  then show "snd (registerWithInvitation e now i body s) = s"
    "fst (registerWithInvitation e now i body s) =
       (if t = [] \<or> length password < 8 then bad_request else AuthError 400 ''invitation already accepted'')"
    by (auto simp: registerWithInvitation_def assms(3) v invitation_refused_def)
qed

text \<open>
  C24. An invitation is good for one account: once somebody has registered with its token, every later
  registration with it is refused and changes nothing, whatever requests come in between (invitations
  created, resent or cancelled, users deleted). Nobody else can be sent the same token.
\<close>
theorem invitation_used_once:
  assumes ok: "tokens_ok s"
    and first: "registerWithInvitation e now i body s = (Registered u m, s1)"
    and again: "body_texts [''token'', ''password'', ''name''] body = Some [t, p, n]"
      "body_texts [''token'', ''password'', ''name''] body' = Some [t, p', n']" "8 \<le> length p'"
  shows "registerWithInvitation e' now' i' body' (auth_run e ops s1) =
     (AuthError 400 ''invitation already accepted'', auth_run e ops s1)"
proof -
  have s1: "s1 = snd (auth_step e (now, OpRegister i body) s)" using first by simp
  have "used_token t s1 \<and> t \<noteq> []"
  proof (cases rule: register_cases [of e now i body s])
    case (refused r)
    with first show ?thesis by simp
  next
    case (registered tok password name v x)
    have "t \<noteq> []" using first again(1) by (auto simp: registerWithInvitation_def bad_request_def split: if_splits)
    moreover have "v \<in> set (ad_invitations s)" "iv_token v = t"
      using find_SomeD [OF registered(2)] registered(1) again(1) by auto
    then have "v\<lparr>iv_accepted := Some now\<rparr> \<in> set (ad_invitations s1)"
      using registered first by (auto simp: accepted_def)
    ultimately show ?thesis using \<open>iv_token v = t\<close>
      unfolding used_token_def by (auto intro!: bexI [of _ "v\<lparr>iv_accepted := Some now\<rparr>"])
  qed
  moreover have "tokens_ok s1" unfolding s1 by (rule tokens_ok_step [OF ok])
  ultimately have "tokens_ok (auth_run e ops s1)" "used_token t (auth_run e ops s1)" "t \<noteq> []"
    using auth_run_keeps [of tokens_ok e] auth_run_keeps [of "used_token t" e] tokens_ok_step used_token_step
    by blast+
  then show ?thesis
    using used_token_refused [OF _ _ again(2)] again(3) by (intro prod_eqI) auto
qed

text \<open>
  In the history \<open>ops\<close> from \<open>s0\<close>: a super administrator's request has been answered with an invitation
  of this e-mail to the role of this tenant's administrator; and a later registration of this user has
  been accepted for an e-mail so invited.
\<close>

definition invited_admin :: "auth_env \<Rightarrow> auth_db \<Rightarrow> (nat \<times> auth_op) list \<Rightarrow> string \<Rightarrow> string \<Rightarrow> bool" where
  "invited_admin e s0 ops tenant email \<longleftrightarrow>
     (\<exists>ops1 now c i random body ops2 v url.
        ops = ops1 @ (now, OpInvite c i random body) # ops2 \<and> ca_super c
        \<and> fst (auth_step e (now, OpInvite c i random body) (auth_run e ops1 s0)) = Invited v url
        \<and> iv_tenant v = tenant \<and> iv_role v = ''tenant_admin'' \<and> iv_email v = email)"

definition admin_registered :: "auth_env \<Rightarrow> auth_db \<Rightarrow> (nat \<times> auth_op) list \<Rightarrow> string \<Rightarrow> string \<Rightarrow> bool" where
  "admin_registered e s0 ops tenant user \<longleftrightarrow>
     (\<exists>ops1 now body ops2 email.
        ops = ops1 @ (now, OpRegister user body) # ops2
        \<and> fst (auth_step e (now, OpRegister user body) (auth_run e ops1 s0)) = Registered user email
        \<and> invited_admin e s0 ops1 tenant email)"

definition admins_invited :: "auth_env \<Rightarrow> auth_db \<Rightarrow> (nat \<times> auth_op) list \<Rightarrow> auth_db \<Rightarrow> bool" where
  "admins_invited e s0 ops s \<longleftrightarrow>
     s = auth_run e ops s0 \<and> ad_roles s = ad_roles s0
     \<and> (\<forall>v\<in>set (ad_invitations s). iv_role v = ''tenant_admin'' \<longrightarrow>
          invited_admin e s0 ops (iv_tenant v) (iv_email v))
     \<and> (\<forall>(u, r)\<in>set (ad_user_roles s). (u, r) \<in> set (ad_user_roles s0)
          \<or> (\<exists>k. map_of (ad_roles s0) k = Some r
               \<and> (snd k = ''tenant_admin'' \<longrightarrow> admin_registered e s0 ops (fst k) u)))"

lemma roles_after [simp]: "ad_roles (snd (auth_step e (now, op) s)) = ad_roles s"
proof (cases op)
  case (OpInvite c i r body)
  then show ?thesis by (cases rule: createInvitation_cases [of e now i r body c s]) auto
next
  case (OpRegister i body)
  then show ?thesis by (cases rule: register_cases [of e now i body s]) (auto simp: accepted_def)
qed (simp_all add: cancelInvitation_def resendInvitation_def)

lemma user_roles_after:
  assumes "(u, r) \<in> set (ad_user_roles (snd (auth_step e (now, op) s)))"
  shows "(u, r) \<in> set (ad_user_roles s)
    \<or> (\<exists>v\<in>set (ad_invitations s). map_of (ad_roles s) (iv_tenant v, iv_role v) = Some r
         \<and> (\<exists>body. op = OpRegister u body
              \<and> fst (auth_step e (now, op) s) = Registered u (iv_email v)))"
proof (cases op)
  case (OpInvite c i r body)
  then show ?thesis
    using assms by (cases rule: createInvitation_cases [of e now i r body c s]) auto
next
  case (OpRegister i body)
  show ?thesis
  proof (cases rule: register_cases [of e now i body s])
    case refused
    with assms OpRegister show ?thesis by simp
  next
    case (registered tok password name v x)
    then have "v \<in> set (ad_invitations s)" using find_SomeD by fast
    with registered assms OpRegister show ?thesis
      by (auto simp: given_role_def accepted_def split: if_splits option.splits)
  qed
qed (use assms in \<open>auto simp: cancelInvitation_def resendInvitation_def deleteUser_def Let_def
       split: if_splits\<close>)

lemma auth_run_snoc: "auth_run e (ops @ [op]) s = snd (auth_step e op (auth_run e ops s))"
  by (simp add: auth_run_def)

lemma invited_admin_mono: "invited_admin e s0 ops t m \<Longrightarrow> invited_admin e s0 (ops @ ops') t m"
  unfolding invited_admin_def by (metis append.assoc append_Cons)

lemma admin_registered_mono: "admin_registered e s0 ops t u \<Longrightarrow> admin_registered e s0 (ops @ ops') t u"
  unfolding admin_registered_def by (metis append.assoc append_Cons)

lemma admins_invited_invitation:
  assumes "admins_invited e s0 ops s" and "w \<in> set (ad_invitations (snd (auth_step e (now, op) s)))"
    and "iv_role w = ''tenant_admin''"
  shows "invited_admin e s0 (ops @ [(now, op)]) (iv_tenant w) (iv_email w)"
  using invitations_after [OF assms(2)]
proof (elim disjE bexE exE conjE)
  fix v assume "v \<in> set (ad_invitations s)" "kept_from v w"
  then show ?thesis
    using assms(1,3) by (auto simp: admins_invited_def kept_from_def intro!: invited_admin_mono)
next
  fix c i r body url v
  assume "op = OpInvite c i r body" "fst (auth_step e (now, op) s) = Invited v url"
    "iv_tenant v = iv_tenant w" "iv_email v = iv_email w" "iv_role v = iv_role w"
    "iv_role w = ''tenant_admin'' \<longrightarrow> ca_super c"
  moreover have "s = auth_run e ops s0" using assms(1) by (simp add: admins_invited_def)
  ultimately show ?thesis
    using assms(3) unfolding invited_admin_def
    by (intro exI [of _ ops] exI [of _ now] exI [of _ c] exI [of _ i] exI [of _ r] exI [of _ body]
        exI [of _ "[]"] exI [of _ v] exI [of _ url]) simp
qed

lemma admins_invited_role:
  assumes "admins_invited e s0 ops s" and "(u, r) \<in> set (ad_user_roles (snd (auth_step e (now, op) s)))"
  shows "(u, r) \<in> set (ad_user_roles s0)
    \<or> (\<exists>k. map_of (ad_roles s0) k = Some r
         \<and> (snd k = ''tenant_admin'' \<longrightarrow> admin_registered e s0 (ops @ [(now, op)]) (fst k) u))"
  using user_roles_after [OF assms(2)]
proof (elim disjE bexE exE conjE)
  assume "(u, r) \<in> set (ad_user_roles s)"
  then show ?thesis
    using assms(1) admin_registered_mono [of e s0 ops _ u "[(now, op)]"]
    unfolding admins_invited_def by fastforce
next
  fix v body
  assume v: "v \<in> set (ad_invitations s)" "map_of (ad_roles s) (iv_tenant v, iv_role v) = Some r"
    and op: "op = OpRegister u body" "fst (auth_step e (now, op) s) = Registered u (iv_email v)"
  have s: "s = auth_run e ops s0" "ad_roles s = ad_roles s0"
    using assms(1) unfolding admins_invited_def by blast+
  have "admin_registered e s0 (ops @ [(now, op)]) (iv_tenant v) u" if "iv_role v = ''tenant_admin''"
    unfolding admin_registered_def
  proof (intro exI conjI)
    show "ops @ [(now, op)] = ops @ (now, OpRegister u body) # []" using op(1) by simp
    show "fst (auth_step e (now, OpRegister u body) (auth_run e ops s0)) = Registered u (iv_email v)"
      using op s(1) by simp
    show "invited_admin e s0 ops (iv_tenant v) (iv_email v)"
      using assms(1) v(1) that by (simp add: admins_invited_def)
  qed
  then show ?thesis
    using v(2) s(2) by (intro disjI2 exI [of _ "(iv_tenant v, iv_role v)"]) simp
qed

lemma admins_invited_step:
  assumes "admins_invited e s0 ops s"
  shows "admins_invited e s0 (ops @ [(now, op)]) (snd (auth_step e (now, op) s))"
  unfolding admins_invited_def
proof (intro conjI ballI impI)
  have s: "s = auth_run e ops s0" "ad_roles s = ad_roles s0"
    using assms unfolding admins_invited_def by blast+
  show "snd (auth_step e (now, op) s) = auth_run e (ops @ [(now, op)]) s0" by (simp add: auth_run_snoc s(1))
  show "ad_roles (snd (auth_step e (now, op) s)) = ad_roles s0" using s(2) by simp
next
  fix v assume "v \<in> set (ad_invitations (snd (auth_step e (now, op) s)))" "iv_role v = ''tenant_admin''"
  then show "invited_admin e s0 (ops @ [(now, op)]) (iv_tenant v) (iv_email v)"
    by (rule admins_invited_invitation [OF assms])
next
  fix x assume "x \<in> set (ad_user_roles (snd (auth_step e (now, op) s)))"
  then have "(fst x, snd x) \<in> set (ad_user_roles (snd (auth_step e (now, op) s)))" by simp
  from admins_invited_role [OF assms this] show "case x of (u, r) \<Rightarrow> (u, r) \<in> set (ad_user_roles s0)
      \<or> (\<exists>k. map_of (ad_roles s0) k = Some r
           \<and> (snd k = ''tenant_admin'' \<longrightarrow> admin_registered e s0 (ops @ [(now, op)]) (fst k) u))"
    by (simp only: split_beta)
qed

lemma admins_invited_run:
  assumes "\<forall>v\<in>set (ad_invitations s0). iv_role v \<noteq> ''tenant_admin''"
  shows "admins_invited e s0 ops (auth_run e ops s0)"
proof (induction ops rule: rev_induct)
  case Nil
  show ?case using assms by (auto simp: admins_invited_def)
next
  case (snoc op ops)
  then show ?case
    using admins_invited_step [of e s0 ops _ "fst op" "snd op"] by (simp add: auth_run_snoc)
qed

text \<open>
  C23. Among the accounts of the login, the users and the invitations, nobody becomes an administrator of
  a tenant but by invitation of a super administrator: whatever of these requests are served, a user who
  holds the role and did not hold it at the start has registered under an e-mail that a super
  administrator had before invited to that role of that tenant, both requests having been accepted.
  (The single sign-on, which gives the default role of its provider without an invitation, is not among
  these requests.)
\<close>
theorem tenant_admins_invited_by_superadmin:
  assumes "\<forall>v\<in>set (ad_invitations s). iv_role v \<noteq> ''tenant_admin''"
    and "\<forall>k. map_of (ad_roles s) k = Some r \<longrightarrow> k = (t, ''tenant_admin'')"
    and "(u, r) \<in> set (ad_user_roles (auth_run e ops s))" "(u, r) \<notin> set (ad_user_roles s)"
  shows "\<exists>before now body after email.
     ops = before @ (now, OpRegister u body) # after
     \<and> fst (auth_step e (now, OpRegister u body) (auth_run e before s)) = Registered u email
     \<and> invited_admin e s before t email"
  using admins_invited_run [OF assms(1), of e ops] assms(2-4)
  unfolding admins_invited_def admin_registered_def by fastforce

lemma login_token:
  assumes "login e now body s = (LoggedIn t, s1)" "jprop ''email'' body = JStr email"
  obtains u where "u \<in> set (ad_users s)" "mb_email u = email"
    "ae_token e \<lparr>cl_user = mb_id u, cl_tenant = mb_tenant u, cl_permissions = [], cl_super = mb_super u\<rparr> now = Some t"
proof (cases "body_texts [''email'', ''password''] body")
  case None
  with assms(1) show thesis by (simp add: login_def bad_request_def)
next
  case (Some vs)
  then obtain password where vs: "vs = [email, password]"
    using assms(2) by (auto simp: body_texts_def Let_def split: if_splits)
  obtain u where u: "find (\<lambda>u. mb_email u = email \<and> mb_status u = ''active'') (ad_users s) = Some u"
    using assms(1) by (cases "find (\<lambda>u. mb_email u = email \<and> mb_status u = ''active'') (ad_users s)")
      (auto simp: login_def Some vs bad_request_def unauthorized_def split: if_splits)
  then show thesis
    using assms(1) find_SomeD [OF u]
    by (intro that [of u])
       (auto simp: login_def Some vs bad_request_def unauthorized_def split: if_splits option.splits)
qed

lemma no_permissions: "\<not> ca_super c \<Longrightarrow> ca_permissions c = [] \<Longrightarrow> rbacMiddleware p m c = Some forbidden"
  by (simp add: rbacMiddleware_def has_permission_def Let_def)

text \<open>Every statement on API keys fails: they name the column.\<close>

lemma no_key_prefix [simp]:
  "\<not> runs_on api_keys_columns [''id'', ''tenant_id'', ''user_id'', ''key_hash'', ''expires_at'', ''key_prefix'']"
  "\<not> runs_on api_keys_columns [''id'', ''tenant_id'', ''user_id'', ''key_hash'', ''key_prefix'', ''name'',
      ''permissions'', ''expires_at'', ''created_at'']"
  by (simp_all add: runs_on_def api_keys_columns_def)

lemma key_refused:
  "starts_with tok ''sl_'' \<Longrightarrow>
   authMiddleware e now tok s = Inl (if length tok < 10 then AuthError 500 [] else unauthorized)"
  by (auto simp: authMiddleware_def starts_with_def)

lemma key_not_created:
  "\<exists>r. createAPIKey e now i random body c s = (r, s)
     \<and> r \<in> {bad_request, AuthError 500 ''failed to hash key'', missing_column}"
  by (simp add: createAPIKey_def Let_def split: option.split list.split)

text \<open>
  C22. A user who is no super administrator passes no route that asks for a permission, whatever the
  user's roles grant. With the token of the login every such route answers 403 and the handler is not
  reached: the token carries no permission. An API key, which would carry all of them, cannot be had:
  the route that makes one asks for nothing, but its statement names a column that the table does not
  have, so it answers an error and stores nothing; and whatever is sent as a key, on any route, is
  refused with 401 (or 500, when it is too short to slice).
\<close>
theorem ordinary_user_passes_nothing:
  assumes login: "login e now body s = (LoggedIn tok, s1)" "jprop ''email'' body = JStr email"
    and ordinary: "\<forall>u\<in>set (ad_users s). mb_email u = email \<longrightarrow> \<not> mb_super u \<and> mb_tenant u \<noteq> []"
    and tokens: "\<forall>c. ae_token e c now = Some tok \<longrightarrow> ae_claims e tok now2 = Some c"
      "tok \<noteq> []" "\<not> starts_with tok ''sl_''"
  shows "serve e now2 tok (Some p) m handler s2 = (forbidden, s2)
    \<and> (\<exists>r. serve e now2 tok None POST (createAPIKey e now2 i random key_body) s2 = (r, s2)
         \<and> r \<in> {bad_request, AuthError 500 ''failed to hash key'', missing_column})
    \<and> serve e now3 (''sl_'' @ x) perm m handler s3 =
        (if length x < 7 then AuthError 500 [] else unauthorized, s3)"
proof (intro conjI)
  obtain u where u: "u \<in> set (ad_users s)" "mb_email u = email"
    "ae_token e \<lparr>cl_user = mb_id u, cl_tenant = mb_tenant u, cl_permissions = [], cl_super = mb_super u\<rparr> now
       = Some tok"
    using login_token [OF login] by blast
  then have plain: "\<not> mb_super u" "mb_tenant u \<noteq> []" using ordinary by blast+
  let ?c = "\<lparr>ca_user = mb_id u, ca_tenant = mb_tenant u, ca_permissions = [], ca_super = False\<rparr>"
  have caller: "authMiddleware e now2 tok s2 = Inr ?c" for s2
    using tokens u(3) plain by (simp add: authMiddleware_def claims_caller_def)
  show "serve e now2 tok (Some p) m handler s2 = (forbidden, s2)"
    using plain by (simp add: serve_def caller tenantMiddleware_def no_permissions)
  show "\<exists>r. serve e now2 tok None POST (createAPIKey e now2 i random key_body) s2 = (r, s2)
         \<and> r \<in> {bad_request, AuthError 500 ''failed to hash key'', missing_column}"
    using plain key_not_created by (simp add: serve_def caller tenantMiddleware_def)
  show "serve e now3 (''sl_'' @ x) perm m handler s3 =
        (if length x < 7 then AuthError 500 [] else unauthorized, s3)"
    by (simp add: serve_def key_refused starts_with_def)
qed

text \<open>
  Whoever is given the link of an invitation within seven days can register, with a password of
  eight characters or more, and log in with it as an active user of the tenant under the invited
  e-mail.
\<close>
theorem invitation_completes:
  assumes invited: "createInvitation e now i tk body c s = (Invited v url, s1)" "tk \<noteq> []"
    and password: "8 \<le> length p" "ae_hash e p = Some h" "ae_check e p h"
    and in_time: "now2 \<le> now + 7 * 86400"
    and fresh: "\<forall>u\<in>set (ad_users s). mb_id u \<noteq> j"
    and signed: "\<forall>c. ae_token e c now3 = Some (sign c)"
  shows "\<exists>s2 s3 cl. registerWithInvitation e now2 j (JObj [(''token'', JStr tk), (''password'', JStr p)]) s1
        = (Registered j (iv_email v), s2)
      \<and> login e now3 (JObj [(''email'', JStr (iv_email v)), (''password'', JStr p)]) s2
        = (LoggedIn (sign cl), s3)
      \<and> cl_user cl = j \<and> cl_tenant cl = ca_tenant c"
proof (cases rule: createInvitation_cases [of e now i tk body c s])
  case refused
  with invited show ?thesis by simp
next
  case (invited email role)
  let ?v = "\<lparr>iv_id = i, iv_tenant = ca_tenant c, iv_email = email, iv_role = role, iv_token = tk,
    iv_invited_by = ca_user c, iv_expires = now + 7 * 86400, iv_accepted = None, iv_created = now\<rparr>"
  let ?u = "\<lparr>mb_id = j, mb_tenant = ca_tenant c, mb_email = email, mb_hash = h, mb_name = email,
    mb_status = ''active'', mb_super = False, mb_last_login = None\<rparr>"
  have s1: "s1 = s\<lparr>ad_invitations := ?v # ad_invitations s\<rparr>" using invited(5) assms(1) by simp
  have v: "iv_email v = email"
    using assms(1) invited(1) by (auto simp: createInvitation_def Let_def bad_request_def duplicate_def split: if_splits)
  have texts: "body_texts [''token'', ''password'', ''name''] (JObj [(''token'', JStr tk), (''password'', JStr p)])
      = Some [tk, p, []]"
    by (simp add: body_texts_def go_struct_def Let_def)
  have registered: "registerWithInvitation e now2 j (JObj [(''token'', JStr tk), (''password'', JStr p)]) s1
      = (Registered j email, given_role ?v j (accepted now2 ?v (s1\<lparr>ad_users := ?u # ad_users s1\<rparr>)))"
    using assms(2) password fresh in_time invited(4)
    by (auto simp: registerWithInvitation_def texts s1 invitation_refused_def taken_def Let_def)
  have users: "ad_users (given_role ?v j (accepted now2 ?v (s1\<lparr>ad_users := ?u # ad_users s1\<rparr>))) = ?u # ad_users s"
    by (simp add: given_role_def accepted_def s1 split: option.split)
  have "fst (login e now3 (JObj [(''email'', JStr email), (''password'', JStr p)]) s2) =
      LoggedIn (sign \<lparr>cl_user = j, cl_tenant = ca_tenant c, cl_permissions = [], cl_super = False\<rparr>)"
    if "ad_users s2 = ?u # ad_users s" for s2
    using that password invited(4) signed
    by (auto simp: login_def body_texts_def go_struct_def Let_def)
  from this [OF users] registered v show ?thesis
    by (metis claims.select_convs(1,2) prod.collapse)
qed

section \<open>Witnesses\<close>

definition ex_claims :: claims where
  "ex_claims = \<lparr>cl_user = ''u1'', cl_tenant = ''t1'', cl_permissions = [], cl_super = False\<rparr>"

definition ex_auth_env :: auth_env where
  "ex_auth_env =
     \<lparr>ae_hash = (\<lambda>p. Some (CHR ''#'' # p)), ae_check = (\<lambda>p h. h = CHR ''#'' # p),
      ae_token = (\<lambda>c t. if c = ex_claims then Some ''Ju1'' else None),
      ae_claims = (\<lambda>tok t. if tok = ''Ju1'' then Some ex_claims else None),
      ae_email = (\<lambda>m. CHR ''@'' \<in> set m)\<rparr>"

definition ex_auth_db :: auth_db where
  "ex_auth_db =
     \<lparr>ad_users = [\<lparr>mb_id = ''u1'', mb_tenant = ''t1'', mb_email = ''a@x'', mb_hash = ''#secret12'', mb_name = ''A'',
                   mb_status = ''active'', mb_super = False, mb_last_login = None\<rparr>],
      ad_keys = [], ad_invitations = [], ad_tenants = [(''t1'', ''Acme'')],
      ad_roles = [((''t1'', ''tenant_admin''), ''r1'')], ad_user_roles = [], ad_audit = []\<rparr>"

definition ex_credentials :: js where
  "ex_credentials = JObj [(''email'', JStr ''a@x''), (''password'', JStr ''secret12'')]"

lemma ex_login: "fst (login ex_auth_env 1 ex_credentials ex_auth_db) = LoggedIn ''Ju1''"
  by (simp add: login_def body_texts_def go_struct_def ex_credentials_def ex_auth_env_def ex_auth_db_def
      ex_claims_def Let_def)

theorem ordinary_user_passes_nothing_witness:
  "serve ex_auth_env 5 ''Ju1'' (Some ''users:read'') GET (listUsers (50, 0)) ex_auth_db = (forbidden, ex_auth_db)
   \<and> serve ex_auth_env 6 ''sl_0123456'' (Some ''users:read'') GET (listUsers (50, 0)) ex_auth_db =
      (unauthorized, ex_auth_db)"
proof -
  obtain s1 where login: "login ex_auth_env 1 ex_credentials ex_auth_db = (LoggedIn ''Ju1'', s1)"
    using ex_login by (metis prod.collapse)
  have email: "jprop ''email'' ex_credentials = JStr ''a@x''" by (simp add: ex_credentials_def)
  have hyps: "\<forall>u\<in>set (ad_users ex_auth_db). mb_email u = ''a@x'' \<longrightarrow> \<not> mb_super u \<and> mb_tenant u \<noteq> []"
    "\<forall>c. ae_token ex_auth_env c 1 = Some ''Ju1'' \<longrightarrow> ae_claims ex_auth_env ''Ju1'' 5 = Some c"
    "''Ju1'' \<noteq> []" "\<not> starts_with ''Ju1'' ''sl_''"
    by (simp_all add: ex_auth_db_def ex_auth_env_def starts_with_def)
  from ordinary_user_passes_nothing [OF login email hyps, of "''users:read''" GET "listUsers (50, 0)"
      ex_auth_db "''k1''" "''0''" JNull 6 "''0123456''" "Some ''users:read''" ex_auth_db]
  show ?thesis by simp
qed

definition ex_invitation :: invitation where
  "ex_invitation =
     \<lparr>iv_id = ''i1'', iv_tenant = ''t1'', iv_email = ''b@x'', iv_role = ''tenant_admin'', iv_token = ''tk'',
      iv_invited_by = ''root'', iv_expires = 604801, iv_accepted = None, iv_created = 1\<rparr>"

definition ex_root :: caller where
  "ex_root = \<lparr>ca_user = ''root'', ca_tenant = ''t1'', ca_permissions = [], ca_super = True\<rparr>"

definition ex_registration :: js where
  "ex_registration = JObj [(''token'', JStr ''tk''), (''password'', JStr ''password1''), (''name'', JStr ''B'')]"

definition ex_auth_ops :: "(nat \<times> auth_op) list" where
  "ex_auth_ops =
     [(1, OpInvite ex_root ''i1'' ''tk'' (JObj [(''email'', JStr ''b@x''), (''role'', JStr ''tenant_admin'')])),
      (2, OpRegister ''u2'' ex_registration)]"

lemma ex_registration_texts:
  "body_texts [''token'', ''password'', ''name''] ex_registration = Some [''tk'', ''password1'', ''B'']"
  by (simp add: body_texts_def go_struct_def ex_registration_def Let_def)

lemma ex_invited:
  "auth_step ex_auth_env (hd ex_auth_ops) ex_auth_db =
     (Invited ex_invitation ''/register?token=tk'', ex_auth_db\<lparr>ad_invitations := [ex_invitation]\<rparr>)"
  by (simp add: ex_auth_ops_def createInvitation_def body_texts_def go_struct_def Let_def ex_root_def
      ex_auth_env_def ex_auth_db_def ex_invitation_def)

lemma ex_registered:
  "registerWithInvitation ex_auth_env 2 ''u2'' ex_registration (ex_auth_db\<lparr>ad_invitations := [ex_invitation]\<rparr>) =
     (Registered ''u2'' ''b@x'', snd (registerWithInvitation ex_auth_env 2 ''u2'' ex_registration
        (ex_auth_db\<lparr>ad_invitations := [ex_invitation]\<rparr>)))"
  "ad_user_roles (snd (registerWithInvitation ex_auth_env 2 ''u2'' ex_registration
        (ex_auth_db\<lparr>ad_invitations := [ex_invitation]\<rparr>))) = [(''u2'', ''r1'')]"
  by (simp_all add: registerWithInvitation_def ex_registration_texts invitation_refused_def taken_def
      ex_auth_env_def ex_auth_db_def ex_invitation_def given_role_def accepted_def Let_def)

definition ex_after :: auth_db where
  "ex_after = snd (registerWithInvitation ex_auth_env 2 ''u2'' ex_registration
     (ex_auth_db\<lparr>ad_invitations := [ex_invitation]\<rparr>))"

theorem invitation_used_once_witness:
  "fst (registerWithInvitation ex_auth_env 9 ''u3'' ex_registration
     (auth_run ex_auth_env [(5, OpDeleteUser ex_root ''u2'')] ex_after)) =
   AuthError 400 ''invitation already accepted''"
proof -
  have "tokens_ok (ex_auth_db\<lparr>ad_invitations := [ex_invitation]\<rparr>)" by (simp add: tokens_ok_def)
  from invitation_used_once [OF this ex_registered(1) ex_registration_texts ex_registration_texts,
      of ex_auth_env 9 "''u3''" "[(5, OpDeleteUser ex_root ''u2'')]"]
  show ?thesis by (simp add: ex_after_def)
qed

theorem tenant_admins_invited_by_superadmin_witness:
  "\<exists>before now body after email. ex_auth_ops = before @ (now, OpRegister ''u2'' body) # after
     \<and> invited_admin ex_auth_env ex_auth_db before ''t1'' email"
proof -
  have "auth_run ex_auth_env ex_auth_ops ex_auth_db = snd (registerWithInvitation ex_auth_env 2 ''u2''
      ex_registration (ex_auth_db\<lparr>ad_invitations := [ex_invitation]\<rparr>))"
    using ex_invited by (simp add: ex_auth_ops_def)
  then have "(''u2'', ''r1'') \<in> set (ad_user_roles (auth_run ex_auth_env ex_auth_ops ex_auth_db))"
    by (simp add: ex_registered(2))
  moreover have "\<forall>v\<in>set (ad_invitations ex_auth_db). iv_role v \<noteq> ''tenant_admin''"
    "\<forall>k. map_of (ad_roles ex_auth_db) k = Some ''r1'' \<longrightarrow> k = (''t1'', ''tenant_admin'')"
    "(''u2'', ''r1'') \<notin> set (ad_user_roles ex_auth_db)"
    by (auto simp: ex_auth_db_def split: if_splits)
  ultimately show ?thesis
    using tenant_admins_invited_by_superadmin [of ex_auth_db "''r1''" "''t1''" "''u2''" ex_auth_env ex_auth_ops]
    by blast
qed

definition ex_signing :: auth_env where
  "ex_signing = ex_auth_env\<lparr>ae_token := (\<lambda>c t. Some (cl_user c))\<rparr>"

lemma ex_invited_signing:
  "createInvitation ex_signing 1 ''i1'' ''tk'' (JObj [(''email'', JStr ''b@x''), (''role'', JStr ''tenant_admin'')])
     ex_root ex_auth_db = (Invited ex_invitation ''/register?token=tk'', ex_auth_db\<lparr>ad_invitations := [ex_invitation]\<rparr>)"
  by (simp add: createInvitation_def body_texts_def go_struct_def Let_def ex_root_def ex_signing_def
      ex_auth_env_def ex_auth_db_def ex_invitation_def)

theorem invitation_completes_witness:
  "\<exists>s2 s3. registerWithInvitation ex_signing 2 ''u2''
        (JObj [(''token'', JStr ''tk''), (''password'', JStr ''password1'')])
        (ex_auth_db\<lparr>ad_invitations := [ex_invitation]\<rparr>) = (Registered ''u2'' ''b@x'', s2)
      \<and> login ex_signing 3 (JObj [(''email'', JStr ''b@x''), (''password'', JStr ''password1'')]) s2 =
        (LoggedIn ''u2'', s3)"
proof -
  have "ae_hash ex_signing ''password1'' = Some ''#password1''" "ae_check ex_signing ''password1'' ''#password1''"
    "\<forall>u\<in>set (ad_users ex_auth_db). mb_id u \<noteq> ''u2''" "\<forall>c. ae_token ex_signing c 3 = Some (cl_user c)"
    by (simp_all add: ex_signing_def ex_auth_env_def ex_auth_db_def)
  from invitation_completes [OF ex_invited_signing _ _ this(1,2) _ this(3,4), of 2]
  show ?thesis by (auto simp: ex_invitation_def)
qed

end
