(* ===== verification/FeUsers.thy ===== *)
theory FeUsers
  imports FeTables FeHooksCore GoAuth
begin

text \<open>
  The pages of accounts: users and their invitations (\<open>app/(app)/settings/users/page.tsx\<close>), the page an
  invitation leads to (\<open>app/(auth)/register/page.tsx\<close>) and API keys (\<open>settings/api-keys/page.tsx\<close>).
  The handlers of the server are those of theory \<open>GoAuth\<close>.

  A dialog of the package \<open>radix-ui\<close> closes itself when one of its buttons is pressed.
\<close>

section \<open>Users\<close>

record users_page =
  up_showForm :: bool
  up_showInvite :: bool
  up_email :: string
  up_password :: string
  up_name :: string
  up_invite_email :: string
  up_invite_role :: string
  up_tab :: string
  up_deleteOpen :: bool
  up_toDelete :: "string option"
  up_cancelOpen :: bool
  up_toCancel :: "string option"

definition initial_users :: users_page where
  "initial_users =
     \<lparr>up_showForm = False, up_showInvite = False, up_email = [], up_password = [], up_name = [],
      up_invite_email = [], up_invite_role = ''user'', up_tab = ''users'', up_deleteOpen = False,
      up_toDelete = None, up_cancelOpen = False, up_toCancel = None\<rparr>"

definition is_expired :: "page_env \<Rightarrow> js \<Rightarrow> bool" where
  "is_expired e row \<longleftrightarrow> num_lt (date_ms e (jprop ''expires_at'' row)) (now_ms e)"

definition pendingInvitations :: "page_env \<Rightarrow> js \<Rightarrow> js list" where
  "pendingInvitations e invitations =
     filter (\<lambda>i. \<not> truthy (jprop ''accepted_at'' i) \<and> num_lt (now_ms e) (date_ms e (jprop ''expires_at'' i)))
       (elements invitations)"

definition users_tabs :: "page_env \<Rightarrow> js \<Rightarrow> js \<Rightarrow> (string \<times> nat) list" where
  "users_tabs e users invitations =
     [(''Users'', length (elements users)),
      (''Pending Invitations'', length (pendingInvitations e invitations))]"

text \<open>What a row of each table lets press: deletion, resending, cancelling\<close>

datatype row_action = PressDelete string | PressResend string | PressCancel string

definition user_actions :: "js \<Rightarrow> row_action list" where
  "user_actions row =
     (if truthy (jprop ''is_super_admin'' row) then [] else [PressDelete (text_value (jprop ''id'' row))])"

definition invitation_actions :: "page_env \<Rightarrow> js \<Rightarrow> row_action list" where
  "invitation_actions e row =
     (if truthy (jprop ''accepted_at'' row) then []
      else (if is_expired e row then [PressResend (text_value (jprop ''id'' row))] else [])
           @ [PressCancel (text_value (jprop ''id'' row))])"

text \<open>The handlers; a mutation that fails throws where it is not caught, and what follows is left out.\<close>

definition handleCreate :: "fe_env \<Rightarrow> users_page \<times> fe_state \<Rightarrow> users_page \<times> fe_state" where
  "handleCreate e ps =
     (case ps of (p, s) \<Rightarrow>
        (case run_mutation e useCreateUser
                (JObj [(''email'', JStr (up_email p)), (''password'', JStr (up_password p)),
                       (''name'', JStr (up_name p))]) s of
           (Inl err, s') \<Rightarrow> (p, s')
         | (Inr d, s') \<Rightarrow> (p\<lparr>up_showForm := False, up_email := [], up_password := [], up_name := []\<rparr>, s')))"

definition invite_data :: "users_page \<Rightarrow> js" where
  "invite_data p = JObj [(''email'', JStr (up_invite_email p)), (''role'', JStr (up_invite_role p))]"

definition handleInvite :: "fe_env \<Rightarrow> users_page \<times> fe_state \<Rightarrow> users_page \<times> fe_state" where
  "handleInvite e ps =
     (case ps of (p, s) \<Rightarrow>
        (case run_mutation e useCreateInvitation (invite_data p) s of
           (Inl err, s') \<Rightarrow> (p, s')
         | (Inr d, s') \<Rightarrow> (p\<lparr>up_showInvite := False, up_invite_email := [], up_invite_role := ''user''\<rparr>, s')))"

definition users_handleDelete :: "fe_env \<Rightarrow> string \<Rightarrow> users_page \<times> fe_state \<Rightarrow> users_page \<times> fe_state" where
  "users_handleDelete e i ps =
     (case ps of (p, s) \<Rightarrow>
        (case run_mutation e useDeleteUser i s of
           (Inl err, s') \<Rightarrow> (p, s')
         | (Inr d, s') \<Rightarrow> (p\<lparr>up_deleteOpen := False, up_toDelete := None\<rparr>, s')))"

definition handleCancelInvitation :: "fe_env \<Rightarrow> string \<Rightarrow> users_page \<times> fe_state \<Rightarrow> users_page \<times> fe_state" where
  "handleCancelInvitation e i ps =
     (case ps of (p, s) \<Rightarrow>
        (case run_mutation e useCancelInvitation i s of
           (Inl err, s') \<Rightarrow> (p, s')
         | (Inr d, s') \<Rightarrow> (p\<lparr>up_cancelOpen := False, up_toCancel := None\<rparr>, s')))"

definition openDeleteUserDialog :: "string \<Rightarrow> users_page \<Rightarrow> users_page" where
  "openDeleteUserDialog i p = p\<lparr>up_toDelete := Some i, up_deleteOpen := True\<rparr>"

definition openCancelInviteDialog :: "string \<Rightarrow> users_page \<Rightarrow> users_page" where
  "openCancelInviteDialog i p = p\<lparr>up_toCancel := Some i, up_cancelOpen := True\<rparr>"

definition handleResendInvitation :: "fe_env \<Rightarrow> string \<Rightarrow> users_page \<times> fe_state \<Rightarrow> users_page \<times> fe_state" where
  "handleResendInvitation e i ps = (fst ps, snd (run_mutation e useResendInvitation i (snd ps)))"

text \<open>What can be done on the page, as it is shown with the users and the invitations of a moment\<close>

datatype users_event =
    Tab string
  | OpenInvite
  | CloseInvite
  | TypeInvite string string
  | SubmitInvite
  | TypeUser string string string
  | SubmitCreate
  | CloseForm
  | Press row_action
  | ConfirmDelete
  | DismissDelete
  | ConfirmCancel
  | DismissCancel

fun press_row :: "fe_env \<Rightarrow> row_action \<Rightarrow> users_page \<times> fe_state \<Rightarrow> users_page \<times> fe_state" where
  "press_row e (PressDelete i) ps = (openDeleteUserDialog i (fst ps), snd ps)"
| "press_row e (PressCancel i) ps = (openCancelInviteDialog i (fst ps), snd ps)"
| "press_row e (PressResend i) ps = handleResendInvitation e i ps"

definition confirm_delete :: "fe_env \<Rightarrow> users_page \<times> fe_state \<Rightarrow> users_page \<times> fe_state" where
  "confirm_delete e ps =
     (let ps' = ((fst ps)\<lparr>up_deleteOpen := False\<rparr>, snd ps)
      in case up_toDelete (fst ps) of
           Some (c # i) \<Rightarrow> users_handleDelete e (c # i) ps' | _ \<Rightarrow> ps')"

definition confirm_cancel :: "fe_env \<Rightarrow> users_page \<times> fe_state \<Rightarrow> users_page \<times> fe_state" where
  "confirm_cancel e ps =
     (let ps' = ((fst ps)\<lparr>up_cancelOpen := False\<rparr>, snd ps)
      in case up_toCancel (fst ps) of
           Some (c # i) \<Rightarrow> handleCancelInvitation e (c # i) ps' | _ \<Rightarrow> ps')"

fun users_next ::
  "fe_env \<Rightarrow> page_env \<Rightarrow> js \<Rightarrow> js \<Rightarrow> users_event \<Rightarrow> users_page \<times> fe_state \<Rightarrow> users_page \<times> fe_state" where
  "users_next e pe users invitations (Tab t) ps = ((fst ps)\<lparr>up_tab := t\<rparr>, snd ps)"
| "users_next e pe users invitations OpenInvite ps = ((fst ps)\<lparr>up_showInvite := True\<rparr>, snd ps)"
| "users_next e pe users invitations CloseInvite ps = ((fst ps)\<lparr>up_showInvite := False\<rparr>, snd ps)"
| "users_next e pe users invitations (TypeInvite email role) ps =
     (if up_showInvite (fst ps)
      then ((fst ps)\<lparr>up_invite_email := email, up_invite_role := role\<rparr>, snd ps) else ps)"
| "users_next e pe users invitations SubmitInvite ps = (if up_showInvite (fst ps) then handleInvite e ps else ps)"
| "users_next e pe users invitations (TypeUser email password name) ps =
     (if up_showForm (fst ps)
      then ((fst ps)\<lparr>up_email := email, up_password := password, up_name := name\<rparr>, snd ps) else ps)"
| "users_next e pe users invitations SubmitCreate ps = (if up_showForm (fst ps) then handleCreate e ps else ps)"
| "users_next e pe users invitations CloseForm ps = ((fst ps)\<lparr>up_showForm := False\<rparr>, snd ps)"
| "users_next e pe users invitations (Press a) ps =
     (if up_tab (fst ps) = ''users'' \<and> (\<exists>row\<in>set (elements users). a \<in> set (user_actions row))
         \<or> up_tab (fst ps) = ''invitations''
           \<and> (\<exists>row\<in>set (elements invitations). a \<in> set (invitation_actions pe row))
      then press_row e a ps else ps)"
| "users_next e pe users invitations ConfirmDelete ps =
     (if up_deleteOpen (fst ps) then confirm_delete e ps else ps)"
| "users_next e pe users invitations DismissDelete ps =
     ((fst ps)\<lparr>up_deleteOpen := False, up_toDelete := None\<rparr>, snd ps)"
| "users_next e pe users invitations ConfirmCancel ps =
     (if up_cancelOpen (fst ps) then confirm_cancel e ps else ps)"
| "users_next e pe users invitations DismissCancel ps =
     ((fst ps)\<lparr>up_cancelOpen := False, up_toCancel := None\<rparr>, snd ps)"

section \<open>Registration\<close>

record register_page =
  rp_token :: "string option"
  rp_isLoading :: bool
  rp_isVerifying :: bool
  rp_invitation :: js
  rp_error :: js

definition initial_register :: "string option \<Rightarrow> register_page" where
  "initial_register tok =
     \<lparr>rp_token = tok, rp_isLoading = False, rp_isVerifying = True, rp_invitation = JNull, rp_error = JNull\<rparr>"

text \<open>The error of the server in an answer: \<open>err.response?.data?.error\<close>\<close>

definition server_error :: "api_error \<Rightarrow> string \<Rightarrow> js" where
  "server_error err message = js_or (jprop ''error'' (jprop ''data'' (err_response err))) (JStr message)"

definition verify_effect :: "fe_env \<Rightarrow> register_page \<times> fe_state \<Rightarrow> register_page \<times> fe_state" where
  "verify_effect e ps =
     (case ps of (p, s) \<Rightarrow>
        (case rp_token p of
           Some (c # t) \<Rightarrow>
             (case api_send e (new_request GET (''/invitations/verify/'' @ c # t) JUndef) s of
                (Inl err, s') \<Rightarrow>
                  (p\<lparr>rp_error := server_error err ''Invalid or expired invitation'', rp_isVerifying := False\<rparr>, s')
              | (Inr d, s') \<Rightarrow> (p\<lparr>rp_invitation := d, rp_isVerifying := False\<rparr>, s'))
         | _ \<Rightarrow> (p\<lparr>rp_error := JStr ''No invitation token provided'', rp_isVerifying := False\<rparr>, s)))"

definition registerSchema :: "string \<Rightarrow> string \<Rightarrow> (string \<times> string) list" where
  "registerSchema password confirmation =
     (if length password < 8 then [(''password'', ''Password must be at least 8 characters'')]
      else if password \<noteq> confirmation then [(''confirmPassword'', ''Passwords don'' @ [CHR 0x27] @ ''t match'')]
      else [])"

definition register_body :: "string \<Rightarrow> string \<Rightarrow> js \<Rightarrow> js" where
  "register_body tok password name =
     JObj [(''token'', JStr tok), (''password'', JStr password), (''name'', name)]"

definition register_onSubmit ::
  "fe_env \<Rightarrow> string \<Rightarrow> js \<Rightarrow> register_page \<times> fe_state \<Rightarrow> register_page \<times> fe_state" where
  "register_onSubmit e password name ps =
     (case ps of (p, s) \<Rightarrow>
        (case rp_token p of
           Some (c # t) \<Rightarrow>
             (case api_send e (new_request POST ''/auth/register'' (register_body (c # t) password name)) s of
                (Inl err, s') \<Rightarrow>
                  (p\<lparr>rp_isLoading := False\<rparr>, show_toast Error (server_error err ''Registration failed'') s')
              | (Inr d, s') \<Rightarrow>
                  (p\<lparr>rp_isLoading := False\<rparr>,
                   navigate (Push ''/login'')
                     (show_toast Success (JStr ''Account created successfully! Please log in.'') s')))
         | _ \<Rightarrow> ps))"

definition handleRegister ::
  "fe_env \<Rightarrow> string \<Rightarrow> string \<Rightarrow> js \<Rightarrow> register_page \<times> fe_state \<Rightarrow> register_page \<times> fe_state" where
  "handleRegister e password confirmation name ps =
     (if registerSchema password confirmation = [] then register_onSubmit e password name ps else ps)"

datatype register_view = Verifying | Invalid js | RegisterForm "(string \<times> js) list"

definition register_view :: "register_page \<Rightarrow> register_view" where
  "register_view p =
     (if rp_isVerifying p then Verifying
      else if truthy (rp_error p) then Invalid (rp_error p)
      else RegisterForm
             (if truthy (rp_invitation p)
              then [(''Email'', jprop ''email'' (rp_invitation p)),
                    (''Role'', map_text (replace_first (CHR ''_'') (CHR '' '')) (jprop ''role'' (rp_invitation p))),
                    (''Organization'', jprop ''tenant_name'' (rp_invitation p))]
              else []))"

section \<open>API keys\<close>

record keys_page =
  kp_showForm :: bool
  kp_keyName :: string
  kp_generatedKey :: js
  kp_deleteOpen :: bool
  kp_toDelete :: "string option"

definition initial_keys :: keys_page where
  "initial_keys =
     \<lparr>kp_showForm = False, kp_keyName = [], kp_generatedKey = JNull, kp_deleteOpen = False, kp_toDelete = None\<rparr>"

definition keys_handleCreate :: "fe_env \<Rightarrow> keys_page \<times> fe_state \<Rightarrow> keys_page \<times> fe_state" where
  "keys_handleCreate e ps =
     (case ps of (p, s) \<Rightarrow>
        if trim (kp_keyName p) = [] then (p, show_toast Error (JStr ''Please enter a key name'') s)
        else (case run_mutation e useCreateAPIKey (JObj [(''name'', JStr (kp_keyName p))]) s of
                (Inl err, s') \<Rightarrow> (p, s')
              | (Inr d, s') \<Rightarrow> (p\<lparr>kp_generatedKey := jprop ''key'' d\<rparr>, s')))"

definition keys_handleDelete :: "fe_env \<Rightarrow> string \<Rightarrow> keys_page \<times> fe_state \<Rightarrow> keys_page \<times> fe_state" where
  "keys_handleDelete e i ps =
     (case ps of (p, s) \<Rightarrow>
        (case run_mutation e useDeleteAPIKey i s of
           (Inl err, s') \<Rightarrow> (p, s')
         | (Inr d, s') \<Rightarrow> (p\<lparr>kp_deleteOpen := False, kp_toDelete := None\<rparr>, s')))"

definition keys_openDelete :: "string \<Rightarrow> keys_page \<Rightarrow> keys_page" where
  "keys_openDelete i p = p\<lparr>kp_toDelete := Some i, kp_deleteOpen := True\<rparr>"

definition keys_done :: "keys_page \<Rightarrow> keys_page" where
  "keys_done p = p\<lparr>kp_showForm := False, kp_generatedKey := JNull, kp_keyName := []\<rparr>"

datatype keys_view = KeyShown js | KeyForm string | NoForm

definition keys_view :: "keys_page \<Rightarrow> keys_view" where
  "keys_view p =
     (if \<not> kp_showForm p then NoForm
      else if truthy (kp_generatedKey p) then KeyShown (kp_generatedKey p) else KeyForm (kp_keyName p))"

section \<open>Theorems\<close>

text \<open>The JSON of an invitation, in lists of them, leaves its token out; times are written by \<open>stamp\<close>.\<close>

definition invitation_json :: "(nat \<Rightarrow> string) \<Rightarrow> invitation \<Rightarrow> js" where
  "invitation_json stamp v =
     JObj ([(''id'', JStr (iv_id v)), (''tenant_id'', JStr (iv_tenant v)), (''email'', JStr (iv_email v)),
            (''role'', JStr (iv_role v))]
           @ (if iv_invited_by v = [] then [] else [(''invited_by'', JStr (iv_invited_by v))])
           @ [(''expires_at'', JStr (stamp (iv_expires v)))]
           @ (case iv_accepted v of None \<Rightarrow> [] | Some t \<Rightarrow> [(''accepted_at'', JStr (stamp t))])
           @ [(''created_at'', JStr (stamp (iv_created v)))])"

definition answering :: "js \<Rightarrow> fe_env \<Rightarrow> fe_env" where
  "answering d e = e\<lparr>fe_server := (\<lambda>rq. Inr d)\<rparr>"

text \<open>
  The link of an invitation is never seen: it is in the answers to the requests that create and
  resend the invitation, on which neither the page nor the browser's state depends, and in no list of
  invitations. The page announces that the invitation was sent; nothing sends it.
\<close>
theorem invitation_link_unseen:
  "handleInvite (answering d e) (p, s) = handleInvite (answering d' e) (p, s)
   \<and> handleResendInvitation (answering d e) i (p, s) = handleResendInvitation (answering d' e) i (p, s)
   \<and> invitation_json stamp (v\<lparr>iv_token := t\<rparr>) = invitation_json stamp v
   \<and> \<not> up_showInvite (fst (handleInvite (answering d e) (p, s)))
   \<and> fe_toasts (snd (handleInvite (answering d e) (p, s))) =
       fe_toasts s @ [(Success, JStr ''Invitation sent successfully'')]"
  by (simp add: handleInvite_def handleResendInvitation_def run_mutation_def api_send_def answering_def
      useCreateInvitation_def useResendInvitation_def invalidate_def settle_def fail_mutation_def
      invitation_json_def show_toast_def Let_def)

text \<open>Histories of the page, each event with the users and the invitations that are shown then\<close>

type_synonym users_history = "(js \<times> js \<times> users_event) list"

definition users_run ::
  "fe_env \<Rightarrow> page_env \<Rightarrow> users_history \<Rightarrow> users_page \<times> fe_state \<Rightarrow> users_page \<times> fe_state" where
  "users_run e pe h ps = fold (\<lambda>(users, invitations, ev). users_next e pe users invitations ev) h ps"

definition shown_ordinary :: "users_history \<Rightarrow> string \<Rightarrow> bool" where
  "shown_ordinary h i \<longleftrightarrow>
     (\<exists>(users, invitations, ev)\<in>set h. \<exists>row\<in>set (elements users).
        \<not> truthy (jprop ''is_super_admin'' row) \<and> text_value (jprop ''id'' row) = i)"

definition allowed_request :: "users_history \<Rightarrow> api_request \<Rightarrow> bool" where
  "allowed_request h rq \<longleftrightarrow>
     (\<exists>i. a_method rq = DELETE \<and> a_url rq = ''/users/'' @ i \<and> shown_ordinary h i)
     \<or> (a_method rq = POST \<or> a_method rq = DELETE) \<and> starts_with (a_url rq) ''/invitations''"

definition users_inv :: "users_history \<Rightarrow> fe_state \<Rightarrow> users_page \<times> fe_state \<Rightarrow> bool" where
  "users_inv h s0 ps \<longleftrightarrow>
     \<not> up_showForm (fst ps) \<and> (\<forall>i. up_toDelete (fst ps) = Some i \<longrightarrow> shown_ordinary h i)
     \<and> (\<exists>rqs. fe_sent (snd ps) = fe_sent s0 @ rqs \<and> (\<forall>rq\<in>set rqs. allowed_request h rq))"

lemma shown_mono: "shown_ordinary h i \<Longrightarrow> shown_ordinary (h @ h') i"
  unfolding shown_ordinary_def by auto

lemma allowed_mono: "allowed_request h rq \<Longrightarrow> allowed_request (h @ h') rq"
  using shown_mono unfolding allowed_request_def by blast

lemma users_inv_mono: "users_inv h s0 ps \<Longrightarrow> users_inv (h @ h') s0 ps"
  using shown_mono allowed_mono unfolding users_inv_def by meson

lemma users_inv_sent:
  assumes "users_inv h s0 (p, s)" "fe_sent s' = fe_sent s @ [add_token s rq]" "allowed_request h rq"
    "\<not> up_showForm p'" "up_toDelete p' = up_toDelete p \<or> up_toDelete p' = None"
  shows "users_inv h s0 (p', s')"
proof -
  obtain rqs where "fe_sent s = fe_sent s0 @ rqs" "\<forall>rq\<in>set rqs. allowed_request h rq"
    using assms(1) by (auto simp: users_inv_def)
  then have "fe_sent s' = fe_sent s0 @ (rqs @ [add_token s rq])
      \<and> (\<forall>rq\<in>set (rqs @ [add_token s rq]). allowed_request h rq)"
    using assms(2,3) by (auto simp: allowed_request_def)
  then show ?thesis using assms(1,4,5) unfolding users_inv_def by auto
qed

lemma users_inv_local:
  "users_inv h s0 (p, s) \<Longrightarrow> \<not> up_showForm p' \<Longrightarrow> up_toDelete p' = up_toDelete p \<or> up_toDelete p' = None \<Longrightarrow>
     users_inv h s0 (p', s)"
  unfolding users_inv_def by auto

lemma users_inv_mutation:
  assumes "users_inv h s0 (p, s)" "allowed_request h (m_request m v)"
    "\<not> up_showForm q" "up_toDelete q = up_toDelete p \<or> up_toDelete q = None"
  shows "users_inv h s0 (case run_mutation e m v s of (Inl err, s') \<Rightarrow> (p, s') | (Inr d, s') \<Rightarrow> (q, s'))"
proof (cases "run_mutation e m v s")
  case (Pair r s')
  note sent = run_mutation_sentD [OF Pair]
  have "\<not> up_showForm p" using assms(1) by (simp add: users_inv_def)
  then have "users_inv h s0 (p, s')" "users_inv h s0 (q, s')"
    using users_inv_sent [OF assms(1) sent assms(2)] assms(3,4) by blast+
  with Pair show ?thesis by (cases r) simp_all
qed

lemma allowed_invitations [simp]:
  "allowed_request h (m_request useCreateInvitation d)" "allowed_request h (m_request useCancelInvitation i)"
  "allowed_request h (m_request useResendInvitation i)"
  by (simp_all add: allowed_request_def useCreateInvitation_def useCancelInvitation_def
      useResendInvitation_def new_request_def starts_with_def)

lemma allowed_deletion: "shown_ordinary h i \<Longrightarrow> allowed_request h (m_request useDeleteUser i)"
  by (auto simp: allowed_request_def useDeleteUser_def new_request_def)

lemma press_inv:
  assumes "users_inv h s0 (p, s)" "\<And>i. a = PressDelete i \<Longrightarrow> shown_ordinary h i"
  shows "users_inv h s0 (press_row e a (p, s))"
proof (cases a)
  case (PressDelete i)
  then show ?thesis using assms by (simp add: users_inv_def openDeleteUserDialog_def)
next
  case (PressCancel i)
  then show ?thesis using assms(1) by (simp add: users_inv_def openCancelInviteDialog_def)
next
  case (PressResend i)
  have "\<not> up_showForm p" using assms(1) by (simp add: users_inv_def)
  then show ?thesis
    using users_inv_sent [OF assms(1) run_mutation_sent [of e useResendInvitation i s], of p] PressResend
    by (simp add: handleResendInvitation_def)
qed

lemma users_next_inv:
  assumes inv: "users_inv h s0 (p, s)" and here: "(users, invitations, ev) \<in> set h"
  shows "users_inv h s0 (users_next e pe users invitations ev (p, s))"
proof (cases ev)
  case SubmitInvite
  then show ?thesis using inv
    by (auto simp: handleInvite_def users_inv_def [of _ _ "(p, s)"] intro!: users_inv_mutation)
next
  case (Press a)
  have "shown_ordinary h i" if "row \<in> set (elements users)" "PressDelete i \<in> set (user_actions row)" for row i
    using that here by (auto simp: shown_ordinary_def user_actions_def split: if_splits intro!: bexI)
  moreover have "PressDelete i \<notin> set (invitation_actions pe row)" for row i
    by (simp add: invitation_actions_def)
  ultimately show ?thesis using Press inv by (auto intro!: press_inv)
next
  case ConfirmDelete
  show ?thesis
  proof (cases "up_toDelete p")
    case (Some i)
    then have "shown_ordinary h i" using inv by (simp add: users_inv_def)
    moreover have "users_inv h s0 (p\<lparr>up_deleteOpen := False\<rparr>, s)" using inv by (simp add: users_inv_def)
    ultimately have "users_inv h s0 (users_handleDelete e i (p\<lparr>up_deleteOpen := False\<rparr>, s))"
      using inv by (auto simp: users_handleDelete_def users_inv_def [of _ _ "(p, s)"]
          intro!: users_inv_mutation allowed_deletion)
    with ConfirmDelete Some inv show ?thesis
      by (cases i) (auto simp: confirm_delete_def Let_def users_inv_def)
  qed (use inv ConfirmDelete in \<open>auto simp: confirm_delete_def Let_def users_inv_def\<close>)
next
  case ConfirmCancel
  show ?thesis
  proof (cases "up_toCancel p")
    case (Some i)
    have "users_inv h s0 (p\<lparr>up_cancelOpen := False\<rparr>, s)" using inv by (simp add: users_inv_def)
    then have "users_inv h s0 (handleCancelInvitation e i (p\<lparr>up_cancelOpen := False\<rparr>, s))"
      using inv by (auto simp: handleCancelInvitation_def users_inv_def [of _ _ "(p, s)"]
          intro!: users_inv_mutation)
    with ConfirmCancel Some inv show ?thesis
      by (cases i) (auto simp: confirm_cancel_def Let_def users_inv_def)
  qed (use inv ConfirmCancel in \<open>auto simp: confirm_cancel_def Let_def users_inv_def\<close>)
qed (use inv in \<open>auto simp: users_inv_def\<close>)

lemma users_run_inv: "users_inv h s0 (users_run e pe h (initial_users, s0))"
proof (induction h rule: rev_induct)
  case Nil
  show ?case by (simp add: users_run_def users_inv_def initial_users_def)
next
  case (snoc x h)
  obtain users invitations ev where x: "x = (users, invitations, ev)" by (cases x)
  obtain p s where ps: "users_run e pe h (initial_users, s0) = (p, s)" by fastforce
  have "users_inv (h @ [x]) s0 (p, s)" using users_inv_mono snoc ps by metis
  from users_next_inv [OF this, of users invitations ev e pe] show ?case
    using ps x by (simp add: users_run_def)
qed

text \<open>
  Whatever is done on the page of users, it deletes no user but one that was shown without being a
  super administrator, sends nothing but such deletions and requests about invitations, and never
  shows the form that creates users.
\<close>
theorem users_page_requests:
  assumes "users_run e pe h (initial_users, s) = (p, s')"
  shows "\<not> up_showForm p
    \<and> (\<exists>rqs. fe_sent s' = fe_sent s @ rqs \<and>
         (\<forall>rq\<in>set rqs. (\<exists>i. a_method rq = DELETE \<and> a_url rq = ''/users/'' @ i \<and> shown_ordinary h i)
            \<or> starts_with (a_url rq) ''/invitations''))"
  using users_run_inv [of h s e pe] assms unfolding users_inv_def allowed_request_def by fastforce

definition ex_users :: js where
  "ex_users = JArr [JObj [(''id'', JStr ''u1''), (''is_super_admin'', JBool True)],
                    JObj [(''id'', JStr ''u2''), (''is_super_admin'', JBool False)]]"

definition ex_users_history :: users_history where
  "ex_users_history =
     [(ex_users, JArr [], Press (PressDelete ''u1'')), (ex_users, JArr [], Press (PressDelete ''u2'')),
      (ex_users, JArr [], ConfirmDelete)]"

theorem users_page_requests_witness:
  "\<forall>pe. map a_url (fe_sent (snd (users_run (answering JNull (ex_fe_env JNull)) pe ex_users_history
        (initial_users, ex_browser [])))) = [''/users/u2'']
      \<and> \<not> up_showForm (fst (users_run (answering JNull (ex_fe_env JNull)) pe ex_users_history
        (initial_users, ex_browser [])))"
proof
  fix pe
  let ?r = "users_run (answering JNull (ex_fe_env JNull)) pe ex_users_history (initial_users, ex_browser [])"
  obtain p s' where r: "?r = (p, s')" by fastforce
  have "map a_url (fe_sent (snd ?r)) = [''/users/u2'']"
    by (simp add: users_run_def ex_users_history_def ex_users_def user_actions_def initial_users_def
        openDeleteUserDialog_def confirm_delete_def users_handleDelete_def useDeleteUser_def run_mutation_def
        api_send_def answering_def settle_def invalidate_def show_toast_def new_request_def ex_browser_def Let_def)
  then show "map a_url (fe_sent (snd ?r)) = [''/users/u2''] \<and> \<not> up_showForm (fst ?r)"
    using users_page_requests [OF r] r by simp
qed

end
