(* ===== verification/FeConsent.thy ===== *)
theory FeConsent
  imports FeHooksGov GoAuth
begin

text \<open>
  Consent: the page (\<open>app/(app)/privacy/consent/page.tsx\<close>) with the handlers of the server it reaches:
  those of \<open>internal/api/quality_privacy.go\<close>, which its forms call, those of
  \<open>internal/api/dpia_cde_profiling.go\<close>, which keep the records of consent, and those of
  \<open>internal/api/residency.go\<close> for preferences and the widget.

  The database is lists; a row of the audit log whose user is not a UUID is refused, and the handlers
  ignore the error. Ids and times of rows that the page does not use are left out. What the router makes
  of an escaped parameter is an argument.
\<close>

section \<open>The server\<close>

record consent_record =
  cr_id :: string
  cr_tenant :: string
  cr_subject :: string
  cr_purpose :: string
  cr_status :: string
  cr_ip :: string
  cr_source :: string

record audit_row =
  au_tenant :: string
  au_user :: string
  au_action :: string
  au_resource :: string
  au_resource_id :: string

record consent_db =
  cd_records :: "consent_record list"
  cd_preferences :: "((string \<times> string) \<times> js) list"
  cd_widgets :: "(string \<times> js) list"
  cd_audit :: "audit_row list"

definition answer :: "nat \<Rightarrow> js \<Rightarrow> raw_response" where
  "answer status d = \<lparr>rs_status = status, rs_json = Some d\<rparr>"

definition error_answer :: "nat \<Rightarrow> string \<Rightarrow> raw_response" where
  "error_answer status message = answer status (JObj [(''error'', JStr message)])"

text \<open>An answer as \<open>axios\<close> gives it\<close>

definition axios_reply :: "raw_response \<Rightarrow> api_error + js" where
  "axios_reply r =
     (let d = (case rs_json r of None \<Rightarrow> JUndef | Some v \<Rightarrow> v)
      in if rs_ok r then Inr d
         else Inl (AxiosError (JObj [(''status'', JNum (num_of_nat (rs_status r))), (''data'', d)])
                    (''Request failed with status code '' @ nat_str (rs_status r))))"

lemma axios_answer [simp]:
  "n < 300 \<Longrightarrow> 200 \<le> n \<Longrightarrow> axios_reply (answer n d) = Inr d"
  by (simp add: axios_reply_def answer_def rs_ok_def)

text \<open>The audit log: the user of these rows is left empty.\<close>

definition audit_create :: "(string \<Rightarrow> bool) \<Rightarrow> audit_row \<Rightarrow> consent_db \<Rightarrow> consent_db" where
  "audit_create is_uuid a s = (if is_uuid (au_user a) then s\<lparr>cd_audit := cd_audit s @ [a]\<rparr> else s)"

definition recordConsent ::
  "(string \<Rightarrow> bool) \<Rightarrow> js \<Rightarrow> caller \<Rightarrow> consent_db \<Rightarrow> raw_response \<times> consent_db" where
  "recordConsent is_uuid body c s =
     (case (body_texts [''subject_id''] body, go_strings (jprop ''purposes'' body)) of
        (Some [subject], Some purposes) \<Rightarrow>
          (if subject = [] then (error_answer 400 ''bad request'', s)
           else (answer 200 (JObj [(''status'', JStr ''recorded'')]),
                 audit_create is_uuid
                   \<lparr>au_tenant = ca_tenant c, au_user = [], au_action = ''consent_recorded'',
                    au_resource = ''consent'', au_resource_id = []\<rparr> s))
      | _ \<Rightarrow> (error_answer 400 ''bad request'', s))"

definition withdrawConsent ::
  "(string \<Rightarrow> bool) \<Rightarrow> string \<Rightarrow> caller \<Rightarrow> consent_db \<Rightarrow> raw_response \<times> consent_db" where
  "withdrawConsent is_uuid subject c s =
     (answer 200 (JObj [(''status'', JStr ''withdrawn'')]),
      audit_create is_uuid
        \<lparr>au_tenant = ca_tenant c, au_user = [], au_action = ''consent_withdrawn'',
         au_resource = ''consent'', au_resource_id = subject\<rparr> s)"

definition record_json :: "consent_record \<Rightarrow> js" where
  "record_json r =
     JObj [(''id'', JStr (cr_id r)), (''subject_id'', JStr (cr_subject r)), (''purpose'', JStr (cr_purpose r)),
           (''status'', JStr (cr_status r)), (''ip'', JStr (cr_ip r)), (''source'', JStr (cr_source r))]"

definition recordConsentV2 ::
  "(string \<Rightarrow> bool) \<Rightarrow> string \<Rightarrow> js \<Rightarrow> caller \<Rightarrow> consent_db \<Rightarrow> raw_response \<times> consent_db" where
  "recordConsentV2 is_uuid new_id body c s =
     (case body_texts [''subject_id'', ''purpose'', ''status'', ''ip'', ''source''] body of
        Some [subject, purpose, status, ip, source] \<Rightarrow>
          (if subject = [] \<or> purpose = [] then (error_answer 400 ''bad request'', s)
           else
             (let r = \<lparr>cr_id = new_id, cr_tenant = ca_tenant c, cr_subject = subject, cr_purpose = purpose,
                       cr_status = (if status = [] then ''granted'' else status), cr_ip = ip,
                       cr_source = source\<rparr>
              in (answer 201 (record_json r),
                  audit_create is_uuid
                    \<lparr>au_tenant = ca_tenant c, au_user = [], au_action = ''consent_recorded'',
                     au_resource = ''consent'', au_resource_id = new_id\<rparr>
                    (s\<lparr>cd_records := r # cd_records s\<rparr>))))
      | _ \<Rightarrow> (error_answer 400 ''bad request'', s))"

definition is_of :: "string \<Rightarrow> string \<Rightarrow> consent_record \<Rightarrow> bool" where
  "is_of tenant subject r \<longleftrightarrow> cr_tenant r = tenant \<and> cr_subject r = subject"

definition withdrawConsentV2 ::
  "(string \<Rightarrow> bool) \<Rightarrow> string \<Rightarrow> caller \<Rightarrow> consent_db \<Rightarrow> raw_response \<times> consent_db" where
  "withdrawConsentV2 is_uuid subject c s =
     (answer 200 (JObj [(''status'', JStr ''withdrawn''),
        (''records_affected'', JNum (Fin (of_nat (length (filter (is_of (ca_tenant c) subject) (cd_records s))))))]),
      audit_create is_uuid
        \<lparr>au_tenant = ca_tenant c, au_user = [], au_action = ''consent_withdrawn'',
         au_resource = ''consent'', au_resource_id = subject\<rparr>
        (s\<lparr>cd_records := map (\<lambda>r. if is_of (ca_tenant c) subject r then r\<lparr>cr_status := ''withdrawn''\<rparr> else r)
                            (cd_records s)\<rparr>))"

definition listConsentRecords ::
  "string \<Rightarrow> string \<Rightarrow> nat \<times> nat \<Rightarrow> caller \<Rightarrow> consent_db \<Rightarrow> raw_response" where
  "listConsentRecords purpose status lo c s =
     answer 200 (JArr (map record_json (page_of lo
       (filter (\<lambda>r. cr_tenant r = ca_tenant c \<and> (purpose = [] \<or> cr_purpose r = purpose)
                    \<and> (status = [] \<or> cr_status r = status)) (cd_records s)))))"

record consent_stats =
  ct_total :: nat
  ct_granted :: nat
  ct_withdrawn :: nat
  ct_withdrawal_rate :: rat
  ct_by_purpose :: "(string \<times> nat \<times> nat) list"

definition getConsentStats :: "caller \<Rightarrow> consent_db \<Rightarrow> consent_stats" where
  "getConsentStats c s =
     (let rs = filter (\<lambda>r. cr_tenant r = ca_tenant c) (cd_records s);
          total = length rs;
          granted = length (filter (\<lambda>r. cr_status r = ''granted'') rs);
          withdrawn = length (filter (\<lambda>r. cr_status r = ''withdrawn'') rs)
      in \<lparr>ct_total = total, ct_granted = granted, ct_withdrawn = withdrawn,
          ct_withdrawal_rate = (if total > 0 then of_nat withdrawn / of_nat total * 100 else 0),
          ct_by_purpose = map (\<lambda>p. (p, length (filter (\<lambda>r. cr_purpose r = p) rs),
                                     length (filter (\<lambda>r. cr_purpose r = p \<and> cr_status r = ''granted'') rs)))
                              (remdups (map cr_purpose rs))\<rparr>)"

definition widget_defaults :: "(string \<times> string) list" where
  "widget_defaults =
     [(''primary_color'', ''#6366f1''), (''background_color'', ''#ffffff''), (''text_color'', ''#111827''),
      (''banner_title'', ''We value your privacy''),
      (''banner_text'', ''We use cookies and similar technologies to improve your experience.''),
      (''accept_label'', ''Accept All''), (''reject_label'', ''Reject Non-Essential'')]"

definition getConsentWidgetConfig :: "caller \<Rightarrow> consent_db \<Rightarrow> raw_response" where
  "getConsentWidgetConfig c s =
     answer 200 (case map_of (cd_widgets s) (ca_tenant c) of
       None \<Rightarrow> JObj ([(''id'', JNull), (''tenant_id'', JStr (ca_tenant c))]
                    @ map (\<lambda>(k, v). (k, JStr v)) widget_defaults
                    @ [(''purposes'', JArr []), (''created_at'', JNull), (''updated_at'', JNull)])
     | Some cfg \<Rightarrow> cfg)"

definition updateConsentWidgetConfig :: "js \<Rightarrow> caller \<Rightarrow> consent_db \<Rightarrow> raw_response \<times> consent_db" where
  "updateConsentWidgetConfig body c s =
     (case body_texts (map fst widget_defaults) body of
        None \<Rightarrow> (error_answer 400 ''bad request'', s)
      | Some vs \<Rightarrow>
          (answer 200 (JObj [(''status'', JStr ''updated'')]),
           s\<lparr>cd_widgets := assoc_put (ca_tenant c)
               (JObj (zip (map fst widget_defaults) (map JStr vs)
                      @ [(''purposes'', case go_json (jprop ''purposes'' body) of None \<Rightarrow> JNull | Some v \<Rightarrow> v)]))
               (cd_widgets s)\<rparr>))"

definition default_preferences :: js where
  "default_preferences =
     JObj [(''analytics'', JBool False), (''marketing'', JBool False), (''necessary'', JBool True)]"

definition getConsentPreferences :: "string \<Rightarrow> caller \<Rightarrow> consent_db \<Rightarrow> raw_response" where
  "getConsentPreferences subject c s =
     answer 200 (JObj [(''subject_id'', JStr subject),
       (''preferences'', case map_of (cd_preferences s) (ca_tenant c, subject) of
          None \<Rightarrow> default_preferences | Some p \<Rightarrow> p)])"

definition updateConsentPreferences ::
  "string \<Rightarrow> js \<Rightarrow> caller \<Rightarrow> consent_db \<Rightarrow> raw_response \<times> consent_db" where
  "updateConsentPreferences subject prefs c s =
     (if \<not> go_struct prefs then (error_answer 400 ''bad request'', s)
      else (answer 200 (JObj [(''subject_id'', JStr subject), (''preferences'', prefs),
                              (''status'', JStr ''updated'')]),
            s\<lparr>cd_preferences := assoc_put (ca_tenant c, subject) prefs (cd_preferences s)\<rparr>))"

definition getConsentEmbedCode :: "string \<Rightarrow> caller \<Rightarrow> raw_response" where
  "getConsentEmbedCode api_base c =
     (let base = (if api_base = [] then ''https://api.securelens.ai'' else api_base);
          quote = [CHR 0x22]
      in answer 200 (JObj
           [(''embed_code'', JStr (''<script src='' @ quote @ base @ ''/api/v1/consent/widget.js?tenant=''
               @ ca_tenant c @ quote @ ''></script>'')),
            (''tenant_id'', JStr (ca_tenant c))]))"

text \<open>The routes, below the address of the server\<close>

record consent_env =
  ce_auth :: auth_env
  ce_db :: auth_db
  ce_uuid :: "string \<Rightarrow> bool"
  ce_unescape :: "string \<Rightarrow> string"
  ce_api_base :: string
  ce_base :: string

text \<open>
  A parameter of a route stands for one segment, which is not empty. What no route takes is answered with
  404 here, a path that is there for other methods as well.
\<close>

definition one_segment :: "string \<Rightarrow> string \<Rightarrow> bool" where
  "one_segment prefix path \<longleftrightarrow>
     starts_with path prefix \<and> drop (length prefix) path \<noteq> [] \<and> CHR ''/'' \<notin> set (drop (length prefix) path)"

definition consent_route ::
  "consent_env \<Rightarrow> string \<Rightarrow> http_method \<Rightarrow> string \<Rightarrow> js \<Rightarrow> caller \<Rightarrow> consent_db \<Rightarrow> raw_response \<times> consent_db" where
  "consent_route e new_id m path body c s =
     (let param = (\<lambda>prefix. ce_unescape e (drop (length prefix) path))
      in if path = ''/privacy/consent'' \<and> m = POST then recordConsent (ce_uuid e) body c s
         else if path = ''/privacy/consent/record'' \<and> m = POST then recordConsentV2 (ce_uuid e) new_id body c s
         else if path = ''/privacy/consent/records'' \<and> m = GET
         then (listConsentRecords [] [] (ParseListOpts None None) c s, s)
         else if one_segment ''/privacy/consent/withdraw/'' path \<and> m = POST
         then withdrawConsentV2 (ce_uuid e) (param ''/privacy/consent/withdraw/'') c s
         else if one_segment ''/privacy/consent/'' path \<and> m = DELETE
         then withdrawConsent (ce_uuid e) (param ''/privacy/consent/'') c s
         else if path = ''/consent/widget-config'' \<and> m = GET then (getConsentWidgetConfig c s, s)
         else if path = ''/consent/widget-config'' \<and> m = PUT then updateConsentWidgetConfig body c s
         else if path = ''/consent/embed-code'' \<and> m = GET then (getConsentEmbedCode (ce_api_base e) c, s)
         else if one_segment ''/consent/preferences/'' path \<and> m = GET
         then (getConsentPreferences (param ''/consent/preferences/'') c s, s)
         else if one_segment ''/consent/preferences/'' path \<and> m = PUT
         then updateConsentPreferences (param ''/consent/preferences/'') body c s
         else (answer 404 JUndef, s))"

definition refusal :: "auth_answer \<Rightarrow> raw_response" where
  "refusal r = (case r of AuthError n message \<Rightarrow> error_answer n message | _ \<Rightarrow> answer 200 JUndef)"

definition consent_http ::
  "consent_env \<Rightarrow> nat \<Rightarrow> string \<Rightarrow> raw_request \<Rightarrow> consent_db \<Rightarrow> raw_response option \<times> consent_db" where
  "consent_http e now new_id rq s =
     (case authMiddleware (ce_auth e) now (token_text (rq_authorization rq) []) (ce_db e) of
        Inl r \<Rightarrow> (Some (refusal r), s)
      | Inr c \<Rightarrow>
          (case tenantMiddleware c of
             Some r \<Rightarrow> (Some (refusal r), s)
           | None \<Rightarrow>
               apfst Some (consent_route e new_id (rq_method rq) (drop (length (ce_base e)) (rq_url rq))
                             (rq_body rq) c s)))"

section \<open>The page\<close>

type_synonym 's wire = "raw_request \<Rightarrow> 's \<Rightarrow> raw_response option \<times> 's"

definition uri_safe :: "char \<Rightarrow> bool" where
  "uri_safe ch \<longleftrightarrow>
     (let n = of_char ch :: nat
      in (48 \<le> n \<and> n \<le> 57) \<or> (65 \<le> n \<and> n \<le> 90) \<or> (97 \<le> n \<and> n \<le> 122)
         \<or> ch \<in> set (''-_.!~*()'' @ [CHR 0x27]))"

definition encodeURIComponent :: "string \<Rightarrow> string" where
  "encodeURIComponent s = concat (map (\<lambda>ch. if uri_safe ch then [ch] else concat (map percent (utf8_bytes ch))) s)"

text \<open>\<open>authHeaders\<close>: what the local storage holds as \<open>token\<close>, \<open>null\<close> when it holds none\<close>

definition authHeaders :: "string option \<Rightarrow> string" where
  "authHeaders stored = bearer (case stored of None \<Rightarrow> JNull | Some t \<Rightarrow> JStr t)"

definition consent_fetch ::
  "'s wire \<Rightarrow> string \<Rightarrow> string option \<Rightarrow> http_method \<Rightarrow> string \<Rightarrow> js \<Rightarrow> 's \<Rightarrow> raw_response option \<times> 's" where
  "consent_fetch w base stored m path body s = w (raw m (base @ path) (authHeaders stored) body) s"

definition purposes :: "string list" where
  "purposes =
     [''Marketing communications'', ''Analytics and performance'', ''Personalization'',
      ''Third-party sharing'', ''AI/ML training'', ''Research and development'']"

text \<open>The preference center\<close>

record prefs_tab =
  pt_subjectId :: string
  pt_prefs :: js
  pt_loading :: bool
  pt_saved :: bool

definition initial_prefs :: prefs_tab where
  "initial_prefs = \<lparr>pt_subjectId = [], pt_prefs = JNull, pt_loading = False, pt_saved = False\<rparr>"

text \<open>What a successful answer holds; anything else throws and is caught.\<close>

definition ok_json :: "raw_response option \<Rightarrow> js option" where
  "ok_json o' = (case o' of None \<Rightarrow> None | Some r \<Rightarrow> (if rs_ok r then rs_json r else None))"

definition lookupPrefs ::
  "'s wire \<Rightarrow> string \<Rightarrow> string option \<Rightarrow> prefs_tab \<times> 's \<Rightarrow> prefs_tab \<times> 's" where
  "lookupPrefs w base stored ps =
     (case ps of (p, s) \<Rightarrow>
        if trim (pt_subjectId p) = [] then (p, s)
        else (case consent_fetch w base stored GET
                     (''/consent/preferences/'' @ encodeURIComponent (pt_subjectId p)) JUndef s of
                (o', s') \<Rightarrow>
                  (case ok_json o' of
                     None \<Rightarrow> (p\<lparr>pt_loading := False\<rparr>, s')
                   | Some d \<Rightarrow>
                       (if nullish d then (p\<lparr>pt_loading := False\<rparr>, s')
                        else (p\<lparr>pt_prefs := js_or (jprop ''preferences'' d) (JObj []), pt_loading := False\<rparr>, s')))))"

definition savePrefs ::
  "'s wire \<Rightarrow> string \<Rightarrow> string option \<Rightarrow> prefs_tab \<times> 's \<Rightarrow> prefs_tab \<times> 's" where
  "savePrefs w base stored ps =
     (case ps of (p, s) \<Rightarrow>
        if pt_subjectId p = [] \<or> \<not> truthy (pt_prefs p) then (p, s)
        else (case consent_fetch w base stored PUT
                     (''/consent/preferences/'' @ encodeURIComponent (pt_subjectId p)) (pt_prefs p) s of
                (None, s') \<Rightarrow> (p, s')
              | (Some r, s') \<Rightarrow> (p\<lparr>pt_saved := True\<rparr>, s')))"

definition preference_items :: "(string \<times> string \<times> bool) list" where
  "preference_items =
     [(''necessary'', ''Necessary'', True), (''analytics'', ''Analytics'', False),
      (''marketing'', ''Marketing'', False), (''personalization'', ''Personalization'', False)]"

definition js_fields :: "js \<Rightarrow> (string \<times> js) list" where
  "js_fields v = (case v of JObj fs \<Rightarrow> fs | _ \<Rightarrow> [])"

definition toggle_pref :: "string \<Rightarrow> prefs_tab \<Rightarrow> prefs_tab" where
  "toggle_pref k p =
     (if (\<exists>label. (k, label, False) \<in> set preference_items) \<and> truthy (pt_prefs p)
      then p\<lparr>pt_prefs := JObj (assoc_put k (JBool (\<not> truthy (jprop k (pt_prefs p)))) (js_fields (pt_prefs p)))\<rparr>
      else p)"

datatype prefs_event = TypeSubject string | Lookup | TogglePref string | SavePrefs | PrefsTimeout

fun prefs_next ::
  "'s wire \<Rightarrow> string \<Rightarrow> string option \<Rightarrow> prefs_event \<Rightarrow> prefs_tab \<times> 's \<Rightarrow> prefs_tab \<times> 's" where
  "prefs_next w base stored (TypeSubject t) ps = ((fst ps)\<lparr>pt_subjectId := t\<rparr>, snd ps)"
| "prefs_next w base stored Lookup ps = lookupPrefs w base stored ps"
| "prefs_next w base stored (TogglePref k) ps = (toggle_pref k (fst ps), snd ps)"
| "prefs_next w base stored SavePrefs ps = savePrefs w base stored ps"
| "prefs_next w base stored PrefsTimeout ps = ((fst ps)\<lparr>pt_saved := False\<rparr>, snd ps)"

definition prefs_run ::
  "'s wire \<Rightarrow> string \<Rightarrow> string option \<Rightarrow> prefs_event list \<Rightarrow> prefs_tab \<times> 's \<Rightarrow> prefs_tab \<times> 's" where
  "prefs_run w base stored es = fold (prefs_next w base stored) es"

text \<open>The widget's configuration\<close>

record widget_tab =
  wt_config :: js
  wt_loading :: bool
  wt_saved :: bool

definition initial_widget :: widget_tab where
  "initial_widget =
     \<lparr>wt_config = JObj (map (\<lambda>(k, v). (k, JStr v)) widget_defaults), wt_loading = False, wt_saved = False\<rparr>"

definition widget_effect ::
  "'s wire \<Rightarrow> string \<Rightarrow> string option \<Rightarrow> widget_tab \<times> 's \<Rightarrow> widget_tab \<times> 's" where
  "widget_effect w base stored ps =
     (case ps of (p, s) \<Rightarrow>
        (case consent_fetch w base stored GET ''/consent/widget-config'' JUndef s of
           (o', s') \<Rightarrow>
             (case ok_json o' of
                None \<Rightarrow> (p, s')
              | Some d \<Rightarrow>
                  (if truthy d \<and> truthy (jprop ''primary_color'' d) then (p\<lparr>wt_config := d\<rparr>, s') else (p, s')))))"

definition widget_save ::
  "'s wire \<Rightarrow> string \<Rightarrow> string option \<Rightarrow> widget_tab \<times> 's \<Rightarrow> widget_tab \<times> 's" where
  "widget_save w base stored ps =
     (case ps of (p, s) \<Rightarrow>
        (case consent_fetch w base stored PUT ''/consent/widget-config'' (wt_config p) s of
           (None, s') \<Rightarrow> (p\<lparr>wt_loading := True\<rparr>, s')
         | (Some r, s') \<Rightarrow> (p\<lparr>wt_loading := False, wt_saved := True\<rparr>, s')))"

definition widget_fields :: "(string \<times> string \<times> string) list" where
  "widget_fields =
     [(''banner_title'', ''Banner Title'', ''text''), (''banner_text'', ''Banner Text'', ''textarea''),
      (''accept_label'', ''Accept Button Label'', ''text''), (''reject_label'', ''Reject Button Label'', ''text''),
      (''primary_color'', ''Primary Color'', ''color''), (''background_color'', ''Background Color'', ''color''),
      (''text_color'', ''Text Color'', ''color'')]"

definition set_widget_field :: "string \<Rightarrow> string \<Rightarrow> widget_tab \<Rightarrow> widget_tab" where
  "set_widget_field k v p = p\<lparr>wt_config := JObj (assoc_put k (JStr v) (js_fields (wt_config p)))\<rparr>"

text \<open>The code to embed\<close>

record embed_tab =
  et_embedCode :: js
  et_tenantId :: js
  et_copied :: bool

definition initial_embed :: embed_tab where
  "initial_embed = \<lparr>et_embedCode = JStr [], et_tenantId = JStr [], et_copied = False\<rparr>"

definition embed_effect ::
  "'s wire \<Rightarrow> string \<Rightarrow> string option \<Rightarrow> embed_tab \<times> 's \<Rightarrow> embed_tab \<times> 's" where
  "embed_effect w base stored ps =
     (case ps of (p, s) \<Rightarrow>
        (case consent_fetch w base stored GET ''/consent/embed-code'' JUndef s of
           (o', s') \<Rightarrow>
             (case ok_json o' of
                None \<Rightarrow> (p, s')
              | Some d \<Rightarrow>
                  (if nullish d then (p, s')
                   else (p\<lparr>et_embedCode := js_or (jprop ''embed_code'' d) (JStr []),
                           et_tenantId := js_or (jprop ''tenant_id'' d) (JStr [])\<rparr>, s')))))"

definition fullEmbed :: "string \<Rightarrow> embed_tab \<Rightarrow> js" where
  "fullEmbed base p =
     js_or (et_embedCode p)
       (JStr (''<script src='' @ [CHR 0x22] @ base @ ''/consent/widget.js?tenant=YOUR_TENANT_ID''
              @ [CHR 0x22] @ ''></script>''))"

text \<open>The forms that record and withdraw consent\<close>

record consent_page =
  cp_subject_id :: string
  cp_purpose :: string
  cp_withdrawId :: string
  cp_activeTab :: string

definition initial_consent :: consent_page where
  "initial_consent = \<lparr>cp_subject_id = [], cp_purpose = [], cp_withdrawId = [], cp_activeTab = ''manage''\<rparr>"

definition record_body :: "consent_page \<Rightarrow> js" where
  "record_body p = JObj [(''subject_id'', JStr (cp_subject_id p)), (''purpose'', JStr (cp_purpose p))]"

definition handleRecord :: "fe_env \<Rightarrow> consent_page \<times> fe_state \<Rightarrow> consent_page \<times> fe_state" where
  "handleRecord e ps =
     (case ps of (p, s) \<Rightarrow>
        (case run_mutation e useRecordConsent (record_body p) s of
           (Inl err, s') \<Rightarrow> (p, s')
         | (Inr d, s') \<Rightarrow> (p\<lparr>cp_subject_id := [], cp_purpose := []\<rparr>, s')))"

definition handleWithdraw :: "fe_env \<Rightarrow> consent_page \<times> fe_state \<Rightarrow> consent_page \<times> fe_state" where
  "handleWithdraw e ps =
     (case ps of (p, s) \<Rightarrow>
        if trim (cp_withdrawId p) = [] then (p, s)
        else (case run_mutation e useWithdrawConsent (cp_withdrawId p) s of
                (Inl err, s') \<Rightarrow> (p, s')
              | (Inr d, s') \<Rightarrow> (p\<lparr>cp_withdrawId := []\<rparr>, s')))"

definition consent_tabs :: "(string \<times> string) list" where
  "consent_tabs =
     [(''manage'', ''Consent Management''), (''preferences'', ''Preference Center''),
      (''widget'', ''Widget Configuration''), (''embed'', ''Embed Code'')]"

section \<open>Theorems\<close>

text \<open>A request of a hook as it is served\<close>

definition served :: "consent_env \<Rightarrow> string \<Rightarrow> api_request \<Rightarrow> caller \<Rightarrow> consent_db \<Rightarrow> raw_response \<times> consent_db" where
  "served e new_id rq c s = consent_route e new_id (a_method rq) (a_url rq) (a_body rq) c s"

lemma record_route:
  "served e n (m_request useRecordConsent (record_body p)) c s = recordConsent (ce_uuid e) (record_body p) c s"
  by (simp add: served_def consent_route_def useRecordConsent_def new_request_def Let_def)

lemma withdraw_route:
  "served e n (m_request useWithdrawConsent i) c s =
     (if i \<noteq> [] \<and> CHR ''/'' \<notin> set i then withdrawConsent (ce_uuid e) (ce_unescape e i) c s
      else (answer 404 JUndef, s))"
  by (auto simp: served_def consent_route_def one_segment_def useWithdrawConsent_def new_request_def
      starts_with_def Let_def)

lemma withdrawV2_route:
  "served e n (m_request useWithdrawConsentV2 i) c s =
     (if i \<noteq> [] \<and> CHR ''/'' \<notin> set i then withdrawConsentV2 (ce_uuid e) (ce_unescape e i) c s
      else (answer 404 JUndef, s))"
  by (auto simp: served_def consent_route_def one_segment_def useWithdrawConsentV2_def new_request_def
      starts_with_def Let_def)

text \<open>
  C25. The forms of the page record and withdraw nothing: both requests succeed (the second unless what is
  entered is no segment of a path), and leave the database as it was, for the handlers they reach write
  nothing but a row of the audit log, whose empty user is refused. Withdrawal proper, which no form
  reaches, marks all of the subject's consents and no others.
\<close>
theorem consent_forms_without_effect:
  assumes "\<not> ce_uuid e []" "cp_subject_id p \<noteq> []"
  shows "served e n (m_request useRecordConsent (record_body p)) c s =
           (answer 200 (JObj [(''status'', JStr ''recorded'')]), s)
    \<and> served e n (m_request useWithdrawConsent i) c s =
           (if i \<noteq> [] \<and> CHR ''/'' \<notin> set i then answer 200 (JObj [(''status'', JStr ''withdrawn'')])
            else answer 404 JUndef, s)
    \<and> (\<forall>r. r \<in> set (cd_records (snd (served e n (m_request useWithdrawConsentV2 i) c s))) \<longleftrightarrow>
         (\<exists>q\<in>set (cd_records s).
            r = (if i \<noteq> [] \<and> CHR ''/'' \<notin> set i \<and> is_of (ca_tenant c) (ce_unescape e i) q
                 then q\<lparr>cr_status := ''withdrawn''\<rparr> else q)))"
proof -
  have "body_texts [''subject_id''] (record_body p) = Some [cp_subject_id p]"
    by (simp add: body_texts_def go_struct_def record_body_def Let_def)
  moreover have "jprop ''purposes'' (record_body p) = JUndef" by (simp add: record_body_def)
  ultimately have "served e n (m_request useRecordConsent (record_body p)) c s =
      (answer 200 (JObj [(''status'', JStr ''recorded'')]), s)"
    using assms by (simp add: record_route recordConsent_def audit_create_def)
  moreover have "served e n (m_request useWithdrawConsent i) c s =
      (if i \<noteq> [] \<and> CHR ''/'' \<notin> set i then answer 200 (JObj [(''status'', JStr ''withdrawn'')])
       else answer 404 JUndef, s)"
    using assms(1) by (simp add: withdraw_route withdrawConsent_def audit_create_def)
  moreover have "r \<in> set (cd_records (snd (served e n (m_request useWithdrawConsentV2 i) c s))) \<longleftrightarrow>
      (\<exists>q\<in>set (cd_records s).
         r = (if i \<noteq> [] \<and> CHR ''/'' \<notin> set i \<and> is_of (ca_tenant c) (ce_unescape e i) q
              then q\<lparr>cr_status := ''withdrawn''\<rparr> else q))" for r
    using assms(1) by (auto simp: withdrawV2_route withdrawConsentV2_def audit_create_def)
  ultimately show ?thesis by blast
qed

definition ex_consent_env :: consent_env where
  "ex_consent_env =
     \<lparr>ce_auth = ex_auth_env, ce_db = ex_auth_db, ce_uuid = (\<lambda>t. t \<noteq> []), ce_unescape = (\<lambda>t. t),
      ce_api_base = [], ce_base = ''/api/v1''\<rparr>"

definition ex_consent_db :: consent_db where
  "ex_consent_db =
     \<lparr>cd_records = [\<lparr>cr_id = ''r1'', cr_tenant = ''t1'', cr_subject = ''s1'', cr_purpose = ''Personalization'',
                    cr_status = ''granted'', cr_ip = [], cr_source = []\<rparr>],
      cd_preferences = [], cd_widgets = [], cd_audit = []\<rparr>"

theorem consent_forms_without_effect_witness:
  "served ex_consent_env ''n'' (m_request useWithdrawConsent ''s1'') ex_root ex_consent_db =
     (answer 200 (JObj [(''status'', JStr ''withdrawn'')]), ex_consent_db)"
  using consent_forms_without_effect [of ex_consent_env "initial_consent\<lparr>cp_subject_id := ''s1''\<rparr>"
      "''n''" ex_root ex_consent_db "''s1''"]
  by (simp add: ex_consent_env_def)

text \<open>Without a token in the local storage every request of the tabs is refused.\<close>

lemma refused_without_token:
  assumes "\<forall>t. ae_claims (ce_auth e) ''null'' t = None"
  shows "consent_fetch (consent_http e now n) base None m path body s = (Some (error_answer 401 ''unauthorized''), s)"
  using assms
  by (simp add: consent_fetch_def consent_http_def raw_def authHeaders_def token_text_def starts_with_def
      authMiddleware_def unauthorized_def refusal_def Let_def)

lemma refusal_no_json: "ok_json (Some (error_answer 401 t)) = None"
  by (simp add: ok_json_def error_answer_def answer_def rs_ok_def)

text \<open>
  The tabs of the page take their token from the local storage, where nothing of the front end
  puts one. Without it the preference center never shows a preference, whatever is done, and nothing
  changes on the server; and the widget's configuration is announced as saved while it is refused.
\<close>
theorem consent_tabs_without_effect:
  assumes "\<forall>t. ae_claims (ce_auth e) ''null'' t = None"
  shows "pt_prefs (fst (prefs_run (consent_http e now n) base None es (initial_prefs, s))) = JNull
    \<and> snd (prefs_run (consent_http e now n) base None es (initial_prefs, s)) = s
    \<and> widget_save (consent_http e now n) base None (q, s) = (q\<lparr>wt_loading := False, wt_saved := True\<rparr>, s)"
proof -
  note refused = refused_without_token [OF assms] refusal_no_json
  have step: "pt_prefs (fst (prefs_next (consent_http e now n) base None ev (p, s))) = JNull
      \<and> snd (prefs_next (consent_http e now n) base None ev (p, s)) = s" if "pt_prefs p = JNull" for ev p
    using that by (cases ev) (simp_all add: lookupPrefs_def savePrefs_def toggle_pref_def refused)
  have "pt_prefs (fst (prefs_run (consent_http e now n) base None es (p, s))) = JNull
      \<and> snd (prefs_run (consent_http e now n) base None es (p, s)) = s" if "pt_prefs p = JNull" for p
    using that
  proof (induction es arbitrary: p)
    case (Cons ev es)
    obtain p' where "prefs_next (consent_http e now n) base None ev (p, s) = (p', s)" "pt_prefs p' = JNull"
      using step [OF Cons.prems, of ev] by (metis prod.collapse)
    then show ?case using Cons.IH [of p'] by (simp add: prefs_run_def)
  qed (simp add: prefs_run_def)
  then show ?thesis by (simp add: initial_prefs_def widget_save_def refused)
qed

theorem consent_tabs_without_effect_witness:
  "pt_prefs (fst (prefs_run (consent_http ex_consent_env 1 ''n'') ''/api/v1'' None [TypeSubject ''s1'', Lookup, SavePrefs]
     (initial_prefs, ex_consent_db))) = JNull
   \<and> wt_saved (fst (widget_save (consent_http ex_consent_env 1 ''n'') ''/api/v1'' None (initial_widget, ex_consent_db)))"
proof -
  have "\<forall>t. ae_claims (ce_auth ex_consent_env) ''null'' t = None"
    by (simp add: ex_consent_env_def ex_auth_env_def)
  from consent_tabs_without_effect [OF this] show ?thesis by simp
qed

end
