(* ===== verification/GoIntegrations.thy ===== *)
theory GoIntegrations
  imports FeConsent FeSso
begin

text \<open>
  The integrations of the server (\<open>src/internal/api/rot_integrations.go\<close>): the handlers that store
  them, and the test of their connection, with what it sends over the network.

  Outside the program, and arguments of the model: the answer of the network to a request (\<open>nw_http\<close>),
  the conversation with a server of mail (\<open>nw_dial\<close>), the text of a time and the measured latency. The
  database is taken as reachable and refuses a row whose texts are longer than their columns or whose id
  is taken; a column of JSON holds objects without repeated keys. Rows are newest first.
\<close>

section \<open>The rows\<close>

record integration =
  ig_id :: string
  ig_tenant :: string
  ig_name :: string
  ig_type :: string
  ig_provider :: string
  ig_config :: "js option"
  ig_sync_freq :: string
  ig_status :: string
  ig_last_sync :: "nat option"
  ig_updated :: nat

record integration_log =
  il_tenant :: string
  il_integration :: string
  il_level :: string
  il_message :: string

text \<open>Requests the server makes, newest last, and the messages for the workers of synchronisation\<close>

record probe =
  pb_method :: string
  pb_url :: string
  pb_headers :: "(string \<times> string) list"
  pb_body :: js

record integ_server =
  is_rows :: "integration list"
  is_logs :: "integration_log list"
  is_probes :: "probe list"
  is_jobs :: "(string \<times> string) list"

text \<open>A request that cannot be built, one without an answer, and an answer with its status and body\<close>

datatype http_reply = NoRequest string | NoConnection string | Reply nat string

record tcp_reply =
  tc_dial :: "string option"
  tc_greeting :: "string + string"
  tc_write :: "string option"
  tc_ehlo :: "string + string"

record integ_env =
  nw_http :: "probe \<Rightarrow> http_reply"
  nw_dial :: "string \<Rightarrow> tcp_reply"
  nw_format :: "string \<Rightarrow> nat \<Rightarrow> string"
  nw_latency :: nat

definition row_fits :: "integration \<Rightarrow> bool" where
  "row_fits r \<longleftrightarrow>
     length (ig_name r) \<le> 255 \<and> length (ig_type r) \<le> 100 \<and> length (ig_provider r) \<le> 100
     \<and> length (ig_sync_freq r) \<le> 50 \<and> length (ig_status r) \<le> 50"

definition find_integration :: "string \<Rightarrow> string \<Rightarrow> integ_server \<Rightarrow> integration option" where
  "find_integration tenant i s = find (\<lambda>r. ig_tenant r = tenant \<and> ig_id r = i) (is_rows s)"

definition update_rows :: "(integration \<Rightarrow> bool) \<Rightarrow> (integration \<Rightarrow> integration) \<Rightarrow> integ_server \<Rightarrow> integ_server" where
  "update_rows P f s = s\<lparr>is_rows := map (\<lambda>r. if P r then f r else r) (is_rows s)\<rparr>"

text \<open>The layouts of times, as \<open>time.Format\<close> names them: of JSON, of the tests, of a key\<close>

definition nw_stamp :: "integ_env \<Rightarrow> nat \<Rightarrow> string" where
  "nw_stamp e = nw_format e ''2006-01-02T15:04:05.999999999Z07:00''"

definition nw_seconds :: "integ_env \<Rightarrow> nat \<Rightarrow> string" where
  "nw_seconds e = nw_format e ''2006-01-02T15:04:05Z07:00''"

definition nw_compact :: "integ_env \<Rightarrow> nat \<Rightarrow> string" where
  "nw_compact e = nw_format e ''20060102150405''"

text \<open>The JSON of a row, without its time of creation\<close>

definition integration_json :: "integ_env \<Rightarrow> integration \<Rightarrow> js" where
  "integration_json e r =
     JObj [(''id'', JStr (ig_id r)), (''name'', JStr (ig_name r)), (''type'', JStr (ig_type r)),
           (''provider'', JStr (ig_provider r)),
           (''config'', case ig_config r of None \<Rightarrow> JNull | Some v \<Rightarrow> v),
           (''sync_freq'', JStr (ig_sync_freq r)), (''status'', JStr (ig_status r)),
           (''last_sync'', case ig_last_sync r of None \<Rightarrow> JNull | Some t \<Rightarrow> JStr (nw_stamp e t)),
           (''updated_at'', JStr (nw_stamp e (ig_updated r)))]"

section \<open>The handlers\<close>

definition listIntegrations :: "integ_env \<Rightarrow> nat \<times> nat \<Rightarrow> caller \<Rightarrow> integ_server \<Rightarrow> raw_response" where
  "listIntegrations e lo c s =
     answer 200 (JArr (map (integration_json e)
       (page_of lo (filter (\<lambda>r. ig_tenant r = ca_tenant c) (is_rows s)))))"

text \<open>\<open>Bind\<close> with the validation of a \<open>store.Integration\<close>; its times are those of the server.\<close>

definition bind_integration :: "js \<Rightarrow> integration option" where
  "bind_integration body =
     (case body_texts [''id'', ''name'', ''type'', ''provider'', ''sync_freq'', ''status''] body of
        Some [i, name, type, provider, freq, status] \<Rightarrow>
          (if name = [] \<or> type = [] then None
           else Some \<lparr>ig_id = i, ig_tenant = [], ig_name = name, ig_type = type, ig_provider = provider,
                      ig_config = go_json (jprop ''config'' body), ig_sync_freq = freq,
                      ig_status = status, ig_last_sync = None, ig_updated = 0\<rparr>)
      | _ \<Rightarrow> None)"

text \<open>The error of the insertion is ignored: the answer is the same.\<close>

definition createIntegration ::
  "integ_env \<Rightarrow> nat \<Rightarrow> string \<Rightarrow> js \<Rightarrow> caller \<Rightarrow> integ_server \<Rightarrow> raw_response \<times> integ_server" where
  "createIntegration e now new_id body c s =
     (case bind_integration body of
        None \<Rightarrow> (error_answer 400 ''bad request'', s)
      | Some req \<Rightarrow>
          (let r = req\<lparr>ig_tenant := ca_tenant c, ig_status := ''pending'', ig_updated := now,
                       ig_id := (if ig_id req = [] then new_id else ig_id req)\<rparr>
           in (answer 201 (integration_json e r),
               if row_fits r \<and> ig_id r \<notin> ig_id ` set (is_rows s) then s\<lparr>is_rows := r # is_rows s\<rparr> else s)))"

definition getIntegration :: "integ_env \<Rightarrow> string \<Rightarrow> caller \<Rightarrow> integ_server \<Rightarrow> raw_response" where
  "getIntegration e i c s =
     (case find_integration (ca_tenant c) i s of
        None \<Rightarrow> error_answer 404 ''not found'' | Some r \<Rightarrow> answer 200 (integration_json e r))"

definition or_text :: "string \<Rightarrow> string \<Rightarrow> string" where
  "or_text new old = (if new \<noteq> [] then new else old)"

definition updateIntegration ::
  "integ_env \<Rightarrow> nat \<Rightarrow> string \<Rightarrow> js \<Rightarrow> caller \<Rightarrow> integ_server \<Rightarrow> raw_response \<times> integ_server" where
  "updateIntegration e now i body c s =
     (case find_integration (ca_tenant c) i s of
        None \<Rightarrow> (error_answer 404 ''not found'', s)
      | Some r \<Rightarrow>
          (case body_texts [''name'', ''sync_freq'', ''status'', ''type'', ''provider''] body of
             Some [name, freq, status, type, provider] \<Rightarrow>
               (let r' = r\<lparr>ig_name := or_text name (ig_name r),
                           ig_config := (case go_json (jprop ''config'' body) of
                                           None \<Rightarrow> ig_config r | Some v \<Rightarrow> Some v),
                           ig_sync_freq := or_text freq (ig_sync_freq r),
                           ig_status := or_text status (ig_status r),
                           ig_type := or_text type (ig_type r),
                           ig_provider := or_text provider (ig_provider r), ig_updated := now\<rparr>;
                    s' = (if row_fits r'
                          then update_rows (\<lambda>q. ig_tenant q = ca_tenant c \<and> ig_id q = i) (\<lambda>q. r') s else s)
                in (answer 200 (integration_json e
                      (case find_integration (ca_tenant c) i s' of None \<Rightarrow> r' | Some q \<Rightarrow> q)), s'))
           | _ \<Rightarrow> (error_answer 400 ''bad request'', s)))"

definition deleteIntegration :: "string \<Rightarrow> caller \<Rightarrow> integ_server \<Rightarrow> raw_response \<times> integ_server" where
  "deleteIntegration i c s =
     (case find_integration (ca_tenant c) i s of
        None \<Rightarrow> (error_answer 404 ''not found'', s)
      | Some r \<Rightarrow>
          (answer 200 (JObj [(''status'', JStr ''deleted'')]),
           s\<lparr>is_rows := filter (\<lambda>q. \<not> (ig_tenant q = ca_tenant c \<and> ig_id q = i)) (is_rows s)\<rparr>))"

definition syncIntegration :: "nat \<Rightarrow> string \<Rightarrow> caller \<Rightarrow> integ_server \<Rightarrow> raw_response \<times> integ_server" where
  "syncIntegration now i c s =
     (case find_integration (ca_tenant c) i s of
        None \<Rightarrow> (error_answer 404 ''not found'', s)
      | Some r \<Rightarrow>
          (answer 200 (JObj [(''status'', JStr ''syncing''), (''integration_id'', JStr i)]),
           (update_rows (\<lambda>q. ig_tenant q = ca_tenant c \<and> ig_id q = i)
              (\<lambda>q. q\<lparr>ig_status := ''syncing'', ig_last_sync := Some now, ig_updated := now\<rparr>) s)
             \<lparr>is_jobs := is_jobs s @ [(ca_tenant c, i)]\<rparr>))"

section \<open>The test of a connection\<close>

text \<open>
  A test gives the requests it made, a status, an error and details (\<open>undefined\<close> for \<open>nil\<close>). A field of
  the configuration that is absent or of another type reads as empty.
\<close>

type_synonym verdict = "probe list \<times> string \<times> string \<times> js"

definition conf_text :: "string \<Rightarrow> js \<Rightarrow> string" where
  "conf_text k cfg = (case jprop k cfg of JStr s \<Rightarrow> s | _ \<Rightarrow> [])"

definition failed_test :: "string \<Rightarrow> verdict" where
  "failed_test message = ([], ''error'', message, JUndef)"

definition ask :: "integ_env \<Rightarrow> probe \<Rightarrow> (nat \<Rightarrow> string \<Rightarrow> string \<times> string \<times> js) \<Rightarrow> verdict" where
  "ask e p f =
     (case nw_http e p of
        NoRequest m \<Rightarrow> failed_test (''Failed to create request: '' @ m)
      | NoConnection m \<Rightarrow> ([p], ''error'', ''Connection failed: '' @ m, JUndef)
      | Reply n body \<Rightarrow> ([p], f n body))"

definition getIntegrationURL :: "js \<Rightarrow> string" where
  "getIntegrationURL cfg =
     (if conf_text ''url'' cfg \<noteq> [] then conf_text ''url'' cfg
      else if conf_text ''endpoint'' cfg \<noteq> [] then conf_text ''endpoint'' cfg
      else conf_text ''webhook_url'' cfg)"

abbreviation content_json :: "string \<times> string" where
  "content_json \<equiv> (''Content-Type'', ''application/json'')"

definition basic_auth :: "string \<Rightarrow> string \<Rightarrow> string \<times> string" where
  "basic_auth user password = (''Authorization'', ''Basic '' @ encryptSecret (user @ '':'' @ password))"

definition status_code :: "nat \<Rightarrow> string \<times> js" where
  "status_code n = (''status_code'', JNum (num_of_nat n))"

definition test_message :: string where
  "test_message = ''SecureLens integration test - please ignore''"

definition testWebhookIntegration :: "integ_env \<Rightarrow> nat \<Rightarrow> js \<Rightarrow> verdict" where
  "testWebhookIntegration e now cfg =
     (let url = getIntegrationURL cfg; token = conf_text ''token'' cfg;
          auth = (if token = [] then []
                  else if conf_text ''auth_type'' cfg = ''basic''
                  then [basic_auth (conf_text ''username'' cfg) token]
                  else [(''Authorization'', ''Bearer '' @ token)])
      in if url = [] then failed_test ''Missing webhook URL''
         else ask e \<lparr>pb_method = ''POST'', pb_url = url, pb_headers = content_json # auth,
                     pb_body = JObj [(''test'', JBool True), (''source'', JStr ''securelens''),
                       (''timestamp'', JStr (nw_seconds e now)), (''message'', JStr test_message)]\<rparr>
                (\<lambda>n body. let b = (if length body > 500 then take 500 body @ ''...'' else body)
                          in if n \<ge> 400
                             then (''error'', ''HTTP '' @ nat_str n @ '': '' @ b,
                                   JObj [status_code n, (''response'', JStr b)])
                             else (''connected'', [], JObj [status_code n])))"

text \<open>The regular expressions of the two addresses\<close>

definition upper_alnum :: "char \<Rightarrow> bool" where
  "upper_alnum c \<longleftrightarrow> (let n = of_char c :: nat in (48 \<le> n \<and> n \<le> 57) \<or> (65 \<le> n \<and> n \<le> 90))"

definition alnum :: "char \<Rightarrow> bool" where
  "alnum c \<longleftrightarrow> upper_alnum c \<or> (let n = of_char c :: nat in 97 \<le> n \<and> n \<le> 122)"

definition slackWebhookPattern :: "string \<Rightarrow> bool" where
  "slackWebhookPattern url =
     (let base = ''https://hooks.slack.com/services/''
      in starts_with url base \<and>
         (case split_on (CHR ''/'') (drop (length base) url) of
            [t # ts, b # bs, token] \<Rightarrow>
              t = CHR ''T'' \<and> b = CHR ''B'' \<and> ts \<noteq> [] \<and> bs \<noteq> [] \<and> token \<noteq> []
              \<and> list_all upper_alnum ts \<and> list_all upper_alnum bs \<and> list_all alnum token
          | _ \<Rightarrow> False))"

definition teamsWebhookPattern :: "string \<Rightarrow> bool" where
  "teamsWebhookPattern url =
     (let host = (\<lambda>c. alnum c \<or> c = CHR ''-''); rest = drop 8 url
      in starts_with url ''https://'' \<and> takeWhile host rest \<noteq> []
         \<and> starts_with (dropWhile host rest) ''.webhook.office.com/'')"

definition testSlackIntegration :: "integ_env \<Rightarrow> js \<Rightarrow> verdict" where
  "testSlackIntegration e cfg =
     (let url = getIntegrationURL cfg
      in if url = [] then failed_test ''Missing Slack webhook URL''
         else if \<not> slackWebhookPattern url
         then ([], ''error'',
               ''Invalid Slack webhook URL format. Expected: https://hooks.slack.com/services/T.../B.../...'',
               JObj [(''provided_url'', JStr url),
                     (''expected_format'', JStr ''https://hooks.slack.com/services/T<WORKSPACE>/B<BOT>/<TOKEN>'')])
         else ask e \<lparr>pb_method = ''POST'', pb_url = url, pb_headers = [content_json],
                     pb_body = JObj [(''text'', JStr test_message)]\<rparr>
                (\<lambda>n body.
                   if n \<noteq> 200
                   then (''error'', ''Slack returned HTTP '' @ nat_str n @ '': '' @ body,
                         JObj [status_code n, (''response'', JStr body)])
                   else if body \<noteq> ''ok''
                   then (''error'', ''Slack webhook validation failed: '' @ body, JObj [(''response'', JStr body)])
                   else (''connected'', [], JObj [(''channel'', coalesce (jprop ''channel'' cfg) JNull)])))"

definition adaptiveCard :: js where
  "adaptiveCard =
     JObj [(''type'', JStr ''message''),
       (''attachments'', JArr [JObj
         [(''contentType'', JStr ''application/vnd.microsoft.card.adaptive''), (''contentUrl'', JNull),
          (''content'', JObj
            [(''$schema'', JStr ''http://adaptivecards.io/schemas/adaptive-card.json''),
             (''type'', JStr ''AdaptiveCard''), (''version'', JStr ''1.2''),
             (''body'', JArr
               [JObj [(''type'', JStr ''TextBlock''), (''text'', JStr ''SecureLens Integration Test''),
                      (''weight'', JStr ''bolder''), (''size'', JStr ''medium'')],
                JObj [(''type'', JStr ''TextBlock''),
                      (''text'', JStr ''This is a test message from SecureLens. Please ignore.''),
                      (''wrap'', JBool True)]])])]])]"

definition testTeamsIntegration :: "integ_env \<Rightarrow> js \<Rightarrow> verdict" where
  "testTeamsIntegration e cfg =
     (let url = getIntegrationURL cfg
      in if url = [] then failed_test ''Missing Teams webhook URL''
         else if \<not> teamsWebhookPattern url
         then ([], ''error'',
               ''Invalid Teams webhook URL format. Expected: https://<tenant>.webhook.office.com/...'',
               JObj [(''provided_url'', JStr url),
                     (''expected_format'', JStr ''https://<tenant>.webhook.office.com/webhookb2/...'')])
         else ask e \<lparr>pb_method = ''POST'', pb_url = url, pb_headers = [content_json],
                     pb_body = adaptiveCard\<rparr>
                (\<lambda>n body. if n \<noteq> 200 \<and> n \<noteq> 202
                          then (''error'', ''Teams returned HTTP '' @ nat_str n @ '': '' @ body,
                                JObj [status_code n, (''response'', JStr body)])
                          else (''connected'', [], JUndef)))"

text \<open>The other providers; \<open>user\<close> is what the body of the answer decodes to.\<close>

definition testJiraIntegration :: "integ_env \<Rightarrow> (string \<Rightarrow> js) \<Rightarrow> js \<Rightarrow> verdict" where
  "testJiraIntegration e parse cfg =
     (let base = getIntegrationURL cfg; email = conf_text ''email'' cfg; token = conf_text ''api_token'' cfg
      in if base = [] then failed_test ''Missing Jira URL''
         else if email = [] \<or> token = [] then failed_test ''Missing email or API token''
         else ask e \<lparr>pb_method = ''GET'', pb_url = base @ ''/rest/api/3/myself'',
                     pb_headers = [basic_auth email token], pb_body = JUndef\<rparr>
                (\<lambda>n body.
                   if n = 401 then (''error'', ''Authentication failed'', JUndef)
                   else if n \<ge> 400 then (''error'', ''Jira returned HTTP '' @ nat_str n, JUndef)
                   else (''connected'', [],
                         JObj [(''user'', coalesce (jprop ''displayName'' (parse body)) JNull),
                               (''account'', coalesce (jprop ''accountId'' (parse body)) JNull)])))"

definition testServiceNowIntegration :: "integ_env \<Rightarrow> js \<Rightarrow> verdict" where
  "testServiceNowIntegration e cfg =
     (let inst = conf_text ''instance'' cfg; user = conf_text ''username'' cfg
      in if inst = [] \<or> user = [] then failed_test ''Missing instance or username''
         else ask e \<lparr>pb_method = ''GET'',
                     pb_url = ''https://'' @ inst @ ''.service-now.com/api/now/table/sys_user?sysparm_limit=1'',
                     pb_headers = [basic_auth user (conf_text ''password'' cfg), (''Accept'', ''application/json'')],
                     pb_body = JUndef\<rparr>
                (\<lambda>n body.
                   if n = 401 then (''error'', ''Authentication failed'', JUndef)
                   else if n \<ge> 400 then (''error'', ''ServiceNow returned HTTP '' @ nat_str n, JUndef)
                   else (''connected'', [], JObj [(''instance'', JStr inst)])))"

definition testSplunkIntegration :: "integ_env \<Rightarrow> js \<Rightarrow> verdict" where
  "testSplunkIntegration e cfg =
     (let url = getIntegrationURL cfg; token = conf_text ''token'' cfg
      in if url = [] \<or> token = [] then failed_test ''Missing URL or HEC token''
         else ask e \<lparr>pb_method = ''POST'', pb_url = url,
                     pb_headers = [(''Authorization'', ''Splunk '' @ token), content_json],
                     pb_body = JObj [(''event'', JStr ''SecureLens integration test''),
                                     (''sourcetype'', JStr ''securelens'')]\<rparr>
                (\<lambda>n body.
                   if n = 401 \<or> n = 403 then (''error'', ''Authentication failed'', JUndef)
                   else if n \<ge> 400 then (''error'', ''Splunk returned HTTP '' @ nat_str n, JUndef)
                   else (''connected'', [], JUndef)))"

definition testDatadogIntegration :: "integ_env \<Rightarrow> js \<Rightarrow> verdict" where
  "testDatadogIntegration e cfg =
     (let key = conf_text ''api_key'' cfg; site = or_text (conf_text ''site'' cfg) ''datadoghq.com''
      in if key = [] then failed_test ''Missing API key''
         else ask e \<lparr>pb_method = ''GET'', pb_url = ''https://api.'' @ site @ ''/api/v1/validate'',
                     pb_headers = [(''DD-API-KEY'', key)], pb_body = JUndef\<rparr>
                (\<lambda>n body.
                   if n = 403 then (''error'', ''Invalid API key'', JUndef)
                   else if n \<ge> 400 then (''error'', ''Datadog returned HTTP '' @ nat_str n, JUndef)
                   else (''connected'', [], JObj [(''site'', JStr site)])))"

definition testPagerDutyIntegration :: "integ_env \<Rightarrow> nat \<Rightarrow> js \<Rightarrow> verdict" where
  "testPagerDutyIntegration e now cfg =
     (let key = conf_text ''routing_key'' cfg
      in if key = [] then failed_test ''Missing routing key''
         else ask e \<lparr>pb_method = ''POST'', pb_url = ''https://events.pagerduty.com/v2/enqueue'',
                     pb_headers = [content_json],
                     pb_body = JObj [(''routing_key'', JStr key), (''event_action'', JStr ''trigger''),
                       (''dedup_key'', JStr (''securelens-test-'' @ nw_compact e now)),
                       (''payload'', JObj [(''summary'', JStr test_message), (''severity'', JStr ''info''),
                                           (''source'', JStr ''securelens'')])]\<rparr>
                (\<lambda>n body.
                   if n = 400 then (''error'', ''Invalid routing key'', JUndef)
                   else if n \<ge> 400 then (''error'', ''PagerDuty returned HTTP '' @ nat_str n, JUndef)
                   else (''connected'', [], JUndef)))"

text \<open>A port is a number cut to an integer; 587 stands for one that is no number.\<close>

definition smtp_port :: "js \<Rightarrow> int" where
  "smtp_port cfg =
     (case jprop ''smtp_port'' cfg of JNum (Fin q) \<Rightarrow> (if q < 0 then - \<lfloor>- q\<rfloor> else \<lfloor>q\<rfloor>) | _ \<Rightarrow> 587)"

definition testEmailIntegration :: "integ_env \<Rightarrow> js \<Rightarrow> verdict" where
  "testEmailIntegration e cfg =
     (let host = conf_text ''smtp_host'' cfg; t = nw_dial e (host @ '':'' @ int_str (smtp_port cfg))
      in if host = [] then failed_test ''Missing SMTP host''
         else (case tc_dial t of
                 Some m \<Rightarrow> failed_test (''Connection failed: '' @ m)
               | None \<Rightarrow>
                   (case tc_greeting t of
                      Inl m \<Rightarrow> failed_test (''Failed to read SMTP greeting: '' @ m)
                    | Inr greeting \<Rightarrow>
                        (if \<not> starts_with greeting ''220''
                         then failed_test (''Invalid SMTP greeting: '' @ trim greeting)
                         else (case tc_write t of
                                 Some m \<Rightarrow> failed_test (''Failed to send EHLO: '' @ m)
                               | None \<Rightarrow>
                                   (case tc_ehlo t of
                                      Inl m \<Rightarrow> failed_test (''Failed to read EHLO response: '' @ m)
                                    | Inr reply \<Rightarrow>
                                        (if \<not> starts_with reply ''250''
                                         then failed_test (''SMTP EHLO failed: '' @ trim reply)
                                         else ([], ''connected'', [],
                                               JObj [(''host'', JStr host),
                                                     (''port'', JNum (Fin (of_int (smtp_port cfg)))),
                                                     (''greeting'', JStr (trim greeting))]))))))))"

definition testGenericURLIntegration :: "integ_env \<Rightarrow> string \<Rightarrow> js \<Rightarrow> verdict" where
  "testGenericURLIntegration e url cfg =
     (let token = conf_text ''token'' cfg; key = conf_text ''api_key'' cfg
      in ask e \<lparr>pb_method = ''GET'', pb_url = url,
                pb_headers = (if token = [] then [] else [(''Authorization'', ''Bearer '' @ token)])
                             @ (if key = [] then [] else [(''X-API-Key'', key)]),
                pb_body = JUndef\<rparr>
           (\<lambda>n body. if n \<ge> 400
                     then (''error'', ''HTTP '' @ nat_str n @ '' response'', JObj [status_code n])
                     else (''connected'', [], JObj [status_code n])))"

definition manual_types :: "string list" where
  "manual_types =
     [''dlp'', ''privacy_platform'', ''catalog'', ''ticketing'', ''collibra'', ''alation'', ''onetrust'',
      ''privacyops'', ''custom'']"

definition test_connection :: "integ_env \<Rightarrow> (string \<Rightarrow> js) \<Rightarrow> nat \<Rightarrow> string \<Rightarrow> js \<Rightarrow> verdict" where
  "test_connection e parse now t cfg =
     (let url = getIntegrationURL cfg
      in if t \<in> {''webhook'', ''rest_api''} then testWebhookIntegration e now cfg
         else if t = ''slack'' then testSlackIntegration e cfg
         else if t = ''teams'' then testTeamsIntegration e cfg
         else if t = ''jira'' then testJiraIntegration e parse cfg
         else if t = ''servicenow'' then testServiceNowIntegration e cfg
         else if t \<in> {''splunk'', ''siem''} then testSplunkIntegration e cfg
         else if t \<in> {''datadog'', ''sentinel''} then testDatadogIntegration e cfg
         else if t = ''pagerduty'' then testPagerDutyIntegration e now cfg
         else if t \<in> {''email'', ''communication''} then testEmailIntegration e cfg
         else if url \<noteq> [] then testGenericURLIntegration e url cfg
         else if t \<in> set manual_types
         then ([], ''connected'', [], JObj [(''message'',
                 JStr ''Connection test not available for this type - please verify credentials manually'')])
         else ([], ''connected'', ''No URL or endpoint configured - please verify credentials manually'', JUndef))"

text \<open>The column as a map: anything but an object is the empty one.\<close>

definition config_map :: "js option \<Rightarrow> js" where
  "config_map c = (case c of Some (JObj fs) \<Rightarrow> JObj fs | _ \<Rightarrow> JObj [])"

definition testIntegration ::
  "integ_env \<Rightarrow> (string \<Rightarrow> js) \<Rightarrow> nat \<Rightarrow> string \<Rightarrow> caller \<Rightarrow> integ_server \<Rightarrow> raw_response \<times> integ_server" where
  "testIntegration e parse now i c s =
     (case find_integration (ca_tenant c) i s of
        None \<Rightarrow> (error_answer 404 ''not found'', s)
      | Some r \<Rightarrow>
          (case test_connection e parse now (ig_type r) (config_map (ig_config r)) of
             (probes, status, message, details) \<Rightarrow>
               (answer 200 (JObj
                  ([(''id'', JStr i), (''success'', JBool (status = ''connected'')),
                    (''status'', JStr status), (''latency_ms'', JNum (num_of_nat (nw_latency e)))]
                   @ (if message \<noteq> [] then [(''message'', JStr message), (''error'', JStr message)]
                      else [(''message'', JStr ''Connection successful'')])
                   @ (if details = JUndef then [] else [(''details'', details)]))),
                update_rows (\<lambda>q. ig_id q = i) (\<lambda>q. q\<lparr>ig_status := status, ig_updated := now\<rparr>)
                  (s\<lparr>is_probes := is_probes s @ probes,
                     is_logs := \<lparr>il_tenant = ca_tenant c, il_integration = i,
                                 il_level = (if status \<noteq> ''connected'' then ''error'' else ''info''),
                                 il_message = ''Connection test: '' @ status @ '' - '' @ message\<rparr> # is_logs s\<rparr>))))"

definition log_json :: "integration_log \<Rightarrow> js" where
  "log_json l =
     JObj [(''integration_id'', JStr (il_integration l)), (''level'', JStr (il_level l)),
           (''message'', JStr (il_message l))]"

definition getIntegrationLogs :: "string \<Rightarrow> caller \<Rightarrow> integ_server \<Rightarrow> raw_response" where
  "getIntegrationLogs i c s =
     answer 200 (JArr (map log_json (take 100
       (filter (\<lambda>l. il_tenant l = ca_tenant c \<and> il_integration l = i) (is_logs s)))))"

section \<open>The routes\<close>

text \<open>What stands below \<open>/integrations\<close>: nothing, an id, or an id and an operation\<close>

definition integration_route ::
  "integ_env \<Rightarrow> (string \<Rightarrow> js) \<Rightarrow> nat \<Rightarrow> string \<Rightarrow> caller \<Rightarrow> api_request \<Rightarrow> integ_server \<Rightarrow> raw_response \<times> integ_server" where
  "integration_route e parse now new_id c rq s =
     (case split_on (CHR ''/'') (a_url rq) of
        [lead, base] \<Rightarrow>
          (if lead \<noteq> [] \<or> base \<noteq> ''integrations'' then (answer 404 JUndef, s)
           else (case a_method rq of
                   GET \<Rightarrow> (listIntegrations e (ParseListOpts None None) c s, s)
                 | POST \<Rightarrow> createIntegration e now new_id (a_body rq) c s
                 | _ \<Rightarrow> (answer 405 JUndef, s)))
      | [lead, base, i] \<Rightarrow>
          (if lead \<noteq> [] \<or> base \<noteq> ''integrations'' then (answer 404 JUndef, s)
           else (case a_method rq of
                   GET \<Rightarrow> (getIntegration e i c s, s)
                 | PUT \<Rightarrow> updateIntegration e now i (a_body rq) c s
                 | DELETE \<Rightarrow> deleteIntegration i c s
                 | _ \<Rightarrow> (answer 405 JUndef, s)))
      | [lead, base, i, op] \<Rightarrow>
          (if lead \<noteq> [] \<or> base \<noteq> ''integrations'' then (answer 404 JUndef, s)
           else if op = ''test'' \<and> a_method rq = POST then testIntegration e parse now i c s
           else if op = ''sync'' \<and> a_method rq = POST then syncIntegration now i c s
           else if op = ''logs'' \<and> a_method rq = GET then (getIntegrationLogs i c s, s)
           else (answer 404 JUndef, s))
      | _ \<Rightarrow> (answer 404 JUndef, s))"

end
