(* ===== verification/FeIntegrations.thy ===== *)
theory FeIntegrations
  imports FeTables FeHooksGov GoIntegrations
begin

text \<open>
  The pages of integrations: the form of a new one (\<open>app/(app)/integrations/new/page.tsx\<close>) and the page
  of one (\<open>app/(app)/integrations/[id]/page.tsx\<close>), on the hooks and the handlers of theory
  \<open>GoIntegrations\<close>. The placeholders of the inputs are left out. \<open>Number\<close> of a text is the one of the
  conversions of the language.
\<close>

section \<open>The fields of the types\<close>

datatype input_type = TextInput | PasswordInput | NumberInput | SelectInput | TextareaInput

record config_field =
  cf_name :: string
  cf_label :: string
  cf_type :: input_type
  cf_required :: bool
  cf_options :: "(string \<times> string) list"

definition input_field :: "input_type \<Rightarrow> string \<Rightarrow> string \<Rightarrow> config_field" where
  "input_field t name label =
     \<lparr>cf_name = name, cf_label = label, cf_type = t, cf_required = False, cf_options = []\<rparr>"

definition required_field :: "input_type \<Rightarrow> string \<Rightarrow> string \<Rightarrow> config_field" where
  "required_field t name label = (input_field t name label)\<lparr>cf_required := True\<rparr>"

definition select_field :: "string \<Rightarrow> string \<Rightarrow> (string \<times> string) list \<Rightarrow> config_field" where
  "select_field name label options = (input_field SelectInput name label)\<lparr>cf_options := options\<rparr>"

type_synonym config_table = "(string \<times> config_field list) list"

definition integrationTypes :: "(string \<times> string \<times> string \<times> string) list" where
  "integrationTypes =
     [(''slack'', ''Slack'', ''Send alerts to Slack channels'', ''Notifications''),
      (''teams'', ''Microsoft Teams'', ''Send alerts to Teams channels'', ''Notifications''),
      (''email'', ''Email (SMTP)'', ''Email notifications for alerts'', ''Notifications''),
      (''webhook'', ''Webhook'', ''Custom HTTP webhook endpoint'', ''Notifications''),
      (''pinecone'', ''Pinecone'', ''Vector DB for RAG context'', ''Vector Databases''),
      (''qdrant'', ''Qdrant'', ''Vector search for AI Gate'', ''Vector Databases''),
      (''weaviate'', ''Weaviate'', ''Vector DB with hybrid search'', ''Vector Databases''),
      (''chroma'', ''Chroma'', ''Open-source embedding database'', ''Vector Databases''),
      (''openai'', ''OpenAI'', ''GPT models via OpenAI API'', ''LLM Providers''),
      (''anthropic'', ''Anthropic'', ''Claude models via Anthropic API'', ''LLM Providers''),
      (''azure_openai'', ''Azure OpenAI'', ''OpenAI models on Azure'', ''LLM Providers''),
      (''aws_bedrock'', ''AWS Bedrock'', ''Foundation models on AWS'', ''LLM Providers''),
      (''ollama'', ''Ollama'', ''Local LLM inference server'', ''LLM Providers'')]"

definition typeCategories :: "string list" where
  "typeCategories = remdups_adj (map (\<lambda>(v, l, d, category). category) integrationTypes)"

text \<open>The choices of the form: the types below their category\<close>

definition type_choices :: "(string \<times> string list) list" where
  "type_choices =
     map (\<lambda>c. (c, map fst (filter (\<lambda>(v, l, d, category). category = c) integrationTypes))) typeCategories"

text \<open>\<open>configFieldsByType\<close>, of the new page and of the page of one integration\<close>

definition slack_fields :: "config_field list" where
  "slack_fields =
     [required_field TextInput ''webhook_url'' ''Webhook URL'',
      input_field TextInput ''channel'' ''Channel (optional)'']"

definition teams_fields :: "config_field list" where
  "teams_fields = [required_field TextInput ''webhook_url'' ''Webhook URL'']"

definition email_fields :: "config_field list" where
  "email_fields =
     [required_field TextInput ''smtp_host'' ''SMTP Host'', required_field NumberInput ''smtp_port'' ''SMTP Port'',
      input_field TextInput ''smtp_user'' ''SMTP Username'',
      input_field PasswordInput ''smtp_password'' ''SMTP Password'',
      required_field TextInput ''from_address'' ''From Address'',
      required_field TextInput ''to_addresses'' ''To Addresses (comma-separated)'']"

definition webhook_fields :: "(string \<times> string) list \<Rightarrow> config_field list" where
  "webhook_fields extra =
     [required_field TextInput ''url'' ''Webhook URL'',
      (select_field ''method'' ''HTTP Method'' [(''POST'', ''POST''), (''PUT'', ''PUT'')])\<lparr>cf_required := True\<rparr>,
      select_field ''auth_type'' ''Authentication''
        ([(''none'', ''None''), (''bearer'', ''Bearer Token''), (''basic'', ''Basic Auth'')] @ extra),
      input_field PasswordInput ''token'' ''Token / Password'']"

definition pinecone_fields :: "config_field list" where
  "pinecone_fields =
     [required_field PasswordInput ''api_key'' ''API Key'', required_field TextInput ''environment'' ''Environment'',
      required_field TextInput ''index_name'' ''Index Name'']"

definition qdrant_fields :: "config_field list" where
  "qdrant_fields =
     [required_field TextInput ''url'' ''Qdrant URL'', input_field PasswordInput ''api_key'' ''API Key'',
      required_field TextInput ''collection'' ''Collection Name'']"

definition weaviate_fields :: "config_field list" where
  "weaviate_fields =
     [required_field TextInput ''url'' ''Weaviate URL'', input_field PasswordInput ''api_key'' ''API Key'',
      required_field TextInput ''class_name'' ''Class Name'']"

definition chroma_fields :: "config_field list" where
  "chroma_fields =
     [required_field TextInput ''url'' ''Chroma URL'', required_field TextInput ''collection'' ''Collection Name'',
      input_field PasswordInput ''auth_token'' ''Auth Token (optional)'']"

definition openai_fields :: "(string \<times> string) list \<Rightarrow> config_field list" where
  "openai_fields extra =
     [required_field PasswordInput ''api_key'' ''API Key'',
      input_field TextInput ''organization'' ''Organization ID (optional)'',
      select_field ''default_model'' ''Default Model''
        ([(''gpt-4o'', ''GPT-4o''), (''gpt-4o-mini'', ''GPT-4o Mini''), (''gpt-4-turbo'', ''GPT-4 Turbo'')] @ extra)]"

definition anthropic_fields :: "(string \<times> string) list \<Rightarrow> config_field list" where
  "anthropic_fields extra =
     [required_field PasswordInput ''api_key'' ''API Key'',
      select_field ''default_model'' ''Default Model''
        ([(''claude-sonnet-4-20250514'', ''Claude Sonnet 4''),
          (''claude-3-5-sonnet-20241022'', ''Claude 3.5 Sonnet'')] @ extra)]"

definition azure_fields :: "config_field list" where
  "azure_fields =
     [required_field TextInput ''endpoint'' ''Azure Endpoint'', required_field PasswordInput ''api_key'' ''API Key'',
      required_field TextInput ''deployment_name'' ''Deployment Name'']"

definition bedrock_fields :: "config_field list" where
  "bedrock_fields =
     [required_field TextInput ''region'' ''AWS Region'',
      required_field TextInput ''access_key_id'' ''Access Key ID'',
      required_field PasswordInput ''secret_access_key'' ''Secret Access Key'']"

definition ollama_fields :: "config_field list" where
  "ollama_fields =
     [required_field TextInput ''url'' ''Ollama URL'', required_field TextInput ''default_model'' ''Default Model'']"

definition new_config_fields :: config_table where
  "new_config_fields =
     [(''slack'', slack_fields), (''teams'', teams_fields), (''email'', email_fields),
      (''webhook'', webhook_fields [(''api_key'', ''API Key Header'')]
                    @ [input_field TextareaInput ''headers'' ''Custom Headers (JSON)'']),
      (''pinecone'', pinecone_fields), (''qdrant'', qdrant_fields), (''weaviate'', weaviate_fields),
      (''chroma'', chroma_fields), (''openai'', openai_fields [(''gpt-3.5-turbo'', ''GPT-3.5 Turbo'')]),
      (''anthropic'', anthropic_fields [(''claude-3-opus-20240229'', ''Claude 3 Opus''),
                                        (''claude-3-haiku-20240307'', ''Claude 3 Haiku'')]),
      (''azure_openai'', azure_fields @ [input_field TextInput ''api_version'' ''API Version'']),
      (''aws_bedrock'', bedrock_fields @
         [select_field ''default_model'' ''Default Model''
            [(''anthropic.claude-3-sonnet-20240229-v1:0'', ''Claude 3 Sonnet''),
             (''anthropic.claude-3-haiku-20240307-v1:0'', ''Claude 3 Haiku''),
             (''amazon.titan-text-express-v1'', ''Titan Text Express'')]]),
      (''ollama'', ollama_fields)]"

definition detail_config_fields :: config_table where
  "detail_config_fields =
     [(''slack'', slack_fields), (''teams'', teams_fields), (''email'', email_fields),
      (''webhook'', webhook_fields []), (''pinecone'', pinecone_fields), (''qdrant'', qdrant_fields),
      (''weaviate'', weaviate_fields), (''chroma'', chroma_fields), (''openai'', openai_fields []),
      (''anthropic'', anthropic_fields []), (''azure_openai'', azure_fields), (''aws_bedrock'', bedrock_fields),
      (''ollama'', ollama_fields)]"

definition fields_of :: "config_table \<Rightarrow> string \<Rightarrow> config_field list" where
  "fields_of table t = (case map_of table t of None \<Rightarrow> [] | Some fs \<Rightarrow> fs)"

definition field_named :: "config_table \<Rightarrow> string \<Rightarrow> string \<Rightarrow> config_field option" where
  "field_named table t k = find (\<lambda>f. cf_name f = k) (fields_of table t)"

text \<open>What typing or choosing \<open>v\<close> makes of a field, when the page lets it\<close>

definition input_value :: "conversions \<Rightarrow> config_field \<Rightarrow> string \<Rightarrow> js option" where
  "input_value cv f v =
     (case cf_type f of
        NumberInput \<Rightarrow> Some (JNum (str_num cv v))
      | SelectInput \<Rightarrow> (if v = [] \<or> v \<in> fst ` set (cf_options f) then Some (JStr v) else None)
      | _ \<Rightarrow> Some (JStr v))"

definition typed_value :: "conversions \<Rightarrow> config_table \<Rightarrow> string \<Rightarrow> string \<Rightarrow> string \<Rightarrow> js option" where
  "typed_value cv table t k v =
     (case field_named table t k of None \<Rightarrow> None | Some f \<Rightarrow> input_value cv f v)"

text \<open>What an input shows: \<open>config[name] || ''\<close>\<close>

definition input_shows :: "(string \<times> js) list \<Rightarrow> config_field \<Rightarrow> js" where
  "input_shows cfg f = js_or (jprop (cf_name f) (JObj cfg)) (JStr [])"

definition toggle_visible :: "string \<Rightarrow> (string \<times> bool) list \<Rightarrow> (string \<times> bool) list" where
  "toggle_visible k show = assoc_put k (case map_of show k of None \<Rightarrow> True | Some b \<Rightarrow> \<not> b) show"

section \<open>The client\<close>

record integ_client =
  cl_fe :: fe_env
  cl_env :: integ_env
  cl_parse :: "string \<Rightarrow> js"
  cl_caller :: caller

definition live :: "integ_client \<Rightarrow> nat \<Rightarrow> string \<Rightarrow> integ_server \<Rightarrow> fe_env" where
  "live cl now new_id srv = (cl_fe cl)\<lparr>fe_server :=
     (\<lambda>rq. axios_reply (fst (integration_route (cl_env cl) (cl_parse cl) now new_id (cl_caller cl) rq srv)))\<rparr>"

text \<open>A mutation of a hook and what it makes of the server\<close>

definition hook_call ::
  "integ_client \<Rightarrow> nat \<Rightarrow> string \<Rightarrow> 'v mutation \<Rightarrow> 'v \<Rightarrow> fe_state \<times> integ_server
   \<Rightarrow> (api_error + js) \<times> fe_state \<times> integ_server" where
  "hook_call cl now new_id m v w =
     (case w of (s, srv) \<Rightarrow>
        (case run_mutation (live cl now new_id srv) m v s of
           (r, s') \<Rightarrow>
             (r, s', snd (integration_route (cl_env cl) (cl_parse cl) now new_id (cl_caller cl)
                            (m_request m v) srv))))"

section \<open>A new integration\<close>

record new_integration =
  ni_name :: string
  ni_type :: string
  ni_provider :: string
  ni_config :: "(string \<times> js) list"
  ni_show :: "(string \<times> bool) list"

definition initial_integration :: new_integration where
  "initial_integration =
     \<lparr>ni_name = [], ni_type = ''slack'', ni_provider = [], ni_config = [], ni_show = []\<rparr>"

definition handleConfigChange :: "string \<Rightarrow> js \<Rightarrow> new_integration \<Rightarrow> new_integration" where
  "handleConfigChange k v f = f\<lparr>ni_config := assoc_put k v (ni_config f)\<rparr>"

datatype ni_event =
    EnterName string
  | ChooseType string
  | EnterProvider string
  | EnterField string string
  | ShowPassword string

fun ni_next :: "conversions \<Rightarrow> ni_event \<Rightarrow> new_integration \<Rightarrow> new_integration" where
  "ni_next cv (EnterName t) f = f\<lparr>ni_name := t\<rparr>"
| "ni_next cv (ChooseType t) f = (if t \<in> fst ` set integrationTypes then f\<lparr>ni_type := t\<rparr> else f)"
| "ni_next cv (EnterProvider t) f = f\<lparr>ni_provider := t\<rparr>"
| "ni_next cv (EnterField k v) f =
     (case typed_value cv new_config_fields (ni_type f) k v of
        None \<Rightarrow> f | Some x \<Rightarrow> handleConfigChange k x f)"
| "ni_next cv (ShowPassword k) f = f\<lparr>ni_show := toggle_visible k (ni_show f)\<rparr>"

definition ni_run :: "conversions \<Rightarrow> ni_event list \<Rightarrow> new_integration" where
  "ni_run cv es = fold (ni_next cv) es initial_integration"

definition integrationSchema :: "new_integration \<Rightarrow> (string \<times> string) list" where
  "integrationSchema f =
     (if ni_name f = [] then [(''name'', ''Name is required'')] else [])
     @ (if ni_type f = [] then [(''type'', ''Type is required'')] else [])"

definition provider_name :: "new_integration \<Rightarrow> string" where
  "provider_name f =
     or_text (ni_provider f)
       (case map_of integrationTypes (ni_type f) of Some (l, d, category) \<Rightarrow> l | None \<Rightarrow> ni_type f)"

definition integration_payload :: "new_integration \<Rightarrow> js" where
  "integration_payload f =
     JObj [(''name'', JStr (ni_name f)), (''type'', JStr (ni_type f)), (''provider'', JStr (provider_name f)),
           (''config'', JObj (ni_config f))]"

definition ni_onSubmit ::
  "integ_client \<Rightarrow> nat \<Rightarrow> string \<Rightarrow> new_integration \<Rightarrow> fe_state \<times> integ_server \<Rightarrow> fe_state \<times> integ_server" where
  "ni_onSubmit cl now new_id f w =
     (if integrationSchema f \<noteq> [] then w
      else (case hook_call cl now new_id useCreateIntegration (integration_payload f) w of
              (Inl err, w') \<Rightarrow> w'
            | (Inr d, s', srv') \<Rightarrow> (navigate (Push ''/integrations'') s', srv')))"

section \<open>One integration\<close>

record detail_page =
  dp_id :: string
  dp_deleteDialogOpen :: bool
  dp_testResult :: "(bool \<times> js \<times> js) option"
  dp_isEditing :: bool
  dp_editConfig :: "(string \<times> js) list"
  dp_showPasswords :: "(string \<times> bool) list"

type_synonym detail_world = "detail_page \<times> fe_state \<times> integ_server"

definition initial_detail :: "string \<Rightarrow> detail_page" where
  "initial_detail i =
     \<lparr>dp_id = i, dp_deleteDialogOpen = False, dp_testResult = None, dp_isEditing = False,
      dp_editConfig = [], dp_showPasswords = []\<rparr>"

text \<open>What the query holds; the effect runs when it changes.\<close>

definition integration_data :: "string \<Rightarrow> fe_state \<Rightarrow> js" where
  "integration_data i s =
     (case find (\<lambda>c. ce_key c = q_key (useIntegration i)) (fe_cache s) of
        None \<Rightarrow> JUndef | Some c \<Rightarrow> ce_data c)"

definition config_effect :: "js \<Rightarrow> detail_page \<Rightarrow> detail_page" where
  "config_effect d p =
     (if truthy (jprop ''config'' d) then p\<lparr>dp_editConfig := js_fields (jprop ''config'' d)\<rparr> else p)"

definition refetch :: "integ_client \<Rightarrow> nat \<Rightarrow> detail_world \<Rightarrow> detail_world" where
  "refetch cl now w =
     (case w of (p, s, srv) \<Rightarrow>
        (let s' = fetch_query (live cl now [] srv) (useIntegration (dp_id p)) s;
             d = integration_data (dp_id p) s'
         in (if d = integration_data (dp_id p) s then p else config_effect d p, s', srv)))"

text \<open>\<open>configData\<close>, as its fields\<close>

definition configData :: "detail_world \<Rightarrow> (string \<times> js) list" where
  "configData w = (case w of (p, s, srv) \<Rightarrow> js_fields (jprop ''config'' (integration_data (dp_id p) s)))"

definition integ_handleDelete :: "integ_client \<Rightarrow> nat \<Rightarrow> detail_world \<Rightarrow> detail_world" where
  "integ_handleDelete cl now w =
     (case w of (p, ws) \<Rightarrow>
        (case hook_call cl now [] useDeleteIntegration (dp_id p) ws of
           (Inl err, ws') \<Rightarrow> (p, ws')
         | (Inr d, s', srv') \<Rightarrow> (p\<lparr>dp_deleteDialogOpen := False\<rparr>, navigate (Push ''/integrations'') s', srv')))"

definition test_outcome :: "js \<Rightarrow> bool \<times> js \<times> js" where
  "test_outcome d =
     (truthy (coalesce (jprop ''success'' d) (JBool True)),
      js_or (jprop ''message'' d) (JStr ''Connection successful''), jprop ''latency_ms'' d)"

definition test_failure :: "api_error \<Rightarrow> bool \<times> js \<times> js" where
  "test_failure err =
     (False,
      js_or (jprop ''error'' (jprop ''data'' (err_response err)))
        (js_or (case err of AxiosError r m \<Rightarrow> JStr m | OtherError v \<Rightarrow> jprop ''message'' v)
           (JStr ''Connection test failed'')), JUndef)"

definition handleTest :: "integ_client \<Rightarrow> nat \<Rightarrow> detail_world \<Rightarrow> detail_world" where
  "handleTest cl now w =
     (case w of (p, ws) \<Rightarrow>
        (case hook_call cl now [] useTestIntegration (dp_id p) ws of
           (Inl err, ws') \<Rightarrow> (p\<lparr>dp_testResult := Some (test_failure err)\<rparr>, ws')
         | (Inr d, ws') \<Rightarrow> refetch cl now (p\<lparr>dp_testResult := Some (test_outcome d)\<rparr>, ws')))"

definition handleSaveConfig :: "integ_client \<Rightarrow> nat \<Rightarrow> detail_world \<Rightarrow> detail_world" where
  "handleSaveConfig cl now w =
     (case w of (p, ws) \<Rightarrow>
        (case hook_call cl now [] useUpdateIntegration
                (dp_id p, JObj [(''config'', JObj (dp_editConfig p))]) ws of
           (Inl err, ws') \<Rightarrow> (p, ws')
         | (Inr d, ws') \<Rightarrow> refetch cl now (p\<lparr>dp_isEditing := False\<rparr>, ws')))"

definition handleSync :: "integ_client \<Rightarrow> nat \<Rightarrow> detail_world \<Rightarrow> detail_world" where
  "handleSync cl now w =
     (case w of (p, ws) \<Rightarrow>
        (case hook_call cl now [] useSyncIntegration (dp_id p) ws of
           (Inl err, ws') \<Rightarrow> (p, ws')
         | (Inr d, ws') \<Rightarrow> refetch cl now (p, ws')))"

definition detail_type :: "detail_world \<Rightarrow> string" where
  "detail_type w =
     (case w of (p, s, srv) \<Rightarrow>
        (case jprop ''type'' (integration_data (dp_id p) s) of JStr t \<Rightarrow> t | _ \<Rightarrow> []))"

text \<open>
  What can be done on the page. The inputs are there while it edits, the button that cancels too;
  a refetch may happen at any time.
\<close>

datatype detail_event =
    StartEdit
  | CancelEdit
  | EditField string string
  | SaveConfig
  | TestConnection
  | SyncNow
  | CloseResult
  | DeleteDialog bool
  | ConfirmDelete
  | ShowSecret string
  | Refetch

fun detail_next :: "integ_client \<Rightarrow> conversions \<Rightarrow> nat \<Rightarrow> detail_event \<Rightarrow> detail_world \<Rightarrow> detail_world" where
  "detail_next cl cv now StartEdit w = apfst (\<lambda>p. p\<lparr>dp_isEditing := True\<rparr>) w"
| "detail_next cl cv now CancelEdit w =
     (if dp_isEditing (fst w)
      then apfst (\<lambda>p. p\<lparr>dp_isEditing := False, dp_editConfig := configData w\<rparr>) w else w)"
| "detail_next cl cv now (EditField k v) w =
     (if \<not> dp_isEditing (fst w) then w
      else (case typed_value cv detail_config_fields (detail_type w) k v of
              None \<Rightarrow> w
            | Some x \<Rightarrow> apfst (\<lambda>p. p\<lparr>dp_editConfig := assoc_put k x (dp_editConfig p)\<rparr>) w))"
| "detail_next cl cv now SaveConfig w = (if dp_isEditing (fst w) then handleSaveConfig cl now w else w)"
| "detail_next cl cv now TestConnection w = handleTest cl now w"
| "detail_next cl cv now SyncNow w = handleSync cl now w"
| "detail_next cl cv now CloseResult w = apfst (\<lambda>p. p\<lparr>dp_testResult := None\<rparr>) w"
| "detail_next cl cv now (DeleteDialog b) w = apfst (\<lambda>p. p\<lparr>dp_deleteDialogOpen := b\<rparr>) w"
| "detail_next cl cv now ConfirmDelete w =
     (if dp_deleteDialogOpen (fst w) then integ_handleDelete cl now w else w)"
| "detail_next cl cv now (ShowSecret k) w =
     apfst (\<lambda>p. p\<lparr>dp_showPasswords := toggle_visible k (dp_showPasswords p)\<rparr>) w"
| "detail_next cl cv now Refetch w = refetch cl now w"

definition open_detail :: "integ_client \<Rightarrow> nat \<Rightarrow> string \<Rightarrow> fe_state \<times> integ_server \<Rightarrow> detail_world" where
  "open_detail cl now i ws = refetch cl now (initial_detail i, ws)"

text \<open>The card of the configuration, when it is not edited: a secret that is there is masked (by bullets, here stars).\<close>

definition mask :: string where
  "mask = replicate 8 (CHR ''*'')"

definition config_line :: "(string \<times> js) list \<Rightarrow> config_field \<Rightarrow> string \<times> js" where
  "config_line cfg f =
     (let v = jprop (cf_name f) (JObj cfg)
      in (cf_label f, if cf_type f = PasswordInput \<and> truthy v then JStr mask
                      else js_or v (JStr ''Not configured'')))"

definition config_card :: "detail_world \<Rightarrow> (string \<times> js) list" where
  "config_card w = map (config_line (configData w)) (fields_of detail_config_fields (detail_type w))"

text \<open>The banner of a test: its title, message and latency\<close>

definition test_banner :: "detail_page \<Rightarrow> (string \<times> js \<times> js) option" where
  "test_banner p =
     map_option (\<lambda>(success, message, latency).
        (if success then ''Connection Successful'' else ''Connection Failed'', message, latency))
       (dp_testResult p)"

text \<open>The header: name, type and status; and the details\<close>

definition detail_header :: "js \<Rightarrow> cell list" where
  "detail_header d =
     [Txt (jprop ''name'' d), Txt (map_text (replace_first (CHR ''_'') (CHR '' '')) (jprop ''type'' d)),
      Status (if is_str (jprop ''status'' d) ''connected'' then JStr ''success''
              else if is_str (jprop ''status'' d) ''syncing'' then JStr ''pending'' else JStr ''error'')
        (jprop ''status'' d)]"

definition detail_lines :: "js \<Rightarrow> (string \<times> cell) list" where
  "detail_lines d =
     [(''Provider'', Txt (js_or (jprop ''provider'' d)
         (js_or (map_text (replace_first (CHR ''_'') (CHR '' '')) (jprop ''type'' d)) (JStr ''Unknown'')))),
      (''Sync Frequency'', Txt (js_or (jprop ''sync_freq'' d) (JStr ''Manual''))),
      (''Last Sync'', when_or_never (jprop ''last_sync'' d))]"

section \<open>Requests and answers\<close>

lemma split_id: "CHR ''/'' \<notin> set i \<Longrightarrow> split_on (CHR ''/'') (''/integrations/'' @ i) = ['''', ''integrations'', i]"
  by (simp add: split_on_no_sep)

lemma split_op:
  assumes "CHR ''/'' \<notin> set i" "CHR ''/'' \<notin> set op"
  shows "split_on (CHR ''/'') (''/integrations/'' @ i @ CHR ''/'' # op) = ['''', ''integrations'', i, op]"
  using assms by (simp add: split_on_no_sep split_on_append_sep)

lemma token_kept [simp]: "a_url (add_token s rq) = a_url rq" "a_method (add_token s rq) = a_method rq"
    "a_body (add_token s rq) = a_body rq"
  by (simp_all add: add_token_def split: option.split)

lemma route_token [simp]:
  "integration_route e parse now n c (add_token s rq) srv = integration_route e parse now n c rq srv"
  by (simp only: integration_route_def token_kept)

lemma route_create:
  "integration_route e parse now n c (m_request useCreateIntegration d) srv = createIntegration e now n d c srv"
  by (simp add: integration_route_def useCreateIntegration_def new_request_def)

lemma route_get:
  "CHR ''/'' \<notin> set i \<Longrightarrow>
   integration_route e parse now n c (q_request (useIntegration i)) srv = (getIntegration e i c srv, srv)"
  using split_id [of i] by (simp add: integration_route_def useIntegration_def get_query_def new_request_def)

lemma route_update:
  "CHR ''/'' \<notin> set i \<Longrightarrow>
   integration_route e parse now n c (m_request useUpdateIntegration (i, d)) srv = updateIntegration e now i d c srv"
  using split_id [of i] by (simp add: integration_route_def useUpdateIntegration_def new_request_def)

lemma route_test:
  "CHR ''/'' \<notin> set i \<Longrightarrow>
   integration_route e parse now n c (m_request useTestIntegration i) srv = testIntegration e parse now i c srv"
  using split_op [of i "''test''"]
  by (simp add: integration_route_def useTestIntegration_def new_request_def)

lemma route_sync:
  "CHR ''/'' \<notin> set i \<Longrightarrow>
   integration_route e parse now n c (m_request useSyncIntegration i) srv = syncIntegration now i c srv"
  using split_op [of i "''sync''"]
  by (simp add: integration_route_def useSyncIntegration_def new_request_def)

lemma live_server [simp]:
  "fe_server (live cl now n srv) rq =
     axios_reply (fst (integration_route (cl_env cl) (cl_parse cl) now n (cl_caller cl) rq srv))"
  by (simp add: live_def)

lemma data_frame [simp]:
  "integration_data i (invalidate e k s) = integration_data i s"
  "integration_data i (show_toast t m s) = integration_data i s"
  "integration_data i (s\<lparr>fe_sent := rs\<rparr>) = integration_data i s"
proof -
  let ?f = "\<lambda>c :: cache_entry. if key_filter e k (ce_key c) then c\<lparr>ce_stale := True\<rparr> else c"
  let ?P = "\<lambda>c :: cache_entry. ce_key c = q_key (useIntegration i)"
  have "?P \<circ> ?f = ?P" by (auto simp: fun_eq_iff)
  then have "find ?P (map ?f (fe_cache s)) = map_option ?f (find ?P (fe_cache s))" by (simp only: find_map)
  then show "integration_data i (invalidate e k s) = integration_data i s"
    by (auto simp: integration_data_def invalidate_def simp del: find_map split: option.split)
qed (simp_all add: integration_data_def show_toast_def)

text \<open>A call that the server answers\<close>

lemma call_create:
  assumes "fst (createIntegration (cl_env cl) now n d (cl_caller cl) srv) = answer 201 v"
  shows "\<exists>s'. hook_call cl now n useCreateIntegration d (s, srv) =
      (Inr v, s', snd (createIntegration (cl_env cl) now n d (cl_caller cl) srv))"
  using assms
  by (simp add: hook_call_def run_mutation_def api_send_def route_create Let_def split_beta)
     (simp add: useCreateIntegration_def settle_def)

lemma call_test:
  assumes "CHR ''/'' \<notin> set i"
    and "testIntegration (cl_env cl) (cl_parse cl) now i (cl_caller cl) srv = (answer 200 v, srv')"
  shows "\<exists>s'. hook_call cl now n useTestIntegration i (s, srv) = (Inr v, s', srv')
      \<and> (\<forall>j. integration_data j s' = integration_data j s)"
  using assms
  by (simp add: hook_call_def run_mutation_def api_send_def route_test Let_def split_beta)
     (simp add: useTestIntegration_def settle_def)

lemma call_update:
  assumes "CHR ''/'' \<notin> set i"
    and "updateIntegration (cl_env cl) now i d (cl_caller cl) srv = (answer 200 v, srv')"
  shows "\<exists>s'. hook_call cl now n useUpdateIntegration (i, d) (s, srv) = (Inr v, s', srv')
      \<and> (\<forall>j. integration_data j s' = integration_data j s)"
  using assms
  by (simp add: hook_call_def run_mutation_def api_send_def route_update Let_def split_beta)
     (simp add: useUpdateIntegration_def settle_def)

lemma put_entry_data [simp]:
  "find (\<lambda>c. ce_key c = k) (put_entry k d cs) = Some \<lparr>ce_key = k, ce_data = d, ce_stale = False\<rparr>"
  by (induction cs) auto

lemma refetch_found:
  assumes "CHR ''/'' \<notin> set i" "i \<noteq> []" "dp_id p = i"
    and "find_integration (ca_tenant (cl_caller cl)) i srv = Some r"
  shows "\<exists>s'. refetch cl now (p, s, srv) =
      (if integration_json (cl_env cl) r = integration_data i s then p
       else config_effect (integration_json (cl_env cl) r) p, s', srv)
    \<and> integration_data i s' = integration_json (cl_env cl) r"
proof -
  have q: "q_enabled (useIntegration i)" "q_select (useIntegration i) = Some"
    using assms(2) by (simp_all add: useIntegration_def get_query_def)
  let ?rq = "add_token s (q_request (useIntegration i))"
  let ?s = "s\<lparr>fe_sent := fe_sent s @ [?rq],
      fe_cache := put_entry (q_key (useIntegration i)) (integration_json (cl_env cl) r) (fe_cache s)\<rparr>"
  have "fetch_query (live cl now [] srv) (useIntegration i) s = ?s"
    using assms(1,4) q by (simp add: fetch_query_def api_send_def route_get getIntegration_def Let_def)
  moreover have "integration_data i ?s = integration_json (cl_env cl) r"
    by (simp add: integration_data_def)
  ultimately show ?thesis
    using assms(3) by (simp add: refetch_def Let_def)
qed

section \<open>A new integration is stored as it is filled in\<close>

lemma ni_run_append: "ni_run cv (es @ es') = fold (ni_next cv) es' (ni_run cv es)"
  by (simp add: ni_run_def)

lemma config_other:
  "\<forall>v. EnterField k v \<notin> set es \<Longrightarrow>
   map_of (ni_config (fold (ni_next cv) es f)) k = map_of (ni_config f) k"
proof (induction es arbitrary: f)
  case (Cons ev es)
  have "map_of (ni_config (ni_next cv ev f)) k = map_of (ni_config f) k"
    using Cons.prems by (cases ev) (auto simp: handleConfigChange_def dict.get_put split: option.split)
  with Cons show ?case by simp
qed simp

text \<open>The value entered last, under the type chosen then\<close>

lemma config_entered:
  assumes "typed_value cv new_config_fields (ni_type (ni_run cv es)) k v = Some x"
    and "\<forall>v. EnterField k v \<notin> set es'"
  shows "map_of (ni_config (ni_run cv (es @ EnterField k v # es'))) k = Some x"
  using assms config_other [of k es' cv "ni_next cv (EnterField k v) (ni_run cv es)"]
  by (simp add: ni_run_append handleConfigChange_def dict.get_put)

definition stored_integration :: "integ_client \<Rightarrow> nat \<Rightarrow> string \<Rightarrow> new_integration \<Rightarrow> integration" where
  "stored_integration cl now i f =
     \<lparr>ig_id = i, ig_tenant = ca_tenant (cl_caller cl), ig_name = ni_name f, ig_type = ni_type f,
      ig_provider = provider_name f, ig_config = Some (JObj (ni_config f)), ig_sync_freq = [],
      ig_status = ''pending'', ig_last_sync = None, ig_updated = now\<rparr>"

lemma bind_payload:
  "ni_name f \<noteq> [] \<Longrightarrow> ni_type f \<noteq> [] \<Longrightarrow>
   bind_integration (integration_payload f) =
     Some \<lparr>ig_id = [], ig_tenant = [], ig_name = ni_name f, ig_type = ni_type f, ig_provider = provider_name f,
           ig_config = Some (JObj (ni_config f)), ig_sync_freq = [], ig_status = [], ig_last_sync = None,
           ig_updated = 0\<rparr>"
  by (simp add: bind_integration_def integration_payload_def body_texts_def go_struct_def go_json_def Let_def)

lemma create_payload:
  assumes "integrationSchema f = []"
  shows "createIntegration e now n (integration_payload f) (cl_caller cl) srv =
     (answer 201 (integration_json e (stored_integration cl now n f)),
      if row_fits (stored_integration cl now n f) \<and> n \<notin> ig_id ` set (is_rows srv)
      then srv\<lparr>is_rows := stored_integration cl now n f # is_rows srv\<rparr> else srv)"
  using assms bind_payload [of f]
  by (simp add: integrationSchema_def createIntegration_def stored_integration_def Let_def split: if_splits)

lemma submitted:
  assumes "integrationSchema f = []"
  shows "\<exists>s'. ni_onSubmit cl now n f (s, srv) =
     (navigate (Push ''/integrations'') s',
      if row_fits (stored_integration cl now n f) \<and> n \<notin> ig_id ` set (is_rows srv)
      then srv\<lparr>is_rows := stored_integration cl now n f # is_rows srv\<rparr> else srv)"
proof -
  note c = create_payload [OF assms, of "cl_env cl" now n cl srv]
  from call_create [of cl now n "integration_payload f" srv _ s] c
  obtain s' where "hook_call cl now n useCreateIntegration (integration_payload f) (s, srv) =
      (Inr (integration_json (cl_env cl) (stored_integration cl now n f)), s',
       snd (createIntegration (cl_env cl) now n (integration_payload f) (cl_caller cl) srv))" by auto
  with assms c show ?thesis by (auto simp: ni_onSubmit_def)
qed

text \<open>
  C26. A submitted form leads back to the list and is stored as a pending integration of its name and
  type, with the label of the type as provider when none is entered; each field has the value entered
  last, whatever types were chosen since. A row the database refuses is announced all the same, and
  nothing is stored.
\<close>
theorem integration_stored_as_filled:
  assumes "es = es1 @ EnterField k v # es2" "\<forall>v'. EnterField k v' \<notin> set es2"
    and "typed_value cv new_config_fields (ni_type (ni_run cv es1)) k v = Some x"
    and "f = ni_run cv es" "integrationSchema f = []"
    and "ni_onSubmit cl now n f (s, srv) = (s', srv')"
  shows "last (fe_navs s') = Push ''/integrations''
    \<and> (if row_fits (stored_integration cl now n f) \<and> n \<notin> ig_id ` set (is_rows srv)
       then is_rows srv' = stored_integration cl now n f # is_rows srv
         \<and> jprop k (config_map (ig_config (hd (is_rows srv')))) = x
       else srv' = srv)"
proof -
  obtain s1 where "ni_onSubmit cl now n f (s, srv) = (navigate (Push ''/integrations'') s1,
      if row_fits (stored_integration cl now n f) \<and> n \<notin> ig_id ` set (is_rows srv)
      then srv\<lparr>is_rows := stored_integration cl now n f # is_rows srv\<rparr> else srv)"
    using submitted [OF assms(5)] by blast
  then have "s' = navigate (Push ''/integrations'') s1"
    "srv' = (if row_fits (stored_integration cl now n f) \<and> n \<notin> ig_id ` set (is_rows srv)
      then srv\<lparr>is_rows := stored_integration cl now n f # is_rows srv\<rparr> else srv)"
    using assms(6) by simp_all
  moreover have "map_of (ni_config f) k = Some x"
    using config_entered [OF assms(3,2)] assms(1,4) by simp
  ultimately show ?thesis
    by (simp add: stored_integration_def config_map_def)
qed

section \<open>What a test checks\<close>

lemma find_update:
  assumes "find_integration tenant i srv = Some r" "\<And>q. P q \<longleftrightarrow> ig_id q = i \<and> (Q \<longrightarrow> ig_tenant q = tenant)"
    and "\<And>q. ig_id (g q) = ig_id q" "\<And>q. ig_tenant (g q) = ig_tenant q"
  shows "find_integration tenant i (update_rows P g srv) = Some (g r)"
proof -
  let ?R = "\<lambda>q :: integration. ig_tenant q = tenant \<and> ig_id q = i"
  let ?f = "\<lambda>q. if P q then g q else q"
  have "?R \<circ> ?f = ?R" using assms(3,4) by (auto simp: fun_eq_iff)
  then have "find ?R (map ?f (is_rows srv)) = map_option ?f (find ?R (is_rows srv))" by (simp only: find_map)
  moreover have "?R r" using assms(1) unfolding find_integration_def by (blast dest: find_SomeD)
  ultimately show ?thesis
    using assms(1,2) by (simp add: find_integration_def update_rows_def)
qed

text \<open>A test gives one of two statuses.\<close>

definition two_statuses :: "string set" where
  "two_statuses = {''connected'', ''error''}"

lemma two_statuses [simp, intro]: "''connected'' \<in> two_statuses" "''error'' \<in> two_statuses"
  by (simp_all add: two_statuses_def)

definition verdict_status :: "verdict \<Rightarrow> string" where
  "verdict_status v = fst (snd v)"

lemma ask_status:
  assumes "\<And>n b. fst (f n b) \<in> two_statuses"
  shows "verdict_status (ask e p f) \<in> two_statuses"
  using assms by (simp add: ask_def verdict_status_def failed_test_def split: http_reply.split)

lemma failed_status [simp]: "verdict_status (failed_test m) = ''error''"
  by (simp add: verdict_status_def failed_test_def)

lemma notifier_status:
  "verdict_status (testWebhookIntegration e now cfg) \<in> two_statuses"
  "verdict_status (testSlackIntegration e cfg) \<in> two_statuses"
  "verdict_status (testTeamsIntegration e cfg) \<in> two_statuses"
  "verdict_status (testGenericURLIntegration e url cfg) \<in> two_statuses"
  unfolding testWebhookIntegration_def testSlackIntegration_def testTeamsIntegration_def
    testGenericURLIntegration_def Let_def
  by (auto simp: verdict_status_def [of "(a, b)" for a b] intro!: ask_status)

lemma service_status:
  "verdict_status (testJiraIntegration e parse cfg) \<in> two_statuses"
  "verdict_status (testServiceNowIntegration e cfg) \<in> two_statuses"
  "verdict_status (testSplunkIntegration e cfg) \<in> two_statuses"
  "verdict_status (testDatadogIntegration e cfg) \<in> two_statuses"
  "verdict_status (testPagerDutyIntegration e now cfg) \<in> two_statuses"
  unfolding testJiraIntegration_def testServiceNowIntegration_def testSplunkIntegration_def
    testDatadogIntegration_def testPagerDutyIntegration_def Let_def
  by (auto simp: verdict_status_def [of "(a, b)" for a b] intro!: ask_status)

lemma email_status: "verdict_status (testEmailIntegration e cfg) \<in> two_statuses"
  unfolding testEmailIntegration_def Let_def
  by (auto simp: verdict_status_def [of "(a, b)" for a b] split: option.split sum.split)

lemma test_status:
  assumes "test_connection e parse now t cfg = (ps, status, message, details)"
  shows "status \<in> two_statuses"
proof -
  have "verdict_status (test_connection e parse now t cfg) \<in> two_statuses"
    unfolding test_connection_def Let_def
    using notifier_status service_status email_status by (simp add: verdict_status_def [of "(a, b)" for a b])
  with assms show ?thesis by (simp add: verdict_status_def)
qed

text \<open>What a test writes and answers\<close>

definition test_answer :: "integ_env \<Rightarrow> string \<Rightarrow> string \<Rightarrow> string \<Rightarrow> js \<Rightarrow> js" where
  "test_answer e i status message details =
     JObj ([(''id'', JStr i), (''success'', JBool (status = ''connected'')),
            (''status'', JStr status), (''latency_ms'', JNum (num_of_nat (nw_latency e)))]
           @ (if message \<noteq> [] then [(''message'', JStr message), (''error'', JStr message)]
              else [(''message'', JStr ''Connection successful'')])
           @ (if details = JUndef then [] else [(''details'', details)]))"

lemma test_served:
  assumes "find_integration (ca_tenant c) i srv = Some r"
    and "test_connection e parse now (ig_type r) (config_map (ig_config r)) = (ps, status, message, details)"
  shows "\<exists>srv'. testIntegration e parse now i c srv = (answer 200 (test_answer e i status message details), srv')
    \<and> is_probes srv' = is_probes srv @ ps
    \<and> find_integration (ca_tenant c) i srv' = Some (r\<lparr>ig_status := status, ig_updated := now\<rparr>)"
proof -
  let ?g = "\<lambda>q :: integration. q\<lparr>ig_status := status, ig_updated := now\<rparr>"
  let ?s = "srv\<lparr>is_probes := is_probes srv @ ps,
      is_logs := \<lparr>il_tenant = ca_tenant c, il_integration = i,
        il_level = (if status \<noteq> ''connected'' then ''error'' else ''info''),
        il_message = ''Connection test: '' @ status @ '' - '' @ message\<rparr> # is_logs srv\<rparr>"
  have "find_integration (ca_tenant c) i (update_rows (\<lambda>q. ig_id q = i) ?g ?s) = Some (?g r)"
    using assms(1) by (intro find_update [where Q = False]) (simp_all add: find_integration_def)
  then show ?thesis
    using assms by (simp add: testIntegration_def test_answer_def update_rows_def)
qed

lemma shown_outcome:
  "test_outcome (test_answer e i status message details) =
     (status = ''connected'', JStr (or_text message ''Connection successful''), JNum (num_of_nat (nw_latency e)))"
  by (simp add: test_outcome_def test_answer_def js_or_def or_text_def)

lemma tested:
  assumes "CHR ''/'' \<notin> set i" "i \<noteq> []" "dp_id p = i"
    and "find_integration (ca_tenant (cl_caller cl)) i srv = Some r"
    and "test_connection (cl_env cl) (cl_parse cl) now (ig_type r) (config_map (ig_config r)) =
           (ps, status, message, details)"
  shows "\<exists>s' srv'. handleTest cl now (p, s, srv) =
      (let p' = p\<lparr>dp_testResult := Some (status = ''connected'', JStr (or_text message ''Connection successful''),
                                      JNum (num_of_nat (nw_latency (cl_env cl))))\<rparr>;
           d = integration_json (cl_env cl) (r\<lparr>ig_status := status, ig_updated := now\<rparr>)
       in if d = integration_data i s then p' else config_effect d p', s', srv')
    \<and> is_probes srv' = is_probes srv @ ps
    \<and> find_integration (ca_tenant (cl_caller cl)) i srv' = Some (r\<lparr>ig_status := status, ig_updated := now\<rparr>)
    \<and> integration_data i s' = integration_json (cl_env cl) (r\<lparr>ig_status := status, ig_updated := now\<rparr>)"
proof -
  obtain srv' where t: "testIntegration (cl_env cl) (cl_parse cl) now i (cl_caller cl) srv =
        (answer 200 (test_answer (cl_env cl) i status message details), srv')"
    and w: "is_probes srv' = is_probes srv @ ps"
      "find_integration (ca_tenant (cl_caller cl)) i srv' = Some (r\<lparr>ig_status := status, ig_updated := now\<rparr>)"
    using test_served [OF assms(4,5)] by blast
  obtain s1 where h: "hook_call cl now [] useTestIntegration i (s, srv) =
        (Inr (test_answer (cl_env cl) i status message details), s1, srv')"
    and d: "integration_data i s1 = integration_data i s"
    using call_test [OF assms(1) t] by blast
  let ?p = "p\<lparr>dp_testResult := Some (status = ''connected'', JStr (or_text message ''Connection successful''),
      JNum (num_of_nat (nw_latency (cl_env cl))))\<rparr>"
  obtain s2 where "refetch cl now (?p, s1, srv') =
      (if integration_json (cl_env cl) (r\<lparr>ig_status := status, ig_updated := now\<rparr>) = integration_data i s1 then ?p
       else config_effect (integration_json (cl_env cl) (r\<lparr>ig_status := status, ig_updated := now\<rparr>)) ?p, s2, srv')"
    and "integration_data i s2 = integration_json (cl_env cl) (r\<lparr>ig_status := status, ig_updated := now\<rparr>)"
    using refetch_found [OF assms(1,2) _ w(2), of ?p now s1] assms(3) by auto
  with h d w assms(3) show ?thesis by (auto simp: handleTest_def shown_outcome Let_def)
qed

definition probed_types :: "string list" where
  "probed_types =
     [''webhook'', ''rest_api'', ''slack'', ''teams'', ''jira'', ''servicenow'', ''splunk'', ''siem'', ''datadog'',
      ''sentinel'', ''pagerduty'', ''email'', ''communication'']"

lemma unprobed:
  assumes "t \<notin> set probed_types" "t \<notin> set manual_types" "getIntegrationURL cfg = []"
  shows "test_connection e parse now t cfg =
     ([], ''connected'', ''No URL or endpoint configured - please verify credentials manually'', JUndef)"
  using assms by (simp add: test_connection_def probed_types_def)

lemma generic_probe:
  assumes "t \<notin> set probed_types" "getIntegrationURL cfg \<noteq> []"
  shows "test_connection e parse now t cfg = testGenericURLIntegration e (getIntegrationURL cfg) cfg"
  using assms by (simp add: test_connection_def probed_types_def)

text \<open>The types whose forms ask for no address\<close>

definition unaddressed_types :: "string list" where
  "unaddressed_types = [''pinecone'', ''openai'', ''anthropic'', ''aws_bedrock'']"

lemma config_effect_result [simp]: "dp_testResult (config_effect d p) = dp_testResult p"
  by (simp add: config_effect_def)

text \<open>
  C27. For the four providers whose forms ask for no address (Pinecone, OpenAI, Anthropic and AWS
  Bedrock), when the stored configuration holds nothing but fields of the provider's form, the test
  sends nothing, whatever the credentials are and whatever the network would answer: it stores the
  status \<open>connected\<close>, and the page announces a successful connection.
\<close>
theorem untested_reported_connected:
  assumes "CHR ''/'' \<notin> set i" "i \<noteq> []" "dp_id p = i"
    and "find_integration (ca_tenant (cl_caller cl)) i srv = Some r" "ig_type r \<in> set unaddressed_types"
    and "\<forall>k. jprop k (config_map (ig_config r)) \<noteq> JUndef \<longrightarrow> field_named new_config_fields (ig_type r) k \<noteq> None"
    and "handleTest cl now (p, s, srv) = (p', s', srv')"
  shows "is_probes srv' = is_probes srv
    \<and> find_integration (ca_tenant (cl_caller cl)) i srv' =
        Some (r\<lparr>ig_status := ''connected'', ig_updated := now\<rparr>)
    \<and> test_banner p' = Some (''Connection Successful'',
        JStr ''No URL or endpoint configured - please verify credentials manually'',
        JNum (num_of_nat (nw_latency (cl_env cl))))"
proof -
  have u: "\<forall>t\<in>set unaddressed_types. t \<notin> set probed_types \<and> t \<notin> set manual_types
      \<and> field_named new_config_fields t ''url'' = None \<and> field_named new_config_fields t ''endpoint'' = None
      \<and> field_named new_config_fields t ''webhook_url'' = None" by code_simp
  then have "jprop k (config_map (ig_config r)) = JUndef" if "k \<in> {''url'', ''endpoint'', ''webhook_url''}" for k
    using assms(5,6) that by blast
  then have "getIntegrationURL (config_map (ig_config r)) = []"
    by (simp add: getIntegrationURL_def conf_text_def)
  then have "test_connection (cl_env cl) (cl_parse cl) now (ig_type r) (config_map (ig_config r)) =
      ([], ''connected'', ''No URL or endpoint configured - please verify credentials manually'', JUndef)"
    using u assms(5) by (intro unprobed) auto
  from tested [OF assms(1-4) this, of s] assms(7)
  show ?thesis by (auto simp: test_banner_def or_text_def Let_def)
qed

lemma key_fields:
  "field_named new_config_fields ''slack'' ''webhook_url'' =
     Some (required_field TextInput ''webhook_url'' ''Webhook URL'')"
  "field_named new_config_fields ''openai'' ''api_key'' =
     Some (required_field PasswordInput ''api_key'' ''API Key'')"
  by code_simp+

lemma never_entered:
  "\<forall>v. EnterField k v \<notin> set es \<Longrightarrow> map_of (ni_config (ni_run cv es)) k = None"
  using config_other [of k es cv initial_integration]
  by (simp add: ni_run_def initial_integration_def)

text \<open>
  C28. The fields of a type that was chosen before stay in the configuration. Whatever is done on the
  form of a new integration: when the address of a webhook \<open>u\<close> and an API key \<open>k\<close> are entered, each
  under a type that has the field, neither is entered again, no URL, endpoint or token is entered, and
  the type chosen in the end is one the server has no test of its own for (such as Pinecone, OpenAI or
  Anthropic), then the test of the integration sends the key to the address of the webhook.
\<close>
theorem stale_address_gets_key:
  assumes "f = ni_run cv es" "integrationSchema f = []" "ni_type f \<notin> set probed_types"
    and "es = es1 @ EnterField ''webhook_url'' u # es2" "\<forall>v. EnterField ''webhook_url'' v \<notin> set es2"
      "typed_value cv new_config_fields (ni_type (ni_run cv es1)) ''webhook_url'' u = Some (JStr u)"
    and "es = es3 @ EnterField ''api_key'' k # es4" "\<forall>v. EnterField ''api_key'' v \<notin> set es4"
      "typed_value cv new_config_fields (ni_type (ni_run cv es3)) ''api_key'' k = Some (JStr k)"
    and "\<forall>v. \<forall>a\<in>{''url'', ''endpoint'', ''token''}. EnterField a v \<notin> set es" "u \<noteq> []" "k \<noteq> []"
    and "row_fits (stored_integration cl now n f)" "n \<notin> ig_id ` set (is_rows srv)"
    and "\<forall>q m. nw_http (cl_env cl) q \<noteq> NoRequest m"
    and "CHR ''/'' \<notin> set n" "n \<noteq> []"
    and "ni_onSubmit cl now n f (s, srv) = (s1, srv1)"
    and "handleTest cl now' (initial_detail n, s2, srv1) = (p', s3, srv2)"
  shows "is_probes srv2 = is_probes srv @
    [\<lparr>pb_method = ''GET'', pb_url = u, pb_headers = [(''X-API-Key'', k)], pb_body = JUndef\<rparr>]"
proof -
  let ?cfg = "JObj (ni_config f)"
  have "map_of (ni_config f) ''webhook_url'' = Some (JStr u)" "map_of (ni_config f) ''api_key'' = Some (JStr k)"
    using config_entered [OF assms(6,5)] config_entered [OF assms(9,8)] assms(1,4,7) by simp_all
  moreover have "map_of (ni_config f) a = None" if "a \<in> {''url'', ''endpoint'', ''token''}" for a
    using never_entered [of a es cv] assms(1,10) that by blast
  ultimately have texts: "getIntegrationURL ?cfg = u" "conf_text ''token'' ?cfg = []"
      "conf_text ''api_key'' ?cfg = k"
    by (simp_all add: getIntegrationURL_def conf_text_def)
  from submitted [OF assms(2), of cl now n s srv]
  have srv1: "srv1 = srv\<lparr>is_rows := stored_integration cl now n f # is_rows srv\<rparr>"
    using assms(13,14,18) by auto
  then have found: "find_integration (ca_tenant (cl_caller cl)) n srv1 = Some (stored_integration cl now n f)"
    by (simp add: find_integration_def stored_integration_def)
  have "test_connection (cl_env cl) (cl_parse cl) now' (ni_type f) ?cfg =
      testGenericURLIntegration (cl_env cl) u ?cfg"
    using generic_probe [OF assms(3), of ?cfg] texts(1) assms(11) by simp
  moreover have "\<exists>status message details. testGenericURLIntegration (cl_env cl) u ?cfg =
      ([\<lparr>pb_method = ''GET'', pb_url = u, pb_headers = [(''X-API-Key'', k)], pb_body = JUndef\<rparr>],
       status, message, details)"
    using texts(2,3) assms(12,15)
    by (simp add: testGenericURLIntegration_def ask_def Let_def split: http_reply.split)
  ultimately obtain status message details where
    "test_connection (cl_env cl) (cl_parse cl) now' (ig_type (stored_integration cl now n f))
        (config_map (ig_config (stored_integration cl now n f))) =
      ([\<lparr>pb_method = ''GET'', pb_url = u, pb_headers = [(''X-API-Key'', k)], pb_body = JUndef\<rparr>],
       status, message, details)"
    by (auto simp: stored_integration_def config_map_def)
  from tested [OF assms(16,17) _ found this, of "initial_detail n" s2] assms(19) srv1
  show ?thesis by (auto simp: initial_detail_def)
qed

section \<open>What an edit keeps, and what a test does to it\<close>

text \<open>The edited configuration\<close>

definition edited ::
  "conversions \<Rightarrow> string \<Rightarrow> (string \<times> string) list \<Rightarrow> (string \<times> js) list \<Rightarrow> (string \<times> js) list" where
  "edited cv t es cfg =
     fold (\<lambda>(k, v) c. case typed_value cv detail_config_fields t k v of None \<Rightarrow> c | Some x \<Rightarrow> assoc_put k x c) es cfg"

lemma edited_other: "k \<notin> fst ` set es \<Longrightarrow> map_of (edited cv t es cfg) k = map_of cfg k"
  unfolding edited_def
  by (induction es arbitrary: cfg) (auto simp: dict.get_put split: option.split)

lemma edited_unnamed:
  "field_named detail_config_fields t k = None \<Longrightarrow> map_of (edited cv t es cfg) k = map_of cfg k"
  unfolding edited_def
  by (induction es arbitrary: cfg) (auto simp: dict.get_put typed_value_def split: option.split)

lemma edited_last:
  assumes "typed_value cv detail_config_fields t k v = Some x" "k \<notin> fst ` set es2"
  shows "map_of (edited cv t (es1 @ (k, v) # es2) cfg) k = Some x"
  using assms edited_other [of k es2 cv t "assoc_put k x (edited cv t es1 cfg)"]
  by (simp add: edited_def dict.get_put)

lemma edit_run:
  assumes "dp_isEditing p"
  shows "fold (\<lambda>(k, v). detail_next cl cv now (EditField k v)) es (p, s, srv) =
    (p\<lparr>dp_editConfig := edited cv (detail_type (p, s, srv)) es (dp_editConfig p)\<rparr>, s, srv)"
  using assms
proof (induction es arbitrary: p)
  case (Cons e es)
  obtain k v where e: "e = (k, v)" by (cases e)
  have t: "detail_type (p\<lparr>dp_editConfig := c\<rparr>, s, srv) = detail_type (p, s, srv)" for c
    by (simp add: detail_type_def)
  show ?case
    using Cons.prems Cons.IH [OF Cons.prems]
      Cons.IH [of "p\<lparr>dp_editConfig := assoc_put k (the (typed_value cv detail_config_fields
        (detail_type (p, s, srv)) k v)) (dp_editConfig p)\<rparr>"]
    by (auto simp: e edited_def t split: option.split)
qed (simp add: edited_def)

lemma update_config:
  assumes "find_integration (ca_tenant c) i srv = Some r" "row_fits r"
  shows "\<exists>srv'. updateIntegration e now i (JObj [(''config'', JObj cfg)]) c srv =
      (answer 200 (integration_json e (r\<lparr>ig_config := Some (JObj cfg), ig_updated := now\<rparr>)), srv')
    \<and> find_integration (ca_tenant c) i srv' = Some (r\<lparr>ig_config := Some (JObj cfg), ig_updated := now\<rparr>)
    \<and> filter (\<lambda>q. \<not> (ig_tenant q = ca_tenant c \<and> ig_id q = i)) (is_rows srv') =
        filter (\<lambda>q. \<not> (ig_tenant q = ca_tenant c \<and> ig_id q = i)) (is_rows srv)"
proof -
  let ?r = "r\<lparr>ig_config := Some (JObj cfg), ig_updated := now\<rparr>"
  let ?R = "\<lambda>q :: integration. ig_tenant q = ca_tenant c \<and> ig_id q = i"
  have r: "?R r" using assms(1) unfolding find_integration_def by (blast dest: find_SomeD)
  have "find_integration (ca_tenant c) i (update_rows ?R (\<lambda>q. ?r) srv) = Some ?r"
    using find_map_same [of ?R "is_rows srv" r ?r] assms(1) r
    by (simp add: find_integration_def update_rows_def)
  moreover have "filter (\<lambda>q. \<not> ?R q) (map (\<lambda>q. if ?R q then ?r else q) (is_rows srv)) =
      filter (\<lambda>q. \<not> ?R q) (is_rows srv)"
    using filter_map_same [of ?R ?r "is_rows srv"] r by simp
  ultimately show ?thesis
    using assms r
    by (simp add: updateIntegration_def body_texts_def go_struct_def go_json_def or_text_def row_fits_def
        update_rows_def Let_def)
qed

lemma saved:
  assumes "CHR ''/'' \<notin> set i" "i \<noteq> []" "dp_id p = i" "dp_isEditing p"
    and "find_integration (ca_tenant (cl_caller cl)) i srv = Some r" "row_fits r"
  shows "\<exists>p' s' srv'. detail_next cl cv now SaveConfig (p, s, srv) = (p', s', srv') \<and> \<not> dp_isEditing p'
    \<and> find_integration (ca_tenant (cl_caller cl)) i srv' =
        Some (r\<lparr>ig_config := Some (JObj (dp_editConfig p)), ig_updated := now\<rparr>)
    \<and> filter (\<lambda>q. \<not> (ig_tenant q = ca_tenant (cl_caller cl) \<and> ig_id q = i)) (is_rows srv') =
        filter (\<lambda>q. \<not> (ig_tenant q = ca_tenant (cl_caller cl) \<and> ig_id q = i)) (is_rows srv)"
proof -
  let ?r = "r\<lparr>ig_config := Some (JObj (dp_editConfig p)), ig_updated := now\<rparr>"
  obtain srv' where u: "updateIntegration (cl_env cl) now i (JObj [(''config'', JObj (dp_editConfig p))])
        (cl_caller cl) srv = (answer 200 (integration_json (cl_env cl) ?r), srv')"
    and f: "find_integration (ca_tenant (cl_caller cl)) i srv' = Some ?r"
    and o: "filter (\<lambda>q. \<not> (ig_tenant q = ca_tenant (cl_caller cl) \<and> ig_id q = i)) (is_rows srv') =
        filter (\<lambda>q. \<not> (ig_tenant q = ca_tenant (cl_caller cl) \<and> ig_id q = i)) (is_rows srv)"
    using update_config [OF assms(5,6)] by blast
  obtain s1 where "hook_call cl now [] useUpdateIntegration (i, JObj [(''config'', JObj (dp_editConfig p))]) (s, srv) =
      (Inr (integration_json (cl_env cl) ?r), s1, srv')"
    using call_update [OF assms(1) u] by blast
  moreover obtain p' s2 where "refetch cl now (p\<lparr>dp_isEditing := False\<rparr>, s1, srv') = (p', s2, srv')" "\<not> dp_isEditing p'"
    using refetch_found [OF assms(1,2) _ f, of "p\<lparr>dp_isEditing := False\<rparr>" now s1] assms(3)
    by (auto simp: config_effect_def)
  ultimately show ?thesis
    using assms(3,4) f o by (simp add: handleSaveConfig_def)
qed

text \<open>
  Saving an edited configuration stores, for each field, the value entered last; a field that was
  not edited, and one the page has no input for, keeps its value, and so do the other columns and the
  other integrations.
\<close>
theorem config_edit_keeps:
  assumes "CHR ''/'' \<notin> set i" "i \<noteq> []" "dp_id p = i" "dp_isEditing p"
    and "find_integration (ca_tenant (cl_caller cl)) i srv = Some r" "row_fits r"
    and "ig_config r = Some (JObj (dp_editConfig p))" "detail_type (p, s, srv) = ig_type r"
    and "detail_next cl cv now' SaveConfig
           (fold (\<lambda>(k, v). detail_next cl cv now (EditField k v)) es (p, s, srv)) = (p', s', srv')"
  shows "\<exists>cfg. find_integration (ca_tenant (cl_caller cl)) i srv' =
        Some (r\<lparr>ig_config := Some (JObj cfg), ig_updated := now'\<rparr>)
    \<and> (\<forall>k. k \<notin> fst ` set es \<or> field_named detail_config_fields (ig_type r) k = None
           \<longrightarrow> map_of cfg k = map_of (dp_editConfig p) k)
    \<and> (\<forall>k v x es1 es2. es = es1 @ (k, v) # es2 \<and> k \<notin> fst ` set es2
           \<and> typed_value cv detail_config_fields (ig_type r) k v = Some x \<longrightarrow> map_of cfg k = Some x)
    \<and> filter (\<lambda>q. \<not> (ig_tenant q = ca_tenant (cl_caller cl) \<and> ig_id q = i)) (is_rows srv') =
        filter (\<lambda>q. \<not> (ig_tenant q = ca_tenant (cl_caller cl) \<and> ig_id q = i)) (is_rows srv)
    \<and> \<not> dp_isEditing p'"
proof -
  let ?p = "p\<lparr>dp_editConfig := edited cv (ig_type r) es (dp_editConfig p)\<rparr>"
  have "fold (\<lambda>(k, v). detail_next cl cv now (EditField k v)) es (p, s, srv) = (?p, s, srv)"
    using edit_run [OF assms(4)] assms(8) by simp
  with assms(9) have "detail_next cl cv now' SaveConfig (?p, s, srv) = (p', s', srv')" by simp
  with saved [OF assms(1,2) _ _ assms(5,6), of ?p cv now' s] assms(3,4)
  show ?thesis
    by (intro exI [of _ "edited cv (ig_type r) es (dp_editConfig p)"])
      (auto simp: edited_other edited_unnamed edited_last)
qed

text \<open>
  Testing the connection while the configuration is edited throws the edit away: the answer changes
  the time of the last update, the page loads the integration again, and its effect puts the stored
  configuration into the inputs. The page still edits, and saving stores what was there.
\<close>
theorem test_discards_edits:
  assumes "CHR ''/'' \<notin> set i" "i \<noteq> []" "dp_id p = i" "dp_isEditing p"
    and "find_integration (ca_tenant (cl_caller cl)) i srv = Some r" "row_fits r"
    and "ig_config r = Some (JObj cfg)" "integration_data i s = integration_json (cl_env cl) r"
    and "nw_stamp (cl_env cl) now \<noteq> nw_stamp (cl_env cl) (ig_updated r)"
    and "handleTest cl now (p, s, srv) = (p', s', srv')"
    and "detail_next cl cv now' SaveConfig (p', s', srv') = (p'', s'', srv'')"
  shows "dp_isEditing p' \<and> dp_editConfig p' = cfg
    \<and> map_option ig_config (find_integration (ca_tenant (cl_caller cl)) i srv'') = Some (ig_config r)"
proof -
  obtain ps status message details where t: "test_connection (cl_env cl) (cl_parse cl) now (ig_type r)
      (config_map (ig_config r)) = (ps, status, message, details)" by (metis prod_cases4)
  let ?r = "r\<lparr>ig_status := status, ig_updated := now\<rparr>"
  have "integration_json (cl_env cl) ?r \<noteq> integration_data i s"
    using assms(8,9) by (simp add: integration_json_def)
  with tested [OF assms(1,2,3,5) t, of s] assms(10)
  have p': "dp_isEditing p'" "dp_editConfig p' = cfg" "dp_id p' = i"
    and f: "find_integration (ca_tenant (cl_caller cl)) i srv' = Some ?r"
    using assms(3,4,7) by (auto simp: config_effect_def integration_json_def js_fields_def Let_def)
  have "row_fits ?r" using assms(6) test_status [OF t] by (auto simp: row_fits_def two_statuses_def)
  from saved [OF assms(1,2) p'(3,1) f this, of cv now' s'] assms(7,11) p' show ?thesis by auto
qed

section \<open>Examples\<close>

text \<open>A network that refuses every key, and a tenant with one integration\<close>

definition ex_net :: integ_env where
  "ex_net = \<lparr>nw_http = (\<lambda>p. Reply 401 []),
     nw_dial = (\<lambda>a. \<lparr>tc_dial = Some ''refused'', tc_greeting = Inr [], tc_write = None, tc_ehlo = Inr []\<rparr>),
     nw_format = (\<lambda>l t. nat_str t), nw_latency = 5\<rparr>"

definition ex_integ_client :: integ_client where
  "ex_integ_client = \<lparr>cl_fe = ex_fe_env JNull, cl_env = ex_net, cl_parse = (\<lambda>b. JUndef),
     cl_caller = \<lparr>ca_user = ''u'', ca_tenant = ''t'', ca_permissions = [], ca_super = False\<rparr>\<rparr>"

definition ex_integration :: integration where
  "ex_integration = \<lparr>ig_id = ''i1'', ig_tenant = ''t'', ig_name = ''Models'', ig_type = ''openai'',
     ig_provider = ''OpenAI'', ig_config = Some (JObj [(''api_key'', JStr ''wrong'')]), ig_sync_freq = [],
     ig_status = ''pending'', ig_last_sync = None, ig_updated = 1\<rparr>"

definition ex_integrations :: integ_server where
  "ex_integrations = \<lparr>is_rows = [ex_integration], is_logs = [], is_probes = [], is_jobs = []\<rparr>"

definition ex_loaded :: fe_state where
  "ex_loaded = (ex_browser [])\<lparr>fe_cache :=
     [\<lparr>ce_key = q_key (useIntegration ''i1''), ce_data = integration_json ex_net ex_integration, ce_stale = False\<rparr>]\<rparr>"

definition ex_editing :: detail_page where
  "ex_editing = (initial_detail ''i1'')\<lparr>dp_isEditing := True, dp_editConfig := [(''api_key'', JStr ''wrong'')]\<rparr>"

definition ex_entries :: "ni_event list" where
  "ex_entries = [EnterField ''webhook_url'' ''https://a.example'', ChooseType ''openai'',
     EnterField ''api_key'' ''k'', EnterName ''Models'']"

lemma ex_integ_simps [simp]:
  "cl_env ex_integ_client = ex_net" "ca_tenant (cl_caller ex_integ_client) = ''t''"
  "find_integration ''t'' ''i1'' ex_integrations = Some ex_integration"
  "integration_data ''i1'' ex_loaded = integration_json ex_net ex_integration"
  "is_probes ex_integrations = []" "row_fits ex_integration" "ig_type ex_integration = ''openai''" "ig_updated ex_integration = 1"
  "ig_config ex_integration = Some (JObj [(''api_key'', JStr ''wrong'')])"
  "dp_id ex_editing = ''i1''" "dp_isEditing ex_editing" "dp_editConfig ex_editing = [(''api_key'', JStr ''wrong'')]"
  by (simp_all add: ex_integ_client_def find_integration_def ex_integrations_def ex_integration_def ex_loaded_def
      integration_data_def row_fits_def ex_editing_def initial_detail_def)

lemma start_simps [simp]: "dp_id (initial_detail i) = i" "ni_type (ni_run cv []) = ''slack''"
  by (simp_all add: initial_detail_def ni_run_def initial_integration_def)

lemma ex_typed:
  "typed_value cv new_config_fields ''slack'' ''webhook_url'' v = Some (JStr v)"
  "typed_value cv new_config_fields ''openai'' ''api_key'' v = Some (JStr v)"
  using key_fields
  by (simp_all add: typed_value_def input_value_def required_field_def input_field_def)

lemma ex_typed_detail: "typed_value cv detail_config_fields ''openai'' ''api_key'' v = Some (JStr v)"
proof -
  have "field_named detail_config_fields ''openai'' ''api_key'' =
      Some (required_field PasswordInput ''api_key'' ''API Key'')" by code_simp
  then show ?thesis by (simp add: typed_value_def input_value_def required_field_def input_field_def)
qed

lemma ex_run:
  "ni_run cv ex_entries = \<lparr>ni_name = ''Models'', ni_type = ''openai'', ni_provider = [],
     ni_config = [(''webhook_url'', JStr ''https://a.example''), (''api_key'', JStr ''k'')], ni_show = []\<rparr>"
proof -
  have "''openai'' \<in> fst ` set integrationTypes" by code_simp
  then show ?thesis
    by (simp add: ni_run_def ex_entries_def initial_integration_def handleConfigChange_def ex_typed)
qed

lemma ex_stored: "row_fits (stored_integration ex_integ_client 7 ''i2'' (ni_run cv ex_entries))"
proof -
  have "map_of integrationTypes ''openai'' = Some (''OpenAI'', ''GPT models via OpenAI API'', ''LLM Providers'')"
    by code_simp
  then show ?thesis
    by (simp add: row_fits_def stored_integration_def ex_run provider_name_def or_text_def)
qed

theorem integration_stored_as_filled_witness:
  "jprop ''webhook_url'' (config_map (ig_config (hd (is_rows (snd (ni_onSubmit ex_integ_client 7 ''i2''
     (ni_run ex_conversions ex_entries) (ex_browser [], ex_integrations))))))) = JStr ''https://a.example''"
proof -
  obtain s' srv' where r: "ni_onSubmit ex_integ_client 7 ''i2'' (ni_run ex_conversions ex_entries)
      (ex_browser [], ex_integrations) = (s', srv')" by fastforce
  have new: "''i2'' \<notin> ig_id ` set (is_rows ex_integrations)"
    by (simp add: ex_integrations_def ex_integration_def)
  have es: "ex_entries = [] @ EnterField ''webhook_url'' ''https://a.example''
      # [ChooseType ''openai'', EnterField ''api_key'' ''k'', EnterName ''Models'']"
    by (simp add: ex_entries_def)
  have "\<forall>v'. EnterField ''webhook_url'' v'
      \<notin> set [ChooseType ''openai'', EnterField ''api_key'' ''k'', EnterName ''Models'']" by simp
  moreover have "typed_value ex_conversions new_config_fields (ni_type (ni_run ex_conversions []))
      ''webhook_url'' ''https://a.example'' = Some (JStr ''https://a.example'')" by (simp add: ex_typed)
  moreover have "integrationSchema (ni_run ex_conversions ex_entries) = []"
    by (simp add: ex_run integrationSchema_def)
  ultimately have "jprop ''webhook_url'' (config_map (ig_config (hd (is_rows srv')))) = JStr ''https://a.example''"
    using integration_stored_as_filled [OF es _ _ refl _ r] ex_stored [of ex_conversions] new by metis
  then show ?thesis using r by simp
qed

theorem untested_reported_connected_witness:
  "is_probes (snd (snd (handleTest ex_integ_client 8 (initial_detail ''i1'', ex_loaded, ex_integrations)))) = []
   \<and> map_option fst (test_banner (fst (handleTest ex_integ_client 8 (initial_detail ''i1'', ex_loaded, ex_integrations)))) =
      Some ''Connection Successful''"
proof -
  obtain p' s' srv' where r: "handleTest ex_integ_client 8 (initial_detail ''i1'', ex_loaded, ex_integrations) =
      (p', s', srv')" by (metis prod_cases3)
  have "\<forall>k. jprop k (config_map (ig_config ex_integration)) \<noteq> JUndef \<longrightarrow>
      field_named new_config_fields ''openai'' k \<noteq> None"
    using key_fields by (simp add: config_map_def)
  with untested_reported_connected [OF _ _ _ _ _ _ r, of "''i1''" ex_integration]
  show ?thesis
    using r by (simp add: unaddressed_types_def)
qed

theorem stale_address_gets_key_witness:
  "is_probes (snd (snd (handleTest ex_integ_client 8 (initial_detail ''i2'', ex_browser [],
     snd (ni_onSubmit ex_integ_client 7 ''i2'' (ni_run ex_conversions ex_entries) (ex_browser [], ex_integrations)))))) =
   [\<lparr>pb_method = ''GET'', pb_url = ''https://a.example'', pb_headers = [(''X-API-Key'', ''k'')], pb_body = JUndef\<rparr>]"
proof -
  obtain s1 srv1 where r: "ni_onSubmit ex_integ_client 7 ''i2'' (ni_run ex_conversions ex_entries)
      (ex_browser [], ex_integrations) = (s1, srv1)" by fastforce
  obtain p' s3 srv2 where t: "handleTest ex_integ_client 8 (initial_detail ''i2'', ex_browser [], srv1) =
      (p', s3, srv2)" by (metis prod_cases3)
  have new: "''i2'' \<notin> ig_id ` set (is_rows ex_integrations)"
    by (simp add: ex_integrations_def ex_integration_def)
  have f: "integrationSchema (ni_run ex_conversions ex_entries) = []"
    "ni_type (ni_run ex_conversions ex_entries) \<notin> set probed_types"
    by (simp_all add: ex_run integrationSchema_def probed_types_def)
  have entries: "ex_entries = [] @ EnterField ''webhook_url'' ''https://a.example''
        # [ChooseType ''openai'', EnterField ''api_key'' ''k'', EnterName ''Models'']"
      "ex_entries = [EnterField ''webhook_url'' ''https://a.example'', ChooseType ''openai'']
        @ EnterField ''api_key'' ''k'' # [EnterName ''Models'']"
    by (simp_all add: ex_entries_def)
  have "''openai'' \<in> fst ` set integrationTypes" by code_simp
  then have types: "ni_type (ni_run ex_conversions [EnterField ''webhook_url'' ''https://a.example'',
      ChooseType ''openai'']) = ''openai''"
    by (simp add: ni_run_def)
  have "\<forall>v. \<forall>a\<in>{''url'', ''endpoint'', ''token''}. EnterField a v \<notin> set ex_entries"
    by (simp add: ex_entries_def)
  from stale_address_gets_key [OF refl f entries(1) _ _ entries(2) _ _ this _ _ ex_stored new _ _ _ r t]
  show ?thesis using r t types by (simp add: ex_typed ex_net_def ex_integrations_def)
qed

theorem config_edit_keeps_witness:
  "\<exists>cfg. map_option ig_config (find_integration ''t'' ''i1''
      (snd (snd (detail_next ex_integ_client ex_conversions 9 SaveConfig
        (fold (\<lambda>(k, v). detail_next ex_integ_client ex_conversions 8 (EditField k v)) [(''api_key'', ''right'')]
          (ex_editing, ex_loaded, ex_integrations)))))) = Some (Some (JObj cfg))
    \<and> map_of cfg ''api_key'' = Some (JStr ''right'')"
proof -
  let ?w = "fold (\<lambda>(k, v). detail_next ex_integ_client ex_conversions 8 (EditField k v)) [(''api_key'', ''right'')]
          (ex_editing, ex_loaded, ex_integrations)"
  obtain p' s' srv' where r: "detail_next ex_integ_client ex_conversions 9 SaveConfig ?w = (p', s', srv')"
    by (metis prod_cases3)
  have t: "detail_type (ex_editing, ex_loaded, ex_integrations) = ''openai''"
    by (simp add: detail_type_def integration_json_def)
  have last: "[(''api_key'', ''right'')] = [] @ (''api_key'', ''right'') # [] \<and> ''api_key'' \<notin> fst ` set ([] :: (string \<times> string) list)
      \<and> typed_value ex_conversions detail_config_fields (ig_type ex_integration) ''api_key'' ''right'' = Some (JStr ''right'')"
    by (simp add: ex_typed_detail)
  obtain cfg where f: "find_integration ''t'' ''i1'' srv' =
      Some (ex_integration\<lparr>ig_config := Some (JObj cfg), ig_updated := 9\<rparr>)"
    and all: "\<forall>k v x es1 es2. [(''api_key'', ''right'')] = es1 @ (k, v) # es2 \<and> k \<notin> fst ` set es2
      \<and> typed_value ex_conversions detail_config_fields (ig_type ex_integration) k v = Some x
      \<longrightarrow> map_of cfg k = Some x"
    using config_edit_keeps [OF _ _ _ _ _ _ _ _ r, of "''i1''" ex_integration] t by auto
  then have "map_of cfg ''api_key'' = Some (JStr ''right'')" using last by blast
  then show ?thesis using r f by auto
qed

theorem test_discards_edits_witness:
  "dp_editConfig (fst (handleTest ex_integ_client 8
     (ex_editing\<lparr>dp_editConfig := [(''api_key'', JStr ''right'')]\<rparr>, ex_loaded, ex_integrations))) =
   [(''api_key'', JStr ''wrong'')]"
proof -
  let ?p = "ex_editing\<lparr>dp_editConfig := [(''api_key'', JStr ''right'')]\<rparr>"
  obtain p' s' srv' where t: "handleTest ex_integ_client 8 (?p, ex_loaded, ex_integrations) = (p', s', srv')"
    by (metis prod_cases3)
  obtain p'' s'' srv'' where r: "detail_next ex_integ_client ex_conversions 9 SaveConfig (p', s', srv') = (p'', s'', srv'')"
    by (metis prod_cases3)
  have "nw_stamp ex_net 8 \<noteq> nw_stamp ex_net 1" by code_simp
  with test_discards_edits [OF _ _ _ _ _ _ _ _ _ t r, of "''i1''" ex_integration "[(''api_key'', JStr ''wrong'')]"]
  show ?thesis using t by simp
qed

end
