(* ===== verification/FeDocuments.thy ===== *)
theory FeDocuments
  imports FeHooksCore FeGovern FeConsent
begin

text \<open>
  Documents: the page (\<open>app/(app)/documents/page.tsx\<close>), with the handlers that classify pasted text and
  list what is known of a document (\<open>classifyDocument\<close> in \<open>internal/api/rot_integrations.go\<close>,
  \<open>getDocumentClassifications\<close> in \<open>internal/api/dpia_cde_profiling.go\<close>). The patterns are those of theory
  \<open>FeGovern\<close>. How the server extracts the text of an uploaded file is left open: uploads are modelled
  against a server that answers anything.
\<close>

section \<open>The server\<close>

record doc_class =
  dk_tenant :: string
  dk_document :: string
  dk_name :: string
  dk_types :: "string list"
  dk_findings :: "js list"
  dk_governed :: bool
  dk_label :: string

text \<open>Rows newest first, the review queue, and the messages for the workers that classify\<close>

record doc_server =
  dv_rows :: "doc_class list"
  dv_queue :: "(string \<times> string) list"
  dv_jobs :: "(string \<times> string) list"

definition entityLabelMap :: "(string \<times> string) list" where
  "entityLabelMap =
     map (\<lambda>t. (t, ''RESTRICTED''))
       [''SSN'', ''CREDIT_CARD'', ''CREDIT_CARD_FORMATTED'', ''BANK_ACCOUNT'', ''ROUTING_NUMBER'', ''IBAN'', ''PHI'',
        ''HEALTH_RECORD'', ''MEDICAL_RECORD'', ''HEALTH_INSURANCE_ID'']
     @ map (\<lambda>t. (t, ''CONFIDENTIAL''))
       [''EMAIL'', ''PHONE'', ''ADDRESS'', ''PASSPORT'', ''DRIVER_LICENSE'', ''DATE_OF_BIRTH'', ''AWS_ACCESS_KEY'',
        ''AWS_SECRET_KEY'', ''API_KEY'', ''JWT_TOKEN'', ''IP_ADDRESS'', ''IPV6_ADDRESS'', ''MAC_ADDRESS'', ''VIN'']
     @ map (\<lambda>t. (t, ''INTERNAL'')) [''NAME'', ''COMPANY'', ''PERSON_NAME'', ''US_ZIP'', ''UK_POSTCODE'']"

text \<open>A label that is not in the map, as the empty one, has the priority zero.\<close>

definition labelPriority :: "string \<Rightarrow> nat" where
  "labelPriority l =
     (case map_of [(''PUBLIC'', 0), (''INTERNAL'', 1), (''CONFIDENTIAL'', 2), (''HIGHLY_CONFIDENTIAL'', 3),
                   (''RESTRICTED'', 4)] l of None \<Rightarrow> 0 | Some n \<Rightarrow> n)"

definition raise_label :: "string \<Rightarrow> string \<Rightarrow> string" where
  "raise_label et highest =
     (case map_of entityLabelMap et of
        None \<Rightarrow> highest
      | Some l \<Rightarrow> (if labelPriority l > labelPriority highest then l else highest))"

definition highest_label :: "string list \<Rightarrow> string" where
  "highest_label ets = fold raise_label ets []"

text \<open>The type of a result: \<open>entity\<close>, or \<open>entity_type\<close> when that is empty\<close>

definition result_type :: "js \<Rightarrow> string" where
  "result_type r =
     (if text_value (jprop ''entity'' r) \<noteq> [] then text_value (jprop ''entity'' r)
      else text_value (jprop ''entity_type'' r))"

definition null_if_absent :: "js \<Rightarrow> js" where
  "null_if_absent v = coalesce v JNull"

definition doc_finding :: "js \<Rightarrow> js" where
  "doc_finding r =
     JObj [(''entity_type'', JStr (result_type r)), (''value'', null_if_absent (jprop ''value'' r)),
           (''confidence'', null_if_absent (jprop ''confidence'' r)),
           (''start'', null_if_absent (jprop ''start'' r)), (''end'', null_if_absent (jprop ''end'' r))]"

definition add_type :: "string \<Rightarrow> string list \<Rightarrow> string list" where
  "add_type et seen = (if et \<in> set seen then seen else seen @ [et])"

definition typed_results :: "js list \<Rightarrow> js list" where
  "typed_results results = filter (\<lambda>r. result_type r \<noteq> []) results"

definition found_types :: "js list \<Rightarrow> string list" where
  "found_types results = fold (\<lambda>r. add_type (result_type r)) (typed_results results) []"

definition classified :: "pii_pattern list \<Rightarrow> string \<Rightarrow> string \<Rightarrow> string \<Rightarrow> string \<Rightarrow> doc_class" where
  "classified patterns tenant i name txt =
     (let results = runBasicClassification patterns txt; ets = found_types results
      in \<lparr>dk_tenant = tenant, dk_document = i, dk_name = (if name = [] then i else name), dk_types = ets,
          dk_findings = map doc_finding (typed_results results), dk_governed = ets \<noteq> [],
          dk_label = highest_label ets\<rparr>)"

definition doc_fields :: "doc_class \<Rightarrow> (string \<times> js) list" where
  "doc_fields k =
     [(''document_id'', JStr (dk_document k)), (''entity_types'', JArr (map JStr (dk_types k))),
      (''findings'', JArr (dk_findings k)), (''governed'', JBool (dk_governed k)),
      (''label_applied'', JStr (dk_label k))]"

definition doc_json :: "doc_class \<Rightarrow> js" where
  "doc_json k = JObj ((''document_name'', JStr (dk_name k)) # doc_fields k)"

definition classifyDocument ::
  "pii_pattern list \<Rightarrow> js \<Rightarrow> caller \<Rightarrow> doc_server \<Rightarrow> raw_response \<times> doc_server" where
  "classifyDocument patterns body c s =
     (case body_texts [''document_id'', ''document_name'', ''text''] body of
        Some [i, name, txt] \<Rightarrow>
          (if i = [] then (error_answer 400 ''bad request'', s)
           else
             (let s1 = s\<lparr>dv_jobs := dv_jobs s @ [(i, txt)], dv_queue := (ca_tenant c, i) # dv_queue s\<rparr>;
                  k = classified patterns (ca_tenant c) i name txt
              in if txt = [] then (answer 200 (JObj [(''status'', JStr ''queued''), (''document_id'', JStr i)]), s1)
                 else (answer 200 (JObj ((''status'', JStr ''classified'') # doc_fields k)),
                       s1\<lparr>dv_rows := k # dv_rows s1\<rparr>)))
      | _ \<Rightarrow> (error_answer 400 ''bad request'', s))"

definition getDocumentClassifications :: "string \<Rightarrow> caller \<Rightarrow> doc_server \<Rightarrow> raw_response" where
  "getDocumentClassifications i c s =
     answer 200 (JArr (map doc_json
       (filter (\<lambda>k. (ca_tenant c = [] \<or> dk_tenant k = ca_tenant c) \<and> dk_document k = i) (dv_rows s))))"

definition document_route ::
  "pii_pattern list \<Rightarrow> caller \<Rightarrow> api_request \<Rightarrow> doc_server \<Rightarrow> raw_response \<times> doc_server" where
  "document_route patterns c rq s =
     (case split_on (CHR ''/'') (a_url rq) of
        [lead, base, op] \<Rightarrow>
          (if lead = [] \<and> base = ''documents'' \<and> op = ''classify'' \<and> a_method rq = POST
           then classifyDocument patterns (a_body rq) c s else (answer 404 JUndef, s))
      | [lead, base, i, op] \<Rightarrow>
          (if lead = [] \<and> base = ''documents'' \<and> op = ''classifications'' \<and> a_method rq = GET
           then (getDocumentClassifications i c s, s) else (answer 404 JUndef, s))
      | _ \<Rightarrow> (answer 404 JUndef, s))"

section \<open>The client\<close>

text \<open>A server with a state of its own, as the client sees it\<close>

type_synonym 's server = "api_request \<Rightarrow> 's \<Rightarrow> (api_error + js) \<times> 's"

definition asking :: "fe_env \<Rightarrow> 's server \<Rightarrow> 's \<Rightarrow> fe_env" where
  "asking e sv s = e\<lparr>fe_server := (\<lambda>rq. fst (sv rq s))\<rparr>"

definition mutate :: "fe_env \<Rightarrow> 's server \<Rightarrow> 'v mutation \<Rightarrow> 'v \<Rightarrow> fe_state \<times> 's \<Rightarrow> (api_error + js) \<times> fe_state \<times> 's" where
  "mutate e sv m v w =
     (case w of (st, s) \<Rightarrow>
        (case run_mutation (asking e sv s) m v st of
           (r, st') \<Rightarrow> (r, st', snd (sv (add_token st (m_request m v)) s))))"

text \<open>
  A component that uses a query fetches it when it has no data or the data is out of date: invalidated,
  or older than the five minutes of \<open>staleTime\<close>, which do not pass here.
\<close>

definition observe :: "fe_env \<Rightarrow> 's server \<Rightarrow> query \<Rightarrow> fe_state \<times> 's \<Rightarrow> fe_state \<times> 's" where
  "observe e sv q w =
     (case w of (st, s) \<Rightarrow>
        (case find (\<lambda>c. ce_key c = q_key q) (fe_cache st) of
           Some c \<Rightarrow>
             (if ce_stale c then (fetch_query (asking e sv s) q st, snd (sv (add_token st (q_request q)) s)) else w)
         | None \<Rightarrow>
             (if q_enabled q
              then (fetch_query (asking e sv s) q st, snd (sv (add_token st (q_request q)) s)) else w)))"

definition query_data :: "query \<Rightarrow> fe_state \<Rightarrow> js" where
  "query_data q st =
     (case find (\<lambda>c. ce_key c = q_key q) (fe_cache st) of None \<Rightarrow> JUndef | Some c \<Rightarrow> ce_data c)"

section \<open>What is shown of a document\<close>

record uploaded_doc =
  ud_id :: string
  ud_name :: string
  ud_text :: string
  ud_uploadedAt :: string
  ud_fileType :: js

definition PII_COLORS :: "(string \<times> string) list" where
  "PII_COLORS =
     [(''EMAIL'', ''blue''), (''SSN'', ''red''), (''CREDIT_CARD'', ''red''), (''PHONE'', ''yellow''),
      (''DATE_OF_BIRTH'', ''purple''), (''ADDRESS'', ''green''), (''MEDICAL_RECORD'', ''red''), (''DEFAULT'', ''muted'')]"

definition LABEL_COLORS :: "(string \<times> string) list" where
  "LABEL_COLORS = [(''RESTRICTED'', ''red''), (''CONFIDENTIAL'', ''orange''), (''INTERNAL'', ''yellow'')]"

definition color_of :: "(string \<times> string) list \<Rightarrow> string \<Rightarrow> string" where
  "color_of colors k = (case map_of colors k of None \<Rightarrow> ''muted'' | Some c \<Rightarrow> c)"

datatype file_icon = Spreadsheet | PdfFile | WordFile | TextFile

definition fileIcon :: "string \<Rightarrow> file_icon" where
  "fileIcon name =
     (let ext = to_lower (last (split_on (CHR ''.'') name))
      in if ext \<in> {''csv'', ''tsv'', ''xlsx'', ''xls''} then Spreadsheet
         else if ext = ''pdf'' then PdfFile
         else if ext \<in> {''docx'', ''doc''} then WordFile else TextFile)"

text \<open>\<open>classifications[0]\<close>\<close>

definition classResult :: "js \<Rightarrow> js" where
  "classResult d = (case d of JArr (x # xs) \<Rightarrow> x | _ \<Rightarrow> JUndef)"

text \<open>The types of a row: a list, or a text that is parsed; \<open>None\<close> when the parsing throws\<close>

definition entityTypes :: "(string \<Rightarrow> js option) \<Rightarrow> js \<Rightarrow> js list option" where
  "entityTypes parse r =
     (case jprop ''entity_types'' r of
        JArr xs \<Rightarrow> Some xs
      | JStr t \<Rightarrow> map_option elements (parse (if t = [] then ''[]'' else t))
      | _ \<Rightarrow> Some [])"

datatype governance = Labelled js string | GovernedPlain | Clean | Unknown

definition governance_cell :: "js \<Rightarrow> governance" where
  "governance_cell r =
     (if truthy (jprop ''governed'' r)
      then (if truthy (jprop ''label_applied'' r)
            then Labelled (jprop ''label_applied'' r)
                   (color_of LABEL_COLORS (text_value (jprop ''label_applied'' r)))
            else GovernedPlain)
      else if truthy r then Clean else Unknown)"

text \<open>A row: the icon, up to three types and how many more there are, the governance\<close>

record doc_row =
  dr_icon :: file_icon
  dr_name :: string
  dr_types :: "(js \<times> string) list"
  dr_more :: nat
  dr_governance :: governance

definition DocumentRow :: "(string \<Rightarrow> js option) \<Rightarrow> uploaded_doc \<Rightarrow> js \<Rightarrow> doc_row option" where
  "DocumentRow parse doc d =
     map_option (\<lambda>ets.
       \<lparr>dr_icon = fileIcon (ud_name doc), dr_name = ud_name doc,
        dr_types = map (\<lambda>et. (et, color_of PII_COLORS (text_value et))) (take 3 ets),
        dr_more = length ets - 3, dr_governance = governance_cell (classResult d)\<rparr>)
       (entityTypes parse (classResult d))"

definition percent_text :: "js \<Rightarrow> string" where
  "percent_text v = (case v of JNum (Fin q) \<Rightarrow> to_fixed 0 (q * 100) @ ''%'' | _ \<Rightarrow> ''-'')"

text \<open>A line of the findings: the type, the value in the column \<open>Value (Masked)\<close>, the confidence\<close>

definition finding_line :: "js \<Rightarrow> js \<times> js \<times> string" where
  "finding_line f =
     (jprop ''entity_type'' f,
      coalesce (jprop ''masked_value'' f) (coalesce (jprop ''value'' f) (JStr ''***'')),
      percent_text (jprop ''confidence'' f))"

datatype doc_detail =
    NoResults
  | Results "js option" "js list" "(js \<times> js \<times> string) list"

definition DocumentDetail :: "js \<Rightarrow> doc_detail" where
  "DocumentDetail d =
     (let r = classResult d
      in if \<not> truthy r then NoResults
         else Results (if truthy (jprop ''governed'' r) then Some (jprop ''label_applied'' r) else None)
                (elements (jprop ''entity_types'' r))
                (map finding_line (take 20 (elements (jprop ''findings'' r)))))"

definition doc_preview :: "uploaded_doc \<Rightarrow> string \<times> bool" where
  "doc_preview doc = (take 500 (ud_text doc), length (ud_text doc) > 500)"

section \<open>The page\<close>

text \<open>What the line below the drop zone says, and the polls for an extraction: the attempts
  so far, those not answered yet, and whether the timer runs\<close>

datatype upload_status = Uploading string | InProgress string | UploadFailed js

record doc_poll =
  po_id :: string
  po_attempts :: nat
  po_waiting :: nat
  po_running :: bool

record documents_page =
  dg_docs :: "uploaded_doc list"
  dg_dragging :: bool
  dg_textInput :: string
  dg_docName :: string
  dg_uploading :: bool
  dg_uploadStatus :: "upload_status option"
  dg_polls :: "doc_poll list"

definition initial_documents :: documents_page where
  "initial_documents =
     \<lparr>dg_docs = [], dg_dragging = False, dg_textInput = [], dg_docName = [], dg_uploading = False,
      dg_uploadStatus = None, dg_polls = []\<rparr>"

text \<open>A file: its name and type, and what reading it as text gives, \<open>None\<close> when that fails\<close>

record doc_file =
  fi_name :: string
  fi_type :: string
  fi_text :: "string option"

type_synonym 's doc_world = "documents_page \<times> fe_state \<times> 's"

definition doc_query :: "string \<Rightarrow> query" where
  "doc_query i = useDocumentClassifications i"

definition new_doc_id :: "nat \<Rightarrow> string" where
  "new_doc_id now = ''doc-'' @ nat_str now"

text \<open>
  \<open>handleUpload\<close>: the new row is shown, and asks for its classifications, before the text is sent; when
  the mutation has invalidated them the row asks again.
\<close>

definition handleUpload :: "fe_env \<Rightarrow> 's server \<Rightarrow> nat \<Rightarrow> string \<Rightarrow> 's doc_world \<Rightarrow> 's doc_world" where
  "handleUpload e sv now stamp w =
     (case w of (p, ws) \<Rightarrow>
        if trim (dg_textInput p) = [] then w
        else
          (let i = new_doc_id now;
               name = (if trim (dg_docName p) \<noteq> [] then trim (dg_docName p)
                       else ''Document '' @ nat_str (length (dg_docs p) + 1));
               doc = \<lparr>ud_id = i, ud_name = name, ud_text = dg_textInput p, ud_uploadedAt = stamp,
                      ud_fileType = JUndef\<rparr>;
               ws1 = observe e sv (doc_query i) ws
           in case mutate e sv useClassifyDocument
                     (JObj [(''document_id'', JStr i), (''document_name'', JStr name),
                            (''text'', JStr (dg_textInput p))]) ws1 of
                (r, ws2) \<Rightarrow>
                  (p\<lparr>dg_docs := doc # dg_docs p, dg_textInput := [], dg_docName := []\<rparr>,
                   observe e sv (doc_query i) ws2)))"

definition extract_request :: "doc_file \<Rightarrow> api_request" where
  "extract_request f =
     (new_request POST ''/documents/extract'' (JObj [(''file'', JStr (fi_name f))]))
       \<lparr>a_headers := [(''Content-Type'', ''multipart/form-data'')]\<rparr>"

text \<open>\<open>handleFileUpload\<close> up to its request, and when the request is answered\<close>

definition handleFileUpload :: "doc_file \<Rightarrow> documents_page \<Rightarrow> documents_page" where
  "handleFileUpload f p = p\<lparr>dg_uploading := True, dg_uploadStatus := Some (Uploading (fi_name f))\<rparr>"

definition upload_error :: "api_error \<Rightarrow> js" where
  "upload_error err =
     coalesce (jprop ''error'' (jprop ''data'' (err_response err)))
       (coalesce (case err of AxiosError r m \<Rightarrow> JStr m | OtherError v \<Rightarrow> jprop ''message'' v)
          (JStr ''unknown error''))"

definition extraction_id :: "nat \<Rightarrow> js \<Rightarrow> string" where
  "extraction_id now d = text_value (coalesce (jprop ''extraction_id'' d) (JStr (new_doc_id now)))"

definition upload_answered ::
  "fe_env \<Rightarrow> 's server \<Rightarrow> nat \<Rightarrow> string \<Rightarrow> doc_file \<Rightarrow> 's doc_world \<Rightarrow> 's doc_world" where
  "upload_answered e sv now stamp f w =
     (case w of (p, st, s) \<Rightarrow>
        (case api_send (asking e sv s) (extract_request f) st of
           (Inl err, st') \<Rightarrow>
             (p\<lparr>dg_uploadStatus := Some (UploadFailed (upload_error err)), dg_uploading := False\<rparr>, st',
              snd (sv (add_token st (extract_request f)) s))
         | (Inr d, st') \<Rightarrow>
             (let i = extraction_id now d; s' = snd (sv (add_token st (extract_request f)) s)
              in if nullish d
                 then (p\<lparr>dg_uploadStatus := Some (UploadFailed (JStr (type_error_message ''extraction_id'' d))),
                         dg_uploading := False\<rparr>, st', s')
                 else
                   (p\<lparr>dg_docs := \<lparr>ud_id = i, ud_name = fi_name f,
                                    ud_text = (case fi_text f of None \<Rightarrow> ''[binary file]'' | Some t \<Rightarrow> t),
                                    ud_uploadedAt = stamp, ud_fileType = JStr (fi_type f)\<rparr> # dg_docs p,
                      dg_uploadStatus := Some (InProgress (fi_name f)), dg_uploading := False,
                      dg_polls := dg_polls p @ [\<lparr>po_id = i, po_attempts = 0, po_waiting = 0, po_running = True\<rparr>]\<rparr>,
                    observe e sv (doc_query i) (st', s')))))"

text \<open>A tick of a poll, every 2.5 seconds while it runs, and the answer to one\<close>

definition change_poll :: "nat \<Rightarrow> (doc_poll \<Rightarrow> doc_poll) \<Rightarrow> documents_page \<Rightarrow> documents_page" where
  "change_poll k f p = p\<lparr>dg_polls := (dg_polls p)[k := f (dg_polls p ! k)]\<rparr>"

definition poll_tick :: "nat \<Rightarrow> documents_page \<Rightarrow> documents_page" where
  "poll_tick k p =
     (if k < length (dg_polls p) \<and> po_running (dg_polls p ! k)
      then change_poll k (\<lambda>q. q\<lparr>po_attempts := po_attempts q + 1, po_waiting := po_waiting q + 1\<rparr>) p else p)"

definition poll_check :: "string \<Rightarrow> api_request" where
  "poll_check i = new_request GET (''/documents/'' @ i @ ''/classifications'') JUndef"

definition poll_over :: "nat \<Rightarrow> documents_page \<Rightarrow> documents_page" where
  "poll_over k p = (change_poll k (\<lambda>q. q\<lparr>po_running := False\<rparr>) p)\<lparr>dg_uploadStatus := None\<rparr>"

definition has_items :: "js \<Rightarrow> bool" where
  "has_items d = (case jprop ''length'' d of JNum n \<Rightarrow> num_lt (Fin 0) n | _ \<Rightarrow> False)"

definition poll_answered :: "fe_env \<Rightarrow> 's server \<Rightarrow> nat \<Rightarrow> 's doc_world \<Rightarrow> 's doc_world" where
  "poll_answered e sv k w =
     (case w of (p, st, s) \<Rightarrow>
        if k < length (dg_polls p) \<and> po_waiting (dg_polls p ! k) > 0
        then
          (let q = dg_polls p ! k; rq = poll_check (po_id q); over = po_attempts q \<ge> 12;
               p1 = change_poll k (\<lambda>q. q\<lparr>po_waiting := po_waiting q - 1\<rparr>) p;
               s' = snd (sv (add_token st rq) s)
           in case api_send (asking e sv s) rq st of
                (Inr d, st') \<Rightarrow> (if has_items d \<or> over then poll_over k p1 else p1, st', s')
              | (Inl err, st') \<Rightarrow> (if over then poll_over k p1 else p1, st', s'))
        else w)"

text \<open>\<open>handleDrop\<close> and \<open>handleFileInput\<close>: the first file, if there is one\<close>

definition handleDrop :: "doc_file list \<Rightarrow> documents_page \<Rightarrow> documents_page" where
  "handleDrop fs p =
     (case fs of [] \<Rightarrow> p\<lparr>dg_dragging := False\<rparr> | f # _ \<Rightarrow> handleFileUpload f (p\<lparr>dg_dragging := False\<rparr>))"

definition handleFileInput :: "doc_file list \<Rightarrow> documents_page \<Rightarrow> documents_page" where
  "handleFileInput fs p = (case fs of [] \<Rightarrow> p | f # _ \<Rightarrow> handleFileUpload f p)"

text \<open>
  What can happen on the page. The button is disabled without a text; a dialog of a row asks for the
  classifications like the row does.
\<close>

datatype doc_event =
    TypeDocText string
  | TypeDocName string
  | PressClassify nat string
  | DragOver
  | DragLeave
  | DropFiles "doc_file list"
  | PickFiles "doc_file list"
  | UploadAnswered nat string doc_file
  | PollTick nat
  | PollAnswered nat
  | ViewDocument string

fun doc_next :: "fe_env \<Rightarrow> 's server \<Rightarrow> doc_event \<Rightarrow> 's doc_world \<Rightarrow> 's doc_world" where
  "doc_next e sv (TypeDocText t) w = apfst (\<lambda>p. p\<lparr>dg_textInput := t\<rparr>) w"
| "doc_next e sv (TypeDocName t) w = apfst (\<lambda>p. p\<lparr>dg_docName := t\<rparr>) w"
| "doc_next e sv (PressClassify now stamp) w = handleUpload e sv now stamp w"
| "doc_next e sv DragOver w = apfst (\<lambda>p. p\<lparr>dg_dragging := True\<rparr>) w"
| "doc_next e sv DragLeave w = apfst (\<lambda>p. p\<lparr>dg_dragging := False\<rparr>) w"
| "doc_next e sv (DropFiles fs) w = apfst (handleDrop fs) w"
| "doc_next e sv (PickFiles fs) w = apfst (handleFileInput fs) w"
| "doc_next e sv (UploadAnswered now stamp f) w = upload_answered e sv now stamp f w"
| "doc_next e sv (PollTick k) w = apfst (poll_tick k) w"
| "doc_next e sv (PollAnswered k) w = poll_answered e sv k w"
| "doc_next e sv (ViewDocument i) w = apsnd (observe e sv (doc_query i)) w"

definition doc_run :: "fe_env \<Rightarrow> 's server \<Rightarrow> doc_event list \<Rightarrow> 's doc_world \<Rightarrow> 's doc_world" where
  "doc_run e sv es = fold (doc_next e sv) es"

section \<open>Requests and the cache\<close>

abbreviation doc_key :: "string \<Rightarrow> js list" where
  "doc_key i \<equiv> [JStr ''doc-classifications'', JStr i]"

lemma doc_query_simps [simp]:
  "q_key (doc_query i) = doc_key i" "q_select (doc_query i) = or_empty"
  "q_enabled (doc_query i) \<longleftrightarrow> i \<noteq> []"
  "q_request (doc_query i) = new_request GET (''/documents/'' @ i @ ''/classifications'') JUndef"
  by (simp_all add: doc_query_def useDocumentClassifications_def get_query_def)

definition entry :: "js list \<Rightarrow> fe_state \<Rightarrow> cache_entry option" where
  "entry k st = find (\<lambda>c. ce_key c = k) (fe_cache st)"

lemma query_data_entry: "query_data q st = (case entry (q_key q) st of None \<Rightarrow> JUndef | Some c \<Rightarrow> ce_data c)"
  by (simp add: query_data_def entry_def)

lemma entry_put [simp]:
  "find (\<lambda>c. ce_key c = k) (put_entry k' d cs) =
     (if k = k' then Some \<lparr>ce_key = k, ce_data = d, ce_stale = False\<rparr> else find (\<lambda>c. ce_key c = k) cs)"
  by (induction cs) auto

lemma asking_simps [simp]:
  "fe_server (asking e sv s) rq = fst (sv rq s)" "prefix_filter (asking e sv s) = prefix_filter e"
  by (simp_all add: asking_def prefix_filter_def)

lemma entry_send [simp]: "entry k (snd (api_send e rq st)) = entry k st"
  by (simp add: entry_def api_send_def api_error_cache Let_def split: sum.split)

lemma entry_fetch_other: "q_key q \<noteq> k \<Longrightarrow> entry k (fetch_query e q st) = entry k st"
  using entry_send [of k e "q_request q" st]
  by (auto simp: fetch_query_def entry_def split: sum.split option.split prod.split)

lemma entry_fetched:
  assumes "q_enabled q" "fst (sv (add_token st (q_request q)) s) = Inr d" "q_select q d = Some v"
  shows "entry (q_key q) (fetch_query (asking e sv s) q st) =
    Some \<lparr>ce_key = q_key q, ce_data = v, ce_stale = False\<rparr>"
  using assms by (simp add: fetch_query_def api_send_def entry_def Let_def)

text \<open>The effects of a mutation mark what they select.\<close>

lemma entry_effects:
  assumes "list_all plain_effect fs" "prefix_filter e"
  shows "entry k (snd (run_effects e fs st)) = map_option (refresh fs) (entry k st)"
proof -
  have "(\<lambda>c. ce_key c = k) \<circ> refresh fs = (\<lambda>c. ce_key c = k)" by (auto simp: fun_eq_iff)
  then have "find (\<lambda>c. ce_key c = k) (map (refresh fs) cs) =
      map_option (refresh fs) (find (\<lambda>c. ce_key c = k) cs)" for cs
    by (simp only: find_map)
  with run_effects_plain [OF assms, of st] show ?thesis by (simp add: entry_def)
qed

lemma classify_effects:
  "list_all plain_effect (m_success useClassifyDocument d v) \<longleftrightarrow> is_string (jprop ''document_id'' v)"
  "list_all plain_effect (m_error useClassifyDocument err)" "m_settled useClassifyDocument = []"
  by (simp_all add: useClassifyDocument_def toast_error_def)

lemma classify_refresh:
  assumes "entry (doc_key i) st = Some c"
  shows "refresh (m_success useClassifyDocument d v) c =
      (if jprop ''document_id'' v = JStr i then c\<lparr>ce_stale := True\<rparr> else c)"
    and "refresh (m_error useClassifyDocument err) c = c"
proof -
  have "ce_key c = doc_key i" using assms unfolding entry_def by (blast dest: find_SomeD)
  then show "refresh (m_success useClassifyDocument d v) c =
      (if jprop ''document_id'' v = JStr i then c\<lparr>ce_stale := True\<rparr> else c)"
    "refresh (m_error useClassifyDocument err) c = c"
    by (auto simp: refresh_def selects_def useClassifyDocument_def toast_error_def)
qed

lemma settle_classify [simp]: "settle e useClassifyDocument st = st"
  by (simp add: settle_def classify_effects)

lemma mutate_classify:
  assumes "prefix_filter e" "jprop ''document_id'' v = JStr j"
    and "mutate e sv useClassifyDocument v (st, s) = (r, st', s')"
  shows "s' = snd (sv (add_token st (m_request useClassifyDocument v)) s)"
    and "entry (doc_key i) st' =
      map_option (\<lambda>c. if j = i \<and> (\<exists>d. fst (sv (add_token st (m_request useClassifyDocument v)) s) = Inr d)
                      then c\<lparr>ce_stale := True\<rparr> else c) (entry (doc_key i) st)"
proof -
  let ?e = "asking e sv s" and ?m = useClassifyDocument
  let ?rq = "m_request ?m v"
  obtain a st1 where send: "api_send ?e ?rq st = (a, st1)" by fastforce
  have e1: "entry (doc_key i) st1 = entry (doc_key i) st"
    using entry_send [of "doc_key i" ?e ?rq st] send by simp
  have a: "a = fst (sv (add_token st ?rq) s)"
    using send by (auto simp: api_send_def Let_def split: sum.splits)
  have res: "m_result ?m d = d" for d by (simp add: useClassifyDocument_def)
  have id: "map_option (refresh (m_error ?m err)) (entry (doc_key i) st) = entry (doc_key i) st" for err
    using classify_refresh(2) [of i st _ err] by (cases "entry (doc_key i) st") auto
  show "s' = snd (sv (add_token st (m_request useClassifyDocument v)) s)"
    using assms(3) by (auto simp: mutate_def split: prod.splits)
  show "entry (doc_key i) st' =
      map_option (\<lambda>c. if j = i \<and> (\<exists>d. fst (sv (add_token st ?rq) s) = Inr d)
                      then c\<lparr>ce_stale := True\<rparr> else c) (entry (doc_key i) st)"
  proof (cases a)
    case (Inl err)
    then have "st' = snd (run_effects ?e (m_error ?m err) st1)"
      using assms(3) send by (simp add: mutate_def run_mutation_def fail_mutation_def)
    moreover have "map_option (\<lambda>c. if j = i \<and> (\<exists>d. fst (sv (add_token st ?rq) s) = Inr d)
        then c\<lparr>ce_stale := True\<rparr> else c) (entry (doc_key i) st) = entry (doc_key i) st"
    proof -
      have "fst (sv (add_token st ?rq) s) = Inl err" using a Inl by simp
      then show ?thesis by (cases "entry (doc_key i) st") simp_all
    qed
    ultimately show ?thesis
      using entry_effects [of "m_error ?m err" ?e "doc_key i" st1] assms(1) e1 id
      by (simp add: classify_effects)
  next
    case (Inr d)
    have pl: "list_all plain_effect (m_success ?m d v)" using assms(2) by (simp add: classify_effects)
    then obtain st2 where eff: "run_effects ?e (m_success ?m d v) st1 = (None, st2)"
      using run_effects_plain [OF pl, of ?e st1] assms(1) by (metis asking_simps(2) eq_fst_iff)
    then have "st' = st2" using assms(3) send Inr by (simp add: mutate_def run_mutation_def res)
    moreover have "entry (doc_key i) st2 = map_option (refresh (m_success ?m d v)) (entry (doc_key i) st)"
      using entry_effects [OF pl, of ?e "doc_key i" st1] assms(1) e1 eff by simp
    moreover have "fst (sv (add_token st ?rq) s) = Inr d" using a Inr by simp
    ultimately show ?thesis
      using classify_refresh(1) [of i st _ d v] assms(2)
      by (cases "entry (doc_key i) st") auto
  qed
qed

section \<open>Pasted text\<close>

definition documents_server :: "pii_pattern list \<Rightarrow> caller \<Rightarrow> doc_server server" where
  "documents_server patterns c rq s = apfst axios_reply (document_route patterns c rq s)"

lemma doc_token_kept [simp]: "a_url (add_token s rq) = a_url rq" "a_method (add_token s rq) = a_method rq"
  by (simp_all add: add_token_def split: option.split)

lemma server_token [simp]: "documents_server patterns c (add_token st rq) s = documents_server patterns c rq s"
  unfolding documents_server_def document_route_def doc_token_kept add_token_body ..

lemma new_id: "CHR ''/'' \<notin> set (new_doc_id now)" "new_doc_id now \<noteq> []"
proof -
  have "list_all (is_digit 10) (nat_str now)" using nat_str_digits by blast
  moreover have "\<not> is_digit 10 (CHR ''/'')" by code_simp
  ultimately show "CHR ''/'' \<notin> set (new_doc_id now)" by (auto simp: new_doc_id_def list_all_iff)
qed (simp add: new_doc_id_def)

lemma serve_list:
  assumes "CHR ''/'' \<notin> set i" "ca_tenant c \<noteq> []"
  shows "documents_server patterns c (q_request (doc_query i)) s =
    (Inr (JArr (map doc_json (filter (\<lambda>k. dk_tenant k = ca_tenant c \<and> dk_document k = i) (dv_rows s)))), s)"
proof -
  have "split_on (CHR ''/'') (''/documents/'' @ i @ ''/classifications'') = ['''', ''documents'', i, ''classifications'']"
    using assms(1) split_on_append_sep [of "CHR ''/''" i "''classifications''"] by (simp add: split_on_no_sep)
  then show ?thesis
    using assms(2) by (simp add: documents_server_def document_route_def new_request_def getDocumentClassifications_def)
qed

lemma serve_classify:
  assumes "i \<noteq> []" "txt \<noteq> []"
  shows "documents_server patterns c (m_request useClassifyDocument
      (JObj [(''document_id'', JStr i), (''document_name'', JStr name), (''text'', JStr txt)])) s =
    (Inr (JObj ((''status'', JStr ''classified'') # doc_fields (classified patterns (ca_tenant c) i name txt))),
     s\<lparr>dv_jobs := dv_jobs s @ [(i, txt)], dv_queue := (ca_tenant c, i) # dv_queue s,
       dv_rows := classified patterns (ca_tenant c) i name txt # dv_rows s\<rparr>)"
  using assms
  by (simp add: documents_server_def document_route_def useClassifyDocument_def new_request_def
      classifyDocument_def body_texts_def go_struct_def Let_def)

lemma trim_empty [simp]: "trim [] = []"
  by (simp add: trim_def)

text \<open>What is stored, and what the row's query holds in the end\<close>

lemma text_classified:
  assumes "prefix_filter e" "ca_tenant c \<noteq> []" "trim (dg_textInput p) \<noteq> []"
    and "entry (doc_key (new_doc_id now)) st = None"
    and "\<forall>k\<in>set (dv_rows s). dk_document k \<noteq> new_doc_id now"
    and "handleUpload e (documents_server patterns c) now stamp (p, st, s) = (p', st', s')"
  shows "\<exists>name. hd (dg_docs p') = \<lparr>ud_id = new_doc_id now, ud_name = name, ud_text = dg_textInput p,
           ud_uploadedAt = stamp, ud_fileType = JUndef\<rparr>
    \<and> name \<noteq> [] \<and> dg_textInput p' = []
    \<and> dv_rows s' = classified patterns (ca_tenant c) (new_doc_id now) name (dg_textInput p) # dv_rows s
    \<and> query_data (doc_query (new_doc_id now)) st' =
        JArr [doc_json (classified patterns (ca_tenant c) (new_doc_id now) name (dg_textInput p))]"
proof -
  let ?i = "new_doc_id now" and ?sv = "documents_server patterns c" and ?txt = "dg_textInput p"
  let ?name = "if trim (dg_docName p) \<noteq> [] then trim (dg_docName p)
      else ''Document '' @ nat_str (length (dg_docs p) + 1)"
  let ?v = "JObj [(''document_id'', JStr ?i), (''document_name'', JStr ?name), (''text'', JStr ?txt)]"
  let ?k = "classified patterns (ca_tenant c) ?i ?name ?txt"
  have filled: "?txt \<noteq> []" using assms(3) by auto
  note gi = serve_list [OF new_id(1) [of now] assms(2), of patterns]
  note ci = serve_classify [OF new_id(2) [of now] filled, of patterns c ?name]
  have f: "filter (\<lambda>k. dk_tenant k = ca_tenant c \<and> dk_document k = ?i) (dv_rows s) = []"
    using assms(5) by (auto simp: filter_empty_conv)
  let ?st1 = "fetch_query (asking e ?sv s) (doc_query ?i) st"
  have o1: "observe e ?sv (doc_query ?i) (st, s) = (?st1, s)"
    using assms(4) new_id(2) [of now] gi [of s] by (simp add: observe_def entry_def del: doc_query_simps(4))
  have e1: "entry (doc_key ?i) ?st1 = Some \<lparr>ce_key = doc_key ?i, ce_data = JArr [], ce_stale = False\<rparr>"
    using entry_fetched [of "doc_query ?i" ?sv st s "JArr []" "JArr []" e] gi [of s] f new_id(2) [of now]
    by (simp add: or_empty_def del: doc_query_simps(4))
  obtain r st2 s2 where m: "mutate e ?sv useClassifyDocument ?v (?st1, s) = (r, st2, s2)" by (metis prod_cases3)
  have s2: "dv_rows s2 = ?k # dv_rows s"
    using mutate_classify(1) [OF assms(1) _ m, of ?i] ci [of s] by simp
  have e2: "entry (doc_key ?i) st2 = Some \<lparr>ce_key = doc_key ?i, ce_data = JArr [], ce_stale = True\<rparr>"
    using mutate_classify(2) [OF assms(1) _ m, of ?i ?i] ci [of s] e1 by simp
  have k: "dk_tenant ?k = ca_tenant c" "dk_document ?k = ?i" by (simp_all add: classified_def Let_def)
  let ?st3 = "fetch_query (asking e ?sv s2) (doc_query ?i) st2"
  have o2: "observe e ?sv (doc_query ?i) (st2, s2) = (?st3, s2)"
    using e2 gi [of s2] by (simp add: observe_def entry_def del: doc_query_simps(4))
  have e3: "entry (doc_key ?i) ?st3 = Some \<lparr>ce_key = doc_key ?i, ce_data = JArr [doc_json ?k], ce_stale = False\<rparr>"
    using entry_fetched [of "doc_query ?i" ?sv st2 s2 "JArr [doc_json ?k]" "JArr [doc_json ?k]" e] gi [of s2] s2 k f
      new_id(2) [of now]
    by (simp add: or_empty_def del: doc_query_simps(4))
  have "?name \<noteq> []" by simp
  then show ?thesis
    using assms(3,6) o1 m o2 e3 s2
    by (intro exI [of _ ?name]) (auto simp: handleUpload_def query_data_entry Let_def)
qed

lemma found_types_fold:
  "distinct acc \<Longrightarrow> distinct (fold (\<lambda>r. add_type (result_type r)) rs acc)
   \<and> set (fold (\<lambda>r. add_type (result_type r)) rs acc) = set acc \<union> result_type ` set rs"
proof (induction rs arbitrary: acc)
  case (Cons r rs)
  then have "distinct (add_type (result_type r) acc)" "set (add_type (result_type r) acc) = insert (result_type r) (set acc)"
    by (auto simp: add_type_def)
  with Cons.IH [of "add_type (result_type r) acc"] show ?case by auto
qed simp

lemma raise_label_ge:
  "labelPriority highest \<le> labelPriority (raise_label et highest)"
  "map_of entityLabelMap et = Some l \<Longrightarrow> labelPriority l \<le> labelPriority (raise_label et highest)"
  by (auto simp: raise_label_def split: option.split)

lemma highest_fold:
  "labelPriority h \<le> labelPriority (fold raise_label ets h)
   \<and> (\<forall>et\<in>set ets. \<forall>l. map_of entityLabelMap et = Some l \<longrightarrow> labelPriority l \<le> labelPriority (fold raise_label ets h))"
proof (induction ets arbitrary: h)
  case (Cons et ets)
  from Cons.IH [of "raise_label et h"] raise_label_ge [where highest = h and et = et]
  show ?case by (fastforce intro: order_trans)
qed simp

text \<open>The label comes from the map: it is that of a found type, and there is none only when no type has one.\<close>

lemma highest_from:
  "fold raise_label ets h = h \<or> (\<exists>et\<in>set ets. map_of entityLabelMap et = Some (fold raise_label ets h))"
proof (induction ets arbitrary: h)
  case (Cons et ets)
  have "raise_label et h = h \<or> map_of entityLabelMap et = Some (raise_label et h)"
    by (simp add: raise_label_def split: option.split)
  with Cons.IH [of "raise_label et h"] show ?case by auto
qed simp

lemma labels_ranked: "map_of entityLabelMap et = Some l \<Longrightarrow> 0 < labelPriority l"
proof -
  have "\<forall>l\<in>set (map snd entityLabelMap). 0 < labelPriority l" by code_simp
  then show "map_of entityLabelMap et = Some l \<Longrightarrow> 0 < labelPriority l" by (force dest: map_of_SomeD)
qed

definition label_of_types :: "string list \<Rightarrow> string \<Rightarrow> bool" where
  "label_of_types ets l \<longleftrightarrow>
     (if \<exists>et\<in>set ets. map_of entityLabelMap et \<noteq> None
      then (\<exists>et\<in>set ets. map_of entityLabelMap et = Some l)
         \<and> (\<forall>et\<in>set ets. \<forall>m. map_of entityLabelMap et = Some m \<longrightarrow> labelPriority m \<le> labelPriority l)
      else l = [])"

lemma highest_label_exact: "label_of_types ets (highest_label ets)"
proof (cases "\<exists>et\<in>set ets. map_of entityLabelMap et \<noteq> None")
  case True
  then obtain et m where et: "et \<in> set ets" "map_of entityLabelMap et = Some m" by blast
  have "labelPriority m \<le> labelPriority (highest_label ets)"
    using highest_fold [of "[]" ets] et by (auto simp: highest_label_def)
  then have "highest_label ets \<noteq> []" using labels_ranked [OF et(2)] by (auto simp: labelPriority_def)
  then show ?thesis
    using True highest_from [of ets "[]"] highest_fold [of "[]" ets]
    by (auto simp: label_of_types_def highest_label_def)
next
  case False
  then show ?thesis using highest_from [of ets "[]"] by (auto simp: label_of_types_def highest_label_def)
qed

text \<open>
  C29. Pasted text is classified and shown at once: of the types that were found, each counted once, the
  row of the document names the first three and says how many more there are. It is clean exactly when
  none was found. Otherwise it carries the label of a found type that no label of a found type outranks,
  and no label exactly when no found type has one.
\<close>
theorem pasted_text_governed:
  assumes "prefix_filter e" "ca_tenant c \<noteq> []" "trim (dg_textInput p) \<noteq> []"
    and "entry (doc_key (new_doc_id now)) st = None"
    and "\<forall>k\<in>set (dv_rows s). dk_document k \<noteq> new_doc_id now"
    and "handleUpload e (documents_server patterns c) now stamp (p, st, s) = (p', st', s')"
  shows "\<exists>ets l. distinct ets
    \<and> set ets = result_type ` set (typed_results (runBasicClassification patterns (dg_textInput p)))
    \<and> (if \<exists>et\<in>set ets. map_of entityLabelMap et \<noteq> None
       then (\<exists>et\<in>set ets. map_of entityLabelMap et = Some l)
          \<and> (\<forall>et\<in>set ets. \<forall>m. map_of entityLabelMap et = Some m \<longrightarrow> labelPriority m \<le> labelPriority l)
       else l = [])
    \<and> DocumentRow parse (hd (dg_docs p')) (query_data (doc_query (new_doc_id now)) st') =
        Some \<lparr>dr_icon = fileIcon (ud_name (hd (dg_docs p'))), dr_name = ud_name (hd (dg_docs p')),
              dr_types = map (\<lambda>et. (JStr et, color_of PII_COLORS et)) (take 3 ets), dr_more = length ets - 3,
              dr_governance = (if ets = [] then Clean else if l = [] then GovernedPlain
                               else Labelled (JStr l) (color_of LABEL_COLORS l))\<rparr>"
proof -
  let ?rs = "typed_results (runBasicClassification patterns (dg_textInput p))"
  let ?ets = "found_types (runBasicClassification patterns (dg_textInput p))"
  obtain name where q: "query_data (doc_query (new_doc_id now)) st' =
      JArr [doc_json (classified patterns (ca_tenant c) (new_doc_id now) name (dg_textInput p))]"
    using text_classified [OF assms] by blast
  have "distinct ?ets \<and> set ?ets = result_type ` set ?rs"
    using found_types_fold [of "[]" ?rs] by (simp add: found_types_def)
  moreover note highest_label_exact [of ?ets, unfolded label_of_types_def]
  moreover have "DocumentRow parse (hd (dg_docs p')) (query_data (doc_query (new_doc_id now)) st') =
        Some \<lparr>dr_icon = fileIcon (ud_name (hd (dg_docs p'))), dr_name = ud_name (hd (dg_docs p')),
              dr_types = map (\<lambda>et. (JStr et, color_of PII_COLORS et)) (take 3 ?ets), dr_more = length ?ets - 3,
              dr_governance = (if ?ets = [] then Clean else if highest_label ?ets = [] then GovernedPlain
                else Labelled (JStr (highest_label ?ets)) (color_of LABEL_COLORS (highest_label ?ets)))\<rparr>"
    by (simp add: q DocumentRow_def entityTypes_def classResult_def doc_json_def doc_fields_def classified_def
        governance_cell_def take_map comp_def Let_def)
  ultimately show ?thesis by blast
qed

text \<open>
  The column \<open>Value (Masked)\<close> of the details shows what was found as it stands in the text: the
  server stores no masked value, and the page falls back to the value.
\<close>
theorem findings_shown_unmasked:
  assumes "prefix_filter e" "ca_tenant c \<noteq> []" "trim (dg_textInput p) \<noteq> []"
    and "entry (doc_key (new_doc_id now)) st = None"
    and "\<forall>k\<in>set (dv_rows s). dk_document k \<noteq> new_doc_id now"
    and "handleUpload e (documents_server patterns c) now stamp (p, st, s) = (p', st', s')"
    and "DocumentDetail (query_data (doc_query (new_doc_id now)) st') = Results governed types lines"
    and "line \<in> set lines"
  shows "\<exists>q\<in>set patterns. \<exists>m\<in>set (pp_matches q (dg_textInput p)).
    fst line = JStr (pp_type q) \<and> fst (snd line) = JStr (slice (fst m) (snd m) (dg_textInput p))"
proof -
  let ?txt = "dg_textInput p"
  obtain name where q: "query_data (doc_query (new_doc_id now)) st' =
      JArr [doc_json (classified patterns (ca_tenant c) (new_doc_id now) name ?txt)]"
    using text_classified [OF assms(1-6)] by blast
  have "lines = map finding_line (take 20 (map doc_finding (typed_results (runBasicClassification patterns ?txt))))"
    using assms(7) by (simp add: q DocumentDetail_def classResult_def doc_json_def doc_fields_def classified_def Let_def)
  with assms(8) obtain r where r: "r \<in> set (runBasicClassification patterns ?txt)" "line = finding_line (doc_finding r)"
    by (auto simp: typed_results_def dest!: in_set_takeD)
  then obtain pt m where "pt \<in> set patterns" "m \<in> set (pp_matches pt ?txt)" "r \<in> set (match_result pt ?txt m)"
    by (auto simp: runBasicClassification_def)
  moreover from this r(2) have "fst line = JStr (pp_type pt)" "fst (snd line) = JStr (slice (fst m) (snd m) ?txt)"
    by (auto simp: match_result_def finding_line_def doc_finding_def result_type_def null_if_absent_def Let_def
        split: if_splits)
  ultimately show ?thesis by blast
qed

section \<open>Uploaded files\<close>

text \<open>The row of a document got an empty list, which is not out of date.\<close>

definition answered_empty :: "string \<Rightarrow> fe_state \<Rightarrow> bool" where
  "answered_empty i st \<longleftrightarrow> entry (doc_key i) st = Some \<lparr>ce_key = doc_key i, ce_data = JArr [], ce_stale = False\<rparr>"

lemma observe_keeps:
  assumes "answered_empty i st"
  shows "answered_empty i (fst (observe e sv (doc_query j) (st, s)))"
proof (cases "j = i")
  case True
  with assms have "observe e sv (doc_query j) (st, s) = (st, s)"
    by (simp add: observe_def answered_empty_def entry_def)
  with assms show ?thesis by simp
next
  case False
  then have "entry (doc_key i) (fetch_query (asking e sv s) (doc_query j) st) = entry (doc_key i) st"
    by (intro entry_fetch_other) simp
  with assms show ?thesis
    by (auto simp: observe_def answered_empty_def entry_def split: option.split)
qed

lemma send_keeps: "answered_empty i st \<Longrightarrow> api_send e rq st = (r, st') \<Longrightarrow> answered_empty i st'"
  using entry_send [of "doc_key i" e rq st] by (simp add: answered_empty_def)

lemma handleUpload_keeps:
  assumes "prefix_filter e" "answered_empty i st" "i \<noteq> new_doc_id now"
  shows "answered_empty i (fst (snd (handleUpload e sv now stamp (p, st, s))))"
proof (cases "trim (dg_textInput p) = []")
  case False
  obtain st1 s1 where o: "observe e sv (doc_query (new_doc_id now)) (st, s) = (st1, s1)" by fastforce
  then have a1: "answered_empty i st1" using observe_keeps [OF assms(2)] by (metis fst_conv)
  let ?name = "if trim (dg_docName p) \<noteq> [] then trim (dg_docName p)
      else ''Document '' @ nat_str (length (dg_docs p) + 1)"
  let ?v = "JObj [(''document_id'', JStr (new_doc_id now)), (''document_name'', JStr ?name),
      (''text'', JStr (dg_textInput p))]"
  obtain r st2 s2 where m: "mutate e sv useClassifyDocument ?v (st1, s1) = (r, st2, s2)" by (metis prod_cases3)
  have "answered_empty i st2"
    using mutate_classify(2) [OF assms(1) _ m, of "new_doc_id now" i] a1 assms(3)
    by (auto simp: answered_empty_def)
  then have "answered_empty i (fst (observe e sv (doc_query (new_doc_id now)) (st2, s2)))" by (rule observe_keeps)
  then show ?thesis using False o m by (simp add: handleUpload_def Let_def)
qed (use assms in \<open>simp add: handleUpload_def\<close>)

lemma upload_keeps:
  assumes "answered_empty i st"
  shows "answered_empty i (fst (snd (upload_answered e sv now stamp f (p, st, s))))"
proof -
  obtain r st1 where a: "api_send (asking e sv s) (extract_request f) st = (r, st1)" by fastforce
  then have "answered_empty i st1" by (rule send_keeps [OF assms])
  then show ?thesis
    using a observe_keeps [of i st1] by (auto simp: upload_answered_def Let_def split: sum.split)
qed

lemma poll_keeps:
  assumes "answered_empty i st"
  shows "answered_empty i (fst (snd (poll_answered e sv k (p, st, s))))"
proof -
  obtain r st1 where a: "api_send (asking e sv s) (poll_check (po_id (dg_polls p ! k))) st = (r, st1)" by fastforce
  then have "answered_empty i st1" by (rule send_keeps [OF assms])
  then show ?thesis
    using a assms by (auto simp: poll_answered_def Let_def split: sum.split)
qed

lemma doc_next_keeps:
  assumes "prefix_filter e" "answered_empty i (fst (snd w))" "\<not> starts_with i ''doc-''"
  shows "answered_empty i (fst (snd (doc_next e sv ev w)))"
proof -
  obtain p st s where w: "w = (p, st, s)" by (metis prod_cases3)
  have "i \<noteq> new_doc_id now" for now using assms(3) by (auto simp: new_doc_id_def starts_with_def)
  with assms(1,2) w show ?thesis
    by (cases ev) (simp_all add: handleUpload_keeps upload_keeps poll_keeps observe_keeps)
qed

lemma doc_run_keeps:
  assumes "prefix_filter e" "\<not> starts_with i ''doc-''"
  shows "answered_empty i (fst (snd w)) \<Longrightarrow> answered_empty i (fst (snd (doc_run e sv es w)))"
  unfolding doc_run_def
  by (induction es arbitrary: w) (simp_all add: doc_next_keeps [OF assms(1) _ assms(2)])

lemma empty_after_upload:
  assumes "entry (doc_key i) st = None" "extraction_id now d = i"
    and "fst (sv (add_token st (extract_request f)) s) = Inr d" "\<not> nullish d"
    and "upload_answered e sv now stamp f (p, st, s) = (p', st', s')"
    and "query_data (doc_query i) st' = JArr []"
  shows "answered_empty i st'"
proof -
  obtain st1 where a: "api_send (asking e sv s) (extract_request f) st = (Inr d, st1)"
    using assms(3) by (simp add: api_send_def Let_def)
  then have e1: "entry (doc_key i) st1 = None"
    using entry_send [of "doc_key i" "asking e sv s" "extract_request f" st] assms(1) by simp
  let ?s = "snd (sv (add_token st (extract_request f)) s)"
  have st': "st' = fst (observe e sv (doc_query i) (st1, ?s))"
    using assms(2,4,5) a by (auto simp: upload_answered_def Let_def)
  have "entry (doc_key i) st' = None \<or> (\<exists>v. entry (doc_key i) st' = Some \<lparr>ce_key = doc_key i, ce_data = v, ce_stale = False\<rparr>)"
  proof (cases "i = []")
    case False
    then have st'': "st' = fetch_query (asking e sv ?s) (doc_query i) st1"
      using st' e1 by (simp add: observe_def entry_def)
    show ?thesis
    proof (cases "api_send (asking e sv ?s) (q_request (doc_query i)) st1")
      case (Pair r st2)
      have "entry (doc_key i) st2 = None"
        using entry_send [of "doc_key i" "asking e sv ?s" "q_request (doc_query i)" st1] Pair e1
        by (simp del: doc_query_simps(4) entry_send)
      then show ?thesis
        using Pair st'' False
        by (cases r) (auto simp: fetch_query_def entry_def or_empty_def simp del: doc_query_simps(4))
    qed
  next
    case True
    then show ?thesis using st' e1 by (simp add: observe_def entry_def)
  qed
  with assms(6) show ?thesis by (auto simp: query_data_entry answered_empty_def)
qed

text \<open>
  The row of an uploaded file that is shown before its classification is there stays empty: the poll
  that finds the classification removes the line that announces it, and gives nothing to the row or to
  its details, whatever else happens on the page while its data counts as fresh.
\<close>
theorem uploaded_row_stays_empty:
  assumes "prefix_filter e" "entry (doc_key i) st = None" "\<not> starts_with i ''doc-''"
    and "fst (sv (add_token st (extract_request f)) s) = Inr d" "\<not> nullish d" "extraction_id now d = i"
    and "doc_next e sv (UploadAnswered now stamp f) (p, st, s) = (p1, st1, s1)"
    and "query_data (doc_query i) st1 = JArr []"
    and "doc_run e sv es (p1, st1, s1) = (p2, st2, s2)"
  shows "DocumentRow parse doc (query_data (doc_query i) st2) =
      Some \<lparr>dr_icon = fileIcon (ud_name doc), dr_name = ud_name doc, dr_types = [], dr_more = 0,
            dr_governance = Unknown\<rparr>
    \<and> DocumentDetail (query_data (doc_query i) st2) = NoResults
    \<and> (\<forall>k found. k < length (dg_polls p2) \<and> po_waiting (dg_polls p2 ! k) > 0
         \<and> fst (sv (add_token st2 (poll_check (po_id (dg_polls p2 ! k)))) s2) = Inr found \<and> has_items found
         \<longrightarrow> dg_uploadStatus (fst (doc_next e sv (PollAnswered k) (p2, st2, s2))) = None)"
proof -
  have "answered_empty i st1"
    using empty_after_upload [of i st now d sv f s e stamp p p1 st1 s1] assms(2,4-8) by simp
  then have "answered_empty i st2"
    using doc_run_keeps [OF assms(1,3), of "(p1, st1, s1)" sv es] assms(9) by simp
  then have q: "query_data (doc_query i) st2 = JArr []"
    by (simp add: query_data_entry answered_empty_def)
  have "dg_uploadStatus (fst (doc_next e sv (PollAnswered k) (p2, st2, s2))) = None"
    if "k < length (dg_polls p2)" "po_waiting (dg_polls p2 ! k) > 0"
      "fst (sv (add_token st2 (poll_check (po_id (dg_polls p2 ! k)))) s2) = Inr found" "has_items found" for k found
    using that by (simp add: poll_answered_def api_send_def poll_over_def Let_def)
  then show ?thesis
    by (simp add: q DocumentRow_def entityTypes_def classResult_def governance_cell_def DocumentDetail_def Let_def)
qed

text \<open>A poll whose checks are answered before the next one: rounds of a tick and an answer\<close>

definition poll_rounds :: "nat \<Rightarrow> nat \<Rightarrow> doc_event list" where
  "poll_rounds n k = concat (replicate n [PollTick k, PollAnswered k])"

lemma poll_round:
  assumes "k < length (dg_polls p)" "dg_polls p ! k = \<lparr>po_id = i, po_attempts = n, po_waiting = 0, po_running = True\<rparr>"
  shows "\<exists>p' st' s'. doc_run e sv [PollTick k, PollAnswered k] (p, st, s) = (p', st', s')
    \<and> k < length (dg_polls p') \<and> length (fe_sent st') = length (fe_sent st) + 1
    \<and> (dg_polls p' ! k = \<lparr>po_id = i, po_attempts = n + 1, po_waiting = 0, po_running = True\<rparr> \<and> n + 1 < 12
       \<or> dg_polls p' ! k = \<lparr>po_id = i, po_attempts = n + 1, po_waiting = 0, po_running = False\<rparr>
         \<and> dg_uploadStatus p' = None)"
proof -
  let ?p = "p\<lparr>dg_polls := (dg_polls p)[k := \<lparr>po_id = i, po_attempts = n + 1, po_waiting = 1, po_running = True\<rparr>]\<rparr>"
  have t: "poll_tick k p = ?p" using assms by (simp add: poll_tick_def change_poll_def)
  obtain r st1 where a: "api_send (asking e sv s) (poll_check i) st = (r, st1)" by fastforce
  then have "length (fe_sent st1) = length (fe_sent st) + 1"
    by (auto simp: api_send_def on_api_error_def Let_def split: sum.splits if_splits)
  with a assms(1) show ?thesis
    by (cases r) (auto simp: doc_run_def t poll_answered_def change_poll_def poll_over_def Let_def)
qed

lemma poll_stopped:
  assumes "\<not> po_running (dg_polls p ! k)" "po_waiting (dg_polls p ! k) = 0"
  shows "doc_run e sv (poll_rounds n k) (p, st, s) = (p, st, s)"
proof -
  have "doc_run e sv [PollTick k, PollAnswered k] (p, st, s) = (p, st, s)"
    using assms by (simp add: doc_run_def poll_tick_def poll_answered_def)
  then show ?thesis by (induction n) (simp_all add: poll_rounds_def doc_run_def)
qed

lemma poll_runs:
  assumes "k < length (dg_polls p)" "dg_polls p ! k = \<lparr>po_id = i, po_attempts = n, po_waiting = 0, po_running = True\<rparr>"
    and "n + m \<ge> 12" "n < 12"
  shows "\<exists>p' st' s'. doc_run e sv (poll_rounds m k) (p, st, s) = (p', st', s')
    \<and> length (fe_sent st') + n \<le> length (fe_sent st) + 12 \<and> \<not> po_running (dg_polls p' ! k)
    \<and> po_waiting (dg_polls p' ! k) = 0 \<and> dg_uploadStatus p' = None"
  using assms
proof (induction m arbitrary: n p st s)
  case (Suc m)
  obtain p1 st1 s1 where one: "doc_run e sv [PollTick k, PollAnswered k] (p, st, s) = (p1, st1, s1)"
    "k < length (dg_polls p1)" "length (fe_sent st1) = length (fe_sent st) + 1"
    and c: "dg_polls p1 ! k = \<lparr>po_id = i, po_attempts = n + 1, po_waiting = 0, po_running = True\<rparr> \<and> n + 1 < 12
       \<or> dg_polls p1 ! k = \<lparr>po_id = i, po_attempts = n + 1, po_waiting = 0, po_running = False\<rparr>
         \<and> dg_uploadStatus p1 = None"
    using poll_round [OF Suc.prems(1,2), of e sv st s] by blast
  have r: "doc_run e sv (poll_rounds (Suc m) k) (p, st, s) = doc_run e sv (poll_rounds m k) (p1, st1, s1)"
    using one(1) by (simp add: doc_run_def poll_rounds_def)
  from c show ?case
  proof
    assume run: "dg_polls p1 ! k = \<lparr>po_id = i, po_attempts = n + 1, po_waiting = 0, po_running = True\<rparr> \<and> n + 1 < 12"
    then show ?thesis
      using Suc.IH [of p1 "n + 1" st1 s1] one(2,3) Suc.prems(3) r by fastforce
  next
    assume stop: "dg_polls p1 ! k = \<lparr>po_id = i, po_attempts = n + 1, po_waiting = 0, po_running = False\<rparr>
         \<and> dg_uploadStatus p1 = None"
    then have "doc_run e sv (poll_rounds m k) (p1, st1, s1) = (p1, st1, s1)" by (intro poll_stopped) simp_all
    then show ?thesis using stop one(3) r Suc.prems(4) by auto
  qed
qed simp

text \<open>
  The poll for an uploaded file ends, whatever is answered: after at most twelve requests, thirty
  seconds when each is answered before the next, its timer is stopped and the line is removed. The
  server may work on the file for two minutes.
\<close>
theorem upload_poll_ends:
  assumes "k < length (dg_polls p)"
    and "dg_polls p ! k = \<lparr>po_id = i, po_attempts = 0, po_waiting = 0, po_running = True\<rparr>"
    and "doc_run e sv (poll_rounds (12 + n) k) (p, st, s) = (p', st', s')"
  shows "\<not> po_running (dg_polls p' ! k) \<and> dg_uploadStatus p' = None
    \<and> length (fe_sent st') \<le> length (fe_sent st) + 12"
  using poll_runs [OF assms(1,2), of "12 + n" e sv st s] assms(3) by auto

section \<open>Examples\<close>

definition ex_caller :: caller where
  "ex_caller = \<lparr>ca_user = ''u'', ca_tenant = ''t'', ca_permissions = [], ca_super = False\<rparr>"

definition ex_docs :: doc_server where
  "ex_docs = \<lparr>dv_rows = [], dv_queue = [], dv_jobs = []\<rparr>"

definition ex_typed_page :: documents_page where
  "ex_typed_page = initial_documents\<lparr>dg_textInput := ''a12345b''\<rparr>"

lemma ex_prefix [simp]: "prefix_filter (ex_fe_env d)"
  by (simp add: prefix_filter_def ex_fe_env_def)

lemma ex_fresh [simp]: "entry k (ex_browser cs) = None"
  by (simp add: entry_def ex_browser_def)

lemma ex_typed_simps [simp]:
  "dg_textInput ex_typed_page = ''a12345b''" "trim ''a12345b'' \<noteq> []" "ca_tenant ex_caller = ''t''"
  "dv_rows ex_docs = []"
proof -
  show "trim ''a12345b'' \<noteq> []" by code_simp
qed (simp_all add: ex_typed_page_def ex_caller_def ex_docs_def)

theorem pasted_text_governed_witness:
  "\<exists>ets l. set ets = result_type ` set (typed_results (runBasicClassification [ex_pattern] ''a12345b''))
    \<and> map_option dr_governance (DocumentRow (\<lambda>t. None)
        (hd (dg_docs (fst (handleUpload (ex_fe_env JNull) (documents_server [ex_pattern] ex_caller) 7 ''2024''
           (ex_typed_page, ex_browser [], ex_docs)))))
        (query_data (doc_query (new_doc_id 7)) (fst (snd (handleUpload (ex_fe_env JNull)
           (documents_server [ex_pattern] ex_caller) 7 ''2024'' (ex_typed_page, ex_browser [], ex_docs)))))) =
      Some (if ets = [] then Clean else if l = [] then GovernedPlain
            else Labelled (JStr l) (color_of LABEL_COLORS l))"
proof -
  obtain p' st' s' where r: "handleUpload (ex_fe_env JNull) (documents_server [ex_pattern] ex_caller) 7 ''2024''
      (ex_typed_page, ex_browser [], ex_docs) = (p', st', s')" by (metis prod_cases3)
  from pasted_text_governed [OF _ _ _ _ _ r, where parse = "\<lambda>t. None"]
  obtain ets l where "set ets = result_type ` set (typed_results (runBasicClassification [ex_pattern] ''a12345b''))"
    "DocumentRow (\<lambda>t. None) (hd (dg_docs p')) (query_data (doc_query (new_doc_id 7)) st') =
        Some \<lparr>dr_icon = fileIcon (ud_name (hd (dg_docs p'))), dr_name = ud_name (hd (dg_docs p')),
              dr_types = map (\<lambda>et. (JStr et, color_of PII_COLORS et)) (take 3 ets), dr_more = length ets - 3,
              dr_governance = (if ets = [] then Clean else if l = [] then GovernedPlain
                               else Labelled (JStr l) (color_of LABEL_COLORS l))\<rparr>" by auto
  then show ?thesis using r by (intro exI [of _ ets] exI [of _ l]) simp
qed

theorem findings_shown_unmasked_witness:
  "\<exists>governed types lines.
     DocumentDetail (query_data (doc_query (new_doc_id 7)) (fst (snd (handleUpload (ex_fe_env JNull)
       (documents_server [ex_pattern] ex_caller) 7 ''2024'' (ex_typed_page, ex_browser [], ex_docs))))) =
         Results governed types lines
     \<and> lines \<noteq> [] \<and> fst (snd (hd lines)) = JStr ''12345''"
proof -
  obtain p' st' s' where r: "handleUpload (ex_fe_env JNull) (documents_server [ex_pattern] ex_caller) 7 ''2024''
      (ex_typed_page, ex_browser [], ex_docs) = (p', st', s')" by (metis prod_cases3)
  obtain name where q: "query_data (doc_query (new_doc_id 7)) st' =
      JArr [doc_json (classified [ex_pattern] ''t'' (new_doc_id 7) name ''a12345b'')]"
    using text_classified [OF _ _ _ _ _ r] by auto
  let ?k = "classified [ex_pattern] ''t'' (new_doc_id 7) name ''a12345b''"
  have "dk_findings ?k = [doc_finding (hd (runBasicClassification [ex_pattern] ''a12345b''))]"
    by (simp add: classified_def typed_results_def ex_results result_type_def Let_def)
  then obtain governed types line where d: "DocumentDetail (query_data (doc_query (new_doc_id 7)) st') =
      Results governed types [line]"
    by (auto simp: q DocumentDetail_def classResult_def doc_json_def doc_fields_def Let_def)
  have "slice 1 6 ''a12345b'' = ''12345''" by (simp add: slice_def)
  then have "fst (snd line) = JStr ''12345''"
    using findings_shown_unmasked [OF _ _ _ _ _ r d, of line] by (simp add: ex_pattern_def)
  with d r show ?thesis by simp
qed

text \<open>A server that knows of a classification from the second question on\<close>

definition ex_extracting :: "nat server" where
  "ex_extracting rq n =
     (if a_method rq = POST then (Inr (JObj [(''extraction_id'', JStr ''x1'')]), n)
      else (Inr (if n = 0 then JArr [] else JArr [JObj [(''governed'', JBool True)]]), n + 1))"

definition ex_file :: doc_file where
  "ex_file = \<lparr>fi_name = ''a.pdf'', fi_type = ''application/pdf'', fi_text = None\<rparr>"

lemma ex_uploaded:
  "doc_next (ex_fe_env JNull) ex_extracting (UploadAnswered 7 ''2024'' ex_file) (initial_documents, ex_browser [], 0) =
     (p1, st1, s1) \<Longrightarrow>
   query_data (doc_query ''x1'') st1 = JArr []
   \<and> dg_polls p1 = [\<lparr>po_id = ''x1'', po_attempts = 0, po_waiting = 0, po_running = True\<rparr>]"
  by (auto simp: upload_answered_def api_send_def asking_def ex_extracting_def extract_request_def new_request_def
      extraction_id_def observe_def ex_browser_def fetch_query_def or_empty_def query_data_def add_token_def
      get_cookie_def initial_documents_def Let_def)

theorem uploaded_row_stays_empty_witness:
  "DocumentDetail (query_data (doc_query ''x1'') (fst (snd (doc_run (ex_fe_env JNull) ex_extracting
     [PollTick 0, PollAnswered 0, ViewDocument ''x1'']
     (doc_next (ex_fe_env JNull) ex_extracting (UploadAnswered 7 ''2024'' ex_file)
        (initial_documents, ex_browser [], 0)))))) = NoResults"
proof -
  obtain p1 st1 s1 where u: "doc_next (ex_fe_env JNull) ex_extracting (UploadAnswered 7 ''2024'' ex_file)
      (initial_documents, ex_browser [], 0) = (p1, st1, s1)" by (metis prod_cases3)
  obtain p2 st2 s2 where r: "doc_run (ex_fe_env JNull) ex_extracting [PollTick 0, PollAnswered 0, ViewDocument ''x1'']
      (p1, st1, s1) = (p2, st2, s2)" by (metis prod_cases3)
  have s: "fst (ex_extracting (add_token (ex_browser []) (extract_request ex_file)) 0) =
      Inr (JObj [(''extraction_id'', JStr ''x1'')])"
    by (simp add: ex_extracting_def extract_request_def new_request_def)
  show ?thesis
    using uploaded_row_stays_empty [OF _ _ _ s _ _ u _ r, of "''x1''"] ex_uploaded [OF u] u r
    by (simp add: extraction_id_def starts_with_def)
qed

theorem upload_poll_ends_witness:
  "dg_uploadStatus (fst (doc_run (ex_fe_env JNull) ex_extracting (poll_rounds 12 0)
     (initial_documents\<lparr>dg_polls := [\<lparr>po_id = ''x1'', po_attempts = 0, po_waiting = 0, po_running = True\<rparr>],
        dg_uploadStatus := Some (InProgress ''a.pdf'')\<rparr>, ex_browser [], 0))) = None"
proof -
  let ?p = "initial_documents\<lparr>dg_polls := [\<lparr>po_id = ''x1'', po_attempts = 0, po_waiting = 0, po_running = True\<rparr>],
      dg_uploadStatus := Some (InProgress ''a.pdf'')\<rparr>"
  obtain p' st' s' where r: "doc_run (ex_fe_env JNull) ex_extracting (poll_rounds (12 + 0) 0) (?p, ex_browser [], 0) =
      (p', st', s')" by (metis prod_cases3)
  then show ?thesis using upload_poll_ends [OF _ _ r] by simp
qed

end
