(* ===== verification/GoDsar.thy ===== *)
theory GoDsar
  imports FeDocuments
begin

text \<open>
  Requests of data subjects on the server: the handlers of \<open>internal/api/quality_privacy.go\<close> that
  create, list, change and delete a request, give its package, and execute it, with their routes.

  The database is lists, newest rows first. Arguments of the model are the text of a time, the text of a
  JSON column, the operator \<open>ILIKE\<close> of the database (\<open>de_ilike\<close>, pattern first), which texts are UUIDs, and
  whether the data sources can be listed. Times are milliseconds; the server's zone is UTC. A row that
  has \<open>NULL\<close> in a column read into a text cannot be scanned: the whole query then fails.
\<close>

section \<open>The rows\<close>

record dsar =
  sr_id :: string
  sr_tenant :: string
  sr_subject :: string
  sr_type :: string
  sr_status :: string
  sr_deadline :: int
  sr_results :: "js option"
  sr_completed :: "int option"
  sr_created :: int
  sr_updated :: int

record found_value =
  fv_id :: string
  fv_tenant :: string
  fv_source :: "string option"
  fv_dataset :: "string option"
  fv_type :: string
  fv_value :: string
  fv_context :: "js option"
  fv_created :: int

record log_row =
  lr_id :: string
  lr_tenant :: string
  lr_user :: "string option"
  lr_action :: string
  lr_resource :: "string option"
  lr_resource_id :: "string option"
  lr_details :: "js option"
  lr_ip :: "string option"
  lr_created :: int

record dsar_db =
  db_dsars :: "dsar list"
  db_values :: "found_value list"
  db_logs :: "log_row list"
  db_sources :: "(string \<times> string \<times> string \<times> string) list"

record dsar_env =
  de_time :: "int \<Rightarrow> string"
  de_text :: "js \<Rightarrow> string"
  de_ilike :: "string \<Rightarrow> string \<Rightarrow> bool"
  de_uuid :: "string \<Rightarrow> bool"
  de_sources_ok :: bool

definition days_ms :: "int \<Rightarrow> int" where
  "days_ms n = n * 24 * 60 * 60 * 1000"

definition find_dsar :: "string \<Rightarrow> string \<Rightarrow> dsar_db \<Rightarrow> dsar option" where
  "find_dsar tenant i s = find (\<lambda>r. sr_tenant r = tenant \<and> sr_id r = i) (db_dsars s)"

text \<open>\<open>Update\<close> writes every column but the time of creation.\<close>

definition dsar_fits :: "dsar \<Rightarrow> bool" where
  "dsar_fits r \<longleftrightarrow> length (sr_subject r) \<le> 255 \<and> length (sr_status r) \<le> 50"

definition update_dsar_row :: "int \<Rightarrow> dsar \<Rightarrow> dsar_db \<Rightarrow> dsar_db" where
  "update_dsar_row now r s =
     (if dsar_fits r
      then s\<lparr>db_dsars := map (\<lambda>q. if sr_tenant q = sr_tenant r \<and> sr_id q = sr_id r
                                  then r\<lparr>sr_updated := now, sr_created := sr_created q\<rparr> else q) (db_dsars s)\<rparr>
      else s)"

definition dsar_json :: "dsar_env \<Rightarrow> dsar \<Rightarrow> js" where
  "dsar_json e r =
     JObj ([(''id'', JStr (sr_id r)), (''subject_id'', JStr (sr_subject r)), (''type'', JStr (sr_type r)),
            (''status'', JStr (sr_status r)), (''deadline'', JStr (de_time e (sr_deadline r))),
            (''results'', case sr_results r of None \<Rightarrow> JNull | Some v \<Rightarrow> v)]
           @ (case sr_completed r of None \<Rightarrow> [] | Some t \<Rightarrow> [(''completed_at'', JStr (de_time e t))])
           @ [(''created_at'', JStr (de_time e (sr_created r))), (''updated_at'', JStr (de_time e (sr_updated r)))])"

section \<open>The handlers\<close>

text \<open>The error of the insertion is ignored.\<close>

definition createDSAR :: "dsar_env \<Rightarrow> int \<Rightarrow> string \<Rightarrow> js \<Rightarrow> caller \<Rightarrow> dsar_db \<Rightarrow> raw_response \<times> dsar_db" where
  "createDSAR e now new_id body c s =
     (case body_texts [''subject_id'', ''type''] body of
        Some [subject, type] \<Rightarrow>
          (if subject = [] \<or> type \<notin> {''access'', ''delete'', ''rectify''} then (error_answer 400 ''bad request'', s)
           else
             (let r = \<lparr>sr_id = new_id, sr_tenant = ca_tenant c, sr_subject = subject, sr_type = type,
                       sr_status = ''pending'', sr_deadline = now + days_ms 30, sr_results = None,
                       sr_completed = None, sr_created = now, sr_updated = now\<rparr>
              in (answer 201 (dsar_json e r),
                  if dsar_fits r \<and> new_id \<notin> sr_id ` set (db_dsars s) then s\<lparr>db_dsars := r # db_dsars s\<rparr> else s)))
      | _ \<Rightarrow> (error_answer 400 ''bad request'', s))"

definition listDSARs :: "dsar_env \<Rightarrow> nat \<times> nat \<Rightarrow> caller \<Rightarrow> dsar_db \<Rightarrow> raw_response" where
  "listDSARs e lo c s =
     answer 200 (JArr (map (dsar_json e) (page_of lo (filter (\<lambda>r. sr_tenant r = ca_tenant c) (db_dsars s)))))"

definition getDSAR :: "dsar_env \<Rightarrow> string \<Rightarrow> caller \<Rightarrow> dsar_db \<Rightarrow> raw_response" where
  "getDSAR e i c s =
     (case find_dsar (ca_tenant c) i s of
        None \<Rightarrow> error_answer 404 ''not found'' | Some r \<Rightarrow> answer 200 (dsar_json e r))"

definition updateDSAR :: "dsar_env \<Rightarrow> int \<Rightarrow> string \<Rightarrow> js \<Rightarrow> caller \<Rightarrow> dsar_db \<Rightarrow> raw_response \<times> dsar_db" where
  "updateDSAR e now i body c s =
     (case find_dsar (ca_tenant c) i s of
        None \<Rightarrow> (error_answer 404 ''not found'', s)
      | Some r \<Rightarrow>
          (case body_texts [''status''] body of
             Some [status] \<Rightarrow>
               (let r' = (if status = [] then r
                          else if status = ''completed'' then r\<lparr>sr_status := status, sr_completed := Some now\<rparr>
                          else r\<lparr>sr_status := status\<rparr>)
                in if dsar_fits r' then (answer 200 (dsar_json e (r'\<lparr>sr_updated := now\<rparr>)), update_dsar_row now r' s)
                   else (error_answer 500 ''value too long'', s))
           | _ \<Rightarrow> (error_answer 400 ''bad request'', s)))"

definition deleteDSAR :: "string \<Rightarrow> caller \<Rightarrow> dsar_db \<Rightarrow> raw_response \<times> dsar_db" where
  "deleteDSAR i c s =
     (case find_dsar (ca_tenant c) i s of
        None \<Rightarrow> (error_answer 404 ''not found'', s)
      | Some r \<Rightarrow>
          (\<lparr>rs_status = 204, rs_json = None\<rparr>,
           s\<lparr>db_dsars := filter (\<lambda>q. \<not> (sr_tenant q = ca_tenant c \<and> sr_id q = i)) (db_dsars s)\<rparr>))"

text \<open>The package is what the row holds.\<close>

definition getDSARPackage :: "dsar_env \<Rightarrow> int \<Rightarrow> string \<Rightarrow> caller \<Rightarrow> dsar_db \<Rightarrow> raw_response" where
  "getDSARPackage e now i c s =
     (case find_dsar (ca_tenant c) i s of
        None \<Rightarrow> error_answer 404 ''not found''
      | Some r \<Rightarrow>
          answer 200 (JObj [(''dsar_id'', JStr i), (''subject_id'', JStr (sr_subject r)),
            (''data'', case sr_results r of None \<Rightarrow> JNull | Some v \<Rightarrow> v), (''generated'', JStr (de_time e now))]))"

section \<open>Execution\<close>

record dsar_result =
  dr_source_id :: string
  dr_source_name :: string
  dr_source_type :: string
  dr_dataset_id :: string
  dr_entity_type :: string
  dr_value :: string
  dr_context :: "js option"
  dr_found_at :: int

text \<open>A context that is no object, or is empty, is left out.\<close>

definition object_of :: "js option \<Rightarrow> js option" where
  "object_of v = (case v of Some (JObj fs) \<Rightarrow> (if fs = [] then None else Some (JObj fs)) | _ \<Rightarrow> None)"

definition result_json :: "dsar_env \<Rightarrow> dsar_result \<Rightarrow> js" where
  "result_json e d =
     JObj ([(''source_id'', JStr (dr_source_id d)), (''source_name'', JStr (dr_source_name d)),
            (''source_type'', JStr (dr_source_type d)), (''dataset_id'', JStr (dr_dataset_id d)),
            (''entity_type'', JStr (dr_entity_type d)), (''value'', JStr (dr_value d))]
           @ (case dr_context d of None \<Rightarrow> [] | Some v \<Rightarrow> [(''context'', v)])
           @ [(''found_at'', JStr (de_time e (dr_found_at d)))])"

definition deref_text :: "string option \<Rightarrow> string" where
  "deref_text v = (case v of None \<Rightarrow> [] | Some t \<Rightarrow> t)"

text \<open>The patterns of the two queries\<close>

definition containing :: "string \<Rightarrow> string" where
  "containing subject = ''%'' @ subject @ ''%''"

definition value_matches :: "dsar_env \<Rightarrow> string \<Rightarrow> string \<Rightarrow> found_value \<Rightarrow> bool" where
  "value_matches e tenant subject v \<longleftrightarrow>
     fv_tenant v = tenant \<and> (de_ilike e (containing subject) (fv_value v) \<or> de_ilike e subject (fv_value v))"

definition log_matches :: "dsar_env \<Rightarrow> string \<Rightarrow> string \<Rightarrow> log_row \<Rightarrow> bool" where
  "log_matches e tenant subject l \<longleftrightarrow>
     lr_tenant l = tenant
     \<and> (lr_resource_id l = Some subject
        \<or> (case lr_details l of None \<Rightarrow> False | Some d \<Rightarrow> de_ilike e (containing subject) (de_text e d)))"

definition log_scans :: "log_row \<Rightarrow> bool" where
  "log_scans l \<longleftrightarrow> lr_user l \<noteq> None \<and> lr_resource l \<noteq> None \<and> lr_resource_id l \<noteq> None \<and> lr_ip l \<noteq> None"

definition source_of :: "string \<Rightarrow> (string \<times> string \<times> string \<times> string) list \<Rightarrow> string \<times> string" where
  "source_of i sources =
     (case find (\<lambda>(tenant, j, name, type). j = i) sources of
        None \<Rightarrow> ([], []) | Some (tenant, j, name, type) \<Rightarrow> (name, type))"

definition value_result :: "(string \<times> string \<times> string \<times> string) list \<Rightarrow> found_value \<Rightarrow> dsar_result" where
  "value_result sources v =
     (let i = deref_text (fv_source v)
      in \<lparr>dr_source_id = i, dr_source_name = fst (source_of i sources),
          dr_source_type = snd (source_of i sources), dr_dataset_id = deref_text (fv_dataset v),
          dr_entity_type = fv_type v, dr_value = fv_value v, dr_context = object_of (fv_context v),
          dr_found_at = fv_created v\<rparr>)"

definition log_result :: "log_row \<Rightarrow> dsar_result" where
  "log_result l =
     \<lparr>dr_source_id = ''audit_logs'', dr_source_name = ''Audit Trail'', dr_source_type = ''system'',
      dr_dataset_id = lr_id l, dr_entity_type = ''ACTIVITY'',
      dr_value = lr_action l @ '' on '' @ deref_text (lr_resource l), dr_context = object_of (lr_details l),
      dr_found_at = lr_created l\<rparr>"

definition tenant_sources :: "caller \<Rightarrow> dsar_db \<Rightarrow> (string \<times> string \<times> string \<times> string) list" where
  "tenant_sources c s = take 1000 (filter (\<lambda>(tenant, j, name, type). tenant = ca_tenant c) (db_sources s))"

definition dsar_results :: "dsar_env \<Rightarrow> caller \<Rightarrow> string \<Rightarrow> dsar_db \<Rightarrow> dsar_result list" where
  "dsar_results e c subject s =
     (let logs = take 100 (filter (log_matches e (ca_tenant c) subject) (db_logs s))
      in map (value_result (tenant_sources c s))
             (take 1000 (filter (value_matches e (ca_tenant c) subject) (db_values s)))
         @ (if list_all log_scans logs then map log_result logs else []))"

definition results_json :: "dsar_env \<Rightarrow> dsar_result list \<Rightarrow> js" where
  "results_json e ds = (if ds = [] then JNull else JArr (map (result_json e) ds))"

definition package_json :: "dsar_env \<Rightarrow> int \<Rightarrow> dsar \<Rightarrow> nat \<Rightarrow> dsar_result list \<Rightarrow> js" where
  "package_json e now r sources ds =
     JObj [(''dsar_id'', JStr (sr_id r)), (''subject_id'', JStr (sr_subject r)), (''type'', JStr (sr_type r)),
           (''status'', JStr ''completed''), (''data_found'', results_json e ds),
           (''source_count'', JNum (num_of_nat sources)), (''record_count'', JNum (num_of_nat (length ds))),
           (''generated_at'', JStr (de_time e now))]"

text \<open>
  The row is marked as in processing first, and stays so when the sources cannot be listed. The row of
  the audit log has no user: where an empty text is no UUID it is refused, and the error ignored.
\<close>

definition executeDSAR :: "dsar_env \<Rightarrow> int \<Rightarrow> string \<Rightarrow> string \<Rightarrow> caller \<Rightarrow> dsar_db \<Rightarrow> raw_response \<times> dsar_db" where
  "executeDSAR e now new_id i c s =
     (case find_dsar (ca_tenant c) i s of
        None \<Rightarrow> (error_answer 404 ''not found'', s)
      | Some r \<Rightarrow>
          (let s1 = update_dsar_row now (r\<lparr>sr_status := ''processing''\<rparr>) s
           in if \<not> de_sources_ok e then (error_answer 500 ''database error'', s1)
              else
                (let ds = dsar_results e c (sr_subject r) s1;
                     r' = r\<lparr>sr_status := ''completed'', sr_results := Some (results_json e ds),
                            sr_completed := Some now\<rparr>;
                     s2 = update_dsar_row now r' s1
                 in (answer 200 (package_json e now r (length (tenant_sources c s)) ds),
                     if de_uuid e []
                     then s2\<lparr>db_logs := \<lparr>lr_id = new_id, lr_tenant = ca_tenant c, lr_user = Some [],
                            lr_action = ''dsar_executed'', lr_resource = Some ''dsar'', lr_resource_id = Some i,
                            lr_details = None, lr_ip = Some [], lr_created = now\<rparr> # db_logs s2\<rparr>
                     else s2))))"

section \<open>The routes\<close>

definition not_routed :: raw_response where
  "not_routed = \<lparr>rs_status = 404, rs_json = None\<rparr>"

definition dsar_route ::
  "dsar_env \<Rightarrow> int \<Rightarrow> string \<Rightarrow> nat \<times> nat \<Rightarrow> caller \<Rightarrow> api_request \<Rightarrow> dsar_db \<Rightarrow> raw_response \<times> dsar_db" where
  "dsar_route e now new_id lo c rq s =
     (case split_on (CHR ''/'') (a_url rq) of
        [lead, area, base] \<Rightarrow>
          (if lead \<noteq> [] \<or> area \<noteq> ''privacy'' \<or> base \<noteq> ''dsar'' then (not_routed, s)
           else (case a_method rq of
                   POST \<Rightarrow> createDSAR e now new_id (a_body rq) c s
                 | GET \<Rightarrow> (listDSARs e lo c s, s)
                 | _ \<Rightarrow> (not_routed, s)))
      | [lead, area, base, i] \<Rightarrow>
          (if lead \<noteq> [] \<or> area \<noteq> ''privacy'' \<or> base \<noteq> ''dsar'' then (not_routed, s)
           else (case a_method rq of
                   GET \<Rightarrow> (getDSAR e i c s, s)
                 | PUT \<Rightarrow> updateDSAR e now i (a_body rq) c s
                 | DELETE \<Rightarrow> deleteDSAR i c s
                 | _ \<Rightarrow> (not_routed, s)))
      | [lead, area, base, i, op] \<Rightarrow>
          (if lead \<noteq> [] \<or> area \<noteq> ''privacy'' \<or> base \<noteq> ''dsar'' then (not_routed, s)
           else if op = ''package'' \<and> a_method rq = GET then (getDSARPackage e now i c s, s)
           else if op = ''execute'' \<and> a_method rq = POST then executeDSAR e now new_id i c s
           else (not_routed, s))
      | _ \<Rightarrow> (not_routed, s))"

section \<open>What a search finds\<close>

text \<open>\<open>ILIKE\<close> as the database documents it, for texts without its special characters\<close>

definition unescaped_text :: "string \<Rightarrow> bool" where
  "unescaped_text t \<longleftrightarrow> list_all (\<lambda>c. c \<notin> {CHR ''%'', CHR ''_'', CHR 0x5C} \<and> of_char c < (128::nat)) t"

definition ilike_documented :: "(string \<Rightarrow> string \<Rightarrow> bool) \<Rightarrow> bool" where
  "ilike_documented f \<longleftrightarrow>
     (\<forall>t v. unescaped_text t \<longrightarrow> f (''%'' @ t @ ''%'') v = str_includes (to_lower v) (to_lower t)
            \<and> f t v = (to_lower v = to_lower t))
     \<and> (\<forall>v. f ''%%%'' v)"

text \<open>A value mentions a subject when it contains the identifier, anywhere and in any case.\<close>

definition mentions :: "string \<Rightarrow> string \<Rightarrow> bool" where
  "mentions subject v \<longleftrightarrow> str_includes (to_lower v) (to_lower subject)"

lemma str_includes_refl [simp]: "str_includes s s"
  using str_includes_iff [of s s] by (metis append.right_neutral append_Nil)

lemma value_matches_plain:
  assumes "ilike_documented (de_ilike e)" "unescaped_text subject"
  shows "value_matches e tenant subject v \<longleftrightarrow> fv_tenant v = tenant \<and> mentions subject (fv_value v)"
  using assms by (auto simp: value_matches_def ilike_documented_def containing_def mentions_def)

lemma update_dsar_frame [simp]:
  "db_values (update_dsar_row now r s) = db_values s" "db_logs (update_dsar_row now r s) = db_logs s"
  "db_sources (update_dsar_row now r s) = db_sources s"
  by (simp_all add: update_dsar_row_def)

lemma find_update_dsar:
  assumes "find_dsar tenant i s = Some q" "dsar_fits r" "sr_tenant r = tenant" "sr_id r = i"
  shows "find_dsar tenant i (update_dsar_row now r s) =
    Some (r\<lparr>sr_updated := now, sr_created := sr_created q\<rparr>)"
proof -
  have "find (\<lambda>r. sr_tenant r = tenant \<and> sr_id r = i)
      (map (\<lambda>q. if sr_tenant q = tenant \<and> sr_id q = i then r\<lparr>sr_updated := now, sr_created := sr_created q\<rparr> else q) xs) =
      map_option (\<lambda>q. r\<lparr>sr_updated := now, sr_created := sr_created q\<rparr>)
        (find (\<lambda>r. sr_tenant r = tenant \<and> sr_id r = i) xs)" for xs
    using assms(3,4) by (induction xs) auto
  with assms show ?thesis by (simp add: update_dsar_row_def find_dsar_def)
qed


text \<open>A pattern matcher that is as documented\<close>

fun like_match :: "string \<Rightarrow> string \<Rightarrow> bool" where
  "like_match [] v = (v = [])"
| "like_match (p # ps) [] = (p = CHR ''%'' \<and> like_match ps [])"
| "like_match (p # ps) (c # v) =
     (if p = CHR ''%'' then like_match ps (c # v) \<or> like_match (p # ps) v
      else (p = CHR ''_'' \<or> p = c) \<and> like_match ps v)"

lemma like_any [simp]: "like_match ''%'' v"
  by (induction v) simp_all

lemma like_prefix:
  assumes "CHR ''%'' \<notin> set t" "CHR ''_'' \<notin> set t"
  shows "like_match (t @ ''%'') v \<longleftrightarrow> starts_with v t"
  using assms
proof (induction t arbitrary: v)
  case (Cons p t)
  then show ?case by (cases v) (auto simp: starts_with_def)
qed (simp add: starts_with_def)

lemma like_exact:
  assumes "CHR ''%'' \<notin> set t" "CHR ''_'' \<notin> set t"
  shows "like_match t v \<longleftrightarrow> v = t"
  using assms
proof (induction t arbitrary: v)
  case (Cons p t)
  then show ?case by (cases v) auto
qed simp

lemma like_infix:
  assumes "CHR ''%'' \<notin> set t" "CHR ''_'' \<notin> set t"
  shows "like_match (CHR ''%'' # t @ ''%'') v \<longleftrightarrow> str_includes v t"
proof (induction v)
  case Nil
  then show ?case using like_prefix [OF assms, of "[]"] by (auto simp: starts_with_def)
next
  case (Cons c v)
  then show ?case using like_prefix [OF assms, of "c # v"] by simp
qed

definition ex_ilike :: "string \<Rightarrow> string \<Rightarrow> bool" where
  "ex_ilike p v = like_match (to_lower p) (to_lower v)"

lemma lower_char_special:
  "lower_char c = CHR ''%'' \<longleftrightarrow> c = CHR ''%''" "lower_char c = CHR ''_'' \<longleftrightarrow> c = CHR ''_''"
proof -
  have *: "lower_char c = d \<longleftrightarrow> c = d" if "of_char d \<in> {37, 95 :: nat}" for d
  proof
    assume "lower_char c = d"
    then have "of_char (lower_char c) = (of_char d :: nat)" by simp
    then have "of_char c = (of_char d :: nat)"
      using that by (auto simp: lower_char_def Let_def split: if_splits)
    then show "c = d" by simp
  next
    assume "c = d" with that show "lower_char c = d" by (auto simp: lower_char_def Let_def)
  qed
  show "lower_char c = CHR ''%'' \<longleftrightarrow> c = CHR ''%''" "lower_char c = CHR ''_'' \<longleftrightarrow> c = CHR ''_''"
    by (rule *; simp)+
qed

lemma ex_ilike_documented: "ilike_documented ex_ilike"
proof -
  have "CHR ''%'' \<notin> set (to_lower t)" "CHR ''_'' \<notin> set (to_lower t)" if "unescaped_text t" for t
    using that lower_char_special
    by (force simp: unescaped_text_def to_lower_def list_all_iff)+
  moreover have "to_lower (CHR ''%'' # t @ ''%'') = CHR ''%'' # to_lower t @ ''%''" for t
    using lower_char_special(1) by (simp add: to_lower_def)
  moreover have "to_lower ''%%%'' = ''%%%''" by code_simp
  moreover have "like_match ''%%%'' v" for v by (cases v) simp_all
  ultimately show ?thesis
    by (simp add: ilike_documented_def ex_ilike_def like_infix like_exact)
qed

text \<open>An identifier that is a pattern finds everybody's values.\<close>

lemma wildcard_finds_all:
  "ilike_documented (de_ilike e) \<Longrightarrow> value_matches e tenant ''%'' v \<longleftrightarrow> fv_tenant v = tenant"
  by (simp add: value_matches_def ilike_documented_def containing_def)

definition ex_dsar_env :: dsar_env where
  "ex_dsar_env =
     \<lparr>de_time = (\<lambda>t. []), de_text = (\<lambda>v. []), de_ilike = ex_ilike, de_uuid = (\<lambda>t. t \<noteq> []), de_sources_ok = True\<rparr>"

definition ex_dsar :: dsar where
  "ex_dsar =
     \<lparr>sr_id = ''r1'', sr_tenant = ''t1'', sr_subject = ''ann@x'', sr_type = ''delete'', sr_status = ''pending'',
      sr_deadline = days_ms 30, sr_results = None, sr_completed = None, sr_created = 0, sr_updated = 0\<rparr>"

definition ex_value :: "string \<Rightarrow> found_value" where
  "ex_value t =
     \<lparr>fv_id = t, fv_tenant = ''t1'', fv_source = None, fv_dataset = None, fv_type = ''EMAIL'', fv_value = t,
      fv_context = None, fv_created = 0\<rparr>"

definition ex_dsar_db :: dsar_db where
  "ex_dsar_db =
     \<lparr>db_dsars = [ex_dsar], db_values = [ex_value ''Ann@x'', ex_value ''joann@x.org'', ex_value ''bob@x''],
      db_logs = [], db_sources = []\<rparr>"

lemma ex_dsar_found: "find_dsar (ca_tenant ex_root) ''r1'' ex_dsar_db = Some ex_dsar"
  by (simp add: find_dsar_def ex_dsar_db_def ex_dsar_def ex_root_def)

lemma ex_plain: "unescaped_text ''ann@x''"
  by code_simp

lemma ex_mentions: "mentions ''ann@x'' ''Ann@x''" "mentions ''ann@x'' ''joann@x.org''" "\<not> mentions ''ann@x'' ''bob@x''"
  by code_simp+


end
