(* ===== verification/FeDsar.thy ===== *)
theory FeDsar
  imports GoDsar
begin

text \<open>
  The pages of data subjects' requests, \<open>app/(app)/privacy/dsar/page.tsx\<close> and
  \<open>app/(app)/privacy/dsar/[id]/page.tsx\<close>, with the server of theory \<open>GoDsar\<close>. The columns of the table are
  in theory \<open>FeTables\<close>. A browser sends the form only when its required field is filled.
\<close>

section \<open>The list\<close>

record dsar_page =
  dg_showForm :: bool
  dg_subject_id :: string
  dg_type :: string
  dg_open :: "string option"

definition initial_dsar_page :: dsar_page where
  "initial_dsar_page = \<lparr>dg_showForm = False, dg_subject_id = [], dg_type = ''access'', dg_open = None\<rparr>"

definition dsar_types :: "(string \<times> string) list" where
  "dsar_types =
     [(''access'', ''Access (Right to Access)''), (''delete'', ''Delete (Right to Erasure)''),
      (''rectify'', ''Rectify (Right to Rectification)'')]"

definition dsar_form :: "dsar_page \<Rightarrow> js" where
  "dsar_form p = JObj [(''subject_id'', JStr (dg_subject_id p)), (''type'', JStr (dg_type p))]"

type_synonym 's dsar_world = "dsar_page \<times> fe_state \<times> 's"

definition dsar_handleCreate :: "fe_env \<Rightarrow> 's server \<Rightarrow> 's dsar_world \<Rightarrow> 's dsar_world" where
  "dsar_handleCreate e sv w =
     (case w of (p, ws) \<Rightarrow>
        (case mutate e sv useCreateDSAR (dsar_form p) ws of
           (Inl err, ws') \<Rightarrow> (p, ws')
         | (Inr d, ws') \<Rightarrow> (p\<lparr>dg_showForm := False, dg_subject_id := [], dg_type := ''access''\<rparr>, ws')))"

definition dsarsData :: "js \<Rightarrow> js list" where
  "dsarsData d = elements d"

section \<open>One request\<close>

definition handleStatusUpdate :: "fe_env \<Rightarrow> 's server \<Rightarrow> string \<Rightarrow> string \<Rightarrow> fe_state \<times> 's \<Rightarrow> fe_state \<times> 's" where
  "handleStatusUpdate e sv i newStatus ws =
     snd (mutate e sv useUpdateDSAR (i, JObj [(''status'', JStr newStatus)]) ws)"

definition dsar_handleDelete :: "fe_env \<Rightarrow> 's server \<Rightarrow> string \<Rightarrow> fe_state \<times> 's \<Rightarrow> fe_state \<times> 's" where
  "dsar_handleDelete e sv i ws =
     (case mutate e sv useDeleteDSAR i ws of
        (Inl err, ws') \<Rightarrow> ws'
      | (Inr d, st, s) \<Rightarrow> (navigate (Push ''/privacy/dsar'') st, s))"

text \<open>\<open>refetch\<close> asks although the query is not enabled.\<close>

definition ask_again :: "fe_env \<Rightarrow> 's server \<Rightarrow> query \<Rightarrow> fe_state \<times> 's \<Rightarrow> fe_state \<times> 's" where
  "ask_again e sv q ws =
     (case ws of (st, s) \<Rightarrow>
        (fetch_query (asking e sv s) (q\<lparr>q_enabled := True\<rparr>) st, snd (sv (add_token st (q_request q)) s)))"

definition handleGeneratePackage :: "fe_env \<Rightarrow> 's server \<Rightarrow> string \<Rightarrow> fe_state \<times> 's \<Rightarrow> fe_state \<times> 's" where
  "handleGeneratePackage e sv i = ask_again e sv (useDSARPackage i)"

text \<open>The buttons that are there, and the status each asks for\<close>

definition status_button :: "js \<Rightarrow> (string \<times> string) option" where
  "status_button d =
     (if is_str (jprop ''status'' d) ''pending'' then Some (''Start Processing'', ''in_progress'')
      else if is_str (jprop ''status'' d) ''in_progress'' then Some (''Mark Complete'', ''completed'') else None)"

text \<open>
  What can be done on the two pages. The page of a request shows its buttons once the request is there;
  it asks again for data that is out of date, as the list does.
\<close>

datatype dsar_event =
    OpenForm
  | CancelForm
  | TypeSubjectId string
  | ChooseDsarType string
  | SubmitDsar
  | ShowDsars
  | OpenDsar string
  | PressStatus
  | ConfirmDeletion
  | GeneratePackage

definition current_dsar :: "'s dsar_world \<Rightarrow> js" where
  "current_dsar w = (case w of (p, st, s) \<Rightarrow> (case dg_open p of None \<Rightarrow> JUndef | Some i \<Rightarrow> query_data (useDSAR i) st))"

definition on_dsar :: "(string \<Rightarrow> fe_state \<times> 's \<Rightarrow> fe_state \<times> 's) \<Rightarrow> 's dsar_world \<Rightarrow> 's dsar_world" where
  "on_dsar f w =
     (case dg_open (fst w) of
        None \<Rightarrow> w | Some i \<Rightarrow> (if truthy (current_dsar w) then apsnd (f i) w else w))"

fun dsar_next :: "fe_env \<Rightarrow> 's server \<Rightarrow> dsar_event \<Rightarrow> 's dsar_world \<Rightarrow> 's dsar_world" where
  "dsar_next e sv OpenForm w = apfst (\<lambda>p. p\<lparr>dg_showForm := True\<rparr>) w"
| "dsar_next e sv CancelForm w = apfst (\<lambda>p. p\<lparr>dg_showForm := False\<rparr>) w"
| "dsar_next e sv (TypeSubjectId t) w = apfst (\<lambda>p. p\<lparr>dg_subject_id := t\<rparr>) w"
| "dsar_next e sv (ChooseDsarType t) w =
     (if t \<in> fst ` set dsar_types then apfst (\<lambda>p. p\<lparr>dg_type := t\<rparr>) w else w)"
| "dsar_next e sv SubmitDsar w =
     (if dg_showForm (fst w) \<and> dg_subject_id (fst w) \<noteq> []
      then apsnd (observe e sv useDSARs) (dsar_handleCreate e sv w) else w)"
| "dsar_next e sv ShowDsars w = (case w of (p, ws) \<Rightarrow> (p\<lparr>dg_open := None\<rparr>, observe e sv useDSARs ws))"
| "dsar_next e sv (OpenDsar i) w = (case w of (p, ws) \<Rightarrow> (p\<lparr>dg_open := Some i\<rparr>, observe e sv (useDSAR i) ws))"
| "dsar_next e sv PressStatus w =
     (case status_button (current_dsar w) of
        None \<Rightarrow> w
      | Some (l, status) \<Rightarrow>
          on_dsar (\<lambda>i ws. observe e sv (useDSAR i) (handleStatusUpdate e sv i status ws)) w)"
| "dsar_next e sv ConfirmDeletion w =
     on_dsar (\<lambda>i ws. observe e sv (useDSAR i) (dsar_handleDelete e sv i ws)) w"
| "dsar_next e sv GeneratePackage w = on_dsar (handleGeneratePackage e sv) w"

text \<open>A run, with the server as it is at each event: its time and the id of a new row\<close>

definition dsar_served :: "dsar_env \<Rightarrow> caller \<Rightarrow> int \<Rightarrow> string \<Rightarrow> dsar_db server" where
  "dsar_served e c now n rq s = apfst axios_reply (dsar_route e now n (ParseListOpts None None) c rq s)"

definition dsar_run ::
  "fe_env \<Rightarrow> dsar_env \<Rightarrow> caller \<Rightarrow> (int \<times> string \<times> dsar_event) list \<Rightarrow> dsar_db dsar_world \<Rightarrow> dsar_db dsar_world" where
  "dsar_run e de c es = fold (\<lambda>(now, n, ev). dsar_next e (dsar_served de c now n) ev) es"

section \<open>What is shown\<close>

definition is_overdue :: "page_env \<Rightarrow> js \<Rightarrow> bool" where
  "is_overdue e d \<longleftrightarrow> num_lt (date_ms e (jprop ''deadline'' d)) (now_ms e) \<and> \<not> is_str (jprop ''status'' d) ''completed''"

text \<open>\<open>Math.ceil\<close> of the days between, written out\<close>

definition days_remaining :: "page_env \<Rightarrow> js \<Rightarrow> string" where
  "days_remaining e d =
     (case (date_ms e (jprop ''deadline'' d), now_ms e) of
        (Fin a, Fin b) \<Rightarrow> int_str \<lceil>(a - b) / 86400000\<rceil> | _ \<Rightarrow> ''NaN'')"

definition remaining_tone :: "page_env \<Rightarrow> js \<Rightarrow> string" where
  "remaining_tone e d =
     (if is_overdue e d then ''destructive''
      else case (date_ms e (jprop ''deadline'' d), now_ms e) of
             (Fin a, Fin b) \<Rightarrow> (if \<lceil>(a - b) / 86400000\<rceil> \<le> 7 then ''yellow'' else ''plain'') | _ \<Rightarrow> ''plain'')"

definition remaining_text :: "page_env \<Rightarrow> js \<Rightarrow> string" where
  "remaining_text e d = (if is_overdue e d then ''Overdue'' else days_remaining e d @ '' days'')"

definition dsar_title :: "js \<Rightarrow> js \<times> js" where
  "dsar_title d = (jprop ''subject_id'' d, map_text (\<lambda>t. capitalize t @ '' Request'') (jprop ''type'' d))"

definition dsar_cards :: "page_env \<Rightarrow> js \<Rightarrow> (string \<times> cell) list" where
  "dsar_cards e d =
     [(''Status'', Status (if is_str (jprop ''status'' d) ''completed'' then JStr ''success''
          else if is_str (jprop ''status'' d) ''in_progress'' then JStr ''pending'' else JStr ''inactive'')
          (map_text (replace_first (CHR ''_'') (CHR '' '')) (jprop ''status'' d))),
      (''Request Type'', Txt (jprop ''type'' d)),
      (''Deadline'', Toned (if is_overdue e d then ''destructive'' else ''plain'') (Day (jprop ''deadline'' d))),
      (''Time Remaining'', Toned (remaining_tone e d) (text_of (remaining_text e d)))]"

definition dsar_details :: "js \<Rightarrow> (string \<times> cell) list" where
  "dsar_details d =
     [(''Subject ID'', Txt (jprop ''subject_id'' d)), (''Request ID'', Txt (jprop ''id'' d)),
      (''Created'', When (jprop ''created_at'' d)), (''Last Updated'', When (jprop ''updated_at'' d))]"

text \<open>The card of the package: its contents as JSON, or what the button promises\<close>

definition package_card :: "js \<Rightarrow> js + string" where
  "package_card d =
     (if truthy d then Inl (json_view d)
      else Inr (''Click '' @ [CHR 0x22] @ ''Generate Package'' @ [CHR 0x22]
              @ '' to search all connected data sources for data related to this subject.''))"

definition activity_log :: "js \<Rightarrow> (js \<times> string) list" where
  "activity_log d =
     [(jprop ''created_at'' d, ''DSAR request created'')]
     @ (if is_str (jprop ''status'' d) ''in_progress'' then [(jprop ''updated_at'' d, ''Processing started'')] else [])
     @ (if is_str (jprop ''status'' d) ''completed'' then [(jprop ''updated_at'' d, ''Request completed'')] else [])"

section \<open>No page searches\<close>

definition untouched :: "dsar_db \<Rightarrow> dsar_db \<Rightarrow> bool" where
  "untouched s s' \<longleftrightarrow>
     db_values s' = db_values s \<and> db_logs s' = db_logs s \<and> db_sources s' = db_sources s
     \<and> (\<forall>r\<in>set (db_dsars s'). sr_results r = None)"

lemma untouched_update: "untouched s0 s \<Longrightarrow> sr_results r = None \<Longrightarrow> untouched s0 (update_dsar_row now r s)"
  by (auto simp: untouched_def update_dsar_row_def)

lemma untouched_update_route:
  assumes "untouched s0 s"
  shows "untouched s0 (snd (updateDSAR e now i body c s))"
proof (cases "find_dsar (ca_tenant c) i s")
  case (Some r)
  then have "r \<in> set (db_dsars s)" by (auto simp: find_dsar_def dest: find_SomeD)
  with assms have "sr_results r = None" by (simp add: untouched_def)
  with assms Some show ?thesis
    by (auto simp: updateDSAR_def Let_def intro!: untouched_update split: option.split list.split)
qed (use assms in \<open>simp add: updateDSAR_def\<close>)

lemma untouched_create: "untouched s0 s \<Longrightarrow> untouched s0 (snd (createDSAR e now n body c s))"
  by (auto simp: createDSAR_def untouched_def Let_def split: option.split list.split)

lemma untouched_delete: "untouched s0 s \<Longrightarrow> untouched s0 (snd (deleteDSAR i c s))"
  by (auto simp: deleteDSAR_def untouched_def split: option.split)

text \<open>The only request of the pages that posts is the one of the form.\<close>

lemma untouched_route:
  assumes "untouched s0 s" "a_method rq = POST \<longrightarrow> a_url rq = ''/privacy/dsar''"
  shows "untouched s0 (snd (dsar_route e now n lo c rq s))"
proof -
  have "a_method rq = POST \<longrightarrow> length (split_on (CHR ''/'') (a_url rq)) = 3"
    using assms(2) by simp
  then show ?thesis
    using assms(1)
    by (auto simp: dsar_route_def untouched_create untouched_update_route untouched_delete
        split: list.split http_method.split)
qed

lemma dsar_request_simps [simp]:
  "a_method (add_token st rq) = a_method rq" "a_url (add_token st rq) = a_url rq"
  "a_method (new_request m u b) = m" "a_url (new_request m u b) = u"
  by (simp_all add: add_token_def new_request_def split: option.split)

lemma untouched_served:
  "untouched s0 s \<Longrightarrow> a_method rq = POST \<longrightarrow> a_url rq = ''/privacy/dsar'' \<Longrightarrow>
   untouched s0 (snd (dsar_served de c now n rq s))"
  by (simp add: dsar_served_def untouched_route)

lemma mutate_server: "snd (snd (mutate e sv m v (st, s))) = snd (sv (add_token st (m_request m v)) s)"
  by (simp add: mutate_def split: prod.split)

lemma untouched_mutate:
  "untouched s0 (snd ws) \<Longrightarrow> a_method (m_request m v) = POST \<longrightarrow> a_url (m_request m v) = ''/privacy/dsar'' \<Longrightarrow>
   untouched s0 (snd (snd (mutate e (dsar_served de c now n) m v ws)))"
  by (cases ws) (simp add: mutate_server untouched_served)

lemma untouched_observe:
  "untouched s0 (snd ws) \<Longrightarrow> a_method (q_request q) = GET \<Longrightarrow>
   untouched s0 (snd (observe e (dsar_served de c now n) q ws))"
  by (auto simp: observe_def untouched_served split: prod.splits option.split)

lemma dsar_requests [simp]:
  "a_method (q_request useDSARs) = GET" "a_method (q_request (useDSAR i)) = GET"
  "a_method (q_request (useDSARPackage i)) = GET" "a_method (m_request useUpdateDSAR (i, d)) = PUT"
  "a_method (m_request useDeleteDSAR i) = DELETE" "a_url (m_request useCreateDSAR d) = ''/privacy/dsar''"
  by (simp_all add: useDSARs_def useDSAR_def useDSARPackage_def useUpdateDSAR_def useDeleteDSAR_def
      useCreateDSAR_def get_query_def)

lemma untouched_create_page:
  "untouched s0 (snd (snd w)) \<Longrightarrow> untouched s0 (snd (snd (dsar_handleCreate e (dsar_served de c now n) w)))"
  using untouched_mutate [of s0 "snd w" useCreateDSAR "dsar_form (fst w)" e de c now n]
  by (auto simp: dsar_handleCreate_def split: prod.splits sum.splits)

lemma untouched_delete_page:
  "untouched s0 (snd ws) \<Longrightarrow> untouched s0 (snd (dsar_handleDelete e (dsar_served de c now n) i ws))"
  using untouched_mutate [of s0 ws useDeleteDSAR i e de c now n]
  by (auto simp: dsar_handleDelete_def split: prod.splits sum.splits)

lemma untouched_status_page:
  "untouched s0 (snd ws) \<Longrightarrow> untouched s0 (snd (handleStatusUpdate e (dsar_served de c now n) i status ws))"
  using untouched_mutate [of s0 ws useUpdateDSAR "(i, JObj [(''status'', JStr status)])" e de c now n]
  by (simp add: handleStatusUpdate_def)

lemma untouched_package:
  "untouched s0 (snd ws) \<Longrightarrow> untouched s0 (snd (handleGeneratePackage e (dsar_served de c now n) i ws))"
  by (auto simp: handleGeneratePackage_def ask_again_def untouched_served split: prod.split)

lemma untouched_on:
  "(\<And>i ws. untouched s0 (snd ws) \<Longrightarrow> untouched s0 (snd (f i ws))) \<Longrightarrow> untouched s0 (snd (snd w)) \<Longrightarrow>
   untouched s0 (snd (snd (on_dsar f w)))"
  by (cases w) (auto simp: on_dsar_def split: option.split)

lemma untouched_next:
  assumes "untouched s0 (snd (snd w))"
  shows "untouched s0 (snd (snd (dsar_next e (dsar_served de c now n) ev w)))"
proof (cases ev)
  case SubmitDsar
  then show ?thesis
    using assms by (simp add: untouched_observe untouched_create_page)
next
  case PressStatus
  then show ?thesis
    using assms by (auto intro!: untouched_on untouched_observe untouched_status_page split: option.split)
next
  case ConfirmDeletion
  then show ?thesis
    using assms by (auto intro!: untouched_on untouched_observe untouched_delete_page)
next
  case GeneratePackage
  then show ?thesis
    using assms by (auto intro!: untouched_on untouched_package)
qed (use assms in \<open>cases w; simp add: untouched_observe split: prod.split\<close>)+

lemma untouched_run: "untouched s0 (snd (snd w)) \<Longrightarrow> untouched s0 (snd (snd (dsar_run e de c es w)))"
  by (induction es arbitrary: w) (simp_all add: dsar_run_def untouched_next split: prod.split)

text \<open>
  C31. Whatever is done on the pages of data subjects' requests, no data is searched, changed or deleted,
  whatever the types of the requests: no request ever has a result, and the package of every request,
  of a completed one too, holds no data.
\<close>
theorem dsar_pages_find_nothing:
  assumes "\<forall>r\<in>set (db_dsars s). sr_results r = None" "dsar_run e de c es (p, st, s) = (p', st', s')"
  shows "db_values s' = db_values s \<and> db_logs s' = db_logs s \<and> db_sources s' = db_sources s
    \<and> (\<forall>r\<in>set (db_dsars s'). sr_results r = None)
    \<and> jprop ''data'' (the (rs_json (getDSARPackage de now i c s'))) \<in> {JNull, JUndef}"
proof -
  have u: "untouched s s'"
    using untouched_run [of s "(p, st, s)" e de c es] assms by (simp add: untouched_def)
  moreover have "jprop ''data'' (the (rs_json (getDSARPackage de now i c s'))) \<in> {JNull, JUndef}"
  proof (cases "find_dsar (ca_tenant c) i s'")
    case (Some r)
    then have "r \<in> set (db_dsars s')" by (auto simp: find_dsar_def dest: find_SomeD)
    with u Some show ?thesis by (simp add: getDSARPackage_def untouched_def answer_def)
  qed (simp add: getDSARPackage_def error_answer_def answer_def)
  ultimately show ?thesis by (simp add: untouched_def)
qed

definition ex_dsar_run :: "(int \<times> string \<times> dsar_event) list" where
  "ex_dsar_run = [(2, [], OpenDsar ''r1''), (3, [], PressStatus), (4, [], PressStatus), (5, [], GeneratePackage)]"

definition ex_dsar_end :: "dsar_db dsar_world" where
  "ex_dsar_end =
     dsar_run (ex_fe_env JNull) ex_dsar_env ex_root ex_dsar_run (initial_dsar_page, ex_browser [], ex_dsar_db)"

lemmas ex_dsar_simps =
  dsar_run_def dsar_served_def dsar_route_def observe_def mutate_def run_mutation_def api_send_def asking_def
  fetch_query_def useDSAR_def useUpdateDSAR_def get_query_def new_request_def add_token_def get_cookie_def
  getDSAR_def updateDSAR_def find_dsar_def update_dsar_row_def dsar_fits_def handleStatusUpdate_def
  settle_def query_data_def on_dsar_def current_dsar_def status_button_def invalidate_def show_toast_def
  ex_dsar_env_def ex_dsar_db_def ex_dsar_def ex_root_def ex_browser_def ex_fe_env_def initial_dsar_page_def
  body_texts_def go_struct_def dsar_json_def Let_def

lemma ex_dsar_completed:
  "map sr_status (db_dsars (snd (snd ex_dsar_end))) = [''completed''] \<and> sr_type (hd (db_dsars (snd (snd ex_dsar_end)))) = ''delete''"
  by (simp add: ex_dsar_simps ex_dsar_end_def ex_dsar_run_def handleGeneratePackage_def ask_again_def
      useDSARPackage_def getDSARPackage_def)

theorem dsar_pages_find_nothing_witness:
  "map sr_status (db_dsars (snd (snd ex_dsar_end))) = [''completed'']
   \<and> db_values (snd (snd ex_dsar_end)) = db_values ex_dsar_db
   \<and> jprop ''data'' (the (rs_json (getDSARPackage ex_dsar_env 6 ''r1'' ex_root (snd (snd ex_dsar_end))))) \<in> {JNull, JUndef}"
proof -
  obtain p' st' s' where r: "dsar_run (ex_fe_env JNull) ex_dsar_env ex_root ex_dsar_run
      (initial_dsar_page, ex_browser [], ex_dsar_db) = (p', st', s')" by (metis prod_cases3)
  have "\<forall>r\<in>set (db_dsars ex_dsar_db). sr_results r = None" by (simp add: ex_dsar_db_def ex_dsar_def)
  from dsar_pages_find_nothing [OF this r, of 6 "''r1''"] ex_dsar_completed r
  show ?thesis by (simp add: ex_dsar_end_def)
qed

section \<open>What the page shows of the deadline\<close>

text \<open>A request is shown as overdue exactly when its deadline is over and it is not completed.\<close>

lemma overdue_shown:
  assumes "date_ms e (jprop ''deadline'' d) = Fin a" "now_ms e = Fin b"
  shows "remaining_text e d = ''Overdue'' \<longleftrightarrow> a < b \<and> \<not> is_str (jprop ''status'' d) ''completed''"
proof -
  have "last (days_remaining e d @ '' days'') \<noteq> last ''Overdue''" by simp
  then have "days_remaining e d @ '' days'' \<noteq> ''Overdue''" by metis
  then show ?thesis using assms by (simp add: remaining_text_def is_overdue_def)
qed

text \<open>A request completed in time shows the days from now all the same, below zero in the end.\<close>

lemma completed_days_negative:
  assumes "date_ms e (jprop ''deadline'' d) = Fin a" "now_ms e = Fin b" "is_str (jprop ''status'' d) ''completed''"
    and "a + 86400000 \<le> b"
  shows "starts_with (remaining_text e d) ''-''"
proof -
  have "(a - b) / 86400000 \<le> -1" using assms(4) by (simp add: field_simps)
  then have "\<lceil>(a - b) / 86400000\<rceil> \<le> -1" by (simp add: ceiling_le_iff)
  then have "\<lceil>(a - b) / 86400000\<rceil> < 0" by linarith
  then show ?thesis
    using assms(1-3) by (simp add: remaining_text_def is_overdue_def days_remaining_def starts_with_def)
qed

end
