(* ===== verification/GoAdvisor.thy ===== *)
theory GoAdvisor
  imports GoDsar
begin

text \<open>
  The compliance advisor of the server: the rules of \<open>internal/domain/advisor.go\<close>, and the handlers of
  \<open>internal/api/remediation_reports.go\<close> that run and list assessments, score the risk, and generate the
  defense docket.

  A query that names a column its table does not have fails; the handlers ignore the error and go on with
  empty values. The columns are those of the migrations (\<open>internal/store/migrations\<close>); the ones that the
  fifth adds are taken as there, although its foreign keys of type \<open>VARCHAR\<close> refer to columns of type \<open>UUID\<close>,
  which PostgreSQL refuses. Floating point is taken as rational numbers; averages leave out \<open>NULL\<close>. Rows are
  newest first.
\<close>

section \<open>The database\<close>

record source_row =
  sw_id :: string
  sw_tenant :: string
  sw_name :: string
  sw_last_scan :: "int option"

record violation_row =
  vw_id :: string
  vw_tenant :: string
  vw_dataset :: string
  vw_days_overdue :: int
  vw_created :: int
  vw_cells :: "(string \<times> js) list"

record quality_row =
  qw_tenant :: string
  qw_completeness :: "rat option"
  qw_accuracy :: "rat option"
  qw_consistency :: "rat option"
  qw_created :: int

record ropa_row =
  ow_tenant :: string
  ow_name :: string
  ow_purpose :: string
  ow_legal_basis :: string

record assessment =
  at_id :: string
  at_tenant :: string
  at_score :: rat
  at_total :: nat
  at_critical :: nat
  at_high :: nat
  at_medium :: nat
  at_low :: nat
  at_evidence :: nat
  at_sources :: nat
  at_classifications :: nat
  at_policies :: nat
  at_regulations :: "string list"
  at_summary :: js
  at_created :: int

record advisor_db = dsar_db +
  ab_policies :: "policy list"
  ab_labels :: "(string \<times> string) list"
  ab_violations :: "violation_row list"
  ab_scanned :: "source_row list"
  ab_ropa :: "ropa_row list"
  ab_quality :: "quality_row list"
  ab_consents :: "string list"
  ab_assessments :: "assessment list"
  ab_reports :: "(string \<times> string) list"

text \<open>The tables whose columns are named wrongly somewhere\<close>

definition table_columns :: "string \<Rightarrow> string list" where
  "table_columns t =
     (if t = ''audit_logs''
      then [''id'', ''tenant_id'', ''user_id'', ''action'', ''resource'', ''resource_id'', ''details'', ''ip'', ''created_at'']
      else if t = ''retention_violations''
      then [''id'', ''tenant_id'', ''dataset_id'', ''policy_id'', ''violation_type'', ''days_overdue'', ''created_at'']
      else if t = ''compliance_assessments''
      then [''id'', ''tenant_id'', ''assessed_by'', ''compliance_score'', ''total_findings'', ''critical_findings'',
            ''high_findings'', ''medium_findings'', ''low_findings'', ''total_evidence'', ''data_sources_checked'',
            ''classifications_checked'', ''policies_evaluated'', ''regulations_covered'', ''summary'', ''created_at'']
      else if t = ''classifications''
      then [''id'', ''tenant_id'', ''dataset_id'', ''source_id'', ''entity_type'', ''value'', ''confidence'', ''context'',
            ''created_at'', ''label_id'', ''rule_id'', ''classification_source'', ''value_sample'']
      else if t = ''rot_data''
      then [''id'', ''tenant_id'', ''dataset_id'', ''category'', ''score'', ''reason'', ''size_bytes'', ''last_access'',
            ''created_at'']
      else [])"

text \<open>A query that names the columns \<open>cs\<close>: its value, or an error\<close>

definition sql :: "string \<Rightarrow> string list \<Rightarrow> 'a \<Rightarrow> 'a option" where
  "sql t cs v = (if set cs \<subseteq> set (table_columns t) then Some v else None)"

section \<open>The rules\<close>

text \<open>A recommendation, without its texts: how much it counts, and how many items of evidence it has\<close>

record finding =
  fd_id :: string
  fd_severity :: string
  fd_category :: string
  fd_title :: string
  fd_affected :: nat
  fd_evidence :: nat

definition PIITypes :: "string list" where
  "PIITypes =
     [''PII'', ''SSN'', ''EMAIL'', ''PHONE'', ''ADDRESS'', ''NAME'', ''DATE_OF_BIRTH'', ''PASSPORT'', ''DRIVER_LICENSE'',
      ''PERSON_NAME'', ''PERSON'', ''IP_ADDRESS'', ''CREDIT_CARD'', ''BANK_ACCOUNT'', ''DATE'', ''LOCATION'', ''ORG'',
      ''ORGANIZATION'', ''IBAN'', ''ROUTING_NUMBER'', ''MEDICAL_RECORD'', ''HEALTH_INSURANCE_ID'', ''VIN'']"

definition HighSensitivityTypes :: "string list" where
  "HighSensitivityTypes = [''SSN'', ''CREDIT_CARD'', ''BANK_ACCOUNT'', ''PHI'', ''HEALTH_RECORD'', ''GENETIC_DATA'']"

text \<open>What the rules look at\<close>

record advisor_context =
  ac_classes :: "found_value list"
  ac_policies :: "policy list"
  ac_violations :: "violation_row list"
  ac_sources :: "source_row list"
  ac_ropa :: "ropa_row list"
  ac_total_datasets :: nat
  ac_labeled_datasets :: nat

definition pii_classes :: "advisor_context \<Rightarrow> found_value list" where
  "pii_classes a = filter (\<lambda>c. fv_type c \<in> set PIITypes) (ac_classes a)"

definition sensitive_classes :: "advisor_context \<Rightarrow> found_value list" where
  "sensitive_classes a = filter (\<lambda>c. fv_type c \<in> set HighSensitivityTypes) (ac_classes a)"

definition has_policy :: "advisor_context \<Rightarrow> string list \<Rightarrow> bool" where
  "has_policy a ts \<longleftrightarrow> list_ex (\<lambda>p. pl_active p \<and> pl_type p \<in> set ts) (ac_policies a)"

definition conditions_of :: "policy \<Rightarrow> string list" where
  "conditions_of p = (case unmarshal_conditions (pl_conditions p) of None \<Rightarrow> [] | Some ts \<Rightarrow> ts)"

definition coveredTypes :: "advisor_context \<Rightarrow> string list" where
  "coveredTypes a =
     concat (map conditions_of
       (filter (\<lambda>p. pl_active p \<and> (pl_type p = ''redaction'' \<or> pl_type p = ''access'')) (ac_policies a)))"

definition policy_absent :: "string \<Rightarrow> string \<Rightarrow> string \<Rightarrow> string \<Rightarrow> finding" where
  "policy_absent i severity category title =
     \<lparr>fd_id = i, fd_severity = severity, fd_category = category, fd_title = title, fd_affected = 0, fd_evidence = 1\<rparr>"

text \<open>The types are gone through in the order of a map, which is any.\<close>

definition checkUnprotectedPII :: "(string list \<Rightarrow> string list) \<Rightarrow> advisor_context \<Rightarrow> finding list" where
  "checkUnprotectedPII order a =
     map (\<lambda>t. let n = length (filter (\<lambda>c. fv_type c = t) (pii_classes a))
              in \<lparr>fd_id = ''rec-pii-'' @ t, fd_severity = ''HIGH'', fd_category = ''pii'',
                  fd_title = ''Unprotected '' @ t @ '' detected'', fd_affected = n, fd_evidence = min n 5\<rparr>)
       (filter (\<lambda>t. t \<notin> set (coveredTypes a) \<and> ''*'' \<notin> set (coveredTypes a))
          (order (remdups (map fv_type (pii_classes a)))))"

definition checkGDPRCompliance :: "advisor_context \<Rightarrow> finding list" where
  "checkGDPRCompliance a =
     (if pii_classes a = [] then []
      else (if ac_ropa a = []
            then [\<lparr>fd_id = ''rec-gdpr-ropa'', fd_severity = ''CRITICAL'', fd_category = ''gdpr'',
                   fd_title = ''Missing Records of Processing Activities'', fd_affected = 0,
                   fd_evidence = 1 + min 3 (length (pii_classes a))\<rparr>] else [])
        @ (if has_policy a [''retention''] then []
           else [policy_absent ''rec-gdpr-retention'' ''HIGH'' ''gdpr'' ''No data retention policy defined''])
        @ (if has_policy a [''access''] then []
           else [policy_absent ''rec-gdpr-access'' ''HIGH'' ''gdpr'' ''No access control policies defined'']))"

definition checkRetentionViolations :: "advisor_context \<Rightarrow> finding list" where
  "checkRetentionViolations a =
     (let n = length (filter (\<lambda>v. vw_days_overdue v > 0) (ac_violations a))
      in if n > 0
         then [\<lparr>fd_id = ''rec-retention-overdue'', fd_severity = ''HIGH'', fd_category = ''retention'',
                fd_title = ''Data retention violations detected'', fd_affected = n, fd_evidence = min n 5\<rparr>] else [])"

definition unscanned :: "source_row list \<Rightarrow> nat" where
  "unscanned ss = length (filter (\<lambda>s. sw_last_scan s = None) ss)"

definition checkStaleDataSources :: "advisor_context \<Rightarrow> finding list" where
  "checkStaleDataSources a =
     (let n = unscanned (ac_sources a)
      in if n > 0
         then [\<lparr>fd_id = ''rec-stale-sources'', fd_severity = ''MEDIUM'', fd_category = ''governance'',
                fd_title = ''Data sources not scanned'', fd_affected = n, fd_evidence = min n 5\<rparr>] else [])"

definition checkMissingLabels :: "advisor_context \<Rightarrow> finding list" where
  "checkMissingLabels a =
     (let datasets = ac_total_datasets a; labeled = ac_labeled_datasets a;
          percentage = rat_of_nat (datasets - labeled) / rat_of_nat datasets * 100
      in if 0 < datasets \<and> labeled < datasets
         then [\<lparr>fd_id = ''rec-missing-labels'',
                fd_severity = (if percentage > 50 then ''HIGH'' else if percentage > 25 then ''MEDIUM'' else ''LOW''),
                fd_category = ''governance'', fd_title = ''Datasets missing sensitivity labels'',
                fd_affected = datasets - labeled, fd_evidence = 1\<rparr>] else [])"

definition checkHighSensitivityData :: "advisor_context \<Rightarrow> finding list" where
  "checkHighSensitivityData a =
     (let n = length (sensitive_classes a);
          covered = list_ex (\<lambda>p. pl_active p
                     \<and> list_ex (\<lambda>t. t \<in> set HighSensitivityTypes \<or> t = ''*'') (conditions_of p)) (ac_policies a)
      in if 0 < n \<and> \<not> covered
         then [\<lparr>fd_id = ''rec-high-sens-policy'', fd_severity = ''CRITICAL'', fd_category = ''security'',
                fd_title = ''High-sensitivity data without protection policy'', fd_affected = n,
                fd_evidence = min n 5\<rparr>] else [])"

definition checkAIGovernance :: "advisor_context \<Rightarrow> finding list" where
  "checkAIGovernance a =
     (if ac_classes a \<noteq> [] \<and> \<not> has_policy a [''ai'']
      then [policy_absent ''rec-ai-governance'' ''MEDIUM'' ''ai'' ''No AI governance policies defined''] else [])"

definition unless_policy :: "advisor_context \<Rightarrow> string list \<Rightarrow> string \<Rightarrow> string \<Rightarrow> string \<Rightarrow> string \<Rightarrow> finding list" where
  "unless_policy a ts i severity category title =
     (if has_policy a ts then [] else [policy_absent i severity category title])"

definition checkPDPBCompliance :: "advisor_context \<Rightarrow> finding list" where
  "checkPDPBCompliance a =
     (if pii_classes a = [] then []
      else unless_policy a [''consent''] ''rec-pdpb-consent'' ''CRITICAL'' ''pdpb''
             ''Missing consent management for DPDP Act''
        @ unless_policy a [''localization'', ''data_localization''] ''rec-pdpb-localization'' ''HIGH'' ''pdpb''
             ''No data localization policy defined''
        @ unless_policy a [''children'', ''minor_protection''] ''rec-pdpb-children'' ''HIGH'' ''pdpb''
             (''Missing children'' @ [CHR 0x27] @ ''s data protection policy'')
        @ unless_policy a [''retention''] ''rec-pdpb-retention'' ''HIGH'' ''pdpb'' ''No data retention limits defined''
        @ (if ac_ropa a = []
           then [policy_absent ''rec-pdpb-dpo'' ''CRITICAL'' ''pdpb''
                   ''Significant Data Fiduciary obligations not documented''] else []))"

definition checkUAEPDPLCompliance :: "advisor_context \<Rightarrow> finding list" where
  "checkUAEPDPLCompliance a =
     (if pii_classes a = [] then []
      else unless_policy a [''lawful_basis'', ''consent''] ''rec-uae-lawful-basis'' ''CRITICAL'' ''uae_pdpl''
             ''Missing lawful basis documentation''
        @ unless_policy a [''cross_border'', ''transfer''] ''rec-uae-cross-border'' ''HIGH'' ''uae_pdpl''
             ''No cross-border transfer policy defined''
        @ (if sensitive_classes a = [] then []
           else unless_policy a [''special_category'', ''sensitive''] ''rec-uae-special-category'' ''CRITICAL''
                  ''uae_pdpl'' ''Special category data without explicit protection'')
        @ unless_policy a [''retention''] ''rec-uae-retention'' ''HIGH'' ''uae_pdpl''
             ''No data retention policy for UAE PDPL''
        @ unless_policy a [''access''] ''rec-uae-data-subject-rights'' ''HIGH'' ''uae_pdpl''
             ''Data subject rights not fully implemented''
        @ (if ac_ropa a = []
           then [policy_absent ''rec-uae-records'' ''HIGH'' ''uae_pdpl'' ''Missing records of processing activities'']
           else []))"

definition GenerateRecommendations :: "(string list \<Rightarrow> string list) \<Rightarrow> advisor_context \<Rightarrow> finding list" where
  "GenerateRecommendations order a =
     checkUnprotectedPII order a @ checkGDPRCompliance a @ checkRetentionViolations a @ checkStaleDataSources a
     @ checkMissingLabels a @ checkHighSensitivityData a @ checkAIGovernance a @ checkPDPBCompliance a
     @ checkUAEPDPLCompliance a"

section \<open>Assessments\<close>

record advisor_env =
  av_time :: "int \<Rightarrow> string"
  av_rfc3339 :: "string \<Rightarrow> int option"
  av_three_months_before :: "int \<Rightarrow> int"
  av_order :: "string list \<Rightarrow> string list"
  av_uuid :: "string \<Rightarrow> bool"

definition num_rat :: "rat \<Rightarrow> js" where
  "num_rat q = JNum (Fin q)"

definition count_json :: "nat \<Rightarrow> js" where
  "count_json n = JNum (num_of_nat n)"

text \<open>What the assessment reads; the rows of the lists are taken to scan.\<close>

definition advisor_context_of :: "caller \<Rightarrow> advisor_db \<Rightarrow> advisor_context" where
  "advisor_context_of c s =
     (let t = ca_tenant c; vs = filter (\<lambda>v. fv_tenant v = t) (db_values s)
      in \<lparr>ac_classes = take 1000 vs, ac_policies = take 100 (filter (\<lambda>p. pl_tenant p = t) (ab_policies s)),
          ac_violations = take 100 (filter (\<lambda>v. vw_tenant v = t) (ab_violations s)),
          ac_sources = take 100 (filter (\<lambda>d. sw_tenant d = t) (ab_scanned s)),
          ac_ropa = take 100 (filter (\<lambda>r. ow_tenant r = t) (ab_ropa s)),
          ac_total_datasets = card (set (map fv_dataset vs) - {None}),
          ac_labeled_datasets = card (snd ` set (filter (\<lambda>(t', d). t' = t) (ab_labels s)))\<rparr>)"

definition severity_count :: "string \<Rightarrow> finding list \<Rightarrow> nat" where
  "severity_count sev fs = length (filter (\<lambda>f. fd_severity f = sev) fs)"

definition assessed_score :: "finding list \<Rightarrow> rat" where
  "assessed_score fs =
     (if fs = [] then 1
      else max 0 (1 - rat_of_nat (severity_count ''CRITICAL'' fs) * (2 / 10)
                    - rat_of_nat (severity_count ''HIGH'' fs) * (1 / 10)
                    - rat_of_nat (severity_count ''MEDIUM'' fs) * (5 / 100)
                    - rat_of_nat (severity_count ''LOW'' fs) * (2 / 100)))"

definition assessed_regulations :: "string list" where
  "assessed_regulations = [''GDPR'', ''CCPA'', ''DPDP Act 2023'', ''UAE PDPL'', ''EU AI Act'', ''HIPAA'', ''PCI-DSS'']"

definition new_assessment :: "string \<Rightarrow> string \<Rightarrow> int \<Rightarrow> assessment" where
  "new_assessment i tenant now =
     \<lparr>at_id = i, at_tenant = tenant, at_score = 0, at_total = 0, at_critical = 0, at_high = 0, at_medium = 0,
      at_low = 0, at_evidence = 0, at_sources = 0, at_classifications = 0, at_policies = 0,
      at_regulations = [], at_summary = JObj [], at_created = now\<rparr>"

text \<open>Before the answer, a row that says the assessment is running\<close>

definition assessment_started :: "string \<Rightarrow> int \<Rightarrow> caller \<Rightarrow> advisor_db \<Rightarrow> advisor_db" where
  "assessment_started i now c s =
     (case sql ''compliance_assessments'' [''id'', ''tenant_id'', ''status'', ''assessed_by'', ''created_at'', ''updated_at'']
             (if i \<in> at_id ` set (ab_assessments s) then s
              else s\<lparr>ab_assessments := new_assessment i (ca_tenant c) now # ab_assessments s\<rparr>) of
        None \<Rightarrow> s | Some s' \<Rightarrow> s')"

definition assessment_result :: "advisor_env \<Rightarrow> caller \<Rightarrow> advisor_db \<Rightarrow> assessment \<Rightarrow> assessment" where
  "assessment_result e c s r =
     (let a = advisor_context_of c s; fs = GenerateRecommendations (av_order e) a
      in r\<lparr>at_score := assessed_score fs, at_total := length fs, at_critical := severity_count ''CRITICAL'' fs,
           at_high := severity_count ''HIGH'' fs, at_medium := severity_count ''MEDIUM'' fs,
           at_low := severity_count ''LOW'' fs, at_evidence := sum_list (map fd_evidence fs),
           at_sources := length (ac_sources a), at_classifications := length (ac_classes a),
           at_policies := length (ac_policies a), at_regulations := assessed_regulations,
           at_summary := JObj [(''ropa_count'', count_json (length (ac_ropa a))),
             (''retention_violations'', count_json (length (ac_violations a))),
             (''unscanned_sources'', count_json (unscanned (ac_sources a))),
             (''unlabeled_datasets'',
              num_rat (rat_of_nat (ac_total_datasets a) - rat_of_nat (ac_labeled_datasets a)))]\<rparr>)"

text \<open>In the background, some time after the answer: the row is completed, and the run is logged.\<close>

definition assessment_finished :: "advisor_env \<Rightarrow> string \<Rightarrow> string \<Rightarrow> int \<Rightarrow> caller \<Rightarrow> advisor_db \<Rightarrow> advisor_db" where
  "assessment_finished e i log_id now c s =
     (let s1 = (case sql ''compliance_assessments''
                       [''status'', ''assessed_by'', ''compliance_score'', ''total_findings'', ''critical_findings'',
                        ''high_findings'', ''medium_findings'', ''low_findings'', ''total_evidence'',
                        ''data_sources_checked'', ''classifications_checked'', ''policies_evaluated'',
                        ''regulations_covered'', ''summary'', ''updated_at'', ''id'']
                       (s\<lparr>ab_assessments := map (\<lambda>r. if at_id r = i then assessment_result e c s r else r)
                                               (ab_assessments s)\<rparr>) of
                  None \<Rightarrow> s | Some s' \<Rightarrow> s')
      in if av_uuid e (ca_user c)
         then s1\<lparr>db_logs := \<lparr>lr_id = log_id, lr_tenant = ca_tenant c, lr_user = Some (ca_user c),
                  lr_action = ''compliance.assessment.run'', lr_resource = Some ''compliance_assessment'',
                  lr_resource_id = Some i, lr_details = None, lr_ip = Some [], lr_created = now\<rparr> # db_logs s1\<rparr>
         else s1)"

definition runComplianceAssessment :: "string \<Rightarrow> int \<Rightarrow> caller \<Rightarrow> advisor_db \<Rightarrow> raw_response \<times> advisor_db" where
  "runComplianceAssessment i now c s =
     (answer 202 (JObj [(''assessment_id'', JStr i), (''status'', JStr ''running'')]), assessment_started i now c s)"

definition assessment_json :: "advisor_env \<Rightarrow> assessment \<Rightarrow> js" where
  "assessment_json e r =
     JObj [(''id'', JStr (at_id r)), (''compliance_score'', num_rat (at_score r)),
           (''total_findings'', count_json (at_total r)), (''critical_findings'', count_json (at_critical r)),
           (''high_findings'', count_json (at_high r)), (''medium_findings'', count_json (at_medium r)),
           (''low_findings'', count_json (at_low r)), (''total_evidence'', count_json (at_evidence r)),
           (''data_sources_checked'', count_json (at_sources r)),
           (''classifications_checked'', count_json (at_classifications r)),
           (''policies_evaluated'', count_json (at_policies r)),
           (''regulations_covered'', JArr (map JStr (at_regulations r))), (''summary'', at_summary r),
           (''created_at'', JStr (av_time e (at_created r)))]"

definition listAssessmentLogs :: "advisor_env \<Rightarrow> caller \<Rightarrow> advisor_db \<Rightarrow> raw_response" where
  "listAssessmentLogs e c s =
     answer 200 (JArr (map (assessment_json e)
       (take 50 (filter (\<lambda>r. at_tenant r = ca_tenant c) (ab_assessments s)))))"

definition finding_priority :: "string \<Rightarrow> string" where
  "finding_priority sev =
     (if sev = ''CRITICAL'' \<or> sev = ''HIGH'' then ''high'' else if sev = ''MEDIUM'' then ''medium'' else ''low'')"

text \<open>What the page of the advisor uses of a recommendation, without its texts\<close>

definition finding_json :: "finding \<Rightarrow> js" where
  "finding_json f =
     JObj [(''id'', JStr (fd_id f)), (''type'', JStr (fd_category f)), (''priority'', JStr (finding_priority (fd_severity f))),
           (''title'', JStr (fd_title f)), (''evidence_count'', count_json (fd_evidence f)),
           (''affected_count'', count_json (fd_affected f))]"

definition getRecommendations :: "advisor_env \<Rightarrow> caller \<Rightarrow> advisor_db \<Rightarrow> raw_response" where
  "getRecommendations e c s =
     answer 200 (JArr (map finding_json (GenerateRecommendations (av_order e) (advisor_context_of c s))))"

section \<open>The defense docket\<close>

definition zero_time :: int where
  "zero_time = - 62135596800000"

definition docket_date :: "advisor_env \<Rightarrow> int \<Rightarrow> string \<Rightarrow> int" where
  "docket_date e usual t =
     (case av_rfc3339 e t of None \<Rightarrow> usual | Some d \<Rightarrow> (if d = zero_time then usual else d))"

definition docket_section :: "string \<Rightarrow> string \<Rightarrow> (string \<times> js) list \<Rightarrow> js" where
  "docket_section title type data = JObj [(''title'', JStr title), (''type'', JStr type), (''data'', JObj data)]"

definition calculateCoverage :: "nat \<Rightarrow> nat \<Rightarrow> rat" where
  "calculateCoverage scanned all_of = (if all_of = 0 then 0 else rat_of_nat scanned / rat_of_nat all_of * 100)"

definition calculateRate :: "nat \<Rightarrow> nat \<Rightarrow> rat" where
  "calculateRate completed all_of = (if all_of = 0 then 100 else rat_of_nat completed / rat_of_nat all_of * 100)"

definition in_period :: "int \<times> int \<Rightarrow> int \<Rightarrow> bool" where
  "in_period period t \<longleftrightarrow> fst period \<le> t \<and> t \<le> snd period"

definition docket_pii :: "string list" where
  "docket_pii = [''PII'', ''SSN'', ''CREDIT_CARD'', ''EMAIL'', ''PHONE'', ''ADDRESS'', ''NAME'', ''DOB'', ''PHI'']"

definition classification_section :: "string \<Rightarrow> int \<times> int \<Rightarrow> advisor_db \<Rightarrow> js" where
  "classification_section t period s =
     (let vs = filter (\<lambda>v. fv_tenant v = t \<and> in_period period (fv_created v)) (db_values s);
          datasets = card (set (map fv_dataset vs) - {None})
      in docket_section ''Data Classification Summary'' ''classification''
           [(''total_classifications'', count_json (length vs)),
            (''pii_detections'', count_json (length (filter (\<lambda>v. fv_type v \<in> set docket_pii) vs))),
            (''datasets_scanned'', count_json datasets),
            (''coverage_percentage'', num_rat (calculateCoverage datasets (length vs)))])"

text \<open>Of a policy, the name, type and status; its time of creation is left out.\<close>

definition policies_section :: "string \<Rightarrow> int \<times> int \<Rightarrow> advisor_db \<Rightarrow> js" where
  "policies_section t period s =
     (let active = filter (\<lambda>p. pl_tenant p = t \<and> pl_active p) (ab_policies s)
      in docket_section ''Policy Enforcement'' ''policies''
           [(''active_policies'', count_json (length active)),
            (''policy_evaluations'', count_json (length (filter (\<lambda>l. lr_tenant l = t \<and> starts_with (lr_action l) ''policy''
                                                     \<and> in_period period (lr_created l)) (db_logs s)))),
            (''policies'', JArr (map (\<lambda>p. JObj [(''name'', JStr (pl_name p)), (''type'', JStr (pl_type p)),
                                             (''status'', JStr ''active'')]) (take 10 active)))])"

definition audit_rows :: "string \<Rightarrow> int \<times> int \<Rightarrow> advisor_db \<Rightarrow> log_row list" where
  "audit_rows t period s =
     (case sql ''audit_logs''
             [''id'', ''user_id'', ''action'', ''resource_type'', ''resource_id'', ''created_at'', ''tenant_id'']
             (take 50 (filter (\<lambda>l. lr_tenant l = t \<and> in_period period (lr_created l)) (db_logs s))) of
        None \<Rightarrow> [] | Some ls \<Rightarrow> ls)"

definition audit_section :: "advisor_env \<Rightarrow> string \<Rightarrow> int \<times> int \<Rightarrow> advisor_db \<Rightarrow> js" where
  "audit_section e t period s =
     (let ls = audit_rows t period s
      in docket_section ''Access Control Audit Trail'' ''audit''
           [(''total_events'', count_json (length ls)),
            (''audit_entries'', JArr (map (\<lambda>l. JObj [(''timestamp'', JStr (av_time e (lr_created l))),
                (''user_id'', JStr (deref_text (lr_user l))), (''action'', JStr (lr_action l)),
                (''resource_type'', JStr (deref_text (lr_resource l))),
                (''resource_id'', JStr (deref_text (lr_resource_id l)))]) ls))])"

definition dsar_section :: "string \<Rightarrow> int \<times> int \<Rightarrow> advisor_db \<Rightarrow> js" where
  "dsar_section t period s =
     (let rs = filter (\<lambda>r. sr_tenant r = t \<and> in_period period (sr_created r)) (db_dsars s);
          completed = length (filter (\<lambda>r. sr_status r = ''completed'') rs)
      in docket_section ''Data Subject Request Processing'' ''dsar''
           [(''total_requests'', count_json (length rs)), (''completed_requests'', count_json completed),
            (''pending_requests'', count_json (length (filter (\<lambda>r. sr_status r = ''pending''
                                                                 \<or> sr_status r = ''in_progress'') rs))),
            (''compliance_rate'', num_rat (calculateRate completed (length rs)))])"

definition average :: "rat option list \<Rightarrow> rat" where
  "average xs = (let ys = map the (filter (\<lambda>x. x \<noteq> None) xs)
                 in if ys = [] then 0 else sum_list ys / rat_of_nat (length ys))"

definition quality_section :: "string \<Rightarrow> int \<times> int \<Rightarrow> advisor_db \<Rightarrow> js" where
  "quality_section t period s =
     (let qs = filter (\<lambda>q. qw_tenant q = t \<and> in_period period (qw_created q)) (ab_quality s);
          completeness = average (map qw_completeness qs); accuracy = average (map qw_accuracy qs);
          consistency = average (map qw_consistency qs)
      in docket_section ''Data Quality Assessment'' ''quality''
           [(''average_completeness'', num_rat completeness), (''average_accuracy'', num_rat accuracy),
            (''average_consistency'', num_rat consistency),
            (''overall_score'', num_rat ((completeness + accuracy + consistency) / 3))])"

definition retention_counts :: "string \<Rightarrow> int \<times> int \<Rightarrow> advisor_db \<Rightarrow> nat \<times> nat" where
  "retention_counts t period s =
     (case sql ''retention_violations'' [''status'', ''tenant_id'', ''created_at'']
             (let vs = filter (\<lambda>v. vw_tenant v = t \<and> in_period period (vw_created v)) (ab_violations s)
              in (length vs, length (filter (\<lambda>v. map_of (vw_cells v) ''status'' = Some (JStr ''resolved'')) vs))) of
        None \<Rightarrow> (0, 0) | Some n \<Rightarrow> n)"

definition retention_section :: "string \<Rightarrow> int \<times> int \<Rightarrow> advisor_db \<Rightarrow> js" where
  "retention_section t period s =
     (case retention_counts t period s of
        (found, resolved) \<Rightarrow>
          docket_section ''Retention Policy Compliance'' ''retention''
            [(''total_violations'', count_json found), (''resolved_violations'', count_json resolved),
             (''compliance_rate'', num_rat (calculateRate resolved found))])"

definition ropa_section :: "string \<Rightarrow> advisor_db \<Rightarrow> js" where
  "ropa_section t s =
     (let rs = filter (\<lambda>r. ow_tenant r = t) (ab_ropa s)
      in docket_section ''Records of Processing Activities'' ''ropa''
           [(''total_records'', count_json (length rs)),
            (''entries'', JArr (map (\<lambda>r. JObj [(''name'', JStr (ow_name r)), (''purpose'', JStr (ow_purpose r)),
                                            (''legal_basis'', JStr (ow_legal_basis r))]) (take 10 rs)))])"

definition docket_sections :: "advisor_env \<Rightarrow> string \<Rightarrow> int \<times> int \<Rightarrow> advisor_db \<Rightarrow> js list" where
  "docket_sections e t period s =
     [classification_section t period s, policies_section t period s, audit_section e t period s,
      dsar_section t period s, quality_section t period s, retention_section t period s, ropa_section t s]"

definition docket_range :: "advisor_env \<Rightarrow> int \<Rightarrow> string \<Rightarrow> string \<Rightarrow> int \<times> int" where
  "docket_range e now date_from date_to =
     (docket_date e (av_three_months_before e now) date_from, docket_date e now date_to)"

text \<open>The clock, which the handler reads three times, is taken to stand still meanwhile.\<close>

definition generateDefenseDocket :: "advisor_env \<Rightarrow> int \<Rightarrow> js \<Rightarrow> caller \<Rightarrow> advisor_db \<Rightarrow> raw_response \<times> advisor_db" where
  "generateDefenseDocket e now body c s =
     (case (body_texts [''date_from'', ''date_to''] body, go_strings (jprop ''regulations'' body)) of
        (Some [date_from, date_to], Some regulations) \<Rightarrow>
          (let period = docket_range e now date_from date_to
           in (answer 200 (JObj [(''generated_at'', JStr (av_time e now)),
                 (''date_range'', JObj [(''from'', JStr (av_time e (fst period))), (''to'', JStr (av_time e (snd period)))]),
                 (''regulations'', if nullish (jprop ''regulations'' body) then JNull else JArr (map JStr regulations)),
                 (''sections'', JArr (docket_sections e (ca_tenant c) period s))]),
               s\<lparr>ab_reports := (ca_tenant c, ''defense_docket'') # ab_reports s\<rparr>))
      | _ \<Rightarrow> (error_answer 400 ''bad request'', s))"

section \<open>Gaps\<close>

text \<open>
  A gap, without its texts and its one item of evidence; all are open. The counts are queried one by one,
  at the same time.
\<close>

record gap_row =
  gr_regulation :: string
  gr_requirement :: string
  gr_severity :: string

record gap_counts =
  gp_datasets :: nat
  gp_labeled :: nat
  gp_policies :: nat
  gp_ropa :: nat
  gp_consent :: nat
  gp_localization :: nat
  gp_cross_border :: nat

definition active_of :: "string \<Rightarrow> string list \<Rightarrow> advisor_db \<Rightarrow> nat" where
  "active_of t ts s = length (filter (\<lambda>p. pl_tenant p = t \<and> pl_active p \<and> pl_type p \<in> set ts) (ab_policies s))"

definition gap_counts_of :: "caller \<Rightarrow> advisor_db \<Rightarrow> gap_counts" where
  "gap_counts_of c s =
     (let t = ca_tenant c
      in \<lparr>gp_datasets = card (set (map fv_dataset (filter (\<lambda>v. fv_tenant v = t) (db_values s))) - {None}),
          gp_labeled = card (snd ` set (filter (\<lambda>(t', d). t' = t) (ab_labels s))),
          gp_policies = length (filter (\<lambda>p. pl_tenant p = t \<and> pl_active p) (ab_policies s)),
          gp_ropa = length (filter (\<lambda>r. ow_tenant r = t) (ab_ropa s)),
          gp_consent = active_of t [''consent'', ''lawful_basis''] s,
          gp_localization = active_of t [''localization'', ''data_localization''] s,
          gp_cross_border = active_of t [''cross_border'', ''transfer''] s\<rparr>)"

definition gap_when :: "bool \<Rightarrow> string \<Rightarrow> string \<Rightarrow> string \<Rightarrow> gap_row list" where
  "gap_when b regulation requirement severity =
     (if b then [\<lparr>gr_regulation = regulation, gr_requirement = requirement, gr_severity = severity\<rparr>] else [])"

definition gdpr_gaps :: "gap_counts \<Rightarrow> gap_row list" where
  "gdpr_gaps k =
     gap_when (gp_labeled k < gp_datasets k \<and> gp_datasets k > 0) ''GDPR'' ''Data Classification (Art. 5)'' ''HIGH''
     @ gap_when (gp_ropa k = 0) ''GDPR'' ''Records of Processing Activities (Art. 30)'' ''CRITICAL''
     @ gap_when (gp_policies k < 3) ''GDPR'' ''Governance Policies (Art. 25, 32)'' ''HIGH''"

definition ccpa_gaps :: "gap_counts \<Rightarrow> gap_row list" where
  "ccpa_gaps k =
     gap_when (gp_labeled k < gp_datasets k \<and> gp_datasets k > 0) ''CCPA'' ''Data Inventory (1798.100)'' ''MEDIUM''"

definition dpdp_gaps :: "gap_counts \<Rightarrow> gap_row list" where
  "dpdp_gaps k =
     gap_when (gp_consent k = 0) ''DPDP'' ''Consent Management (Section 6)'' ''CRITICAL''
     @ gap_when (gp_localization k = 0) ''DPDP'' ''Data Localization (Section 16)'' ''HIGH''
     @ gap_when (gp_ropa k = 0) ''DPDP'' ''Significant Data Fiduciary Obligations (Section 10)'' ''CRITICAL''
     @ gap_when (gp_policies k < 3) ''DPDP'' ''Data Principal Rights (Section 11-14)'' ''HIGH''"

definition uae_gaps :: "gap_counts \<Rightarrow> gap_row list" where
  "uae_gaps k =
     gap_when (gp_consent k = 0) ''UAE PDPL'' ''Lawful Basis for Processing (Art. 4)'' ''CRITICAL''
     @ gap_when (gp_cross_border k = 0) ''UAE PDPL'' ''Cross-Border Transfer Restrictions (Art. 22)'' ''HIGH''
     @ gap_when (gp_ropa k = 0) ''UAE PDPL'' ''Records of Processing Activities (Art. 8)'' ''HIGH''
     @ gap_when (gp_policies k < 3) ''UAE PDPL'' ''Data Subject Rights (Art. 13-18)'' ''HIGH''"

definition gap_json :: "gap_row \<Rightarrow> js" where
  "gap_json g =
     JObj [(''regulation'', JStr (gr_regulation g)), (''requirement'', JStr (gr_requirement g)), (''status'', JStr ''open''),
           (''evidence_count'', count_json 1), (''severity'', JStr (gr_severity g))]"

definition getComplianceGaps :: "caller \<Rightarrow> advisor_db \<Rightarrow> raw_response" where
  "getComplianceGaps c s =
     (let k = gap_counts_of c s
      in answer 200 (JArr (map gap_json (gdpr_gaps k @ ccpa_gaps k @ dpdp_gaps k @ uae_gaps k))))"

section \<open>Scores\<close>

definition calculateRegulationScore :: "nat \<Rightarrow> nat \<Rightarrow> nat \<Rightarrow> nat \<Rightarrow> string \<Rightarrow> rat" where
  "calculateRegulationScore policies ropa consents classifications regulation =
     (let score = 1 / 2 + min 1 (rat_of_nat policies / 3) * (3 / 10) + (if ropa > 0 then 2 / 10 else 0)
                  + (if consents > 0 then 2 / 10 else 0) + (if classifications > 0 then 3 / 10 else 0);
          adjusted = (if regulation = ''gdpr'' then (if ropa = 0 then score - 15 / 100 else score)
                      else if regulation = ''hipaa'' then min score (85 / 100)
                      else if regulation = ''pci'' then min score (80 / 100)
                      else if regulation = ''eu_ai_act'' then min (score + 1 / 10) 1
                      else score)
      in min 1 (max 0 adjusted))"

definition risk_pii :: "string list" where
  "risk_pii = [''PII'', ''SSN'', ''CREDIT_CARD'', ''PHI'']"

record risk_counts =
  rk_pii :: nat
  rk_classifications :: nat
  rk_policies :: nat
  rk_violations :: nat
  rk_ropa :: nat
  rk_consents :: nat

definition risk_counts_of :: "caller \<Rightarrow> advisor_db \<Rightarrow> risk_counts" where
  "risk_counts_of c s =
     (let t = ca_tenant c; vs = filter (\<lambda>v. fv_tenant v = t) (db_values s)
      in \<lparr>rk_pii = length (filter (\<lambda>v. fv_type v \<in> set risk_pii) vs), rk_classifications = length vs,
          rk_policies = length (filter (\<lambda>p. pl_tenant p = t \<and> pl_active p) (ab_policies s)),
          rk_violations = length (filter (\<lambda>v. vw_tenant v = t) (ab_violations s)),
          rk_ropa = length (filter (\<lambda>r. ow_tenant r = t) (ab_ropa s)),
          rk_consents = length (filter (\<lambda>t'. t' = t) (ab_consents s))\<rparr>)"

definition data_exposure :: "risk_counts \<Rightarrow> rat" where
  "data_exposure k =
     (if rk_classifications k > 0 then rat_of_nat (rk_pii k) / rat_of_nat (rk_classifications k) else 3 / 10)"

definition overall_score :: "risk_counts \<Rightarrow> rat" where
  "overall_score k =
     1 - (data_exposure k * (4 / 10) + (1 - min 1 (rat_of_nat (rk_policies k) / 5)) * (3 / 10)
          + min 1 (rat_of_nat (rk_violations k) * (1 / 10)) * (3 / 10))"

definition risk_level :: "rat \<Rightarrow> string" where
  "risk_level q =
     (if q < 5 / 10 then ''critical'' else if q < 7 / 10 then ''high'' else if q < 85 / 100 then ''medium'' else ''low'')"

definition scored_regulations :: "(string \<times> string) list" where
  "scored_regulations =
     [(''gdpr_score'', ''gdpr''), (''ccpa_score'', ''ccpa''), (''hipaa_score'', ''hipaa''), (''pci_score'', ''pci''),
      (''dpdp_score'', ''dpdp''), (''uae_pdpl_score'', ''uae_pdpl''), (''eu_ai_act_score'', ''eu_ai_act'')]"

definition risk_regulation_score :: "risk_counts \<Rightarrow> string \<Rightarrow> rat" where
  "risk_regulation_score k = calculateRegulationScore (rk_policies k) (rk_ropa k) (rk_consents k) (rk_classifications k)"

definition risk_json :: "risk_counts \<Rightarrow> js" where
  "risk_json k =
     JObj ([(''overall_score'', num_rat (overall_score k)), (''risk_level'', JStr (risk_level (overall_score k)))]
           @ map (\<lambda>(key, r). (key, num_rat (risk_regulation_score k r))) scored_regulations
           @ [(''factors'', JObj [(''data_exposure'', num_rat (data_exposure k)),
                (''policy_coverage'', num_rat (min 1 (rat_of_nat (rk_policies k) / 5))),
                (''compliance_gaps'', num_rat (min 1 (rat_of_nat (rk_violations k) * (1 / 10))))])])"

definition getRiskScore :: "caller \<Rightarrow> advisor_db \<Rightarrow> raw_response" where
  "getRiskScore c s = answer 200 (risk_json (risk_counts_of c s))"

section \<open>What no policy can clear\<close>

text \<open>The types a policy can have: those \<open>createPolicy\<close> accepts, and those other handlers write\<close>

definition policy_types :: "string list" where
  "policy_types = [''access'', ''redaction'', ''ai'', ''retention'', ''alert'', ''quality_threshold'']"

definition typed_policies :: "policy list \<Rightarrow> bool" where
  "typed_policies ps \<longleftrightarrow> (\<forall>p\<in>set ps. pl_type p \<in> set policy_types)"

lemma bound_policy_type: "bind_policy body = Some p \<Longrightarrow> pl_type p \<in> set policy_types"
  by (auto simp: bind_policy_def policy_types_def split: option.splits if_splits)

lemma policies_stay_typed:
  assumes "typed_policies (ps_policies s)"
  shows "typed_policies (ps_policies (snd (createPolicy n t body s)))"
    "typed_policies (ps_policies (snd (updatePolicy t i body s)))"
    "typed_policies (ps_policies (snd (deletePolicy t i s)))"
proof -
  show "typed_policies (ps_policies (snd (createPolicy n t body s)))"
    using assms bound_policy_type [of body]
    by (auto simp: typed_policies_def createPolicy_def policy_audit_def Let_def split: option.split)
  show "typed_policies (ps_policies (snd (deletePolicy t i s)))"
    using assms by (auto simp: typed_policies_def deletePolicy_def policy_audit_def)
  show "typed_policies (ps_policies (snd (updatePolicy t i body s)))"
  proof (cases "find_policy t i s")
    case (Some p)
    then have "p \<in> set (ps_policies s)" by (auto simp: find_policy_def dest: find_SomeD)
    with Some assms show ?thesis
      by (auto simp: typed_policies_def updatePolicy_def policy_audit_def Let_def split: option.split)
  qed (use assms in \<open>simp add: updatePolicy_def\<close>)
qed

definition unavoidable :: "(string \<times> string) list" where
  "unavoidable =
     [(''rec-pdpb-consent'', ''CRITICAL''), (''rec-pdpb-localization'', ''HIGH''), (''rec-pdpb-children'', ''HIGH''),
      (''rec-uae-lawful-basis'', ''CRITICAL''), (''rec-uae-cross-border'', ''HIGH'')]"

lemma no_such_policy:
  assumes "typed_policies (ac_policies a)" "set ts \<inter> set policy_types = {}"
  shows "\<not> has_policy a ts"
  using assms by (auto simp: has_policy_def typed_policies_def list_ex_iff)

lemma pdpb_findings:
  assumes "typed_policies (ac_policies a)" "pii_classes a \<noteq> []"
  obtains fs where "checkPDPBCompliance a =
    [policy_absent ''rec-pdpb-consent'' ''CRITICAL'' ''pdpb'' ''Missing consent management for DPDP Act'',
     policy_absent ''rec-pdpb-localization'' ''HIGH'' ''pdpb'' ''No data localization policy defined'',
     policy_absent ''rec-pdpb-children'' ''HIGH'' ''pdpb'' (''Missing children'' @ [CHR 0x27] @ ''s data protection policy'')] @ fs"
proof -
  have "\<not> has_policy a [''consent'']" "\<not> has_policy a [''localization'', ''data_localization'']"
    "\<not> has_policy a [''children'', ''minor_protection'']"
    by (rule no_such_policy [OF assms(1)], simp add: policy_types_def)+
  with assms(2) that show thesis by (simp add: checkPDPBCompliance_def unless_policy_def)
qed

lemma uae_findings:
  assumes "typed_policies (ac_policies a)" "pii_classes a \<noteq> []"
  obtains fs where "checkUAEPDPLCompliance a =
    [policy_absent ''rec-uae-lawful-basis'' ''CRITICAL'' ''uae_pdpl'' ''Missing lawful basis documentation'',
     policy_absent ''rec-uae-cross-border'' ''HIGH'' ''uae_pdpl'' ''No cross-border transfer policy defined''] @ fs"
proof -
  have "\<not> has_policy a [''lawful_basis'', ''consent'']" "\<not> has_policy a [''cross_border'', ''transfer'']"
    by (rule no_such_policy [OF assms(1)], simp add: policy_types_def)+
  with assms(2) that show thesis by (simp add: checkUAEPDPLCompliance_def unless_policy_def)
qed

lemma severity_count_append [simp]: "severity_count v (fs @ gs) = severity_count v fs + severity_count v gs"
  by (simp add: severity_count_def)

lemma severity_count_absent:
  "severity_count v (policy_absent i sev k l # fs) = (if sev = v then 1 else 0) + severity_count v fs"
  by (simp add: severity_count_def policy_absent_def)

lemma assessed_score_le:
  assumes "c \<le> severity_count ''CRITICAL'' fs" "h \<le> severity_count ''HIGH'' fs" "fs \<noteq> []"
  shows "assessed_score fs \<le> max 0 (1 - rat_of_nat c * (2 / 10) - rat_of_nat h * (1 / 10))"
proof -
  have "rat_of_nat c \<le> rat_of_nat (severity_count ''CRITICAL'' fs)" "rat_of_nat h \<le> rat_of_nat (severity_count ''HIGH'' fs)"
    using assms by simp_all
  moreover have "0 \<le> rat_of_nat (severity_count ''MEDIUM'' fs)" "0 \<le> rat_of_nat (severity_count ''LOW'' fs)" by simp_all
  ultimately show ?thesis
    using assms(3) unfolding assessed_score_def by simp
qed

text \<open>
  C32. Once a value of personal data is known, five recommendations, two of them critical, are made
  whatever policies the tenant has, since no handler accepts a policy of the types they ask for: an
  assessment never gives more than thirty percent.
\<close>
theorem advisor_unavoidable:
  assumes "typed_policies (ab_policies s)" "a = advisor_context_of c s" "pii_classes a \<noteq> []"
    and "fs = GenerateRecommendations order a"
  shows "set unavoidable \<subseteq> (\<lambda>f. (fd_id f, fd_severity f)) ` set fs \<and> assessed_score fs \<le> 3 / 10"
proof -
  have "typed_policies (ac_policies a)"
    using assms(1,2) by (auto simp: advisor_context_of_def typed_policies_def Let_def dest: in_set_takeD)
  note p = pdpb_findings [OF this assms(3)] and u = uae_findings [OF this assms(3)]
  obtain fs1 fs2 where fs: "checkPDPBCompliance a =
      [policy_absent ''rec-pdpb-consent'' ''CRITICAL'' ''pdpb'' ''Missing consent management for DPDP Act'',
       policy_absent ''rec-pdpb-localization'' ''HIGH'' ''pdpb'' ''No data localization policy defined'',
       policy_absent ''rec-pdpb-children'' ''HIGH'' ''pdpb''
         (''Missing children'' @ [CHR 0x27] @ ''s data protection policy'')] @ fs1"
    "checkUAEPDPLCompliance a =
      [policy_absent ''rec-uae-lawful-basis'' ''CRITICAL'' ''uae_pdpl'' ''Missing lawful basis documentation'',
       policy_absent ''rec-uae-cross-border'' ''HIGH'' ''uae_pdpl'' ''No cross-border transfer policy defined''] @ fs2"
    using p u by metis
  have "set unavoidable \<subseteq> (\<lambda>f. (fd_id f, fd_severity f)) ` set (checkPDPBCompliance a @ checkUAEPDPLCompliance a)"
    unfolding fs by (simp add: unavoidable_def policy_absent_def)
  moreover have "2 \<le> severity_count ''CRITICAL'' (checkPDPBCompliance a @ checkUAEPDPLCompliance a)"
    "3 \<le> severity_count ''HIGH'' (checkPDPBCompliance a @ checkUAEPDPLCompliance a)"
    unfolding fs by (simp_all add: severity_count_absent)
  then have "2 \<le> severity_count ''CRITICAL'' fs" "3 \<le> severity_count ''HIGH'' fs" "fs \<noteq> []"
    using assms(4) fs(1) by (simp_all add: GenerateRecommendations_def)
  from assessed_score_le [OF this] have "assessed_score fs \<le> 3 / 10" by simp
  ultimately show ?thesis
    using assms(4) unfolding GenerateRecommendations_def by (auto simp only: set_append image_Un)
qed

section \<open>A small database\<close>

definition ex_advisor_caller :: caller where
  "ex_advisor_caller = \<lparr>ca_user = ''u'', ca_tenant = ''t'', ca_permissions = [''*''], ca_super = False\<rparr>"

definition ex_advisor_db :: advisor_db where
  "ex_advisor_db =
     \<lparr>db_dsars = [],
      db_values = [\<lparr>fv_id = ''v1'', fv_tenant = ''t'', fv_source = None, fv_dataset = Some ''d'', fv_type = ''EMAIL'',
                    fv_value = ''a@b.c'', fv_context = None, fv_created = 5\<rparr>],
      db_logs = [\<lparr>lr_id = ''l1'', lr_tenant = ''t'', lr_user = Some ''u'', lr_action = ''datasource.read'',
                  lr_resource = Some ''datasource'', lr_resource_id = Some ''d'', lr_details = None, lr_ip = None,
                  lr_created = 6\<rparr>],
      db_sources = [],
      ab_policies = [\<lparr>pl_id = ''p'', pl_tenant = ''t'', pl_name = ''n'', pl_description = [], pl_type = ''access'',
                      pl_conditions = None, pl_actions = None, pl_regulations = None, pl_active = True,
                      pl_priority = 0\<rparr>],
      ab_labels = [],
      ab_violations = [\<lparr>vw_id = ''w1'', vw_tenant = ''t'', vw_dataset = ''d'', vw_days_overdue = 40, vw_created = 7,
                        vw_cells = []\<rparr>],
      ab_scanned = [], ab_ropa = [], ab_quality = [], ab_consents = [], ab_assessments = [], ab_reports = []\<rparr>"

lemmas ex_advisor_simps =
  ex_advisor_caller_def ex_advisor_db_def advisor_context_of_def pii_classes_def PIITypes_def typed_policies_def
  policy_types_def Let_def

theorem advisor_unavoidable_witness:
  "(''rec-pdpb-consent'', ''CRITICAL'')
     \<in> (\<lambda>f. (fd_id f, fd_severity f)) ` set (GenerateRecommendations id (advisor_context_of ex_advisor_caller ex_advisor_db))
   \<and> assessed_score (GenerateRecommendations id (advisor_context_of ex_advisor_caller ex_advisor_db)) \<le> 3 / 10"
proof -
  have "typed_policies (ab_policies ex_advisor_db)"
    "pii_classes (advisor_context_of ex_advisor_caller ex_advisor_db) \<noteq> []"
    by (simp_all add: ex_advisor_simps)
  from advisor_unavoidable [OF this(1) refl this(2) refl, of id]
  show ?thesis unfolding unavoidable_def by auto
qed

section \<open>Assessments and dockets over any database\<close>

text \<open>Assessments of any callers started and finished in any order\<close>

datatype assessment_event = AssessmentStarts string int caller | AssessmentFinishes string string int caller

fun assessment_step :: "advisor_env \<Rightarrow> assessment_event \<Rightarrow> advisor_db \<Rightarrow> advisor_db" where
  "assessment_step e (AssessmentStarts i now c) s = snd (runComplianceAssessment i now c s)"
| "assessment_step e (AssessmentFinishes i l now c) s = assessment_finished e i l now c s"

lemma assessment_row_refused [simp]:
  "sql ''compliance_assessments'' [''id'', ''tenant_id'', ''status'', ''assessed_by'', ''created_at'', ''updated_at''] v = None"
  by (simp add: sql_def table_columns_def)

lemma assessment_result_refused [simp]:
  "sql ''compliance_assessments''
     [''status'', ''assessed_by'', ''compliance_score'', ''total_findings'', ''critical_findings'',
      ''high_findings'', ''medium_findings'', ''low_findings'', ''total_evidence'', ''data_sources_checked'',
      ''classifications_checked'', ''policies_evaluated'', ''regulations_covered'', ''summary'', ''updated_at'', ''id''] v
   = None"
  by (simp add: sql_def table_columns_def)

lemma assessment_step_keeps: "ab_assessments (assessment_step e ev s) = ab_assessments s"
  by (cases ev) (simp_all add: runComplianceAssessment_def assessment_started_def assessment_finished_def Let_def)

text \<open>
  However many assessments are run, and whenever they end, none is ever recorded: every run is
  answered as running, and the list of assessments stays what it was, since both statements name
  columns the table does not have.
\<close>
lemma assessments_never_recorded:
  "listAssessmentLogs e c (fold (assessment_step e) evs s) = listAssessmentLogs e c s
   \<and> fst (runComplianceAssessment i now c s)
     = answer 202 (JObj [(''assessment_id'', JStr i), (''status'', JStr ''running'')])"
proof -
  have "ab_assessments (fold (assessment_step e) evs s) = ab_assessments s"
    by (induction evs arbitrary: s) (simp_all add: assessment_step_keeps)
  then show ?thesis by (simp add: listAssessmentLogs_def runComplianceAssessment_def)
qed

lemma no_audit_rows: "audit_rows t period s = []"
  by (simp add: audit_rows_def sql_def table_columns_def)

lemma no_retention_rows: "retention_counts t period s = (0, 0)"
  by (simp add: retention_counts_def sql_def table_columns_def)

text \<open>What the page of the docket sends\<close>

definition docket_body :: "string list \<Rightarrow> string \<Rightarrow> string \<Rightarrow> js" where
  "docket_body regulations date_from date_to =
     JObj [(''regulations'', JArr (map JStr regulations)), (''date_from'', JStr date_from), (''date_to'', JStr date_to)]"

text \<open>
  A docket for dates without a time of day covers the last three months, whatever dates and
  regulations were chosen; whatever the database holds, it states no event of access, no violation
  of retention, and full compliance with retention.
\<close>
lemma docket_blind:
  assumes "\<And>t. CHR ''T'' \<notin> set t \<Longrightarrow> av_rfc3339 e t = None"
    and "CHR ''T'' \<notin> set date_from" "CHR ''T'' \<notin> set date_to"
    and "period = (av_three_months_before e now, now)" "secs = docket_sections e (ca_tenant c) period s"
  shows "fst (generateDefenseDocket e now (docket_body rs date_from date_to) c s)
    = answer 200 (JObj [(''generated_at'', JStr (av_time e now)),
        (''date_range'', JObj [(''from'', JStr (av_time e (fst period))), (''to'', JStr (av_time e now))]),
        (''regulations'', JArr (map JStr rs)), (''sections'', JArr secs)])
    \<and> secs ! 2 = docket_section ''Access Control Audit Trail'' ''audit''
        [(''total_events'', count_json 0), (''audit_entries'', JArr [])]
    \<and> secs ! 5 = docket_section ''Retention Policy Compliance'' ''retention''
        [(''total_violations'', count_json 0), (''resolved_violations'', count_json 0), (''compliance_rate'', num_rat 100)]"
proof -
  have dates: "docket_range e now date_from date_to = period"
    using assms(1)[OF assms(2)] assms(1)[OF assms(3)] assms(4) by (simp add: docket_range_def docket_date_def)
  have body: "body_texts [''date_from'', ''date_to''] (docket_body rs date_from date_to) = Some [date_from, date_to]"
    by (simp add: docket_body_def body_texts_def go_struct_def)
  have regs: "go_strings (jprop ''regulations'' (docket_body rs date_from date_to)) = Some rs"
    by (simp add: docket_body_def del: go_strings.simps(3))
  have "fst (generateDefenseDocket e now (docket_body rs date_from date_to) c s)
    = answer 200 (JObj [(''generated_at'', JStr (av_time e now)),
        (''date_range'', JObj [(''from'', JStr (av_time e (fst period))), (''to'', JStr (av_time e (snd period)))]),
        (''regulations'', JArr (map JStr rs)), (''sections'', JArr (docket_sections e (ca_tenant c) period s))])"
    by (simp add: generateDefenseDocket_def body regs dates) (simp add: docket_body_def)
  then show ?thesis
    using assms(4,5)
    by (simp add: docket_sections_def audit_section_def retention_section_def no_audit_rows no_retention_rows calculateRate_def)
qed

definition ex_advisor_env :: advisor_env where
  "ex_advisor_env =
     \<lparr>av_time = (\<lambda>t. if t = 0 then ''1970-01-01T00:00:00Z'' else ''2025-01-01T00:00:00Z''),
      av_rfc3339 = (\<lambda>t. if CHR ''T'' \<in> set t then Some 1735689600000 else None),
      av_three_months_before = (\<lambda>t. t - 7948800000), av_order = id, av_uuid = (\<lambda>t. t \<noteq> [])\<rparr>"

lemma docket_blind_example:
  "fst (generateDefenseDocket ex_advisor_env 10 (docket_body [''GDPR''] ''2024-06-01'' ''2024-09-01'') ex_advisor_caller
          ex_advisor_db)
   = answer 200 (JObj [(''generated_at'', JStr ''2025-01-01T00:00:00Z''),
       (''date_range'', JObj [(''from'', JStr ''2025-01-01T00:00:00Z''), (''to'', JStr ''2025-01-01T00:00:00Z'')]),
       (''regulations'', JArr [JStr ''GDPR'']),
       (''sections'', JArr (docket_sections ex_advisor_env ''t'' (- 7948799990, 10) ex_advisor_db))])
   \<and> lr_id ` set (db_logs ex_advisor_db) = {''l1''} \<and> vw_id ` set (ab_violations ex_advisor_db) = {''w1''}
   \<and> docket_sections ex_advisor_env ''t'' (- 7948799990, 10) ex_advisor_db ! 2
     = docket_section ''Access Control Audit Trail'' ''audit''
         [(''total_events'', count_json 0), (''audit_entries'', JArr [])]"
proof -
  have law: "CHR ''T'' \<notin> set t \<Longrightarrow> av_rfc3339 ex_advisor_env t = None" for t
    by (simp add: ex_advisor_env_def)
  have dates: "CHR ''T'' \<notin> set ''2024-06-01''" "CHR ''T'' \<notin> set ''2024-09-01''" by simp_all
  have period: "(av_three_months_before ex_advisor_env 10, 10) = (- 7948799990, 10::int)"
    by (simp add: ex_advisor_env_def)
  have tenant: "ca_tenant ex_advisor_caller = ''t''" by (simp add: ex_advisor_caller_def)
  from docket_blind [OF law dates period [symmetric] refl, where c = ex_advisor_caller and s = ex_advisor_db
      and rs = "[''GDPR'']"]
  show ?thesis by (simp add: tenant) (simp add: ex_advisor_env_def ex_advisor_db_def)
qed

section \<open>Bounds of the scores\<close>

lemma data_exposure_bounds: "rk_pii k \<le> rk_classifications k \<Longrightarrow> 0 \<le> data_exposure k \<and> data_exposure k \<le> 1"
  by (simp add: data_exposure_def divide_le_eq)

lemma weighted_bounds:
  fixes x y z :: rat
  assumes "0 \<le> x" "x \<le> 1" "0 \<le> y" "y \<le> 1" "0 \<le> z" "z \<le> 1"
  shows "0 \<le> 1 - (x * (4 / 10) + (1 - y) * (3 / 10) + z * (3 / 10))
    \<and> 1 - (x * (4 / 10) + (1 - y) * (3 / 10) + z * (3 / 10)) \<le> 1"
proof -
  have "x * (4 / 10) \<le> 4 / 10" "(1 - y) * (3 / 10) \<le> 3 / 10" "z * (3 / 10) \<le> 3 / 10"
    "0 \<le> x * (4 / 10)" "0 \<le> (1 - y) * (3 / 10)" "0 \<le> z * (3 / 10)"
    using assms by simp_all
  then show ?thesis by linarith
qed

lemma risk_pii_le: "rk_pii (risk_counts_of c s) \<le> rk_classifications (risk_counts_of c s)"
  unfolding risk_counts_of_def Let_def risk_counts.simps by (rule length_filter_le)

lemma calculateRegulationScore_bounds:
  "35 / 100 \<le> calculateRegulationScore p r c n x \<and> calculateRegulationScore p r c n x \<le> 1"
proof -
  have "0 \<le> min 1 (rat_of_nat p / 3)" by simp
  then show ?thesis unfolding calculateRegulationScore_def Let_def by (auto simp: min_def max_def)
qed

text \<open>
  Whatever the database holds, the score of the risk is between zero and one and every score of
  a regulation between 35 and 100 percent: a tenant with no policy, no record of processing and no
  consent passes for half compliant with every regulation but the GDPR.
\<close>
lemma risk_scores_bounded:
  "0 \<le> overall_score (risk_counts_of c s) \<and> overall_score (risk_counts_of c s) \<le> 1
   \<and> 35 / 100 \<le> risk_regulation_score (risk_counts_of c s) x \<and> risk_regulation_score (risk_counts_of c s) x \<le> 1
   \<and> calculateRegulationScore 0 0 0 0 x
     = (if x = ''gdpr'' then 35 / 100 else if x = ''eu_ai_act'' then 6 / 10 else 5 / 10)"
proof -
  define k where "k = risk_counts_of c s"
  have d: "0 \<le> data_exposure k" "data_exposure k \<le> 1"
    using data_exposure_bounds [OF risk_pii_le [of c s]] by (simp_all add: k_def)
  have p: "0 \<le> min 1 (rat_of_nat (rk_policies k) / 5)" "min 1 (rat_of_nat (rk_policies k) / 5) \<le> 1" by simp_all
  have v: "0 \<le> min 1 (rat_of_nat (rk_violations k) * (1 / 10))" "min 1 (rat_of_nat (rk_violations k) * (1 / 10)) \<le> 1"
    by simp_all
  have "0 \<le> overall_score k \<and> overall_score k \<le> 1"
    unfolding overall_score_def by (rule weighted_bounds [OF d p v])
  moreover have "35 / 100 \<le> risk_regulation_score k x" "risk_regulation_score k x \<le> 1"
    using calculateRegulationScore_bounds by (simp_all add: risk_regulation_score_def)
  moreover have "calculateRegulationScore 0 0 0 0 x
     = (if x = ''gdpr'' then 35 / 100 else if x = ''eu_ai_act'' then 6 / 10 else 5 / 10)"
    by (simp add: calculateRegulationScore_def Let_def)
  ultimately show ?thesis by (simp add: k_def)
qed

end
