(* ===== verification/FeAdvisor.thy ===== *)
theory FeAdvisor
  imports GoAdvisor FeClassify
begin

text \<open>
  The pages of the advisor: \<open>app/(app)/advisor/page.tsx\<close>, \<open>advisor/gaps/page.tsx\<close>,
  \<open>advisor/defense-docket/page.tsx\<close> and \<open>advisor/playbooks/page.tsx\<close>, with the server of theory
  \<open>GoAdvisor\<close>. Views are lists of parts in the order of the page; a part that is not there is left out. A
  card keeps its own state of being open. Figures of the API are numbers.
\<close>

section \<open>Recommendations\<close>

definition part_if :: "bool \<Rightarrow> string \<Rightarrow> cell \<Rightarrow> (string \<times> cell) list" where
  "part_if b label c = (if b then [(label, c)] else [])"

text \<open>\<open>text.split(' - ')[0]\<close>\<close>

fun before :: "string \<Rightarrow> string \<Rightarrow> string" where
  "before sep [] = []"
| "before sep (c # s) = (if starts_with (c # s) sep then [] else c # before sep s)"

definition priority_tone :: "js \<Rightarrow> string" where
  "priority_tone p = (if is_str p ''high'' then ''red'' else if is_str p ''medium'' then ''yellow'' else ''green'')"

definition recommendation_header :: "js \<Rightarrow> (string \<times> cell) list" where
  "recommendation_header rec =
     [(''dot'', Toned (priority_tone (jprop ''priority'' rec)) (Seq [])), (''title'', Txt (jprop ''title'' rec))]
     @ part_if (is_positive (jprop ''evidence_count'' rec)) ''evidence'' (Txt (jprop ''evidence_count'' rec))
     @ [(''description'', Txt (jprop ''description'' rec)),
        (''priority'', Toned (priority_tone (jprop ''priority'' rec)) (Txt (jprop ''priority'' rec)))]"

definition regulation_part :: "js \<Rightarrow> (string \<times> cell) list" where
  "regulation_part rec =
     part_if (truthy (jprop ''regulation_article'' rec)) ''Regulation Reference''
       (Seq [Txt (map_text (before '' - '') (jprop ''regulation_article'' rec)), Txt (jprop ''regulation_article'' rec)])"

definition evidence_line :: "js \<Rightarrow> cell" where
  "evidence_line ev =
     Seq [Txt (jprop ''description'' ev), Day (jprop ''detected_at'' ev), text_of '' via '', Txt (jprop ''source'' ev)]"

definition supporting_evidence :: "js \<Rightarrow> (string \<times> cell) list" where
  "supporting_evidence rec =
     (let evs = elements (jprop ''evidence'' rec)
      in part_if (evs \<noteq> []) (''Supporting Evidence ('' @ nat_str (length evs) @ '')'')
           (Seq (map evidence_line (take 3 evs))))"

definition affected_assets :: "js \<Rightarrow> (string \<times> cell) list" where
  "affected_assets rec =
     (let assets = elements (jprop ''affected_assets'' rec)
      in part_if (assets \<noteq> []) ''assets''
           (Seq (map (\<lambda>a. Txt (jprop ''name'' a)) (take 5 assets)
                 @ (if length assets > 5 then [text_of (''+'' @ nat_str (length assets - 5) @ '' more'')] else []))))"

definition recommendation_details :: "js \<Rightarrow> (string \<times> cell) list" where
  "recommendation_details rec =
     regulation_part rec
     @ part_if (truthy (jprop ''severity_reason'' rec)) ''Severity Justification'' (Txt (jprop ''severity_reason'' rec))
     @ part_if (truthy (jprop ''evidence_summary'' rec)) ''Evidence Summary'' (Txt (jprop ''evidence_summary'' rec))
     @ supporting_evidence rec @ affected_assets rec @ [(''Recommended Action'', Txt (jprop ''action'' rec))]"

definition RecommendationCard :: "bool \<Rightarrow> js \<Rightarrow> (string \<times> cell) list" where
  "RecommendationCard expanded rec =
     recommendation_header rec @ (if expanded then recommendation_details rec else [])"

section \<open>The page of the advisor\<close>

record advisor_stats =
  as_recsCount :: nat
  as_gapsCount :: nat
  as_score :: jsnum
  as_totalEvidence :: jsnum

definition sum_counts :: "string \<Rightarrow> js list \<Rightarrow> jsnum" where
  "sum_counts k xs = fold (\<lambda>r n. num_add n (number_of (js_or (jprop k r) (JNum (Fin 0))))) xs (Fin 0)"

definition percent_round :: "js \<Rightarrow> jsnum" where
  "percent_round v = num_round (num_scale 100 (number_of v))"

definition advisor_stats_of :: "js \<Rightarrow> js \<Rightarrow> js \<Rightarrow> advisor_stats" where
  "advisor_stats_of recommendations gaps riskScore =
     \<lparr>as_recsCount = length (elements recommendations),
      as_gapsCount = length (filter (\<lambda>g. \<not> is_str (jprop ''status'' g) ''resolved'') (elements gaps)),
      as_score = (if truthy (jprop ''overall_score'' riskScore)
                  then percent_round (jprop ''overall_score'' riskScore) else Fin 0),
      as_totalEvidence = sum_counts ''evidence_count'' (elements recommendations)\<rparr>"

definition figure_card :: "string \<Rightarrow> js \<Rightarrow> (rat \<times> string) option \<Rightarrow> stat_card" where
  "figure_card label v change =
     \<lparr>sc_label = JStr label, sc_title = JUndef, sc_value = v,
      sc_change = (case change of None \<Rightarrow> JUndef | Some (n, note) \<Rightarrow> JNum (Fin n)),
      sc_changeLabel = (case change of None \<Rightarrow> JUndef | Some (n, note) \<Rightarrow> JStr note), sc_trend = None\<rparr>"

definition advisor_cards :: "advisor_stats \<Rightarrow> stat_card list" where
  "advisor_cards k =
     [figure_card ''Compliance Score'' (JStr (num_fixed 0 (as_score k) @ ''%''))
        (Some (if num_le (Fin 80) (as_score k) then (1, ''healthy'') else (-1, ''needs attention''))),
      figure_card ''Recommendations'' (JStr (nat_str (as_recsCount k))) None,
      figure_card ''Open Gaps'' (JStr (nat_str (as_gapsCount k))) None,
      figure_card ''Evidence Items'' (JStr (num_fixed 0 (as_totalEvidence k))) None]"

definition top_recommendations :: "(string \<Rightarrow> bool) \<Rightarrow> js \<Rightarrow> (string \<times> cell) list list" where
  "top_recommendations opened recommendations =
     map (\<lambda>rec. RecommendationCard (case jprop ''id'' rec of JStr i \<Rightarrow> opened i | _ \<Rightarrow> False) rec)
       (take 7 (elements recommendations))"

definition recommendation_note :: "advisor_stats \<Rightarrow> string option" where
  "recommendation_note k =
     (if num_lt (Fin 0) (as_totalEvidence k)
      then Some (num_fixed 0 (as_totalEvidence k) @ '' evidence items supporting '' @ nat_str (as_recsCount k) @ '' findings'')
      else None)"

text \<open>The banner of an assessment shows the newest one of the history, once the request succeeded.\<close>

definition assessed_at :: "js \<Rightarrow> cell" where
  "assessed_at run = (if truthy (jprop ''created_at'' run) then When (jprop ''created_at'' run) else Dash)"

definition logged_score :: "js \<Rightarrow> js" where
  "logged_score run = coalesce (jprop ''compliance_score'' run) (JNum (Fin 0))"

definition assessment_banner :: "bool \<Rightarrow> js \<Rightarrow> (string \<times> cell) list option" where
  "assessment_banner isSuccess logs =
     (case elements logs of
        [] \<Rightarrow> None
      | run # rest \<Rightarrow>
          (if isSuccess
           then Some [(''Compliance Score'', text_of (num_fixed 0 (percent_round (logged_score run)) @ ''%'')),
                  (''sources checked'', Txt (jprop ''data_sources_checked'' run)),
                  (''classifications'', Txt (jprop ''classifications_checked'' run)),
                  (''policies evaluated'', Txt (jprop ''policies_evaluated'' run)),
                  (''evidence items'', Txt (jprop ''total_evidence'' run)), (''Assessed: '', assessed_at run),
                  (''Regulations: '', if nullish (jprop ''regulations_covered'' run) then Dash
                     else Seq (map Txt (elements (jprop ''regulations_covered'' run))))]
           else None))"

definition score_tone :: "jsnum \<Rightarrow> string" where
  "score_tone n =
     (if num_le (Fin (8 / 10)) n then ''green'' else if num_le (Fin (6 / 10)) n then ''yellow'' else ''red'')"

definition history_row :: "js \<Rightarrow> (string \<times> cell) list" where
  "history_row run =
     [(''icon'', Toned (score_tone (number_of (logged_score run))) (Seq [])),
      (''score'', Seq [text_of (num_fixed 0 (percent_round (logged_score run)) @ ''% compliance ''), Dash,
                     Txt (jprop ''total_findings'' run), text_of '' finding'',
                     text_of (if jprop ''total_findings'' run \<noteq> JNum (Fin 1) then ''s'' else [])]),
      (''date'', assessed_at run), (''sources'', Txt (jprop ''data_sources_checked'' run)),
      (''classifications'', Txt (jprop ''classifications_checked'' run)), (''policies'', Txt (jprop ''policies_evaluated'' run))]
     @ part_if (is_positive (jprop ''critical_findings'' run)) ''critical'' (Toned ''red'' (Txt (jprop ''critical_findings'' run)))"

definition history_runs :: "js \<Rightarrow> string option" where
  "history_runs logs = (case elements logs of [] \<Rightarrow> None | l # ls \<Rightarrow> Some (nat_str (length (l # ls)) @ '' runs''))"

text \<open>Nothing while it is folded, its rows, or the text that there are none\<close>

definition assessment_history :: "bool \<Rightarrow> js \<Rightarrow> ((string \<times> cell) list list + string) option" where
  "assessment_history showLogs logs =
     (if \<not> showLogs then None
      else if elements logs = [] then Some (Inr ''No assessment runs yet'')
      else Some (Inl (map history_row (elements logs))))"

section \<open>The page of gaps\<close>

definition SeverityBadge :: "js \<Rightarrow> cell" where
  "SeverityBadge severity =
     Toned (if is_str severity ''CRITICAL'' then ''red'' else if is_str severity ''HIGH'' then ''orange''
            else if is_str severity ''LOW'' then ''green'' else ''yellow'') (Txt severity)"

definition evidence_item :: "js \<Rightarrow> cell" where
  "evidence_item ev =
     Seq ([Txt (jprop ''description'' ev), Day (jprop ''detected_at'' ev), Txt (jprop ''source'' ev)]
          @ (if truthy (jprop ''type'' ev)
             then [Txt (map_text (replace_all (CHR ''_'') (CHR '' '')) (jprop ''type'' ev))] else []))"

definition EvidencePanel :: "js list \<Rightarrow> js list \<Rightarrow> (string \<times> cell) list" where
  "EvidencePanel evidence assets =
     part_if (evidence \<noteq> []) (''Evidence ('' @ nat_str (length evidence) @ '')'') (Seq (map evidence_item evidence))
     @ part_if (assets \<noteq> []) (''Affected Assets ('' @ nat_str (length assets) @ '')'')
         (Seq (map (\<lambda>a. Seq [Txt (jprop ''name'' a), text_of ''('', Txt (jprop ''type'' a), text_of '')'']) assets))"

definition gap_state :: "js \<Rightarrow> cell" where
  "gap_state g =
     (let status = jprop ''status'' g
      in Status (JStr (if is_str status ''resolved'' then ''success''
                       else if is_str status ''in_progress'' then ''pending'' else ''error'')) status)"

definition gap_details :: "js \<Rightarrow> (string \<times> cell) list" where
  "gap_details g =
     regulation_part g
     @ [(''Detected: '', When (jprop ''detected_at'' g)), (''Last assessed: '', When (jprop ''last_assessed'' g))]
     @ part_if (truthy (jprop ''severity_reason'' g)) ''Severity Justification'' (Txt (jprop ''severity_reason'' g))
     @ [(''Recommended Remediation'', Txt (jprop ''remediation'' g))]
     @ EvidencePanel (elements (jprop ''evidence'' g)) (elements (jprop ''affected_assets'' g))"

definition GapRow :: "bool \<Rightarrow> js \<Rightarrow> (string \<times> cell) list" where
  "GapRow expanded g =
     [(''title'', Seq [Txt (jprop ''regulation'' g), text_of ''-'', Txt (jprop ''requirement'' g)]),
      (''remediation'', Txt (jprop ''remediation'' g))]
     @ part_if (is_positive (jprop ''evidence_count'' g)) ''evidence'' (Seq [Txt (jprop ''evidence_count'' g), text_of '' evidence''])
     @ [(''severity'', SeverityBadge (jprop ''severity'' g)), (''status'', gap_state g)]
     @ (if expanded then gap_details g else [])"

text \<open>
  \<open>groupedGaps\<close>: an object keyed by the texts of the regulations, which are no array indices and no
  keys of \<open>Object.prototype\<close>
\<close>

definition regulation_of :: "js \<Rightarrow> string" where
  "regulation_of g = (case jprop ''regulation'' g of JStr r \<Rightarrow> r | _ \<Rightarrow> ''undefined'')"

fun add_gap :: "js \<Rightarrow> (string \<times> js list) list \<Rightarrow> (string \<times> js list) list" where
  "add_gap g [] = [(regulation_of g, [g])]"
| "add_gap g ((r, gs) # acc) = (if r = regulation_of g then (r, gs @ [g]) # acc else (r, gs) # add_gap g acc)"

definition groupedGaps :: "js list \<Rightarrow> (string \<times> js list) list" where
  "groupedGaps gs = fold add_gap gs []"

definition group_heading :: "string \<times> js list \<Rightarrow> string list" where
  "group_heading rg =
     (case rg of (regulation, regGaps) \<Rightarrow>
        [regulation, nat_str (length regGaps) @ '' gap'' @ (if length regGaps \<noteq> 1 then ''s'' else []),
         num_fixed 0 (sum_counts ''evidence_count'' regGaps) @ '' evidence items''])"

definition gaps_view :: "js \<Rightarrow> (string list \<times> (string \<times> cell) list list) list + string" where
  "gaps_view gaps =
     (let gapsData = elements gaps
      in if gapsData \<noteq> []
         then Inl (map (\<lambda>rg. (group_heading rg, map (GapRow False) (snd rg))) (groupedGaps gapsData))
         else Inr ''No compliance gaps detected'')"

text \<open>The banner shows the answer to the request that ran the assessment.\<close>

definition found_badge :: "js \<Rightarrow> string \<Rightarrow> string \<Rightarrow> string \<Rightarrow> (string \<times> cell) list" where
  "found_badge d k tone label =
     part_if (is_positive (jprop k d)) label (Toned tone (Seq [Txt (jprop k d), text_of ('' '' @ label)]))"

definition gaps_banner :: "js \<Rightarrow> (string \<times> cell) list option" where
  "gaps_banner d =
     (if truthy d
      then Some ([(''Score'', text_of (num_fixed 0 (percent_round (jprop ''compliance_score'' d)) @ ''%''))]
        @ found_badge d ''critical_findings'' ''red'' ''Critical'' @ found_badge d ''high_findings'' ''orange'' ''High''
        @ found_badge d ''medium_findings'' ''yellow'' ''Medium'' @ found_badge d ''low_findings'' ''green'' ''Low''
        @ [(''collected'', Seq [Txt (jprop ''total_evidence'' d), text_of '' evidence items collected'']),
           (''Assessed: '', When (jprop ''assessed_at'' d))])
      else None)"

section \<open>The page of the docket\<close>

definition docket_regulations :: "string list" where
  "docket_regulations = [''GDPR'', ''CCPA'', ''HIPAA'', ''SOC2'', ''PCI-DSS'', ''DPDP'', ''UAE PDPL'', ''EU AI Act'']"

definition SectionIcon :: "js \<Rightarrow> string" where
  "SectionIcon type =
     (case type of
        JStr t \<Rightarrow>
          (case map_of [(''classification'', ''blue''), (''policies'', ''purple''), (''audit'', ''green''), (''dsar'', ''orange''),
                        (''quality'', ''cyan''), (''retention'', ''yellow''), (''ropa'', ''indigo'')] t of
             Some colour \<Rightarrow> colour | None \<Rightarrow> ''muted'')
      | _ \<Rightarrow> ''muted'')"

definition docket_count :: "js \<Rightarrow> string \<Rightarrow> cell" where
  "docket_count d k = Txt (js_or (jprop k d) (JNum (Fin 0)))"

text \<open>\<open>(data.x || usual).toFixed(1)\<close>, with the sign of a percentage\<close>

definition docket_rate :: "js \<Rightarrow> string \<Rightarrow> rat \<Rightarrow> cell" where
  "docket_rate d k usual = text_of (num_fixed 1 (number_of (js_or (jprop k d) (JNum (Fin usual)))) @ ''%'')"

definition docket_rows :: "nat \<Rightarrow> string \<Rightarrow> (js \<Rightarrow> cell) \<Rightarrow> js \<Rightarrow> (string \<times> cell) list" where
  "docket_rows n label f xs = part_if (elements xs \<noteq> []) label (Seq (map f (take n (elements xs))))"

definition DocketSectionCard :: "js \<Rightarrow> js \<Rightarrow> (string \<times> cell) list" where
  "DocketSectionCard type d =
     (if is_str type ''classification'' then
        [(''Total Classifications'', docket_count d ''total_classifications''), (''PII Detections'', docket_count d ''pii_detections''),
         (''Datasets Scanned'', docket_count d ''datasets_scanned''), (''Coverage'', docket_rate d ''coverage_percentage'' 0)]
      else if is_str type ''policies'' then
        [(''Active Policies'', docket_count d ''active_policies''), (''Policy Evaluations'', docket_count d ''policy_evaluations'')]
        @ docket_rows 5 ''Active Policies'' (\<lambda>p. Seq [Txt (jprop ''name'' p), Txt (jprop ''type'' p)]) (jprop ''policies'' d)
      else if is_str type ''audit'' then
        [(''Audit Events in Period'', docket_count d ''total_events'')]
        @ docket_rows 10 ''Recent Events'' (\<lambda>e. Seq [Txt (jprop ''action'' e), Day (jprop ''timestamp'' e)]) (jprop ''audit_entries'' d)
      else if is_str type ''dsar'' then
        [(''Total Requests'', docket_count d ''total_requests''), (''Completed'', docket_count d ''completed_requests''),
         (''Pending'', docket_count d ''pending_requests''), (''Compliance Rate'', docket_rate d ''compliance_rate'' 0)]
      else if is_str type ''quality'' then
        [(''Overall Score'', docket_rate d ''overall_score'' 0), (''Completeness'', docket_rate d ''average_completeness'' 0),
         (''Accuracy'', docket_rate d ''average_accuracy'' 0), (''Consistency'', docket_rate d ''average_consistency'' 0)]
      else if is_str type ''retention'' then
        [(''Total Violations'', docket_count d ''total_violations''), (''Resolved'', docket_count d ''resolved_violations''),
         (''Compliance Rate'', docket_rate d ''compliance_rate'' 100)]
      else if is_str type ''ropa'' then
        [(''Processing Activity Records'', docket_count d ''total_records'')]
        @ docket_rows 5 ''Recent Entries'' (\<lambda>e. Seq [Txt (jprop ''name'' e), Txt (jprop ''purpose'' e)]) (jprop ''entries'' d)
      else [(''json'', Txt (json_view d))])"

text \<open>The page keeps what the last request answered; while a request runs, its button is off.\<close>

record docket_page =
  kp_regs :: "string list"
  kp_from :: string
  kp_to :: string
  kp_data :: js

definition initial_docket :: docket_page where
  "initial_docket = \<lparr>kp_regs = [''GDPR''], kp_from = [], kp_to = [], kp_data = JUndef\<rparr>"

definition toggleReg :: "string \<Rightarrow> docket_page \<Rightarrow> docket_page" where
  "toggleReg r p = p\<lparr>kp_regs := toggle r (kp_regs p)\<rparr>"

definition docket_request :: "(int \<Rightarrow> string) \<Rightarrow> int \<Rightarrow> docket_page \<Rightarrow> js" where
  "docket_request stamp now p =
     docket_body (kp_regs p)
       (if kp_from p = [] then stamp (now - 90 * 24 * 60 * 60 * 1000) else kp_from p)
       (if kp_to p = [] then stamp now else kp_to p)"

definition docket_handleGenerate ::
  "fe_env \<Rightarrow> (int \<Rightarrow> string) \<Rightarrow> int \<Rightarrow> 's server \<Rightarrow> docket_page \<times> fe_state \<times> 's \<Rightarrow> docket_page \<times> fe_state \<times> 's" where
  "docket_handleGenerate e stamp now sv w =
     (case w of (p, ws) \<Rightarrow>
        (if kp_regs p = [] then w
         else (case mutate e sv useGenerateDefenseDocket (docket_request stamp now p) ws of
                 (Inl err, ws') \<Rightarrow> (p\<lparr>kp_data := JUndef\<rparr>, ws')
               | (Inr d, ws') \<Rightarrow> (p\<lparr>kp_data := d\<rparr>, ws'))))"

datatype docket_event = ToggleReg string | ChooseFrom string | ChooseTo string | PressGenerate int

fun docket_next ::
  "fe_env \<Rightarrow> (int \<Rightarrow> string) \<Rightarrow> 's server \<Rightarrow> docket_event \<Rightarrow> docket_page \<times> fe_state \<times> 's \<Rightarrow> docket_page \<times> fe_state \<times> 's" where
  "docket_next e stamp sv (ToggleReg r) w = (if r \<in> set docket_regulations then apfst (toggleReg r) w else w)"
| "docket_next e stamp sv (ChooseFrom t) w = apfst (\<lambda>p. p\<lparr>kp_from := t\<rparr>) w"
| "docket_next e stamp sv (ChooseTo t) w = apfst (\<lambda>p. p\<lparr>kp_to := t\<rparr>) w"
| "docket_next e stamp sv (PressGenerate now) w = docket_handleGenerate e stamp now sv w"

definition docket_heading :: "docket_page \<Rightarrow> (string \<times> cell) list" where
  "docket_heading p =
     (let d = kp_data p; period = jprop ''date_range'' d
      in [(''Generated on '', When (jprop ''generated_at'' d)),
          (''for '', Seq (map Txt (elements (jprop ''regulations'' d)))),
          (''Date range: '', Seq [Day (jprop ''from'' period), text_of '' - '', Day (jprop ''to'' period)])])"

definition docket_view :: "docket_page \<Rightarrow> ((string \<times> cell) list \<times> (string \<times> js \<times> (string \<times> cell) list) list) option" where
  "docket_view p =
     (if truthy (kp_data p)
      then Some (docket_heading p,
        map (\<lambda>x. (SectionIcon (jprop ''type'' x), jprop ''title'' x, DocketSectionCard (jprop ''type'' x) (jprop ''data'' x)))
          (elements (jprop ''sections'' (kp_data p))))
      else None)"

section \<open>The page of playbooks\<close>

record issue_type =
  it_id :: string
  it_name :: string
  it_description :: string
  it_colour :: string

definition issueTypes :: "issue_type list" where
  "issueTypes = map (\<lambda>(i, n, d, k). \<lparr>it_id = i, it_name = n, it_description = d, it_colour = k\<rparr>)
     [(''data_breach'', ''Data Breach Response'', ''Steps to handle a data breach incident'', ''red''),
      (''dsar_overdue'', ''Overdue DSAR'', ''Handle overdue data subject requests'', ''orange''),
      (''retention_violation'', ''Retention Violation'', ''Address data retention policy violations'', ''yellow''),
      (''consent_withdrawal'', ''Consent Withdrawal'', ''Process consent withdrawal requests'', ''blue''),
      (''quality_degradation'', ''Quality Degradation'', ''Remediate data quality issues'', ''purple''),
      (''unauthorized_access'', ''Unauthorized Access'', ''Respond to unauthorized data access'', ''red'')]"

record playbook_page =
  py_selectedIssue :: "string option"
  py_completedSteps :: "nat list"

definition initial_playbooks :: playbook_page where
  "initial_playbooks = \<lparr>py_selectedIssue = None, py_completedSteps = []\<rparr>"

definition handleSelectIssue :: "string \<Rightarrow> playbook_page \<Rightarrow> playbook_page" where
  "handleSelectIssue i p = p\<lparr>py_selectedIssue := Some i, py_completedSteps := []\<rparr>"

definition toggleStep :: "nat \<Rightarrow> playbook_page \<Rightarrow> playbook_page" where
  "toggleStep k p = p\<lparr>py_completedSteps := toggle k (py_completedSteps p)\<rparr>"

text \<open>A title and a description; an element that is null or undefined throws.\<close>

definition parse_step :: "conversions \<Rightarrow> js \<Rightarrow> js \<times> js" where
  "parse_step cv x =
     (if is_string x then (x, JUndef)
      else (js_or (jprop ''title'' x) (js_or (jprop ''name'' x) (JStr (to_str cv x))),
            js_or (jprop ''description'' x) (js_or (jprop ''details'' x) JUndef)))"

definition parseSteps :: "conversions \<Rightarrow> js \<Rightarrow> (js \<times> js) list option" where
  "parseSteps cv xs =
     (if list_ex nullish (elements xs) then None else Some (map (parse_step cv) (elements xs)))"

definition playbook_steps :: "conversions \<Rightarrow> js \<Rightarrow> (js \<times> js) list option" where
  "playbook_steps cv playbook = (if truthy playbook then parseSteps cv (jprop ''steps'' playbook) else Some [])"

definition progressPercent :: "nat \<Rightarrow> nat \<Rightarrow> rat" where
  "progressPercent completed all_of = (if all_of > 0 then rat_of_nat completed / rat_of_nat all_of * 100 else 0)"

definition playbook_name :: "playbook_page \<Rightarrow> js \<Rightarrow> js" where
  "playbook_name p playbook =
     js_or (jprop ''name'' playbook)
       (JStr ((case py_selectedIssue p of
                 None \<Rightarrow> ''undefined''
               | Some i \<Rightarrow> (case find (\<lambda>t. it_id t = i) issueTypes of None \<Rightarrow> ''undefined'' | Some t \<Rightarrow> it_name t)) @ '' Playbook''))"

record playbook_view =
  yv_name :: js
  yv_counts :: string
  yv_progress :: "(string \<times> rat) option"
  yv_steps :: "(nat \<times> bool \<times> js \<times> js option) list"
  yv_footer :: bool

definition step_lines :: "nat list \<Rightarrow> (js \<times> js) list \<Rightarrow> (nat \<times> bool \<times> js \<times> js option) list" where
  "step_lines completed steps =
     map (\<lambda>(k, t, d). (k, k \<in> set completed, t, if truthy d then Some d else None)) (enumerate 0 steps)"

definition playbook_view_of :: "playbook_page \<Rightarrow> js \<Rightarrow> (js \<times> js) list \<Rightarrow> playbook_view" where
  "playbook_view_of p playbook steps =
     (let n = length steps; completed = length (py_completedSteps p); percent = progressPercent completed n
      in \<lparr>yv_name = playbook_name p playbook,
          yv_counts = nat_str n @ '' steps, '' @ nat_str completed @ '' completed'',
          yv_progress = (if n > 0 then Some (int_str (math_round percent) @ ''%'', percent) else None),
          yv_steps = step_lines (py_completedSteps p) steps, yv_footer = (completed = n \<and> n > 0)\<rparr>)"

datatype playbook_event = SelectIssue string | ToggleStep nat

definition current_playbook :: "playbook_page \<Rightarrow> fe_state \<Rightarrow> js" where
  "current_playbook p st =
     (case py_selectedIssue p of None \<Rightarrow> JUndef | Some i \<Rightarrow> query_data (usePlaybook i) st)"

definition current_steps :: "conversions \<Rightarrow> playbook_page \<Rightarrow> fe_state \<Rightarrow> (js \<times> js) list" where
  "current_steps cv p st = (case playbook_steps cv (current_playbook p st) of None \<Rightarrow> [] | Some xs \<Rightarrow> xs)"

fun playbook_next ::
  "fe_env \<Rightarrow> conversions \<Rightarrow> 's server \<Rightarrow> playbook_event \<Rightarrow> playbook_page \<times> fe_state \<times> 's \<Rightarrow> playbook_page \<times> fe_state \<times> 's" where
  "playbook_next e cv sv (SelectIssue i) (p, ws) =
     (if i \<in> it_id ` set issueTypes then (handleSelectIssue i p, observe e sv (usePlaybook i) ws) else (p, ws))"
| "playbook_next e cv sv (ToggleStep k) (p, st, s) =
     (if k < length (current_steps cv p st) then toggleStep k p else p, st, s)"

section \<open>The pages with their server\<close>

text \<open>The routes of the advisor that these pages use, less the one of playbooks\<close>

definition advisor_route ::
  "advisor_env \<Rightarrow> int \<Rightarrow> string \<Rightarrow> caller \<Rightarrow> api_request \<Rightarrow> advisor_db \<Rightarrow> raw_response \<times> advisor_db" where
  "advisor_route e now n c rq s =
     (case split_on (CHR ''/'') (a_url rq) of
        [lead, base, op] \<Rightarrow>
          (if lead \<noteq> [] \<or> base \<noteq> ''advisor'' then (not_routed, s)
           else (case a_method rq of
                   GET \<Rightarrow>
                     (if op = ''recommendations'' then (getRecommendations e c s, s)
                      else if op = ''gaps'' then (getComplianceGaps c s, s)
                      else if op = ''risk-score'' then (getRiskScore c s, s) else (not_routed, s))
                 | POST \<Rightarrow>
                     (if op = ''assess'' then runComplianceAssessment n now c s
                      else if op = ''defense-docket'' then generateDefenseDocket e now (a_body rq) c s
                      else (not_routed, s))
                 | _ \<Rightarrow> (not_routed, s)))
      | [lead, base, area, op] \<Rightarrow>
          (if lead = [] \<and> base = ''advisor'' \<and> area = ''assessment'' \<and> op = ''logs'' \<and> a_method rq = GET
           then (listAssessmentLogs e c s, s) else (not_routed, s))
      | _ \<Rightarrow> (not_routed, s))"

definition advisor_served :: "advisor_env \<Rightarrow> caller \<Rightarrow> int \<Rightarrow> string \<Rightarrow> advisor_db server" where
  "advisor_served e c now n rq s = apfst axios_reply (advisor_route e now n c rq s)"

text \<open>
  The page that is open, with the state of its mutation; leaving a page drops it. Assessments end in the
  background at any time.
\<close>

record advisor_page =
  ap_on_gaps :: bool
  ap_showLogs :: bool
  ap_isSuccess :: bool
  ap_data :: js
  ap_opened :: "string list"

definition initial_advisor :: advisor_page where
  "initial_advisor =
     \<lparr>ap_on_gaps = False, ap_showLogs = True, ap_isSuccess = False, ap_data = JUndef, ap_opened = []\<rparr>"

type_synonym 's advisor_world = "advisor_page \<times> fe_state \<times> 's"

datatype advisor_event =
    OpenAdvisor
  | OpenGaps
  | PressAssess
  | ToggleLogs
  | ToggleCard string
  | AssessmentEnds string string

definition advisor_queries :: "bool \<Rightarrow> query list" where
  "advisor_queries on_gaps =
     (if on_gaps then [useComplianceGaps]
      else [useRecommendations, useComplianceGaps, useRiskScore, useAssessmentLogs])"

definition observe_all :: "fe_env \<Rightarrow> 's server \<Rightarrow> query list \<Rightarrow> fe_state \<times> 's \<Rightarrow> fe_state \<times> 's" where
  "observe_all e sv qs ws = fold (observe e sv) qs ws"

definition press_assess :: "fe_env \<Rightarrow> 's server \<Rightarrow> 's advisor_world \<Rightarrow> 's advisor_world" where
  "press_assess e sv w =
     (case w of (p, ws) \<Rightarrow>
        (case mutate e sv useRunComplianceAssessment () ws of
           (Inl err, ws') \<Rightarrow> (p\<lparr>ap_isSuccess := False, ap_data := JUndef\<rparr>, ws')
         | (Inr d, ws') \<Rightarrow> (p\<lparr>ap_isSuccess := True, ap_data := d\<rparr>, observe_all e sv (advisor_queries (ap_on_gaps p)) ws')))"

fun advisor_next ::
  "fe_env \<Rightarrow> advisor_env \<Rightarrow> caller \<Rightarrow> int \<times> string \<times> advisor_event \<Rightarrow> advisor_db advisor_world \<Rightarrow> advisor_db advisor_world" where
  "advisor_next e ae c (now, n, OpenAdvisor) (p, ws) =
     (initial_advisor, observe_all e (advisor_served ae c now n) (advisor_queries False) ws)"
| "advisor_next e ae c (now, n, OpenGaps) (p, ws) =
     (initial_advisor\<lparr>ap_on_gaps := True\<rparr>, observe_all e (advisor_served ae c now n) (advisor_queries True) ws)"
| "advisor_next e ae c (now, n, PressAssess) w = press_assess e (advisor_served ae c now n) w"
| "advisor_next e ae c (now, n, ToggleLogs) w = apfst (\<lambda>p. p\<lparr>ap_showLogs := \<not> ap_showLogs p\<rparr>) w"
| "advisor_next e ae c (now, n, ToggleCard i) w = apfst (\<lambda>p. p\<lparr>ap_opened := toggle i (ap_opened p)\<rparr>) w"
| "advisor_next e ae c (now, n, AssessmentEnds i l) (p, st, s) = (p, st, assessment_finished ae i l now c s)"

definition advisor_run ::
  "fe_env \<Rightarrow> advisor_env \<Rightarrow> caller \<Rightarrow> (int \<times> string \<times> advisor_event) list \<Rightarrow> advisor_db advisor_world \<Rightarrow> advisor_db advisor_world" where
  "advisor_run e ae c evs = fold (advisor_next e ae c) evs"

section \<open>An assessment leaves no trace\<close>

lemma query_data_observe_other:
  "q_key q \<noteq> q_key r \<Longrightarrow> query_data r (fst (observe e sv q ws)) = query_data r (fst ws)"
  by (auto simp: observe_def query_data_entry entry_fetch_other split: prod.split option.split)

lemma query_data_mutate:
  assumes "prefix_filter e" "\<And>d. list_all plain_effect (m_success m d v)" "\<And>err. list_all plain_effect (m_error m err)"
    and "m_settled m = []"
  shows "query_data q (fst (snd (mutate e sv m v (st, s)))) = query_data q st"
proof -
  have *: "query_data q (snd (run_effects (asking e sv s) fs st1)) = query_data q st1"
    if "list_all plain_effect fs" for fs st1
    using that assms(1) by (auto simp: query_data_entry entry_effects refresh_def split: option.split)
  have sent: "query_data q st1 = query_data q st" if "api_send e' rq st = (r, st1)" for e' rq r st1
    using that entry_send [of "q_key q" e' rq st] by (simp add: query_data_entry)
  show ?thesis
    using assms(4)
    by (auto simp: mutate_def run_mutation_def fail_mutation_def settle_def dest!: sent
        split: prod.split sum.split option.split)
      (metis * assms(2,3) snd_conv)+
qed

definition no_assessments :: "caller \<Rightarrow> fe_state \<times> advisor_db \<Rightarrow> bool" where
  "no_assessments c ws \<longleftrightarrow>
     elements (query_data useAssessmentLogs (fst ws)) = []
     \<and> filter (\<lambda>r. at_tenant r = ca_tenant c) (ab_assessments (snd ws)) = []"

lemma advisor_requests [simp]:
  "q_key useRecommendations = [JStr ''recommendations'']" "q_key useComplianceGaps = [JStr ''compliance-gaps'']"
  "q_key useRiskScore = [JStr ''risk-score'']" "q_key useAssessmentLogs = [JStr ''assessment-logs'']"
  by (simp_all add: useRecommendations_def useComplianceGaps_def useRiskScore_def useAssessmentLogs_def get_query_def)

lemma logs_query [simp]:
  "q_enabled useAssessmentLogs" "q_select useAssessmentLogs = Some"
  "q_request useAssessmentLogs = new_request GET ''/advisor/assessment/logs'' JUndef"
  by (simp_all add: useAssessmentLogs_def get_query_def)

lemma served_assessments: "ab_assessments (snd (advisor_served ae c now n rq s)) = ab_assessments s"
  by (auto simp: advisor_served_def advisor_route_def runComplianceAssessment_def assessment_started_def
      generateDefenseDocket_def Let_def split: list.split http_method.split option.split)

lemma served_logs:
  assumes "filter (\<lambda>r. at_tenant r = ca_tenant c) (ab_assessments s) = []"
  shows "fst (advisor_served ae c now n (add_token st (q_request useAssessmentLogs)) s) = Inr (JArr [])"
  using assms by (simp add: advisor_served_def advisor_route_def new_request_def listAssessmentLogs_def)

lemma logs_fetched:
  assumes "filter (\<lambda>r. at_tenant r = ca_tenant c) (ab_assessments s) = []"
  shows "query_data useAssessmentLogs (fetch_query (asking e (advisor_served ae c now n) s) useAssessmentLogs st) = JArr []"
  using entry_fetched [of useAssessmentLogs "advisor_served ae c now n" st s "JArr []" "JArr []" e] served_logs [OF assms]
  by (simp add: query_data_entry)

lemma observe_logs:
  assumes "no_assessments c ws" "q = useAssessmentLogs \<or> q_key q \<noteq> q_key useAssessmentLogs"
  shows "no_assessments c (observe e (advisor_served ae c now n) q ws)"
proof -
  obtain st s where ws: "ws = (st, s)" by fastforce
  have rows: "filter (\<lambda>r. at_tenant r = ca_tenant c) (ab_assessments s) = []"
    using assms ws by (simp add: no_assessments_def)
  have kept: "ab_assessments (snd (observe e (advisor_served ae c now n) q ws)) = ab_assessments s"
    by (auto simp: ws observe_def served_assessments split: option.split)
  show ?thesis
  proof (cases "q = useAssessmentLogs")
    case False
    then show ?thesis
      using assms kept by (simp add: no_assessments_def query_data_observe_other ws)
  next
    case True
    have "elements (query_data useAssessmentLogs (fst (observe e (advisor_served ae c now n) useAssessmentLogs ws))) = []"
      using assms(1) rows
      by (auto simp: ws observe_def no_assessments_def logs_fetched split: option.split)
    with True kept rows show ?thesis by (simp add: no_assessments_def)
  qed
qed

lemma observe_all_logs:
  "no_assessments c ws \<Longrightarrow> no_assessments c (observe_all e (advisor_served ae c now n) (advisor_queries b) ws)"
  by (simp add: observe_all_def advisor_queries_def observe_logs)

lemma press_assess_logs:
  assumes "prefix_filter e" "no_assessments c (snd w)"
  shows "no_assessments c (snd (press_assess e (advisor_served ae c now n) w))"
proof -
  obtain p st s where w: "w = (p, st, s)" by (metis prod_cases3)
  obtain r st' s' where m: "mutate e (advisor_served ae c now n) useRunComplianceAssessment () (st, s) = (r, st', s')"
    by (metis prod_cases3)
  have "query_data useAssessmentLogs st' = query_data useAssessmentLogs st"
    using query_data_mutate [OF assms(1), of useRunComplianceAssessment "()" useAssessmentLogs
        "advisor_served ae c now n" st s] m
    by (simp add: useRunComplianceAssessment_def toast_error_def)
  moreover have "ab_assessments s' = ab_assessments s"
    using m by (auto simp: mutate_def served_assessments split: prod.splits)
  ultimately have "no_assessments c (st', s')"
    using assms(2) w by (simp add: no_assessments_def)
  then show ?thesis
    by (auto simp: press_assess_def w m observe_all_logs split: sum.split)
qed

lemma advisor_next_logs:
  assumes "prefix_filter e" "no_assessments c (snd w)"
  shows "no_assessments c (snd (advisor_next e ae c (now, n, ev) w))"
proof (cases ev)
  case (AssessmentEnds i l)
  then show ?thesis
    using assms(2)
    by (cases w) (auto simp: no_assessments_def assessment_finished_def Let_def)
qed (use assms in \<open>cases w; simp add: observe_all_logs press_assess_logs\<close>)+

lemma advisor_run_logs:
  assumes "prefix_filter e"
  shows "no_assessments c (snd w) \<Longrightarrow> no_assessments c (snd (advisor_run e ae c evs w))"
  unfolding advisor_run_def
proof (induction evs arbitrary: w)
  case (Cons ev evs)
  obtain now n x where "ev = (now, n, x)" by (metis prod_cases3)
  with Cons advisor_next_logs [OF assms Cons.prems, of ae now n x] show ?case by simp
qed simp

lemma toasts_sent [simp]: "fe_toasts (snd (api_send e rq st)) = fe_toasts st"
  by (simp add: api_send_def on_api_error_def Let_def split: sum.split)

lemma assess_fields [simp]:
  "m_settled useRunComplianceAssessment = []" "m_result useRunComplianceAssessment d = d"
  "m_success useRunComplianceAssessment d () =
    [Invalidate [JStr ''recommendations''], Invalidate [JStr ''compliance-gaps''], Invalidate [JStr ''risk-score''],
     Invalidate [JStr ''assessment-logs''], Toast Success (JStr ''Compliance assessment completed'')]"
  by (simp_all add: useRunComplianceAssessment_def)

lemma toasts_fetched [simp]: "fe_toasts (fetch_query e q st) = fe_toasts st"
  using toasts_sent [of e "q_request q" st]
  by (auto simp: fetch_query_def simp del: toasts_sent split: sum.split option.split prod.split)

lemma toasts_observed: "fe_toasts (fst (observe e sv q ws)) = fe_toasts (fst ws)"
  by (auto simp: observe_def split: prod.split option.split)

lemma toasts_observed_all: "fe_toasts (fst (observe_all e sv qs ws)) = fe_toasts (fst ws)"
  unfolding observe_all_def by (induction qs arbitrary: ws) (simp_all add: toasts_observed)

lemma assess_answered:
  "fst (advisor_served ae c now n (add_token st (m_request useRunComplianceAssessment ())) s)
   = Inr (JObj [(''assessment_id'', JStr n), (''status'', JStr ''running'')])"
  by (simp add: advisor_served_def advisor_route_def useRunComplianceAssessment_def new_request_def
      runComplianceAssessment_def)

lemma assess_mutated:
  assumes "mutate e (advisor_served ae c now n) useRunComplianceAssessment () (st, s) = (r, st', s')"
  shows "r = Inr (JObj [(''assessment_id'', JStr n), (''status'', JStr ''running'')])"
    "(Success, JStr ''Compliance assessment completed'') \<in> set (fe_toasts st')"
  using assms assess_answered [of ae c now n st s]
  by (auto simp: mutate_def run_mutation_def api_send_def Let_def settle_def)

text \<open>
  C33. From a tenant without assessments, whatever is done on the pages of the advisor and whenever the
  runs end: the next press of the button announces a completed assessment, and no banner, no run and
  no row of the history is ever shown.
\<close>
theorem assessment_history_empty:
  assumes "prefix_filter e" "elements (query_data useAssessmentLogs st) = []"
    and "filter (\<lambda>r. at_tenant r = ca_tenant c) (ab_assessments s) = []"
    and "advisor_run e ae c (evs @ [(now, n, PressAssess)]) (p, st, s) = (p', st', s')"
    and "logs = query_data useAssessmentLogs st'"
  shows "(Success, JStr ''Compliance assessment completed'') \<in> set (fe_toasts st') \<and> ap_isSuccess p'
    \<and> assessment_banner (ap_isSuccess p') logs = None \<and> history_runs logs = None
    \<and> assessment_history True logs = Some (Inr ''No assessment runs yet'')"
proof -
  obtain p1 st1 s1 where w: "advisor_run e ae c evs (p, st, s) = (p1, st1, s1)" by (metis prod_cases3)
  obtain r st2 s2 where m: "mutate e (advisor_served ae c now n) useRunComplianceAssessment () (st1, s1) = (r, st2, s2)"
    by (metis prod_cases3)
  have "press_assess e (advisor_served ae c now n) (p1, st1, s1) = (p', st', s')"
    using assms(4) w by (simp add: advisor_run_def)
  then have "ap_isSuccess p'" "(st', s') = observe_all e (advisor_served ae c now n) (advisor_queries (ap_on_gaps p1)) (st2, s2)"
    using m assess_mutated(1) [OF m] by (auto simp: press_assess_def)
  moreover have "fe_toasts st' = fe_toasts st2"
    using calculation(2) toasts_observed_all by (metis fst_conv)
  moreover have "elements logs = []"
    using advisor_run_logs [OF assms(1), of c "(p, st, s)" ae "evs @ [(now, n, PressAssess)]"] assms(2-5)
    by (simp add: no_assessments_def)
  ultimately show ?thesis
    using assess_mutated(2) [OF m] by (simp add: assessment_banner_def history_runs_def assessment_history_def)
qed

definition ex_advisor_run :: "(int \<times> string \<times> advisor_event) list" where
  "ex_advisor_run = [(1, [], OpenAdvisor), (2, ''a1'', PressAssess), (9, [], AssessmentEnds ''a1'' ''l1''), (10, [], OpenAdvisor)]"

definition ex_advisor_end :: "advisor_db advisor_world" where
  "ex_advisor_end =
     advisor_run (ex_fe_env JNull) ex_advisor_env ex_advisor_caller (ex_advisor_run @ [(11, ''a2'', PressAssess)])
       (initial_advisor, ex_browser [], ex_advisor_db)"

theorem assessment_history_empty_witness:
  "(Success, JStr ''Compliance assessment completed'') \<in> set (fe_toasts (fst (snd ex_advisor_end)))
   \<and> assessment_history True (query_data useAssessmentLogs (fst (snd ex_advisor_end))) = Some (Inr ''No assessment runs yet'')"
proof -
  obtain p' st' s' where r: "advisor_run (ex_fe_env JNull) ex_advisor_env ex_advisor_caller
      (ex_advisor_run @ [(11, ''a2'', PressAssess)]) (initial_advisor, ex_browser [], ex_advisor_db) = (p', st', s')"
    by (metis prod_cases3)
  have "elements (query_data useAssessmentLogs (ex_browser [])) = []"
    by (simp add: query_data_entry)
  moreover have "filter (\<lambda>r. at_tenant r = ca_tenant ex_advisor_caller) (ab_assessments ex_advisor_db) = []"
    by (simp add: ex_advisor_db_def)
  ultimately show ?thesis
    using assessment_history_empty [OF ex_prefix _ _ r refl] r by (simp add: ex_advisor_end_def)
qed

section \<open>Gaps and groups\<close>

text \<open>The groups hold every gap once, each under its own regulation, and no regulation has two.\<close>

lemma add_gap_keys: "fst ` set (add_gap g acc) = insert (regulation_of g) (fst ` set acc)"
  by (induction g acc rule: add_gap.induct) auto

lemma add_gap_groups:
  "distinct (map fst acc) \<and> (\<forall>(r, gs)\<in>set acc. gs \<noteq> [] \<and> (\<forall>h\<in>set gs. regulation_of h = r)) \<Longrightarrow>
   distinct (map fst (add_gap g acc))
   \<and> (\<forall>(r, gs)\<in>set (add_gap g acc). gs \<noteq> [] \<and> (\<forall>h\<in>set gs. regulation_of h = r))"
  by (induction g acc rule: add_gap.induct) (auto simp: image_iff dest: add_gap_keys [THEN equalityD1, THEN subsetD, OF imageI])

lemma add_gap_all: "mset (concat (map snd (add_gap g acc))) = add_mset g (mset (concat (map snd acc)))"
  by (induction g acc rule: add_gap.induct) auto

lemma groupedGaps_correct:
  "distinct (map fst (groupedGaps gs)) \<and> mset (concat (map snd (groupedGaps gs))) = mset gs
   \<and> (\<forall>(r, hs)\<in>set (groupedGaps gs). hs \<noteq> [] \<and> (\<forall>h\<in>set hs. regulation_of h = r))"
proof -
  have "distinct (map fst (fold add_gap gs acc))
     \<and> mset (concat (map snd (fold add_gap gs acc))) = mset gs + mset (concat (map snd acc))
     \<and> (\<forall>(r, hs)\<in>set (fold add_gap gs acc). hs \<noteq> [] \<and> (\<forall>h\<in>set hs. regulation_of h = r))"
    if "distinct (map fst acc) \<and> (\<forall>(r, hs)\<in>set acc. hs \<noteq> [] \<and> (\<forall>h\<in>set hs. regulation_of h = r))" for acc
    using that
  proof (induction gs arbitrary: acc)
    case (Cons g gs)
    from Cons.IH [OF add_gap_groups [OF Cons.prems]] show ?case by (simp add: add_gap_all)
  qed simp
  from this [of "[]"] show ?thesis by (simp add: groupedGaps_def)
qed

lemma gap_of_policy:
  assumes "typed_policies (ab_policies s)" "set ts \<inter> set policy_types = {}"
  shows "active_of t ts s = 0"
  using assms by (auto simp: active_of_def typed_policies_def filter_empty_conv)

lemma open_gaps:
  assumes "typed_policies (ab_policies s)"
  shows "gp_consent (gap_counts_of c s) = 0" "gp_localization (gap_counts_of c s) = 0"
    "gp_cross_border (gap_counts_of c s) = 0"
  by (simp_all add: gap_counts_of_def Let_def, (rule gap_of_policy [OF assms], simp add: policy_types_def)+)

text \<open>What the page makes of the gaps: each is a row, in the group of its regulation.\<close>

definition gap_groups :: "js \<Rightarrow> (string list \<times> (string \<times> cell) list list) list" where
  "gap_groups d = map (\<lambda>rg. (group_heading rg, map (GapRow False) (snd rg))) (groupedGaps (elements d))"

lemma gap_groups_shown: "elements d \<noteq> [] \<Longrightarrow> gaps_view d = Inl (gap_groups d)"
  by (simp add: gaps_view_def gap_groups_def Let_def)

lemma group_heading_hd [simp]: "hd (group_heading rg) = fst rg"
  by (simp add: group_heading_def split: prod.split)

lemma gap_groups_distinct: "distinct (map (hd \<circ> fst) (gap_groups d))"
  using groupedGaps_correct [of "elements d"] by (simp add: gap_groups_def comp_def)

lemma gap_groups_all:
  "mset (concat (map snd (gap_groups d))) = image_mset (GapRow False) (mset (elements d))"
proof -
  have "concat (map snd (gap_groups d)) = map (GapRow False) (concat (map snd (groupedGaps (elements d))))"
    by (simp add: gap_groups_def map_concat comp_def)
  then show ?thesis using groupedGaps_correct [of "elements d"] by simp
qed

lemma gap_groups_count:
  "\<forall>(h, rows)\<in>set (gap_groups d). h ! 1 = nat_str (length rows) @ '' gap'' @ (if length rows \<noteq> 1 then ''s'' else [])"
  by (simp add: gap_groups_def group_heading_def split: prod.split)

lemma gap_groups_member:
  assumes "g \<in> set (elements d)"
  shows "\<exists>h rows. (h, rows) \<in> set (gap_groups d) \<and> hd h = regulation_of g \<and> GapRow False g \<in> set rows"
proof -
  note G = groupedGaps_correct [of "elements d"]
  have "g \<in> set (concat (map snd (groupedGaps (elements d))))" using assms G by (metis set_mset_mset)
  then obtain rg where rg: "rg \<in> set (groupedGaps (elements d))" "g \<in> set (snd rg)" by auto
  then have "regulation_of g = fst rg" using G by (auto simp: split_beta)
  moreover have "(group_heading rg, map (GapRow False) (snd rg)) \<in> set (gap_groups d)"
    using rg(1) by (simp add: gap_groups_def)
  ultimately show ?thesis
    using rg(2) by (intro exI [of _ "group_heading rg"] exI [of _ "map (GapRow False) (snd rg)"]) simp
qed

text \<open>The four gaps that no policy of a type that can be created closes\<close>

definition unclosable_gaps :: "gap_row list" where
  "unclosable_gaps =
     [\<lparr>gr_regulation = ''DPDP'', gr_requirement = ''Consent Management (Section 6)'', gr_severity = ''CRITICAL''\<rparr>,
      \<lparr>gr_regulation = ''DPDP'', gr_requirement = ''Data Localization (Section 16)'', gr_severity = ''HIGH''\<rparr>,
      \<lparr>gr_regulation = ''UAE PDPL'', gr_requirement = ''Lawful Basis for Processing (Art. 4)'',
        gr_severity = ''CRITICAL''\<rparr>,
      \<lparr>gr_regulation = ''UAE PDPL'', gr_requirement = ''Cross-Border Transfer Restrictions (Art. 22)'',
        gr_severity = ''HIGH''\<rparr>]"

lemma unclosable_severity: "\<forall>g\<in>set unclosable_gaps. gr_severity g = ''CRITICAL'' \<or> gr_severity g = ''HIGH''"
  by (simp add: unclosable_gaps_def)

lemma open_gap_row:
  assumes "gr_severity g = ''CRITICAL'' \<or> gr_severity g = ''HIGH''"
  shows "{(''title'', Seq [Txt (JStr (gr_regulation g)), text_of ''-'', Txt (JStr (gr_requirement g))]),
          (''severity'', Toned (if gr_severity g = ''CRITICAL'' then ''red'' else ''orange'') (Txt (JStr (gr_severity g)))),
          (''status'', Status (JStr ''error'') (JStr ''open''))} \<subseteq> set (GapRow False (gap_json g))"
    "regulation_of (gap_json g) = gr_regulation g"
  using assms
  by (auto simp: GapRow_def gap_json_def SeverityBadge_def gap_state_def regulation_of_def)

text \<open>
  C34. With policies of the types that can be created, however many, the page of gaps shows every gap of
  the server's answer once, in a group of its regulation that says how many it has; four of them are
  always there, two of the DPDP and two of the UAE PDPL, with their severities and the status \<open>open\<close>;
  and the banner of a run shows no number as its score.
\<close>
theorem gaps_never_clear:
  assumes "typed_policies (ab_policies s)" "d = the (rs_json (getComplianceGaps c s))"
    and "b = the (rs_json (fst (runComplianceAssessment i now c s)))"
  shows "\<exists>groups. gaps_view d = Inl groups \<and> distinct (map (hd \<circ> fst) groups)
    \<and> mset (concat (map snd groups)) = image_mset (GapRow False) (mset (elements d))
    \<and> (\<forall>(h, rows)\<in>set groups. h ! 1 = nat_str (length rows) @ '' gap'' @ (if length rows \<noteq> 1 then ''s'' else []))
    \<and> (\<forall>g\<in>set unclosable_gaps. \<exists>(h, rows)\<in>set groups. hd h = gr_regulation g
         \<and> (\<exists>row\<in>set rows.
              {(''title'', Seq [Txt (JStr (gr_regulation g)), text_of ''-'', Txt (JStr (gr_requirement g))]),
               (''severity'', Toned (if gr_severity g = ''CRITICAL'' then ''red'' else ''orange'') (Txt (JStr (gr_severity g)))),
               (''status'', Status (JStr ''error'') (JStr ''open''))} \<subseteq> set row))
    \<and> map_option hd (gaps_banner b) = Some (''Score'', text_of ''NaN%'')"
proof -
  define k where "k = gap_counts_of c s"
  have d: "elements d = map gap_json (gdpr_gaps k @ ccpa_gaps k @ dpdp_gaps k @ uae_gaps k)"
    using assms(2) by (simp add: getComplianceGaps_def answer_def k_def Let_def)
  have "set unclosable_gaps \<subseteq> set (dpdp_gaps k @ uae_gaps k)"
    using open_gaps [OF assms(1), of c]
    by (simp add: unclosable_gaps_def dpdp_gaps_def uae_gaps_def gap_when_def k_def)
  then have listed: "gap_json g \<in> set (elements d)" if "g \<in> set unclosable_gaps" for g
    using that unfolding d by auto
  have "hd unclosable_gaps \<in> set unclosable_gaps" by (simp add: unclosable_gaps_def)
  from listed [OF this] have "elements d \<noteq> []" by auto
  note view = gap_groups_shown [OF this]
  have four: "\<exists>(h, rows)\<in>set (gap_groups d). hd h = gr_regulation g
         \<and> (\<exists>row\<in>set rows.
              {(''title'', Seq [Txt (JStr (gr_regulation g)), text_of ''-'', Txt (JStr (gr_requirement g))]),
               (''severity'', Toned (if gr_severity g = ''CRITICAL'' then ''red'' else ''orange'') (Txt (JStr (gr_severity g)))),
               (''status'', Status (JStr ''error'') (JStr ''open''))} \<subseteq> set row)"
    if "g \<in> set unclosable_gaps" for g
  proof -
    note row = open_gap_row [OF bspec [OF unclosable_severity that]]
    from gap_groups_member [OF listed [OF that]] obtain h rs where
      "(h, rs) \<in> set (gap_groups d)" "hd h = gr_regulation g" "GapRow False (gap_json g) \<in> set rs"
      unfolding row(2) by blast
    with row(1) show ?thesis by blast
  qed
  have "map_option hd (gaps_banner b) = Some (''Score'', text_of ''NaN%'')"
    using assms(3) by (simp add: runComplianceAssessment_def answer_def gaps_banner_def percent_round_def)
  then show ?thesis
    by (intro exI [of _ "gap_groups d"] conjI view gap_groups_distinct gap_groups_all gap_groups_count
        ballI four)
qed

theorem gaps_never_clear_witness:
  "\<exists>groups. gaps_view (the (rs_json (getComplianceGaps ex_advisor_caller ex_advisor_db))) = Inl groups
     \<and> {''DPDP'', ''UAE PDPL''} \<subseteq> hd ` fst ` set groups
     \<and> map_option hd (gaps_banner (the (rs_json (fst (runComplianceAssessment ''a1'' 3 ex_advisor_caller ex_advisor_db)))))
       = Some (''Score'', text_of ''NaN%'')"
proof -
  have "typed_policies (ab_policies ex_advisor_db)" by (simp add: ex_advisor_simps)
  from gaps_never_clear [OF this refl refl, where i = "''a1''" and now = 3 and c = ex_advisor_caller]
  obtain groups where g: "gaps_view (the (rs_json (getComplianceGaps ex_advisor_caller ex_advisor_db))) = Inl groups"
    "\<forall>g\<in>set unclosable_gaps. \<exists>(h, rows)\<in>set groups. hd h = gr_regulation g
         \<and> (\<exists>row\<in>set rows.
              {(''title'', Seq [Txt (JStr (gr_regulation g)), text_of ''-'', Txt (JStr (gr_requirement g))]),
               (''severity'', Toned (if gr_severity g = ''CRITICAL'' then ''red'' else ''orange'') (Txt (JStr (gr_severity g)))),
               (''status'', Status (JStr ''error'') (JStr ''open''))} \<subseteq> set row)"
    "map_option hd (gaps_banner (the (rs_json (fst (runComplianceAssessment ''a1'' 3 ex_advisor_caller ex_advisor_db)))))
       = Some (''Score'', text_of ''NaN%'')"
    by (elim exE conjE)
  have "gr_regulation x \<in> hd ` fst ` set groups" if "x \<in> set unclosable_gaps" for x
  proof -
    from bspec [OF g(2) that] obtain y where "y \<in> set groups" "hd (fst y) = gr_regulation x"
      by (auto simp: split_beta)
    then show ?thesis by (metis imageI)
  qed
  then have "gr_regulation ` set unclosable_gaps \<subseteq> hd ` fst ` set groups" by blast
  moreover have "gr_regulation ` set unclosable_gaps = {''DPDP'', ''UAE PDPL''}"
    by (simp add: unclosable_gaps_def)
  ultimately show ?thesis using g(1,3) by (intro exI [of _ groups] conjI) simp_all
qed

section \<open>The docket as it is shown\<close>

lemma docket_generated:
  assumes "mutate e (advisor_served ae c now n) useGenerateDefenseDocket v (st, s) = (r, st', s')"
    and "fst (generateDefenseDocket ae now v c s) = answer 200 d"
  shows "r = Inr d"
proof -
  have "fst (advisor_served ae c now n (add_token st (m_request useGenerateDefenseDocket v)) s) = Inr d"
    using assms(2)
    by (simp add: advisor_served_def advisor_route_def useGenerateDefenseDocket_def new_request_def)
  then show ?thesis
    using assms(1)
    by (auto simp: mutate_def run_mutation_def api_send_def Let_def useGenerateDefenseDocket_def)
qed

text \<open>
  C35. A docket generated on the page for chosen dates shows another period, the last three months, as its
  own; whatever the database holds, it shows no event of access and 100.0% compliance with retention.
\<close>
theorem docket_page_blind:
  assumes "\<And>t. CHR ''T'' \<notin> set t \<Longrightarrow> av_rfc3339 ae t = None"
    and "kp_regs p \<noteq> []" "kp_from p \<noteq> []" "CHR ''T'' \<notin> set (kp_from p)" "kp_to p \<noteq> []" "CHR ''T'' \<notin> set (kp_to p)"
    and "docket_next e stamp (advisor_served ae c now n) (PressGenerate now) (p, st, s) = (p', st', s')"
  shows "\<exists>cards. docket_view p' = Some
      ([(''Generated on '', When (JStr (av_time ae now))), (''for '', Seq (map (Txt \<circ> JStr) (kp_regs p))),
        (''Date range: '', Seq [Day (JStr (av_time ae (av_three_months_before ae now))), text_of '' - '',
                              Day (JStr (av_time ae now))])], cards)
    \<and> cards ! 2 = (''green'', JStr ''Access Control Audit Trail'', [(''Audit Events in Period'', Txt (JNum (Fin 0)))])
    \<and> cards ! 5 = (''yellow'', JStr ''Retention Policy Compliance'',
        [(''Total Violations'', Txt (JNum (Fin 0))), (''Resolved'', Txt (JNum (Fin 0))), (''Compliance Rate'', text_of ''100.0%'')])"
proof -
  define secs where "secs = docket_sections ae (ca_tenant c) (av_three_months_before ae now, now) s"
  define d where "d = JObj [(''generated_at'', JStr (av_time ae now)),
        (''date_range'', JObj [(''from'', JStr (av_time ae (av_three_months_before ae now))), (''to'', JStr (av_time ae now))]),
        (''regulations'', JArr (map JStr (kp_regs p))), (''sections'', JArr secs)]"
  have r: "docket_request stamp now p = docket_body (kp_regs p) (kp_from p) (kp_to p)"
    using assms(3,5) by (simp add: docket_request_def)
  from docket_blind [OF assms(1,4,6) refl refl, where c = c and s = s and now = now and rs = "kp_regs p"]
  have g: "fst (generateDefenseDocket ae now (docket_request stamp now p) c s) = answer 200 d"
    and two: "secs ! 2 = docket_section ''Access Control Audit Trail'' ''audit''
        [(''total_events'', count_json 0), (''audit_entries'', JArr [])]"
    and five: "secs ! 5 = docket_section ''Retention Policy Compliance'' ''retention''
        [(''total_violations'', count_json 0), (''resolved_violations'', count_json 0), (''compliance_rate'', num_rat 100)]"
    by (simp_all add: r d_def secs_def)
  have n: "length secs = 7" by (simp add: secs_def docket_sections_def)
  obtain x st1 s1 where m: "mutate e (advisor_served ae c now n) useGenerateDefenseDocket (docket_request stamp now p) (st, s)
      = (x, st1, s1)" by (metis prod_cases3)
  have "kp_data p' = d"
    using assms(2,7) m docket_generated [OF m g] by (auto simp: docket_handleGenerate_def)
  then have "docket_view p' = Some (docket_heading p',
      map (\<lambda>x. (SectionIcon (jprop ''type'' x), jprop ''title'' x, DocketSectionCard (jprop ''type'' x) (jprop ''data'' x))) secs)"
    "docket_heading p' = [(''Generated on '', When (JStr (av_time ae now))), (''for '', Seq (map (Txt \<circ> JStr) (kp_regs p))),
        (''Date range: '', Seq [Day (JStr (av_time ae (av_three_months_before ae now))), text_of '' - '',
                              Day (JStr (av_time ae now))])]"
    by (simp_all add: docket_view_def docket_heading_def d_def)
  moreover have "to_fixed 1 100 = ''100.0''" by code_simp
  ultimately show ?thesis
    using n two five
    by (simp add: docket_section_def SectionIcon_def DocketSectionCard_def docket_count_def docket_rate_def
        docket_rows_def part_if_def js_or_def count_json_def num_rat_def)
qed

definition ex_docket_page :: docket_page where
  "ex_docket_page = initial_docket\<lparr>kp_from := ''2024-06-01'', kp_to := ''2024-09-01''\<rparr>"

theorem docket_page_blind_witness:
  "\<exists>cards h. docket_view (fst (docket_next (ex_fe_env JNull) (\<lambda>t. ''x'') (advisor_served ex_advisor_env ex_advisor_caller 10 ''n'')
        (PressGenerate 10) (ex_docket_page, ex_browser [], ex_advisor_db))) = Some (h, cards)
    \<and> h ! 2 = (''Date range: '', Seq [Day (JStr ''2025-01-01T00:00:00Z''), text_of '' - '', Day (JStr ''2025-01-01T00:00:00Z'')])
    \<and> cards ! 2 = (''green'', JStr ''Access Control Audit Trail'', [(''Audit Events in Period'', Txt (JNum (Fin 0)))])"
proof -
  obtain p' st' s' where r: "docket_next (ex_fe_env JNull) (\<lambda>t. ''x'') (advisor_served ex_advisor_env ex_advisor_caller 10 ''n'')
        (PressGenerate 10) (ex_docket_page, ex_browser [], ex_advisor_db) = (p', st', s')" by (metis prod_cases3)
  have law: "CHR ''T'' \<notin> set t \<Longrightarrow> av_rfc3339 ex_advisor_env t = None" for t
    by (simp add: ex_advisor_env_def)
  have "av_time ex_advisor_env (av_three_months_before ex_advisor_env 10) = ''2025-01-01T00:00:00Z''"
    "av_time ex_advisor_env 10 = ''2025-01-01T00:00:00Z''"
    by (simp_all add: ex_advisor_env_def)
  with docket_page_blind [OF law _ _ _ _ _ r]
  show ?thesis unfolding r by (auto simp: ex_docket_page_def initial_docket_def)
qed

section \<open>The progress of a playbook\<close>

definition marked_shown :: "conversions \<Rightarrow> playbook_page \<times> fe_state \<times> 's \<Rightarrow> bool" where
  "marked_shown cv w \<longleftrightarrow>
     (case w of (p, st, s) \<Rightarrow>
        distinct (py_completedSteps p) \<and> set (py_completedSteps p) \<subseteq> {..<length (current_steps cv p st)})"

lemma toggle_distinct: "distinct xs \<Longrightarrow> distinct (toggle x xs)"
  by (auto simp: toggle_def)

lemma marked_next:
  assumes "marked_shown cv w"
  shows "marked_shown cv (playbook_next e cv sv ev w)"
proof -
  obtain p st s where w: "w = (p, st, s)" by (metis prod_cases3)
  show ?thesis
  proof (cases ev)
    case (SelectIssue i)
    then show ?thesis
      using assms by (cases "observe e sv (usePlaybook i) (st, s)") (simp add: w marked_shown_def handleSelectIssue_def)
  next
    case (ToggleStep k)
    then show ?thesis
      using assms
      by (auto simp: w marked_shown_def toggleStep_def set_toggle toggle_distinct current_steps_def current_playbook_def)
  qed
qed

lemma all_marked: "distinct ks \<Longrightarrow> set ks \<subseteq> {..<n} \<Longrightarrow> length ks = n \<longleftrightarrow> set ks = {..<n}"
  by (metis card_lessThan card_subset_eq distinct_card finite_lessThan)

text \<open>
  On the page of playbooks, whatever the server answers, the marked steps are always steps of the
  playbook that is shown: the progress is between 0 and 100 percent, is 100 exactly when every step
  is marked, and exactly then the page says that the playbook is completed.
\<close>
theorem playbook_progress:
  assumes "fold (playbook_next e cv sv) evs (initial_playbooks, st, s) = (p, st', s')"
    and "steps = current_steps cv p st'" "v = playbook_view_of p (current_playbook p st') steps"
    and "q = progressPercent (length (py_completedSteps p)) (length steps)"
  shows "set (py_completedSteps p) \<subseteq> {..<length steps} \<and> 0 \<le> q \<and> q \<le> 100
    \<and> (yv_footer v \<longleftrightarrow> q = 100) \<and> (yv_footer v \<longleftrightarrow> steps \<noteq> [] \<and> set (py_completedSteps p) = {..<length steps})"
proof -
  have "marked_shown cv (fold (playbook_next e cv sv) evs w)" if "marked_shown cv w" for w
    using that by (induction evs arbitrary: w) (simp_all add: marked_next)
  from this [of "(initial_playbooks, st, s)"]
  have m: "distinct (py_completedSteps p)" "set (py_completedSteps p) \<subseteq> {..<length steps}"
    using assms(1,2) by (simp_all add: marked_shown_def initial_playbooks_def)
  define k n where "k = length (py_completedSteps p)" and "n = length steps"
  have kn: "k \<le> n"
    using card_mono [OF finite_lessThan m(2)] by (simp add: k_def n_def distinct_card [OF m(1)])
  have "0 \<le> q \<and> q \<le> 100" "n > 0 \<and> k = n \<longleftrightarrow> q = 100"
    using kn assms(4) by (auto simp: progressPercent_def k_def n_def field_simps)
  moreover have "yv_footer v \<longleftrightarrow> n > 0 \<and> k = n"
    using assms(3) by (auto simp: playbook_view_of_def Let_def k_def n_def)
  ultimately show ?thesis
    using m all_marked [OF m] by (auto simp: k_def n_def)
qed

definition ex_playbook_server :: "unit server" where
  "ex_playbook_server rq s =
     (Inr (JObj [(''name'', JStr ''Breach''), (''steps'', JArr [JStr ''Contain'', JObj [(''title'', JStr ''Assess'')]])]), s)"

definition ex_conv :: conversions where
  "ex_conv = \<lparr>to_prim = id, str_num = (\<lambda>t. NaN), to_str = (\<lambda>v. [])\<rparr>"

lemma ex_playbook_run:
  "\<exists>st'. fold (playbook_next (ex_fe_env JNull) ex_conv ex_playbook_server)
     [SelectIssue ''data_breach'', ToggleStep 1, ToggleStep 0, ToggleStep 5] (initial_playbooks, ex_browser [], ())
   = (\<lparr>py_selectedIssue = Some ''data_breach'', py_completedSteps = [1, 0]\<rparr>, st', ())
   \<and> length (current_steps ex_conv \<lparr>py_selectedIssue = Some ''data_breach'', py_completedSteps = [1, 0]\<rparr> st') = 2"
  by (simp add: issueTypes_def handleSelectIssue_def toggleStep_def toggle_def initial_playbooks_def observe_def
      ex_browser_def usePlaybook_def get_query_def fetch_query_def api_send_def asking_def ex_playbook_server_def
      current_steps_def current_playbook_def query_data_def playbook_steps_def parseSteps_def Let_def)

theorem playbook_progress_witness:
  "\<exists>st'. yv_footer (playbook_view_of \<lparr>py_selectedIssue = Some ''data_breach'', py_completedSteps = [1, 0]\<rparr>
      (current_playbook \<lparr>py_selectedIssue = Some ''data_breach'', py_completedSteps = [1, 0]\<rparr> st')
      (current_steps ex_conv \<lparr>py_selectedIssue = Some ''data_breach'', py_completedSteps = [1, 0]\<rparr> st'))
    \<and> progressPercent 2 2 = 100"
proof -
  obtain st' where r: "fold (playbook_next (ex_fe_env JNull) ex_conv ex_playbook_server)
     [SelectIssue ''data_breach'', ToggleStep 1, ToggleStep 0, ToggleStep 5] (initial_playbooks, ex_browser [], ())
   = (\<lparr>py_selectedIssue = Some ''data_breach'', py_completedSteps = [1, 0]\<rparr>, st', ())"
    and n: "length (current_steps ex_conv \<lparr>py_selectedIssue = Some ''data_breach'', py_completedSteps = [1, 0]\<rparr> st') = 2"
    using ex_playbook_run by blast
  have "progressPercent 2 2 = 100" by (simp add: progressPercent_def)
  with playbook_progress [OF r refl refl refl] n show ?thesis by auto
qed

end
