(* ===== verification/FeDashboard.thy ===== *)
theory FeDashboard
  imports FeAdvisor
begin

text \<open>
  The dashboard, \<open>app/(app)/dashboard/page.tsx\<close>: what each part shows of the answers of its queries. A
  part whose query is loading shows a skeleton (\<open>None\<close>). Figures are numbers, actions are texts or
  absent; the columns of its table of alerts, which the page does not use, are in theory \<open>FeTables\<close>.
\<close>

section \<open>Figures\<close>

text \<open>\<open>v?.toLocaleString() || '0'\<close>\<close>

definition grouped_or_0 :: "js \<Rightarrow> cell" where
  "grouped_or_0 v = (if nullish v then text_of ''0'' else Grouped v)"

definition is_connected :: "js \<Rightarrow> bool" where
  "is_connected ds \<longleftrightarrow> is_str (jprop ''status'' ds) ''connected'' \<or> is_str (jprop ''status'' ds) ''active''"

definition complianceScore :: "js \<Rightarrow> jsnum" where
  "complianceScore riskScore =
     (if truthy (jprop ''overall_score'' riskScore) then percent_round (jprop ''overall_score'' riskScore) else Fin 0)"

text \<open>A card: whether it is loading, the value it shows, and its arrow and note\<close>

record dash_card =
  dc_label :: string
  dc_value :: cell
  dc_change :: js
  dc_changeLabel :: string

definition dashboard_stats :: "js \<Rightarrow> js \<Rightarrow> js \<Rightarrow> js \<Rightarrow> dash_card list" where
  "dashboard_stats dataSources gateStats analytics riskScore =
     (let sources = elements dataSources; connected = length (filter is_connected sources); score = complianceScore riskScore
      in [\<lparr>dc_label = ''Data Sources'', dc_value = text_of (nat_str connected @ ''/'' @ nat_str (length sources)),
           dc_change = JNum (num_of_nat connected), dc_changeLabel = ''connected''\<rparr>,
          \<lparr>dc_label = ''AI Gate Queries'', dc_value = grouped_or_0 (jprop ''total_queries'' gateStats),
           dc_change = js_or (jprop ''blocked_queries'' gateStats) (JNum (Fin 0)), dc_changeLabel = ''blocked''\<rparr>,
          \<lparr>dc_label = ''Records Scanned'', dc_value = grouped_or_0 (jprop ''total_records'' analytics),
           dc_change = js_or (jprop ''pii_detected'' analytics) (JNum (Fin 0)), dc_changeLabel = ''PII detected''\<rparr>,
          \<lparr>dc_label = ''Compliance Score'', dc_value = text_of (num_fixed 0 score @ ''%''),
           dc_change = JNum (Fin (if num_le (Fin 80) score then 1 else -1)),
           dc_changeLabel = (if num_le (Fin 80) score then ''healthy'' else ''needs attention'')\<rparr>])"

definition card_shown :: "bool \<Rightarrow> dash_card \<Rightarrow> stat_view option" where
  "card_shown loading k =
     (if loading then None
      else Some (StatCard \<lparr>sc_label = JStr (dc_label k), sc_title = JUndef, sc_value = JUndef, sc_change = dc_change k,
                          sc_changeLabel = JStr (dc_changeLabel k), sc_trend = None\<rparr>))"

definition formattedAlerts :: "js \<Rightarrow> js list" where
  "formattedAlerts alerts =
     map (\<lambda>a. JObj [(''id'', jprop ''id'' a), (''severity'', js_or (jprop ''severity'' a) (JStr ''info'')),
                   (''message'', js_or (jprop ''title'' a) (jprop ''message'' a)),
                   (''source'', js_or (jprop ''resource'' a) (JStr ''system'')), (''timestamp'', jprop ''created_at'' a)])
       (take 5 (elements alerts))"

definition all_healthy :: "js \<Rightarrow> bool" where
  "all_healthy health \<longleftrightarrow> is_str (jprop ''status'' health) ''healthy''"

definition usual_entities :: "js list" where
  "usual_entities = map (\<lambda>t. JObj [(''type'', JStr t), (''count'', JNum (Fin 0))]) [''EMAIL'', ''PHONE'', ''SSN'']"

definition classification_overview :: "js \<Rightarrow> (string \<times> cell) list" where
  "classification_overview analytics =
     (let top = jprop ''top_entities'' analytics
      in [(''columns classified'', grouped_or_0 (jprop ''columns_classified'' analytics))]
         @ map (\<lambda>e. (''entity'', Seq [Txt (jprop ''type'' e), Txt (jprop ''count'' e)]))
             (take 4 (if truthy top then elements top else usual_entities))
         @ [(''Avg Confidence'', text_of (if truthy (jprop ''avg_confidence'' analytics)
               then num_fixed 0 (percent_round (jprop ''avg_confidence'' analytics)) @ ''%'' else ''-''))])"

definition processing_stats :: "js \<Rightarrow> (string \<times> cell) list" where
  "processing_stats analytics =
     [(''Documents'', grouped_or_0 (jprop ''documents_processed'' analytics)),
      (''Records'', grouped_or_0 (jprop ''total_records'' analytics)),
      (''PII Detected'', grouped_or_0 (jprop ''pii_detected'' analytics))]"

text \<open>Of each dimension the height of its bar, in percent, and its text\<close>

definition quality_summary :: "js \<Rightarrow> (string \<times> (string \<times> jsnum \<times> string) list) option" where
  "quality_summary d =
     (if truthy (jprop ''overall'' d)
      then Some (num_fixed 0 (percent_round (jprop ''overall'' d)) @ ''%'',
        map (\<lambda>(label, k). let v = js_or (jprop k d) (JNum (Fin 0))
                          in (label, num_scale 100 (number_of v), num_fixed 0 (percent_round v) @ ''%''))
          [(''Completeness'', ''completeness''), (''Accuracy'', ''accuracy''), (''Consistency'', ''consistency''),
           (''Timeliness'', ''timeliness''), (''Uniqueness'', ''uniqueness'')])
      else None)"

section \<open>The activity\<close>

text \<open>\<open>JSON.parse(log.details || '{}')\<close> of a text, which may throw, and the details themselves otherwise\<close>

definition activity_details :: "(string \<Rightarrow> js option) \<Rightarrow> js \<Rightarrow> js option" where
  "activity_details parse v =
     (case v of JStr t \<Rightarrow> (if t = [] then Some (JObj []) else parse t) | _ \<Rightarrow> Some (js_or v (JObj [])))"

definition action_parts :: "js \<Rightarrow> string list" where
  "action_parts a = (case a of JStr t \<Rightarrow> split_on (CHR ''.'') t | _ \<Rightarrow> [])"

definition first_text :: "string list \<Rightarrow> string" where
  "first_text ts = (case find (\<lambda>t. t \<noteq> []) ts of None \<Rightarrow> [] | Some t \<Rightarrow> t)"

definition actionType :: "js \<Rightarrow> string" where
  "actionType a = first_text (take 1 (drop 1 (action_parts a)) @ take 1 (action_parts a) @ [''action''])"

definition resourceType :: "js \<Rightarrow> js" where
  "resourceType run =
     js_or (case action_parts (jprop ''action'' run) of [] \<Rightarrow> JUndef | t # ts \<Rightarrow> JStr t)
       (js_or (jprop ''resource'' run) (JStr ''system''))"

definition action_has :: "js \<Rightarrow> string \<Rightarrow> bool" where
  "action_has a word = (case a of JStr t \<Rightarrow> str_includes t word | _ \<Rightarrow> False)"

text \<open>The icons by their names\<close>

definition getActionIcon :: "js \<Rightarrow> string" where
  "getActionIcon a =
     (if action_has a ''login'' then ''lock'' else if action_has a ''logout'' then ''door''
      else if action_has a ''create'' then ''plus'' else if action_has a ''delete'' then ''bin''
      else if action_has a ''update'' then ''pencil'' else if action_has a ''scan'' then ''magnifier''
      else if action_has a ''classification'' then ''label'' else if action_has a ''policy'' then ''clipboard'' else ''pin'')"

definition getActionColor :: "js \<Rightarrow> string" where
  "getActionColor a =
     (if action_has a ''delete'' then ''red'' else if action_has a ''create'' then ''green''
      else if action_has a ''login'' then ''blue'' else if action_has a ''scan'' then ''purple'' else ''gray'')"

text \<open>A field of the details in a text, with what stands for it; of \<open>null\<close> the access throws.\<close>

definition detail_text :: "conversions \<Rightarrow> js \<Rightarrow> string \<Rightarrow> string \<Rightarrow> string option" where
  "detail_text cv details k usual =
     (if nullish details then None else Some (to_str cv (js_or (jprop k details) (JStr usual))))"

definition quoted :: "string \<Rightarrow> string" where
  "quoted t = [CHR 0x22] @ t @ [CHR 0x22]"

definition getDescription :: "conversions \<Rightarrow> js \<Rightarrow> js \<Rightarrow> string option" where
  "getDescription cv run details =
     (let a = jprop ''action'' run
      in if is_str a ''user.login'' then map_option (\<lambda>t. t @ '' signed in'') (detail_text cv details ''email'' ''User'')
         else if is_str a ''user.logout'' then map_option (\<lambda>t. t @ '' signed out'') (detail_text cv details ''email'' ''User'')
         else if action_has a ''datasource.created'' then
           map_option (\<lambda>t. ''Data source '' @ quoted t @ '' created'') (detail_text cv details ''name'' ''Unknown'')
         else if action_has a ''datasource.deleted'' then Some ''Data source removed''
         else if action_has a ''datasource.scan_started'' then
           map_option (\<lambda>t. ''Scan started on '' @ quoted t) (detail_text cv details ''name'' ''data source'')
         else if action_has a ''classification'' then Some (''Classification '' @ actionType a @ '' on dataset'')
         else if action_has a ''policy'' then
           map_option (\<lambda>t. ''Policy '' @ quoted t @ '' '' @ actionType a) (detail_text cv details ''name'' [])
         else Some (to_str cv (resourceType run) @ '' '' @ actionType a))"

record activity_line =
  al_icon :: string
  al_text :: string
  al_time :: js
  al_ip :: "js option"
  al_badge :: "string \<times> string"

definition activity_line_of :: "conversions \<Rightarrow> (string \<Rightarrow> js option) \<Rightarrow> js \<Rightarrow> activity_line option" where
  "activity_line_of cv parse run =
     (case Option.bind (activity_details parse (jprop ''details'' run)) (getDescription cv run) of
        None \<Rightarrow> None
      | Some t \<Rightarrow>
          (let a = jprop ''action'' run; ip = jprop ''ip'' run
           in Some \<lparr>al_icon = getActionIcon a, al_text = t, al_time = jprop ''created_at'' run,
                    al_ip = (if truthy ip then Some ip else None), al_badge = (getActionColor a, actionType a)\<rparr>))"

text \<open>The lines, or none of the page when one of them throws\<close>

definition activity_feed :: "conversions \<Rightarrow> (string \<Rightarrow> js option) \<Rightarrow> js \<Rightarrow> activity_line list option" where
  "activity_feed cv parse auditTrail =
     (let ls = map (activity_line_of cv parse) (take 4 (elements auditTrail))
      in if None \<in> set ls then None else Some (map the ls))"

section \<open>The sidebar and the last row\<close>

definition overall_part :: "js \<Rightarrow> js" where
  "overall_part riskScore = js_or (jprop ''overall_score'' riskScore) (JNum (Fin 0))"

text \<open>The circle: its length in percent, its tone, and its text\<close>

definition score_circle :: "js \<Rightarrow> jsnum \<times> string \<times> string" where
  "score_circle riskScore =
     (num_scale 100 (number_of (overall_part riskScore)), score_tone (number_of (jprop ''overall_score'' riskScore)),
      num_fixed 0 (percent_round (overall_part riskScore)) @ ''%'')"

definition dashboard_regulations :: "(string \<times> string \<times> rat option) list" where
  "dashboard_regulations =
     [(''GDPR'', ''gdpr_score'', Some (75 / 100)), (''CCPA'', ''ccpa_score'', Some (82 / 100)),
      (''HIPAA'', ''hipaa_score'', Some (68 / 100)), (''PCI-DSS'', ''pci_score'', None), (''DPDP 2023'', ''dpdp_score'', None),
      (''UAE PDPL'', ''uae_pdpl_score'', None), (''EU AI Act'', ''eu_ai_act_score'', None)]"

definition regulation_pct :: "js \<Rightarrow> rat option \<Rightarrow> jsnum option" where
  "regulation_pct v fallback =
     (if \<not> nullish v then Some (percent_round v) else map_option (\<lambda>q. num_round (Fin (q * 100))) fallback)"

definition regulation_rows :: "js \<Rightarrow> (string \<times> jsnum option) list" where
  "regulation_rows riskScore =
     map (\<lambda>(label, k, fallback). (label, regulation_pct (jprop k riskScore) fallback)) dashboard_regulations"

definition pct_text :: "jsnum option \<Rightarrow> string" where
  "pct_text p = (case p of None \<Rightarrow> ''N/A'' | Some n \<Rightarrow> num_fixed 0 n @ ''%'')"

definition gaps_note :: "js \<Rightarrow> string" where
  "gaps_note gaps =
     nat_str (length (filter (\<lambda>g. \<not> is_str (jprop ''status'' g) ''resolved'') (elements gaps))) @ '' compliance gaps to address''"

definition dashboard_recommendations :: "js \<Rightarrow> (string \<times> js \<times> js) list" where
  "dashboard_recommendations recs =
     map (\<lambda>r. (if is_str (jprop ''priority'' r) ''high'' then ''red''
               else if is_str (jprop ''priority'' r) ''medium'' then ''yellow'' else ''blue'',
               jprop ''title'' r, jprop ''description'' r))
       (take 3 (elements recs))"

definition gate_figures :: "js \<Rightarrow> (string \<times> js) list" where
  "gate_figures gateStats =
     map (\<lambda>(label, k). (label, js_or (jprop k gateStats) (JNum (Fin 0))))
       [(''Total Queries'', ''total_queries''), (''Allowed'', ''allowed_queries''), (''Blocked'', ''blocked_queries'')]"

definition source_lines :: "js \<Rightarrow> (js \<times> cell) list" where
  "source_lines dataSources =
     map (\<lambda>ds. (jprop ''name'' ds,
               Status (JStr (if is_connected ds then ''success''
                             else if is_str (jprop ''status'' ds) ''scanning'' then ''pending'' else ''error''))
                 (jprop ''status'' ds)))
       (take 5 (elements dataSources))"

section \<open>The scores\<close>

lemma regulation_row_shown:
  "regulation_pct (num_rat (risk_regulation_score k x)) f = Some (Fin (of_int (math_round (100 * risk_regulation_score k x))))"
  by (simp add: regulation_pct_def num_rat_def percent_round_def)

lemma rounded_bounds:
  assumes "35 / 100 \<le> q" "q \<le> 1"
  shows "35 \<le> math_round (100 * q) \<and> math_round (100 * q) \<le> 100"
  using assms by (simp add: math_round_def le_floor_iff floor_le_iff)

text \<open>
  C36. With the answer of the server every regulation shows its own score, from 35 to 100 percent; when the
  score cannot be loaded the overall score is 0% while scores of 75, 82 and 68 percent are shown for
  GDPR, CCPA and HIPAA.
\<close>
theorem dashboard_scores:
  "list_all (\<lambda>(label, p). case p of Some (Fin q) \<Rightarrow> 35 \<le> q \<and> q \<le> 100 | _ \<Rightarrow> False)
     (regulation_rows (the (rs_json (getRiskScore c s))))
   \<and> map snd (regulation_rows (the (rs_json (getRiskScore c s))))
     = map (\<lambda>(key, x). Some (Fin (of_int (math_round (100 * risk_regulation_score (risk_counts_of c s) x))))) scored_regulations
   \<and> map (\<lambda>(label, p). (label, pct_text p)) (regulation_rows JUndef)
     = [(''GDPR'', ''75%''), (''CCPA'', ''82%''), (''HIPAA'', ''68%''), (''PCI-DSS'', ''N/A''), (''DPDP 2023'', ''N/A''),
        (''UAE PDPL'', ''N/A''), (''EU AI Act'', ''N/A'')]
   \<and> score_circle JUndef = (Fin 0, ''red'', ''0%'')"
proof -
  define k where "k = risk_counts_of c s"
  have d: "the (rs_json (getRiskScore c s)) = risk_json k" by (simp add: getRiskScore_def answer_def k_def)
  have rows: "map snd (regulation_rows (risk_json k))
    = map (\<lambda>(key, x). Some (Fin (of_int (math_round (100 * risk_regulation_score k x))))) scored_regulations"
    by (simp add: regulation_rows_def dashboard_regulations_def risk_json_def scored_regulations_def regulation_row_shown)
  have "35 \<le> math_round (100 * risk_regulation_score k x)" "math_round (100 * risk_regulation_score k x) \<le> 100" for x
    using rounded_bounds calculateRegulationScore_bounds unfolding risk_regulation_score_def by blast+
  then have "list_all (\<lambda>p. case p of Some (Fin q) \<Rightarrow> 35 \<le> q \<and> q \<le> 100 | _ \<Rightarrow> False) (map snd (regulation_rows (risk_json k)))"
    unfolding rows by (simp add: scored_regulations_def)
  then have "list_all (\<lambda>(label, p). case p of Some (Fin q) \<Rightarrow> 35 \<le> q \<and> q \<le> 100 | _ \<Rightarrow> False) (regulation_rows (risk_json k))"
    by (simp add: list_all_iff split_beta)
  moreover have "map (\<lambda>(label, p). (label, pct_text p)) (regulation_rows JUndef)
     = [(''GDPR'', ''75%''), (''CCPA'', ''82%''), (''HIPAA'', ''68%''), (''PCI-DSS'', ''N/A''), (''DPDP 2023'', ''N/A''),
        (''UAE PDPL'', ''N/A''), (''EU AI Act'', ''N/A'')]"
    by code_simp
  moreover have "score_circle JUndef = (Fin 0, ''red'', ''0%'')" by code_simp
  ultimately show ?thesis using rows unfolding d by (simp add: k_def)
qed

section \<open>The same figures on two pages\<close>

lemma round_zero: "math_round 0 = 0"
  by code_simp

text \<open>
  The dashboard and the page of the advisor show the same of the same answers, in whatever state these
  are: the score on the card and in the circle, the number of open gaps, and the first three
  recommendations.
\<close>
theorem dashboard_agrees:
  "(\<exists>t. sc_value (advisor_cards (advisor_stats_of recs gaps risk) ! 0) = JStr t
      \<and> dc_value (dashboard_stats sources gate analytics risk ! 3) = text_of t \<and> snd (snd (score_circle risk)) = t)
   \<and> (\<exists>n. sc_value (advisor_cards (advisor_stats_of recs gaps risk) ! 2) = JStr n
      \<and> gaps_note gaps = n @ '' compliance gaps to address'')
   \<and> map (\<lambda>(tone, t, d). Some (Txt t)) (dashboard_recommendations recs)
     = take 3 (map (\<lambda>card. map_of card ''title'') (top_recommendations opened recs))"
proof -
  have "num_fixed 0 (percent_round (overall_part risk)) @ ''%'' = num_fixed 0 (complianceScore risk) @ ''%''"
    using round_zero by (simp add: overall_part_def complianceScore_def js_or_def percent_round_def)
  then show ?thesis
    by (simp add: advisor_cards_def advisor_stats_of_def figure_card_def dashboard_stats_def Let_def complianceScore_def
        score_circle_def gaps_note_def dashboard_recommendations_def top_recommendations_def take_map
        RecommendationCard_def recommendation_header_def comp_def)
qed

text \<open>Details that are objects, as the server stores them, or absent never make the feed throw.\<close>

lemma described:
  assumes "\<not> is_string (jprop ''details'' run)"
  shows "activity_line_of cv parse run \<noteq> None"
proof -
  obtain d where d: "activity_details parse (jprop ''details'' run) = Some d" "\<not> nullish d"
    using assms
    by (cases "jprop ''details'' run") (auto simp: activity_details_def js_or_def)
  then have "getDescription cv run d \<noteq> None"
    by (simp add: getDescription_def detail_text_def Let_def)
  with d show ?thesis by (auto simp: activity_line_of_def Let_def)
qed

lemma activity_feed_shown:
  assumes "list_all (\<lambda>r. \<not> is_string (jprop ''details'' r)) (elements d)"
  shows "\<exists>ls. activity_feed cv parse d = Some ls \<and> length ls = min 4 (length (elements d))"
proof -
  have "None \<notin> activity_line_of cv parse ` set (take 4 (elements d))"
  proof
    assume "None \<in> activity_line_of cv parse ` set (take 4 (elements d))"
    then obtain r where "r \<in> set (elements d)" "activity_line_of cv parse r = None"
      by (auto dest: in_set_takeD)
    with assms described [of r cv parse] show False by (simp add: list_all_iff)
  qed
  then show ?thesis by (simp add: activity_feed_def Let_def min.commute)
qed

text \<open>The card writes the count as a percentage: its note is followed by the sign.\<close>

lemma connected_as_percentage:
  "sv_note (StatCard \<lparr>sc_label = JUndef, sc_title = JUndef, sc_value = JUndef,
     sc_change = dc_change (dashboard_stats sources gate analytics risk ! 0), sc_changeLabel = JUndef, sc_trend = None\<rparr>)
   = Some (JNum (num_of_nat (length (filter is_connected (elements sources)))))"
  by (simp add: dashboard_stats_def Let_def StatCard_def)

end
