(* ===== verification/GoQuality.thy ===== *)
theory GoQuality
  imports GoAdvisor
begin

text \<open>
  Data quality on the server: the summary of \<open>internal/api/quality_privacy.go\<close>, and the profiles and
  critical data elements of \<open>internal/api/dpia_cde_profiling.go\<close>. Rows are newest first; a query that names
  a column its table does not have fails (\<open>sql\<close>), and the handlers go on with zero. The handlers' rows of
  the audit log have an empty user.
\<close>

section \<open>The database\<close>

record quality_source =
  qs_id :: string
  qs_tenant :: string
  qs_name :: string
  qs_type :: string
  qs_status :: string
  qs_updated :: int

record classified_value =
  kv_tenant :: string
  kv_dataset :: "string option"
  kv_type :: string
  kv_value :: "string option"
  kv_confidence :: "rat option"
  kv_context :: "js option"
  kv_sample :: "string option"
  kv_cells :: "(string \<times> js) list"

record score_row =
  ws_tenant :: string
  ws_dataset :: string
  ws_overall :: "rat option"
  ws_dimensions :: "rat option list"

record rot_row =
  wr_tenant :: string
  wr_dataset :: string
  wr_category :: string
  wr_cells :: "(string \<times> js) list"

record profile_row =
  wp_id :: string
  wp_tenant :: string
  wp_source :: string
  wp_data :: js

record critical_element =
  el_id :: string
  el_tenant :: string
  el_source :: "string option"
  el_column :: string
  el_table :: string
  el_definition :: string
  el_owner :: string
  el_criticality :: string
  el_created :: int

record quality_db =
  qd_sources :: "quality_source list"
  qd_values :: "classified_value list"
  qd_scores :: "score_row list"
  qd_rot :: "rot_row list"
  qd_profiles :: "profile_row list"
  qd_elements :: "critical_element list"
  qd_logs :: "log_row list"

record quality_env =
  qe_time :: "int \<Rightarrow> string"
  qe_uuid :: "string \<Rightarrow> bool"
  qe_order :: "string list \<Rightarrow> string list"

definition log_unnamed ::
  "quality_env \<Rightarrow> string \<Rightarrow> string \<Rightarrow> string \<Rightarrow> string \<Rightarrow> int \<Rightarrow> caller \<Rightarrow> quality_db \<Rightarrow> quality_db" where
  "log_unnamed e l action resource i now c s =
     (if qe_uuid e []
      then s\<lparr>qd_logs := \<lparr>lr_id = l, lr_tenant = ca_tenant c, lr_user = Some [], lr_action = action,
             lr_resource = Some resource, lr_resource_id = Some i, lr_details = None, lr_ip = Some [],
             lr_created = now\<rparr> # qd_logs s\<rparr>
      else s)"

section \<open>The summary\<close>

definition roundScore :: "rat \<Rightarrow> rat" where
  "roundScore q = (if q < 0 then 0 else if q > 1 then 1 else of_int \<lfloor>q * 100 + 1 / 2\<rfloor> / 100)"

definition values_of :: "caller \<Rightarrow> quality_db \<Rightarrow> classified_value list" where
  "values_of c s = filter (\<lambda>v. kv_tenant v = ca_tenant c) (qd_values s)"

definition sources_of :: "caller \<Rightarrow> quality_db \<Rightarrow> quality_source list" where
  "sources_of c s = filter (\<lambda>d. qs_tenant d = ca_tenant c) (qd_sources s)"

definition column_count :: "(classified_value \<Rightarrow> bool) \<Rightarrow> classified_value list \<Rightarrow> nat" where
  "column_count f vs =
     (case sql ''classifications'' [''column_name'', ''tenant_id'', ''confidence'', ''entity_type'']
             (card (set (List.map_filter (\<lambda>v. map_of (kv_cells v) ''column_name'') (filter f vs)))) of
        None \<Rightarrow> 0 | Some n \<Rightarrow> n)"

definition below :: "rat \<Rightarrow> rat option \<Rightarrow> bool" where
  "below q v = (case v of None \<Rightarrow> False | Some r \<Rightarrow> r < q)"

definition calcCompletenessScore :: "caller \<Rightarrow> quality_db \<Rightarrow> rat" where
  "calcCompletenessScore c s =
     (let vs = values_of c s; all_of = column_count (\<lambda>v. True) vs;
          nully = column_count (\<lambda>v. below (2 / 10) (kv_confidence v) \<or> kv_type v = ''UNKNOWN'') vs
      in if all_of = 0 then 0 else roundScore (1 - rat_of_nat nully / rat_of_nat all_of))"

definition calcAccuracyScore :: "caller \<Rightarrow> quality_db \<Rightarrow> rat" where
  "calcAccuracyScore c s = roundScore (average (map kv_confidence (values_of c s)))"

definition share_of :: "(quality_source \<Rightarrow> bool) \<Rightarrow> quality_source list \<Rightarrow> rat" where
  "share_of f ds = (if ds = [] then 0 else roundScore (rat_of_nat (length (filter f ds)) / rat_of_nat (length ds)))"

definition calcConsistencyScore :: "caller \<Rightarrow> quality_db \<Rightarrow> rat" where
  "calcConsistencyScore c s =
     share_of (\<lambda>d. qs_status d \<in> {''active'', ''completed'', ''connected''}) (sources_of c s)"

definition calcTimelinessScore :: "int \<Rightarrow> caller \<Rightarrow> quality_db \<Rightarrow> rat" where
  "calcTimelinessScore now c s = share_of (\<lambda>d. qs_updated d \<ge> now - days_ms 30) (sources_of c s)"

definition redundant_count :: "caller \<Rightarrow> quality_db \<Rightarrow> nat" where
  "redundant_count c s =
     (case sql ''rot_data'' [''dataset_id'', ''tenant_id'', ''type'']
             (card (wr_dataset ` set (filter (\<lambda>r. wr_tenant r = ca_tenant c
                      \<and> map_of (wr_cells r) ''type'' = Some (JStr ''redundant'')) (qd_rot s)))) of
        None \<Rightarrow> 0 | Some n \<Rightarrow> n)"

definition calcUniquenessScore :: "caller \<Rightarrow> quality_db \<Rightarrow> rat" where
  "calcUniquenessScore c s =
     (let n = length (sources_of c s); redundant = redundant_count c s
      in if n = 0 then 0 else if redundant \<ge> n then 1 / 10
         else roundScore (1 - rat_of_nat redundant / rat_of_nat n))"

text \<open>Of the five dimensions, the average of their rows, or the estimate when there is no row at all\<close>

definition dimension_names :: "string list" where
  "dimension_names = [''completeness'', ''accuracy'', ''consistency'', ''timeliness'', ''uniqueness'']"

definition estimated :: "int \<Rightarrow> caller \<Rightarrow> quality_db \<Rightarrow> rat list" where
  "estimated now c s =
     [calcCompletenessScore c s, calcAccuracyScore c s, calcConsistencyScore c s, calcTimelinessScore now c s,
      calcUniquenessScore c s]"

definition scores_of :: "caller \<Rightarrow> quality_db \<Rightarrow> score_row list" where
  "scores_of c s = filter (\<lambda>r. ws_tenant r = ca_tenant c) (qd_scores s)"

definition summary_scores :: "int \<Rightarrow> caller \<Rightarrow> quality_db \<Rightarrow> rat \<times> rat list" where
  "summary_scores now c s =
     (let rs = scores_of c s
      in if rs = [] then (sum_list (estimated now c s) / 5, estimated now c s)
         else (average (map ws_overall rs), map (\<lambda>k. average (map (\<lambda>r. ws_dimensions r ! k) rs)) [0..<5]))"

definition issues_found :: "caller \<Rightarrow> quality_db \<Rightarrow> nat" where
  "issues_found c s =
     card (ws_dataset ` set (filter (\<lambda>r. below (7 / 10) (ws_overall r)) (scores_of c s)))
     + length (filter (\<lambda>d. qs_id d \<notin> ws_dataset ` set (scores_of c s)) (sources_of c s))"

definition getQualitySummary :: "int \<Rightarrow> caller \<Rightarrow> quality_db \<Rightarrow> raw_response" where
  "getQualitySummary now c s =
     (case summary_scores now c s of
        (overall, dimensions) \<Rightarrow>
          answer 200 (JObj ([(''overall_score'', num_rat overall)] @ zip dimension_names (map num_rat dimensions)
            @ [(''total_datasets'', count_json (card (ws_dataset ` set (scores_of c s)))),
               (''issues_found'', count_json (issues_found c s))])))"

section \<open>Profiles\<close>

definition inferColumnType :: "string \<Rightarrow> string \<Rightarrow> string" where
  "inferColumnType name et =
     (let col = to_lower name; has = (\<lambda>w. str_includes col w)
      in if et = ''EMAIL'' then ''email'' else if et = ''PHONE'' then ''phone''
         else if et = ''SSN'' \<or> et = ''CREDIT_CARD'' then ''sensitive_id'' else if et = ''DATE_OF_BIRTH'' then ''date''
         else if has ''id'' \<or> has ''uuid'' then ''identifier''
         else if has ''date'' \<or> has ''time'' \<or> has ''at'' then ''timestamp''
         else if has ''amount'' \<or> has ''price'' \<or> has ''total'' then ''numeric''
         else if has ''count'' \<or> has ''num'' \<or> has ''qty'' then ''integer''
         else if has ''flag'' \<or> has ''active'' \<or> has ''enabled'' then ''boolean''
         else ''text'')"

definition estimateNullRate :: "string \<Rightarrow> rat" where
  "estimateNullRate name =
     (let col = to_lower name; has = (\<lambda>w. str_includes col w)
      in if has ''id'' \<or> col = ''name'' \<or> col = ''email'' then 0
         else if has ''optional'' \<or> has ''note'' \<or> has ''comment'' then 15 else 5 / 2)"

definition estimateDistinctCount :: "string \<Rightarrow> nat" where
  "estimateDistinctCount name =
     (let col = to_lower name; has = (\<lambda>w. str_includes col w)
      in if has ''id'' \<or> has ''uuid'' \<or> col = ''email'' then 10000
         else if has ''status'' \<or> has ''type'' \<or> has ''category'' then 8 else 500)"

definition isPIIEntityType :: "string \<Rightarrow> bool" where
  "isPIIEntityType et \<longleftrightarrow>
     et \<in> set [''EMAIL'', ''PHONE'', ''SSN'', ''CREDIT_CARD'', ''DATE_OF_BIRTH'', ''PASSPORT'', ''DRIVER_LICENSE'',
              ''BANK_ACCOUNT'', ''IBAN'', ''IP_ADDRESS'', ''MEDICAL_RECORD'', ''HEALTH_INSURANCE_ID'']"

record column_profile =
  kp_column :: string
  kp_inferred :: string
  kp_entity :: string
  kp_confidence :: rat
  kp_null_rate :: rat
  kp_distinct :: nat
  kp_samples :: "string list"
  kp_is_pii :: bool

definition column_of :: "classified_value \<Rightarrow> string" where
  "column_of v =
     (case kv_context v of
        Some (JObj fs) \<Rightarrow>
          (case jprop ''column_name'' (JObj fs) of JStr t \<Rightarrow> (if t = [] then kv_type v else t) | _ \<Rightarrow> kv_type v)
      | _ \<Rightarrow> kv_type v)"

definition fresh_profile :: "classified_value \<Rightarrow> column_profile" where
  "fresh_profile v =
     (let col = column_of v; et = kv_type v
      in \<lparr>kp_column = col, kp_inferred = inferColumnType col et, kp_entity = et,
          kp_confidence = (case kv_confidence v of None \<Rightarrow> 0 | Some q \<Rightarrow> q),
          kp_null_rate = estimateNullRate col, kp_distinct = estimateDistinctCount col, kp_samples = [],
          kp_is_pii = isPIIEntityType et\<rparr>)"

definition sampled :: "classified_value \<Rightarrow> column_profile \<Rightarrow> column_profile" where
  "sampled v p =
     (case kv_sample v of
        None \<Rightarrow> p
      | Some t \<Rightarrow> (if t \<noteq> [] \<and> length (kp_samples p) < 3 then p\<lparr>kp_samples := kp_samples p @ [t]\<rparr> else p))"

fun profile_value :: "classified_value \<Rightarrow> column_profile list \<Rightarrow> column_profile list" where
  "profile_value v [] = [sampled v (fresh_profile v)]"
| "profile_value v (p # ps) = (if kp_column p = column_of v then sampled v p # ps else p # profile_value v ps)"

definition generateSyntheticProfile :: "column_profile list" where
  "generateSyntheticProfile =
     map (\<lambda>(col, t, nulls, n, samples). \<lparr>kp_column = col, kp_inferred = t, kp_entity = [], kp_confidence = 0,
            kp_null_rate = nulls, kp_distinct = n, kp_samples = samples, kp_is_pii = False\<rparr>)
       [(''id'', ''identifier'', 0, 10000, [''uuid-1234'', ''uuid-5678'']),
        (''created_at'', ''timestamp'', 0, 9876, [''2024-01-15T10:30:00Z'']),
        (''updated_at'', ''timestamp'', 2, 9800, [''2024-06-01T14:22:00Z''])]"

definition column_json :: "column_profile \<Rightarrow> js" where
  "column_json p =
     JObj [(''column_name'', JStr (kp_column p)), (''inferred_type'', JStr (kp_inferred p)),
           (''entity_type'', JStr (kp_entity p)), (''confidence'', num_rat (kp_confidence p)),
           (''null_rate'', num_rat (kp_null_rate p)), (''distinct_count'', count_json (kp_distinct p)),
           (''sample_values'', JArr (map JStr (kp_samples p))), (''is_pii'', JBool (kp_is_pii p))]"

text \<open>
  The values of a source that are read: a row whose value or confidence is NULL does not scan, the error
  is dropped, and the rows before it are what was read. Then the columns; a map gives them in any order
  (\<open>qe_order\<close> permutes its keys).
\<close>

definition value_scans :: "classified_value \<Rightarrow> bool" where
  "value_scans v \<longleftrightarrow> kv_value v \<noteq> None \<and> kv_confidence v \<noteq> None"

definition profiled_values :: "string \<Rightarrow> caller \<Rightarrow> quality_db \<Rightarrow> classified_value list" where
  "profiled_values i c s =
     takeWhile value_scans (take 100 (filter (\<lambda>v. kv_dataset v = Some i) (values_of c s)))"

definition profiled_columns :: "string \<Rightarrow> caller \<Rightarrow> quality_db \<Rightarrow> column_profile list" where
  "profiled_columns i c s =
     (let ps = fold profile_value (profiled_values i c s) [] in if ps = [] then generateSyntheticProfile else ps)"

definition in_map_order :: "quality_env \<Rightarrow> column_profile list \<Rightarrow> column_profile list" where
  "in_map_order e ps =
     List.map_filter (\<lambda>k. find (\<lambda>p. kp_column p = k) ps) (qe_order e (map kp_column ps))"

definition profile_json :: "quality_env \<Rightarrow> int \<Rightarrow> quality_source \<Rightarrow> column_profile list \<Rightarrow> js" where
  "profile_json e now d ps =
     JObj [(''datasource_id'', JStr (qs_id d)), (''datasource_name'', JStr (qs_name d)), (''datasource_type'', JStr (qs_type d)),
           (''columns'', JArr (map column_json ps)), (''total_columns'', count_json (length ps)),
           (''pii_columns'', count_json (length (filter kp_is_pii ps))), (''profiled_at'', JStr (qe_time e now))]"

definition own_profile :: "string \<Rightarrow> caller \<Rightarrow> profile_row \<Rightarrow> bool" where
  "own_profile i c r \<longleftrightarrow> wp_tenant r = ca_tenant c \<and> wp_source r = i"

definition store_profile :: "string \<Rightarrow> string \<Rightarrow> js \<Rightarrow> caller \<Rightarrow> quality_db \<Rightarrow> quality_db" where
  "store_profile n i d c s =
     (case find (own_profile i c) (qd_profiles s) of
        Some r \<Rightarrow> s\<lparr>qd_profiles := map (\<lambda>r'. if wp_id r' = wp_id r then r'\<lparr>wp_data := d\<rparr> else r') (qd_profiles s)\<rparr>
      | None \<Rightarrow>
          s\<lparr>qd_profiles := \<lparr>wp_id = n, wp_tenant = ca_tenant c, wp_source = i, wp_data = d\<rparr> # qd_profiles s\<rparr>)"

definition autoProfileDataSource ::
  "quality_env \<Rightarrow> int \<Rightarrow> string \<Rightarrow> string \<Rightarrow> caller \<Rightarrow> quality_db \<Rightarrow> raw_response \<times> quality_db" where
  "autoProfileDataSource e now n i c s =
     (case find (\<lambda>d. qs_id d = i) (sources_of c s) of
        None \<Rightarrow> (error_answer 404 ''datasource not found'', s)
      | Some d \<Rightarrow>
          (let profile = profile_json e now d (in_map_order e (profiled_columns i c s))
           in (answer 200 profile,
               log_unnamed e n ''datasource_profiled'' ''datasource'' i now c (store_profile n i profile c s))))"

definition getDataProfile :: "string \<Rightarrow> caller \<Rightarrow> quality_db \<Rightarrow> raw_response" where
  "getDataProfile i c s =
     (case find (own_profile i c) (qd_profiles s) of
        None \<Rightarrow> answer 200 (JObj [(''status'', JStr ''not_profiled''), (''datasource_id'', JStr i)])
      | Some r \<Rightarrow> answer 200 (wp_data r))"

section \<open>Critical data elements\<close>

definition element_fields :: "quality_env \<Rightarrow> critical_element \<Rightarrow> (string \<times> js) list" where
  "element_fields e r =
     [(''column_name'', JStr (el_column r)), (''table_name'', JStr (el_table r)),
      (''business_definition'', JStr (el_definition r)), (''data_owner'', JStr (el_owner r)),
      (''criticality'', JStr (el_criticality r)), (''quality_score'', num_rat 0), (''created_at'', JStr (qe_time e (el_created r)))]"

definition null_string :: "string option \<Rightarrow> js" where
  "null_string v = JObj [(''String'', JStr (deref_text v)), (''Valid'', JBool (v \<noteq> None))]"

definition createCDE ::
  "quality_env \<Rightarrow> int \<Rightarrow> string \<Rightarrow> js \<Rightarrow> caller \<Rightarrow> quality_db \<Rightarrow> raw_response \<times> quality_db" where
  "createCDE e now n body c s =
     (case body_texts [''datasource_id'', ''column_name'', ''table_name'', ''business_definition'', ''data_owner'', ''criticality''] body of
        Some [source, column, table, defn, owner, criticality] \<Rightarrow>
          (if column = [] \<or> table = [] then (error_answer 400 ''bad request'', s)
           else if source \<noteq> [] \<and> \<not> qe_uuid e source then (error_answer 500 ''database error'', s)
           else
             (let r = \<lparr>el_id = n, el_tenant = ca_tenant c, el_source = (if source = [] then None else Some source),
                       el_column = column, el_table = table, el_definition = defn, el_owner = owner,
                       el_criticality = (if criticality = [] then ''medium'' else criticality), el_created = now\<rparr>
              in (answer 201 (JObj ([(''id'', JStr n), (''datasource_id'', null_string (el_source r))] @ element_fields e r
                                @ [(''updated_at'', JStr (qe_time e now))])),
                  log_unnamed e n ''cde_created'' ''critical_data_element'' n now c (s\<lparr>qd_elements := r # qd_elements s\<rparr>))))
      | _ \<Rightarrow> (error_answer 400 ''bad request'', s))"

text \<open>The source of an element is looked up by its id alone.\<close>

definition element_source :: "critical_element \<Rightarrow> quality_db \<Rightarrow> (string \<times> js) list" where
  "element_source r s =
     (case Option.bind (el_source r) (\<lambda>i. find (\<lambda>d. qs_id d = i) (qd_sources s)) of
        None \<Rightarrow> [] | Some d \<Rightarrow> [(''datasource_name'', JStr (qs_name d)), (''datasource_type'', JStr (qs_type d))])"

definition element_json :: "quality_env \<Rightarrow> quality_db \<Rightarrow> critical_element \<Rightarrow> js" where
  "element_json e s r =
     JObj ([(''id'', JStr (el_id r)), (''datasource_id'', JStr (deref_text (el_source r)))] @ element_fields e r @ element_source r s)"

definition listCDEs :: "quality_env \<Rightarrow> nat \<times> nat \<Rightarrow> caller \<Rightarrow> quality_db \<Rightarrow> raw_response" where
  "listCDEs e lo c s =
     answer 200 (JArr (map (element_json e s)
       (page_of lo (filter (\<lambda>r. el_tenant r = ca_tenant c) (qd_elements s)))))"

definition deleteCDE ::
  "quality_env \<Rightarrow> int \<Rightarrow> string \<Rightarrow> string \<Rightarrow> caller \<Rightarrow> quality_db \<Rightarrow> raw_response \<times> quality_db" where
  "deleteCDE e now l i c s =
     (if \<not> qe_uuid e i then (error_answer 500 ''database error'', s)
      else if \<not> list_ex (\<lambda>r. el_id r = i \<and> el_tenant r = ca_tenant c) (qd_elements s)
      then (error_answer 404 ''CDE not found'', s)
      else (answer 200 (JObj [(''status'', JStr ''deleted'')]),
            log_unnamed e l ''cde_deleted'' ''critical_data_element'' i now c
              (s\<lparr>qd_elements := filter (\<lambda>r. \<not> (el_id r = i \<and> el_tenant r = ca_tenant c)) (qd_elements s)\<rparr>)))"

section \<open>The routes\<close>

definition quality_route ::
  "quality_env \<Rightarrow> int \<Rightarrow> string \<Rightarrow> nat \<times> nat \<Rightarrow> caller \<Rightarrow> api_request \<Rightarrow> quality_db \<Rightarrow> raw_response \<times> quality_db" where
  "quality_route e now n lo c rq s =
     (case split_on (CHR ''/'') (a_url rq) of
        [lead, base] \<Rightarrow>
          (if lead \<noteq> [] \<or> base \<noteq> ''cde'' then (not_routed, s)
           else (case a_method rq of
                   GET \<Rightarrow> (listCDEs e lo c s, s) | POST \<Rightarrow> createCDE e now n (a_body rq) c s | _ \<Rightarrow> (not_routed, s)))
      | [lead, base, op] \<Rightarrow>
          (if lead = [] \<and> base = ''cde'' \<and> a_method rq = DELETE then deleteCDE e now n op c s
           else if lead = [] \<and> base = ''quality'' \<and> op = ''summary'' \<and> a_method rq = GET then (getQualitySummary now c s, s)
           else (not_routed, s))
      | [lead, base, area, i] \<Rightarrow>
          (if lead \<noteq> [] \<or> base \<noteq> ''quality'' \<or> area \<noteq> ''profile'' then (not_routed, s)
           else (case a_method rq of
                   GET \<Rightarrow> (getDataProfile i c s, s) | POST \<Rightarrow> autoProfileDataSource e now n i c s | _ \<Rightarrow> (not_routed, s)))
      | _ \<Rightarrow> (not_routed, s))"

definition quality_served :: "quality_env \<Rightarrow> nat \<times> nat \<Rightarrow> caller \<Rightarrow> int \<Rightarrow> string \<Rightarrow> quality_db server" where
  "quality_served e lo c now n rq s = apfst axios_reply (quality_route e now n lo c rq s)"

end
