(* ===== verification/FeQuality.thy ===== *)
theory FeQuality
  imports GoQuality FeAdvisor
begin

text \<open>
  The pages of data quality, \<open>app/(app)/quality/page.tsx\<close>, and of critical data elements,
  \<open>app/(app)/quality/cde/page.tsx\<close>, with the server of theory \<open>GoQuality\<close>. The sources are those the cache
  holds. A browser submits the form of an element only when its required fields are filled.
\<close>

section \<open>The page of quality\<close>

definition hasQualityData :: "js \<Rightarrow> bool" where
  "hasQualityData trends \<longleftrightarrow> elements trends \<noteq> []"

record quality_stats =
  ty_avgScore :: jsnum
  ty_datasetsAssessed :: nat
  ty_issuesFound :: js
  ty_improvement :: nat

definition trend_score :: "js list \<Rightarrow> jsnum" where
  "trend_score ts = num_round (num_scale (100 / rat_of_nat (length ts)) (sum_counts ''overall'' ts))"

definition quality_stats_of :: "js \<Rightarrow> js \<Rightarrow> js \<Rightarrow> quality_stats" where
  "quality_stats_of trends dimensions dataSources =
     (let assessed = length (elements dataSources)
      in if truthy dimensions then
           \<lparr>ty_avgScore = percent_round (coalesce (jprop ''overall_score'' dimensions) (JNum (Fin 0))),
            ty_datasetsAssessed = assessed, ty_issuesFound = coalesce (jprop ''issues_found'' dimensions) (JNum (Fin 0)),
            ty_improvement = 0\<rparr>
         else if \<not> hasQualityData trends then
           \<lparr>ty_avgScore = Fin 0, ty_datasetsAssessed = assessed, ty_issuesFound = JNum (Fin 0), ty_improvement = 0\<rparr>
         else
           \<lparr>ty_avgScore = trend_score (elements trends), ty_datasetsAssessed = assessed, ty_issuesFound = JNum (Fin 0),
            ty_improvement = 0\<rparr>)"

definition shown_dimensions :: "(string \<times> string) list" where
  "shown_dimensions =
     [(''Completeness'', ''completeness''), (''Accuracy'', ''accuracy''), (''Consistency'', ''consistency''),
      (''Timeliness'', ''timeliness''), (''Uniqueness'', ''uniqueness'')]"

definition dimScores :: "js \<Rightarrow> (string \<times> jsnum) list option" where
  "dimScores dimensions =
     (if truthy dimensions
      then Some (map (\<lambda>(label, k). (label, percent_round (coalesce (jprop k dimensions) (JNum (Fin 0))))) shown_dimensions)
      else None)"

definition hasDimensions :: "js \<Rightarrow> bool" where
  "hasDimensions dimensions \<longleftrightarrow>
     (case dimScores dimensions of None \<Rightarrow> False | Some ds \<Rightarrow> list_ex (\<lambda>(label, n). num_lt (Fin 0) n) ds)"

definition quality_cards :: "js \<Rightarrow> js \<Rightarrow> js \<Rightarrow> (string \<times> string \<times> (rat \<times> string) option) list" where
  "quality_cards trends dimensions dataSources =
     (let k = quality_stats_of trends dimensions dataSources; any_data = hasDimensions dimensions \<or> hasQualityData trends;
          good = num_le (Fin 80) (ty_avgScore k)
      in [(''Overall Score'', if any_data then num_fixed 0 (ty_avgScore k) @ ''%'' else ''-'',
           if any_data then Some (if good then (1, ''healthy'') else (-1, ''needs attention'')) else None),
          (''Datasets Assessed'', nat_str (ty_datasetsAssessed k), None),
          (''Issues Found'', num_fixed 0 (number_of (ty_issuesFound k)),
           if is_positive (ty_issuesFound k) then Some (-1, ''need attention'') else None),
          (''Improvement'', if any_data then ''+'' @ nat_str (ty_improvement k) @ ''%'' else ''-'',
           if hasQualityData trends then Some (1, ''this month'') else None)])"

definition dimension_tone :: "jsnum \<Rightarrow> string" where
  "dimension_tone n = (if num_le (Fin 90) n then ''green'' else if num_le (Fin 70) n then ''yellow'' else ''red'')"

text \<open>Nothing but a hint while there is no data; else the dimensions, if there are any, and the sources\<close>

definition quality_view :: "bool \<Rightarrow> js \<Rightarrow> js \<Rightarrow> js \<Rightarrow> (string + (string \<times> string \<times> string) list \<times> (js \<times> string) list)" where
  "quality_view isLoading trends dimensions dataSources =
     (if \<not> isLoading \<and> \<not> hasQualityData trends \<and> \<not> hasDimensions dimensions then Inl ''No Quality Assessments Yet''
      else Inr (if hasDimensions dimensions
                then map (\<lambda>(label, n). (label, dimension_tone n, num_fixed 0 n @ ''%'')) (the (dimScores dimensions)) else [],
        if elements dataSources = [] then [(JUndef, ''No datasets to assess'')]
        else map (\<lambda>ds. (jprop ''name'' ds, ''Profile'')) (elements dataSources)))"

section \<open>The profile of a source\<close>

definition profile_header :: "js \<Rightarrow> js \<Rightarrow> cell list" where
  "profile_header datasourceName profile =
     [Seq [Txt datasourceName, Dash, text_of ''Data Profile'']]
     @ (if truthy profile
        then [Seq [Txt (jprop ''total_columns'' profile), text_of '' columns '', Txt (jprop ''pii_columns'' profile),
                   text_of '' PII columns '', When (jprop ''profiled_at'' profile)]] else [])"

definition profile_row_cells :: "js \<Rightarrow> cell list" where
  "profile_row_cells col =
     (let pii = truthy (jprop ''is_pii'' col)
      in [Toned (if pii then ''yellow'' else ''plain'') (Txt (jprop ''column_name'' col)), Txt (jprop ''inferred_type'' col),
          text_of (num_fixed 1 (number_of (jprop ''null_rate'' col)) @ ''%''), Grouped (jprop ''distinct_count'' col),
          Seq (map (\<lambda>v. if pii then text_of ''***'' else Txt v) (take 2 (elements (jprop ''sample_values'' col)))),
          if pii then text_of ''PII'' else Dash])"

definition profile_table :: "js \<Rightarrow> (cell list list) option" where
  "profile_table profile =
     (if \<not> truthy profile \<or> is_str (jprop ''status'' profile) ''not_profiled'' then None
      else Some (map profile_row_cells (elements (jprop ''columns'' profile))))"

text \<open>
  The page shows one profile at most. The request of a new profile and the one that loads it are under way
  together; the first, when it succeeds, makes the page ask again.
\<close>

datatype quality_event = OpenQuality | ShowProfile string | PressAutoProfile string | PressReprofile | CloseProfile

type_synonym 's quality_world = "string option \<times> fe_state \<times> 's"

definition listed_source :: "string \<Rightarrow> fe_state \<Rightarrow> bool" where
  "listed_source i st \<longleftrightarrow> list_ex (\<lambda>ds. is_str (jprop ''id'' ds) i) (elements (query_data useDataSources st))"

definition profile_again :: "fe_env \<Rightarrow> 's server \<Rightarrow> string \<Rightarrow> fe_state \<times> 's \<Rightarrow> fe_state \<times> 's" where
  "profile_again e sv i ws = observe e sv (useDataProfile i) (snd (mutate e sv useAutoProfile i ws))"

fun quality_next :: "fe_env \<Rightarrow> 's server \<Rightarrow> quality_event \<Rightarrow> 's quality_world \<Rightarrow> 's quality_world" where
  "quality_next e sv OpenQuality (p, ws) = (None, observe_all e sv [useQualityTrends, useQualityDimensions] ws)"
| "quality_next e sv (ShowProfile i) (p, st, s) =
     (if listed_source i st then (Some i, observe e sv (useDataProfile i) (st, s)) else (p, st, s))"
| "quality_next e sv (PressAutoProfile i) (p, st, s) =
     (if listed_source i st then (Some i, profile_again e sv i (st, s)) else (p, st, s))"
| "quality_next e sv PressReprofile (p, ws) = (p, case p of None \<Rightarrow> ws | Some i \<Rightarrow> profile_again e sv i ws)"
| "quality_next e sv CloseProfile (p, ws) = (None, ws)"

section \<open>Critical data elements\<close>

record element_form =
  ef_datasource_id :: string
  ef_column_name :: string
  ef_table_name :: string
  ef_business_definition :: string
  ef_data_owner :: string
  ef_criticality :: string

definition initial_element :: element_form where
  "initial_element =
     \<lparr>ef_datasource_id = [], ef_column_name = [], ef_table_name = [], ef_business_definition = [], ef_data_owner = [],
      ef_criticality = ''medium''\<rparr>"

definition element_body :: "element_form \<Rightarrow> js" where
  "element_body f =
     JObj [(''datasource_id'', JStr (ef_datasource_id f)), (''column_name'', JStr (ef_column_name f)),
           (''table_name'', JStr (ef_table_name f)), (''business_definition'', JStr (ef_business_definition f)),
           (''data_owner'', JStr (ef_data_owner f)), (''criticality'', JStr (ef_criticality f))]"

definition CRITICALITY_STYLES :: "(string \<times> string) list" where
  "CRITICALITY_STYLES = [(''high'', ''red''), (''medium'', ''yellow''), (''low'', ''green'')]"

definition criticality_style :: "js \<Rightarrow> js" where
  "criticality_style v = coalesce (lookup_key CRITICALITY_STYLES v) (JStr ''yellow'')"

datatype element_field = FSource | FColumn | FTable | FDefinition | FOwner | FCriticality

fun set_element_field :: "element_field \<Rightarrow> string \<Rightarrow> element_form \<Rightarrow> element_form" where
  "set_element_field FSource t f = f\<lparr>ef_datasource_id := t\<rparr>"
| "set_element_field FColumn t f = f\<lparr>ef_column_name := t\<rparr>"
| "set_element_field FTable t f = f\<lparr>ef_table_name := t\<rparr>"
| "set_element_field FDefinition t f = f\<lparr>ef_business_definition := t\<rparr>"
| "set_element_field FOwner t f = f\<lparr>ef_data_owner := t\<rparr>"
| "set_element_field FCriticality t f = f\<lparr>ef_criticality := t\<rparr>"

text \<open>The modal is there while there is a form; closing it drops the form.\<close>

type_synonym 's element_world = "element_form option \<times> fe_state \<times> 's"

definition element_handleSubmit :: "fe_env \<Rightarrow> 's server \<Rightarrow> element_form \<Rightarrow> fe_state \<times> 's \<Rightarrow> 's element_world" where
  "element_handleSubmit e sv f ws =
     (case mutate e sv useCreateCDE (element_body f) ws of
        (Inl err, ws') \<Rightarrow> (Some f, ws') | (Inr d, ws') \<Rightarrow> (None, observe e sv useCDEs ws'))"

datatype element_event =
  OpenElements | OpenAdd | CloseAdd | SetElementField element_field string | SubmitElement | RemoveElement string

definition element_offered :: "element_field \<Rightarrow> string \<Rightarrow> fe_state \<Rightarrow> bool" where
  "element_offered k t st \<longleftrightarrow>
     (case k of FSource \<Rightarrow> t = [] \<or> listed_source t st
      | FCriticality \<Rightarrow> t \<in> {''low'', ''medium'', ''high''} | _ \<Rightarrow> True)"

fun element_next :: "fe_env \<Rightarrow> 's server \<Rightarrow> element_event \<Rightarrow> 's element_world \<Rightarrow> 's element_world" where
  "element_next e sv OpenElements (p, ws) = (None, observe e sv useCDEs ws)"
| "element_next e sv OpenAdd (p, ws) = (Some (case p of None \<Rightarrow> initial_element | Some f \<Rightarrow> f), ws)"
| "element_next e sv CloseAdd (p, ws) = (None, ws)"
| "element_next e sv (SetElementField k t) (p, st, s) =
     (if element_offered k t st then map_option (set_element_field k t) p else p, st, s)"
| "element_next e sv SubmitElement (p, ws) =
     (case p of
        None \<Rightarrow> (p, ws)
      | Some f \<Rightarrow> (if ef_column_name f = [] \<or> ef_table_name f = [] then (p, ws) else element_handleSubmit e sv f ws))"
| "element_next e sv (RemoveElement i) (p, ws) = (p, observe e sv useCDEs (snd (mutate e sv useDeleteCDE i ws)))"

definition element_stats :: "js \<Rightarrow> (string \<times> nat) list" where
  "element_stats cdes =
     (let xs = elements cdes; of_kind = (\<lambda>k. length (filter (\<lambda>x. is_str (jprop ''criticality'' x) k) xs))
      in [(''Total CDEs'', length xs), (''High Criticality'', of_kind ''high''), (''Medium Criticality'', of_kind ''medium''),
          (''Low Criticality'', of_kind ''low'')])"

definition element_row :: "js \<Rightarrow> cell list" where
  "element_row x =
     (let source = coalesce (jprop ''datasource_name'' x) (jprop ''datasource_id'' x)
      in [Toned (if is_str (jprop ''criticality'' x) ''high'' then ''red'' else ''plain'') (Txt (jprop ''column_name'' x)),
          Txt (jprop ''table_name'' x), if truthy source then Txt source else Dash,
          Status (criticality_style (jprop ''criticality'' x)) (jprop ''criticality'' x),
          or_dash (jprop ''data_owner'' x), or_dash (jprop ''business_definition'' x)])"

definition element_rows :: "js \<Rightarrow> cell list list" where
  "element_rows cdes = map element_row (elements cdes)"

section \<open>The dimensions\<close>

lemma no_columns: "column_count f vs = 0"
  by (simp add: column_count_def sql_def table_columns_def)

lemma no_redundancy: "redundant_count c s = 0"
  by (simp add: redundant_count_def sql_def table_columns_def)

lemma estimated_blind:
  "estimated now c s ! 0 = 0" "estimated now c s ! 4 = (if sources_of c s = [] then 0 else 1)"
  by (simp_all add: estimated_def calcCompletenessScore_def calcUniquenessScore_def no_columns no_redundancy roundScore_def floor_eq_iff)

definition ex_quality_db :: quality_db where
  "ex_quality_db =
     \<lparr>qd_sources =
        [\<lparr>qs_id = ''s1'', qs_tenant = ''t'', qs_name = ''crm'', qs_type = ''postgresql'', qs_status = ''active'', qs_updated = 0\<rparr>,
         \<lparr>qs_id = ''s2'', qs_tenant = ''other'', qs_name = ''payroll'', qs_type = ''mysql'', qs_status = ''active'', qs_updated = 0\<rparr>],
      qd_values =
        [\<lparr>kv_tenant = ''t'', kv_dataset = Some ''s1'', kv_type = ''EMAIL'', kv_value = Some ''a***'', kv_confidence = Some (9 / 10),
          kv_context = Some (JObj [(''column_name'', JStr ''email'')]), kv_sample = Some ''a@b.c'', kv_cells = []\<rparr>],
      qd_scores = [], qd_rot = [], qd_profiles = [], qd_elements = [], qd_logs = []\<rparr>"

definition ex_quality_env :: quality_env where
  "ex_quality_env = \<lparr>qe_time = (\<lambda>t. ''now''), qe_uuid = (\<lambda>t. t \<noteq> []), qe_order = (\<lambda>ks. ks)\<rparr>"

text \<open>
  As long as no dataset has been assessed the page shows estimates, and two of them say nothing: the
  completeness is 0% and the uniqueness 100%, whatever columns were classified and whatever data was
  found to be redundant.
\<close>
theorem quality_dimensions_blind:
  assumes "scores_of c s = []" "d = the (rs_json (getQualitySummary now c s))" "dimScores d = Some ds"
  shows "map_of ds ''Completeness'' = Some (Fin 0)
    \<and> map_of ds ''Uniqueness'' = Some (Fin (if sources_of c s = [] then 0 else 100))"
proof -
  obtain a b e f g where est: "estimated now c s = [a, b, e, f, g]" by (simp add: estimated_def)
  have ag: "a = 0" "g = (if sources_of c s = [] then 0 else 1)"
    using estimated_blind [of now c s] by (simp_all add: est)
  have "map_of ds ''Completeness'' = Some (percent_round (num_rat a))"
    "map_of ds ''Uniqueness'' = Some (percent_round (num_rat g))"
    using assms by (auto simp: getQualitySummary_def summary_scores_def Let_def est answer_def dimScores_def
        shown_dimensions_def dimension_names_def num_rat_def)
  moreover have "math_round (0 :: rat) = 0" "math_round (100 :: rat) = 100" by code_simp+
  ultimately show ?thesis by (simp add: ag percent_round_def num_rat_def)
qed

definition ex_quality_browser :: fe_state where
  "ex_quality_browser =
     ex_browser []\<lparr>fe_cache := [\<lparr>ce_key = q_key useDataSources, ce_data = JArr [JObj [(''id'', JStr ''s1'')]], ce_stale = False\<rparr>]\<rparr>"

definition ex_profile_end :: "quality_db quality_world" where
  "ex_profile_end =
     quality_next (ex_fe_env JNull) (quality_served ex_quality_env (10, 0) ex_advisor_caller 1 ''n'')
       (PressAutoProfile ''s1'') (None, ex_quality_browser, ex_quality_db)"

definition ex_element_form :: element_form where
  "ex_element_form = initial_element\<lparr>ef_column_name := ''salary'', ef_table_name := ''staff'', ef_datasource_id := ''s1''\<rparr>"

definition ex_element_end :: "quality_db element_world" where
  "ex_element_end =
     element_next (ex_fe_env JNull) (quality_served ex_quality_env (10, 0) ex_advisor_caller 1 ''n'')
       SubmitElement (Some ex_element_form, ex_quality_browser, ex_quality_db)"

theorem quality_dimensions_blind_witness:
  "map_of (the (dimScores (the (rs_json (getQualitySummary 0 ex_advisor_caller ex_quality_db))))) ''Completeness'' = Some (Fin 0)
   \<and> map_of (the (dimScores (the (rs_json (getQualitySummary 0 ex_advisor_caller ex_quality_db))))) ''Uniqueness'' = Some (Fin 100)"
proof -
  have "scores_of ex_advisor_caller ex_quality_db = []" "sources_of ex_advisor_caller ex_quality_db \<noteq> []"
    by (simp_all add: scores_of_def sources_of_def ex_quality_db_def ex_advisor_caller_def)
  moreover have "dimScores (the (rs_json (getQualitySummary 0 ex_advisor_caller ex_quality_db))) \<noteq> None"
    by (simp add: dimScores_def getQualitySummary_def answer_def split: prod.split)
  ultimately show ?thesis
    using quality_dimensions_blind [OF _ refl, of ex_advisor_caller ex_quality_db 0] by auto
qed

section \<open>A profile is asked for\<close>

text \<open>After a mutation that succeeds and that marks a query, the query's data is what the server answers next.\<close>

lemma refetched:
  assumes "prefix_filter e" "sv (add_token st (m_request m v)) s = (Inr d0, s1)" "m_settled m = []"
    and "list_all plain_effect (m_success m (m_result m d0) v)" "selects (m_success m (m_result m d0) v) (q_key q)"
    and "q_enabled q" "\<And>st'. sv (add_token st' (q_request q)) s1 = (Inr x, s2)" "q_select q x = Some y"
  shows "\<exists>st1. mutate e sv m v (st, s) = (Inr (m_result m d0), st1, s1)
    \<and> query_data q (fst (observe e sv q (st1, s1))) = y \<and> snd (observe e sv q (st1, s1)) = s2"
proof -
  let ?e = "asking e sv s" and ?fs = "m_success m (m_result m d0) v"
  obtain st0 where send: "api_send ?e (m_request m v) st = (Inr d0, st0)"
    using assms(2) by (simp add: api_send_def Let_def)
  obtain st1 where eff: "run_effects ?e ?fs st0 = (None, st1)"
    using run_effects_plain [OF assms(4), of ?e st0] assms(1) by (metis asking_simps(2) prod.collapse)
  have "mutate e sv m v (st, s) = (Inr (m_result m d0), st1, s1)"
    using send eff assms(2,3) by (simp add: mutate_def run_mutation_def settle_def)
  moreover have "ce_stale c" if "entry (q_key q) st1 = Some c" for c
  proof -
    have "map_option (refresh ?fs) (entry (q_key q) st0) = Some c"
      using that entry_effects [OF assms(4), of ?e "q_key q" st0] assms(1) eff by simp
    then obtain c0 where "c = refresh ?fs c0" "entry (q_key q) st0 = Some c0" by auto
    moreover have "ce_key c0 = q_key q" using calculation(2) unfolding entry_def by (blast dest: find_SomeD)
    ultimately show ?thesis using assms(5) by (simp add: refresh_def)
  qed
  then have "observe e sv q (st1, s1) = (fetch_query (asking e sv s1) q st1, s2)"
    using assms(6,7) by (auto simp: observe_def entry_def split: option.split)
  moreover have "query_data q (fetch_query (asking e sv s1) q st1) = y"
    using entry_fetched [OF assms(6), of sv st1 s1 x y e] assms(7,8) by (simp add: query_data_entry)
  ultimately show ?thesis by auto
qed

lemma quality_token [simp]: "quality_served e lo c now n (add_token st rq) s = quality_served e lo c now n rq s"
  unfolding quality_served_def quality_route_def doc_token_kept add_token_body ..

lemma split_profile:
  "CHR ''/'' \<notin> set i \<Longrightarrow> split_on (CHR ''/'') (''/quality/profile/'' @ i) = ['''', ''quality'', ''profile'', i]"
  by (simp add: split_on_no_sep)

lemma serve_profile:
  "CHR ''/'' \<notin> set i \<Longrightarrow> quality_served e lo c now n (m_request useAutoProfile i) s =
     apfst axios_reply (autoProfileDataSource e now n i c s)"
  "CHR ''/'' \<notin> set i \<Longrightarrow> quality_served e lo c now n (q_request (useDataProfile i)) s =
     (axios_reply (getDataProfile i c s), s)"
  using split_profile [of i]
  by (simp_all add: quality_served_def quality_route_def useAutoProfile_def useDataProfile_def get_query_def new_request_def)

lemma log_profiles [simp]: "qd_profiles (log_unnamed e l a r i now c s) = qd_profiles s"
  by (simp add: log_unnamed_def)

lemma profile_stored: "getDataProfile i c (log_unnamed e l a r j now c (store_profile n i d c s)) = answer 200 d"
proof (cases "find (own_profile i c) (qd_profiles s)")
  case (Some r)
  have "find (own_profile i c) (map (\<lambda>r'. if wp_id r' = wp_id r then r'\<lparr>wp_data := d\<rparr> else r') rs) =
      map_option (\<lambda>r'. if wp_id r' = wp_id r then r'\<lparr>wp_data := d\<rparr> else r') (find (own_profile i c) rs)" for rs
    by (induction rs) (auto simp: own_profile_def)
  with Some show ?thesis by (simp add: getDataProfile_def store_profile_def)
qed (simp add: getDataProfile_def store_profile_def own_profile_def)

lemma profile_selected:
  "list_all plain_effect (m_success useAutoProfile d i)" "m_settled useAutoProfile = []" "m_result useAutoProfile d = d"
  "selects (m_success useAutoProfile d i) (q_key (useDataProfile i))" "q_enabled (useDataProfile i) \<longleftrightarrow> i \<noteq> []"
  "q_select (useDataProfile i) = Some"
  by (simp_all add: useAutoProfile_def useDataProfile_def get_query_def selects_def)

lemma profiled:
  assumes "prefix_filter fe" "i \<noteq> []" "CHR ''/'' \<notin> set i" "find (\<lambda>d. qs_id d = i) (sources_of c s) = Some d"
  shows "query_data (useDataProfile i) (fst (profile_again fe (quality_served e lo c now n) i (st, s))) =
    profile_json e now d (in_map_order e (profiled_columns i c s))"
  unfolding profile_again_def
  using refetched [where m = useAutoProfile and q = "useDataProfile i" and v = i
      and sv = "quality_served e lo c now n" and s = s and st = st, OF assms(1) _ profile_selected(2)]
  using assms(2-4)
  by (simp add: serve_profile profile_selected autoProfileDataSource_def profile_stored Let_def) (metis fst_conv snd_conv)

definition figures_guessed :: "column_profile \<Rightarrow> bool" where
  "figures_guessed p \<longleftrightarrow>
     kp_null_rate p = estimateNullRate (kp_column p) \<and> kp_distinct p = estimateDistinctCount (kp_column p)"

lemma sampled_kept [simp]:
  "kp_column (sampled v p) = kp_column p" "kp_null_rate (sampled v p) = kp_null_rate p"
  "kp_distinct (sampled v p) = kp_distinct p"
  by (simp_all add: sampled_def split: option.split)

lemma profile_value_guessed: "list_all figures_guessed ps \<Longrightarrow> list_all figures_guessed (profile_value v ps)"
  by (induction v ps rule: profile_value.induct) (simp_all add: figures_guessed_def fresh_profile_def Let_def)

lemma fold_guessed: "list_all figures_guessed ps \<Longrightarrow> list_all figures_guessed (fold profile_value vs ps)"
  by (induction vs arbitrary: ps) (simp_all add: profile_value_guessed)

lemma profile_value_some: "profile_value v ps \<noteq> []"
  by (induction v ps rule: profile_value.induct) simp_all

lemma fold_profile_some: "fold profile_value vs ps = [] \<longleftrightarrow> vs = [] \<and> ps = []"
  by (induction vs arbitrary: ps) (simp_all add: profile_value_some)

text \<open>Each column that was named is profiled once.\<close>

lemma profile_value_columns:
  "kp_column ` set (profile_value v ps) = insert (column_of v) (kp_column ` set ps)"
  "distinct (map kp_column ps) \<Longrightarrow> distinct (map kp_column (profile_value v ps))"
proof (induction v ps rule: profile_value.induct)
  case (2 v p ps)
  { case 1 then show ?case using "2.IH"(1) by auto }
  { case 2 then show ?case using "2.IH" by auto }
qed (simp_all add: fresh_profile_def Let_def)

lemma fold_profile_columns:
  "kp_column ` set (fold profile_value vs ps) = column_of ` set vs \<union> kp_column ` set ps"
  "distinct (map kp_column ps) \<Longrightarrow> distinct (map kp_column (fold profile_value vs ps))"
  by (induction vs arbitrary: ps) (simp_all add: profile_value_columns)

lemma profiled_columns_distinct: "distinct (map kp_column (profiled_columns i c s))"
proof -
  have "distinct (map kp_column generateSyntheticProfile)" by code_simp
  then show ?thesis using fold_profile_columns(2) [of "[]"] by (simp add: profiled_columns_def Let_def)
qed

text \<open>A map gives all of its entries, in the order of its keys.\<close>

lemma in_map_order_all:
  assumes "\<And>ks. mset (qe_order e ks) = mset ks" and "distinct (map kp_column ps)"
  shows "mset (in_map_order e ps) = mset ps" "map kp_column (in_map_order e ps) = qe_order e (map kp_column ps)"
proof -
  let ?f = "\<lambda>k. find (\<lambda>p. kp_column p = k) ps" and ?ks = "qe_order e (map kp_column ps)"
  have found: "?f (kp_column p) = Some p" if "p \<in> set ps" for p
    using assms(2) that by (induction ps) (auto simp: image_iff)
  have keys: "set ?ks = kp_column ` set ps" using assms(1) by (metis list.set_map set_mset_mset)
  then have all: "\<forall>k\<in>set ?ks. ?f k \<noteq> None" using found by auto
  have "List.map_filter ?f ks = map (the \<circ> ?f) ks" if "\<forall>k\<in>set ks. ?f k \<noteq> None" for ks
    using that by (induction ks) (simp_all add: map_filter_simps split: option.split)
  from this [OF all] have order: "in_map_order e ps = map (the \<circ> ?f) ?ks" by (simp add: in_map_order_def)
  have "mset (in_map_order e ps) = image_mset (the \<circ> ?f) (mset (map kp_column ps))"
    unfolding order using assms(1) by simp
  also have "\<dots> = mset (map (\<lambda>p. the (?f (kp_column p))) ps)" by (simp add: multiset.map_comp comp_def)
  also have "map (\<lambda>p. the (?f (kp_column p))) ps = ps" using found by (simp add: map_idI)
  finally show "mset (in_map_order e ps) = mset ps" .
  show "map kp_column (in_map_order e ps) = ?ks"
    unfolding order using keys found by (force intro!: map_idI)
qed

definition guessed_row :: "string \<Rightarrow> cell list \<Rightarrow> bool" where
  "guessed_row name row \<longleftrightarrow>
     row ! 0 \<in> {Toned ''yellow'' (Txt (JStr name)), Toned ''plain'' (Txt (JStr name))}
     \<and> row ! 2 = text_of (num_fixed 1 (Fin (estimateNullRate name)) @ ''%'')
     \<and> row ! 3 = Grouped (count_json (estimateDistinctCount name))"

lemma guessed_cells: "figures_guessed p \<Longrightarrow> guessed_row (kp_column p) (profile_row_cells (column_json p))"
  by (simp add: guessed_row_def profile_row_cells_def column_json_def figures_guessed_def num_rat_def Let_def)

text \<open>
  C37. Profiling a source never reads the source. After the button is pressed, with whatever the page and
  the server held before, the table has one row for each column named by the values of the source that
  were classified and read, and its null rate and its number of distinct values are functions of the
  column's name. A source without such values is shown with the three columns that the server invents.
  (The order of the rows is that of a map of Go, which is any.)
\<close>
theorem profile_never_reads:
  assumes "prefix_filter fe" "i \<noteq> []" "CHR ''/'' \<notin> set i" "listed_source i st"
    and "find (\<lambda>d. qs_id d = i) (sources_of c s) = Some d"
    and "\<And>ks. mset (qe_order e ks) = mset ks"
    and "quality_next fe (quality_served e lo c now n) (PressAutoProfile i) (p, st, s) = (p', st', s')"
  shows "\<exists>rows. p' = Some i \<and> profile_table (query_data (useDataProfile i) st') = Some rows
    \<and> (if profiled_values i c s = []
       then mset rows = mset
         [[Toned ''plain'' (Txt (JStr ''id'')), Txt (JStr ''identifier''), text_of (num_fixed 1 (Fin 0) @ ''%''),
           Grouped (count_json 10000), Seq [Txt (JStr ''uuid-1234''), Txt (JStr ''uuid-5678'')], Dash],
          [Toned ''plain'' (Txt (JStr ''created_at'')), Txt (JStr ''timestamp''), text_of (num_fixed 1 (Fin 0) @ ''%''),
           Grouped (count_json 9876), Seq [Txt (JStr ''2024-01-15T10:30:00Z'')], Dash],
          [Toned ''plain'' (Txt (JStr ''updated_at'')), Txt (JStr ''timestamp''), text_of (num_fixed 1 (Fin 2) @ ''%''),
           Grouped (count_json 9800), Seq [Txt (JStr ''2024-06-01T14:22:00Z'')], Dash]]
       else \<exists>names. distinct names \<and> set names = column_of ` set (profiled_values i c s)
         \<and> list_all2 guessed_row names rows)"
proof -
  let ?cols = "profiled_columns i c s"
  let ?ps = "in_map_order e ?cols" and ?row = "profile_row_cells \<circ> column_json"
  have p: "p' = Some i" and "(st', s') = profile_again fe (quality_served e lo c now n) i (st, s)"
    using assms(4,7) by auto
  then have q: "query_data (useDataProfile i) st' = profile_json e now d ?ps"
    using profiled [OF assms(1-3,5), of e lo now n st] by (metis fst_conv)
  have rows: "profile_table (query_data (useDataProfile i) st') = Some (map ?row ?ps)"
    by (simp add: q profile_table_def profile_json_def)
  note order = in_map_order_all [of e, OF assms(6) profiled_columns_distinct [of i c s]]
  show ?thesis
  proof (cases "profiled_values i c s = []")
    case True
    then have "?cols = generateSyntheticProfile" by (simp add: profiled_columns_def)
    with order(1) have "mset (map ?row ?ps) = mset (map ?row generateSyntheticProfile)"
      by (metis mset_map)
    then show ?thesis
      using True p rows
      by (simp add: generateSyntheticProfile_def profile_row_cells_def column_json_def num_rat_def Let_def)
  next
    case False
    then have cols: "?cols = fold profile_value (profiled_values i c s) []"
      by (simp add: profiled_columns_def fold_profile_some Let_def)
    have "list_all figures_guessed ?cols" unfolding cols by (rule fold_guessed) simp
    then have "list_all figures_guessed ?ps"
      using order(1) by (metis list.pred_set set_mset_mset)
    then have "list_all2 guessed_row (map kp_column ?ps) (map ?row ?ps)"
      using guessed_cells by (simp add: list_all2_conv_all_nth list_all_length)
    moreover have "distinct (map kp_column ?ps)"
      using order profiled_columns_distinct [of i c s] by (metis mset_eq_imp_distinct_iff mset_map)
    moreover have "set (map kp_column ?ps) = column_of ` set (profiled_values i c s)"
      using order(1) fold_profile_columns(1) [of "profiled_values i c s" "[]"] cols
      by (metis list.set_map set_mset_mset Un_empty_right image_empty list.set(1))
    ultimately show ?thesis using False p rows by auto
  qed
qed

theorem profile_never_reads_witness:
  "\<exists>row. profile_table (query_data (useDataProfile ''s1'') (fst (snd ex_profile_end))) = Some [row]
     \<and> guessed_row ''email'' row"
proof -
  obtain p' st' s' where r: "quality_next (ex_fe_env JNull) (quality_served ex_quality_env (10, 0) ex_advisor_caller 1 ''n'')
      (PressAutoProfile ''s1'') (None, ex_quality_browser, ex_quality_db) = (p', st', s')"
    by (metis prod_cases3)
  have listed: "listed_source ''s1'' ex_quality_browser"
    by (simp add: listed_source_def ex_quality_browser_def query_data_def)
  have found: "find (\<lambda>d. qs_id d = ''s1'') (sources_of ex_advisor_caller ex_quality_db) = Some (hd (qd_sources ex_quality_db))"
    by (simp add: sources_of_def ex_quality_db_def ex_advisor_caller_def)
  have vals: "profiled_values ''s1'' ex_advisor_caller ex_quality_db = qd_values ex_quality_db"
    "qd_values ex_quality_db \<noteq> []" "column_of ` set (qd_values ex_quality_db) = {''email''}"
    by (simp_all add: profiled_values_def value_scans_def values_of_def ex_quality_db_def ex_advisor_caller_def column_of_def)
  have perm: "\<And>ks. mset (qe_order ex_quality_env ks) = mset ks" by (simp add: ex_quality_env_def)
  obtain rows names where t: "profile_table (query_data (useDataProfile ''s1'') st') = Some rows"
    "distinct names" "set names = {''email''}" "list_all2 guessed_row names rows"
    using profile_never_reads [OF ex_prefix _ _ listed found perm r] vals by auto
  from t(2,3) have "names = [''email'']"
    by (metis distinct_length_2_or_more distinct_singleton list.set_intros(1) list.set_intros(2) neq_Nil_conv set_empty singletonD insert_not_empty)
  with t(1,4) r show ?thesis by (auto simp: ex_profile_end_def list_all2_Cons1)
qed

section \<open>An element is designated\<close>

definition element_cells :: "element_form \<Rightarrow> js \<Rightarrow> cell list" where
  "element_cells f source =
     [Toned (if ef_criticality f = ''high'' then ''red'' else ''plain'') (Txt (JStr (ef_column_name f))),
      Txt (JStr (ef_table_name f)), if truthy source then Txt source else Dash,
      Status (criticality_style (JStr (ef_criticality f))) (JStr (ef_criticality f)),
      or_dash (JStr (ef_data_owner f)), or_dash (JStr (ef_business_definition f))]"

definition source_shown :: "string \<Rightarrow> quality_db \<Rightarrow> js" where
  "source_shown i s =
     (case find (\<lambda>d. qs_id d = i) (qd_sources s) of None \<Rightarrow> JStr i | Some d \<Rightarrow> JStr (qs_name d))"

lemma log_others [simp]:
  "qd_elements (log_unnamed e l a r i now c s) = qd_elements s" "qd_sources (log_unnamed e l a r i now c s) = qd_sources s"
  by (simp_all add: log_unnamed_def)

lemma serve_elements:
  "quality_served e lo c now n (m_request useCreateCDE v) s = apfst axios_reply (createCDE e now n v c s)"
  "quality_served e lo c now n (q_request useCDEs) s = (axios_reply (listCDEs e lo c s), s)"
  by (simp_all add: quality_served_def quality_route_def useCreateCDE_def useCDEs_def get_query_def new_request_def)

lemma create_selected:
  "list_all plain_effect (m_success useCreateCDE d v)" "m_settled useCreateCDE = []" "m_result useCreateCDE d = d"
  "selects (m_success useCreateCDE d v) (q_key useCDEs)" "q_enabled useCDEs" "q_select useCDEs = or_empty"
  by (simp_all add: useCreateCDE_def useCDEs_def get_query_def selects_def)

lemma body_of_form:
  "body_texts [''datasource_id'', ''column_name'', ''table_name'', ''business_definition'', ''data_owner'', ''criticality'']
     (element_body f) =
   Some [ef_datasource_id f, ef_column_name f, ef_table_name f, ef_business_definition f, ef_data_owner f, ef_criticality f]"
  by (simp add: body_texts_def element_body_def go_struct_def)

definition element_of :: "string \<Rightarrow> int \<Rightarrow> caller \<Rightarrow> element_form \<Rightarrow> critical_element" where
  "element_of n now c f =
     \<lparr>el_id = n, el_tenant = ca_tenant c, el_source = (if ef_datasource_id f = [] then None else Some (ef_datasource_id f)),
      el_column = ef_column_name f, el_table = ef_table_name f, el_definition = ef_business_definition f,
      el_owner = ef_data_owner f, el_criticality = ef_criticality f, el_created = now\<rparr>"

lemma create_answered:
  assumes "ef_column_name f \<noteq> []" "ef_table_name f \<noteq> []" "ef_criticality f \<noteq> []"
    and "ef_datasource_id f = [] \<or> qe_uuid e (ef_datasource_id f)"
  shows "\<exists>d s1. createCDE e now n (element_body f) c s = (answer 201 d, s1)
    \<and> qd_elements s1 = element_of n now c f # qd_elements s \<and> qd_sources s1 = qd_sources s"
  using assms by (auto simp: createCDE_def body_of_form element_of_def Let_def)

lemma shown_element:
  assumes "ef_datasource_id f = [] \<longrightarrow> find (\<lambda>d. qs_id d = []) (qd_sources s) = None"
  shows "element_row (element_json e s (element_of n now c f)) = element_cells f (source_shown (ef_datasource_id f) s)"
  using assms
  by (auto simp: element_row_def element_cells_def element_json_def element_fields_def element_of_def element_source_def
      source_shown_def deref_text_def coalesce_def split: option.split)

text \<open>
  C38. A form whose required fields are filled becomes the first row of the table, with each of its fields
  as it was filled in, and the form is gone; the source is shown by the name it has in the table of
  sources, where the server looks it up by its id alone.
\<close>
theorem cde_stored_as_filled:
  assumes "prefix_filter fe" "ef_column_name f \<noteq> []" "ef_table_name f \<noteq> []" "ef_criticality f \<noteq> []" "m > 0"
    and "ef_datasource_id f = [] \<or> qe_uuid e (ef_datasource_id f)"
    and "find (\<lambda>d. qs_id d = []) (qd_sources s) = None"
    and "element_next fe (quality_served e (m, 0) c now n) SubmitElement (Some f, st, s) = (p', st', s')"
  shows "p' = None
    \<and> (\<exists>rest. element_rows (query_data useCDEs st') = element_cells f (source_shown (ef_datasource_id f) s) # rest)"
proof -
  let ?sv = "quality_served e (m, 0) c now n"
  obtain d s1 where c1: "createCDE e now n (element_body f) c s = (answer 201 d, s1)"
    "qd_elements s1 = element_of n now c f # qd_elements s" "qd_sources s1 = qd_sources s"
    using create_answered [OF assms(2-4,6)] by blast
  obtain xs where l: "listCDEs e (m, 0) c s1 = answer 200 (JArr (element_json e s1 (element_of n now c f) # xs))"
    using assms(5) c1(2) by (cases m) (auto simp: listCDEs_def page_of_def element_of_def)
  have sent: "?sv (add_token st (m_request useCreateCDE (element_body f))) s = (Inr d, s1)"
    by (simp add: serve_elements c1)
  obtain st1 where m: "mutate fe ?sv useCreateCDE (element_body f) (st, s) = (Inr d, st1, s1)"
    and q: "query_data useCDEs (fst (observe fe ?sv useCDEs (st1, s1))) =
      JArr (element_json e s1 (element_of n now c f) # xs)"
    using refetched [where m = useCreateCDE and v = "element_body f" and sv = ?sv, OF assms(1) sent create_selected(2), of useCDEs
        "JArr (element_json e s1 (element_of n now c f) # xs)" s1 "JArr (element_json e s1 (element_of n now c f) # xs)"]
    by (auto simp: create_selected serve_elements l or_empty_def coalesce_def)
  have "p' = None" "(st', s') = observe fe ?sv useCDEs (st1, s1)"
    using assms(2,3,8) m by (auto simp: element_handleSubmit_def)
  moreover have "source_shown i s1 = source_shown i s" for i by (simp add: source_shown_def c1(3))
  ultimately show ?thesis
    using q shown_element [of f s1 e n now c] assms(7) c1(3) by (metis element_rows_def elements.simps(1) fst_conv list.simps(9))
qed

theorem cde_stored_as_filled_witness:
  "\<exists>rest. element_rows (query_data useCDEs (fst (snd ex_element_end))) =
     element_cells ex_element_form (JStr ''crm'') # rest"
proof -
  obtain p' st' s' where r: "element_next (ex_fe_env JNull) (quality_served ex_quality_env (10, 0) ex_advisor_caller 1 ''n'')
      SubmitElement (Some ex_element_form, ex_quality_browser, ex_quality_db) = (p', st', s')"
    by (metis prod_cases3)
  have "source_shown ''s1'' ex_quality_db = JStr ''crm''"
    by (simp add: source_shown_def ex_quality_db_def)
  then show ?thesis
    using cde_stored_as_filled [OF ex_prefix _ _ _ _ _ _ r] r
    by (simp add: ex_element_end_def ex_element_form_def initial_element_def ex_quality_env_def ex_quality_db_def)
qed

end
