(* ===== verification/Spec2Isabelle.thy ===== *)
theory Spec2Isabelle
  imports SdkRetriever FeCache FeRot FeResidency FeClassify FeDpia FeJobs FeSources FeEndpoints FeReports FeGovern FeSso FeShell FeUsers FeConsent FeIntegrations
    FeDocuments FeDsar FeDashboard FeQuality
begin

text \<open>
  \<^bold>\<open>Verification of TrustVault's TypeScript code.\<close>

  TrustVault (in the code also SecureLens) governs what reaches a language model: a server
  classifies text, applies policies to queries and keeps an audit trail. The repository's
  TypeScript is its SDK for Node (\<open>sdk/node/src\<close>), which puts the server's gate in front of an
  application, and its web front end (\<open>trust-vault-frontend\<close>). Both are modelled here. Of the Go services behind them,
  the handlers that the modelled pages call are modelled with them; the rest is the unknown other side
  of a network.

  \<^bold>\<open>The language.\<close> \<open>JsPrelude\<close> holds the part of JavaScript the code uses: numbers with NaN and the
  infinities, dynamic values with truthiness, \<open>??\<close> and property reads, strings of code units below
  256, dictionaries in insertion order (locale \<open>ordered_dict\<close>), and asynchronous computations that
  return, throw, or never settle. A finite number is a rational, since nothing rests on rounding.

  \<^bold>\<open>The SDK.\<close>
  \<^item> \<open>SdkTypes\<close> (\<open>types.ts\<close>): every interface as a shape; \<open>conforms\<close> says that a value has it. The code
    never checks a response, so shapes are hypotheses about a well-behaved server.
  \<^item> \<open>SdkErrors\<close> (\<open>errors.ts\<close>): the error classes, \<open>toJSON\<close>, the translation of an error response
    and the decision to retry; the two are inverse to one another.
  \<^item> \<open>SdkAuth\<close> (\<open>auth.ts\<close>): which keys are accepted, the headers they give, what a mask reveals.
  \<^item> \<open>SdkWorld\<close>, \<open>SdkClient\<close>, \<open>SdkRetry\<close>, \<open>SdkRequest\<close> (\<open>client.ts\<close>): a world with a clock, a count of
    calls and a log; the client's request as a loop of attempts with a timeout and a doubling
    delay. \<open>request_loop\<close> is a partial function, since an attempt may hang: that it returns, with
    the time it takes, and that it does not when a body never ends, are theorems. \<open>moves\<close> reads from the
    log in which order a request fetches and sleeps. The contract of an
    API call, which everything above the client rests on, is the locale \<open>api_call\<close>.
  \<^item> \<open>SdkGate\<close>, \<open>SdkStream\<close> (\<open>gate.ts\<close>): validation and normalisation of requests, the calls, the query
    string of an audit (decoded by a reference parser: each option that is set arrives under its name), the reader of a streamed answer.
  \<^item> \<open>SdkExpress\<close> (\<open>express.ts\<close>): the middleware and the route handler. A query the gate
    has not allowed never reaches the route, and a request without one is passed on unasked; a call of
    the route handler that settles has answered once; errors fail closed.
  \<^item> \<open>SdkLangChain\<close>, \<open>SdkHandler\<close> (\<open>langchain.ts\<close>): the callback handler, each of its methods cut at its
    one \<open>await\<close>, over a heap of run contexts shared by reference. \<open>callback_step\<close> interleaves them
    freely; \<open>runs_ok\<close> is the invariant of all interleavings (no run of a denied query). Errors and throwing callbacks fail open.
  \<^item> \<open>SdkRetriever\<close> (\<open>langchain.ts\<close>): the retriever that labels and filters documents, against the
    linear order of the type \<open>sensitivity\<close>.

  \<^bold>\<open>The front end.\<close>
  \<^item> \<open>FeApi\<close> (\<open>lib/api.ts\<close>, \<open>store/auth.ts\<close>): cookies, auth store, notifications, navigation, and the API
    client with its interceptors.
  \<^item> \<open>FeSession\<close> (\<open>app/(auth)/login\<close>, \<open>app/(auth)/auth/sso-callback\<close>, \<open>app/(app)/layout.tsx\<close>,
    \<open>app/page.tsx\<close>): how a session begins, is restored and is guarded.
  \<^item> \<open>FeQuery\<close>: queries and mutations and their run, with the contract between a mutation and the
    cached queries of its resource as the locale \<open>resource_mutation\<close>.
  \<^item> \<open>FeHooksCore\<close>, \<open>FeHooksGov\<close> (\<open>hooks/*.ts\<close>): every hook of the front end as a value.
  \<^item> \<open>FeCache\<close>: all of them together: what a mutation refreshes and what it leaves stale, keys that
    select nothing, shared entries, logging out.

  \<^bold>\<open>Its pages\<close> (\<open>app/(app)\<close>), as what they show and what they send; a piece of markup is a \<open>node\<close>.
  \<^item> \<open>JsLib\<close>: the library the pages use: comparison of values, the stable sort with its contract (locale
    \<open>comparison\<close>), parsing of numbers, operations on text. Formats of the platform that depend on
    its locale are the parameters \<open>conversions\<close> and \<open>page_env\<close>.
  \<^item> \<open>FeTable\<close> (\<open>components/base\<close>): the sortable table, for which texts and numbers satisfy
    \<open>comparison\<close>; badges and cards. \<open>FeTables\<close>: the columns of the tables of eighteen pages.
  \<^item> \<open>FePages\<close>: requests made outside the API client, notifications, selections.
  \<^item> \<open>FeRemediation\<close> (\<open>remediation\<close>), \<open>FeRot\<close> (\<open>rot\<close>): actions and the warning before each, the scan
    for redundant data as events of the page, its stream and its requests.
  \<^item> \<open>FeResidency\<close> (\<open>data-map/residency\<close>): the cards of the regions, from answers that may be missing.
  \<^item> \<open>FeScan\<close> (\<open>data-sources/[id]\<close>): a scan seen by polling; the card of its log, a state machine over
    renderings and events whose streams are numbered (\<open>card_reachable\<close>).
  \<^item> \<open>FeClassify\<close> (\<open>classification/[id]\<close>): the card that follows a classification: effects run when
    what they depend on has changed, timers and streams are part of the state.
  \<^item> \<open>FeDpia\<close> (\<open>privacy/dpia\<close>, and the handlers it calls in \<open>internal/api/dpia_cde_profiling.go\<close>): the
    impact assessment, page and server together. \<open>dpia_runs\<close> are the histories of the server that
    presses of the page's buttons make, each on data as old as one likes; \<open>dpia_inv\<close> is their invariant.
  \<^item> \<open>GoLib\<close>: how the server's handlers read JSON. \<open>FeGovern\<close> (\<open>governance\<close>, and
    \<open>internal/api/policy.go\<close>, \<open>gate.go\<close>): policies as they are created, edited, evaluated and asked by
    the gate, page and server together; the text of a redaction against a reference.
  \<^item> \<open>FeSso\<close> (\<open>settings/sso\<close>, and \<open>internal/api/sso.go\<close>, \<open>sso_saml.go\<close>, \<open>sso_oidc.go\<close>): identity
    providers as they are stored and edited, and the login by SAML over the same database.
  \<^item> \<open>GoAuth\<close> (\<open>internal/api/auth.go\<close>, the middleware of \<open>server.go\<close>): login, API keys, users and
    invitations, and what a request passes before its handler (\<open>serve\<close>); the statements over API keys run
    against the columns of the migration (\<open>api_keys_columns\<close>), which lacks one they name; \<open>auth_run\<close> are
    the histories of requests. \<open>FeUsers\<close>: the pages of users, of registration and of API keys.
  \<^item> \<open>FeConsent\<close> (\<open>privacy/consent\<close>, and the handlers of consent in \<open>quality_privacy.go\<close>,
    \<open>dpia_cde_profiling.go\<close> and \<open>residency.go\<close>): forms, preferences and widget, page and server together.
  \<^item> \<open>GoIntegrations\<close> (\<open>internal/api/rot_integrations.go\<close>): integrations as they are stored, and the test of
    a connection with the requests it sends. \<open>FeIntegrations\<close> (\<open>integrations/new\<close>, \<open>integrations/[id]\<close>): the
    form and the page over it, with the query that loads the integration again.
  \<^item> \<open>FeDocuments\<close> (\<open>documents\<close>, and \<open>classifyDocument\<close>): pasted text from the page through the server to
    its row; uploads and their polls against any server with a state of its own.
  \<^item> \<open>GoDsar\<close> (\<open>internal/api/quality_privacy.go\<close>): requests of data subjects, and the search that executes
    one, with \<open>ILIKE\<close> as a parameter. \<open>FeDsar\<close> (\<open>privacy/dsar\<close>): the two pages over it; \<open>dsar_run\<close> are their
    histories, \<open>untouched\<close> what all of them keep.
  \<^item> \<open>GoAdvisor\<close> (\<open>internal/domain/advisor.go\<close>, and the handlers of \<open>remediation_reports.go\<close>): the rules,
    assessments, gaps, scores and dockets; \<open>sql\<close> is a query that fails when its table lacks a column.
    \<open>FeAdvisor\<close> (\<open>advisor\<close>): the four pages, and assessments as they are run, end in the background and
    are looked for. \<open>FeDashboard\<close> (\<open>dashboard\<close>): what the dashboard makes of the same answers.
  \<^item> \<open>GoQuality\<close> (\<open>quality_privacy.go\<close>, \<open>dpia_cde_profiling.go\<close>): the summary of quality, profiles and
    critical elements. \<open>FeQuality\<close> (\<open>quality\<close>, \<open>quality/cde\<close>): the pages over them; \<open>refetched\<close> is what a
    page shows after a mutation of what it shows.
  \<^item> \<open>FeShell\<close> (\<open>store/theme.ts\<close>, \<open>store/ui.ts\<close>, \<open>components/layout\<close>): the theme against the document and
    the system, the sidebar and the items it highlights.
  \<^item> \<open>FeJobs\<close>, \<open>FeSources\<close>, \<open>FeEndpoints\<close> (\<open>jobs\<close>, \<open>data-sources/new\<close>, \<open>endpoints\<close>): forms and what they
    send; the endpoints page as calls that wait for their answers (\<open>ep_step\<close>).
  \<^item> \<open>FeReports\<close> (\<open>audit/reports\<close>, and \<open>internal/api/remediation_reports.go\<close>): the regulations as the
    server counts them and as the viewer shows them.

  \<^bold>\<open>Parameters.\<close> The network, generated ids, \<open>JSON.parse\<close>, \<open>atob\<close>, \<open>js-cookie\<close>, Express's \<open>next\<close>, the
  wrapped retriever and the callbacks of the user are arguments; theorems hold for all of them. What
  is used of code outside the repository is documented behaviour, stated as a hypothesis:
  \<open>prefix_filter\<close>, how \<open>react-query\<close> selects the cached keys to invalidate; \<open>ilike_documented\<close>, how
  PostgreSQL matches a pattern; that Go lists each key of a map once, in any order.

  \<^bold>\<open>Not modelled.\<close> Styles, layout and icons; the pages that only arrange the data of a hook; the
  schemas of \<open>zod\<close>; concurrency of two requests of one client, which share no state; the text
  decoder of the stream, whose reads are taken as decoded text; the Go services other than the
  handlers named above (of accounts: roles and rate limits; of sign-on: OIDC; of documents: the
  extraction of text from files). Interfaces of the front end's data have no behaviour and are left out.

  \<^bold>\<open>Databases.\<close> A table is a list, newest row first where the code sorts so. A statement that names a
  column its table lacks fails; a row that does not fit its columns is refused where the handlers can
  be given one (\<open>row_fits\<close>, \<open>policy_fits\<close>, \<open>dsar_fits\<close>); the reading of rows ends at one that does not
  scan where columns can be \<open>NULL\<close> (\<open>value_scans\<close>, \<open>log_scans\<close>). Failures of the connection are left out.

  \<^bold>\<open>What is left.\<close> The header and details of a data source, label rules and the profile page; the login
  by OIDC, roles and rate limits; the extraction of text from files. They are listed in the manifest
  as not or partly modelled.
\<close>

section \<open>Properties across components\<close>

text \<open>
  The two integrations differ on a failing gate: the Express middleware never calls the route, the
  LangChain handler lets the chain go on.
\<close>

lemma integrations_differ_on_failure:
  assumes fails: "gate_intercept e c (intercept_call query JUndef JUndef) w = Some (Inl t, w1)"
    and "truthy query" and "\<not> is_policy_error t"
    and opts: "mo_skip opts = None" "mo_interceptRequests opts" "mo_getUserContext opts = None"
      "mo_policies opts = JUndef" "opt_default defaultGetQuery (mo_getQuery opts) rq = Inr query"
    and lopts: "lo_policies lo = JUndef" "lo_userContext lo = JUndef" "extractQuery inputs = query"
  shows "secureLensMiddleware e c opts rq nxt \<lparr>x_world = w, x_secureLens = None, x_wrapped = False\<rparr> =
           secureLensMiddleware e c opts rq nxt' \<lparr>x_world = w, x_secureLens = None, x_wrapped = False\<rparr>"
    and "\<exists>s'. handle e c lo (ChainStart inputs k parent) (initial_state w) = Some (Inr (), s')"
proof -
  show "secureLensMiddleware e c opts rq nxt \<lparr>x_world = w, x_secureLens = None, x_wrapped = False\<rparr> =
      secureLensMiddleware e c opts rq nxt' \<lparr>x_world = w, x_secureLens = None, x_wrapped = False\<rparr>"
    using fails assms(2) opts
    by (simp add: secureLensMiddleware_def then_io_def bind_io_def modify_io_def catch_io_def
        user_context_def ret_def set_secure_lens_run intercept_phase_def lift_sum_def lift_sdk_def
        empty_secure_lens_def)
  show "\<exists>s'. handle e c lo (ChainStart inputs k parent) (initial_state w) = Some (Inr (), s')"
    using handle_chain_start [of inputs e c lo "initial_state w" "Inl t" w1 k parent]
      fails assms(2,3) lopts
    by (simp add: resume_run initial_state_def)
qed

end
